(* ===== verification/Prelude.thy ===== *)
theory Prelude
  imports Main "HOL-Library.Char_ord"
begin

text \<open>
  Shared vocabulary of the development: the operations of the Go standard library that the
  operator's code calls on strings and integers (packages \<open>strings\<close> and \<open>strconv\<close>), and the
  collections of hints that the component theories extend.  Strings are Go strings of ASCII bytes.
\<close>

named_theorems go_defs \<open>definitions of small operations that proofs unfold\<close>
named_theorems frame \<open>what an operation leaves unchanged\<close>

subsection \<open>strings\<close>

definition has_prefix :: "string \<Rightarrow> string \<Rightarrow> bool" where
  "has_prefix s p \<longleftrightarrow> take (length p) s = p"

definition has_suffix :: "string \<Rightarrow> string \<Rightarrow> bool" where
  "has_suffix s p \<longleftrightarrow> length p \<le> length s \<and> drop (length s - length p) s = p"

fun str_contains :: "string \<Rightarrow> string \<Rightarrow> bool" where
  "str_contains [] p \<longleftrightarrow> p = []"
| "str_contains (c # s) p \<longleftrightarrow> has_prefix (c # s) p \<or> str_contains s p"

text \<open>\<open>strings.Split\<close> for a separator of one character.\<close>

fun split_on :: "char \<Rightarrow> string \<Rightarrow> string list" where
  "split_on c [] = [[]]"
| "split_on c (x # xs) =
     (if x = c then [] # split_on c xs
      else (case split_on c xs of [] \<Rightarrow> [[x]] | y # ys \<Rightarrow> (x # y) # ys))"

fun join_with :: "string \<Rightarrow> string list \<Rightarrow> string" where
  "join_with sep [] = []"
| "join_with sep [x] = x"
| "join_with sep (x # y # zs) = x @ sep @ join_with sep (y # zs)"

text \<open>\<open>strings.ReplaceAll(s, p # ps, "")\<close>: non-overlapping matches, left to right.\<close>

fun delete_all :: "char \<Rightarrow> string \<Rightarrow> string \<Rightarrow> string" where
  "delete_all p ps [] = []"
| "delete_all p ps (c # s) =
     (if has_prefix (c # s) (p # ps) then delete_all p ps (drop (length ps) s)
      else c # delete_all p ps s)"

definition lower_char :: "char \<Rightarrow> char" where
  "lower_char c = (let n = (of_char c :: nat) in if 65 \<le> n \<and> n \<le> 90 then char_of (n + 32) else c)"

definition to_lower :: "string \<Rightarrow> string" where
  "to_lower s = map lower_char s"

lemma split_on_nonempty [simp]: "split_on c s \<noteq> []"
  by (induction s) (auto split: list.splits)

lemma split_on_no_sep: "c \<notin> set s \<Longrightarrow> split_on c s = [s]"
  by (induction s) auto

lemma split_on_append: "c \<notin> set s \<Longrightarrow> split_on c (s @ c # t) = s # split_on c t"
  by (induction s) auto

lemma join_split: "join_with [c] (split_on c s) = s"
proof (induction s)
  case Nil
  show ?case by simp
next
  case (Cons x s)
  then show ?case by (cases "split_on c s" rule: remdups_adj.cases) auto
qed

lemma has_prefix_append [simp]: "has_prefix (p @ s) p"
  by (simp add: has_prefix_def)

lemma has_prefix_iff: "has_prefix s p \<longleftrightarrow> (\<exists>t. s = p @ t)"
proof
  assume "has_prefix s p"
  then have "s = p @ drop (length p) s" by (metis append_take_drop_id has_prefix_def)
  then show "\<exists>t. s = p @ t" by blast
qed auto

lemma str_contains_iff: "str_contains s p \<longleftrightarrow> (\<exists>a b. s = a @ p @ b)"
proof (induction s)
  case Nil
  show ?case by auto
next
  case (Cons c s)
  note IH = Cons.IH
  show ?case
  proof
    assume "str_contains (c # s) p"
    then consider "has_prefix (c # s) p" | "str_contains s p" by auto
    then show "\<exists>a b. c # s = a @ p @ b"
    proof cases
      case 1
      then show ?thesis by (metis append_Nil has_prefix_iff)
    next
      case 2
      with IH show ?thesis by (metis append_Cons)
    qed
  next
    assume "\<exists>a b. c # s = a @ p @ b"
    then obtain a b where ab: "c # s = a @ p @ b" by blast
    show "str_contains (c # s) p"
    proof (cases a)
      case Nil
      with ab have "has_prefix (c # s) p" by (auto simp: has_prefix_iff)
      then show ?thesis by simp
    next
      case (Cons x a')
      with ab have "s = a' @ p @ b" by simp
      with IH show ?thesis by auto
    qed
  qed
qed

lemma delete_all_absent: "p \<notin> set s \<Longrightarrow> delete_all p ps s = s"
  by (induction s) (auto simp: has_prefix_def)

lemma delete_all_suffix: "p \<notin> set s \<Longrightarrow> delete_all p ps (s @ p # ps) = s"
  by (induction s) (auto simp: has_prefix_def)

subsection \<open>strconv\<close>

definition max_int64 :: int where "max_int64 = 9223372036854775807"
definition min_int64 :: int where "min_int64 = -9223372036854775808"

lemma min_max_int64 [simp]: "min_int64 < 0" "0 < max_int64" "min_int64 \<le> 0" "0 \<le> max_int64"
  by (simp_all add: min_int64_def max_int64_def)

definition is_digit :: "char \<Rightarrow> bool" where
  "is_digit c \<longleftrightarrow> 48 \<le> (of_char c :: nat) \<and> (of_char c :: nat) \<le> 57"

definition digit_val :: "char \<Rightarrow> nat" where
  "digit_val c = of_char c - 48"

definition digit_char :: "nat \<Rightarrow> char" where
  "digit_char n = char_of (n + 48)"

datatype uint_parse = Syntax_Error | Range_Error | Uint int

text \<open>
  The digit loop of \<open>strconv.ParseUint\<close> in base 10: it stops at the first character that is no
  digit, and it stops with a range error as soon as the value leaves 64 bits.
\<close>

fun parse_uint :: "int \<Rightarrow> string \<Rightarrow> uint_parse" where
  "parse_uint n [] = Uint n"
| "parse_uint n (c # s) =
     (if \<not> is_digit c then Syntax_Error
      else if 18446744073709551615 < n * 10 + int (digit_val c) then Range_Error
      else parse_uint (n * 10 + int (digit_val c)) s)"

text \<open>\<open>strconv.Atoi\<close>: the value returned together with whether the error is nil.\<close>

definition atoi :: "string \<Rightarrow> int \<times> bool" where
  "atoi s =
     (let neg = (take 1 s = ''-'');
          ds = (case s of [] \<Rightarrow> [] | c # t \<Rightarrow> if c = CHR ''-'' \<or> c = CHR ''+'' then t else s)
      in if ds = [] then (0, False)
         else (case parse_uint 0 ds of
                 Syntax_Error \<Rightarrow> (0, False)
               | Range_Error \<Rightarrow> (if neg then min_int64 else max_int64, False)
               | Uint n \<Rightarrow>
                   (if \<not> neg \<and> max_int64 < n then (max_int64, False)
                    else if neg \<and> n > - min_int64 then (min_int64, False)
                    else (if neg then - n else n, True))))"

fun show_nat :: "nat \<Rightarrow> string" where
  "show_nat n = (if n < 10 then [digit_char n] else show_nat (n div 10) @ [digit_char (n mod 10)])"

definition itoa :: "int \<Rightarrow> string" where
  "itoa i = (if i < 0 then CHR ''-'' # show_nat (nat (- i)) else show_nat (nat i))"

declare show_nat.simps [simp del]

lemma digit_char_digit [simp]: "n < 10 \<Longrightarrow> is_digit (digit_char n)"
  by (simp add: is_digit_def digit_char_def)

lemma digit_val_digit_char [simp]: "n < 10 \<Longrightarrow> digit_val (digit_char n) = n"
  by (simp add: digit_val_def digit_char_def)

lemma show_nat_nonempty [simp]: "show_nat n \<noteq> []"
  by (subst show_nat.simps) simp

lemma show_nat_digits: "c \<in> set (show_nat n) \<Longrightarrow> is_digit c"
proof (induction n rule: show_nat.induct)
  case (1 n)
  show ?case
  proof (cases "n < 10")
    case True
    with "1.prems" show ?thesis by (simp add: show_nat.simps [of n])
  next
    case False
    with "1.prems" have "c \<in> set (show_nat (n div 10)) \<or> c = digit_char (n mod 10)"
      by (auto simp: show_nat.simps [of n])
    with False "1.IH" show ?thesis by auto
  qed
qed

lemma show_nat_value: "foldl (\<lambda>v c. v * 10 + digit_val c) 0 (show_nat n) = n"
proof (induction n rule: less_induct)
  case (less n)
  show ?case
  proof (cases "n < 10")
    case True
    then show ?thesis by (simp add: show_nat.simps [of n])
  next
    case False
    then have "foldl (\<lambda>v c. v * 10 + digit_val c) 0 (show_nat (n div 10)) = n div 10" by (intro less) simp
    with False show ?thesis by (simp add: show_nat.simps [of n])
  qed
qed

lemma show_nat_inject [simp]: "show_nat m = show_nat n \<longleftrightarrow> m = n"
  using show_nat_value [of m] show_nat_value [of n] by metis

lemma non_digits [simp]: "\<not> is_digit CHR ''-''" "\<not> is_digit CHR ''+''" "\<not> is_digit CHR ''.''"
  by (simp_all add: is_digit_def)

lemma parse_uint_append:
  "parse_uint a (s @ t) = (case parse_uint a s of Uint m \<Rightarrow> parse_uint m t | e \<Rightarrow> e)"
  by (induction a s rule: parse_uint.induct) auto

lemma parse_uint_nonneg: "0 \<le> n \<Longrightarrow> parse_uint n s = Uint m \<Longrightarrow> 0 \<le> m"
  by (induction n s rule: parse_uint.induct) (auto split: if_splits)

lemma parse_uint_show_nat:
  "n \<le> 18446744073709551615 \<Longrightarrow> parse_uint 0 (show_nat n) = Uint (int n)"
proof (induction n rule: show_nat.induct)
  case (1 n)
  show ?case
  proof (cases "n < 10")
    case True
    then show ?thesis by (simp add: show_nat.simps [of n])
  next
    case False
    with "1.IH" "1.prems" have "parse_uint 0 (show_nat (n div 10)) = Uint (int (n div 10))" by simp
    with False "1.prems" show ?thesis
      by (simp add: show_nat.simps [of n] parse_uint_append zdiv_int zmod_int)
  qed
qed

lemma atoi_itoa:
  assumes "0 \<le> i" and "i \<le> max_int64"
  shows "atoi (itoa i) = (i, True)"
proof -
  obtain c t where s: "show_nat (nat i) = c # t" by (cases "show_nat (nat i)") auto
  then have c: "c \<noteq> CHR ''-''" "c \<noteq> CHR ''+''"
    using show_nat_digits [of c "nat i"] by auto
  from assms have "parse_uint 0 (show_nat (nat i)) = Uint i"
    by (subst parse_uint_show_nat) (simp_all add: max_int64_def nat_le_iff)
  with assms s c show ?thesis by (auto simp: atoi_def itoa_def)
qed

end
