(* ===== verification/Errors.thy ===== *)
theory Errors
  imports Prelude
begin

text \<open>
  Errors as values.  \<open>go_error\<close> has a constructor for each kind of Go error the operator's code
  tells apart: plain errors, the not-found, already-exists and conflict status errors of the Kubernetes API,
  the \<open>OperatorError\<close> of \<open>pkg/operatorerrors/errors.go\<close>, and errors wrapped by
  \<open>github.com/pkg/errors\<close>, which answer \<open>Cause\<close>.  A call of a Go function returns a \<open>go_result\<close>:
  its value, an error, or a run-time panic; \<open>bind_r\<close> is the \<open>if err != nil \<close>-return idiom, with
  the state of the outside world threaded through.
\<close>

datatype go_error =
    Plain string
  | NotFound string
  | AlreadyExists string
  | Conflict string
  | OperatorError int string
  | Wrapped string go_error

datatype 'a go_result = Ok 'a | Fail go_error | Panic string

definition bind_r ::
  "'a go_result \<times> 'w \<Rightarrow> ('a \<Rightarrow> 'w \<Rightarrow> 'b go_result \<times> 'w) \<Rightarrow> 'b go_result \<times> 'w" where
  "bind_r m f = (case fst m of Ok x \<Rightarrow> f x (snd m) | Fail e \<Rightarrow> (Fail e, snd m)
     | Panic p \<Rightarrow> (Panic p, snd m))"

text \<open>\<open>errors.Wrap(err, msg)\<close> on the error branch.\<close>

definition wrap_err :: "string \<Rightarrow> 'a go_result \<times> 'w \<Rightarrow> 'a go_result \<times> 'w" where
  "wrap_err msg m = (case fst m of Fail e \<Rightarrow> (Fail (Wrapped msg e), snd m) | _ \<Rightarrow> m)"

text \<open>The same for pure steps, and the loop that stops at the first error.\<close>

definition seq_r :: "'a go_result \<Rightarrow> ('a \<Rightarrow> 'b go_result) \<Rightarrow> 'b go_result" where
  "seq_r m f = (case m of Ok x \<Rightarrow> f x | Fail e \<Rightarrow> Fail e | Panic p \<Rightarrow> Panic p)"

fun map_r :: "('a \<Rightarrow> 'b go_result) \<Rightarrow> 'a list \<Rightarrow> 'b list go_result" where
  "map_r f [] = Ok []"
| "map_r f (x # xs) = seq_r (f x) (\<lambda>y. seq_r (map_r f xs) (\<lambda>ys. Ok (y # ys)))"

lemma seq_r_simps [simp]:
  "seq_r (Ok x) f = f x"
  "seq_r (Fail e) f = Fail e"
  "seq_r (Panic p) f = Panic p"
  by (simp_all add: seq_r_def)

lemma map_r_inverse: "(\<And>x. x \<in> set xs \<Longrightarrow> f (g x) = Ok x) \<Longrightarrow> map_r f (map g xs) = Ok xs"
  by (induction xs) simp_all

lemma map_r_no_panic: "(\<And>x p. x \<in> set xs \<Longrightarrow> f x \<noteq> Panic p) \<Longrightarrow> map_r f xs \<noteq> Panic p"
  by (induction xs) (auto simp: seq_r_def split: go_result.splits)

lemma seq_r_OkE:
  assumes "seq_r m f = Ok y"
  obtains x where "m = Ok x" and "f x = Ok y"
  using assms by (auto simp: seq_r_def split: go_result.splits)

lemma seq_r_PanicE:
  assumes "seq_r m f = Panic p"
  obtains "m = Panic p" | x where "m = Ok x" and "f x = Panic p"
  using assms by (auto simp: seq_r_def split: go_result.splits)

lemma bind_r_simps [simp]:
  "bind_r (Ok x, w) f = f x w"
  "bind_r (Fail e, w) f = (Fail e, w)"
  "bind_r (Panic p, w) f = (Panic p, w)"
  by (simp_all add: bind_r_def)

lemma wrap_err_simps [simp]:
  "wrap_err msg (Ok x, w) = (Ok x, w)"
  "wrap_err msg (Fail e, w) = (Fail (Wrapped msg e), w)"
  "wrap_err msg (Panic p, w) = (Panic p, w)"
  by (simp_all add: wrap_err_def)

lemma bind_r_OkE:
  assumes "bind_r m f = (Ok y, w2)"
  obtains x w1 where "m = (Ok x, w1)" and "f x w1 = (Ok y, w2)"
  using assms by (cases m) (auto simp: bind_r_def split: go_result.splits)

lemma bind_r_PanicE:
  assumes "bind_r m f = (Panic p, w2)"
  obtains "m = (Panic p, w2)" | x w1 where "m = (Ok x, w1)" and "f x w1 = (Panic p, w2)"
  using assms by (cases m) (auto simp: bind_r_def split: go_result.splits)

lemma wrap_err_Ok [simp]: "wrap_err msg m = (Ok x, w) \<longleftrightarrow> m = (Ok x, w)"
  by (cases m) (auto simp: wrap_err_def split: go_result.splits)

lemma wrap_err_Panic [simp]: "wrap_err msg m = (Panic p, w) \<longleftrightarrow> m = (Panic p, w)"
  by (cases m) (auto simp: wrap_err_def split: go_result.splits)

text \<open>\<open>k8serrors.IsNotFound\<close>, \<open>IsAlreadyExists\<close> and \<open>IsConflict\<close> look for the status error along the chain.\<close>

fun IsNotFound :: "go_error \<Rightarrow> bool" where
  "IsNotFound (NotFound m) = True"
| "IsNotFound (Wrapped m e) = IsNotFound e"
| "IsNotFound _ = False"

fun IsAlreadyExists :: "go_error \<Rightarrow> bool" where
  "IsAlreadyExists (AlreadyExists m) = True"
| "IsAlreadyExists (Wrapped m e) = IsAlreadyExists e"
| "IsAlreadyExists _ = False"

fun IsConflict :: "go_error \<Rightarrow> bool" where
  "IsConflict (Conflict m) = True"
| "IsConflict (Wrapped m e) = IsConflict e"
| "IsConflict _ = False"

subsection \<open>pkg/operatorerrors\<close>

definition InvalidCustomResourceCreateRequest :: int where
  "InvalidCustomResourceCreateRequest = 26"

text \<open>The keys of \<open>BreakingErrors\<close>, by the numbers of the constants.\<close>

definition BreakingErrors :: "int list" where
  "BreakingErrors =
     [1, 2, 3, 4, 5, 6, 7, 8, 9, 10, 11, 12, 13, 14, 15, 16, 19, 20, 21, 22, 24, 25, 26]"

fun error_text :: "go_error \<Rightarrow> string" where
  "error_text (Plain m) = m"
| "error_text (NotFound m) = m"
| "error_text (AlreadyExists m) = m"
| "error_text (Conflict m) = m"
| "error_text (OperatorError code m) = ''Code: '' @ itoa code @ '' - '' @ m"
| "error_text (Wrapped m e) = m @ '': '' @ error_text e"

definition operr_Wrap :: "go_error \<Rightarrow> int \<Rightarrow> string \<Rightarrow> go_error" where
  "operr_Wrap err code msg = OperatorError code (msg @ '': '' @ error_text err)"

text \<open>The loop of \<open>IsOperatorError\<close> along the \<open>Cause\<close> chain; \<open>None\<close> is the nil pointer.\<close>

fun IsOperatorError :: "go_error option \<Rightarrow> (int \<times> string) option" where
  "IsOperatorError None = None"
| "IsOperatorError (Some (OperatorError code m)) = Some (code, m)"
| "IsOperatorError (Some (Wrapped m e)) = IsOperatorError (Some e)"
| "IsOperatorError (Some _) = None"

definition IsBreakingError :: "go_error option \<Rightarrow> go_error option" where
  "IsBreakingError err =
     (case IsOperatorError err of
        None \<Rightarrow> err
      | Some (code, m) \<Rightarrow> if code \<in> set BreakingErrors then None else err)"

definition GetErrorCode :: "go_error option \<Rightarrow> int" where
  "GetErrorCode err = (case IsOperatorError err of None \<Rightarrow> 0 | Some (code, m) \<Rightarrow> code)"

lemma IsOperatorError_wrapped:
  "IsOperatorError (Some (foldr Wrapped ms e)) = IsOperatorError (Some e)"
  by (induction ms) simp_all

text \<open>However often an error is wrapped on its way up, the reconcile loop is stopped for
  good (the error is swallowed) exactly when an operator error with a breaking code is its cause;
  any other error is handed back for a retry, and the error code reported in the status is that of
  the cause.\<close>

lemma breaking_error_through_wraps:
  "IsBreakingError (Some (foldr Wrapped ms e)) =
     (case IsOperatorError (Some e) of
        Some (code, m) \<Rightarrow> if code \<in> set BreakingErrors then None else Some (foldr Wrapped ms e)
      | None \<Rightarrow> Some (foldr Wrapped ms e)) \<and>
   GetErrorCode (Some (foldr Wrapped ms (operr_Wrap e code msg))) = code"
  by (auto simp: IsBreakingError_def GetErrorCode_def IsOperatorError_wrapped operr_Wrap_def
      split: option.splits)

end
