(* ===== verification/Cluster.thy ===== *)
theory Cluster
  imports Errors "HOL-Library.AList"
begin

text \<open>
  What the operator sees of the outside world.  The Kubernetes API, the clock and the random
  source are not code of the repository: they are the record \<open>env\<close> of functions over an arbitrary
  world state, which every effectful operation takes as a parameter and threads the world through.

  A Go map with string keys is an association list, read with \<open>map_of\<close> and written with
  \<open>AList.update\<close>; nil and empty maps are not told apart where the code treats them alike.  A
  \<open>range\<close> loop over a map takes the list of keys in the order of the visit, computed by an
  order function about which only \<open>range_order\<close> is known.

  A time is an \<open>int\<close>, the nanoseconds since the epoch.  A timestamp field is either the text that
  formatting a time produces, or some other text, which does not parse (the empty string is one).
\<close>

type_synonym 'a gomap = "(string \<times> 'a) list"

abbreviation keys :: "'a gomap \<Rightarrow> string list" where
  "keys m \<equiv> map fst m"

definition range_order :: "('a gomap \<Rightarrow> string list) \<Rightarrow> bool" where
  "range_order ord \<longleftrightarrow> (\<forall>m. distinct (keys m) \<longrightarrow> distinct (ord m) \<and> set (ord m) = set (keys m))"

lemma range_order_keys: "range_order keys"
  by (simp add: range_order_def)

lemma range_orderD:
  assumes "range_order ord" "distinct (keys m)"
  shows "distinct (ord m)" "set (ord m) = set (keys m)"
  using assms by (auto simp: range_order_def)

text \<open>\<open>m[k]\<close> for a map of slices: nil where there is no entry.\<close>

definition slice_of :: "'a list gomap \<Rightarrow> string \<Rightarrow> 'a list" where
  "slice_of m k = (case map_of m k of None \<Rightarrow> [] | Some q \<Rightarrow> q)"

lemma slice_of_update [simp]:
  "slice_of (AList.update k v m) k' = (if k' = k then v else slice_of m k')"
  by (simp add: slice_of_def update_conv')

lemma slice_of_nil [simp]: "slice_of [] k = []"
  by (simp add: slice_of_def)

lemma keys_update [simp]: "set (keys (AList.update k v m)) = insert k (set (keys m))"
  using dom_update [of k v m] by (simp add: dom_map_of_conv_image_fst)

lemma slice_of_absent: "k \<notin> set (keys m) \<Longrightarrow> slice_of m k = []"
  by (simp add: slice_of_def map_of_eq_None_iff [THEN iffD2])

datatype stamp = Stamp int | Raw string

definition parse_stamp :: "stamp \<Rightarrow> int go_result" where
  "parse_stamp t = (case t of Stamp n \<Rightarrow> Ok n | Raw s \<Rightarrow> Fail (Plain (''cannot parse time '' @ s)))"

lemma parse_stamp_simps [simp]:
  "parse_stamp (Stamp n) = Ok n"
  "parse_stamp (Raw s) = Fail (Plain (''cannot parse time '' @ s))"
  by (simp_all add: parse_stamp_def)

text \<open>\<open>time.RFC3339\<close> keeps whole seconds.\<close>

definition second :: int where "second = 1000000000"

definition rfc3339 :: "int \<Rightarrow> stamp" where
  "rfc3339 t = Stamp (t div second * second)"

record container_status =
  cs_ready :: bool
  cs_running :: bool

record pod =
  pod_name :: string
  pod_phase :: string
  pod_containers :: "container_status list"

record deployment =
  dep_name :: string
  dep_namespace :: string
  dep_annotations :: "stamp gomap"

text \<open>
  JSON documents, as package \<open>encoding/json\<close> writes and reads them.  \<open>JTime\<close> is the string a
  formatted time is.
\<close>

datatype json = JNull | JBool bool | JText string | JTime int | JArr "json list"
  | JObj "(string \<times> json) list"

text \<open>The bytes under a key of a config map: a JSON document or something that is none.\<close>

datatype blob = Json json | Garbage string

record 'w env =
  e_now :: "'w \<Rightarrow> int \<times> 'w"
  e_random :: "int \<Rightarrow> 'w \<Rightarrow> int \<times> 'w"
  e_selector :: "string \<Rightarrow> go_error option"
  e_get_cm :: "string \<Rightarrow> string \<Rightarrow> 'w \<Rightarrow> blob gomap go_result \<times> 'w"
  e_put_cm :: "string \<Rightarrow> string \<Rightarrow> blob gomap \<Rightarrow> 'w \<Rightarrow> unit go_result \<times> 'w"
  e_list_pods :: "string \<Rightarrow> string \<Rightarrow> 'w \<Rightarrow> pod list go_result \<times> 'w"
  e_list_deployments :: "string \<Rightarrow> string \<Rightarrow> 'w \<Rightarrow> deployment list go_result \<times> 'w"
  e_get_deployment :: "string \<Rightarrow> string \<Rightarrow> 'w \<Rightarrow> deployment go_result \<times> 'w"
  e_patch_deployment :: "deployment \<Rightarrow> 'w \<Rightarrow> unit go_result \<times> 'w"

text \<open>\<open>labels.Parse\<close> of a selector, as the first step of every list call.\<close>

definition parse_selector :: "'w env \<Rightarrow> string \<Rightarrow> 'w \<Rightarrow> unit go_result \<times> 'w" where
  "parse_selector env sel w = (case e_selector env sel of None \<Rightarrow> (Ok (), w) | Some e \<Rightarrow> (Fail e, w))"

subsection \<open>pkg/action: restart of a deployment\<close>

text \<open>The nil check of the annotations map has no counterpart: nil and empty are the same here.\<close>

definition action_Restart :: "'w env \<Rightarrow> string \<Rightarrow> string \<Rightarrow> 'w \<Rightarrow> unit go_result \<times> 'w" where
  "action_Restart env name namespace w =
     bind_r (e_get_deployment env name namespace w) (\<lambda>dep w.
       let (now, w) = e_now env w;
           dep = dep\<lparr>dep_annotations :=
             AList.update ''kubectl.kubernetes.io/restartedAt'' (rfc3339 now) (dep_annotations dep)\<rparr>
       in e_patch_deployment env dep w)"

text \<open>The client's own calls return values and errors; a panic is never one of their answers.\<close>

definition client_ok :: "'w env \<Rightarrow> bool" where
  "client_ok env \<longleftrightarrow>
     (\<forall>n s w p. fst (e_get_cm env n s w) \<noteq> Panic p) \<and>
     (\<forall>n s b w p. fst (e_put_cm env n s b w) \<noteq> Panic p) \<and>
     (\<forall>n s w p. fst (e_list_pods env n s w) \<noteq> Panic p) \<and>
     (\<forall>n s w p. fst (e_list_deployments env n s w) \<noteq> Panic p) \<and>
     (\<forall>n s w p. fst (e_get_deployment env n s w) \<noteq> Panic p) \<and>
     (\<forall>d w p. fst (e_patch_deployment env d w) \<noteq> Panic p)"

lemma client_okD:
  assumes "client_ok env"
  shows "e_get_cm env n s w \<noteq> (Panic p, w')" "e_put_cm env n s b w \<noteq> (Panic p, w')"
    "e_list_pods env n s w \<noteq> (Panic p, w')" "e_list_deployments env n s w \<noteq> (Panic p, w')"
    "e_get_deployment env n s w \<noteq> (Panic p, w')" "e_patch_deployment env d w \<noteq> (Panic p, w')"
  using assms unfolding client_ok_def by (metis fst_conv)+

lemma parse_selector_no_panic [simp]: "parse_selector env sel w \<noteq> (Panic p, w')"
  by (simp add: parse_selector_def split: option.splits)

lemma action_Restart_no_panic: "client_ok env \<Longrightarrow> action_Restart env n s w \<noteq> (Panic p, w')"
  by (auto simp: action_Restart_def client_okD Let_def split: prod.splits elim!: bind_r_PanicE)

end
