(* ===== verification/ConfigMaps.thy ===== *)
theory ConfigMaps
  imports Cluster
begin

text \<open>
  The persisted state of the two restart services: the structs of
  \<open>pkg/restart/staggerrestarts/staggerrestarts_structs.go\<close> and \<open>pkg/restart/restart_structs.go\<close>,
  their JSON form, and the config map manager of \<open>pkg/restart/configmap/manager.go\<close> that reads and
  writes it.  The locale \<open>config_codec\<close> is what the manager relies on; it is interpreted for both
  kinds of configuration.

  Limits: a null element in a queue, which the operator never writes, makes decoding fail here
  (Go would store a nil pointer), and so does a formatted time where a plain string is expected.
\<close>

subsection \<open>Structs\<close>

record component =
  CRName :: string
  Reason :: string
  CheckUntilTimestamp :: stamp
  LastCheckedTimestamp :: stamp
  Status :: string
  PodName :: string

record restart_config =
  Queues :: "component list gomap"
  Log :: "component list gomap"

record request =
  Req_Status :: string
  RequestTimestamp :: stamp
  LastActionTimestamp :: stamp

text \<open>Pointers that may be nil are options.\<close>

record restart =
  Requests :: "request option gomap"

record op_config =
  Instances :: "restart option gomap"

definition zero_component :: component where
  "zero_component = \<lparr>CRName = '''', Reason = '''', CheckUntilTimestamp = Raw '''',
     LastCheckedTimestamp = Raw '''', Status = '''', PodName = ''''\<rparr>"

definition zero_request :: request where
  "zero_request = \<lparr>Req_Status = '''', RequestTimestamp = Raw '''', LastActionTimestamp = Raw ''''\<rparr>"

definition empty_config :: restart_config where
  "empty_config = \<lparr>Queues = [], Log = []\<rparr>"

definition empty_op_config :: op_config where
  "empty_op_config = \<lparr>Instances = []\<rparr>"

subsection \<open>encoding/json\<close>

fun stamp_json :: "stamp \<Rightarrow> json" where
  "stamp_json (Stamp t) = JTime t"
| "stamp_json (Raw s) = JText s"

definition map_json :: "('a \<Rightarrow> json) \<Rightarrow> 'a gomap \<Rightarrow> json" where
  "map_json enc m = JObj (map (\<lambda>(k, v). (k, enc v)) m)"

definition ptr_json :: "('a \<Rightarrow> json) \<Rightarrow> 'a option \<Rightarrow> json" where
  "ptr_json enc p = (case p of None \<Rightarrow> JNull | Some x \<Rightarrow> enc x)"

definition component_json :: "component \<Rightarrow> json" where
  "component_json c = JObj
     [(''CRName'', JText (CRName c)), (''Reason'', JText (Reason c)),
      (''CheckUntilTimestamp'', stamp_json (CheckUntilTimestamp c)),
      (''LastCheckedTimestamp'', stamp_json (LastCheckedTimestamp c)),
      (''Status'', JText (Status c)), (''PodName'', JText (PodName c))]"

definition restart_config_json :: "restart_config \<Rightarrow> json" where
  "restart_config_json r = JObj
     [(''Queues'', map_json (\<lambda>q. JArr (map component_json q)) (Queues r)),
      (''Log'', map_json (\<lambda>q. JArr (map component_json q)) (Log r))]"

definition request_json :: "request \<Rightarrow> json" where
  "request_json q = JObj
     [(''Status'', JText (Req_Status q)), (''RequestTimestamp'', stamp_json (RequestTimestamp q)),
      (''LastActionTimestamp'', stamp_json (LastActionTimestamp q))]"

definition op_config_json :: "op_config \<Rightarrow> json" where
  "op_config_json c = JObj
     [(''Instances'', map_json (ptr_json (\<lambda>r. JObj
        [(''Requests'', map_json (ptr_json request_json) (Requests r))])) (Instances c))]"

definition type_error :: "string \<Rightarrow> 'a go_result" where
  "type_error t = Fail (Plain (''json: cannot unmarshal value into Go value of type '' @ t))"

text \<open>A field of a struct: absent or null leaves the value it has.\<close>

fun text_field :: "json option \<Rightarrow> string \<Rightarrow> string go_result" where
  "text_field None old = Ok old"
| "text_field (Some JNull) old = Ok old"
| "text_field (Some (JText s)) old = Ok s"
| "text_field (Some _) old = type_error ''string''"

fun stamp_field :: "json option \<Rightarrow> stamp \<Rightarrow> stamp go_result" where
  "stamp_field None old = Ok old"
| "stamp_field (Some JNull) old = Ok old"
| "stamp_field (Some (JText s)) old = Ok (Raw s)"
| "stamp_field (Some (JTime t)) old = Ok (Stamp t)"
| "stamp_field (Some _) old = type_error ''string''"

text \<open>A map field: null gives the nil map, an object adds its entries to the map that is there.\<close>

fun map_field :: "(json \<Rightarrow> 'a go_result) \<Rightarrow> json option \<Rightarrow> 'a gomap \<Rightarrow> 'a gomap go_result" where
  "map_field dec None old = Ok old"
| "map_field dec (Some JNull) old = Ok []"
| "map_field dec (Some (JObj es)) old =
     seq_r (map_r (\<lambda>(k, j). seq_r (dec j) (\<lambda>v. Ok (k, v))) es)
       (\<lambda>kvs. Ok (fold (\<lambda>(k, v) m. AList.update k v m) kvs old))"
| "map_field dec (Some _) old = type_error ''map''"

fun array_of_json :: "(json \<Rightarrow> 'a go_result) \<Rightarrow> json \<Rightarrow> 'a list go_result" where
  "array_of_json dec JNull = Ok []"
| "array_of_json dec (JArr js) = map_r dec js"
| "array_of_json dec _ = type_error ''slice''"

fun ptr_of_json :: "(json \<Rightarrow> 'a go_result) \<Rightarrow> json \<Rightarrow> 'a option go_result" where
  "ptr_of_json dec JNull = Ok None"
| "ptr_of_json dec j = seq_r (dec j) (\<lambda>x. Ok (Some x))"

fun component_of_json :: "json \<Rightarrow> component go_result" where
  "component_of_json (JObj fs) =
     seq_r (text_field (map_of fs ''CRName'') '''') (\<lambda>n.
     seq_r (text_field (map_of fs ''Reason'') '''') (\<lambda>r.
     seq_r (stamp_field (map_of fs ''CheckUntilTimestamp'') (Raw '''')) (\<lambda>u.
     seq_r (stamp_field (map_of fs ''LastCheckedTimestamp'') (Raw '''')) (\<lambda>l.
     seq_r (text_field (map_of fs ''Status'') '''') (\<lambda>s.
     seq_r (text_field (map_of fs ''PodName'') '''') (\<lambda>p.
       Ok \<lparr>CRName = n, Reason = r, CheckUntilTimestamp = u, LastCheckedTimestamp = l,
           Status = s, PodName = p\<rparr>))))))"
| "component_of_json _ = type_error ''Component''"

fun restart_config_of_json :: "json \<Rightarrow> restart_config \<Rightarrow> restart_config go_result" where
  "restart_config_of_json JNull into = Ok into"
| "restart_config_of_json (JObj fs) into =
     seq_r (map_field (array_of_json component_of_json) (map_of fs ''Queues'') (Queues into)) (\<lambda>q.
     seq_r (map_field (array_of_json component_of_json) (map_of fs ''Log'') (Log into)) (\<lambda>l.
       Ok \<lparr>Queues = q, Log = l\<rparr>))"
| "restart_config_of_json _ into = type_error ''RestartConfig''"

fun request_of_json :: "json \<Rightarrow> request go_result" where
  "request_of_json (JObj fs) =
     seq_r (text_field (map_of fs ''Status'') '''') (\<lambda>s.
     seq_r (stamp_field (map_of fs ''RequestTimestamp'') (Raw '''')) (\<lambda>r.
     seq_r (stamp_field (map_of fs ''LastActionTimestamp'') (Raw '''')) (\<lambda>l.
       Ok \<lparr>Req_Status = s, RequestTimestamp = r, LastActionTimestamp = l\<rparr>)))"
| "request_of_json _ = type_error ''Request''"

fun restart_of_json :: "json \<Rightarrow> restart go_result" where
  "restart_of_json (JObj fs) =
     seq_r (map_field (ptr_of_json request_of_json) (map_of fs ''Requests'') []) (\<lambda>r.
       Ok \<lparr>Requests = r\<rparr>)"
| "restart_of_json _ = type_error ''Restart''"

fun op_config_of_json :: "json \<Rightarrow> op_config \<Rightarrow> op_config go_result" where
  "op_config_of_json JNull into = Ok into"
| "op_config_of_json (JObj fs) into =
     seq_r (map_field (ptr_of_json restart_of_json) (map_of fs ''Instances'') (Instances into)) (\<lambda>i.
       Ok \<lparr>Instances = i\<rparr>)"
| "op_config_of_json _ into = type_error ''Config''"

subsection \<open>The config map manager\<close>

abbreviation restart_key :: string where "restart_key \<equiv> ''restart-config.yaml''"

definition GetRestartConfigFrom ::
  "'w env \<Rightarrow> (json \<Rightarrow> 'c \<Rightarrow> 'c go_result) \<Rightarrow> string \<Rightarrow> string \<Rightarrow> 'c \<Rightarrow> 'w \<Rightarrow> 'c go_result \<times> 'w" where
  "GetRestartConfigFrom env unmarshal cmName namespace into w =
     (case e_get_cm env cmName namespace w of
        (Fail e, w) \<Rightarrow>
          if \<not> IsNotFound e
          then (Fail (Wrapped (''failed to get '' @ cmName @ '' config map'') e), w)
          else (Ok into, w)
      | (Panic p, w) \<Rightarrow> (Panic p, w)
      | (Ok data, w) \<Rightarrow>
          (case map_of data restart_key of
             None \<Rightarrow> (Ok into, w)
           | Some (Garbage s) \<Rightarrow>
               (Fail (Wrapped (''failed to unmarshal '' @ cmName @ '' config map'') (Plain s)), w)
           | Some (Json j) \<Rightarrow>
               wrap_err (''failed to unmarshal '' @ cmName @ '' config map'') (unmarshal j into, w)))"

definition UpdateConfig ::
  "'w env \<Rightarrow> ('c \<Rightarrow> json) \<Rightarrow> string \<Rightarrow> string \<Rightarrow> 'c \<Rightarrow> 'w \<Rightarrow> unit go_result \<times> 'w" where
  "UpdateConfig env marshal cmName namespace cfg w =
     wrap_err (''failed to create or update '' @ cmName @ '' config map'')
       (e_put_cm env cmName namespace [(restart_key, Json (marshal cfg))] w)"

text \<open>
  What the API promises about a config map: after a successful write the next read returns what
  was written.  It is the only fact about the API that the round trip below needs.
\<close>

definition read_after_write :: "'w env \<Rightarrow> bool" where
  "read_after_write env \<longleftrightarrow>
     (\<forall>n s b w w'. e_put_cm env n s b w = (Ok (), w') \<longrightarrow> fst (e_get_cm env n s w') = Ok b)"

locale config_codec =
  fixes marshal :: "'c \<Rightarrow> json"
    and unmarshal :: "json \<Rightarrow> 'c \<Rightarrow> 'c go_result"
    and fresh :: 'c
    and well_formed :: "'c \<Rightarrow> bool"
  assumes decode_encode: "well_formed c \<Longrightarrow> unmarshal (marshal c) fresh = Ok c"
begin

lemma load_after_store:
  assumes "read_after_write env" and "well_formed c"
    and "UpdateConfig env marshal n s c w = (Ok (), w')"
  shows "fst (GetRestartConfigFrom env unmarshal n s fresh w') = Ok c"
proof -
  from assms(3) have "e_put_cm env n s [(restart_key, Json (marshal c))] w = (Ok (), w')"
    by (simp add: UpdateConfig_def)
  with assms(1) have "fst (e_get_cm env n s w') = Ok [(restart_key, Json (marshal c))]"
    unfolding read_after_write_def by blast
  then show ?thesis
    using decode_encode [OF assms(2)]
    by (cases "e_get_cm env n s w'") (simp add: GetRestartConfigFrom_def)
qed

end

lemma fold_update_append:
  "distinct (keys (m @ kvs)) \<Longrightarrow> fold (\<lambda>(k, v) m. AList.update k v m) kvs m = m @ kvs"
proof (induction kvs arbitrary: m)
  case Nil
  show ?case by simp
next
  case (Cons kv kvs)
  obtain k v where kv: "kv = (k, v)" by (cases kv)
  with Cons.prems have "k \<notin> set (keys m)" by auto
  then have "AList.update k v m = m @ [(k, v)]" by (induction m) auto
  with Cons.IH [of "m @ [(k, v)]"] Cons.prems kv show ?case by simp
qed

lemma map_field_map_json:
  assumes "\<And>k v. (k, v) \<in> set m \<Longrightarrow> dec (enc v) = Ok v" and "distinct (keys m)"
  shows "map_field dec (Some (map_json enc m)) [] = Ok m"
proof -
  have "map_r (\<lambda>(k, j). seq_r (dec j) (\<lambda>v. Ok (k, v))) (map (\<lambda>(k, v). (k, enc v)) m) = Ok m"
    using assms(1) by (intro map_r_inverse) auto
  with assms(2) show ?thesis by (simp add: map_json_def fold_update_append [of "[]", simplified])
qed

lemma stamp_field_json [simp]: "stamp_field (Some (stamp_json t)) old = Ok t"
  by (cases t) simp_all

lemma component_of_component_json [simp]: "component_of_json (component_json c) = Ok c"
  by (simp add: component_json_def)

lemma request_of_request_json [simp]: "request_of_json (request_json q) = Ok q"
  by (simp add: request_json_def)

lemma queue_of_queue_json [simp]: "map_r component_of_json (map component_json q) = Ok q"
  by (simp add: map_r_inverse)

definition wf_restart_config :: "restart_config \<Rightarrow> bool" where
  "wf_restart_config r \<longleftrightarrow> distinct (keys (Queues r)) \<and> distinct (keys (Log r))"

definition wf_op_config :: "op_config \<Rightarrow> bool" where
  "wf_op_config c \<longleftrightarrow> distinct (keys (Instances c)) \<and>
     (\<forall>(n, p) \<in> set (Instances c). \<forall>r. p = Some r \<longrightarrow> distinct (keys (Requests r)))"

lemma restart_config_roundtrip:
  "wf_restart_config r \<Longrightarrow> restart_config_of_json (restart_config_json r) empty_config = Ok r"
  by (simp add: wf_restart_config_def restart_config_json_def empty_config_def map_field_map_json)

lemma ptr_of_ptr_json:
  "enc x \<noteq> JNull \<Longrightarrow> dec (enc x) = Ok x \<Longrightarrow> ptr_of_json dec (ptr_json enc (Some x)) = Ok (Some x)"
  by (cases "enc x") (simp_all add: ptr_json_def)

lemma request_ptr [simp]: "ptr_of_json request_of_json (ptr_json request_json p) = Ok p"
  by (cases p) (simp_all add: ptr_json_def request_json_def)

lemma op_config_roundtrip:
  assumes "wf_op_config c"
  shows "op_config_of_json (op_config_json c) empty_op_config = Ok c"
proof -
  let ?enc = "\<lambda>r. JObj [(''Requests'', map_json (ptr_json request_json) (Requests r))]"
  have "ptr_of_json restart_of_json (ptr_json ?enc p) = Ok p" if "(n, p) \<in> set (Instances c)" for n p
  proof (cases p)
    case None
    then show ?thesis by (simp add: ptr_json_def)
  next
    case (Some r)
    with that assms have "distinct (keys (Requests r))" by (fastforce simp: wf_op_config_def)
    then have "restart_of_json (?enc r) = Ok r" by (simp add: map_field_map_json)
    with Some show ?thesis by (simp add: ptr_of_ptr_json)
  qed
  with assms have "map_field (ptr_of_json restart_of_json)
      (Some (map_json (ptr_json ?enc) (Instances c))) [] = Ok (Instances c)"
    by (intro map_field_map_json) (auto simp: wf_op_config_def)
  then show ?thesis by (simp add: op_config_json_def empty_op_config_def)
qed

interpretation queue_codec:
  config_codec restart_config_json restart_config_of_json empty_config wf_restart_config
  by unfold_locales (rule restart_config_roundtrip)

interpretation request_codec:
  config_codec op_config_json op_config_of_json empty_op_config wf_op_config
  by unfold_locales (rule op_config_roundtrip)

lemma wf_empty [simp]: "wf_restart_config empty_config" "wf_op_config empty_op_config"
  by (simp_all add: wf_restart_config_def wf_op_config_def empty_config_def empty_op_config_def)

subsection \<open>Decoding returns values and errors\<close>

lemma text_field_no_panic [simp]: "text_field j old \<noteq> Panic p"
  by (induction j old rule: text_field.induct) (simp_all add: type_error_def)

lemma stamp_field_no_panic [simp]: "stamp_field j old \<noteq> Panic p"
  by (induction j old rule: stamp_field.induct) (simp_all add: type_error_def)

lemma map_field_no_panic:
  assumes "\<And>j p. dec j \<noteq> Panic p"
  shows "map_field dec j old \<noteq> Panic p"
proof (cases "(dec, j, old)" rule: map_field.cases)
  case (3 dec' es old')
  have "map_r (\<lambda>(k, j). seq_r (dec j) (\<lambda>v. Ok (k, v))) es \<noteq> Panic p"
    using assms by (intro map_r_no_panic) (auto elim!: seq_r_PanicE)
  with 3 show ?thesis by (auto elim!: seq_r_PanicE)
qed (auto simp: type_error_def)

lemma array_no_panic:
  "(\<And>j p. dec j \<noteq> Panic p) \<Longrightarrow> array_of_json dec j \<noteq> Panic p"
  by (cases j) (simp_all add: type_error_def map_r_no_panic)

lemma component_of_json_no_panic: "component_of_json j \<noteq> Panic p"
  by (cases j) (auto simp: type_error_def elim!: seq_r_PanicE)

lemma restart_config_of_json_no_panic: "restart_config_of_json j into \<noteq> Panic p"
  by (cases j) (auto simp: type_error_def map_field_no_panic array_no_panic component_of_json_no_panic
      elim!: seq_r_PanicE)

subsection \<open>Decoded configurations are well-formed\<close>

lemma fold_update_distinct:
  "distinct (keys m) \<Longrightarrow> distinct (keys (fold (\<lambda>(k, v) m. AList.update k v m) kvs m))"
  by (induction kvs arbitrary: m) (auto simp: distinct_update)

lemma fold_update_values:
  "(k, v) \<in> set (fold (\<lambda>(k, v) m. AList.update k v m) kvs m) \<Longrightarrow> (k, v) \<in> set kvs \<union> set m"
proof (induction kvs arbitrary: m)
  case (Cons kv kvs)
  obtain k' v' where kv: "kv = (k', v')" by (cases kv)
  have "set (AList.update k' v' m) \<subseteq> insert (k', v') (set m)" by (induction m) auto
  with Cons kv show ?case by fastforce
qed simp

lemma map_field_distinct:
  "map_field dec j old = Ok m \<Longrightarrow> distinct (keys old) \<Longrightarrow> distinct (keys m)"
  by (cases "(dec, j, old)" rule: map_field.cases)
    (auto simp: type_error_def fold_update_distinct elim!: seq_r_OkE)

lemma map_r_values: "map_r f xs = Ok ys \<Longrightarrow> y \<in> set ys \<Longrightarrow> \<exists>x. f x = Ok y"
  by (induction xs arbitrary: ys) (auto elim!: seq_r_OkE)

lemma map_field_values:
  assumes "map_field dec j [] = Ok m" "(k, v) \<in> set m"
  shows "\<exists>j. dec j = Ok v"
proof (cases "(dec, j, [] :: 'a gomap)" rule: map_field.cases)
  case (3 dec' es old)
  with assms(1) obtain kvs where
    "map_r (\<lambda>(k, j). seq_r (dec j) (\<lambda>v. Ok (k, v))) es = Ok kvs"
    and "m = fold (\<lambda>(k, v) m. AList.update k v m) kvs []"
    by (auto elim!: seq_r_OkE)
  then obtain x where "(\<lambda>(k, j). seq_r (dec j) (\<lambda>v. Ok (k, v))) x = Ok (k, v)"
    using fold_update_values [of k v kvs "[]"] assms(2) map_r_values by fastforce
  then show ?thesis by (cases x) (auto elim!: seq_r_OkE)
qed (use assms in \<open>auto simp: type_error_def\<close>)

lemma decoded_restart_config_wf:
  "restart_config_of_json j empty_config = Ok r \<Longrightarrow> wf_restart_config r"
  by (cases j) (auto simp: type_error_def empty_config_def wf_restart_config_def
      elim!: seq_r_OkE dest!: map_field_distinct)

lemma decoded_restart_wf:
  assumes "restart_of_json j = Ok r"
  shows "distinct (keys (Requests r))"
proof (cases j)
  case (JObj fs)
  with assms have "map_field (ptr_of_json request_of_json) (map_of fs ''Requests'') [] = Ok (Requests r)"
    by (auto elim!: seq_r_OkE)
  from map_field_distinct [OF this] show ?thesis by simp
qed (use assms in \<open>auto simp: type_error_def\<close>)

lemma decoded_ptr_wf: "ptr_of_json restart_of_json j = Ok (Some r) \<Longrightarrow> distinct (keys (Requests r))"
  by (cases "(restart_of_json, j)" rule: ptr_of_json.cases) (auto simp del: restart_of_json.simps elim!: seq_r_OkE dest: decoded_restart_wf)

lemma decoded_op_config_wf:
  assumes "op_config_of_json j empty_op_config = Ok c"
  shows "wf_op_config c"
proof (cases j)
  case (JObj fs)
  with assms have i: "map_field (ptr_of_json restart_of_json) (map_of fs ''Instances'') [] = Ok (Instances c)"
    by (auto simp: empty_op_config_def elim!: seq_r_OkE)
  show ?thesis
    using map_field_distinct [OF i] map_field_values [OF i] decoded_ptr_wf
    by (fastforce simp: wf_op_config_def)
qed (use assms in \<open>auto simp: type_error_def\<close>)

subsection \<open>What is read depends on the config map only\<close>

lemma config_view:
  "fst (GetRestartConfigFrom env unmarshal n s into w) =
     (case fst (e_get_cm env n s w) of
        Fail e \<Rightarrow> if \<not> IsNotFound e
          then Fail (Wrapped (''failed to get '' @ n @ '' config map'') e) else Ok into
      | Panic p \<Rightarrow> Panic p
      | Ok data \<Rightarrow>
          (case map_of data restart_key of
             None \<Rightarrow> Ok into
           | Some (Garbage g) \<Rightarrow>
               Fail (Wrapped (''failed to unmarshal '' @ n @ '' config map'') (Plain g))
           | Some (Json j) \<Rightarrow>
               (case unmarshal j into of
                  Fail e \<Rightarrow> Fail (Wrapped (''failed to unmarshal '' @ n @ '' config map'') e)
                | x \<Rightarrow> x)))"
  by (auto simp: GetRestartConfigFrom_def wrap_err_def
      split: prod.splits go_result.splits option.splits blob.splits)

lemma config_view_cong:
  "fst (e_get_cm env n s w') = fst (e_get_cm env n s w) \<Longrightarrow>
     fst (GetRestartConfigFrom env unmarshal n s into w') = fst (GetRestartConfigFrom env unmarshal n s into w)"
  by (simp only: config_view)

lemma config_read_Ok:
  assumes "fst (GetRestartConfigFrom env unmarshal n s into w) = Ok c"
  shows "c = into \<or> (\<exists>j. unmarshal j into = Ok c)"
  using assms unfolding config_view
  by (auto split: go_result.splits option.splits blob.splits if_splits)

end
