(* ===== verification/RestartQueue.thy ===== *)
theory RestartQueue
  imports ConfigMaps "HOL-Library.Multiset"
begin

text \<open>
  The stagger restart service, \<open>pkg/restart/staggerrestarts/staggerrestarts.go\<close>.  For every MSP it
  keeps a queue of restart requests in the config map \<open><type>-restart-config\<close> and works on the
  front of each queue only, so that at most one component of an organisation restarts at a time.
  The life of a request is the state machine \<open>front_step\<close> below.

  A queue element is a pointer in Go and is updated in place; the model writes the updated element
  back with \<open>set_front\<close>.  No element is reachable from two places: one that is appended to the log
  leaves its queue in the same branch.
\<close>

abbreviation Pending :: string where "Pending \<equiv> ''pending''"
abbreviation Waiting :: string where "Waiting \<equiv> ''waiting''"
abbreviation Completed :: string where "Completed \<equiv> ''completed''"
abbreviation Expired :: string where "Expired \<equiv> ''expired''"
abbreviation Deleted :: string where "Deleted \<equiv> ''deleted''"
abbreviation Restarted :: string where "Restarted \<equiv> ''restarted''"

subsection \<open>Operations of RestartConfig\<close>

definition AddToLog :: "component \<Rightarrow> restart_config \<Rightarrow> restart_config" where
  "AddToLog c r = r\<lparr>Log := AList.update (CRName c) (slice_of (Log r) (CRName c) @ [c]) (Log r)\<rparr>"

definition AddToQueue :: "string \<Rightarrow> component \<Rightarrow> restart_config \<Rightarrow> restart_config" where
  "AddToQueue mspid c r =
     r\<lparr>Queues := AList.update mspid (slice_of (Queues r) mspid @ [c]) (Queues r)\<rparr>"

text \<open>The slice expression \<open>[1:]\<close> panics on an empty slice.\<close>

definition PopFromQueue :: "string \<Rightarrow> restart_config \<Rightarrow> restart_config go_result" where
  "PopFromQueue mspid r =
     (case slice_of (Queues r) mspid of
        [] \<Rightarrow> Panic ''slice bounds out of range''
      | c # q \<Rightarrow> Ok (r\<lparr>Queues := AList.update mspid q (Queues r)\<rparr>))"

definition set_front :: "string \<Rightarrow> component \<Rightarrow> restart_config \<Rightarrow> restart_config" where
  "set_front mspid c r =
     r\<lparr>Queues := AList.update mspid (c # tl (slice_of (Queues r) mspid)) (Queues r)\<rparr>"

subsection \<open>Merging of restart requests\<close>

fun ContainsValue :: "string \<Rightarrow> string list \<Rightarrow> bool" where
  "ContainsValue v [] = False"
| "ContainsValue v (x # xs) = (if v = x then True else ContainsValue v xs)"

text \<open>The inner loop of \<open>isOptimizePossible\<close>: the result is whether it broke off, and the list.\<close>

fun scan_queue :: "string \<Rightarrow> component list \<Rightarrow> string list \<Rightarrow> bool \<times> string list" where
  "scan_queue mspid [] seen = (False, seen)"
| "scan_queue mspid (c # q) seen =
     (if Status c = ''waiting'' then scan_queue mspid q seen
      else if ContainsValue (mspid @ CRName c) seen then (True, seen)
      else scan_queue mspid q (seen @ [mspid @ CRName c]))"

fun scan_queues :: "restart_config \<Rightarrow> string list \<Rightarrow> bool \<Rightarrow> string list \<Rightarrow> bool" where
  "scan_queues r [] canOptimize seen = canOptimize"
| "scan_queues r (m # ms) canOptimize seen =
     (let (found, seen) = scan_queue m (slice_of (Queues r) m) seen
      in scan_queues r ms (canOptimize \<or> found) seen)"

definition isOptimizePossible :: "restart_config \<Rightarrow> string list \<Rightarrow> bool" where
  "isOptimizePossible r ms = scan_queues r ms False []"

text \<open>The string-to-string maps of \<open>optimizedMap\<close>, with a field for each key the code uses.\<close>

record opt_entry =
  oe_reason :: string
  oe_status :: string
  oe_count :: string
  oe_checkuntil :: stamp
  oe_lastchecked :: stamp
  oe_podname :: string
  oe_mspid :: string

definition merge_component :: "string \<Rightarrow> component \<Rightarrow> opt_entry gomap \<Rightarrow> opt_entry gomap" where
  "merge_component mspid c m =
     (if Status c = ''waiting'' then
        AList.update (CRName c @ ''~wait'')
          \<lparr>oe_reason = Reason c, oe_status = Status c, oe_count = ''1'',
           oe_checkuntil = CheckUntilTimestamp c, oe_lastchecked = LastCheckedTimestamp c,
           oe_podname = PodName c, oe_mspid = mspid\<rparr> m
      else
        (case map_of m (CRName c) of
           Some e \<Rightarrow>
             if oe_status e \<noteq> ''waiting'' then
               AList.update (CRName c)
                 (e\<lparr>oe_count := itoa (fst (atoi (oe_count e)) + 1),
                    oe_reason := oe_reason e @ ''~'' @ Reason c,
                    oe_status := ''pending'', oe_mspid := mspid\<rparr>) m
             else
               AList.update (CRName c)
                 \<lparr>oe_reason = Reason c, oe_status = ''pending'', oe_count = ''1'',
                  oe_checkuntil = Raw '''', oe_lastchecked = Raw '''', oe_podname = '''',
                  oe_mspid = mspid\<rparr> m
         | None \<Rightarrow>
             AList.update (CRName c)
               \<lparr>oe_reason = Reason c, oe_status = ''pending'', oe_count = ''1'',
                oe_checkuntil = Raw '''', oe_lastchecked = Raw '''', oe_podname = '''',
                oe_mspid = mspid\<rparr> m))"

fun merge_queues :: "restart_config \<Rightarrow> string list \<Rightarrow> opt_entry gomap \<Rightarrow> opt_entry gomap" where
  "merge_queues r [] m = m"
| "merge_queues r (k # ks) m =
     merge_queues r ks (fold (merge_component k) (slice_of (Queues r) k) m)"

definition entry_component :: "string \<Rightarrow> opt_entry \<Rightarrow> component" where
  "entry_component k e =
     \<lparr>CRName = delete_all CHR ''~'' ''wait'' k, Reason = oe_reason e,
      CheckUntilTimestamp = oe_checkuntil e, LastCheckedTimestamp = oe_lastchecked e,
      Status = oe_status e, PodName = oe_podname e\<rparr>"

definition emit_component ::
  "string \<Rightarrow> component \<Rightarrow> component list gomap \<Rightarrow> component list gomap" where
  "emit_component mspid c f =
     (case map_of f mspid of
        None \<Rightarrow> AList.update mspid [c] f
      | Some q \<Rightarrow>
          AList.update mspid (if Status c = ''waiting'' then c # q else q @ [c]) f)"

fun emit_queue :: "opt_entry gomap \<Rightarrow> string \<Rightarrow> string list \<Rightarrow> component list gomap \<Rightarrow>
    component list gomap" where
  "emit_queue m mspid [] f = f"
| "emit_queue m mspid (k # ks) f =
     emit_queue m mspid ks
       (case map_of m k of
          Some e \<Rightarrow> if oe_mspid e = mspid then emit_component mspid (entry_component k e) f else f
        | None \<Rightarrow> f)"

text \<open>
  Two loops over the queues, and inside the second a loop over the merged entries for every MSP:
  three independent orders of visit.
\<close>

record visit =
  v_scan :: "component list gomap \<Rightarrow> string list"
  v_merge :: "component list gomap \<Rightarrow> string list"
  v_emit :: "component list gomap \<Rightarrow> string list"
  v_entries :: "string \<Rightarrow> opt_entry gomap \<Rightarrow> string list"
  v_front :: "component list gomap \<Rightarrow> string list"

definition any_visit :: "visit \<Rightarrow> bool" where
  "any_visit v \<longleftrightarrow> range_order (v_scan v) \<and> range_order (v_merge v) \<and> range_order (v_emit v) \<and>
     (\<forall>m. range_order (v_entries v m)) \<and> range_order (v_front v)"

fun emit_queues :: "visit \<Rightarrow> opt_entry gomap \<Rightarrow> string list \<Rightarrow> component list gomap \<Rightarrow>
    component list gomap" where
  "emit_queues v m [] f = f"
| "emit_queues v m (k # ks) f = emit_queues v m ks (emit_queue m k (v_entries v k m) f)"

definition optimizeRestart :: "visit \<Rightarrow> restart_config \<Rightarrow> restart_config" where
  "optimizeRestart v r =
     (let m = merge_queues r (v_merge v (Queues r)) []
      in r\<lparr>Queues := emit_queues v m (v_emit v (Queues r)) []\<rparr>)"

subsection \<open>Access to the cluster\<close>

definition config_name :: "string \<Rightarrow> string" where
  "config_name componentType = componentType @ ''-restart-config''"

definition GetConfig :: "'w env \<Rightarrow> string \<Rightarrow> string \<Rightarrow> 'w \<Rightarrow> restart_config go_result \<times> 'w" where
  "GetConfig env componentType namespace w =
     GetRestartConfigFrom env restart_config_of_json (config_name componentType) namespace
       empty_config w"

definition Svc_UpdateConfig ::
  "'w env \<Rightarrow> string \<Rightarrow> string \<Rightarrow> restart_config \<Rightarrow> 'w \<Rightarrow> unit go_result \<times> 'w" where
  "Svc_UpdateConfig env componentType namespace cfg w =
     UpdateConfig env restart_config_json (config_name componentType) namespace cfg w"

definition RestartDeployment :: "'w env \<Rightarrow> string \<Rightarrow> string \<Rightarrow> 'w \<Rightarrow> unit go_result \<times> 'w" where
  "RestartDeployment env name namespace w = action_Restart env name namespace w"

text \<open>The boolean and the error of \<open>CheckDeployments\<close>: a failing list call is only logged.\<close>

definition CheckDeployments ::
  "'w env \<Rightarrow> string \<Rightarrow> string \<Rightarrow> 'w \<Rightarrow> (bool \<times> go_error option) \<times> 'w" where
  "CheckDeployments env name namespace w =
     (case e_selector env (''app='' @ name) of
        Some e \<Rightarrow> ((False, Some (Wrapped ''failed to parse label selector for app name'' e)), w)
      | None \<Rightarrow>
          (case e_list_deployments env (''app='' @ name) namespace w of
             (Ok ds, w) \<Rightarrow> ((0 < length ds, None), w)
           | (_, w) \<Rightarrow> ((False, None), w)))"

definition pod_ready :: "pod \<Rightarrow> bool" where
  "pod_ready p \<longleftrightarrow> pod_phase p = ''Running'' \<and>
     length (filter (\<lambda>s. cs_ready s \<and> cs_running s) (pod_containers p)) = length (pod_containers p)"

definition GetRunningPods :: "'w env \<Rightarrow> string \<Rightarrow> string \<Rightarrow> 'w \<Rightarrow> pod list go_result \<times> 'w" where
  "GetRunningPods env name namespace w =
     (case e_selector env (''app='' @ name) of
        Some e \<Rightarrow> (Fail (Wrapped ''failed to parse label selector for app name'' e), w)
      | None \<Rightarrow>
          (case e_list_pods env (''app='' @ name) namespace w of
             (Ok ps, w) \<Rightarrow> (Ok (filter pod_ready ps), w)
           | (_, w) \<Rightarrow> (Ok [], w)))"

definition randomInt :: "'w env \<Rightarrow> int \<Rightarrow> int \<Rightarrow> 'w \<Rightarrow> int \<times> 'w" where
  "randomInt env lo hi w = (let (n, w) = e_random env (hi - lo) w in (n + lo, w))"

end
