(* ===== verification/RestartService.thy ===== *)
theory RestartService
  imports RestartQueue
begin

text \<open>
  The operations of \<open>StaggerRestartsService\<close> on the queues of \<open>RestartQueue\<close>: adding requests,
  restarting a console at once, and \<open>Reconcile\<close>, which handles the front of every queue.  The
  handler of one front is \<open>reconcile_front\<close>; its cases are the cases of the code's \<open>switch\<close>.
\<close>

subsection \<open>Instances and requests\<close>

datatype kind = KCA | KPeer | KOrderer | KConsole

record inst =
  inst_kind :: kind
  inst_name :: string
  inst_namespace :: string
  inst_mspid :: string

fun component_type :: "kind \<Rightarrow> string" where
  "component_type KCA = ''ca''"
| "component_type KOrderer = ''orderer''"
| "component_type KPeer = ''peer''"
| "component_type KConsole = ''''"

definition addToQueue :: "'w env \<Rightarrow> string \<Rightarrow> inst \<Rightarrow> string \<Rightarrow> 'w \<Rightarrow> unit go_result \<times> 'w" where
  "addToQueue env componentType i reason w =
     (let c = zero_component\<lparr>CRName := inst_name i, Reason := reason, Status := Pending\<rparr>
      in bind_r (GetConfig env componentType (inst_namespace i) w) (\<lambda>cfg w.
         Svc_UpdateConfig env componentType (inst_namespace i) (AddToQueue (inst_mspid i) c cfg) w))"

text \<open>
  \<open>wait.Poll\<close> calls the condition until it answers true, at most as often as the interval fits
  the timeout; how often that is (\<open>n\<close>) is up to the library.  The condition swallows errors.
\<close>

fun poll :: "nat \<Rightarrow> ('w \<Rightarrow> bool \<times> 'w) \<Rightarrow> 'w \<Rightarrow> unit go_result \<times> 'w" where
  "poll 0 cond w = (Fail (Plain ''timed out waiting for the condition''), w)"
| "poll (Suc n) cond w = (case cond w of (True, w) \<Rightarrow> (Ok (), w) | (False, w) \<Rightarrow> poll n cond w)"

definition Svc_AddToQueue :: "'w env \<Rightarrow> nat \<Rightarrow> inst \<Rightarrow> string \<Rightarrow> 'w \<Rightarrow> unit go_result \<times> 'w" where
  "Svc_AddToQueue env n i reason w =
     wrap_err (''failed to add '' @ inst_name i @ '' to queue'')
       (poll n (\<lambda>w. case addToQueue env (component_type (inst_kind i)) i reason w of
                       (Ok (), w) \<Rightarrow> (True, w) | (_, w) \<Rightarrow> (False, w)) w)"

definition RestartImmediately ::
  "'w env \<Rightarrow> string \<Rightarrow> inst \<Rightarrow> string \<Rightarrow> 'w \<Rightarrow> unit go_result \<times> 'w" where
  "RestartImmediately env componentType i reason w =
     bind_r (RestartDeployment env (inst_name i) (inst_namespace i) w) (\<lambda>_ w.
       let (now, w) = e_now env w;
           c = zero_component\<lparr>CRName := inst_name i, Reason := reason, Status := Restarted,
                              LastCheckedTimestamp := Stamp now\<rparr>
       in bind_r (GetConfig env componentType (inst_namespace i) w) (\<lambda>cfg w.
            Svc_UpdateConfig env componentType (inst_namespace i) (AddToLog c cfg) w))"

definition Restart :: "'w env \<Rightarrow> nat \<Rightarrow> inst \<Rightarrow> string \<Rightarrow> 'w \<Rightarrow> unit go_result \<times> 'w" where
  "Restart env n i reason w =
     (case inst_kind i of
        KConsole \<Rightarrow>
          wrap_err (''failed to restart '' @ inst_name i)
            (RestartImmediately env ''console'' i reason w)
      | _ \<Rightarrow>
          wrap_err (''failed to add restart request to queue for '' @ inst_name i)
            (Svc_AddToQueue env n i reason w))"

subsection \<open>The front of one queue\<close>

text \<open>The local variables of the loop: the configuration, \<open>updated\<close> and \<open>requeue\<close>.\<close>

type_synonym rstate = "restart_config \<times> bool \<times> bool"

text \<open>Move the (already updated) front to the log.\<close>

definition log_and_pop :: "string \<Rightarrow> component \<Rightarrow> restart_config \<Rightarrow> restart_config go_result" where
  "log_and_pop mspid c r = PopFromQueue mspid (AddToLog c (set_front mspid c r))"

definition reconcile_pending ::
  "'w env \<Rightarrow> int \<Rightarrow> string \<Rightarrow> string \<Rightarrow> component \<Rightarrow> rstate \<Rightarrow> 'w \<Rightarrow> rstate go_result \<times> 'w" where
  "reconcile_pending env timeout namespace mspid c st w =
     (case st of (r, updated, requeue) \<Rightarrow>
        bind_r (wrap_err (''failed to get running pods for '' @ CRName c)
                  (GetRunningPods env (CRName c) namespace w)) (\<lambda>pods w.
          let c = (if 0 < length pods then c\<lparr>PodName := pod_name (pods ! 0)\<rparr> else c);
              ((deployExists, _), w) = CheckDeployments env (CRName c) namespace w
          in if deployExists then
               bind_r (wrap_err (''failed to restart deployment '' @ CRName c)
                         (RestartDeployment env (CRName c) namespace w)) (\<lambda>_ w.
                 let (t1, w) = e_now env w;
                     (t2, w) = e_now env w;
                     c = c\<lparr>Status := Waiting, LastCheckedTimestamp := Stamp t1,
                           CheckUntilTimestamp := Stamp (t2 + timeout)\<rparr>
                 in (Ok (set_front mspid c r, True, requeue), w))
             else
               let (t1, w) = e_now env w;
                   (t2, w) = e_now env w;
                   c = c\<lparr>Status := Deleted, LastCheckedTimestamp := Stamp t1,
                         CheckUntilTimestamp := Stamp (t2 + timeout)\<rparr>
               in (seq_r (log_and_pop mspid c r) (\<lambda>r. Ok (r, True, requeue)), w)))"

definition reconcile_waiting ::
  "'w env \<Rightarrow> string \<Rightarrow> string \<Rightarrow> component \<Rightarrow> rstate \<Rightarrow> 'w \<Rightarrow> rstate go_result \<times> 'w" where
  "reconcile_waiting env namespace mspid c st w =
     (case st of (r, updated, requeue) \<Rightarrow>
        bind_r (wrap_err (''failed to get running pods for '' @ CRName c)
                  (GetRunningPods env (CRName c) namespace w)) (\<lambda>pods w.
          if length pods = 1 \<and> PodName c \<noteq> pod_name (pods ! 0) then
            (seq_r (log_and_pop mspid (c\<lparr>Status := Completed\<rparr>) r) (\<lambda>r. Ok (r, True, requeue)), w)
          else
            bind_r (wrap_err ''failed to parse checkUntilTimestamp''
                      (parse_stamp (CheckUntilTimestamp c), w)) (\<lambda>checkUntil w.
              let (now, w) = e_now env w
              in if checkUntil < now then
                   (seq_r (log_and_pop mspid (c\<lparr>Status := Expired\<rparr>) r)
                      (\<lambda>r. Ok (r, True, requeue)), w)
                 else
                   let (n, w) = randomInt env 10 30 w;
                       interval = n * second
                   in bind_r (wrap_err ''failed to parse lastCheckedTimestamp''
                               (parse_stamp (LastCheckedTimestamp c), w)) (\<lambda>lastChecked w.
                        let (now, w) = e_now env w
                        in if lastChecked + interval < now then
                             let (now, w) = e_now env w
                             in (Ok (set_front mspid (c\<lparr>LastCheckedTimestamp := Stamp now\<rparr>) r,
                                     True, requeue), w)
                           else (Ok (r, updated, True), w)))))"

definition reconcile_front ::
  "'w env \<Rightarrow> int \<Rightarrow> string \<Rightarrow> string \<Rightarrow> rstate \<Rightarrow> 'w \<Rightarrow> rstate go_result \<times> 'w" where
  "reconcile_front env timeout namespace mspid st w =
     (case st of (r, updated, requeue) \<Rightarrow>
        (case slice_of (Queues r) mspid of
           [] \<Rightarrow> (Ok st, w)
         | c # _ \<Rightarrow>
             if Status c = Pending then reconcile_pending env timeout namespace mspid c st w
             else if Status c = Waiting then reconcile_waiting env namespace mspid c st w
             else (seq_r (log_and_pop mspid c r) (\<lambda>r. Ok (r, True, requeue)), w)))"

fun reconcile_fronts ::
  "'w env \<Rightarrow> int \<Rightarrow> string \<Rightarrow> string list \<Rightarrow> rstate \<Rightarrow> 'w \<Rightarrow> rstate go_result \<times> 'w" where
  "reconcile_fronts env timeout namespace [] st w = (Ok st, w)"
| "reconcile_fronts env timeout namespace (m # ms) st w =
     bind_r (reconcile_front env timeout namespace m st w)
       (\<lambda>st w. reconcile_fronts env timeout namespace ms st w)"

text \<open>An error makes the code return the requeue flag beside it; the callers drop that flag.\<close>

definition Reconcile ::
  "'w env \<Rightarrow> visit \<Rightarrow> int \<Rightarrow> string \<Rightarrow> string \<Rightarrow> 'w \<Rightarrow> bool go_result \<times> 'w" where
  "Reconcile env v timeout componentType namespace w =
     bind_r (GetConfig env componentType namespace w) (\<lambda>r w.
     bind_r (if isOptimizePossible r (v_scan v (Queues r)) then
               (let r = optimizeRestart v r
                in bind_r (Svc_UpdateConfig env componentType namespace r w) (\<lambda>_ w. (Ok r, w)))
             else (Ok r, w)) (\<lambda>r w.
     bind_r (reconcile_fronts env timeout namespace (v_front v (Queues r)) (r, False, False) w)
       (\<lambda>(r, updated, requeue) w.
         if updated then
           bind_r (Svc_UpdateConfig env componentType namespace r w) (\<lambda>_ w. (Ok requeue, w))
         else (Ok requeue, w))))"

end
