(* ===== verification/RestartFacts.thy ===== *)
theory RestartFacts
  imports RestartService
begin

text \<open>
  Facts about the restart queues: the laws of the queue operations, the step relation that one call
  of the front handler takes, and what follows for a whole \<open>Reconcile\<close>.
\<close>

subsection \<open>Laws of the operations\<close>

lemma queue_ops [simp]:
  "Queues (AddToLog c r) = Queues r"
  "Log (AddToQueue m c r) = Log r"
  "Log (set_front m c r) = Log r"
  "slice_of (Queues (AddToQueue m c r)) m' =
     (if m' = m then slice_of (Queues r) m @ [c] else slice_of (Queues r) m')"
  "slice_of (Log (AddToLog c r)) n =
     (if n = CRName c then slice_of (Log r) n @ [c] else slice_of (Log r) n)"
  "slice_of (Queues (set_front m c r)) m' =
     (if m' = m then c # tl (slice_of (Queues r) m) else slice_of (Queues r) m')"
  by (simp_all add: AddToLog_def AddToQueue_def set_front_def)

lemma wf_ops [simp]:
  "wf_restart_config r \<Longrightarrow> wf_restart_config (AddToLog c r)"
  "wf_restart_config r \<Longrightarrow> wf_restart_config (AddToQueue m c r)"
  "wf_restart_config r \<Longrightarrow> wf_restart_config (set_front m c r)"
  by (simp_all add: wf_restart_config_def AddToLog_def AddToQueue_def set_front_def distinct_update)

text \<open>The front leaves for the log; its queue was not empty, so the slice expression is fine.\<close>

definition moved :: "string \<Rightarrow> component \<Rightarrow> restart_config \<Rightarrow> restart_config" where
  "moved m c r = (AddToLog c r)\<lparr>Queues := AList.update m (tl (slice_of (Queues r) m)) (Queues r)\<rparr>"

lemma update_twice: "AList.update k v (AList.update k u m) = AList.update k v m"
  by (induction m) auto

lemma log_and_pop_moved: "log_and_pop m c r = Ok (moved m c r)"
  by (simp add: log_and_pop_def PopFromQueue_def moved_def)
    (simp add: AddToLog_def set_front_def update_twice)

lemma moved_simps [simp]:
  "slice_of (Queues (moved m c r)) m' =
     (if m' = m then tl (slice_of (Queues r) m) else slice_of (Queues r) m')"
  "slice_of (Log (moved m c r)) n =
     (if n = CRName c then slice_of (Log r) n @ [c] else slice_of (Log r) n)"
  "wf_restart_config r \<Longrightarrow> wf_restart_config (moved m c r)"
  by (simp_all add: moved_def AddToLog_def wf_restart_config_def distinct_update)

lemma PopFromQueue_ok:
  "slice_of (Queues r) m = c # q \<Longrightarrow> \<exists>r'. PopFromQueue m r = Ok r' \<and> Log r' = Log r \<and>
     slice_of (Queues r') m = q \<and> (\<forall>m'. m' \<noteq> m \<longrightarrow> slice_of (Queues r') m' = slice_of (Queues r) m')"
  by (simp add: PopFromQueue_def)

subsection \<open>The step relation of a front\<close>

text \<open>How a request changes while it stays at the front, and when it leaves.\<close>

inductive stays :: "component \<Rightarrow> component \<Rightarrow> bool" where
  restarted: "Status c = Pending \<Longrightarrow>
     stays c (c\<lparr>PodName := p, Status := Waiting, LastCheckedTimestamp := Stamp t,
                CheckUntilTimestamp := Stamp u\<rparr>)"
| checked: "Status c = Waiting \<Longrightarrow> stays c (c\<lparr>LastCheckedTimestamp := Stamp t\<rparr>)"
| unchanged: "Status c = Waiting \<Longrightarrow> stays c c"

inductive leaves :: "component \<Rightarrow> component \<Rightarrow> bool" where
  gone: "Status c = Pending \<Longrightarrow>
     leaves c (c\<lparr>PodName := p, Status := Deleted, LastCheckedTimestamp := Stamp t,
                 CheckUntilTimestamp := Stamp u\<rparr>)"
| completed: "Status c = Waiting \<Longrightarrow> leaves c (c\<lparr>Status := Completed\<rparr>)"
| expired: "Status c = Waiting \<Longrightarrow> leaves c (c\<lparr>Status := Expired\<rparr>)"
| stale: "Status c \<noteq> Pending \<Longrightarrow> Status c \<noteq> Waiting \<Longrightarrow> leaves c c"

inductive front_step :: "string \<Rightarrow> restart_config \<Rightarrow> restart_config \<Rightarrow> bool" where
  idle: "slice_of (Queues r) m = [] \<Longrightarrow> front_step m r r"
| stay: "slice_of (Queues r) m = c # q \<Longrightarrow> stays c c' \<Longrightarrow> front_step m r (set_front m c' r)"
| same: "slice_of (Queues r) m = c # q \<Longrightarrow> Status c = Waiting \<Longrightarrow> front_step m r r"
| leave: "slice_of (Queues r) m = c # q \<Longrightarrow> leaves c c' \<Longrightarrow> front_step m r (moved m c' r)"

inductive_cases staysE: "stays c c'"
inductive_cases leavesE: "leaves c c'"
inductive_cases front_stepE: "front_step m r r'"

lemma stays_name [simp]: "stays c c' \<Longrightarrow> CRName c' = CRName c \<and> Reason c' = Reason c \<and> Status c' = Waiting"
  by (auto elim: staysE)

lemma leaves_name [simp]: "leaves c c' \<Longrightarrow> CRName c' = CRName c \<and> Reason c' = Reason c"
  by (auto elim: leavesE)

lemma leaves_status: "leaves c c' \<Longrightarrow> Status c' \<noteq> Pending \<and> Status c' \<noteq> Waiting"
  by (auto elim!: leavesE)

lemma pending_steps:
  assumes "slice_of (Queues r) m = c # cs" and "Status c = Pending"
  shows "front_step m r (set_front m (c\<lparr>PodName := p, Status := Waiting,
           LastCheckedTimestamp := Stamp t, CheckUntilTimestamp := Stamp u\<rparr>) r)"
    and "front_step m r (moved m (c\<lparr>PodName := p, Status := Deleted,
           LastCheckedTimestamp := Stamp t, CheckUntilTimestamp := Stamp u\<rparr>) r)"
  using assms by (blast intro: front_step.intros leaves.intros stays.intros)+

lemma pending_steps_same_pod:
  assumes "slice_of (Queues r) m = c # cs" and "Status c = Pending"
  shows "front_step m r (set_front m (c\<lparr>Status := Waiting,
           LastCheckedTimestamp := Stamp t, CheckUntilTimestamp := Stamp u\<rparr>) r)"
    and "front_step m r (moved m (c\<lparr>Status := Deleted,
           LastCheckedTimestamp := Stamp t, CheckUntilTimestamp := Stamp u\<rparr>) r)"
  using pending_steps [OF assms, where p = "PodName c"] by simp_all

lemma reconcile_pending_step:
  assumes "reconcile_pending env timeout ns m c (r, u, q) w = (Ok (r', u', q'), w')"
    and "slice_of (Queues r) m = c # cs" and "Status c = Pending"
  shows "front_step m r r' \<and> u' \<and> q' = q"
  using assms(1) pending_steps [OF assms(2,3)] pending_steps_same_pod [OF assms(2,3)]
  by (auto simp: reconcile_pending_def Let_def log_and_pop_moved
      split: prod.splits if_splits elim!: bind_r_OkE)

lemma waiting_steps:
  assumes "slice_of (Queues r) m = c # cs" and "Status c = Waiting"
  shows "front_step m r (moved m (c\<lparr>Status := Completed\<rparr>) r)"
    and "front_step m r (moved m (c\<lparr>Status := Expired\<rparr>) r)"
    and "front_step m r (set_front m (c\<lparr>LastCheckedTimestamp := Stamp t\<rparr>) r)"
    and "front_step m r r"
  using assms by (blast intro: front_step.intros leaves.intros stays.intros)+

lemma reconcile_waiting_step:
  assumes "reconcile_waiting env ns m c (r, u, q) w = (Ok (r', u', q'), w')"
    and "slice_of (Queues r) m = c # cs" and "Status c = Waiting"
  shows "front_step m r r' \<and> (u' \<and> q' = q \<or> r' = r \<and> u' = u \<and> q')"
  using assms(1) waiting_steps [OF assms(2,3)]
  by (auto simp: reconcile_waiting_def Let_def log_and_pop_moved
      split: prod.splits if_splits elim!: bind_r_OkE)

lemma reconcile_front_step:
  assumes "reconcile_front env timeout ns m (r, u, q) w = (Ok (r', u', q'), w')"
  shows "front_step m r r' \<and>
    (if slice_of (Queues r) m = [] then u' = u \<and> q' = q
     else u' \<and> q' = q \<or> r' = r \<and> u' = u \<and> q')"
proof (cases "slice_of (Queues r) m")
  case Nil
  with assms show ?thesis by (auto simp: reconcile_front_def intro: front_step.idle)
next
  case (Cons c cs)
  consider "Status c = Pending" | "Status c = Waiting" | "Status c \<noteq> Pending" "Status c \<noteq> Waiting"
    by blast
  then show ?thesis
  proof cases
    case 1
    with assms Cons have "reconcile_pending env timeout ns m c (r, u, q) w = (Ok (r', u', q'), w')"
      by (simp add: reconcile_front_def)
    from reconcile_pending_step [OF this Cons 1] Cons show ?thesis by simp
  next
    case 2
    with assms Cons have "reconcile_waiting env ns m c (r, u, q) w = (Ok (r', u', q'), w')"
      by (simp add: reconcile_front_def)
    from reconcile_waiting_step [OF this Cons 2] Cons show ?thesis by simp
  next
    case 3
    with assms Cons show ?thesis
      by (auto simp: reconcile_front_def log_and_pop_moved intro: front_step.leave leaves.stale)
  qed
qed

lemma reconcile_fronts_step:
  assumes "reconcile_fronts env timeout ns ms (r, u, q) w = (Ok (r', u', q'), w')"
  obtains (front) r1 u1 q1 w1 m ms' where "ms = m # ms'" and "front_step m r r1"
      and "reconcile_fronts env timeout ns ms' (r1, u1, q1) w1 = (Ok (r', u', q'), w')"
  | (finished) "ms = []" "r' = r" "u' = u" "q' = q"
proof (cases ms)
  case Nil
  with assms finished show ?thesis by simp
next
  case (Cons m ms')
  with assms obtain st1 w1 where 1: "reconcile_front env timeout ns m (r, u, q) w = (Ok st1, w1)"
    and 2: "reconcile_fronts env timeout ns ms' st1 w1 = (Ok (r', u', q'), w')"
    by (auto elim: bind_r_OkE)
  obtain r1 u1 q1 where st1: "st1 = (r1, u1, q1)" by (cases st1) auto
  from reconcile_front_step [OF 1 [unfolded st1]] have "front_step m r r1" by blast
  with Cons 2 st1 front show ?thesis by blast
qed

text \<open>What every front step keeps, the pass over all queues keeps.\<close>

lemma reconcile_fronts_invariant:
  assumes "reconcile_fronts env timeout ns ms (r, u, q) w = (Ok (r', u', q'), w')" and "P r"
    and "\<And>m r r'. m \<in> set ms \<Longrightarrow> front_step m r r' \<Longrightarrow> P r \<Longrightarrow> P r'"
  shows "P r'"
  using assms
proof (induction ms arbitrary: r u q w)
  case Nil
  then show ?case by simp
next
  case (Cons m ms)
  from Cons.prems(1) show ?case
  proof (cases rule: reconcile_fronts_step)
    case (front r1 u1 q1 w1 m' ms')
    with Cons.prems have "P r1" by auto
    with front Cons.IH [of r1 u1 q1 w1] Cons.prems(3) show ?thesis by auto
  qed simp
qed

subsection \<open>Staggering: one waiting component per queue, at the front\<close>

definition staggered :: "restart_config \<Rightarrow> bool" where
  "staggered r \<longleftrightarrow> (\<forall>m. \<forall>c \<in> set (tl (slice_of (Queues r) m)). Status c \<noteq> Waiting)"

lemma staggered_empty [simp]: "staggered empty_config"
  by (simp add: staggered_def empty_config_def)

lemma staggeredD:
  "staggered r \<Longrightarrow> slice_of (Queues r) m = c # q \<Longrightarrow> d \<in> set q \<Longrightarrow> Status d \<noteq> Waiting"
  unfolding staggered_def by (metis list.sel(3))

lemma staggeredI:
  assumes "\<And>m c q d. slice_of (Queues r) m = c # q \<Longrightarrow> d \<in> set q \<Longrightarrow> Status d \<noteq> Waiting"
  shows "staggered r"
  unfolding staggered_def
proof (intro allI ballI)
  fix m d
  assume "d \<in> set (tl (slice_of (Queues r) m))"
  then obtain c q where "slice_of (Queues r) m = c # q" "d \<in> set q"
    by (cases "slice_of (Queues r) m") auto
  then show "Status d \<noteq> Waiting" by (rule assms)
qed

lemma staggered_AddToQueue:
  "staggered r \<Longrightarrow> Status c \<noteq> Waiting \<Longrightarrow> staggered (AddToQueue m c r)"
  by (rule staggeredI) (auto simp: append_eq_Cons_conv split: if_splits dest: staggeredD)

lemma front_step_staggered: "front_step m r r' \<Longrightarrow> staggered r \<Longrightarrow> staggered r'"
proof (induction rule: front_step.induct)
  case (leave r m c q c')
  then have "Status d \<noteq> Waiting" if "d \<in> set q" for d using that by (blast dest: staggeredD)
  with leave show ?case by (intro staggeredI) (auto split: if_splits dest: staggeredD)
qed (auto intro!: staggeredI split: if_splits dest: staggeredD)

lemma front_step_wf: "front_step m r r' \<Longrightarrow> wf_restart_config r \<Longrightarrow> wf_restart_config r'"
  by (induction rule: front_step.induct) auto

text \<open>A front step touches one queue, and there only the front.\<close>

lemma front_step_frame [frame]:
  "front_step m r r' \<Longrightarrow> m' \<noteq> m \<Longrightarrow> slice_of (Queues r') m' = slice_of (Queues r) m'"
  by (induction rule: front_step.induct) auto

lemma front_step_tail:
  "front_step m r r' \<Longrightarrow> slice_of (Queues r) m = c # q \<Longrightarrow>
     (\<exists>c'. slice_of (Queues r') m = c' # q \<and> CRName c' = CRName c) \<or> slice_of (Queues r') m = q"
  by (induction rule: front_step.induct) auto

lemma front_step_log:
  "front_step m r r' \<Longrightarrow> \<exists>cs. slice_of (Log r') n = slice_of (Log r) n @ cs"
  by (induction rule: front_step.induct) auto

subsection \<open>No request is lost\<close>

definition names_in :: "component list gomap \<Rightarrow> string multiset" where
  "names_in m = mset (map CRName (concat (map snd m)))"

lemma names_in_update:
  "distinct (keys m) \<Longrightarrow>
     names_in (AList.update k q m) + mset (map CRName (slice_of m k)) =
     names_in m + mset (map CRName q)"
proof (induction m)
  case Nil
  show ?case by (simp add: names_in_def)
next
  case (Cons kv m)
  obtain k' v where kv: "kv = (k', v)" by (cases kv)
  show ?case
  proof (cases "k' = k")
    case True
    with kv show ?thesis by (simp add: names_in_def slice_of_def)
  next
    case False
    with Cons kv show ?thesis by (simp add: names_in_def slice_of_def add.assoc)
  qed
qed

definition requests :: "restart_config \<Rightarrow> string multiset" where
  "requests r = names_in (Queues r) + names_in (Log r)"

lemma requests_set_front:
  assumes "wf_restart_config r" "slice_of (Queues r) m = c # q" "CRName c' = CRName c"
  shows "requests (set_front m c' r) = requests r"
  using names_in_update [of "Queues r" m "c' # q"] assms
  by (simp add: requests_def set_front_def wf_restart_config_def)

lemma requests_moved:
  assumes "wf_restart_config r" "slice_of (Queues r) m = c # q" "CRName c' = CRName c"
  shows "requests (moved m c' r) = requests r"
proof -
  have q: "names_in (Queues (moved m c' r)) + {#CRName c#} = names_in (Queues r)"
    using names_in_update [of "Queues r" m q] assms
    by (simp add: moved_def wf_restart_config_def)
  have l: "names_in (Log (moved m c' r)) = names_in (Log r) + {#CRName c#}"
    using names_in_update [of "Log r" "CRName c'" "slice_of (Log r) (CRName c') @ [c']"] assms
    by (simp add: moved_def AddToLog_def wf_restart_config_def)
  from q l show ?thesis by (simp add: requests_def flip: q)
qed

lemma front_step_requests:
  "front_step m r r' \<Longrightarrow> wf_restart_config r \<Longrightarrow> requests r' = requests r"
  by (induction rule: front_step.induct) (simp_all add: requests_set_front requests_moved)

lemma requests_AddToQueue:
  assumes "wf_restart_config r"
  shows "requests (AddToQueue m c r) = requests r + {#CRName c#}"
  using names_in_update [of "Queues r" m "slice_of (Queues r) m @ [c]"] assms
  by (simp add: requests_def AddToQueue_def wf_restart_config_def)

end
