(* ===== verification/RestartMerge.thy ===== *)
theory RestartMerge
  imports RestartFacts
begin

text \<open>
  Facts about the merging of requests, \<open>isOptimizePossible\<close> and \<open>optimizeRestart\<close>, for every order
  in which the Go maps may be visited: when merging is found possible, that a merged
  configuration keeps the staggering invariant, and that no component is forgotten.
\<close>

subsection \<open>When merging is possible\<close>

definition scan_keys :: "string \<Rightarrow> component list \<Rightarrow> string list" where
  "scan_keys m q = map (\<lambda>c. m @ CRName c) (filter (\<lambda>c. Status c \<noteq> Waiting) q)"

lemma ContainsValue_set: "ContainsValue v xs \<longleftrightarrow> v \<in> set xs"
  by (induction xs) auto

lemma scan_queue_spec:
  "distinct seen \<Longrightarrow>
     (if distinct (seen @ scan_keys m q) then scan_queue m q seen = (False, seen @ scan_keys m q)
      else fst (scan_queue m q seen))"
proof (induction q arbitrary: seen)
  case Nil
  then show ?case by (simp add: scan_keys_def)
next
  case (Cons c q)
  show ?case
  proof (cases "Status c = Waiting")
    case True
    with Cons show ?thesis by (simp add: scan_keys_def)
  next
    case False
    show ?thesis
    proof (cases "m @ CRName c \<in> set seen")
      case True
      with False show ?thesis by (simp add: scan_keys_def ContainsValue_set)
    next
      case new: False
      from new Cons.prems have "distinct (seen @ [m @ CRName c])" by simp
      note IH = Cons.IH [OF this]
      from False new have "scan_queue m (c # q) seen = scan_queue m q (seen @ [m @ CRName c])"
        by (simp add: ContainsValue_set)
      moreover from False have "scan_keys m (c # q) = [m @ CRName c] @ scan_keys m q"
        by (simp add: scan_keys_def)
      ultimately show ?thesis using IH by (simp only: append_assoc)
    qed
  qed
qed

lemma scan_queues_found: "scan_queues r ms True seen"
  by (induction ms arbitrary: seen) (auto split: prod.splits)

lemma scan_queues_spec:
  "distinct seen \<Longrightarrow> scan_queues r ms False seen \<longleftrightarrow>
     \<not> distinct (seen @ concat (map (\<lambda>m. scan_keys m (slice_of (Queues r) m)) ms))"
proof (induction ms arbitrary: seen)
  case Nil
  then show ?case by simp
next
  case (Cons m ms)
  let ?ks = "scan_keys m (slice_of (Queues r) m)"
  show ?case
  proof (cases "distinct (seen @ ?ks)")
    case True
    with scan_queue_spec [OF Cons.prems, of m "slice_of (Queues r) m"]
    have "scan_queue m (slice_of (Queues r) m) seen = (False, seen @ ?ks)" by simp
    with Cons.IH [OF True] show ?thesis by simp
  next
    case False
    with scan_queue_spec [OF Cons.prems, of m "slice_of (Queues r) m"]
    have "fst (scan_queue m (slice_of (Queues r) m) seen)" by (auto split: if_splits)
    with False show ?thesis by (auto simp: scan_queues_found split: prod.splits)
  qed
qed

lemma isOptimizePossible_iff:
  "isOptimizePossible r ms \<longleftrightarrow>
     \<not> distinct (concat (map (\<lambda>m. scan_keys m (slice_of (Queues r) m)) ms))"
  by (simp add: isOptimizePossible_def scan_queues_spec)

lemma isOptimizePossible_order:
  assumes "mset ms = mset ms'"
  shows "isOptimizePossible r ms = isOptimizePossible r ms'"
proof -
  let ?f = "\<lambda>m. scan_keys m (slice_of (Queues r) m)"
  have sum: "mset (concat (map ?f l)) = (\<Sum>x\<in>#mset l. mset (?f x))" for l
    by (induction l) simp_all
  have "mset (concat (map ?f ms)) = mset (concat (map ?f ms'))"
    by (simp only: sum assms)
  from mset_eq_imp_distinct_iff [OF this] show ?thesis by (simp only: isOptimizePossible_iff)
qed

subsection \<open>Merged entries\<close>

text \<open>At most one waiting entry for an MSP.\<close>

definition waits_for :: "opt_entry gomap \<Rightarrow> string \<Rightarrow> string \<Rightarrow> bool" where
  "waits_for m k d \<longleftrightarrow> (\<exists>e. map_of m k = Some e \<and> oe_status e = Waiting \<and> oe_mspid e = d)"

definition one_wait :: "opt_entry gomap \<Rightarrow> bool" where
  "one_wait m \<longleftrightarrow> (\<forall>k k' d. waits_for m k d \<longrightarrow> waits_for m k' d \<longrightarrow> k = k')"

lemma waits_for_update:
  "waits_for (AList.update k e m) k' d \<longleftrightarrow>
     (if k' = k then oe_status e = Waiting \<and> oe_mspid e = d else waits_for m k' d)"
  by (simp add: waits_for_def update_conv')

lemma waits_for_pending:
  "Status c \<noteq> Waiting \<Longrightarrow> waits_for (merge_component s c m) k d \<Longrightarrow> waits_for m k d"
  by (cases "map_of m (CRName c)")
    (simp_all add: merge_component_def waits_for_update split: if_splits)

lemma waits_for_waiting:
  "Status c = Waiting \<Longrightarrow> waits_for (merge_component s c m) k d \<longleftrightarrow>
     (if k = CRName c @ ''~wait'' then d = s else waits_for m k d)"
  by (auto simp: merge_component_def waits_for_update)

lemma waits_for_pendings:
  "\<forall>c \<in> set q. Status c \<noteq> Waiting \<Longrightarrow> waits_for (fold (merge_component s) q m) k d \<Longrightarrow> waits_for m k d"
  by (induction q arbitrary: m) (auto dest: waits_for_pending)

lemma merge_queue_waits:
  assumes "\<forall>c \<in> set (tl q). Status c \<noteq> Waiting"
    and "waits_for (fold (merge_component s) q m) k d"
  shows "waits_for m k d \<or> d = s \<and> q \<noteq> [] \<and> k = CRName (hd q) @ ''~wait''"
proof (cases q)
  case Nil
  with assms show ?thesis by simp
next
  case (Cons c cs)
  with assms have "waits_for (merge_component s c m) k d" by (auto dest: waits_for_pendings)
  with Cons show ?thesis
    by (cases "Status c = Waiting") (auto simp: waits_for_waiting split: if_splits dest: waits_for_pending)
qed

lemma merge_queues_one_wait:
  assumes "staggered r" "distinct ks" "one_wait m" "\<And>k d. waits_for m k d \<Longrightarrow> d \<notin> set ks"
  shows "one_wait (merge_queues r ks m)"
  using assms(2-)
proof (induction ks arbitrary: m)
  case Nil
  then show ?case by simp
next
  case (Cons s ks)
  let ?q = "slice_of (Queues r) s"
  let ?m = "fold (merge_component s) ?q m"
  have tl: "\<forall>c \<in> set (tl ?q). Status c \<noteq> Waiting"
    using assms(1) by (simp add: staggered_def)
  note waits = merge_queue_waits [OF tl, of s m]
  have "one_wait ?m"
    unfolding one_wait_def
  proof (intro allI impI)
    fix k k' d
    assume kd: "waits_for ?m k d" "waits_for ?m k' d"
    have old: "\<not> waits_for m j s" for j using Cons.prems(3) [of j s] by auto
    from waits [OF kd(1)] waits [OF kd(2)] old Cons.prems(2) show "k = k'"
      unfolding one_wait_def by blast
  qed
  moreover have "d \<notin> set ks" if "waits_for ?m k d" for k d
    using waits [OF that] Cons.prems(1,3) by auto
  ultimately show ?case using Cons.IH Cons.prems(1) by simp
qed

subsection \<open>Emitted queues\<close>

definition waits_first :: "component list \<Rightarrow> bool" where
  "waits_first q \<longleftrightarrow>
     (\<exists>ws ps. q = ws @ ps \<and> (\<forall>c \<in> set ws. Status c = Waiting) \<and> (\<forall>c \<in> set ps. Status c \<noteq> Waiting))"

definition waiting_count :: "component list \<Rightarrow> nat" where
  "waiting_count q = length (filter (\<lambda>c. Status c = Waiting) q)"

lemma waits_first_Nil [simp]: "waits_first []"
  by (simp add: waits_first_def)

lemma waits_firstI:
  "q = ws @ ps \<Longrightarrow> \<forall>c \<in> set ws. Status c = Waiting \<Longrightarrow> \<forall>c \<in> set ps. Status c \<noteq> Waiting \<Longrightarrow>
     waits_first q"
  by (auto simp: waits_first_def)

lemma waits_first_push: "waits_first q \<Longrightarrow> Status c = Waiting \<Longrightarrow> waits_first (c # q)"
  unfolding waits_first_def [of q] by (elim exE conjE) (rule waits_firstI [of _ "c # ws" for ws], auto)

lemma waits_first_snoc: "waits_first q \<Longrightarrow> Status c \<noteq> Waiting \<Longrightarrow> waits_first (q @ [c])"
  unfolding waits_first_def [of q] by (elim exE conjE) (rule waits_firstI [of _ _ "ps @ [c]" for ps], auto)

lemma waits_first_tail:
  assumes "waits_first q" "waiting_count q \<le> 1" "c \<in> set (tl q)"
  shows "Status c \<noteq> Waiting"
proof -
  from assms(1) obtain ws ps where q: "q = ws @ ps"
    and w: "\<forall>c \<in> set ws. Status c = Waiting" and p: "\<forall>c \<in> set ps. Status c \<noteq> Waiting"
    by (auto simp: waits_first_def)
  from w p q have "waiting_count q = length ws" by (simp add: waiting_count_def filter_empty_conv)
  with assms(2) consider "ws = []" | x where "ws = [x]" by (cases ws) (auto simp: Suc_le_eq)
  then have "c \<in> set ps"
  proof cases
    case 1
    with assms(3) q show ?thesis by (cases ps) auto
  next
    case 2
    with assms(3) q show ?thesis by simp
  qed
  with p show ?thesis by blast
qed

lemma slice_of_emit:
  "slice_of (emit_component s c f) s' =
     (if s' = s then (if Status c = Waiting then c # slice_of f s else slice_of f s @ [c])
      else slice_of f s')"
  by (auto simp: emit_component_def slice_of_def update_conv' split: option.splits)

text \<open>One MSP's pass over the entries appends the components of its entries, waiting ones in front.\<close>

definition entry_for :: "opt_entry gomap \<Rightarrow> string \<Rightarrow> string \<Rightarrow> component option" where
  "entry_for m s k = (case map_of m k of
     Some e \<Rightarrow> if oe_mspid e = s then Some (entry_component k e) else None | None \<Rightarrow> None)"

lemma emit_queue_Cons:
  "emit_queue m s (k # ks) f = emit_queue m s ks
     (case entry_for m s k of Some c \<Rightarrow> emit_component s c f | None \<Rightarrow> f)"
  by (simp add: entry_for_def split: option.splits)

lemma waits_for_entry:
  "waits_for m k s \<longleftrightarrow> (\<exists>c. entry_for m s k = Some c \<and> Status c = Waiting)"
  by (auto simp: waits_for_def entry_for_def entry_component_def split: option.splits)

lemma emit_queue_other [simp]:
  "s' \<noteq> s \<Longrightarrow> slice_of (emit_queue m s ks f) s' = slice_of f s'"
  by (induction ks arbitrary: f)
    (auto simp: emit_queue_Cons slice_of_emit simp del: emit_queue.simps(2) split: option.splits)

lemma emit_queue_own:
  "waits_first (slice_of f s) \<Longrightarrow>
     waits_first (slice_of (emit_queue m s ks f) s) \<and>
     waiting_count (slice_of (emit_queue m s ks f) s) =
       waiting_count (slice_of f s) + length (filter (\<lambda>k. waits_for m k s) ks) \<and>
     mset (slice_of (emit_queue m s ks f) s) =
       mset (slice_of f s) + mset (List.map_filter (entry_for m s) ks)"
proof (induction ks arbitrary: f)
  case Nil
  then show ?case by (simp add: List.map_filter_def)
next
  case (Cons k ks)
  show ?case
  proof (cases "entry_for m s k")
    case None
    with Cons show ?thesis
      by (simp add: emit_queue_Cons waits_for_entry List.map_filter_simps del: emit_queue.simps(2))
  next
    case (Some c)
    let ?f = "emit_component s c f"
    have "waits_first (slice_of ?f s)"
      using Cons.prems by (auto simp: slice_of_emit waits_first_push waits_first_snoc)
    note IH = Cons.IH [OF this]
    have "waiting_count (slice_of ?f s) =
        waiting_count (slice_of f s) + (if waits_for m k s then 1 else 0)"
      using Some by (auto simp: slice_of_emit waiting_count_def waits_for_entry)
    moreover have "mset (slice_of ?f s) = mset (slice_of f s) + {#c#}"
      by (simp add: slice_of_emit)
    ultimately show ?thesis using IH Some
      by (simp add: emit_queue_Cons List.map_filter_simps del: emit_queue.simps(2))
  qed
qed

lemma emit_queues_other:
  "s \<notin> set ks \<Longrightarrow> slice_of (emit_queues v m ks f) s = slice_of f s"
  by (induction ks arbitrary: f) auto

lemma emit_queues_own:
  assumes "distinct ks" "s \<in> set ks" "slice_of f s = []"
  shows "waits_first (slice_of (emit_queues v m ks f) s) \<and>
     waiting_count (slice_of (emit_queues v m ks f) s) =
       length (filter (\<lambda>k. waits_for m k s) (v_entries v s m)) \<and>
     mset (slice_of (emit_queues v m ks f) s) =
       mset (List.map_filter (entry_for m s) (v_entries v s m))"
  using assms
proof (induction ks arbitrary: f)
  case Nil
  then show ?case by simp
next
  case (Cons k ks)
  show ?case
  proof (cases "k = s")
    case True
    with Cons.prems emit_queue_own [of f s m "v_entries v s m"] show ?thesis
      by (simp add: emit_queues_other waiting_count_def)
  next
    case False
    with Cons show ?thesis by simp
  qed
qed

lemma emit_component_distinct [simp]:
  "distinct (keys f) \<Longrightarrow> distinct (keys (emit_component s c f))"
  by (simp add: emit_component_def distinct_update split: option.splits)

lemma emit_queue_distinct [simp]: "distinct (keys f) \<Longrightarrow> distinct (keys (emit_queue m s ks f))"
  by (induction ks arbitrary: f) (auto split: option.splits)

lemma emit_queues_distinct [simp]: "distinct (keys f) \<Longrightarrow> distinct (keys (emit_queues v m ks f))"
  by (induction ks arbitrary: f) auto

lemma merge_component_distinct [simp]:
  "distinct (keys m) \<Longrightarrow> distinct (keys (merge_component s c m))"
  by (simp add: merge_component_def distinct_update split: option.splits)

lemma merge_queue_distinct [simp]:
  "distinct (keys m) \<Longrightarrow> distinct (keys (fold (merge_component s) q m))"
  by (induction q arbitrary: m) auto

lemma merge_queues_distinct [simp]: "distinct (keys m) \<Longrightarrow> distinct (keys (merge_queues r ks m))"
  by (induction ks arbitrary: m) auto

lemma length_filter_unique:
  assumes "distinct ks" "\<And>k k'. P k \<Longrightarrow> P k' \<Longrightarrow> k = k'"
  shows "length (filter P ks) \<le> 1"
  using assms(1)
proof (induction ks)
  case (Cons k ks)
  then show ?case using assms(2) by (cases "P k") (auto simp: filter_empty_conv)
qed simp

abbreviation merged_entries :: "visit \<Rightarrow> restart_config \<Rightarrow> opt_entry gomap" where
  "merged_entries v r \<equiv> merge_queues r (v_merge v (Queues r)) []"

lemma optimize_slice:
  assumes v: "any_visit v" and wf: "wf_restart_config r"
  shows "slice_of (Queues (optimizeRestart v r)) s = [] \<and> s \<notin> set (keys (Queues r)) \<or>
    s \<in> set (keys (Queues r)) \<and>
    waits_first (slice_of (Queues (optimizeRestart v r)) s) \<and>
    waiting_count (slice_of (Queues (optimizeRestart v r)) s) =
      length (filter (\<lambda>k. waits_for (merged_entries v r) k s) (v_entries v s (merged_entries v r))) \<and>
    mset (slice_of (Queues (optimizeRestart v r)) s) =
      mset (List.map_filter (entry_for (merged_entries v r) s) (v_entries v s (merged_entries v r)))"
proof -
  from v wf have "range_order (v_emit v)" "distinct (keys (Queues r))"
    by (simp_all add: any_visit_def wf_restart_config_def)
  note emit = range_orderD [OF this]
  show ?thesis
  proof (cases "s \<in> set (keys (Queues r))")
    case True
    with emit emit_queues_own [of "v_emit v (Queues r)" s "[]" v "merged_entries v r"]
    show ?thesis by (simp add: optimizeRestart_def Let_def del: set_map)
  next
    case False
    with emit emit_queues_other [of s "v_emit v (Queues r)" v "merged_entries v r" "[]"]
    show ?thesis by (simp add: optimizeRestart_def Let_def del: set_map)
  qed
qed

lemma entries_order:
  assumes "any_visit v"
  shows "distinct (v_entries v s (merged_entries v r))"
    "set (v_entries v s (merged_entries v r)) = set (keys (merged_entries v r))"
  using assms range_orderD [of "v_entries v s" "merged_entries v r"] by (auto simp: any_visit_def)

lemma optimize_wf [simp]:
  "wf_restart_config r \<Longrightarrow> wf_restart_config (optimizeRestart v r)"
  by (simp add: wf_restart_config_def optimizeRestart_def Let_def)

lemma optimize_Log [simp]: "Log (optimizeRestart v r) = Log r"
  by (simp add: optimizeRestart_def Let_def)

lemma optimize_staggered:
  assumes "any_visit v" "wf_restart_config r" "staggered r"
  shows "staggered (optimizeRestart v r)"
  unfolding staggered_def
proof (intro allI ballI)
  fix s c
  assume c: "c \<in> set (tl (slice_of (Queues (optimizeRestart v r)) s))"
  have "distinct (v_merge v (Queues r))"
    using assms(1,2) by (auto simp: any_visit_def wf_restart_config_def dest: range_orderD)
  then have "one_wait (merged_entries v r)"
    using assms(3) by (intro merge_queues_one_wait) (auto simp: one_wait_def waits_for_def)
  then have "length (filter (\<lambda>k. waits_for (merged_entries v r) k s)
      (v_entries v s (merged_entries v r))) \<le> 1"
    using entries_order(1) [OF assms(1)] by (intro length_filter_unique) (auto simp: one_wait_def)
  with optimize_slice [OF assms(1,2), of s] c
  have "waits_first (slice_of (Queues (optimizeRestart v r)) s)"
    "waiting_count (slice_of (Queues (optimizeRestart v r)) s) \<le> 1"
    by (auto simp: waiting_count_def)
  from waits_first_tail [OF this c] show "Status c \<noteq> Waiting" .
qed

subsection \<open>Names survive merging\<close>

definition plain_names :: "restart_config \<Rightarrow> bool" where
  "plain_names r \<longleftrightarrow> (\<forall>m. \<forall>c \<in> set (slice_of (Queues r) m). CHR ''~'' \<notin> set (CRName c))"

definition all_names :: "restart_config \<Rightarrow> string set" where
  "all_names r = {CRName c | c m. c \<in> set (slice_of (Queues r) m)}"

abbreviation base :: "string \<Rightarrow> string" where "base k \<equiv> delete_all CHR ''~'' ''wait'' k"

definition entry_key :: "component \<Rightarrow> string" where
  "entry_key c = (if Status c = Waiting then CRName c @ ''~wait'' else CRName c)"

lemma base_entry_key: "CHR ''~'' \<notin> set (CRName c) \<Longrightarrow> base (entry_key c) = CRName c"
  by (simp add: entry_key_def delete_all_absent delete_all_suffix [of "CHR ''~''" _ "''wait''", simplified])

lemma merge_component_keys: "set (keys (merge_component s c m)) = insert (entry_key c) (set (keys m))"
  by (simp add: merge_component_def entry_key_def del: set_map split: option.splits)

lemma merge_queue_keys:
  "set (keys (fold (merge_component s) q m)) = entry_key ` set q \<union> set (keys m)"
  by (induction q arbitrary: m) (simp_all add: merge_component_keys del: set_map)

lemma merge_queues_keys:
  "set (keys (merge_queues r ks m)) =
     entry_key ` (\<Union>s \<in> set ks. set (slice_of (Queues r) s)) \<union> set (keys m)"
  by (induction ks arbitrary: m) (simp_all add: merge_queue_keys image_Un Un_assoc Un_left_commute del: set_map)

lemma merge_component_mspid:
  "map_of (merge_component s c m) k = Some e \<Longrightarrow>
     oe_mspid e = s \<or> (\<exists>e'. map_of m k = Some e' \<and> oe_mspid e = oe_mspid e')"
  by (auto simp: merge_component_def update_conv' split: option.splits if_splits)

lemma merge_queue_mspid:
  "map_of (fold (merge_component s) q m) k = Some e \<Longrightarrow>
     oe_mspid e = s \<or> (\<exists>e'. map_of m k = Some e' \<and> oe_mspid e = oe_mspid e')"
proof (induction q arbitrary: m)
  case (Cons c q)
  then show ?case using merge_component_mspid [of s c m k] by fastforce
qed simp

lemma merge_queues_mspid:
  "map_of (merge_queues r ks m) k = Some e \<Longrightarrow>
     oe_mspid e \<in> set ks \<or> (\<exists>e'. map_of m k = Some e' \<and> oe_mspid e = oe_mspid e')"
proof (induction ks arbitrary: m)
  case (Cons s ks)
  then show ?case using merge_queue_mspid [of s "slice_of (Queues r) s" m k] by fastforce
qed simp

lemma entry_for_name: "entry_for m s k = Some c \<Longrightarrow> CRName c = base k"
  by (auto simp: entry_for_def entry_component_def split: option.splits if_splits)

lemma set_map_filter_iff: "y \<in> set (List.map_filter f xs) \<longleftrightarrow> (\<exists>x \<in> set xs. f x = Some y)"
  by (induction xs) (auto simp: List.map_filter_simps split: option.splits)

lemma optimize_names_iff:
  assumes "any_visit v" "wf_restart_config r"
  shows "c \<in> set (slice_of (Queues (optimizeRestart v r)) s) \<longleftrightarrow>
     s \<in> set (keys (Queues r)) \<and>
     (\<exists>k \<in> set (keys (merged_entries v r)). entry_for (merged_entries v r) s k = Some c)"
proof (cases "s \<in> set (keys (Queues r))")
  case False
  with optimize_slice [OF assms, of s] show ?thesis by auto
next
  case True
  have "distinct (keys (merged_entries v r))" by simp
  with assms(1) have ord: "set (v_entries v s (merged_entries v r)) = set (keys (merged_entries v r))"
    using range_orderD(2) [of "v_entries v s" "merged_entries v r"] by (simp add: any_visit_def)
  from True optimize_slice [OF assms, of s]
  have "s \<in> set (keys (Queues r)) \<and> mset (slice_of (Queues (optimizeRestart v r)) s) =
      mset (List.map_filter (entry_for (merged_entries v r) s) (v_entries v s (merged_entries v r)))"
    by blast
  then have "set (slice_of (Queues (optimizeRestart v r)) s) =
      set (List.map_filter (entry_for (merged_entries v r) s) (v_entries v s (merged_entries v r)))"
    by (metis set_mset_mset)
  with True ord show ?thesis by (simp add: set_map_filter_iff del: set_map)
qed

lemma optimize_names:
  assumes v: "any_visit v" and wf: "wf_restart_config r" and plain: "plain_names r"
  shows "all_names (optimizeRestart v r) = all_names r"
proof -
  let ?m = "merged_entries v r"
  have "range_order (v_merge v)" "distinct (keys (Queues r))"
    using v wf by (simp_all add: any_visit_def wf_restart_config_def)
  note order = range_orderD(2) [OF this]
  have ks: "set (keys ?m) = entry_key ` (\<Union>s \<in> set (keys (Queues r)). set (slice_of (Queues r) s))"
    by (simp add: merge_queues_keys order del: set_map)
  have inv: "base (entry_key c) = CRName c" if "c \<in> set (slice_of (Queues r) s)" for c s
    using plain that by (auto simp: plain_names_def base_entry_key)
  have key: "s \<in> set (keys (Queues r))" if "c \<in> set (slice_of (Queues r) s)" for c s
    using that slice_of_absent [of s "Queues r"] by (cases "s \<in> set (keys (Queues r))") auto
  have names: "base ` set (keys ?m) = all_names r"
    unfolding ks image_image using inv key
    by (auto simp: all_names_def image_iff simp del: set_map) (metis inv)+
  have "all_names (optimizeRestart v r) = base ` set (keys ?m)"
  proof (intro equalityI subsetI)
    fix n assume "n \<in> all_names (optimizeRestart v r)"
    then show "n \<in> base ` set (keys ?m)"
      using optimize_names_iff [OF v wf] entry_for_name unfolding all_names_def by blast
  next
    fix n assume "n \<in> base ` set (keys ?m)"
    then obtain k where k: "k \<in> set (keys ?m)" "n = base k" by blast
    then obtain e where e: "map_of ?m k = Some e"
      by (cases "map_of ?m k") (auto simp: map_of_eq_None_iff)
    from merge_queues_mspid [OF e] have "oe_mspid e \<in> set (keys (Queues r))"
      using order by simp
    moreover from e have "entry_for ?m (oe_mspid e) k = Some (entry_component k e)"
      by (simp add: entry_for_def)
    ultimately have "entry_component k e \<in> set (slice_of (Queues (optimizeRestart v r)) (oe_mspid e))"
      using optimize_names_iff [OF v wf] k(1) by blast
    with k(2) show "n \<in> all_names (optimizeRestart v r)"
      unfolding all_names_def by (force simp: entry_component_def)
  qed
  with names show ?thesis by simp
qed

subsection \<open>Requests that do not wait are merged\<close>

definition plain_pending :: "opt_entry gomap \<Rightarrow> bool" where
  "plain_pending m \<longleftrightarrow>
     (\<forall>k e. map_of m k = Some e \<longrightarrow> oe_status e \<noteq> Waiting \<longrightarrow> CHR ''~'' \<notin> set k)"

lemma plain_pending_update:
  "plain_pending m \<Longrightarrow> oe_status e \<noteq> Waiting \<longrightarrow> CHR ''~'' \<notin> set k \<Longrightarrow>
     plain_pending (AList.update k e m)"
  by (auto simp: plain_pending_def update_conv' split: if_splits)

lemma merge_component_plain:
  "plain_pending m \<Longrightarrow> CHR ''~'' \<notin> set (CRName c) \<Longrightarrow> plain_pending (merge_component s c m)"
  by (simp add: merge_component_def plain_pending_update split: option.splits)

lemma merge_queue_plain:
  "plain_pending m \<Longrightarrow> \<forall>c \<in> set q. CHR ''~'' \<notin> set (CRName c) \<Longrightarrow>
     plain_pending (fold (merge_component s) q m)"
  by (induction q arbitrary: m) (simp_all add: merge_component_plain)

lemma merge_queues_plain:
  "plain_pending m \<Longrightarrow> plain_names r \<Longrightarrow> plain_pending (merge_queues r ks m)"
  by (induction ks arbitrary: m) (simp_all add: merge_queue_plain plain_names_def)

lemma entry_for_plain:
  "plain_pending m \<Longrightarrow> entry_for m s k = Some c \<Longrightarrow> Status c \<noteq> Waiting \<Longrightarrow> CRName c = k"
  by (auto simp: plain_pending_def entry_for_def entry_component_def delete_all_absent
      split: option.splits if_splits)

lemma map_filter_names_distinct:
  assumes "plain_pending m" "distinct ks"
  shows "distinct (map CRName (filter (\<lambda>c. Status c \<noteq> Waiting) (List.map_filter (entry_for m s) ks)))"
  using assms(2)
proof (induction ks)
  case (Cons k ks)
  have names: "CRName c \<in> set ks"
    if "c \<in> set (List.map_filter (entry_for m s) ks)" "Status c \<noteq> Waiting" for c
    using that entry_for_plain [OF assms(1)] by (auto simp: set_map_filter_iff)
  show ?case
  proof (cases "entry_for m s k")
    case None
    with Cons show ?thesis by (simp add: List.map_filter_simps)
  next
    case (Some c)
    have "CRName c \<notin> CRName ` {d \<in> set (List.map_filter (entry_for m s) ks). Status d \<noteq> Waiting}"
      if w: "Status c \<noteq> Waiting"
    proof
      assume "CRName c \<in> CRName ` {d \<in> set (List.map_filter (entry_for m s) ks). Status d \<noteq> Waiting}"
      then obtain d where "CRName c = CRName d" "d \<in> set (List.map_filter (entry_for m s) ks)"
        "Status d \<noteq> Waiting" by blast
      with names [of d] entry_for_plain [OF assms(1) Some w] have "k \<in> set ks" by simp
      with Cons.prems show False by simp
    qed
    moreover from Cons have "distinct (map CRName (filter (\<lambda>c. Status c \<noteq> Waiting)
        (List.map_filter (entry_for m s) ks)))" by (simp only: distinct.simps)
    ultimately show ?thesis using Some
      by (cases "Status c = Waiting")
        (simp_all only: List.map_filter_simps option.case filter.simps list.map distinct.simps
          set_map set_filter simp_thms if_True if_False)
  qed
qed (simp add: List.map_filter_def)

lemma optimize_merges:
  assumes "any_visit v" "wf_restart_config r" "plain_names r"
  shows "distinct (map CRName (filter (\<lambda>c. Status c \<noteq> Waiting)
           (slice_of (Queues (optimizeRestart v r)) s)))"
proof (cases "s \<in> set (keys (Queues r))")
  case False
  with optimize_slice [OF assms(1,2), of s] show ?thesis by auto
next
  case True
  let ?es = "List.map_filter (entry_for (merged_entries v r) s) (v_entries v s (merged_entries v r))"
  have "plain_pending (merged_entries v r)"
    using assms(3) by (intro merge_queues_plain) (simp_all add: plain_pending_def)
  from map_filter_names_distinct [OF this entries_order(1) [OF assms(1)]]
  have "distinct (map CRName (filter (\<lambda>c. Status c \<noteq> Waiting) ?es))" .
  moreover from True optimize_slice [OF assms(1,2), of s]
  have "mset (slice_of (Queues (optimizeRestart v r)) s) = mset ?es" by blast
  then have "mset (map CRName (filter (\<lambda>c. Status c \<noteq> Waiting)
      (slice_of (Queues (optimizeRestart v r)) s))) =
    mset (map CRName (filter (\<lambda>c. Status c \<noteq> Waiting) ?es))"
    by (simp only: mset_map mset_filter)
  from mset_eq_imp_distinct_iff [OF this] calculation show ?thesis by blast
qed

end
