(* ===== verification/RestartStore.thy ===== *)
theory RestartStore
  imports RestartMerge
begin

text \<open>
  The stored restart configuration: what the API promises about config maps, which operations
  leave them alone, and that every operation of the service keeps the invariant \<open>stored_ok\<close>:
  whatever configuration can be read is well-formed and staggered.
\<close>

subsection \<open>What the API promises about config maps\<close>

text \<open>
  Reading does not change config maps, and neither do the clock, the random source, the lists of
  pods and deployments and the patch of a deployment.  A successful write is read back; a failed
  one may or may not have reached the server; no write touches another config map.
\<close>

definition same_maps :: "'w env \<Rightarrow> 'w \<Rightarrow> 'w \<Rightarrow> bool" where
  "same_maps env w w' \<longleftrightarrow> (\<forall>n s. fst (e_get_cm env n s w') = fst (e_get_cm env n s w))"

definition config_map_api :: "'w env \<Rightarrow> bool" where
  "config_map_api env \<longleftrightarrow> read_after_write env \<and>
     (\<forall>w. same_maps env w (snd (e_now env w))) \<and>
     (\<forall>k w. same_maps env w (snd (e_random env k w))) \<and>
     (\<forall>n s w. same_maps env w (snd (e_get_cm env n s w))) \<and>
     (\<forall>n s w. same_maps env w (snd (e_list_pods env n s w))) \<and>
     (\<forall>n s w. same_maps env w (snd (e_list_deployments env n s w))) \<and>
     (\<forall>n s w. same_maps env w (snd (e_get_deployment env n s w))) \<and>
     (\<forall>d w. same_maps env w (snd (e_patch_deployment env d w))) \<and>
     (\<forall>n s b w n' s'. let get = (\<lambda>w. fst (e_get_cm env n' s' w)); w' = snd (e_put_cm env n s b w)
        in get w' = get w \<or> (n' = n \<and> s' = s \<and> get w' = Ok b))"

lemma same_maps_refl [simp]: "same_maps env w w"
  by (simp add: same_maps_def)

lemma same_maps_trans: "same_maps env w w' \<Longrightarrow> same_maps env w' w'' \<Longrightarrow> same_maps env w w''"
  by (simp add: same_maps_def)

lemma api_reads:
  assumes "config_map_api env"
  shows "same_maps env w (snd (e_now env w))" "same_maps env w (snd (e_random env k w))"
    "same_maps env w (snd (e_get_cm env n s w))" "same_maps env w (snd (e_list_pods env n s w))"
    "same_maps env w (snd (e_list_deployments env n s w))"
    "same_maps env w (snd (e_get_deployment env n s w))"
    "same_maps env w (snd (e_patch_deployment env d w))"
  using assms by (simp_all add: config_map_api_def)

lemma same_maps_bind:
  "same_maps env w (snd m) \<Longrightarrow> (\<And>x w1. m = (Ok x, w1) \<Longrightarrow> same_maps env w1 (snd (f x w1))) \<Longrightarrow>
     same_maps env w (snd (bind_r m f))"
  by (cases m; cases "fst m") (auto simp: bind_r_def intro: same_maps_trans)

lemma snd_wrap_err [simp]: "snd (wrap_err msg m) = snd m"
  by (cases m) (simp add: wrap_err_def split: go_result.splits)

lemma same_maps_case:
  "same_maps env w (snd m) \<Longrightarrow> (\<And>x w1. m = (x, w1) \<Longrightarrow> same_maps env w1 (snd (f x w1))) \<Longrightarrow>
     same_maps env w (snd (case m of (x, w1) \<Rightarrow> f x w1))"
  by (cases m) (auto intro: same_maps_trans)

lemma same_maps_if:
  "same_maps env w (snd x) \<Longrightarrow> same_maps env w (snd y) \<Longrightarrow> same_maps env w (snd (if b then x else y))"
  by simp

lemmas same_maps_rules = same_maps_bind same_maps_case same_maps_if

lemma GetRunningPods_same: "config_map_api env \<Longrightarrow> same_maps env w (snd (GetRunningPods env n s w))"
  using api_reads(4) [of env w "''app='' @ n" s]
  by (auto simp: GetRunningPods_def split: option.splits prod.splits go_result.splits)

lemma CheckDeployments_same: "config_map_api env \<Longrightarrow> same_maps env w (snd (CheckDeployments env n s w))"
  using api_reads(5) [of env w "''app='' @ n" s]
  by (auto simp: CheckDeployments_def split: option.splits prod.splits go_result.splits)

lemma action_Restart_same: "config_map_api env \<Longrightarrow> same_maps env w (snd (action_Restart env n s w))"
  by (simp add: action_Restart_def Let_def api_reads same_maps_rules)

lemma reconcile_pending_same:
  assumes "config_map_api env"
  shows "same_maps env w (snd (reconcile_pending env t ns m c (r, u, q) w))"
  unfolding reconcile_pending_def Let_def RestartDeployment_def
  by (auto simp: GetRunningPods_same CheckDeployments_same action_Restart_same api_reads assms
      intro!: same_maps_rules)

lemma reconcile_waiting_same:
  assumes "config_map_api env"
  shows "same_maps env w (snd (reconcile_waiting env ns m c (r, u, q) w))"
  unfolding reconcile_waiting_def Let_def randomInt_def
  by (auto simp: GetRunningPods_same api_reads assms intro!: same_maps_rules)

lemma reconcile_front_same:
  "config_map_api env \<Longrightarrow> same_maps env w (snd (reconcile_front env t ns m st w))"
  by (cases st) (simp add: reconcile_front_def reconcile_pending_same reconcile_waiting_same
      split: list.splits)

lemma reconcile_fronts_same:
  "config_map_api env \<Longrightarrow> same_maps env w (snd (reconcile_fronts env t ns ms st w))"
  by (induction ms arbitrary: st w) (auto intro!: same_maps_bind reconcile_front_same)

subsection \<open>The stored configuration\<close>

text \<open>Every restart configuration that can be read holds at most one waiting component per queue.\<close>

definition stored_ok :: "'w env \<Rightarrow> 'w \<Rightarrow> bool" where
  "stored_ok env w \<longleftrightarrow>
     (\<forall>ct ns r. fst (GetConfig env ct ns w) = Ok r \<longrightarrow> wf_restart_config r \<and> staggered r)"

lemmas GetConfig_view =
  config_view [of env restart_config_of_json "config_name ct" ns empty_config w for env ct ns w,
    folded GetConfig_def]

lemma GetConfig_cong:
  "fst (e_get_cm env (config_name ct) ns w') = fst (e_get_cm env (config_name ct) ns w) \<Longrightarrow>
     fst (GetConfig env ct ns w') = fst (GetConfig env ct ns w)"
  unfolding GetConfig_def by (rule config_view_cong)

lemma GetConfig_wf: "fst (GetConfig env ct ns w) = Ok r \<Longrightarrow> wf_restart_config r"
  unfolding GetConfig_def by (drule config_read_Ok) (auto dest: decoded_restart_config_wf)

lemma GetConfig_same_maps:
  "same_maps env w w' \<Longrightarrow> fst (GetConfig env ct ns w') = fst (GetConfig env ct ns w)"
  by (intro GetConfig_cong) (simp add: same_maps_def)

lemma stored_ok_same:
  assumes "same_maps env w w'" "stored_ok env w"
  shows "stored_ok env w'"
  using assms(2) unfolding stored_ok_def GetConfig_same_maps [OF assms(1)] .

lemma stored_ok_put:
  assumes api: "config_map_api env" and ok: "stored_ok env w"
    and r: "wf_restart_config r" "staggered r"
  shows "stored_ok env (snd (Svc_UpdateConfig env ct ns r w))"
  unfolding stored_ok_def
proof (intro allI impI)
  fix ct' ns' r'
  let ?w = "snd (Svc_UpdateConfig env ct ns r w)"
  let ?data = "[(restart_key, Json (restart_config_json r))]"
  assume read: "fst (GetConfig env ct' ns' ?w) = Ok r'"
  have w: "?w = snd (e_put_cm env (config_name ct) ns ?data w)"
    by (simp add: Svc_UpdateConfig_def UpdateConfig_def)
  from api have "fst (e_get_cm env (config_name ct') ns' ?w) = fst (e_get_cm env (config_name ct') ns' w)
      \<or> fst (e_get_cm env (config_name ct') ns' ?w) = Ok ?data"
    unfolding w config_map_api_def Let_def by blast
  then show "wf_restart_config r' \<and> staggered r'"
  proof
    assume "fst (e_get_cm env (config_name ct') ns' ?w) = fst (e_get_cm env (config_name ct') ns' w)"
    then have "fst (GetConfig env ct' ns' ?w) = fst (GetConfig env ct' ns' w)"
      by (rule GetConfig_cong)
    with read ok show ?thesis by (simp add: stored_ok_def)
  next
    assume "fst (e_get_cm env (config_name ct') ns' ?w) = Ok ?data"
    then have "fst (GetConfig env ct' ns' ?w) = Ok r"
      using queue_codec.decode_encode [OF r(1)] by (simp add: GetConfig_view)
    with read r show ?thesis by simp
  qed
qed

lemma GetConfig_same: "config_map_api env \<Longrightarrow> same_maps env w (snd (GetConfig env ct ns w))"
  using api_reads(3) [of env w "config_name ct" ns]
  by (auto simp: GetConfig_def GetRestartConfigFrom_def wrap_err_def
      split: prod.splits go_result.splits option.splits blob.splits)

lemma stored_ok_bind:
  "stored_ok env (snd m) \<Longrightarrow> (\<And>x w1. m = (Ok x, w1) \<Longrightarrow> stored_ok env (snd (f x w1))) \<Longrightarrow>
     stored_ok env (snd (bind_r m f))"
  by (cases m; cases "fst m") (auto simp: bind_r_def)

lemma snd_bind_Ok [simp]: "snd (bind_r m (\<lambda>x w. (Ok (f x), w))) = snd m"
  by (cases m; cases "fst m") (auto simp: bind_r_def)

lemma stored_ok_GetConfig:
  assumes "config_map_api env" "stored_ok env w" "GetConfig env ct ns w = (Ok r, w1)"
  shows "stored_ok env w1 \<and> wf_restart_config r \<and> staggered r"
  using stored_ok_same [OF GetConfig_same [OF assms(1), of w ct ns] assms(2)] assms(2,3)
  unfolding stored_ok_def by (metis fst_conv snd_conv)

lemma stored_ok_poll:
  "(\<And>w. stored_ok env w \<Longrightarrow> stored_ok env (snd (cond w))) \<Longrightarrow> stored_ok env w \<Longrightarrow>
     stored_ok env (snd (poll n cond w))"
proof (induction n arbitrary: w)
  case (Suc n)
  obtain b w1 where cond: "cond w = (b, w1)" by fastforce
  with Suc.prems have "stored_ok env w1" by (metis snd_conv)
  with cond Suc show ?case by (cases b) simp_all
qed simp

lemma stored_ok_addToQueue:
  assumes "config_map_api env" "stored_ok env w"
  shows "stored_ok env (snd (addToQueue env ct i reason w))"
  unfolding addToQueue_def Let_def
proof (rule stored_ok_bind)
  show "stored_ok env (snd (GetConfig env ct (inst_namespace i) w))"
    using assms by (blast intro: stored_ok_same GetConfig_same)
next
  fix r w1
  assume "GetConfig env ct (inst_namespace i) w = (Ok r, w1)"
  from stored_ok_GetConfig [OF assms this]
  show "stored_ok env (snd (Svc_UpdateConfig env ct (inst_namespace i)
      (AddToQueue (inst_mspid i) (zero_component\<lparr>CRName := inst_name i, Reason := reason,
         Status := Pending\<rparr>) r) w1))"
    by (intro stored_ok_put assms(1)) (simp_all add: staggered_AddToQueue)
qed

lemma staggered_AddToLog [simp]: "staggered (AddToLog c r) = staggered r"
  by (simp add: staggered_def)

lemma stored_ok_RestartImmediately:
  assumes "config_map_api env" "stored_ok env w"
  shows "stored_ok env (snd (RestartImmediately env ct i reason w))"
  unfolding RestartImmediately_def Let_def RestartDeployment_def
proof (rule stored_ok_bind)
  show ok: "stored_ok env (snd (action_Restart env (inst_name i) (inst_namespace i) w))"
    using assms by (blast intro: stored_ok_same action_Restart_same)
  fix x w1
  assume "action_Restart env (inst_name i) (inst_namespace i) w = (Ok x, w1)"
  with ok have w1: "stored_ok env (snd (e_now env w1))"
    using assms(1) by (auto intro: stored_ok_same api_reads)
  obtain t w2 where now: "e_now env w1 = (t, w2)" by fastforce
  with w1 have w2: "stored_ok env w2" by simp
  let ?c = "zero_component\<lparr>CRName := inst_name i, Reason := reason, Status := Restarted,
              LastCheckedTimestamp := Stamp t\<rparr>"
  have "stored_ok env (snd (bind_r (GetConfig env ct (inst_namespace i) w2)
      (\<lambda>cfg. Svc_UpdateConfig env ct (inst_namespace i) (AddToLog ?c cfg))))"
  proof (rule stored_ok_bind)
    show "stored_ok env (snd (GetConfig env ct (inst_namespace i) w2))"
      using assms(1) w2 by (blast intro: stored_ok_same GetConfig_same)
    fix r w3
    assume "GetConfig env ct (inst_namespace i) w2 = (Ok r, w3)"
    from stored_ok_GetConfig [OF assms(1) w2 this]
    show "stored_ok env (snd (Svc_UpdateConfig env ct (inst_namespace i) (AddToLog ?c r) w3))"
      by (intro stored_ok_put assms(1)) simp_all
  qed
  with now show "stored_ok env (snd (case e_now env w1 of (now, w) \<Rightarrow>
      bind_r (GetConfig env ct (inst_namespace i) w)
        (\<lambda>cfg. Svc_UpdateConfig env ct (inst_namespace i)
          (AddToLog (zero_component\<lparr>CRName := inst_name i, Reason := reason, Status := Restarted,
             LastCheckedTimestamp := Stamp now\<rparr>) cfg))))"
    by simp
qed

lemma snd_swallow: "snd (case m of (Ok (), w) \<Rightarrow> (True, w) | (_, w) \<Rightarrow> (False, w)) = snd m"
  by (simp split: prod.split go_result.split unit.split)

lemma stored_ok_Restart:
  assumes "config_map_api env" "stored_ok env w"
  shows "stored_ok env (snd (Restart env n i reason w))"
proof -
  let ?cond = "\<lambda>w. case addToQueue env (component_type (inst_kind i)) i reason w of
      (Ok (), w) \<Rightarrow> (True, w) | (_, w) \<Rightarrow> (False, w)"
  have "stored_ok env (snd (?cond w))" if "stored_ok env w" for w
    unfolding snd_swallow using assms(1) that by (rule stored_ok_addToQueue)
  from stored_ok_poll [of env ?cond, OF this assms(2)]
  have "stored_ok env (snd (Svc_AddToQueue env n i reason w))"
    by (simp only: Svc_AddToQueue_def snd_wrap_err)
  with stored_ok_RestartImmediately [OF assms] show ?thesis
    by (cases "inst_kind i") (simp_all only: Restart_def kind.case snd_wrap_err)
qed

lemma stored_ok_Reconcile:
  assumes api: "config_map_api env" and v: "any_visit v" and ok: "stored_ok env w"
  shows "stored_ok env (snd (Reconcile env v t ct ns w))"
  unfolding Reconcile_def Let_def
proof (rule stored_ok_bind)
  show "stored_ok env (snd (GetConfig env ct ns w))"
    using api ok by (blast intro: stored_ok_same GetConfig_same)
  fix r w1
  assume "GetConfig env ct ns w = (Ok r, w1)"
  note 1 = stored_ok_GetConfig [OF api ok this]
  let ?opt = "if isOptimizePossible r (v_scan v (Queues r))
    then bind_r (Svc_UpdateConfig env ct ns (optimizeRestart v r) w1) (\<lambda>_ w. (Ok (optimizeRestart v r), w))
    else (Ok r, w1)"
  show "stored_ok env (snd (bind_r ?opt (\<lambda>r w.
      bind_r (reconcile_fronts env t ns (v_front v (Queues r)) (r, False, False) w)
        (\<lambda>(r, updated, requeue) w.
           if updated then bind_r (Svc_UpdateConfig env ct ns r w) (\<lambda>_ w. (Ok requeue, w))
           else (Ok requeue, w)))))"
  proof (rule stored_ok_bind)
    show opt: "stored_ok env (snd ?opt)"
      using 1 api v by (simp add: stored_ok_put optimize_staggered)
    fix r2 w2
    assume r2: "?opt = (Ok r2, w2)"
    with opt have w2: "stored_ok env w2" by simp
    from r2 1 v have inv: "wf_restart_config r2 \<and> staggered r2"
      by (auto split: if_splits elim!: bind_r_OkE simp: optimize_staggered)
    show "stored_ok env (snd (bind_r
        (reconcile_fronts env t ns (v_front v (Queues r2)) (r2, False, False) w2)
        (\<lambda>(r, updated, requeue) w.
           if updated then bind_r (Svc_UpdateConfig env ct ns r w) (\<lambda>_ w. (Ok requeue, w))
           else (Ok requeue, w))))"
    proof (rule stored_ok_bind)
      show fronts: "stored_ok env
          (snd (reconcile_fronts env t ns (v_front v (Queues r2)) (r2, False, False) w2))"
        using api w2 by (blast intro: stored_ok_same reconcile_fronts_same)
      fix st w3
      assume st: "reconcile_fronts env t ns (v_front v (Queues r2)) (r2, False, False) w2 = (Ok st, w3)"
      obtain r3 u3 q3 where st3: "st = (r3, u3, q3)" by (cases st) auto
      from reconcile_fronts_invariant
        [OF st [unfolded st3], of "\<lambda>r. wf_restart_config r \<and> staggered r", OF inv]
      have "wf_restart_config r3 \<and> staggered r3"
        by (blast intro: front_step_wf front_step_staggered)
      with st fronts st3 api show "stored_ok env (snd ((case st of (r, updated, requeue) \<Rightarrow> \<lambda>w.
           if updated then bind_r (Svc_UpdateConfig env ct ns r w) (\<lambda>_ w. (Ok requeue, w))
           else (Ok requeue, w)) w3))"
        by (simp add: stored_ok_put)
    qed
  qed
qed

subsection \<open>Reading back\<close>

definition queued :: "inst \<Rightarrow> string \<Rightarrow> component" where
  "queued i reason = zero_component\<lparr>CRName := inst_name i, Reason := reason, Status := Pending\<rparr>"

lemma Svc_UpdateConfig_read_back:
  assumes "config_map_api env" "wf_restart_config c" "Svc_UpdateConfig env ct ns c w = (Ok (), w')"
  shows "fst (GetConfig env ct ns w') = Ok c"
  using queue_codec.load_after_store [of env c "config_name ct" ns w w'] assms
  by (simp add: Svc_UpdateConfig_def GetConfig_def config_map_api_def)

lemma addToQueue_read_back:
  assumes "config_map_api env" and "GetConfig env ct (inst_namespace i) w = (Ok r, w1)"
    and "addToQueue env ct i reason w = (Ok (), w')"
  shows "fst (GetConfig env ct (inst_namespace i) w') =
    Ok (AddToQueue (inst_mspid i) (queued i reason) r)"
proof (rule Svc_UpdateConfig_read_back [OF assms(1)])
  show "wf_restart_config (AddToQueue (inst_mspid i) (queued i reason) r)"
    using GetConfig_wf [of env ct "inst_namespace i" w r] assms(2) by simp
  show "Svc_UpdateConfig env ct (inst_namespace i) (AddToQueue (inst_mspid i) (queued i reason) r) w1
      = (Ok (), w')"
    using assms(2,3) by (simp add: addToQueue_def queued_def Let_def)
qed

lemma poll_Ok: "poll n cond w = (Ok (), w') \<Longrightarrow> \<exists>w1. cond w1 = (True, w')"
  by (induction n arbitrary: w) (auto split: prod.splits bool.splits)

text \<open>A successful restart request of a queued kind was added by its last attempt.\<close>

lemma Restart_queued:
  assumes "Restart env n i reason w = (Ok (), w')" "inst_kind i \<noteq> KConsole"
  shows "\<exists>w1. addToQueue env (component_type (inst_kind i)) i reason w1 = (Ok (), w')"
proof -
  from assms have "Svc_AddToQueue env n i reason w = (Ok (), w')"
    by (cases "inst_kind i") (simp_all only: Restart_def kind.case wrap_err_Ok, simp_all)
  note poll = this [unfolded Svc_AddToQueue_def wrap_err_Ok]
  from poll_Ok [OF poll] obtain w1 where "(case addToQueue env (component_type (inst_kind i)) i reason w1 of
      (Ok (), w) \<Rightarrow> (True, w) | (_, w) \<Rightarrow> (False, w)) = (True, w')" ..
  then have "addToQueue env (component_type (inst_kind i)) i reason w1 = (Ok (), w')"
    by (simp split: prod.splits go_result.splits unit.splits)
  then show ?thesis by blast
qed

end
