(* ===== verification/RestartManager.thy ===== *)
theory RestartManager
  imports RestartStore
begin

text \<open>
  The restart manager, \<open>pkg/restart/restart.go\<close>.  It keeps the restart requests of all instances
  in the config map \<open>operator-config\<close>, one per reason, and hands an instance to the stagger restart
  service when a request is due; for a request that is too early it sets a timer.  The fields of
  \<open>RestartManager\<close> are the record \<open>manager\<close>: the timers are the part that is not persisted.  A timer
  is a duration and the arguments its callback was built with; \<open>timer_fires\<close> is the callback.

  Subtraction of times saturates and the remaining duration is computed in 64 bits, as in Go.
\<close>

record timer =
  tm_duration :: int
  tm_instance :: inst
  tm_reason :: string

record manager =
  WaitTime :: int
  Timers :: "timer option gomap"

text \<open>The orders in which the four loops over the requests of an instance visit the map.\<close>

record mgr_visit =
  mv_trigger :: "request option gomap \<Rightarrow> string list"
  mv_pending :: "request option gomap \<Rightarrow> string list"
  mv_oldest :: "request option gomap \<Rightarrow> string list"
  mv_clear :: "request option gomap \<Rightarrow> string list"

abbreviation Complete :: string where "Complete \<equiv> ''complete''"

definition time_sub :: "int \<Rightarrow> int \<Rightarrow> int" where
  "time_sub a b = max min_int64 (min max_int64 (a - b))"

definition wrap64 :: "int \<Rightarrow> int" where
  "wrap64 i = (i + 9223372036854775808) mod 18446744073709551616 - 9223372036854775808"

definition Mgr_GetConfig :: "'w env \<Rightarrow> inst \<Rightarrow> 'w \<Rightarrow> op_config go_result \<times> 'w" where
  "Mgr_GetConfig env i w =
     GetRestartConfigFrom env op_config_of_json ''operator-config'' (inst_namespace i) empty_op_config w"

definition Mgr_UpdateConfigMap :: "'w env \<Rightarrow> op_config \<Rightarrow> inst \<Rightarrow> 'w \<Rightarrow> unit go_result \<times> 'w" where
  "Mgr_UpdateConfigMap env cfg i w =
     UpdateConfig env op_config_json ''operator-config'' (inst_namespace i) cfg w"

text \<open>\<open>m[k]\<close> for a map of pointers: nil where there is no entry.\<close>

definition ptr_of :: "'a option gomap \<Rightarrow> string \<Rightarrow> 'a option" where
  "ptr_of m k = (case map_of m k of None \<Rightarrow> None | Some p \<Rightarrow> p)"

subsection \<open>Requests\<close>

definition updateRestartRequest ::
  "'w env \<Rightarrow> restart option \<Rightarrow> string \<Rightarrow> 'w \<Rightarrow> restart go_result \<times> 'w" where
  "updateRestartRequest env p reason w =
     (case p of
        None \<Rightarrow> (Panic ''nil pointer dereference'', w)
      | Some r \<Rightarrow>
          let req = (case ptr_of (Requests r) reason of None \<Rightarrow> zero_request | Some q \<Rightarrow> q)
          in if Req_Status req \<noteq> Pending then
               let (now, w) = e_now env w;
                   req = req\<lparr>Req_Status := Pending, RequestTimestamp := rfc3339 now\<rparr>
               in (Ok (r\<lparr>Requests := AList.update reason (Some req) (Requests r)\<rparr>), w)
             else (Ok (r\<lparr>Requests := AList.update reason (Some req) (Requests r)\<rparr>), w))"

definition updateConfigFor :: "'w env \<Rightarrow> inst \<Rightarrow> string \<Rightarrow> 'w \<Rightarrow> unit go_result \<times> 'w" where
  "updateConfigFor env i reason w =
     bind_r (Mgr_GetConfig env i w) (\<lambda>cfg w.
       let insts = (if map_of (Instances cfg) (inst_name i) = None
                    then AList.update (inst_name i) (Some \<lparr>Requests = []\<rparr>) (Instances cfg)
                    else Instances cfg)
       in bind_r (updateRestartRequest env (ptr_of insts (inst_name i)) reason w) (\<lambda>r w.
            Mgr_UpdateConfigMap env \<lparr>Instances = AList.update (inst_name i) (Some r) insts\<rparr> i w))"

datatype SecretType = ECERT | TLS | OtherSecret

definition ForAdminCertUpdate :: "'w env \<Rightarrow> inst \<Rightarrow> 'w \<Rightarrow> unit go_result \<times> 'w" where
  "ForAdminCertUpdate env i = updateConfigFor env i ''adminCert''"

definition ForEcertReenroll :: "'w env \<Rightarrow> inst \<Rightarrow> 'w \<Rightarrow> unit go_result \<times> 'w" where
  "ForEcertReenroll env i = updateConfigFor env i ''ecertUpdate''"

definition ForTLSReenroll :: "'w env \<Rightarrow> inst \<Rightarrow> 'w \<Rightarrow> unit go_result \<times> 'w" where
  "ForTLSReenroll env i = updateConfigFor env i ''tlsUpdate''"

definition ForConfigOverride :: "'w env \<Rightarrow> inst \<Rightarrow> 'w \<Rightarrow> unit go_result \<times> 'w" where
  "ForConfigOverride env i = updateConfigFor env i ''configOverride''"

definition ForMigration :: "'w env \<Rightarrow> inst \<Rightarrow> 'w \<Rightarrow> unit go_result \<times> 'w" where
  "ForMigration env i = updateConfigFor env i ''migration''"

definition ForNodeOU :: "'w env \<Rightarrow> inst \<Rightarrow> 'w \<Rightarrow> unit go_result \<times> 'w" where
  "ForNodeOU env i = updateConfigFor env i ''nodeOU''"

definition ForConfigMapUpdate :: "'w env \<Rightarrow> inst \<Rightarrow> 'w \<Rightarrow> unit go_result \<times> 'w" where
  "ForConfigMapUpdate env i = updateConfigFor env i ''configMapUpdate''"

definition ForRestartAction :: "'w env \<Rightarrow> inst \<Rightarrow> 'w \<Rightarrow> unit go_result \<times> 'w" where
  "ForRestartAction env i = updateConfigFor env i ''restartAction''"

definition ForCertUpdate :: "'w env \<Rightarrow> SecretType \<Rightarrow> inst \<Rightarrow> 'w \<Rightarrow> unit go_result \<times> 'w" where
  "ForCertUpdate env certType i w =
     (case certType of TLS \<Rightarrow> ForTLSReenroll env i w | ECERT \<Rightarrow> ForEcertReenroll env i w
      | OtherSecret \<Rightarrow> (Ok (), w))"

subsection \<open>When a restart is due\<close>

definition triggerRestart :: "int \<Rightarrow> request option \<Rightarrow> bool" where
  "triggerRestart waitTime p =
     (case p of
        None \<Rightarrow> False
      | Some req \<Rightarrow>
          if Req_Status req = Pending then
            if LastActionTimestamp req = Raw '''' then True
            else (case parse_stamp (LastActionTimestamp req) of
                    Ok lastRestart \<Rightarrow>
                      (case parse_stamp (RequestTimestamp req) of
                         Ok requestedRestart \<Rightarrow> waitTime \<le> time_sub requestedRestart lastRestart
                       | _ \<Rightarrow> True)
                  | _ \<Rightarrow> True)
          else False)"

text \<open>The loop stops at the first pending request; before that, a nil pointer is a panic.\<close>

fun pendingRequests :: "request option gomap \<Rightarrow> string list \<Rightarrow> bool go_result" where
  "pendingRequests m [] = Ok False"
| "pendingRequests m (k # ks) =
     (case ptr_of m k of
        None \<Rightarrow> Panic ''nil pointer dereference''
      | Some req \<Rightarrow> if Req_Status req = Pending then Ok True else pendingRequests m ks)"

definition getTimerDuration :: "int \<Rightarrow> stamp \<Rightarrow> int \<Rightarrow> int" where
  "getTimerDuration waitTime actionTime requestTime =
     (case parse_stamp actionTime of
        Ok lastRestartTime \<Rightarrow> wrap64 (waitTime - time_sub requestTime lastRestartTime)
      | _ \<Rightarrow> waitTime)"

fun oldest_request ::
  "request option gomap \<Rightarrow> string list \<Rightarrow> int \<times> stamp \<Rightarrow> int \<times> stamp" where
  "oldest_request m [] st = st"
| "oldest_request m (k # ks) (oldest, lastAction) =
     oldest_request m ks
       (case ptr_of m k of
          None \<Rightarrow> (oldest, lastAction)
        | Some req \<Rightarrow>
            (case parse_stamp (RequestTimestamp req) of
               Ok t \<Rightarrow> if t < oldest then (t, LastActionTimestamp req) else (oldest, lastAction)
             | _ \<Rightarrow> (oldest, lastAction)))"

definition SetTimer ::
  "'w env \<Rightarrow> mgr_visit \<Rightarrow> inst \<Rightarrow> string \<Rightarrow> manager \<Rightarrow> 'w \<Rightarrow> manager go_result \<times> 'w" where
  "SetTimer env v i reason mgr w =
     bind_r (Mgr_GetConfig env i w) (\<lambda>cfg w.
       let p = ptr_of (Instances cfg) (inst_name i);
           (now, w) = e_now env w
       in case p of
            None \<Rightarrow> (Panic ''nil pointer dereference'', w)
          | Some r \<Rightarrow>
              let (oldest, lastAction) =
                    oldest_request (Requests r) (mv_oldest v (Requests r)) (now, Raw '''')
              in if ptr_of (Timers mgr) (inst_name i) = None then
                   let t = \<lparr>tm_duration = getTimerDuration (WaitTime mgr) lastAction oldest,
                            tm_instance = i, tm_reason = reason\<rparr>
                   in (Ok (mgr\<lparr>Timers := AList.update (inst_name i) (Some t) (Timers mgr)\<rparr>), w)
                 else (Ok mgr, w))"

subsection \<open>Handing an instance to the stagger restart service\<close>

definition clearRestart :: "'w env \<Rightarrow> request \<Rightarrow> 'w \<Rightarrow> request \<times> 'w" where
  "clearRestart env req w =
     (let (now, w) = e_now env w
      in (req\<lparr>LastActionTimestamp := rfc3339 now, RequestTimestamp := Raw '''',
              Req_Status := Complete\<rparr>, w))"

fun clear_requests ::
  "'w env \<Rightarrow> string list \<Rightarrow> request option gomap \<Rightarrow> 'w \<Rightarrow> request option gomap \<times> 'w" where
  "clear_requests env [] m w = (m, w)"
| "clear_requests env (k # ks) m w =
     (case ptr_of m k of
        Some req \<Rightarrow>
          if Req_Status req = Pending then
            let (req, w) = clearRestart env req w
            in clear_requests env ks (AList.update k (Some req) m) w
          else clear_requests env ks m w
      | None \<Rightarrow> clear_requests env ks m w)"

text \<open>The manager is returned beside the result: timers are stopped before the write that may fail.\<close>

definition ClearRestartConfigForInstance ::
  "'w env \<Rightarrow> mgr_visit \<Rightarrow> inst \<Rightarrow> manager \<Rightarrow> 'w \<Rightarrow> (unit go_result \<times> 'w) \<times> manager" where
  "ClearRestartConfigForInstance env v i mgr w =
     (case Mgr_GetConfig env i w of
        (Fail e, w) \<Rightarrow> ((Fail e, w), mgr)
      | (Panic p, w) \<Rightarrow> ((Panic p, w), mgr)
      | (Ok cfg, w) \<Rightarrow>
          (case ptr_of (Instances cfg) (inst_name i) of
             None \<Rightarrow> ((Ok (), w), mgr)
           | Some r \<Rightarrow>
               let (reqs, w) = clear_requests env (mv_clear v (Requests r)) (Requests r) w;
                   cfg = cfg\<lparr>Instances := AList.update (inst_name i)
                     (Some (r\<lparr>Requests := reqs\<rparr>)) (Instances cfg)\<rparr>;
                   mgr = (if ptr_of (Timers mgr) (inst_name i) = None then mgr
                          else mgr\<lparr>Timers := AList.update (inst_name i) None (Timers mgr)\<rparr>)
               in (Mgr_UpdateConfigMap env cfg i w, mgr)))"

definition Mgr_RestartDeployment ::
  "'w env \<Rightarrow> mgr_visit \<Rightarrow> nat \<Rightarrow> inst \<Rightarrow> string \<Rightarrow> manager \<Rightarrow> 'w \<Rightarrow> (unit go_result \<times> 'w) \<times> manager" where
  "Mgr_RestartDeployment env v n i reason mgr w =
     (let (res, mgr) = ClearRestartConfigForInstance env v i mgr w
      in (bind_r (wrap_err ''failed to clear restart config'' res) (\<lambda>_ w.
            wrap_err ''failed to add restart request to queue'' (Restart env n i reason w)), mgr))"

definition timer_fires ::
  "'w env \<Rightarrow> mgr_visit \<Rightarrow> nat \<Rightarrow> timer \<Rightarrow> manager \<Rightarrow> 'w \<Rightarrow> manager \<times> 'w" where
  "timer_fires env v n t mgr w =
     (case Mgr_RestartDeployment env v n (tm_instance t) (tm_reason t) mgr w of
        ((_, w), mgr) \<Rightarrow> (mgr, w))"

definition pending_reasons :: "request option gomap \<Rightarrow> string list \<Rightarrow> string list" where
  "pending_reasons m ks = filter (\<lambda>k. case ptr_of m k of None \<Rightarrow> False
     | Some req \<Rightarrow> Req_Status req = Pending) ks"

definition TriggerIfNeeded ::
  "'w env \<Rightarrow> mgr_visit \<Rightarrow> nat \<Rightarrow> inst \<Rightarrow> manager \<Rightarrow> 'w \<Rightarrow> (unit go_result \<times> 'w) \<times> manager" where
  "TriggerIfNeeded env v n i mgr w =
     (case Mgr_GetConfig env i w of
        (Fail e, w) \<Rightarrow> ((Fail e, w), mgr)
      | (Panic p, w) \<Rightarrow> ((Panic p, w), mgr)
      | (Ok cfg, w) \<Rightarrow>
          (case ptr_of (Instances cfg) (inst_name i) of
             None \<Rightarrow> ((Ok (), w), mgr)
           | Some r \<Rightarrow>
               let reasons = pending_reasons (Requests r) (mv_trigger v (Requests r));
                   trigger = list_ex (\<lambda>k. triggerRestart (WaitTime mgr) (ptr_of (Requests r) k)) reasons;
                   reason = join_with '','' reasons
               in if trigger then Mgr_RestartDeployment env v n i reason mgr w
                  else (case pendingRequests (Requests r) (mv_pending v (Requests r)) of
                          Ok False \<Rightarrow> ((Ok (), w), mgr)
                        | Ok True \<Rightarrow>
                            (case wrap_err ''failed to set timer to restart deployment''
                                    (SetTimer env v i reason mgr w) of
                               (Ok mgr, w) \<Rightarrow> ((Ok (), w), mgr)
                             | (Fail e, w) \<Rightarrow> ((Fail e, w), mgr)
                             | (Panic p, w) \<Rightarrow> ((Panic p, w), mgr))
                        | Fail e \<Rightarrow> ((Fail e, w), mgr)
                        | Panic p \<Rightarrow> ((Panic p, w), mgr))))"

end
