(* ===== verification/RestartProps.thy ===== *)
theory RestartProps
  imports RestartStore
begin

text \<open>
  The properties of the stagger restart service as a whole: what holds of the stored queues in
  every world the service's operations reach, and what one \<open>Reconcile\<close> does to them.  The small
  cluster \<open>toy\<close> is the world of the witnesses.
\<close>

subsection \<open>A small cluster\<close>

record toy_world =
  t_now :: int
  t_maps :: "((string \<times> string) \<times> blob gomap) list"
  t_pods :: "pod list"
  t_deployments :: "deployment list"

definition toy :: "toy_world env" where
  "toy = \<lparr>e_now = (\<lambda>w. (t_now w, w\<lparr>t_now := t_now w + second\<rparr>)),
     e_random = (\<lambda>n w. (0, w)),
     e_selector = (\<lambda>s. None),
     e_get_cm = (\<lambda>n s w. (case map_of (t_maps w) (n, s) of
        Some b \<Rightarrow> Ok b | None \<Rightarrow> Fail (NotFound n), w)),
     e_put_cm = (\<lambda>n s b w. (Ok (), w\<lparr>t_maps := ((n, s), b) # t_maps w\<rparr>)),
     e_list_pods = (\<lambda>sel s w. (Ok (t_pods w), w)),
     e_list_deployments = (\<lambda>sel s w. (Ok (t_deployments w), w)),
     e_get_deployment = (\<lambda>n s w. (case find (\<lambda>d. dep_name d = n) (t_deployments w) of
        Some d \<Rightarrow> Ok d | None \<Rightarrow> Fail (NotFound n), w)),
     e_patch_deployment = (\<lambda>d w. (Ok (), w))\<rparr>"

definition toy_visit :: visit where
  "toy_visit = \<lparr>v_scan = keys, v_merge = keys, v_emit = keys, v_entries = (\<lambda>m. keys), v_front = keys\<rparr>"

definition toy_start :: toy_world where
  "toy_start = \<lparr>t_now = 1000 * second, t_maps = [],
     t_pods = [\<lparr>pod_name = ''p-0'', pod_phase = ''Running'', pod_containers = []\<rparr>],
     t_deployments = [\<lparr>dep_name = ''peer1'', dep_namespace = ''ns'', dep_annotations = []\<rparr>]\<rparr>"

definition toy_peer :: inst where
  "toy_peer = \<lparr>inst_kind = KPeer, inst_name = ''peer1'', inst_namespace = ''ns'', inst_mspid = ''Org1''\<rparr>"

lemma toy_ops [simp]:
  "e_now toy = (\<lambda>w. (t_now w, w\<lparr>t_now := t_now w + second\<rparr>))"
  "e_random toy = (\<lambda>n w. (0, w))"
  "e_selector toy = (\<lambda>s. None)"
  "e_get_cm toy n s w = (case map_of (t_maps w) (n, s) of
     Some b \<Rightarrow> Ok b | None \<Rightarrow> Fail (NotFound n), w)"
  "e_put_cm toy n s b w = (Ok (), w\<lparr>t_maps := ((n, s), b) # t_maps w\<rparr>)"
  "e_list_pods toy n s w = (Ok (t_pods w), w)"
  "e_list_deployments toy n s w = (Ok (t_deployments w), w)"
  "e_get_deployment toy n s w = (case find (\<lambda>d. dep_name d = n) (t_deployments w) of
     Some d \<Rightarrow> Ok d | None \<Rightarrow> Fail (NotFound n), w)"
  "e_patch_deployment toy d w = (Ok (), w)"
  by (simp_all add: toy_def)

lemma toy_api: "config_map_api toy"
  by (simp add: config_map_api_def read_after_write_def same_maps_def Let_def)

lemma toy_client: "client_ok toy"
  by (simp add: client_ok_def split: option.splits)

lemma toy_visit_any: "any_visit toy_visit"
  by (simp add: any_visit_def toy_visit_def range_order_keys)

subsection \<open>Worlds the service reaches\<close>

text \<open>
  Steps of the service, in any order and with any outcome, and steps of the rest of the world,
  which may do anything but write the service's config maps.
\<close>

inductive reaches :: "'w env \<Rightarrow> 'w \<Rightarrow> 'w \<Rightarrow> bool" for env w0 where
  start: "reaches env w0 w0"
| restart: "reaches env w0 w \<Longrightarrow> reaches env w0 (snd (Restart env n i reason w))"
| reconcile: "reaches env w0 w \<Longrightarrow> any_visit v \<Longrightarrow> reaches env w0 (snd (Reconcile env v t ct ns w))"
| outside: "reaches env w0 w \<Longrightarrow> same_maps env w w' \<Longrightarrow> reaches env w0 w'"

lemma reaches_stored_ok:
  assumes "reaches env w0 w" "config_map_api env" "stored_ok env w0"
  shows "stored_ok env w"
  using assms(1)
  by (induction rule: reaches.induct)
    (use assms(2,3) in \<open>auto intro: stored_ok_Restart stored_ok_Reconcile stored_ok_same\<close>)


definition toy_end :: toy_world where
  "toy_end = snd (Reconcile toy toy_visit (600 * second) ''peer'' ''ns''
     (snd (Restart toy 3 toy_peer ''migration'' toy_start)))"

lemma toy_end_config: "fst (GetConfig toy ''peer'' ''ns'' toy_end) =
   Ok \<lparr>Queues = [(''Org1'', [\<lparr>CRName = ''peer1'', Reason = ''migration'',
          CheckUntilTimestamp = Stamp (1602 * second), LastCheckedTimestamp = Stamp (1001 * second),
          Status = Waiting, PodName = ''p-0''\<rparr>])], Log = []\<rparr>"
  by code_simp


subsection \<open>One reconciliation\<close>

text \<open>What the queue of one MSP may look like after a pass over the fronts.\<close>

definition advanced :: "component list \<Rightarrow> component list \<Rightarrow> bool" where
  "advanced q q' \<longleftrightarrow> (case q of
     [] \<Rightarrow> q' = []
   | c # cs \<Rightarrow> q' = cs \<or> (\<exists>c'. q' = c' # cs \<and> CRName c' = CRName c \<and> Status c' = Waiting))"

lemma front_step_advanced: "front_step m r r' \<Longrightarrow> advanced (slice_of (Queues r) m) (slice_of (Queues r') m)"
  by (induction rule: front_step.induct) (auto simp: advanced_def)

lemma reconcile_fronts_advanced:
  assumes "reconcile_fronts env t ns ms (r, u, q) w = (Ok (r', u', q'), w')" and "distinct ms"
  shows "if m \<in> set ms then advanced (slice_of (Queues r) m) (slice_of (Queues r') m)
    else slice_of (Queues r') m = slice_of (Queues r) m"
  using assms
proof (induction ms arbitrary: r u q w)
  case Nil
  then show ?case by simp
next
  case (Cons k ms)
  from Cons.prems(1) show ?case
  proof (cases rule: reconcile_fronts_step)
    case (front r1 u1 q1 w1 k' ms')
    then have step: "front_step k r r1" and rest: "m \<noteq> k \<or> m \<notin> set ms" using Cons.prems(2) by auto
    from front Cons.IH [of r1 u1 q1 w1] Cons.prems(2)
    have IH: "if m \<in> set ms then advanced (slice_of (Queues r1) m) (slice_of (Queues r') m)
      else slice_of (Queues r') m = slice_of (Queues r1) m" by simp
    show ?thesis
    proof (cases "m = k")
      case True
      with IH rest front_step_advanced [OF step] show ?thesis by simp
    next
      case False
      with IH show ?thesis by (simp only: front_step_frame [OF step False] set_simps insert_iff simp_thms)
    qed
  qed simp
qed

lemma reconcile_fronts_updated:
  assumes "reconcile_fronts env t ns ms (r, u, q) w = (Ok (r', u', q'), w')"
  shows "(u \<longrightarrow> u') \<and> (q \<longrightarrow> q') \<and> (\<not> u' \<longrightarrow> r' = r) \<and>
     ((\<exists>m \<in> set ms. slice_of (Queues r) m \<noteq> []) \<longrightarrow> u' \<or> q')"
  using assms
proof (induction ms arbitrary: r u q w)
  case (Cons m ms)
  from Cons.prems obtain st1 w1
    where 1: "reconcile_front env t ns m (r, u, q) w = (Ok st1, w1)"
      and 2: "reconcile_fronts env t ns ms st1 w1 = (Ok (r', u', q'), w')"
    by (auto elim: bind_r_OkE)
  obtain r1 u1 q1 where st1: "st1 = (r1, u1, q1)" by (cases st1) auto
  note step = reconcile_front_step [OF 1 [unfolded st1]]
  have unchanged: "r1 = r" if "\<not> u1"
    using step that by (auto split: if_splits elim: front_stepE)
  from Cons.IH [OF 2 [unfolded st1]] step unchanged show ?case
    by (auto split: if_splits)
qed simp

text \<open>What is read back after a successful reconciliation, given what was read before it.\<close>

lemma Reconcile_result:
  assumes api: "config_map_api env" and v: "any_visit v"
    and get: "GetConfig env ct ns w = (Ok r, w1)" and wf: "wf_restart_config r"
    and run: "Reconcile env v t ct ns w = (Ok q, w')"
  defines "r0 \<equiv> if isOptimizePossible r (v_scan v (Queues r)) then optimizeRestart v r else r"
  obtains u w2 w3 r' where
    "reconcile_fronts env t ns (v_front v (Queues r0)) (r0, False, False) w2 = (Ok (r', u, q), w3)"
    "fst (GetConfig env ct ns w') = Ok r'" "wf_restart_config r0" "wf_restart_config r'"
proof -
  have wf0: "wf_restart_config r0" using wf by (simp add: r0_def)
  have save: "fst (GetConfig env ct ns w2) = Ok c"
    if "Svc_UpdateConfig env ct ns c w1 = (Ok (), w2)" "wf_restart_config c" for c w1 w2
    using queue_codec.load_after_store [OF _ that(2), of env "config_name ct" ns w1 w2] api that(1)
    by (simp add: Svc_UpdateConfig_def GetConfig_def config_map_api_def)
  from run get obtain r2 w2 where
    opt: "(if isOptimizePossible r (v_scan v (Queues r)) then
        bind_r (Svc_UpdateConfig env ct ns (optimizeRestart v r) w1) (\<lambda>_ w. (Ok (optimizeRestart v r), w))
      else (Ok r, w1)) = (Ok r2, w2)"
    and rest: "bind_r (reconcile_fronts env t ns (v_front v (Queues r2)) (r2, False, False) w2)
      (\<lambda>(r, updated, requeue) w. if updated
         then bind_r (Svc_UpdateConfig env ct ns r w) (\<lambda>_ w. (Ok requeue, w))
         else (Ok requeue, w)) = (Ok q, w')"
    unfolding Reconcile_def Let_def by (auto elim!: bind_r_OkE)
  have r2: "r2 = r0" using opt by (auto simp: r0_def split: if_splits elim!: bind_r_OkE)
  have stored: "fst (GetConfig env ct ns w2) = Ok r0"
  proof (cases "isOptimizePossible r (v_scan v (Queues r))")
    case True
    with opt save wf show ?thesis by (auto simp: r0_def elim!: bind_r_OkE)
  next
    case False
    with opt have "w2 = w1" by simp
    moreover from get GetConfig_same [OF api, of w ct ns] have "same_maps env w w1" by simp
    then have "fst (GetConfig env ct ns w1) = fst (GetConfig env ct ns w)"
      by (rule GetConfig_same_maps)
    ultimately show ?thesis using False get by (simp add: r0_def)
  qed
  from rest r2 obtain r' u rq w3 where
    pass: "reconcile_fronts env t ns (v_front v (Queues r0)) (r0, False, False) w2 = (Ok (r', u, rq), w3)"
    and fin: "(if u then bind_r (Svc_UpdateConfig env ct ns r' w3) (\<lambda>_ w. (Ok rq, w))
         else (Ok rq, w3)) = (Ok q, w')"
    by (auto elim!: bind_r_OkE)
  have q: "rq = q" using fin by (auto split: if_splits elim!: bind_r_OkE)
  have wf': "wf_restart_config r'"
    using reconcile_fronts_invariant [OF pass, of wf_restart_config] wf0 front_step_wf by blast
  have "fst (GetConfig env ct ns w') = Ok r'"
  proof (cases u)
    case True
    with fin save wf' show ?thesis by (auto elim!: bind_r_OkE)
  next
    case False
    with fin have "w' = w3" by simp
    moreover have "same_maps env w2 w3"
      using reconcile_fronts_same [OF api, of w2 t ns "v_front v (Queues r0)" "(r0, False, False)"]
      by (simp add: pass)
    then have "fst (GetConfig env ct ns w3) = Ok r0"
      using stored GetConfig_same_maps by metis
    ultimately show ?thesis using False reconcile_fronts_updated [OF pass] by simp
  qed
  with that pass q wf0 wf' show thesis by blast
qed

definition kept :: "restart_config \<Rightarrow> restart_config \<Rightarrow> bool" where
  "kept r r' \<longleftrightarrow> wf_restart_config r' \<and> requests r' = requests r \<and>
     (\<forall>n. \<exists>cs. slice_of (Log r') n = slice_of (Log r) n @ cs)"

lemma front_step_kept:
  assumes "front_step m r1 r2" "kept r r1"
  shows "kept r r2"
  unfolding kept_def
proof (intro conjI allI)
  show "wf_restart_config r2" "requests r2 = requests r"
    using assms front_step_wf front_step_requests by (auto simp: kept_def)
  fix n
  from assms(2) obtain cs where "slice_of (Log r1) n = slice_of (Log r) n @ cs"
    unfolding kept_def by blast
  with front_step_log [OF assms(1), of n]
  show "\<exists>cs. slice_of (Log r2) n = slice_of (Log r) n @ cs" by auto
qed

text \<open>C2: a reconciliation that finds nothing to merge works on the fronts only.  In the stored
  configuration every queue is as before up to its front, which has left the queue or is a
  component of the same name that now waits for its restart; no request is lost or invented (those
  that left are in the log); and the log only grows.\<close>

theorem reconcile_advances_fronts:
  assumes "config_map_api env" and "any_visit v"
    and "GetConfig env ct ns w = (Ok r, w1)"
    and "\<not> isOptimizePossible r (v_scan v (Queues r))"
    and "Reconcile env v t ct ns w = (Ok q, w')"
  shows "\<exists>r'. fst (GetConfig env ct ns w') = Ok r' \<and>
    (\<forall>mspid. advanced (slice_of (Queues r) mspid) (slice_of (Queues r') mspid)) \<and>
    requests r' = requests r \<and>
    (\<forall>n. \<exists>cs. slice_of (Log r') n = slice_of (Log r) n @ cs)"
proof -
  have wf: "wf_restart_config r" using assms(3) GetConfig_wf by (metis fst_conv)
  obtain u w2 w3 r' where
    pass: "reconcile_fronts env t ns (v_front v (Queues r)) (r, False, False) w2 = (Ok (r', u, q), w3)"
    and read: "fst (GetConfig env ct ns w') = Ok r'" "wf_restart_config r" "wf_restart_config r'"
    by (rule Reconcile_result [OF assms(1-3) wf assms(5), unfolded if_not_P [OF assms(4)]])
  have "range_order (v_front v)" "distinct (keys (Queues r))"
    using assms(2) wf by (simp_all add: any_visit_def wf_restart_config_def)
  note order = range_orderD [OF this]
  have "advanced (slice_of (Queues r) m) (slice_of (Queues r') m)" for m
  proof (cases "m \<in> set (keys (Queues r))")
    case True
    with reconcile_fronts_advanced [OF pass order(1), of m] order(2) show ?thesis by simp
  next
    case False
    with reconcile_fronts_advanced [OF pass order(1), of m] order(2)
    show ?thesis by (simp add: slice_of_absent advanced_def)
  qed
  moreover have "kept r r'"
  proof (rule reconcile_fronts_invariant [OF pass, of "kept r"])
    show "kept r r" using wf by (simp add: kept_def)
  qed (rule front_step_kept)
  ultimately have "fst (GetConfig env ct ns w') = Ok r' \<and>
      (\<forall>m. advanced (slice_of (Queues r) m) (slice_of (Queues r') m)) \<and> kept r r'"
    using read(1) by (intro conjI allI)
  then show ?thesis unfolding kept_def by (intro exI [of _ r']) simp
qed

definition toy_two :: toy_world where
  "toy_two = toy_start\<lparr>t_maps := [((''peer-restart-config'', ''ns''),
     [(restart_key, Json (restart_config_json
        \<lparr>Queues = [(''Org1'', [zero_component\<lparr>CRName := ''peer1'', Status := Pending\<rparr>,
                              zero_component\<lparr>CRName := ''peer2'', Status := Pending\<rparr>])],
         Log = []\<rparr>))])]\<rparr>"

theorem reconcile_advances_fronts_witness:
  "\<exists>r'. fst (GetConfig toy ''peer'' ''ns''
       (snd (Reconcile toy toy_visit 600 ''peer'' ''ns'' toy_two))) = Ok r' \<and>
     requests r' = {#''peer1'', ''peer2''#}"
proof -
  let ?r = "\<lparr>Queues = [(''Org1'', [zero_component\<lparr>CRName := ''peer1'', Status := Pending\<rparr>,
                              zero_component\<lparr>CRName := ''peer2'', Status := Pending\<rparr>])],
             Log = []\<rparr>"
  have read: "fst (GetConfig toy ''peer'' ''ns'' toy_two) = Ok ?r" by code_simp
  have get: "GetConfig toy ''peer'' ''ns'' toy_two = (Ok ?r, snd (GetConfig toy ''peer'' ''ns'' toy_two))"
    by (rule prod_eqI) (simp_all only: read fst_conv snd_conv)
  have ok: "fst (Reconcile toy toy_visit 600 ''peer'' ''ns'' toy_two) = Ok False" by code_simp
  have run: "Reconcile toy toy_visit 600 ''peer'' ''ns'' toy_two =
    (Ok False, snd (Reconcile toy toy_visit 600 ''peer'' ''ns'' toy_two))"
    by (rule prod_eqI) (simp_all only: ok fst_conv snd_conv)
  have opt: "\<not> isOptimizePossible ?r (v_scan toy_visit (Queues ?r))" by code_simp
  have reqs: "requests ?r = {#''peer1'', ''peer2''#}" by (simp add: requests_def names_in_def)
  from reconcile_advances_fronts [OF toy_api toy_visit_any get opt run]
  show ?thesis unfolding reqs by blast
qed

text \<open>C7: merging the requests of a configuration (in whatever order the Go maps are visited)
  forgets no component and invents none, leaves no queue with two requests of the same component
  that are not yet under way, keeps waiting components at the front of their queue, and does not
  touch the log.\<close>

theorem merging_is_sound:
  assumes "any_visit v" and "wf_restart_config r" and "plain_names r"
  shows "all_names (optimizeRestart v r) = all_names r \<and>
    distinct (map CRName (filter (\<lambda>c. Status c \<noteq> Waiting)
      (slice_of (Queues (optimizeRestart v r)) mspid))) \<and>
    (staggered r \<longrightarrow> staggered (optimizeRestart v r)) \<and>
    Log (optimizeRestart v r) = Log r"
  using optimize_names [OF assms] optimize_merges [OF assms] optimize_staggered [OF assms(1,2)]
  by simp

theorem merging_is_sound_witness:
  "all_names (optimizeRestart toy_visit
      \<lparr>Queues = [(''Org1'', [zero_component\<lparr>CRName := ''p''\<rparr>, zero_component\<lparr>CRName := ''p''\<rparr>])],
       Log = []\<rparr>) = {''p''}"
proof -
  let ?r = "\<lparr>Queues = [(''Org1'', [zero_component\<lparr>CRName := ''p''\<rparr>,
                                  zero_component\<lparr>CRName := ''p''\<rparr>])], Log = []\<rparr>"
  have slice: "slice_of (Queues ?r) m = (if m = ''Org1'' then [zero_component\<lparr>CRName := ''p''\<rparr>,
                                  zero_component\<lparr>CRName := ''p''\<rparr>] else [])" for m
    by (simp add: slice_of_def)
  have plain: "plain_names ?r" unfolding plain_names_def slice by simp
  have "wf_restart_config ?r" by (simp add: wf_restart_config_def)
  from merging_is_sound [OF toy_visit_any this plain]
  have "all_names (optimizeRestart toy_visit ?r) = all_names ?r" by (rule conjunct1)
  also have "all_names ?r = {''p''}" unfolding all_names_def slice by auto
  finally show ?thesis .
qed

text \<open>Whether merging is worthwhile does not depend on the order in which the queues are
  visited: it is, exactly when two requests that are not yet under way have the same MSP and
  component name, run together.\<close>

lemma merging_wanted_iff:
  "isOptimizePossible r ms \<longleftrightarrow>
     \<not> distinct (concat (map (\<lambda>m. map (\<lambda>c. m @ CRName c)
        (filter (\<lambda>c. Status c \<noteq> Waiting) (slice_of (Queues r) m))) ms))"
  by (simp add: isOptimizePossible_iff scan_keys_def)

subsection \<open>Requests are stored\<close>

text \<open>When adding a restart request succeeds, the configuration read back afterwards is the
  one before with the new pending request at the end of its organisation's queue: behind every
  request that was there, and no other queue and no log entry has changed.\<close>

lemma added_request_is_stored:
  assumes "config_map_api env" and "GetConfig env ct (inst_namespace i) w = (Ok r, w1)"
    and "addToQueue env ct i reason w = (Ok (), w')"
  shows "\<exists>r' c. fst (GetConfig env ct (inst_namespace i) w') = Ok r' \<and>
    CRName c = inst_name i \<and> Reason c = reason \<and> Status c = Pending \<and>
    slice_of (Queues r') (inst_mspid i) = slice_of (Queues r) (inst_mspid i) @ [c] \<and>
    (\<forall>m. m \<noteq> inst_mspid i \<longrightarrow> slice_of (Queues r') m = slice_of (Queues r) m) \<and> Log r' = Log r"
  using addToQueue_read_back [OF assms]
  by (intro exI [of _ "AddToQueue (inst_mspid i) (queued i reason) r"] exI [of _ "queued i reason"])
    (simp add: queued_def)

lemma added_request_is_stored_witness:
  "\<exists>r' c. fst (GetConfig toy ''peer'' ''ns'' (snd (addToQueue toy ''peer'' toy_peer ''tls'' toy_two))) = Ok r' \<and>
     CRName c = ''peer1'' \<and> Reason c = ''tls'' \<and> drop 2 (slice_of (Queues r') ''Org1'') = [c]"
proof -
  let ?r = "\<lparr>Queues = [(''Org1'', [zero_component\<lparr>CRName := ''peer1'', Status := Pending\<rparr>,
                              zero_component\<lparr>CRName := ''peer2'', Status := Pending\<rparr>])],
             Log = []\<rparr>"
  have read: "fst (GetConfig toy ''peer'' (inst_namespace toy_peer) toy_two) = Ok ?r" by code_simp
  have get: "GetConfig toy ''peer'' (inst_namespace toy_peer) toy_two =
      (Ok ?r, snd (GetConfig toy ''peer'' (inst_namespace toy_peer) toy_two))"
    by (rule prod_eqI) (simp_all only: read fst_conv snd_conv)
  have ok: "fst (addToQueue toy ''peer'' toy_peer ''tls'' toy_two) = Ok ()" by code_simp
  have run: "addToQueue toy ''peer'' toy_peer ''tls'' toy_two =
    (Ok (), snd (addToQueue toy ''peer'' toy_peer ''tls'' toy_two))"
    by (rule prod_eqI) (simp_all only: ok fst_conv snd_conv)
  from added_request_is_stored [OF toy_api get run] obtain r' c where
    1: "fst (GetConfig toy ''peer'' (inst_namespace toy_peer)
       (snd (addToQueue toy ''peer'' toy_peer ''tls'' toy_two))) = Ok r'"
    and 2: "CRName c = inst_name toy_peer" "Reason c = ''tls''"
    and 3: "slice_of (Queues r') (inst_mspid toy_peer) = slice_of (Queues ?r) (inst_mspid toy_peer) @ [c]"
    by blast
  show ?thesis
  proof (intro exI conjI)
    show "fst (GetConfig toy ''peer'' ''ns'' (snd (addToQueue toy ''peer'' toy_peer ''tls'' toy_two))) = Ok r'"
      using 1 by (simp add: toy_peer_def)
    show "CRName c = ''peer1''" "Reason c = ''tls''" using 2 by (simp_all add: toy_peer_def)
    show "drop 2 (slice_of (Queues r') ''Org1'') = [c]"
      using 3 by (simp add: toy_peer_def) (simp add: slice_of_def)
  qed
qed

subsection \<open>Outcomes at the front\<close>

text \<open>A pending component only becomes a waiting one after its deployment has been restarted
  without an error, and then with a deadline \<open>timeout\<close> after a reading of the clock; if the deployment does not
  exist the request is logged as deleted and nothing is restarted; if the restart fails the error
  is returned and the configuration is not changed.\<close>

lemma pending_front_outcome:
  assumes "slice_of (Queues r) m = c # cs" and "Status c = Pending"
    and "GetRunningPods env (CRName c) ns w = (Ok ps, w1)"
    and "CheckDeployments env (CRName c) ns w1 = ((ex, e), w2)"
  shows "reconcile_front env timeout ns m (r, u, q) w =
    (if ex then
       (case action_Restart env (CRName c) ns w2 of
          (Fail e, w3) \<Rightarrow> (Fail (Wrapped (''failed to restart deployment '' @ CRName c) e), w3)
        | (Panic p, w3) \<Rightarrow> (Panic p, w3)
        | (Ok _, w3) \<Rightarrow>
            (Ok (set_front m (c\<lparr>PodName := (if ps = [] then PodName c else pod_name (ps ! 0)),
                   Status := Waiting,
                   LastCheckedTimestamp := Stamp (fst (e_now env w3)),
                   CheckUntilTimestamp := Stamp (fst (e_now env (snd (e_now env w3))) + timeout)\<rparr>) r,
                 True, q), snd (e_now env (snd (e_now env w3)))))
     else
       (Ok (moved m (c\<lparr>PodName := (if ps = [] then PodName c else pod_name (ps ! 0)),
              Status := Deleted,
              LastCheckedTimestamp := Stamp (fst (e_now env w2)),
              CheckUntilTimestamp := Stamp (fst (e_now env (snd (e_now env w2))) + timeout)\<rparr>) r,
            True, q), snd (e_now env (snd (e_now env w2)))))"
proof -
  have run: "reconcile_front env timeout ns m (r, u, q) w = reconcile_pending env timeout ns m c (r, u, q) w"
    using assms(1,2) by (simp add: reconcile_front_def)
  show ?thesis
  proof (cases ex)
    case False
    then show ?thesis unfolding run reconcile_pending_def
      by (cases "ps = []") (simp_all add: assms(3,4) Let_def log_and_pop_moved case_prod_beta)
  next
    case True
    then show ?thesis unfolding run reconcile_pending_def
      by (cases "ps = []"; cases "action_Restart env (CRName c) ns w2";
          cases "fst (action_Restart env (CRName c) ns w2)")
        (simp_all add: assms(3,4) Let_def RestartDeployment_def case_prod_beta)
  qed
qed

text \<open>A waiting component leaves its queue in a reconciliation exactly when a single pod with
  another name than the one it was restarted from is running (its restart is complete) or its
  deadline has passed (it is logged as expired).\<close>

lemma waiting_front_leaves_iff:
  assumes "slice_of (Queues r) m = c # cs" and "Status c = Waiting"
    and "GetRunningPods env (CRName c) ns w = (Ok ps, w1)"
    and "CheckUntilTimestamp c = Stamp deadline"
    and "reconcile_front env timeout ns m (r, u, q) w = (Ok (r', u', q'), w')"
  shows "(slice_of (Queues r') m = cs \<longleftrightarrow>
       (length ps = 1 \<and> pod_name (hd ps) \<noteq> PodName c) \<or> deadline < fst (e_now env w1)) \<and>
    (slice_of (Queues r') m = cs \<longrightarrow> (\<exists>c'. slice_of (Log r') (CRName c) = slice_of (Log r) (CRName c) @ [c'] \<and>
       Status c' = (if length ps = 1 \<and> pod_name (hd ps) \<noteq> PodName c then Completed else Expired)))"
proof -
  have run: "reconcile_waiting env ns m c (r, u, q) w = (Ok (r', u', q'), w')"
    using assms(1,2,5) by (simp add: reconcile_front_def)
  obtain t w2 where now: "e_now env w1 = (t, w2)" by fastforce
  have pod: "length ps = 1 \<and> pod_name (hd ps) \<noteq> PodName c \<longleftrightarrow>
      length ps = 1 \<and> PodName c \<noteq> pod_name (ps ! 0)"
    by (cases ps) auto
  show ?thesis
  proof (cases "length ps = 1 \<and> PodName c \<noteq> pod_name (ps ! 0)")
    case True
    with run assms(1,3) have "r' = moved m (c\<lparr>Status := Completed\<rparr>) r"
      by (simp add: reconcile_waiting_def log_and_pop_moved)
    with True assms(1) pod show ?thesis by simp
  next
    case False
    note rest = run [unfolded reconcile_waiting_def prod.case assms(3) bind_r_simps wrap_err_simps
        if_not_P [OF False] Let_def assms(4) parse_stamp_simps now]
    show ?thesis
    proof (cases "deadline < t")
      case True
      with rest have "r' = moved m (c\<lparr>Status := Expired\<rparr>) r"
        by (simp add: log_and_pop_moved)
      with True False assms(1) pod now show ?thesis by simp
    next
      case early: False
      note rest' = rest [unfolded if_not_P [OF early]]
      then have "r' = r \<or> (\<exists>t. r' = set_front m (c\<lparr>LastCheckedTimestamp := Stamp t\<rparr>) r)"
        by (auto split: prod.splits if_splits elim!: bind_r_OkE)
      with assms(1) have "\<exists>c'. slice_of (Queues r') m = c' # cs" by auto
      then have "slice_of (Queues r') m \<noteq> cs" by auto
      with False early pod now show ?thesis by simp
    qed
  qed
qed

definition toy_pods :: "pod list" where
  "toy_pods = [\<lparr>pod_name = ''p-0'', pod_phase = ''Running'', pod_containers = []\<rparr>]"

definition toy_waiting :: restart_config where
  "toy_waiting = \<lparr>Queues = [(''Org1'', [\<lparr>CRName = ''peer1'', Reason = '''',
      CheckUntilTimestamp = Stamp (2000 * second), LastCheckedTimestamp = Stamp (990 * second),
      Status = Waiting, PodName = ''old''\<rparr>])], Log = []\<rparr>"

lemma waiting_front_leaves_iff_witness:
  "\<exists>r' u q w'. reconcile_front toy 600 ''ns'' ''Org1'' (toy_waiting, False, False) toy_start =
       (Ok (r', u, q), w') \<and> slice_of (Queues r') ''Org1'' = []"
proof -
  let ?c = "\<lparr>CRName = ''peer1'', Reason = '''',
      CheckUntilTimestamp = Stamp (2000 * second), LastCheckedTimestamp = Stamp (990 * second),
      Status = Waiting, PodName = ''old''\<rparr>"
  let ?run = "reconcile_front toy 600 ''ns'' ''Org1'' (toy_waiting, False, False) toy_start"
  have slice: "slice_of (Queues toy_waiting) ''Org1'' = ?c # []"
    by (simp add: toy_waiting_def slice_of_def)
  have waiting: "Status ?c = Waiting" by simp
  have pods: "GetRunningPods toy (CRName ?c) ''ns'' toy_start = (Ok toy_pods, toy_start)"
    by (simp add: GetRunningPods_def toy_start_def toy_pods_def pod_ready_def)
  have deadline: "CheckUntilTimestamp ?c = Stamp (2000 * second)" by simp
  have "\<exists>st. fst ?run = Ok st"
    by (simp add: reconcile_front_def slice reconcile_waiting_def pods [simplified] toy_pods_def
        log_and_pop_moved del: ex_simps split_paired_Ex)
  then obtain r' u q where st: "fst ?run = Ok (r', u, q)" by auto
  have run: "?run = (Ok (r', u, q), snd ?run)"
    by (rule prod_eqI) (simp_all only: st fst_conv snd_conv)
  from waiting_front_leaves_iff [OF slice waiting pods deadline run]
  have "slice_of (Queues r') ''Org1'' = []" by (simp add: toy_pods_def)
  with run show ?thesis by blast
qed

lemma pending_front_outcome_witness:
  "fst (reconcile_front toy 600 ''ns'' ''Org1''
     (\<lparr>Queues = [(''Org1'', [zero_component\<lparr>CRName := ''peer1'', Status := Pending\<rparr>])], Log = []\<rparr>,
      False, False) (toy_start\<lparr>t_deployments := []\<rparr>)) =
   Ok (moved ''Org1'' (zero_component\<lparr>CRName := ''peer1'', PodName := ''p-0'', Status := Deleted,
         LastCheckedTimestamp := Stamp (1000 * second),
         CheckUntilTimestamp := Stamp (1001 * second + 600)\<rparr>)
       \<lparr>Queues = [(''Org1'', [zero_component\<lparr>CRName := ''peer1'', Status := Pending\<rparr>])], Log = []\<rparr>,
       True, False)"
proof -
  let ?c = "zero_component\<lparr>CRName := ''peer1'', Status := Pending\<rparr>"
  let ?r = "\<lparr>Queues = [(''Org1'', [?c])], Log = []\<rparr>"
  let ?w = "toy_start\<lparr>t_deployments := []\<rparr>"
  have slice: "slice_of (Queues ?r) ''Org1'' = ?c # []" by (simp add: slice_of_def)
  have pods: "GetRunningPods toy (CRName ?c) ''ns'' ?w = (Ok toy_pods, ?w)"
    by (simp add: GetRunningPods_def toy_start_def toy_pods_def pod_ready_def)
  have none: "CheckDeployments toy (CRName ?c) ''ns'' ?w = ((False, None), ?w)"
    by (simp add: CheckDeployments_def toy_start_def)
  have pending: "Status ?c = Pending" by simp
  show ?thesis
    by (subst pending_front_outcome [OF slice pending pods none])
      (simp add: toy_pods_def toy_start_def second_def)
qed

subsection \<open>Panics\<close>

lemma fst_no_panic: "(\<And>p w'. m \<noteq> (Panic p, w')) \<Longrightarrow> fst m \<noteq> Panic p"
  by (cases m) auto

lemma GetConfig_no_panic:
  assumes "client_ok env"
  shows "GetConfig env ct ns w \<noteq> (Panic p, w')"
proof
  assume "GetConfig env ct ns w = (Panic p, w')"
  then have "fst (GetConfig env ct ns w) = Panic p" by simp
  moreover have "fst (e_get_cm env (config_name ct) ns w) \<noteq> Panic p" for p
    using assms(1) by (simp add: client_ok_def)
  ultimately show False using restart_config_of_json_no_panic
    by (auto simp: GetConfig_view split: go_result.splits option.splits blob.splits if_splits)
qed

lemma Svc_UpdateConfig_no_panic: "client_ok env \<Longrightarrow> Svc_UpdateConfig env ct ns r w \<noteq> (Panic p, w')"
  by (auto simp: Svc_UpdateConfig_def UpdateConfig_def client_okD)

lemma GetRunningPods_no_panic: "GetRunningPods env n ns w \<noteq> (Panic p, w')"
  by (auto simp: GetRunningPods_def split: option.splits prod.splits go_result.splits)

lemma parse_stamp_no_panic [simp]: "parse_stamp t \<noteq> Panic p"
  by (cases t) simp_all

lemma reconcile_front_no_panic:
  assumes "client_ok env"
  shows "reconcile_front env t ns m (r, u, q) w \<noteq> (Panic p, w')"
proof -
  have "reconcile_pending env t ns m c (r, u, q) w \<noteq> (Panic p, w')" for c
    using assms unfolding reconcile_pending_def
    by (auto simp: Let_def log_and_pop_moved GetRunningPods_no_panic RestartDeployment_def
        action_Restart_no_panic split: prod.splits if_splits elim!: bind_r_PanicE)
  moreover have "reconcile_waiting env ns m c (r, u, q) w \<noteq> (Panic p, w')" for c
    using assms unfolding reconcile_waiting_def
    by (auto simp: Let_def log_and_pop_moved GetRunningPods_no_panic
        split: prod.splits if_splits elim!: bind_r_PanicE)
  ultimately show ?thesis
    by (simp add: reconcile_front_def log_and_pop_moved split: list.split)
qed

lemma reconcile_fronts_no_panic:
  "client_ok env \<Longrightarrow> reconcile_fronts env t ns ms st w \<noteq> (Panic p, w')"
proof (induction ms arbitrary: st w)
  case (Cons m ms)
  obtain r u q where "st = (r, u, q)" by (cases st)
  with Cons reconcile_front_no_panic [OF Cons.prems]
  show ?case by (auto elim!: bind_r_PanicE)
qed simp



end
