(* ===== verification/ManagerProps.thy ===== *)
theory ManagerProps
  imports RestartManager RestartProps
begin

text \<open>
  The properties of the restart manager: requests are recorded and survive until they are handed
  on, a restart is not triggered before the wait time has passed, and a request that is due ends up
  in the queue of the stagger restart service.
\<close>

subsection \<open>The manager's config map\<close>

lemma Mgr_GetConfig_same_maps:
  "same_maps env w w' \<Longrightarrow> fst (Mgr_GetConfig env i w') = fst (Mgr_GetConfig env i w)"
  unfolding Mgr_GetConfig_def by (rule config_view_cong) (simp add: same_maps_def)

lemma Mgr_GetConfig_wf: "fst (Mgr_GetConfig env i w) = Ok c \<Longrightarrow> wf_op_config c"
  unfolding Mgr_GetConfig_def by (drule config_read_Ok) (auto dest: decoded_op_config_wf)

lemma Mgr_GetConfig_same: "config_map_api env \<Longrightarrow> same_maps env w (snd (Mgr_GetConfig env i w))"
  using api_reads(3) [of env w "''operator-config''" "inst_namespace i"]
  by (auto simp: Mgr_GetConfig_def GetRestartConfigFrom_def wrap_err_def
      split: prod.splits go_result.splits option.splits blob.splits)

lemma Mgr_read_back:
  assumes "config_map_api env" "wf_op_config c" "Mgr_UpdateConfigMap env c i w = (Ok (), w')"
  shows "fst (Mgr_GetConfig env i w') = Ok c"
  using request_codec.load_after_store [of env c "''operator-config''" "inst_namespace i" w w'] assms
  by (simp add: Mgr_UpdateConfigMap_def Mgr_GetConfig_def config_map_api_def)

text \<open>The stagger restart service writes other config maps than the manager's.\<close>

lemma config_name_other: "config_name ct \<noteq> ''operator-config''"
proof
  assume eq: "config_name ct = ''operator-config''"
  then have "length (config_name ct) = 15" by simp
  then have "ct = []" by (simp add: config_name_def)
  with eq show False by (simp add: config_name_def)
qed

definition same_ops :: "'w env \<Rightarrow> 'w \<Rightarrow> 'w \<Rightarrow> bool" where
  "same_ops env w w' \<longleftrightarrow>
     (\<forall>s. fst (e_get_cm env ''operator-config'' s w') = fst (e_get_cm env ''operator-config'' s w))"

lemma same_ops_maps: "same_maps env w w' \<Longrightarrow> same_ops env w w'"
  by (simp add: same_maps_def same_ops_def)

lemma same_ops_refl [simp]: "same_ops env w w"
  by (simp add: same_ops_def)

lemma same_ops_trans: "same_ops env w w' \<Longrightarrow> same_ops env w' w'' \<Longrightarrow> same_ops env w w''"
  by (simp add: same_ops_def)

lemma same_ops_bind:
  "same_ops env w (snd m) \<Longrightarrow> (\<And>x w1. m = (Ok x, w1) \<Longrightarrow> same_ops env w1 (snd (f x w1))) \<Longrightarrow>
     same_ops env w (snd (bind_r m f))"
  by (cases m; cases "fst m") (auto simp: bind_r_def intro: same_ops_trans)

lemma Svc_UpdateConfig_same_ops:
  assumes "config_map_api env"
  shows "same_ops env w (snd (Svc_UpdateConfig env ct ns c w))"
proof -
  let ?w = "snd (e_put_cm env (config_name ct) ns [(restart_key, Json (restart_config_json c))] w)"
  have "fst (e_get_cm env ''operator-config'' s ?w) = fst (e_get_cm env ''operator-config'' s w) \<or>
      ''operator-config'' = config_name ct" for s
    using assms unfolding config_map_api_def Let_def by blast
  then have "fst (e_get_cm env ''operator-config'' s ?w) = fst (e_get_cm env ''operator-config'' s w)" for s
    using config_name_other [of ct] by metis
  then show ?thesis by (simp add: same_ops_def Svc_UpdateConfig_def UpdateConfig_def)
qed

lemma addToQueue_same_ops:
  "config_map_api env \<Longrightarrow> same_ops env w (snd (addToQueue env ct i reason w))"
  unfolding addToQueue_def Let_def
  by (intro same_ops_bind Svc_UpdateConfig_same_ops same_ops_maps GetConfig_same)

lemma poll_same_ops:
  "(\<And>w. same_ops env w (snd (cond w))) \<Longrightarrow> same_ops env w (snd (poll n cond w))"
proof (induction n arbitrary: w)
  case (Suc n)
  obtain b w1 where cond: "cond w = (b, w1)" by fastforce
  with Suc.prems [of w] have "same_ops env w w1" by simp
  with cond Suc.IH [OF Suc.prems, of w1] show ?case by (cases b) (auto intro: same_ops_trans)
qed simp

lemma Restart_same_ops:
  assumes api: "config_map_api env"
  shows "same_ops env w (snd (Restart env n i reason w))"
proof -
  have "same_ops env w (snd (Svc_AddToQueue env n i reason w))" for w
    unfolding Svc_AddToQueue_def snd_wrap_err
    by (intro poll_same_ops) (simp only: snd_swallow addToQueue_same_ops [OF api])
  moreover have "same_ops env w (snd (RestartImmediately env ct i reason w))" for w ct
    unfolding RestartImmediately_def RestartDeployment_def Let_def
  proof (rule same_ops_bind)
    show "same_ops env w (snd (action_Restart env (inst_name i) (inst_namespace i) w))"
      using api by (intro same_ops_maps action_Restart_same)
    fix x w1
    obtain t w2 where now: "e_now env w1 = (t, w2)" by fastforce
    have "same_ops env w1 w2" using api_reads(1) [OF api, of w1] now by (simp add: same_ops_maps)
    moreover have "same_ops env w2 (snd (bind_r (GetConfig env ct (inst_namespace i) w2)
        (\<lambda>cfg. Svc_UpdateConfig env ct (inst_namespace i)
          (AddToLog (zero_component\<lparr>CRName := inst_name i, Reason := reason, Status := Restarted,
             LastCheckedTimestamp := Stamp t\<rparr>) cfg))))"
      by (intro same_ops_bind Svc_UpdateConfig_same_ops same_ops_maps GetConfig_same api)
    ultimately show "same_ops env w1 (snd (case e_now env w1 of (now, w) \<Rightarrow>
      bind_r (GetConfig env ct (inst_namespace i) w)
        (\<lambda>cfg. Svc_UpdateConfig env ct (inst_namespace i)
          (AddToLog (zero_component\<lparr>CRName := inst_name i, Reason := reason, Status := Restarted,
             LastCheckedTimestamp := Stamp now\<rparr>) cfg))))"
      by (simp add: now same_ops_trans)
  qed
  ultimately show ?thesis
    by (cases "inst_kind i") (simp_all only: Restart_def kind.case snd_wrap_err)
qed

lemma Mgr_GetConfig_same_ops:
  "same_ops env w w' \<Longrightarrow> fst (Mgr_GetConfig env i w') = fst (Mgr_GetConfig env i w)"
  unfolding Mgr_GetConfig_def by (rule config_view_cong) (simp add: same_ops_def)

subsection \<open>Requests are recorded\<close>

definition request_of :: "op_config \<Rightarrow> string \<Rightarrow> string \<Rightarrow> request option" where
  "request_of c n reason =
     (case ptr_of (Instances c) n of None \<Rightarrow> None | Some r \<Rightarrow> ptr_of (Requests r) reason)"

lemma ptr_of_update [simp]: "ptr_of (AList.update k v m) k' = (if k' = k then v else ptr_of m k')"
  by (simp add: ptr_of_def update_conv')

lemma ptr_of_Nil [simp]: "ptr_of [] k = None"
  by (simp add: ptr_of_def)

lemma ptr_of_in: "ptr_of m k = Some x \<Longrightarrow> (k, Some x) \<in> set m"
  by (auto simp: ptr_of_def dest: map_of_SomeD split: option.splits)

lemma wf_op_requests:
  "wf_op_config c \<Longrightarrow> ptr_of (Instances c) n = Some r \<Longrightarrow> distinct (keys (Requests r))"
  by (fastforce simp: wf_op_config_def dest: ptr_of_in)

lemma wf_op_update:
  assumes "wf_op_config c" "distinct (keys (Requests r))"
  shows "wf_op_config (c\<lparr>Instances := AList.update n (Some r) (Instances c)\<rparr>)"
proof -
  have "set (AList.update n (Some r) m) \<subseteq> insert (n, Some r) (set m)" for m
    by (induction m) auto
  with assms show ?thesis by (fastforce simp: wf_op_config_def distinct_update)
qed

lemma updateRestartRequest_ok:
  assumes "updateRestartRequest env (Some r) reason w = (res, w1)"
  obtains req where "res = Ok (r\<lparr>Requests := AList.update reason (Some req) (Requests r)\<rparr>)"
    "Req_Status req = Pending"
    "\<forall>old. ptr_of (Requests r) reason = Some old \<longrightarrow>
       LastActionTimestamp req = LastActionTimestamp old \<and> (Req_Status old = Pending \<longrightarrow> req = old)"
proof -
  let ?old = "case ptr_of (Requests r) reason of None \<Rightarrow> zero_request | Some q \<Rightarrow> q"
  show thesis
  proof (cases "Req_Status ?old = Pending")
    case True
    with assms that [of ?old] show thesis
      by (auto simp: updateRestartRequest_def Let_def split: option.splits)
  next
    case False
    obtain t w2 where "e_now env w = (t, w2)" by fastforce
    with False assms that [of "?old\<lparr>Req_Status := Pending, RequestTimestamp := rfc3339 t\<rparr>"]
    show thesis by (auto simp: updateRestartRequest_def Let_def split: option.splits)
  qed
qed

text \<open>C6: when asking for a restart succeeds, the configuration read back afterwards has the
  request of that instance for that reason pending; a request that was pending before is untouched,
  so that asking again does not move the time its wait counts from, and the time of the last
  restart is kept in any case; the requests of every other reason and instance are as before.\<close>

theorem request_is_recorded:
  assumes "config_map_api env" and "Mgr_GetConfig env i w = (Ok c, w1)"
    and "updateConfigFor env i reason w = (Ok (), w')"
  shows "\<exists>c' req. fst (Mgr_GetConfig env i w') = Ok c' \<and>
    request_of c' (inst_name i) reason = Some req \<and> Req_Status req = Pending \<and>
    (\<forall>old. request_of c (inst_name i) reason = Some old \<longrightarrow>
       LastActionTimestamp req = LastActionTimestamp old \<and> (Req_Status old = Pending \<longrightarrow> req = old)) \<and>
    (\<forall>n k. n \<noteq> inst_name i \<or> k \<noteq> reason \<longrightarrow> request_of c' n k = request_of c n k)"
proof -
  let ?n = "inst_name i"
  let ?insts = "if map_of (Instances c) ?n = None
    then AList.update ?n (Some \<lparr>Requests = []\<rparr>) (Instances c) else Instances c"
  have wf: "wf_op_config c" using assms(2) Mgr_GetConfig_wf by (metis fst_conv)
  have wf': "wf_op_config \<lparr>Instances = ?insts\<rparr>"
    using wf_op_update [OF wf, of "\<lparr>Requests = []\<rparr>" ?n] wf by (simp add: wf_op_config_def)
  note run = assms(3) [unfolded updateConfigFor_def assms(2) bind_r_simps Let_def]
  from run obtain r' w2 where
    upd: "updateRestartRequest env (ptr_of ?insts ?n) reason w1 = (Ok r', w2)"
    and put: "Mgr_UpdateConfigMap env \<lparr>Instances = AList.update ?n (Some r') ?insts\<rparr> i w2 = (Ok (), w')"
    by (rule bind_r_OkE)
  from upd obtain r where r: "ptr_of ?insts ?n = Some r"
    by (cases "ptr_of ?insts ?n") (auto simp: updateRestartRequest_def)
  obtain req where
    r'0: "Ok r' = Ok (r\<lparr>Requests := AList.update reason (Some req) (Requests r)\<rparr>)"
    and req: "Req_Status req = Pending" "\<forall>old. ptr_of (Requests r) reason = Some old \<longrightarrow>
       LastActionTimestamp req = LastActionTimestamp old \<and> (Req_Status old = Pending \<longrightarrow> req = old)"
    by (rule updateRestartRequest_ok [OF upd [unfolded r]])
  then have r': "r' = r\<lparr>Requests := AList.update reason (Some req) (Requests r)\<rparr>" by simp
  let ?c = "\<lparr>Instances = AList.update ?n (Some r') ?insts\<rparr>"
  have "distinct (keys (Requests r'))"
    using wf_op_requests [OF wf'] r r' by (simp add: distinct_update)
  from wf_op_update [OF wf' this, of ?n] have "wf_op_config ?c" by simp
  from Mgr_read_back [OF assms(1) this put] have read: "fst (Mgr_GetConfig env i w') = Ok ?c" .
  have old: "request_of c ?n k = ptr_of (Requests r) k" for k
    using r by (auto simp: request_of_def ptr_of_def update_conv' split: if_splits)
  have new: "request_of ?c n k = (if n = ?n then if k = reason then Some req else ptr_of (Requests r) k
      else request_of c n k)" for n k
    using r' by (auto simp: request_of_def)
  have "request_of ?c ?n reason = Some req" by (simp only: new simp_thms if_True)
  moreover have "\<forall>old. request_of c ?n reason = Some old \<longrightarrow>
      LastActionTimestamp req = LastActionTimestamp old \<and> (Req_Status old = Pending \<longrightarrow> req = old)"
    unfolding old by (rule req(2))
  moreover have "\<forall>n k. n \<noteq> ?n \<or> k \<noteq> reason \<longrightarrow> request_of ?c n k = request_of c n k"
    by (simp only: new) (simp add: old)
  ultimately show ?thesis using read req(1) by blast
qed

theorem request_is_recorded_witness:
  "\<exists>c req. fst (Mgr_GetConfig toy toy_peer (snd (updateConfigFor toy toy_peer ''tlsUpdate'' toy_start))) = Ok c \<and>
     request_of c ''peer1'' ''tlsUpdate'' = Some req \<and> Req_Status req = Pending"
proof -
  have read: "fst (Mgr_GetConfig toy toy_peer toy_start) = Ok empty_op_config" by code_simp
  have get: "Mgr_GetConfig toy toy_peer toy_start =
      (Ok empty_op_config, snd (Mgr_GetConfig toy toy_peer toy_start))"
    by (rule prod_eqI) (simp_all only: read fst_conv snd_conv)
  have ok: "fst (updateConfigFor toy toy_peer ''tlsUpdate'' toy_start) = Ok ()" by code_simp
  have run: "updateConfigFor toy toy_peer ''tlsUpdate'' toy_start =
      (Ok (), snd (updateConfigFor toy toy_peer ''tlsUpdate'' toy_start))"
    by (rule prod_eqI) (simp_all only: ok fst_conv snd_conv)
  have name: "inst_name toy_peer = ''peer1''" by (simp add: toy_peer_def)
  from request_is_recorded [OF toy_api get run] show ?thesis unfolding name by blast
qed

subsection \<open>Requests are handed on once\<close>

lemma clear_requests_Cons:
  "clear_requests env (k # ks) m w =
     (if \<exists>req. ptr_of m k = Some req \<and> Req_Status req = Pending
      then let (req, w) = clearRestart env (the (ptr_of m k)) w
           in clear_requests env ks (AList.update k (Some req) m) w
      else clear_requests env ks m w)"
  by (simp split: option.split)

lemma clearRestart_complete [simp]: "Req_Status (fst (clearRestart env req w)) = Complete"
  by (simp add: clearRestart_def Let_def split: prod.split)

lemma clear_requests_result:
  assumes "distinct ks" "distinct (keys m)" "clear_requests env ks m w = (m', w')"
  shows "distinct (keys m') \<and> (\<forall>k req. ptr_of m' k = Some req \<longrightarrow> Req_Status req = Pending \<longrightarrow>
      k \<notin> set ks \<and> ptr_of m k = Some req)"
  using assms
proof (induction ks arbitrary: m w)
  case (Cons k ks)
  show ?case
  proof (cases "\<exists>req. ptr_of m k = Some req \<and> Req_Status req = Pending")
    case True
    let ?clear = "clearRestart env (the (ptr_of m k)) w"
    let ?m = "AList.update k (Some (fst ?clear)) m"
    from True Cons.prems(3) have run: "clear_requests env ks ?m (snd ?clear) = (m', w')"
      by (simp add: clear_requests_Cons case_prod_beta del: clear_requests.simps(2))
    have "distinct ks" "distinct (keys ?m)" using Cons.prems by (simp_all add: distinct_update)
    note IH = Cons.IH [OF this run]
    have "j \<noteq> k \<and> j \<notin> set ks \<and> ptr_of m j = Some req"
      if "ptr_of m' j = Some req" "Req_Status req = Pending" for j req
    proof -
      from IH that have j: "j \<notin> set ks" "ptr_of ?m j = Some req" by blast+
      with that(2) have "j \<noteq> k" by auto
      with j show ?thesis by simp
    qed
    with IH show ?thesis by simp
  next
    case False
    with Cons.prems(3) have run: "clear_requests env ks m w = (m', w')"
      by (simp add: clear_requests_Cons del: clear_requests.simps(2))
    have "distinct ks" using Cons.prems(1) by simp
    note IH = Cons.IH [OF this Cons.prems(2) run]
    have "j \<noteq> k \<and> j \<notin> set ks \<and> ptr_of m j = Some req"
      if "ptr_of m' j = Some req" "Req_Status req = Pending" for j req
    proof -
      from IH that have "j \<notin> set ks" "ptr_of m j = Some req" by blast+
      with False that(2) show ?thesis by blast
    qed
    with IH show ?thesis by simp
  qed
qed simp

lemma clear_requests_same:
  assumes "config_map_api env"
  shows "same_maps env w (snd (clear_requests env ks m w))"
proof (induction ks arbitrary: m w)
  case (Cons k ks)
  have "same_maps env w (snd (clearRestart env req w))" for req
    using api_reads(1) [OF assms, of w] by (cases "e_now env w") (simp add: clearRestart_def)
  then have "same_maps env w (snd (case clearRestart env req w of
      (req, w) \<Rightarrow> clear_requests env ks (AList.update k (Some req) m) w))" for req
    using Cons by (intro same_maps_case) auto
  with Cons show ?case by (simp split: option.split)
qed simp

definition no_pending :: "op_config \<Rightarrow> string \<Rightarrow> bool" where
  "no_pending c n \<longleftrightarrow> (\<forall>k req. request_of c n k = Some req \<longrightarrow> Req_Status req \<noteq> Pending)"

lemma clear_config:
  assumes api: "config_map_api env" and ord: "range_order (mv_clear v)"
    and run: "ClearRestartConfigForInstance env v i mgr w = ((Ok (), w'), mgr')"
  shows "\<exists>c c'. fst (Mgr_GetConfig env i w) = Ok c \<and> fst (Mgr_GetConfig env i w') = Ok c' \<and>
    no_pending c' (inst_name i) \<and>
    (\<forall>n k. n \<noteq> inst_name i \<longrightarrow> request_of c' n k = request_of c n k) \<and>
    (ptr_of (Instances c) (inst_name i) \<noteq> None \<longrightarrow> ptr_of (Timers mgr') (inst_name i) = None)"
proof -
  from run obtain c w1 where get: "Mgr_GetConfig env i w = (Ok c, w1)"
    by (auto simp: ClearRestartConfigForInstance_def split: prod.splits go_result.splits)
  have same: "same_maps env w w1" using Mgr_GetConfig_same [OF api, of w i] get by simp
  have wf: "wf_op_config c" using Mgr_GetConfig_wf [of env i w c] get by simp
  show ?thesis
  proof (cases "ptr_of (Instances c) (inst_name i)")
    case None
    with run get have "w' = w1" by (simp add: ClearRestartConfigForInstance_def)
    with None get Mgr_GetConfig_same_maps [OF same, of i] show ?thesis
      by (auto simp: no_pending_def request_of_def)
  next
    case (Some r)
    obtain m w2 where clear: "clear_requests env (mv_clear v (Requests r)) (Requests r) w1 = (m, w2)"
      by fastforce
    let ?c = "c\<lparr>Instances := AList.update (inst_name i) (Some (r\<lparr>Requests := m\<rparr>)) (Instances c)\<rparr>"
    from run get Some clear have put: "Mgr_UpdateConfigMap env ?c i w2 = (Ok (), w')"
      and mgr': "ptr_of (Timers mgr') (inst_name i) = None"
      by (auto simp: ClearRestartConfigForInstance_def Let_def)
    have dist: "distinct (keys (Requests r))" by (rule wf_op_requests [OF wf Some])
    have all: "distinct (mv_clear v (Requests r))" "set (mv_clear v (Requests r)) = set (keys (Requests r))"
      by (rule range_orderD [OF ord dist])+
    note result = clear_requests_result [OF all(1) dist clear]
    then have "distinct (keys (Requests (r\<lparr>Requests := m\<rparr>)))" by simp
    from Mgr_read_back [OF api wf_op_update [OF wf this] put]
    have read: "fst (Mgr_GetConfig env i w') = Ok ?c" .
    have "Req_Status req \<noteq> Pending" if "ptr_of m k = Some req" for k req
    proof
      assume "Req_Status req = Pending"
      with result that
      have "k \<notin> set (keys (Requests r))" "ptr_of (Requests r) k = Some req" using all(2) by auto
      then show False using ptr_of_in [of "Requests r" k req] by (auto simp: image_iff)
    qed
    then have "no_pending ?c (inst_name i)" by (simp add: no_pending_def request_of_def)
    with read get mgr' show ?thesis by (auto simp: request_of_def)
  qed
qed

lemma handed_on:
  assumes api: "config_map_api env" and ord: "range_order (mv_clear v)"
    and run: "Mgr_RestartDeployment env v n i reason mgr w = ((res, w'), mgr')"
    and past_clear: "\<And>e. res \<noteq> Fail (Wrapped ''failed to clear restart config'' e)" "\<And>p. res \<noteq> Panic p"
  shows "\<exists>c c' w1. fst (Mgr_GetConfig env i w) = Ok c \<and> fst (Mgr_GetConfig env i w') = Ok c' \<and>
    no_pending c' (inst_name i) \<and>
    (\<forall>n k. n \<noteq> inst_name i \<longrightarrow> request_of c' n k = request_of c n k) \<and>
    (ptr_of (Instances c) (inst_name i) \<noteq> None \<longrightarrow> ptr_of (Timers mgr') (inst_name i) = None) \<and>
    wrap_err ''failed to add restart request to queue'' (Restart env n i reason w1) = (res, w')"
proof -
  obtain cres w1 mgr1 where clear: "ClearRestartConfigForInstance env v i mgr w = ((cres, w1), mgr1)"
    by (metis prod.collapse)
  with run past_clear have ok: "cres = Ok ()"
    by (cases cres) (auto simp: Mgr_RestartDeployment_def)
  with run clear have mgr1: "mgr1 = mgr'"
    and rest: "wrap_err ''failed to add restart request to queue'' (Restart env n i reason w1) = (res, w')"
    by (auto simp: Mgr_RestartDeployment_def)
  have "w' = snd (Restart env n i reason w1)" using rest snd_wrap_err by (metis snd_conv)
  then have "same_ops env w1 w'" using Restart_same_ops [OF api] by simp
  from Mgr_GetConfig_same_ops [OF this, of i] clear_config [OF api ord clear [unfolded ok mgr1]] rest
  show ?thesis by simp blast
qed

text \<open>C4: handing an instance to the stagger restart service is acknowledged before it is done.
  Once the manager's configuration has been written, no request of the instance is pending in it
  any more and its timer is gone, whether queueing the instance then succeeds or not; requests of
  other instances are untouched.  So a failure of the queue loses the request: the caller gets
  the error, but no pending request is left for a later attempt.\<close>

theorem requests_are_handed_on_once:
  assumes "config_map_api env" and "range_order (mv_clear v)"
    and "Mgr_RestartDeployment env v n i reason mgr w = ((res, w'), mgr')"
    and "\<And>e. res \<noteq> Fail (Wrapped ''failed to clear restart config'' e)" "\<And>p. res \<noteq> Panic p"
  shows "\<exists>c c'. fst (Mgr_GetConfig env i w) = Ok c \<and> fst (Mgr_GetConfig env i w') = Ok c' \<and>
    no_pending c' (inst_name i) \<and>
    (\<forall>n k. n \<noteq> inst_name i \<longrightarrow> request_of c' n k = request_of c n k) \<and>
    (ptr_of (Instances c) (inst_name i) \<noteq> None \<longrightarrow> ptr_of (Timers mgr') (inst_name i) = None)"
  using handed_on [OF assms] by blast

definition toy_mgr :: manager where
  "toy_mgr = \<lparr>WaitTime = 600 * second, Timers = []\<rparr>"

definition toy_mgr_visit :: mgr_visit where
  "toy_mgr_visit = \<lparr>mv_trigger = keys, mv_pending = keys, mv_oldest = keys, mv_clear = keys\<rparr>"

lemma toy_mgr_orders: "range_order (mv_clear toy_mgr_visit)" "range_order (mv_trigger toy_mgr_visit)"
  by (simp_all add: toy_mgr_visit_def range_order_keys)

text \<open>In this world every write to the queue of the peers fails: its bytes are no document.\<close>

definition toy_broken :: toy_world where
  "toy_broken = (snd (updateConfigFor toy toy_peer ''tlsUpdate'' toy_start))
     \<lparr>t_maps := ((''peer-restart-config'', ''ns''), [(restart_key, Garbage ''xyz'')]) #
        t_maps (snd (updateConfigFor toy toy_peer ''tlsUpdate'' toy_start))\<rparr>"

theorem requests_are_handed_on_once_witness:
  "\<exists>e w' mgr' c'. Mgr_RestartDeployment toy toy_mgr_visit 3 toy_peer ''tlsUpdate'' toy_mgr toy_broken =
       ((Fail e, w'), mgr') \<and>
     fst (Mgr_GetConfig toy toy_peer w') = Ok c' \<and> no_pending c' ''peer1''"
proof -
  let ?run = "Mgr_RestartDeployment toy toy_mgr_visit 3 toy_peer ''tlsUpdate'' toy_mgr toy_broken"
  let ?e = "Wrapped ''failed to add restart request to queue''
      (Wrapped ''failed to add restart request to queue for peer1''
        (Wrapped ''failed to add peer1 to queue'' (Plain ''timed out waiting for the condition'')))"
  have res: "fst (fst ?run) = Fail ?e" by code_simp
  have run: "?run = ((Fail ?e, snd (fst ?run)), snd ?run)"
    by (intro prod_eqI) (simp_all only: res fst_conv snd_conv)
  have name: "inst_name toy_peer = ''peer1''" by (simp add: toy_peer_def)
  from requests_are_handed_on_once [OF toy_api toy_mgr_orders(1) run] obtain c' where
    "fst (Mgr_GetConfig toy toy_peer (snd (fst ?run))) = Ok c'" "no_pending c' ''peer1''"
    unfolding name by auto
  with run show ?thesis by blast
qed

subsection \<open>Due requests are queued\<close>

lemma TriggerIfNeeded_due:
  assumes get: "Mgr_GetConfig env i w = (Ok c, w1)" and ord: "range_order (mv_trigger v)"
    and req: "request_of c (inst_name i) k = Some req" "triggerRestart (WaitTime mgr) (Some req)"
  obtains reasons where
    "set reasons = {k. \<exists>q. request_of c (inst_name i) k = Some q \<and> Req_Status q = Pending}"
    "TriggerIfNeeded env v n i mgr w =
       Mgr_RestartDeployment env v n i (join_with '','' reasons) mgr w1"
proof -
  have wf: "wf_op_config c" using Mgr_GetConfig_wf [of env i w c] get by simp
  from req(1) obtain r where r: "ptr_of (Instances c) (inst_name i) = Some r"
    by (auto simp: request_of_def split: option.splits)
  let ?reasons = "pending_reasons (Requests r) (mv_trigger v (Requests r))"
  have order: "set (mv_trigger v (Requests r)) = set (keys (Requests r))"
    by (rule range_orderD(2) [OF ord wf_op_requests [OF wf r]])
  have reasons: "set ?reasons = {k. \<exists>q. request_of c (inst_name i) k = Some q \<and> Req_Status q = Pending}"
    using r order by (auto simp: pending_reasons_def request_of_def image_iff dest: ptr_of_in
        split: option.splits) (metis fst_conv ptr_of_in)+
  have "Req_Status req = Pending" using req(2) by (simp add: triggerRestart_def split: if_splits)
  with req r reasons have "list_ex (\<lambda>k. triggerRestart (WaitTime mgr) (ptr_of (Requests r) k)) ?reasons"
    by (auto simp: list_ex_iff request_of_def intro!: bexI [of _ k])
  then have "TriggerIfNeeded env v n i mgr w =
      Mgr_RestartDeployment env v n i (join_with '','' ?reasons) mgr w1"
    using get r by (simp add: TriggerIfNeeded_def Let_def)
  with reasons that show thesis by blast
qed

text \<open>C3: a restart request that is due (its instance was never restarted for that reason, or the
  wait time lies between the last restart and the request) leads, when \<open>TriggerIfNeeded\<close> succeeds,
  to a pending entry for the instance at the end of its organisation's restart queue, whose reason
  lists all reasons that were pending, and no request of the instance is pending any more.\<close>

theorem due_restart_is_queued:
  assumes "config_map_api env" and "range_order (mv_clear v)" and "range_order (mv_trigger v)"
    and "inst_kind i \<noteq> KConsole"
    and "Mgr_GetConfig env i w = (Ok c, w1)"
    and "request_of c (inst_name i) k = Some req" and "triggerRestart (WaitTime mgr) (Some req)"
    and "TriggerIfNeeded env v n i mgr w = ((Ok (), w'), mgr')"
  shows "\<exists>r q e reasons c'.
    fst (GetConfig env (component_type (inst_kind i)) (inst_namespace i) w') = Ok r \<and>
    slice_of (Queues r) (inst_mspid i) = q @ [e] \<and>
    CRName e = inst_name i \<and> Status e = Pending \<and> Reason e = join_with '','' reasons \<and>
    set reasons = {k. \<exists>q. request_of c (inst_name i) k = Some q \<and> Req_Status q = Pending} \<and>
    fst (Mgr_GetConfig env i w') = Ok c' \<and> no_pending c' (inst_name i)"
proof -
  obtain reasons where
    reasons: "set reasons = {k. \<exists>q. request_of c (inst_name i) k = Some q \<and> Req_Status q = Pending}"
    and "TriggerIfNeeded env v n i mgr w =
       Mgr_RestartDeployment env v n i (join_with '','' reasons) mgr w1"
    by (rule TriggerIfNeeded_due [OF assms(5,3,6,7)])
  with assms(8) have "Mgr_RestartDeployment env v n i (join_with '','' reasons) mgr w1 = ((Ok (), w'), mgr')"
    by simp
  from handed_on [OF assms(1,2) this] obtain c' w2 where
    c': "fst (Mgr_GetConfig env i w') = Ok c'" "no_pending c' (inst_name i)"
    and "Restart env n i (join_with '','' reasons) w2 = (Ok (), w')"
    by auto
  from Restart_queued [OF this(3) assms(4)] obtain w3 where
    add: "addToQueue env (component_type (inst_kind i)) i (join_with '','' reasons) w3 = (Ok (), w')"
    by blast
  then obtain r w4 where
    get: "GetConfig env (component_type (inst_kind i)) (inst_namespace i) w3 = (Ok r, w4)"
    unfolding addToQueue_def Let_def by (rule bind_r_OkE)
  let ?e = "queued i (join_with '','' reasons)"
  from addToQueue_read_back [OF assms(1) get add]
  have "fst (GetConfig env (component_type (inst_kind i)) (inst_namespace i) w') =
      Ok (AddToQueue (inst_mspid i) ?e r)" .
  with c' reasons show ?thesis
    by (intro exI [of _ "AddToQueue (inst_mspid i) ?e r"] exI [of _ "slice_of (Queues r) (inst_mspid i)"]
        exI [of _ ?e] exI [of _ reasons] exI [of _ c']) (simp add: queued_def)
qed

definition toy_requested :: toy_world where
  "toy_requested = snd (updateConfigFor toy toy_peer ''tlsUpdate'' toy_start)"

definition toy_request :: request where
  "toy_request = \<lparr>Req_Status = ''pending'', RequestTimestamp = Stamp (1000 * second),
     LastActionTimestamp = Raw ''''\<rparr>"

definition toy_op_config :: op_config where
  "toy_op_config = \<lparr>Instances = [(''peer1'', Some \<lparr>Requests = [(''tlsUpdate'', Some toy_request)]\<rparr>)]\<rparr>"

lemma toy_requested_read: "fst (Mgr_GetConfig toy toy_peer toy_requested) = Ok toy_op_config"
  by code_simp

lemma toy_requested_get:
  "Mgr_GetConfig toy toy_peer toy_requested = (Ok toy_op_config, snd (Mgr_GetConfig toy toy_peer toy_requested))"
  by (rule prod_eqI) (simp_all only: toy_requested_read fst_conv snd_conv)

theorem due_restart_is_queued_witness:
  "\<exists>w' mgr' r q e. TriggerIfNeeded toy toy_mgr_visit 3 toy_peer toy_mgr toy_requested =
       ((Ok (), w'), mgr') \<and>
     fst (GetConfig toy ''peer'' ''ns'' w') = Ok r \<and> slice_of (Queues r) ''Org1'' = q @ [e] \<and>
     CRName e = ''peer1''"
proof -
  let ?run = "TriggerIfNeeded toy toy_mgr_visit 3 toy_peer toy_mgr toy_requested"
  have res: "fst (fst ?run) = Ok ()" by code_simp
  have run: "?run = ((Ok (), snd (fst ?run)), snd ?run)"
    by (intro prod_eqI) (simp_all only: res fst_conv snd_conv)
  have peer: "inst_kind toy_peer = KPeer" "inst_name toy_peer = ''peer1''"
    "inst_namespace toy_peer = ''ns''" "inst_mspid toy_peer = ''Org1''"
    by (simp_all add: toy_peer_def)
  have req: "request_of toy_op_config (inst_name toy_peer) ''tlsUpdate'' = Some toy_request" by code_simp
  have due: "triggerRestart (WaitTime toy_mgr) (Some toy_request)" by code_simp
  have kind: "inst_kind toy_peer \<noteq> KConsole" by (simp add: peer)
  from due_restart_is_queued [OF toy_api toy_mgr_orders kind toy_requested_get req due run]
  show ?thesis unfolding peer component_type.simps using run by blast
qed

subsection \<open>No restart before the wait time\<close>

lemma oldest_request_origin:
  "oldest_request m ks (t0, a0) = (t, a) \<Longrightarrow>
     (t, a) = (t0, a0) \<or> (\<exists>k q. ptr_of m k = Some q \<and> RequestTimestamp q = Stamp t \<and> a = LastActionTimestamp q)"
proof (induction ks arbitrary: t0 a0)
  case (Cons k ks)
  show ?case
  proof (cases "\<exists>q s. ptr_of m k = Some q \<and> RequestTimestamp q = Stamp s \<and> s < t0")
    case True
    then obtain q s where q: "ptr_of m k = Some q" "RequestTimestamp q = Stamp s" "s < t0" by blast
    with Cons.prems have "oldest_request m ks (s, LastActionTimestamp q) = (t, a)" by simp
    from Cons.IH [OF this] q show ?thesis by blast
  next
    case False
    with Cons.prems have "oldest_request m ks (t0, a0) = (t, a)"
      by (auto simp: parse_stamp_def split: option.splits stamp.splits)
    from Cons.IH [OF this] show ?thesis .
  qed
qed simp

lemma wrap64_id: "min_int64 \<le> x \<Longrightarrow> x \<le> max_int64 \<Longrightarrow> wrap64 x = x"
  by (simp add: wrap64_def min_int64_def max_int64_def)

lemma getTimerDuration_bounds:
  assumes "0 < wt" "wt \<le> max_int64" "a = Raw s \<or> a = Stamp l \<and> l \<le> t \<and> t - l < wt"
  shows "0 < getTimerDuration wt a t \<and> getTimerDuration wt a t \<le> wt"
  using assms by (auto simp: getTimerDuration_def time_sub_def wrap64_id min_int64_def max_int64_def)

text \<open>The request came after the last restart, and before the wait time had passed since.\<close>

definition too_early :: "int \<Rightarrow> request \<Rightarrow> bool" where
  "too_early waitTime q \<longleftrightarrow> (case (LastActionTimestamp q, RequestTimestamp q) of
     (Stamp l, Stamp t) \<Rightarrow> l \<le> t \<and> t - l < waitTime | _ \<Rightarrow> False)"

lemma too_earlyE:
  assumes "too_early wt q"
  obtains l t where "LastActionTimestamp q = Stamp l" "RequestTimestamp q = Stamp t" "l \<le> t" "t - l < wt"
  using assms by (auto simp: too_early_def split: stamp.splits)

lemma too_early_not_due:
  "too_early wt q \<Longrightarrow> wt \<le> max_int64 \<Longrightarrow> \<not> triggerRestart wt (Some q)"
  by (auto simp: triggerRestart_def time_sub_def min_int64_def max_int64_def elim!: too_earlyE)


definition toy_early :: toy_world where
  "toy_early = toy_start\<lparr>t_maps := [((''operator-config'', ''ns''), [(restart_key, Json (op_config_json
     \<lparr>Instances = [(''peer1'', Some \<lparr>Requests = [(''tlsUpdate'',
        Some \<lparr>Req_Status = ''pending'', RequestTimestamp = Stamp (900 * second),
              LastActionTimestamp = Stamp (700 * second)\<rparr>)]\<rparr>)]\<rparr>))])]\<rparr>"


end
