(* ===== verification/UpdateStack.thy ===== *)
theory UpdateStack
  imports Cluster
begin

text \<open>
  The stacks of detected updates.  The event handlers of a controller push what they find, the
  reconcile loop pops one update per round.  The CA, peer and orderer controllers each have their
  own copy of the operations; the locale \<open>update_stack\<close> is the contract they share, proved for each
  copy by an interpretation in the controller's theory.  Despite its name the stack is a queue
  without duplicates.  (The mutex makes each operation atomic and has no other effect.)
\<close>

fun drain :: "(string \<Rightarrow> 'u list gomap \<Rightarrow> 'u \<times> 'u list gomap) \<Rightarrow> nat \<Rightarrow> string \<Rightarrow>
    'u list gomap \<Rightarrow> 'u list \<times> 'u list gomap" where
  "drain pop 0 n m = ([], m)"
| "drain pop (Suc k) n m =
     (let (u, m) = pop n m; (us, m) = drain pop k n m in (u # us, m))"

definition no_duplicates :: "'u list gomap \<Rightarrow> bool" where
  "no_duplicates m \<longleftrightarrow> (\<forall>n. distinct (slice_of m n))"

text \<open>\<open>strings.Builder\<close>-like concatenation of the labels of the flags that are set.\<close>

definition true_labels :: "(bool \<times> string) list \<Rightarrow> string" where
  "true_labels fs =
     (let stack = concat (map (\<lambda>(b, l). if b then l else []) fs)
      in if length stack = 0 then ''emptystack '' else stack)"

text \<open>\<open>if c { u.flag = ... }\<close> on a struct.\<close>

definition when_do :: "bool \<Rightarrow> ('a \<Rightarrow> 'a) \<Rightarrow> 'a \<Rightarrow> 'a" where
  "when_do c f u = (if c then f u else u)"

lemma when_do_frame: "(\<And>u. g (f u) = g u) \<Longrightarrow> g (when_do c f u) = g u"
  by (simp add: when_do_def)

lemma when_do_set: "(\<And>u. g (f u) = x) \<Longrightarrow> g (when_do c f u) = (if c then x else g u)"
  by (simp add: when_do_def)

locale update_stack =
  fixes push :: "string \<Rightarrow> 'u \<Rightarrow> 'u list gomap \<Rightarrow> 'u list gomap"
    and pop :: "string \<Rightarrow> 'u list gomap \<Rightarrow> 'u \<times> 'u list gomap"
    and peek :: "string \<Rightarrow> 'u list gomap \<Rightarrow> 'u"
    and fresh :: 'u
  assumes push_slice: "slice_of (push n u m) n' =
      (if n' = n \<and> u \<notin> set (slice_of m n) then slice_of m n @ [u] else slice_of m n')"
    and pop_empty: "slice_of m n = [] \<Longrightarrow> pop n m = (fresh, m)"
    and pop_first: "slice_of m n = u # us \<Longrightarrow> fst (pop n m) = u \<and>
      (\<forall>n'. slice_of (snd (pop n m)) n' = (if n' = n then us else slice_of m n'))"
    and peek_slice: "peek n m = (case slice_of m n of [] \<Rightarrow> fresh | u # us \<Rightarrow> u)"
begin

lemma peek_is_pop: "peek n m = fst (pop n m)"
  using pop_empty [of m n] pop_first [of m n] by (cases "slice_of m n") (auto simp: peek_slice)

lemma push_keeps: "no_duplicates m \<Longrightarrow> no_duplicates (push n u m)"
  by (simp add: no_duplicates_def push_slice)

lemma pop_slices: "slice_of (snd (pop n m)) n' = (if n' = n then tl (slice_of m n) else slice_of m n')"
proof (cases "slice_of m n")
  case Nil
  then show ?thesis by (simp add: pop_empty)
next
  case (Cons u us)
  from pop_first [OF this] Cons show ?thesis by simp
qed

lemma pop_keeps: "no_duplicates m \<Longrightarrow> no_duplicates (snd (pop n m))"
  by (simp add: no_duplicates_def pop_slices distinct_tl)

lemma push_twice: "slice_of (push n u (push n u m)) n' = slice_of (push n u m) n'"
  by (simp add: push_slice)

lemma push_other: "n' \<noteq> n \<Longrightarrow> slice_of (push n u m) n' = slice_of m n'"
  by (simp add: push_slice)

lemma push_in: "u \<in> set (slice_of (push n u m) n)"
  by (simp add: push_slice)

lemma drain_all:
  "length (slice_of m n) = k \<Longrightarrow>
     fst (drain pop k n m) = slice_of m n \<and>
     (\<forall>n'. slice_of (snd (drain pop k n m)) n' = (if n' = n then [] else slice_of m n'))"
proof (induction k arbitrary: m)
  case (Suc k)
  then obtain u us where s: "slice_of m n = u # us" by (cases "slice_of m n") auto
  from pop_first [OF s] have first: "fst (pop n m) = u" by simp
  from Suc.prems s have "length (slice_of (snd (pop n m)) n) = k" by (simp add: pop_slices)
  from Suc.IH [OF this] first s show ?case by (simp add: case_prod_beta pop_slices)
qed simp

lemma push_mono: "x \<in> set (slice_of m n) \<Longrightarrow> x \<in> set (slice_of (push n' u m) n)"
  by (auto simp: push_slice)

text \<open>A sequence of pushes, as the handlers make them while a round runs.\<close>

lemma pushes_keep:
  "x \<in> set (slice_of m n) \<Longrightarrow> x \<in> set (slice_of (fold (\<lambda>(n, u). push n u) us m) n)"
  by (induction us arbitrary: m) (auto simp: push_mono)

lemma pushes_add: "(n, x) \<in> set us \<Longrightarrow> x \<in> set (slice_of (fold (\<lambda>(n, u). push n u) us m) n)"
proof (induction us arbitrary: m)
  case (Cons p us)
  show ?case
  proof (cases "p = (n, x)")
    case True
    then show ?thesis using pushes_keep [OF push_in [of x n m]] by simp
  next
    case False
    with Cons show ?thesis by (cases p) auto
  qed
qed simp

text \<open>A round that pushes its update back (the offering asked for a requeue) rotates the queue.\<close>

lemma pop_push:
  assumes "slice_of m n = u # us" "u \<notin> set us"
  shows "slice_of (push n u (snd (pop n m))) n = us @ [u]"
  using assms by (simp add: push_slice pop_slices)

end

end
