(* ===== verification/Version.thy ===== *)
theory Version
  imports Prelude
begin

text \<open>
  Package \<open>version\<close> (\<open>version/version.go\<close>, \<open>version/fabricversion.go\<close>): parsing of version
  strings \<open>major.minor.fixpack-tag\<close>, the comparisons the controllers use to gate migrations, and
  the extraction of a fabric version from an image tag.

  The struct \<open>Version\<close> is a datatype with its four fields as selectors, so that it can be an
  instance of \<open>linorder\<close>; the order is the code's \<open>lessThan\<close>.
\<close>

subsection \<open>Data and parsing\<close>

datatype version = Version (Major: int) (Minor: int) (Fixpack: int) (Tag: int)

definition V1 :: string where [go_defs]: "V1 = ''1''"
definition V2 :: string where [go_defs]: "V2 = ''2''"
definition V2_4_1 :: string where [go_defs]: "V2_4_1 = ''2.4.1''"
definition V2_5_1 :: string where [go_defs]: "V2_5_1 = ''2.5.1''"
definition Unsupported :: string where [go_defs]: "Unsupported = ''unsupported''"

definition stringToIntList :: "string \<Rightarrow> int list" where
  "stringToIntList vs =
     (let (main, tag) =
        (if str_contains vs ''-'' then (split_on CHR ''-'' vs ! 0, split_on CHR ''-'' vs ! 1)
         else (vs, ''''));
          strList = split_on CHR ''.'' main;
          strList = (if tag \<noteq> '''' then strList @ [tag] else strList)
      in map (\<lambda>s. fst (atoi s)) strList)"

fun version_of_list :: "int list \<Rightarrow> version" where
  "version_of_list [a] = Version a 0 0 0"
| "version_of_list [a, b] = Version a b 0 0"
| "version_of_list [a, b, c] = Version a b c 0"
| "version_of_list [a, b, c, d] = Version a b c d"
| "version_of_list _ = Version 0 0 0 0"

definition newVersion :: "string \<Rightarrow> version" where
  "newVersion vs = version_of_list (stringToIntList vs)"

definition stripVersionPrefix :: "string \<Rightarrow> string" where
  "stripVersionPrefix vs =
     (let vs = to_lower vs in if has_prefix vs ''v'' then drop 1 vs else vs)"

definition GetMajorReleaseVersion :: "string \<Rightarrow> string" where
  "GetMajorReleaseVersion vs =
     (let v = newVersion (stripVersionPrefix vs)
      in if Major v = 2 then V2 else if Major v = 1 then V1 else V1)"

definition version_String :: "version \<Rightarrow> string" where
  "version_String v =
     itoa (Major v) @ ''.'' @ itoa (Minor v) @ ''.'' @ itoa (Fixpack v) @ ''-'' @ itoa (Tag v)"

subsection \<open>Comparison\<close>

definition version_equal :: "version \<Rightarrow> version \<Rightarrow> bool" where
  "version_equal v w \<longleftrightarrow>
     Major v = Major w \<and> Minor v = Minor w \<and> Fixpack v = Fixpack w \<and> Tag v = Tag w"

definition equalWithoutTag :: "version \<Rightarrow> version \<Rightarrow> bool" where
  "equalWithoutTag v w \<longleftrightarrow> Major v = Major w \<and> Minor v = Minor w \<and> Fixpack v = Fixpack w"

definition lessThan :: "version \<Rightarrow> version \<Rightarrow> bool" where
  "lessThan v w =
     (if Major v < Major w then True else if Major v > Major w then False
      else if Minor v < Minor w then True else if Minor v > Minor w then False
      else if Fixpack v < Fixpack w then True else if Fixpack v > Fixpack w then False
      else if Tag v < Tag w then True else False)"

definition greaterThan :: "version \<Rightarrow> version \<Rightarrow> bool" where
  "greaterThan v w =
     (if Major v > Major w then True else if Major v < Major w then False
      else if Minor v > Minor w then True else if Minor v < Minor w then False
      else if Fixpack v > Fixpack w then True else if Fixpack v < Fixpack w then False
      else if Tag v > Tag w then True else False)"

definition String_Equal :: "string \<Rightarrow> string \<Rightarrow> bool" where
  "String_Equal s new = version_equal (newVersion s) (newVersion new)"

definition String_EqualWithoutTag :: "string \<Rightarrow> string \<Rightarrow> bool" where
  "String_EqualWithoutTag s new = equalWithoutTag (newVersion s) (newVersion new)"

definition String_GreaterThan :: "string \<Rightarrow> string \<Rightarrow> bool" where
  "String_GreaterThan s new = greaterThan (newVersion s) (newVersion new)"

definition String_LessThan :: "string \<Rightarrow> string \<Rightarrow> bool" where
  "String_LessThan s new = lessThan (newVersion s) (newVersion new)"

instantiation version :: linorder
begin

definition less_version :: "version \<Rightarrow> version \<Rightarrow> bool" where
  "less_version v w = lessThan v w"

definition less_eq_version :: "version \<Rightarrow> version \<Rightarrow> bool" where
  "less_eq_version v w = (lessThan v w \<or> v = w)"

instance
  by standard
    (auto simp: less_version_def less_eq_version_def lessThan_def version.expand split: if_splits)

end

lemma lessThan_less: "lessThan v w \<longleftrightarrow> v < w"
  by (simp add: less_version_def)

lemma version_equal_eq: "version_equal v w \<longleftrightarrow> v = w"
  by (auto simp: version_equal_def version.expand)

lemma greaterThan_less: "greaterThan v w \<longleftrightarrow> w < v"
  by (auto simp: less_version_def greaterThan_def lessThan_def)

lemmas compare_order = lessThan_less greaterThan_less version_equal_eq
lemmas string_compare =
  String_Equal_def String_EqualWithoutTag_def String_GreaterThan_def String_LessThan_def

lemma less_version_components:
  "v < w \<longleftrightarrow> Major v < Major w \<or> Major v = Major w \<and> (Minor v < Minor w \<or>
     Minor v = Minor w \<and> (Fixpack v < Fixpack w \<or> Fixpack v = Fixpack w \<and> Tag v < Tag w))"
  by (auto simp: less_version_def lessThan_def)

subsection \<open>Fabric versions in image tags\<close>

definition OldFabricVersionsLookup :: "string set" where
  "OldFabricVersionsLookup =
     {''1.4.2'', ''1.4.3'', ''1.4.4'', ''1.4.5'', ''1.4.6'', ''V1.4'', ''unsupported''}"

definition GetFabricVersionFrom :: "string \<Rightarrow> string" where
  "GetFabricVersionFrom imageTag =
     (let tagItems = split_on CHR ''-'' imageTag
      in if length tagItems \<noteq> 3 then '''' else tagItems ! 0)"

definition GetOldFabricVersionFrom :: "string \<Rightarrow> string" where
  "GetOldFabricVersionFrom imageTag =
     (let v = GetFabricVersionFrom imageTag
      in if v \<notin> OldFabricVersionsLookup then Unsupported else v)"

definition IsMigratedFabricVersion :: "string \<Rightarrow> bool" where
  "IsMigratedFabricVersion v \<longleftrightarrow> v \<in> OldFabricVersionsLookup"

subsection \<open>What parsing yields\<close>

lemma split_on_sep: "x \<in> set (split_on c s) \<Longrightarrow> c \<notin> set x"
proof (induction s arbitrary: x)
  case Nil
  then show ?case by simp
next
  case (Cons a s)
  then show ?case by (cases "split_on c s") (auto split: if_splits)
qed

lemma split_on_subset: "x \<in> set (split_on c s) \<Longrightarrow> y \<in> set x \<Longrightarrow> y \<in> set s"
proof (induction s arbitrary: x)
  case Nil
  then show ?case by simp
next
  case (Cons a s)
  then show ?case by (cases "split_on c s") (fastforce split: if_splits)+
qed

lemma atoi_nonneg: "CHR ''-'' \<notin> set s \<Longrightarrow> 0 \<le> fst (atoi s)"
  by (cases s) (auto simp: atoi_def Let_def split: uint_parse.splits dest: parse_uint_nonneg [rotated])

lemma not_contains_dash: "\<not> str_contains s ''-'' \<Longrightarrow> CHR ''-'' \<notin> set s"
  by (auto simp: str_contains_iff in_set_conv_decomp)

lemma contains_dash: "str_contains s ''-'' \<longleftrightarrow> CHR ''-'' \<in> set s"
  by (auto simp: str_contains_iff in_set_conv_decomp)

lemma split_on_two: "c \<in> set s \<Longrightarrow> 2 \<le> length (split_on c s)"
  by (induction s) (auto split: list.splits)

lemma stringToIntList_nonneg: "i \<in> set (stringToIntList vs) \<Longrightarrow> 0 \<le> i"
proof (cases "str_contains vs ''-''")
  case True
  let ?p = "split_on CHR ''-'' vs"
  from True have "2 \<le> length ?p" by (simp add: contains_dash split_on_two)
  then have "?p ! 0 \<in> set ?p" "?p ! 1 \<in> set ?p" by (intro nth_mem; linarith)+
  then have nd: "CHR ''-'' \<notin> set (?p ! 0)" "CHR ''-'' \<notin> set (?p ! 1)"
    by (blast dest: split_on_sep)+
  assume "i \<in> set (stringToIntList vs)"
  then obtain x where x: "i = fst (atoi x)" and "x \<in> set (split_on CHR ''.'' (?p ! 0)) \<or> x = ?p ! 1"
    using True by (auto simp: stringToIntList_def Let_def split: if_splits)
  then have "CHR ''-'' \<notin> set x" using nd by (auto dest: split_on_subset)
  then show "0 \<le> i" using x by (simp add: atoi_nonneg)
next
  case False
  assume "i \<in> set (stringToIntList vs)"
  with False obtain x where x: "i = fst (atoi x)" "x \<in> set (split_on CHR ''.'' vs)"
    by (auto simp: stringToIntList_def Let_def)
  then have "CHR ''-'' \<notin> set x" using not_contains_dash [OF False] by (auto dest: split_on_subset)
  then show "0 \<le> i" using x by (simp add: atoi_nonneg)
qed

lemma newVersion_nonneg:
  "0 \<le> Major (newVersion s)" "0 \<le> Minor (newVersion s)"
  "0 \<le> Fixpack (newVersion s)" "0 \<le> Tag (newVersion s)"
proof -
  have "0 \<le> Major (version_of_list l) \<and> 0 \<le> Minor (version_of_list l) \<and>
      0 \<le> Fixpack (version_of_list l) \<and> 0 \<le> Tag (version_of_list l)"
    if "\<And>i. i \<in> set l \<Longrightarrow> 0 \<le> i" for l
    using that by (cases l rule: version_of_list.cases) auto
  from this [of "stringToIntList s"] stringToIntList_nonneg
  show "0 \<le> Major (newVersion s)" "0 \<le> Minor (newVersion s)"
    "0 \<le> Fixpack (newVersion s)" "0 \<le> Tag (newVersion s)"
    by (auto simp: newVersion_def)
qed

subsection \<open>Properties\<close>

lemma stringToIntList_tagged:
  assumes "CHR ''-'' \<notin> set m" and "CHR ''-'' \<notin> set t" and "t \<noteq> []"
  shows "stringToIntList (m @ ''-'' @ t) = map (\<lambda>s. fst (atoi s)) (split_on CHR ''.'' m @ [t])"
  using assms
  by (simp add: stringToIntList_def Let_def contains_dash split_on_append split_on_no_sep)

lemma itoa_plain:
  assumes "0 \<le> i"
  shows "CHR ''-'' \<notin> set (itoa i)" "CHR ''.'' \<notin> set (itoa i)" "itoa i \<noteq> []"
  using assms show_nat_digits [of "CHR ''-''" "nat i"] show_nat_digits [of "CHR ''.''" "nat i"]
  by (auto simp: itoa_def)

definition in_range :: "version \<Rightarrow> bool" where
  "in_range v \<longleftrightarrow> (\<forall>i \<in> {Major v, Minor v, Fixpack v, Tag v}. 0 \<le> i \<and> i \<le> max_int64)"

text \<open>C40: printing a version and parsing the text back yields the same version, for
  components that are non-negative and fit the machine's \<open>int\<close>.\<close>

theorem newVersion_String:
  assumes "in_range v"
  shows "newVersion (version_String v) = v"
proof -
  let ?m = "itoa (Major v) @ ''.'' @ itoa (Minor v) @ ''.'' @ itoa (Fixpack v)"
  from assms have nn: "0 \<le> Major v" "0 \<le> Minor v" "0 \<le> Fixpack v" "0 \<le> Tag v"
    by (simp_all add: in_range_def)
  have "stringToIntList (?m @ ''-'' @ itoa (Tag v)) = [Major v, Minor v, Fixpack v, Tag v]"
    using nn assms
    by (subst stringToIntList_tagged)
      (simp_all add: itoa_plain split_on_append split_on_no_sep atoi_itoa in_range_def)
  then show ?thesis by (simp add: newVersion_def version_String_def)
qed

theorem newVersion_String_witness:
  "newVersion (version_String (Version 2 5 1 12)) = Version 2 5 1 12"
  by (rule newVersion_String) (simp add: in_range_def max_int64_def)

text \<open>For any two version strings exactly one of \<open>LessThan\<close>, \<open>Equal\<close> and \<open>GreaterThan\<close>
  holds, and \<open>LessThan\<close> is transitive and the converse of \<open>GreaterThan\<close>.\<close>

lemma version_trichotomy:
  "(String_LessThan s t \<longleftrightarrow> \<not> String_Equal s t \<and> \<not> String_GreaterThan s t) \<and>
   \<not> (String_Equal s t \<and> String_GreaterThan s t) \<and>
   (String_GreaterThan s t \<longleftrightarrow> String_LessThan t s) \<and>
   \<not> (String_LessThan s t \<and> String_LessThan t u \<and> \<not> String_LessThan s u)"
  by (auto simp: string_compare compare_order)

lemma gate_not_less:
  "Tag (newVersion w) = 0 \<Longrightarrow>
     String_EqualWithoutTag s w \<or> String_GreaterThan s w \<longleftrightarrow> \<not> String_LessThan s w"
  using newVersion_nonneg(4) [of s]
  by (auto simp: string_compare greaterThan_def lessThan_def equalWithoutTag_def)

text \<open>The migration gate the controllers write as
  \<open>EqualWithoutTag(w) || GreaterThan(w)\<close> is exactly the negation of \<open>LessThan(w)\<close> when the gate
  version \<open>w\<close> carries no tag, whatever text the compared version is.\<close>

lemma version_gate:
  assumes "Tag (newVersion w) = 0"
  shows "String_EqualWithoutTag s w \<or> String_GreaterThan s w \<longleftrightarrow> \<not> String_LessThan s w"
  using assms by (rule gate_not_less)

lemma version_gate_witness:
  "String_EqualWithoutTag ''2.5.1-3'' V2_5_1 \<or> String_GreaterThan ''2.5.1-3'' V2_5_1
     \<longleftrightarrow> \<not> String_LessThan ''2.5.1-3'' V2_5_1"
proof (rule version_gate)
  show "Tag (newVersion V2_5_1) = 0" by code_simp
qed

text \<open>The gate constants of the controllers satisfy the premise above.\<close>

lemma gate_tags [simp]: "Tag (newVersion V2_4_1) = 0" "Tag (newVersion V2_5_1) = 0"
  by code_simp+

lemma gate_values [simp]: "newVersion V2_4_1 = Version 2 4 1 0" "newVersion V2_5_1 = Version 2 5 1 0"
  by code_simp+

lemma V1_V2 [simp]: "V1 \<noteq> V2" "V2 \<noteq> V1"
  by (simp_all add: go_defs)

lemma major_release_V1_or_V2: "GetMajorReleaseVersion s = V1 \<or> GetMajorReleaseVersion s = V2"
  by (simp add: GetMajorReleaseVersion_def Let_def)

text \<open>From an image tag \<open>version-date-arch\<close> whose parts contain no hyphen the fabric
  version is the first part, and a migrated instance's version is that part when it is one of the
  known old versions and \<open>unsupported\<close> otherwise; every version so assigned is recognised as a
  migrated one later.\<close>

lemma fabric_version_of_tag:
  assumes "CHR ''-'' \<notin> set v" "CHR ''-'' \<notin> set d" "CHR ''-'' \<notin> set a"
  shows "GetFabricVersionFrom (v @ ''-'' @ d @ ''-'' @ a) = v \<and>
    GetOldFabricVersionFrom (v @ ''-'' @ d @ ''-'' @ a) =
      (if IsMigratedFabricVersion v then v else Unsupported) \<and>
    IsMigratedFabricVersion (GetOldFabricVersionFrom (v @ ''-'' @ d @ ''-'' @ a))"
  using assms
  by (simp add: GetFabricVersionFrom_def GetOldFabricVersionFrom_def IsMigratedFabricVersion_def
      Let_def split_on_append split_on_no_sep OldFabricVersionsLookup_def go_defs)

lemma fabric_version_of_tag_witness:
  "GetFabricVersionFrom (''1.4.3'' @ ''-'' @ ''20200101'' @ ''-'' @ ''amd64'') = ''1.4.3'' \<and>
    GetOldFabricVersionFrom (''1.4.3'' @ ''-'' @ ''20200101'' @ ''-'' @ ''amd64'') =
      (if IsMigratedFabricVersion ''1.4.3'' then ''1.4.3'' else Unsupported) \<and>
    IsMigratedFabricVersion (GetOldFabricVersionFrom (''1.4.3'' @ ''-'' @ ''20200101'' @ ''-'' @ ''amd64''))"
  by (rule fabric_version_of_tag) simp_all

end
