(* ===== verification/Kube.thy ===== *)
theory Kube
  imports Cluster Version
begin

text \<open>
  What the four controllers share: the shape of a custom resource, the calls of the Kubernetes
  client they make (a record of functions over an arbitrary world state, as for \<open>env\<close>), and the
  common code of \<open>controllers/common/common.go\<close> and \<open>pkg/util/util.go\<close>.

  A custom resource has a specification of some type \<open>'s\<close>, a record with the fields the controller
  reads and one field for the rest, of which only equality matters.  \<open>reflect.DeepEqual\<close> is equality.
\<close>

subsection \<open>Custom resources\<close>

record cr_status =
  Type :: string
  SStatus :: string
  SReason :: string
  Message :: string
  LastHeartbeatTime :: string
  SVersion :: string
  ErrorCode :: int
  Reconciled :: string

abbreviation Deploying :: string where "Deploying \<equiv> ''Deploying''"
abbreviation Deployed :: string where "Deployed \<equiv> ''Deployed''"
abbreviation Precreated :: string where "Precreated \<equiv> ''Precreated''"
abbreviation ErrorType :: string where "ErrorType \<equiv> ''Error''"
abbreviation Warning :: string where "Warning \<equiv> ''Warning''"

record 's cr =
  TypeKind :: string
  Name :: string
  Namespace :: string
  Labels :: "string gomap"
  Spec :: 's
  CRStatus :: cr_status

definition HasType :: "cr_status \<Rightarrow> bool" where
  "HasType st \<longleftrightarrow> Type st \<noteq> ''''"

record secret =
  sec_name :: string
  sec_namespace :: string
  sec_owners :: "(string \<times> string) list"
  sec_data :: string

text \<open>The kinds of objects the event handlers tell apart.\<close>

datatype 's object =
    CRObject "'s cr"
  | SecretObject secret
  | DeploymentObject string
  | ConfigMapObject string
  | OtherObject

datatype cr_kind = IBPCA | IBPPEER | IBPORDERER | IBPCONSOLE

text \<open>
  The client.  \<open>k_put_spec\<close> and \<open>k_get_spec\<close> are the calls on the config map \<open><name>-spec\<close>, with the
  bytes under its key \<open>spec\<close>; \<open>k_marshal\<close> and \<open>k_unmarshal\<close> are package \<open>yaml\<close> on the specification;
  \<open>k_max_name_length\<close> is package \<open>json\<close> on a configuration override for a Fabric version, of which the
  controllers read the field \<open>maxnamelength\<close>; \<open>k_own_secret\<close> is an update of a secret with an owner, which the client adds to its owners.
\<close>

record ('w, 's) kube =
  k_now :: "'w \<Rightarrow> string \<times> 'w"
  k_selector :: "string \<Rightarrow> go_error option"
  k_get :: "string \<Rightarrow> string \<Rightarrow> 'w \<Rightarrow> 's cr go_result \<times> 'w"
  k_patch_status :: "'s cr \<Rightarrow> 'w \<Rightarrow> unit go_result \<times> 'w"
  k_marshal :: "'s \<Rightarrow> string go_result"
  k_unmarshal :: "string \<Rightarrow> 's go_result"
  k_max_name_length :: "string \<Rightarrow> string \<Rightarrow> int option go_result"
  k_put_spec :: "'s cr \<Rightarrow> string \<Rightarrow> string \<Rightarrow> 'w \<Rightarrow> unit go_result \<times> 'w"
  k_get_spec :: "string \<Rightarrow> string \<Rightarrow> 'w \<Rightarrow> string go_result \<times> 'w"
  k_list_pods :: "string \<Rightarrow> string \<Rightarrow> 'w \<Rightarrow> (string \<times> string) list go_result \<times> 'w"
  k_list_names :: "cr_kind \<Rightarrow> string \<Rightarrow> 'w \<Rightarrow> string list go_result \<times> 'w"
  k_list_children :: "string \<Rightarrow> string \<Rightarrow> 'w \<Rightarrow> (string \<times> string) list go_result \<times> 'w"
  k_own_secret :: "string \<Rightarrow> secret \<Rightarrow> 'w \<Rightarrow> secret go_result \<times> 'w"
  k_get_secret :: "string \<Rightarrow> string \<Rightarrow> 'w \<Rightarrow> unit go_result \<times> 'w"
  k_delete_cm :: "string \<Rightarrow> string \<Rightarrow> 'w \<Rightarrow> unit go_result \<times> 'w"
  k_delete_cr :: "string \<Rightarrow> string \<Rightarrow> 'w \<Rightarrow> unit go_result \<times> 'w"

text \<open>What the offering's \<open>Reconcile\<close> returns beside its error, \<open>common.Result\<close>.\<close>

record result =
  Requeue :: bool
  RequeueAfter :: int
  RStatus :: "cr_status option"
  OverrideUpdateStatus :: bool

record reconcile_result =
  rr_Requeue :: bool
  rr_RequeueAfter :: int

definition no_result :: reconcile_result where
  "no_result = \<lparr>rr_Requeue = False, rr_RequeueAfter = 0\<rparr>"

text \<open>\<open>return reconcile.Result{}, err\<close> for an error that may be nil.\<close>

definition return_err :: "go_error option \<Rightarrow> reconcile_result go_result" where
  "return_err err = (case err of None \<Rightarrow> Ok no_result | Some e \<Rightarrow> Fail e)"

text \<open>The fields an error sets, and the fields a status of the offering sets.\<close>

definition error_status :: "go_error \<Rightarrow> string \<Rightarrow> cr_status \<Rightarrow> cr_status" where
  "error_status err now status = status\<lparr>Type := ErrorType, SStatus := ''True'',
     SReason := ''errorOccurredDuringReconcile'', Message := error_text err,
     LastHeartbeatTime := now, ErrorCode := GetErrorCode (Some err)\<rparr>"

definition status_differs :: "cr_status \<Rightarrow> cr_status \<Rightarrow> bool" where
  "status_differs a b \<longleftrightarrow> Type a \<noteq> Type b \<or> SReason a \<noteq> SReason b \<or> Message a \<noteq> Message b"

definition custom_status :: "cr_status \<Rightarrow> string \<Rightarrow> cr_status \<Rightarrow> cr_status" where
  "custom_status rs now status = status\<lparr>Type := Type rs, SStatus := ''True'',
     SReason := SReason rs, Message := Message rs, LastHeartbeatTime := now\<rparr>"

text \<open>\<open>secret.OwnerReferences[0]\<close>.\<close>

definition first_owner :: "secret \<Rightarrow> (string \<times> string) go_result" where
  "first_owner s = (case sec_owners s of [] \<Rightarrow> Panic ''index out of range'' | o1 # os \<Rightarrow> Ok o1)"

subsection \<open>pkg/util/util.go\<close>

definition CheckIfZoneOrRegionUpdated :: "string \<Rightarrow> string \<Rightarrow> bool" where
  "CheckIfZoneOrRegionUpdated oldValue newValue =
     (if (to_lower oldValue \<noteq> ''select'' \<and> oldValue \<noteq> '''') \<and>
         (to_lower newValue \<noteq> ''select'' \<and> newValue \<noteq> '''')
      then if oldValue \<noteq> newValue then True else False
      else False)"

definition IsSecretTLSCert :: "string \<Rightarrow> bool" where
  "IsSecretTLSCert secretName =
     (if has_suffix secretName ''-signcert'' then has_prefix secretName ''tls''
      else if has_suffix secretName ''-ca-crypto'' then True else False)"

definition IsSecretEcert :: "string \<Rightarrow> bool" where
  "IsSecretEcert secretName =
     (if has_suffix secretName ''-signcert'' then has_prefix secretName ''ecert'' else False)"

definition maximumCRNameLength :: int where "maximumCRNameLength = 32"

definition quoted :: "string \<Rightarrow> string" where
  "quoted s = CHR 0x27 # s @ [CHR 0x27]"

definition ValidationChecks :: "'s cr \<Rightarrow> string \<Rightarrow> int option \<Rightarrow> unit go_result" where
  "ValidationChecks cr expectedKind maxNameLength =
     (let maxlength = (case maxNameLength of None \<Rightarrow> maximumCRNameLength | Some n \<Rightarrow> n)
      in if maxlength < int (length (Name cr)) then
           Fail (Plain (''The instance name '' @ quoted (Name cr) @ '' is too long, the name must be less than or equal to '' @
             itoa maxlength @ '' characters''))
         else if TypeKind cr \<noteq> '''' \<and> TypeKind cr \<noteq> expectedKind then
           Fail (Plain (''The instance '' @ quoted (Name cr) @ '' is of kind '' @ TypeKind cr @ '' not an '' @
             expectedKind @ '' kind resource, please check to make sure there are no name collisions across resources''))
         else Ok ())"

subsection \<open>controllers/common/common.go\<close>

definition name_taken :: "cr_kind \<Rightarrow> string \<Rightarrow> go_error" where
  "name_taken listed name = Plain (''custom resource with name '' @
     (if listed = IBPCA then quoted name else name) @ '' already exists'')"

text \<open>One loop over the instances of one kind: the count so far, or the error return.\<close>

fun count_names :: "string \<Rightarrow> cr_kind \<Rightarrow> cr_kind \<Rightarrow> string list \<Rightarrow> int \<Rightarrow> int go_result" where
  "count_names name kind listed [] count = Ok count"
| "count_names name kind listed (n # ns) count =
     (if name = n then
        if kind = listed then count_names name kind listed ns (count + 1)
        else Fail (name_taken listed name)
      else count_names name kind listed ns count)"

definition check_names ::
  "('w, 's) kube \<Rightarrow> string \<Rightarrow> string \<Rightarrow> cr_kind \<Rightarrow> cr_kind \<Rightarrow> int \<Rightarrow> 'w \<Rightarrow> int go_result \<times> 'w" where
  "check_names k name namespace kind listed count w =
     bind_r (k_list_names k listed namespace w) (\<lambda>names w.
       (count_names name kind listed names count, w))"

definition ValidateCRName ::
  "('w, 's) kube \<Rightarrow> string \<Rightarrow> string \<Rightarrow> cr_kind \<Rightarrow> 'w \<Rightarrow> unit go_result \<times> 'w" where
  "ValidateCRName k name namespace kind w =
     bind_r (check_names k name namespace kind IBPCA 0 w) (\<lambda>count w.
     bind_r (check_names k name namespace kind IBPORDERER count w) (\<lambda>count w.
     bind_r (check_names k name namespace kind IBPPEER count w) (\<lambda>count w.
     bind_r (check_names k name namespace kind IBPCONSOLE count w) (\<lambda>count w.
       if 1 < count then (Fail (name_taken IBPCONSOLE name), w) else (Ok (), w)))))"

record msp =
  KeyStore :: string
  SignCerts :: string
  CACerts :: "string list"
  IntermediateCerts :: "string list"
  AdminCerts :: "string list"

record msp_spec =
  Component :: "msp option"
  MTLS :: "msp option"
  ClientAuth :: "msp option"

record secret_spec =
  Enrollment :: "string option"
  MSP :: "msp_spec option"

text \<open>Copying the administrators' certificates into the old value, through the pointer.\<close>

definition copy_admins :: "msp option \<Rightarrow> msp option \<Rightarrow> msp option" where
  "copy_admins old new = (case (old, new) of
     (Some a, Some b) \<Rightarrow> Some (a\<lparr>AdminCerts := AdminCerts b\<rparr>) | _ \<Rightarrow> old)"

text \<open>The result, and the old secret, which the function changes.\<close>

definition MSPInfoUpdateDetected ::
  "secret_spec option \<Rightarrow> secret_spec option \<Rightarrow> bool \<times> secret_spec option" where
  "MSPInfoUpdateDetected oldSecret newSecret =
     (case newSecret of
        None \<Rightarrow> (False, oldSecret)
      | Some new \<Rightarrow>
          (case MSP new of
             None \<Rightarrow> (False, oldSecret)
           | Some newMSP \<Rightarrow>
               (case oldSecret of
                  None \<Rightarrow>
                    (Component newMSP \<noteq> None \<or> MTLS newMSP \<noteq> None \<or> ClientAuth newMSP \<noteq> None,
                     oldSecret)
                | Some old \<Rightarrow>
                    (case MSP old of
                       None \<Rightarrow>
                         (Component newMSP \<noteq> None \<or> MTLS newMSP \<noteq> None \<or> ClientAuth newMSP \<noteq> None,
                          oldSecret)
                     | Some oldMSP \<Rightarrow>
                         let oldMSP =
                           \<lparr>Component = copy_admins (Component oldMSP) (Component newMSP),
                            MTLS = copy_admins (MTLS oldMSP) (MTLS newMSP),
                            ClientAuth = copy_admins (ClientAuth oldMSP) (ClientAuth newMSP)\<rparr>
                         in (oldMSP \<noteq> newMSP, Some (old\<lparr>MSP := Some oldMSP\<rparr>))))))"

subsection \<open>Shared by the controllers\<close>

text \<open>The name of the instance a secret belongs to, from its own name (peers and orderers).\<close>

definition secret_instance :: "string \<Rightarrow> string option" where
  "secret_instance secretName =
     (let items = split_on CHR ''-'' secretName
      in if length items < 3 then None
         else if str_contains secretName ''-init-rootcert''
         then Some (join_with ''-'' (take (length items - 2) items))
         else Some (join_with ''-'' (take (length items - 2) (drop 1 items))))"

text \<open>The version test \<open>v.EqualWithoutTag(b) || v.GreaterThan(b)\<close>.\<close>

definition at_least :: "string \<Rightarrow> string \<Rightarrow> bool" where
  "at_least v bound \<longleftrightarrow> String_EqualWithoutTag v bound \<or> String_GreaterThan v bound"

subsection \<open>Facts\<close>

lemma count_names_cases:
  "count_names name kind listed ns c =
     (if kind = listed then Ok (c + int (count_list ns name))
      else if name \<in> set ns then Fail (name_taken listed name) else Ok c)"
  by (induction ns arbitrary: c) auto

lemma admins_eq:
  "x\<lparr>AdminCerts := AdminCerts y\<rparr> = y \<longleftrightarrow> x\<lparr>AdminCerts := []\<rparr> = (y :: msp)\<lparr>AdminCerts := []\<rparr>"
  by (cases x, cases y) auto

text \<open>With lists that are what the cluster holds, a new resource is accepted exactly when no
  resource of another kind has its name and at most one of its own kind has (itself).\<close>

lemma name_accepted_iff:
  assumes "\<And>k' w. k_list_names k k' ns w = (Ok (names k'), w)"
  shows "fst (ValidateCRName k name ns kind w) = Ok () \<longleftrightarrow>
    (\<forall>k'. k' \<noteq> kind \<longrightarrow> name \<notin> set (names k')) \<and> count_list (names kind) name \<le> 1"
proof -
  have all: "(\<forall>k'. P k') \<longleftrightarrow> P IBPCA \<and> P IBPORDERER \<and> P IBPPEER \<and> P IBPCONSOLE" for P
    by (metis cr_kind.exhaust)
  show ?thesis
    unfolding all
    by (cases kind)
      (auto simp: ValidateCRName_def check_names_def assms count_names_cases)
qed

definition sample_kube :: "(unit, unit) kube" where
  "sample_kube = \<lparr>k_now = (\<lambda>w. ('''', w)), k_selector = (\<lambda>s. None), k_get = (\<lambda>n s w. (Fail (NotFound n), w)),
     k_patch_status = (\<lambda>i w. (Ok (), w)), k_marshal = (\<lambda>s. Ok ''''), k_unmarshal = (\<lambda>s. Ok ()), k_max_name_length = (\<lambda>v s. Ok None),
     k_put_spec = (\<lambda>i s b w. (Ok (), w)), k_get_spec = (\<lambda>n s w. (Ok '''', w)),
     k_list_pods = (\<lambda>sel s w. (Ok [], w)),
     k_list_names = (\<lambda>kind s w. (Ok (if kind = IBPPEER then [''peer1''] else [''ca1'']), w)),
     k_list_children = (\<lambda>p s w. (Ok [], w)),
     k_own_secret = (\<lambda>n s w. (Ok s, w)), k_get_secret = (\<lambda>n s w. (Ok (), w)),
     k_delete_cm = (\<lambda>n s w. (Ok (), w)), k_delete_cr = (\<lambda>n s w. (Ok (), w))\<rparr>"

lemma name_accepted_iff_witness:
  "fst (ValidateCRName sample_kube ''peer1'' ''ns'' IBPPEER ()) = Ok () \<and>
   fst (ValidateCRName sample_kube ''ca1'' ''ns'' IBPPEER ()) \<noteq> Ok ()"
proof -
  have names: "k_list_names sample_kube k' ''ns'' w =
      (Ok (if k' = IBPPEER then [''peer1''] else [''ca1'']), w)" for k' w
    by (simp add: sample_kube_def)
  show ?thesis
    by (subst (1 2) name_accepted_iff [of sample_kube "''ns''", OF names]) auto
qed

text \<open>A change of the administrators' certificates alone never counts as a change of the MSP
  crypto; a change of the keys, the certificates or the CA certificates of a component whose
  crypto is given on both sides always does.\<close>

lemma admin_certs_are_ignored:
  "fst (MSPInfoUpdateDetected (Some \<lparr>Enrollment = e, MSP = Some m\<rparr>) (Some \<lparr>Enrollment = e', MSP = Some m'\<rparr>)) \<longleftrightarrow>
     \<not> (map_option (AdminCerts_update (\<lambda>_. [])) (Component m) = map_option (AdminCerts_update (\<lambda>_. [])) (Component m') \<and>
        map_option (AdminCerts_update (\<lambda>_. [])) (MTLS m) = map_option (AdminCerts_update (\<lambda>_. [])) (MTLS m') \<and>
        map_option (AdminCerts_update (\<lambda>_. [])) (ClientAuth m) = map_option (AdminCerts_update (\<lambda>_. [])) (ClientAuth m'))"
proof -
  have "copy_admins a b = b \<longleftrightarrow>
      map_option (AdminCerts_update (\<lambda>_. [])) a = map_option (AdminCerts_update (\<lambda>_. [])) b" for a b
    by (cases a; cases b) (auto simp: copy_admins_def admins_eq)
  then show ?thesis
    by (cases m, cases m') (auto simp: MSPInfoUpdateDetected_def)
qed

lemma split_on_middle: "split_on c (s @ c # t) = split_on c s @ split_on c t"
proof (induction s)
  case (Cons x s)
  show ?case
  proof (cases "x = c")
    case False
    with Cons show ?thesis
      by (cases "split_on c s") (simp_all add: split_on_nonempty)
  qed (simp add: Cons)
qed simp

text \<open>The instance a crypto secret belongs to is recovered from the secret's name, also when
  the instance's own name is hyphenated: the secrets \<open><prefix>-<instance>-<type>\<close> and
  \<open><instance>-init-rootcert\<close> both give the instance.\<close>

lemma secret_names_instance:
  assumes "CHR ''-'' \<notin> set prefix" and "CHR ''-'' \<notin> set stype"
    and "\<not> str_contains (prefix @ ''-'' @ name @ ''-'' @ stype) ''-init-rootcert''"
  shows "secret_instance (prefix @ ''-'' @ name @ ''-'' @ stype) = Some name \<and>
    secret_instance (name @ ''-init-rootcert'') = Some name"
proof
  have items: "split_on CHR ''-'' (prefix @ CHR ''-'' # name @ CHR ''-'' # stype) =
      [prefix] @ split_on CHR ''-'' name @ [stype]"
    using assms(1,2) by (simp add: split_on_middle split_on_no_sep)
  obtain x xs where n: "split_on CHR ''-'' name = x # xs"
    using split_on_nonempty [of "CHR ''-''" name] by (cases "split_on CHR ''-'' name") auto
  from items assms(3) show "secret_instance (prefix @ ''-'' @ name @ ''-'' @ stype) = Some name"
    using join_split [of "CHR ''-''" name] by (simp add: secret_instance_def n)
  have "str_contains (name @ ''-init-rootcert'') ''-init-rootcert''"
    by (auto simp: str_contains_iff)
  moreover have "split_on CHR ''-'' (name @ CHR ''-'' # ''init-rootcert'') =
      split_on CHR ''-'' name @ [''init'', ''rootcert'']"
    by (simp add: split_on_middle)
  ultimately show "secret_instance (name @ ''-init-rootcert'') = Some name"
    using join_split [of "CHR ''-''" name] by (simp add: secret_instance_def n)
qed

lemma secret_names_instance_witness:
  "secret_instance ''tls-org1-peer-a-signcert'' = Some ''org1-peer-a'' \<and>
   secret_instance ''org1-peer-a-init-rootcert'' = Some ''org1-peer-a''"
proof -
  have "\<not> str_contains (''tls'' @ ''-'' @ ''org1-peer-a'' @ ''-'' @ ''signcert'') ''-init-rootcert''"
    by code_simp
  from secret_names_instance [of "''tls''" "''signcert''" "''org1-peer-a''", OF _ _ this]
  show ?thesis by simp
qed

end
