(* ===== verification/PeerUpdate.thy ===== *)
theory PeerUpdate
  imports UpdateStack Kube Version RestartManager
begin

text \<open>
  Updates of a peer: \<open>controllers/ibppeer/predicate.go\<close> and the update stack of
  \<open>controllers/ibppeer/ibppeer_controller.go\<close>.  The getters of single flags are the selectors of the
  record \<open>peer_update\<close>.
\<close>

record peer_update =
  p_specUpdated :: bool
  p_overridesUpdated :: bool
  p_tlsCertUpdated :: bool
  p_ecertUpdated :: bool
  p_peerTagUpdated :: bool
  p_restartNeeded :: bool
  p_ecertReenrollNeeded :: bool
  p_tlsReenrollNeeded :: bool
  p_ecertNewKeyReenroll :: bool
  p_tlscertNewKeyReenroll :: bool
  p_migrateToV2 :: bool
  p_migrateToV24 :: bool
  p_migrateToV25 :: bool
  p_mspUpdated :: bool
  p_ecertEnroll :: bool
  p_tlscertEnroll :: bool
  p_upgradedbs :: bool
  p_tlsCertCreated :: bool
  p_ecertCreated :: bool
  p_nodeOUUpdated :: bool
  p_imagesUpdated :: bool
  p_fabricVersionUpdated :: bool

definition no_peer_update :: peer_update where
  "no_peer_update = \<lparr>p_specUpdated = False, p_overridesUpdated = False, p_tlsCertUpdated = False,
     p_ecertUpdated = False, p_peerTagUpdated = False, p_restartNeeded = False,
     p_ecertReenrollNeeded = False, p_tlsReenrollNeeded = False, p_ecertNewKeyReenroll = False,
     p_tlscertNewKeyReenroll = False, p_migrateToV2 = False, p_migrateToV24 = False,
     p_migrateToV25 = False, p_mspUpdated = False, p_ecertEnroll = False, p_tlscertEnroll = False,
     p_upgradedbs = False, p_tlsCertCreated = False, p_ecertCreated = False,
     p_nodeOUUpdated = False, p_imagesUpdated = False, p_fabricVersionUpdated = False\<rparr>"

definition peer_CertificateUpdated :: "peer_update \<Rightarrow> bool" where
  "peer_CertificateUpdated u \<longleftrightarrow> p_tlsCertUpdated u \<or> p_ecertUpdated u"

text \<open>The empty secret type is \<open>OtherSecret\<close>.\<close>

definition peer_GetUpdatedCertType :: "peer_update \<Rightarrow> SecretType" where
  "peer_GetUpdatedCertType u =
     (if p_tlsCertUpdated u then TLS else if p_ecertUpdated u then ECERT else OtherSecret)"

definition peer_CertificateCreated :: "peer_update \<Rightarrow> bool" where
  "peer_CertificateCreated u \<longleftrightarrow> p_tlsCertCreated u \<or> p_ecertCreated u"

definition peer_GetCreatedCertType :: "peer_update \<Rightarrow> SecretType" where
  "peer_GetCreatedCertType u =
     (if p_tlsCertCreated u then TLS else if p_ecertCreated u then ECERT else OtherSecret)"

definition peer_CryptoBackupNeeded :: "peer_update \<Rightarrow> bool" where
  "peer_CryptoBackupNeeded u \<longleftrightarrow>
     p_ecertEnroll u \<or> p_tlscertEnroll u \<or> p_ecertReenrollNeeded u \<or> p_tlsReenrollNeeded u \<or>
     p_ecertNewKeyReenroll u \<or> p_tlscertNewKeyReenroll u \<or> p_mspUpdated u"

definition peer_Needed :: "peer_update \<Rightarrow> bool" where
  "peer_Needed u \<longleftrightarrow>
     p_specUpdated u \<or> p_overridesUpdated u \<or> p_tlsCertUpdated u \<or> p_ecertUpdated u \<or>
     p_peerTagUpdated u \<or> p_restartNeeded u \<or> p_ecertReenrollNeeded u \<or> p_tlsReenrollNeeded u \<or>
     p_ecertNewKeyReenroll u \<or> p_tlscertNewKeyReenroll u \<or> p_migrateToV2 u \<or> p_migrateToV24 u \<or>
     p_migrateToV25 u \<or> p_mspUpdated u \<or> p_ecertEnroll u \<or> p_upgradedbs u \<or> p_nodeOUUpdated u \<or>
     p_imagesUpdated u \<or> p_fabricVersionUpdated u"

definition peer_GetUpdateStackWithTrues :: "peer_update \<Rightarrow> string" where
  "peer_GetUpdateStackWithTrues u = true_labels
     [(p_specUpdated u, ''specUpdated ''), (p_overridesUpdated u, ''overridesUpdated ''),
      (p_tlsCertUpdated u, ''tlsCertUpdated ''), (p_ecertUpdated u, ''ecertUpdated ''),
      (p_peerTagUpdated u, ''peerTagUpdated ''), (p_restartNeeded u, ''restartNeeded ''),
      (p_ecertReenrollNeeded u, ''ecertReenrollNeeded''),
      (p_tlsReenrollNeeded u, ''tlsReenrollNeeded''),
      (p_migrateToV2 u, ''migrateToV2 ''), (p_migrateToV24 u, ''migrateToV24 ''),
      (p_migrateToV25 u, ''migrateToV25 ''), (p_mspUpdated u, ''mspUpdated ''),
      (p_ecertEnroll u, ''ecertEnroll ''), (p_tlscertEnroll u, ''tlscertEnroll ''),
      (p_upgradedbs u, ''upgradedbs ''), (p_tlsCertCreated u, ''tlsCertCreated ''),
      (p_ecertCreated u, ''ecertCreated ''), (p_nodeOUUpdated u, ''nodeOUUpdated ''),
      (p_imagesUpdated u, ''imagesUpdated ''), (p_fabricVersionUpdated u, ''fabricVersionUpdated '')]"

subsection \<open>The specification of a peer\<close>

record peer_images =
  PeerTag :: string
  pi_other :: string

text \<open>\<open>Spec.Action\<close> with its nested structs.\<close>

record peer_action =
  pa_Restart :: bool
  pa_Reenroll_Ecert :: bool
  pa_Reenroll_TLSCert :: bool
  pa_Reenroll_EcertNewKey :: bool
  pa_Reenroll_TLSCertNewKey :: bool
  pa_Enroll_Ecert :: bool
  pa_Enroll_TLSCert :: bool
  pa_UpgradeDBs :: bool

record peer_spec =
  ps_Zone :: string
  ps_Region :: string
  ps_Images :: "peer_images option"
  ps_FabricVersion :: string
  ps_ConfigOverride :: "string option"
  ps_Secret :: "secret_spec option"
  ps_Action :: peer_action
  ps_DisableNodeOU :: "bool option"
  ps_NumSecondsWarningPeriod :: int
  ps_other :: string

definition peer_NodeOUDisabled :: "peer_spec \<Rightarrow> bool" where
  "peer_NodeOUDisabled s = (case ps_DisableNodeOU s of Some b \<Rightarrow> b | None \<Rightarrow> False)"

definition peer_imagesUpdated :: "peer_spec \<Rightarrow> peer_spec \<Rightarrow> bool" where
  "peer_imagesUpdated old new =
     (if ps_Images new \<noteq> None then
        if ps_Images old = None then True
        else ps_Images old \<noteq> ps_Images new
      else False)"

definition peer_fabricVersionUpdated :: "peer_spec \<Rightarrow> peer_spec \<Rightarrow> bool" where
  "peer_fabricVersionUpdated old new \<longleftrightarrow> ps_FabricVersion old \<noteq> ps_FabricVersion new"

subsection \<open>The update stack\<close>

type_synonym peer_stacks = "peer_update list gomap"

definition peer_GetUpdateStatusAtElement :: "string \<Rightarrow> nat \<Rightarrow> peer_stacks \<Rightarrow> peer_update go_result" where
  "peer_GetUpdateStatusAtElement n index m =
     (case map_of m n of
        None \<Rightarrow> Ok no_peer_update
      | Some us \<Rightarrow>
          if 1 \<le> length us then
            if index < length us then Ok (us ! index) else Panic ''index out of range''
          else Ok no_peer_update)"

definition peer_GetUpdateStatus :: "string \<Rightarrow> peer_stacks \<Rightarrow> peer_update" where
  "peer_GetUpdateStatus n m =
     (case peer_GetUpdateStatusAtElement n 0 m of Ok u \<Rightarrow> u | _ \<Rightarrow> no_peer_update)"

definition peer_AppendUpdateIfMissing :: "peer_update list \<Rightarrow> peer_update \<Rightarrow> peer_update list" where
  "peer_AppendUpdateIfMissing updates update =
     (if list_ex (\<lambda>u. u = update) updates then updates else updates @ [update])"

definition peer_PushUpdate :: "string \<Rightarrow> peer_update \<Rightarrow> peer_stacks \<Rightarrow> peer_stacks" where
  "peer_PushUpdate n update m = AList.update n (peer_AppendUpdateIfMissing (slice_of m n) update) m"

definition peer_PopUpdate :: "string \<Rightarrow> peer_stacks \<Rightarrow> peer_update \<times> peer_stacks" where
  "peer_PopUpdate n m =
     (if 1 \<le> length (slice_of m n) then
        (slice_of m n ! 0,
         if length (slice_of m n) = 1 then AList.update n [] m
         else AList.update n (drop 1 (slice_of m n)) m)
      else (no_peer_update, m))"

interpretation peer_stack:
  update_stack peer_PushUpdate peer_PopUpdate peer_GetUpdateStatus no_peer_update
proof
  fix n u m n'
  show "slice_of (peer_PushUpdate n u m) n' =
      (if n' = n \<and> u \<notin> set (slice_of m n) then slice_of m n @ [u] else slice_of m n')"
    by (auto simp: peer_PushUpdate_def peer_AppendUpdateIfMissing_def list_ex_iff)
next
  fix m n
  show "slice_of m n = [] \<Longrightarrow> peer_PopUpdate n m = (no_peer_update, m)"
    by (simp add: peer_PopUpdate_def)
next
  fix m n u us
  show "slice_of m n = u # us \<Longrightarrow> fst (peer_PopUpdate n m) = u \<and>
      (\<forall>n'. slice_of (snd (peer_PopUpdate n m)) n' = (if n' = n then us else slice_of m n'))"
    by (auto simp: peer_PopUpdate_def)
next
  fix n m
  show "peer_GetUpdateStatus n m = (case slice_of m n of [] \<Rightarrow> no_peer_update | u # us \<Rightarrow> u)"
    by (auto simp: peer_GetUpdateStatus_def peer_GetUpdateStatusAtElement_def slice_of_def
        split: option.splits list.splits)
qed

text \<open>\<open>GetUpdateStack\<close> prints all stacks, in the order \<open>ks\<close> of the visit.\<close>

definition peer_GetUpdateStack :: "string list \<Rightarrow> peer_stacks \<Rightarrow> string" where
  "peer_GetUpdateStack ks m = concat (map (\<lambda>k. k @ '': [ '' @
     join_with '' , '' (map (\<lambda>u. ''{ '' @ peer_GetUpdateStackWithTrues u @ ''}'') (slice_of m k)) @ '' ] '') ks)"

text \<open>The updates detected for a peer are handed to the reconcile loop in the order in which
  they were first detected, each once: popping as often as the stack is long gives the stack
  itself and empties it, without touching other instances; detecting an update that is already
  waiting changes nothing; and the update a round announces is the one it then pops.\<close>

lemma peer_updates_in_order:
  "fst (drain peer_PopUpdate (length (slice_of m n)) n m) = slice_of m n \<and>
   slice_of (snd (drain peer_PopUpdate (length (slice_of m n)) n m)) n = [] \<and>
   (n' \<noteq> n \<longrightarrow> slice_of (snd (drain peer_PopUpdate (length (slice_of m n)) n m)) n' = slice_of m n') \<and>
   slice_of (peer_PushUpdate n u (peer_PushUpdate n u m)) n = slice_of (peer_PushUpdate n u m) n \<and>
   peer_GetUpdateStatus n m = fst (peer_PopUpdate n m)"
  using peer_stack.drain_all [of m n, OF refl] peer_stack.push_twice [of n u m n] peer_stack.peek_is_pop [of n m]
  by simp

lemma peer_updates_in_order_witness:
  "fst (drain peer_PopUpdate 2 ''p'' (peer_PushUpdate ''p'' (no_peer_update\<lparr>p_specUpdated := True\<rparr>)
     (peer_PushUpdate ''p'' (no_peer_update\<lparr>p_restartNeeded := True\<rparr>) []))) =
   [no_peer_update\<lparr>p_restartNeeded := True\<rparr>, no_peer_update\<lparr>p_specUpdated := True\<rparr>]"
proof -
  let ?m = "peer_PushUpdate ''p'' (no_peer_update\<lparr>p_specUpdated := True\<rparr>)
     (peer_PushUpdate ''p'' (no_peer_update\<lparr>p_restartNeeded := True\<rparr>) [])"
  have s: "slice_of ?m ''p'' =
      [no_peer_update\<lparr>p_restartNeeded := True\<rparr>, no_peer_update\<lparr>p_specUpdated := True\<rparr>]"
    by code_simp
  have l: "length (slice_of ?m ''p'') = 2" by (simp only: s) simp
  from peer_updates_in_order [of ?m "''p''" "''q''" no_peer_update, THEN conjunct1, unfolded l, unfolded s]
  show ?thesis .
qed

text \<open>Every update for which a peer's crypto material is backed up is an update the offering
  acts upon, with one exception: a lone request to enroll the TLS certificate backs up the crypto,
  but does not count as needed.  An update printed as empty can still need work, since requests to
  re-enroll with a new key are not printed.\<close>

lemma peer_backup_without_need:
  "(peer_CryptoBackupNeeded u \<and> \<not> p_tlscertEnroll u \<longrightarrow> peer_Needed u) \<and>
   peer_CryptoBackupNeeded (no_peer_update\<lparr>p_tlscertEnroll := True\<rparr>) \<and>
   \<not> peer_Needed (no_peer_update\<lparr>p_tlscertEnroll := True\<rparr>) \<and>
   peer_Needed (no_peer_update\<lparr>p_ecertNewKeyReenroll := True\<rparr>) \<and>
   peer_GetUpdateStackWithTrues (no_peer_update\<lparr>p_ecertNewKeyReenroll := True\<rparr>) = ''emptystack ''"
  by (auto simp: peer_CryptoBackupNeeded_def peer_Needed_def no_peer_update_def
      peer_GetUpdateStackWithTrues_def true_labels_def)

lemma peer_backup_without_need_witness:
  "peer_Needed (no_peer_update\<lparr>p_mspUpdated := True\<rparr>)"
proof -
  have "peer_CryptoBackupNeeded (no_peer_update\<lparr>p_mspUpdated := True\<rparr>) \<and>
      \<not> p_tlscertEnroll (no_peer_update\<lparr>p_mspUpdated := True\<rparr>)"
    by (simp add: peer_CryptoBackupNeeded_def no_peer_update_def)
  with peer_backup_without_need [of "no_peer_update\<lparr>p_mspUpdated := True\<rparr>"] show ?thesis by blast
qed

end
