(* ===== verification/PeerController.thy ===== *)
theory PeerController
  imports PeerUpdate RestartProps
begin

text \<open>
  The peer controller, \<open>controllers/ibppeer/ibppeer_controller.go\<close>: the status of the custom
  resource, the event handlers that detect updates, and the reconcile loop.  The state of a handler
  is the update stacks and the world.  The offering that creates and updates the Kubernetes
  objects of the peer is a parameter of \<open>peer_Reconcile\<close>.
\<close>

subsection \<open>Status\<close>

definition peer_SaveSpecState :: "('w, peer_spec) kube \<Rightarrow> peer_spec cr \<Rightarrow> 'w \<Rightarrow> unit go_result \<times> 'w" where
  "peer_SaveSpecState k i w =
     bind_r (k_marshal k (Spec i), w) (\<lambda>data w. k_put_spec k i (Name i @ ''-spec'') data w)"

definition peer_GetSpecState :: "('w, peer_spec) kube \<Rightarrow> peer_spec cr \<Rightarrow> 'w \<Rightarrow> string go_result \<times> 'w" where
  "peer_GetSpecState k i w = k_get_spec k (Name i @ ''-spec'') (Namespace i) w"

definition peer_GetPodStatus :: "('w, peer_spec) kube \<Rightarrow> peer_spec cr \<Rightarrow> 'w \<Rightarrow> bool go_result \<times> 'w" where
  "peer_GetPodStatus k i w =
     (case k_selector k (''app='' @ Name i) of
        Some e \<Rightarrow> (Fail (Wrapped ''failed to parse label selector for app name'' e), w)
      | None \<Rightarrow>
          bind_r (k_list_pods k (''app='' @ Name i) (Namespace i) w) (\<lambda>pods w.
            if length pods = 0 then (Ok False, w)
            else (Ok (list_all (\<lambda>(n, phase). phase = ''Running'') pods), w)))"

text \<open>The last part of \<open>SetStatus\<close>: the status by the pods.\<close>

definition peer_set_pod_status ::
  "('w, peer_spec) kube \<Rightarrow> peer_spec cr \<Rightarrow> cr_status \<Rightarrow> 'w \<Rightarrow> unit go_result \<times> 'w" where
  "peer_set_pod_status k i status w =
     bind_r (peer_GetPodStatus k i w) (\<lambda>running w.
       if running then
         if Type (CRStatus i) = Deployed \<or> Type (CRStatus i) = Warning then (Ok (), w)
         else
           let status = status\<lparr>Type := Deployed, SStatus := ''True'', SReason := ''allPodsRunning''\<rparr>;
               (now, w) = k_now k w
           in k_patch_status k (i\<lparr>CRStatus := status\<lparr>LastHeartbeatTime := now\<rparr>\<rparr>) w
       else
         if Type (CRStatus i) = Deploying then (Ok (), w)
         else
           let status = status\<lparr>Type := Deploying, SStatus := ''True'', SReason := ''waitingForPods''\<rparr>;
               (now, w) = k_now k w
           in k_patch_status k (i\<lparr>CRStatus := status\<lparr>LastHeartbeatTime := now\<rparr>\<rparr>) w)"

definition peer_SetStatus ::
  "('w, peer_spec) kube \<Rightarrow> peer_spec cr \<Rightarrow> cr_status option \<Rightarrow> go_error option \<Rightarrow> 'w \<Rightarrow> unit go_result \<times> 'w"
  where
  "peer_SetStatus k i reconcileStatus reconcileErr w =
     bind_r (wrap_err ''failed to save spec state'' (peer_SaveSpecState k i w)) (\<lambda>_ w.
     bind_r (k_get k (Name i) (Namespace i) w) (\<lambda>i w.
       let status = CRStatus i in
       (case reconcileErr of
          Some e \<Rightarrow>
            let (now, w) = k_now k w
            in k_patch_status k (i\<lparr>CRStatus := error_status e now status\<rparr>) w
        | None \<Rightarrow>
            let status = status\<lparr>Reconciled := ps_FabricVersion (Spec i)\<rparr> in
            (case reconcileStatus of
               Some rs \<Rightarrow>
                 if status_differs (CRStatus i) rs then
                   let (now, w) = k_now k w
                   in k_patch_status k (i\<lparr>CRStatus := custom_status rs now status\<rparr>) w
                 else peer_set_pod_status k i status w
             | None \<Rightarrow> peer_set_pod_status k i status w))))"

subsection \<open>Event handlers\<close>

text \<open>Whether an owner was added, and the secret as the client's update leaves it.\<close>

definition peer_AddOwnerReferenceToSecret ::
  "('w, peer_spec) kube \<Rightarrow> secret \<Rightarrow> 'w \<Rightarrow> (bool \<times> secret) go_result \<times> 'w" where
  "peer_AddOwnerReferenceToSecret k sec w =
     (case secret_instance (sec_name sec) of
        None \<Rightarrow> (Ok (False, sec), w)
      | Some instanceName \<Rightarrow>
          bind_r (wrap_err ''failed to get list of peers''
                    (k_list_names k IBPPEER (sec_namespace sec) w)) (\<lambda>peers w.
            if list_ex (\<lambda>n. n = instanceName) peers
            then bind_r (k_own_secret k instanceName sec w) (\<lambda>sec w. (Ok (True, sec), w))
            else (Ok (False, sec), w)))"

text \<open>
  The part the secret handlers share: a secret without owner is first given its peer as owner; then
  the first owner decides.  \<open>None\<close> is the early \<open>return false\<close>.
\<close>

definition peer_secret_owner ::
  "('w, peer_spec) kube \<Rightarrow> secret \<Rightarrow> 'w \<Rightarrow> (secret \<times> string \<times> string) option go_result \<times> 'w" where
  "peer_secret_owner k sec w =
     (if sec_owners sec = [] then
        (case peer_AddOwnerReferenceToSecret k sec w of
           (Fail e, w) \<Rightarrow> (Ok None, w)
         | (Panic p, w) \<Rightarrow> (Panic p, w)
         | (Ok (isPeerSecret, sec), w) \<Rightarrow>
             if \<not> isPeerSecret then (Ok None, w)
             else (seq_r (first_owner sec) (\<lambda>ow. Ok (Some (sec, ow))), w))
      else (seq_r (first_owner sec) (\<lambda>ow. Ok (Some (sec, ow))), w))"

definition peer_saved_update :: "peer_spec \<Rightarrow> peer_spec \<Rightarrow> peer_update" where
  "peer_saved_update saved spec =
     (let u = no_peer_update;
          u = (if spec \<noteq> saved then u\<lparr>p_specUpdated := True\<rparr> else u);
          u = (if ps_ConfigOverride spec \<noteq> ps_ConfigOverride saved
               then u\<lparr>p_overridesUpdated := True\<rparr> else u)
      in u\<lparr>p_imagesUpdated := peer_imagesUpdated saved spec,
           p_fabricVersionUpdated := peer_fabricVersionUpdated saved spec\<rparr>)"

type_synonym 'w pstate = "peer_stacks \<times> 'w"

fun peer_CreateFunc ::
  "('w, peer_spec) kube \<Rightarrow> peer_spec object \<Rightarrow> 'w pstate \<Rightarrow> bool go_result \<times> 'w pstate" where
  "peer_CreateFunc k (CRObject peer) (m, w) =
     (if HasType (CRStatus peer) then
        (case peer_GetSpecState k peer w of
           (Fail e, w) \<Rightarrow> (Ok True, m, w)
         | (Panic p, w) \<Rightarrow> (Panic p, m, w)
         | (Ok specBytes, w) \<Rightarrow>
             (case k_unmarshal k specBytes of
                Fail e \<Rightarrow> (Ok True, m, w)
              | Panic p \<Rightarrow> (Panic p, m, w)
              | Ok saved \<Rightarrow>
                  (Ok True, peer_PushUpdate (Name peer) (peer_saved_update saved (Spec peer)) m, w)))
      else
        (case ValidateCRName k (Name peer) (Namespace peer) IBPPEER w of
           (Ok _, w) \<Rightarrow> (Ok True, m, w)
         | (Panic p, w) \<Rightarrow> (Panic p, m, w)
         | (Fail e, w) \<Rightarrow>
             let operror = operr_Wrap e InvalidCustomResourceCreateRequest
                   ''failed to validate custom resource name''
             in (case peer_SetStatus k peer None (Some operror) w of
                   (Panic p, w) \<Rightarrow> (Panic p, m, w)
                 | (_, w) \<Rightarrow> (Ok False, m, w))))"
| "peer_CreateFunc k (SecretObject sec) (m, w) =
     (case peer_secret_owner k sec w of
        (Ok None, w) \<Rightarrow> (Ok False, m, w)
      | (Fail e, w) \<Rightarrow> (Fail e, m, w)
      | (Panic p, w) \<Rightarrow> (Panic p, m, w)
      | (Ok (Some (sec, okind, instanceName)), w) \<Rightarrow>
          if okind = ''IBPPeer'' then
            if IsSecretTLSCert (sec_name sec) then
              (Ok True, peer_PushUpdate instanceName (no_peer_update\<lparr>p_tlsCertCreated := True\<rparr>) m, w)
            else if IsSecretEcert (sec_name sec) then
              (Ok True, peer_PushUpdate instanceName (no_peer_update\<lparr>p_ecertCreated := True\<rparr>) m, w)
            else (Ok False, m, w)
          else (Ok True, m, w))"
| "peer_CreateFunc k (ConfigMapObject n) (m, w) = (Ok (n = ''peer-restart-config''), m, w)"
| "peer_CreateFunc k _ (m, w) = (Ok True, m, w)"

text \<open>The three migration checks of \<open>UpdateFunc\<close>.\<close>

definition peer_migrations :: "string \<Rightarrow> string \<Rightarrow> peer_update \<Rightarrow> peer_update" where
  "peer_migrations oldVer newVer u =
     (let u = (if (oldVer = '''' \<or> GetMajorReleaseVersion oldVer = V1) \<and>
                  GetMajorReleaseVersion newVer = V2
               then if at_least newVer V2_5_1
                    then u\<lparr>p_migrateToV2 := True, p_migrateToV24 := True, p_migrateToV25 := True\<rparr>
                    else if at_least newVer V2_4_1
                    then u\<lparr>p_migrateToV2 := True, p_migrateToV24 := True\<rparr>
                    else u\<lparr>p_migrateToV2 := True\<rparr>
               else u);
          u = (if GetMajorReleaseVersion oldVer = V2 \<and> String_LessThan oldVer V2_4_1
               then if at_least newVer V2_5_1
                    then u\<lparr>p_migrateToV24 := True, p_migrateToV25 := True\<rparr>
                    else u\<lparr>p_migrateToV24 := True\<rparr>
               else u)
      in if GetMajorReleaseVersion oldVer = V2 \<and> String_LessThan oldVer V2_5_1 \<and>
            at_least newVer V2_5_1
         then u\<lparr>p_migrateToV25 := True\<rparr> else u)"

definition peer_detect :: "peer_spec \<Rightarrow> peer_spec \<Rightarrow> peer_update" where
  "peer_detect old new =
     (let oldVer = ps_FabricVersion old; newVer = ps_FabricVersion new;
          oldAct = ps_Action old; newAct = ps_Action new;
          u = no_peer_update\<lparr>p_specUpdated := True\<rparr>;
          u = when_do (case (ps_Images old, ps_Images new) of
                 (Some a, Some b) \<Rightarrow> PeerTag a \<noteq> PeerTag b | _ \<Rightarrow> False)
                (\<lambda>u. u\<lparr>p_peerTagUpdated := True\<rparr>) u;
          u = when_do (ps_ConfigOverride old \<noteq> ps_ConfigOverride new)
                (\<lambda>u. u\<lparr>p_overridesUpdated := True\<rparr>) u;
          u = u\<lparr>p_mspUpdated := fst (MSPInfoUpdateDetected (ps_Secret old) (ps_Secret new))\<rparr>;
          u = when_do (pa_Restart newAct) (\<lambda>u. u\<lparr>p_restartNeeded := True\<rparr>) u;
          u = when_do (pa_Reenroll_Ecert oldAct \<noteq> pa_Reenroll_Ecert newAct)
                (\<lambda>u. u\<lparr>p_ecertReenrollNeeded := pa_Reenroll_Ecert newAct\<rparr>) u;
          u = when_do (pa_Reenroll_TLSCert oldAct \<noteq> pa_Reenroll_TLSCert newAct)
                (\<lambda>u. u\<lparr>p_tlsReenrollNeeded := pa_Reenroll_TLSCert newAct\<rparr>) u;
          u = when_do (pa_Reenroll_EcertNewKey oldAct \<noteq> pa_Reenroll_EcertNewKey newAct)
                (\<lambda>u. u\<lparr>p_ecertNewKeyReenroll := pa_Reenroll_EcertNewKey newAct\<rparr>) u;
          u = when_do (pa_Reenroll_TLSCertNewKey oldAct \<noteq> pa_Reenroll_TLSCertNewKey newAct)
                (\<lambda>u. u\<lparr>p_tlscertNewKeyReenroll := pa_Reenroll_TLSCertNewKey newAct\<rparr>) u;
          u = peer_migrations oldVer newVer u;
          u = when_do (pa_UpgradeDBs newAct) (\<lambda>u. u\<lparr>p_upgradedbs := True\<rparr>) u;
          u = when_do (pa_Enroll_Ecert newAct) (\<lambda>u. u\<lparr>p_ecertEnroll := True\<rparr>) u;
          u = when_do (pa_Enroll_TLSCert newAct) (\<lambda>u. u\<lparr>p_tlscertEnroll := True\<rparr>) u;
          u = when_do (peer_NodeOUDisabled old \<noteq> peer_NodeOUDisabled new)
                (\<lambda>u. u\<lparr>p_nodeOUUpdated := True\<rparr>) u;
          u = when_do (ps_NumSecondsWarningPeriod old \<noteq> ps_NumSecondsWarningPeriod new)
                (\<lambda>u. u\<lparr>p_ecertUpdated := True, p_tlsCertUpdated := True\<rparr>) u
      in u\<lparr>p_imagesUpdated := peer_imagesUpdated old new,
           p_fabricVersionUpdated := peer_fabricVersionUpdated old new\<rparr>)"

text \<open>The update event carries the old and the new object; the handler switches on the old one.\<close>

fun peer_UpdateFunc ::
  "('w, peer_spec) kube \<Rightarrow> peer_spec object \<Rightarrow> peer_spec object \<Rightarrow> 'w pstate \<Rightarrow>
     bool go_result \<times> 'w pstate" where
  "peer_UpdateFunc k (CRObject old) (CRObject new) (m, w) =
     (if CheckIfZoneOrRegionUpdated (ps_Zone (Spec old)) (ps_Zone (Spec new)) then (Ok False, m, w)
      else if CheckIfZoneOrRegionUpdated (ps_Region (Spec old)) (ps_Region (Spec new)) then (Ok False, m, w)
      else if Spec old = Spec new then (Ok False, m, w)
      else (Ok True, peer_PushUpdate (Name old) (peer_detect (Spec old) (Spec new)) m, w))"
| "peer_UpdateFunc k (SecretObject old) (SecretObject new) (m, w) =
     (case peer_secret_owner k old w of
        (Ok None, w) \<Rightarrow> (Ok False, m, w)
      | (Fail e, w) \<Rightarrow> (Fail e, m, w)
      | (Panic p, w) \<Rightarrow> (Panic p, m, w)
      | (Ok (Some (sec, okind, instanceName)), w) \<Rightarrow>
          if okind = ''IBPPeer'' then
            if sec_data sec = sec_data new then (Ok False, m, w)
            else if IsSecretTLSCert (sec_name sec) then
              (Ok True, peer_PushUpdate instanceName (no_peer_update\<lparr>p_tlsCertUpdated := True\<rparr>) m, w)
            else if IsSecretEcert (sec_name sec) then
              (Ok True, peer_PushUpdate instanceName (no_peer_update\<lparr>p_ecertUpdated := True\<rparr>) m, w)
            else (Ok False, m, w)
          else (Ok False, m, w))"
| "peer_UpdateFunc k (ConfigMapObject n) _ (m, w) = (Ok (n = ''peer-restart-config''), m, w)"
| "peer_UpdateFunc k (CRObject old) _ (m, w) = (Panic ''interface conversion'', m, w)"
| "peer_UpdateFunc k (SecretObject old) _ (m, w) = (Panic ''interface conversion'', m, w)"
| "peer_UpdateFunc k _ _ (m, w) = (Ok False, m, w)"

text \<open>The deletion of the config map is tried; its error is only logged.\<close>

fun peer_DeleteFunc ::
  "('w, peer_spec) kube \<Rightarrow> peer_spec object \<Rightarrow> 'w \<Rightarrow> bool \<times> 'w" where
  "peer_DeleteFunc k (CRObject peer) w =
     (let (_, w) = k_delete_cm k (Name peer @ ''-init-config'') (Namespace peer) w in (True, w))"
| "peer_DeleteFunc k _ w = (True, w)"

subsection \<open>Reconcile\<close>

definition peer_ReconcileRestart ::
  "'w env \<Rightarrow> visit \<Rightarrow> int \<Rightarrow> string \<Rightarrow> 'w \<Rightarrow> bool go_result \<times> 'w" where
  "peer_ReconcileRestart env v timeout namespace w = Reconcile env v timeout ''peer'' namespace w"

text \<open>
  \<open>offering\<close> is the offering's \<open>Reconcile\<close>; \<open>arrivals\<close> are the updates that the event handlers, which
  run concurrently, push while it runs.
\<close>

definition peer_Reconcile ::
  "('w, peer_spec) kube \<Rightarrow> 'w env \<Rightarrow> visit \<Rightarrow> int \<Rightarrow>
   (peer_spec cr \<Rightarrow> peer_update \<Rightarrow> 'w \<Rightarrow> (result \<times> go_error option) \<times> 'w) \<Rightarrow>
   (string \<times> peer_update) list \<Rightarrow> string \<Rightarrow> string \<Rightarrow> 'w pstate \<Rightarrow>
   reconcile_result go_result \<times> 'w pstate" where
  "peer_Reconcile k env v timeout offering arrivals name namespace st =
     (case st of (m, w) \<Rightarrow>
      if name = ''peer-restart-config'' then
        (case peer_ReconcileRestart env v timeout namespace w of
           (Ok requeue, w) \<Rightarrow> (Ok (no_result\<lparr>rr_Requeue := requeue\<rparr>), m, w)
         | (Fail e, w) \<Rightarrow> (Fail e, m, w)
         | (Panic p, w) \<Rightarrow> (Panic p, m, w))
      else
        (case k_get k name namespace w of
           (Fail e, w) \<Rightarrow> if IsNotFound e then (Ok no_result, m, w) else (Fail e, m, w)
         | (Panic p, w) \<Rightarrow> (Panic p, m, w)
         | (Ok inst, w) \<Rightarrow>
           (case seq_r (case ps_ConfigOverride (Spec inst) of None \<Rightarrow> Ok None
                          | Some raw \<Rightarrow> k_max_name_length k (ps_FabricVersion (Spec inst)) raw)
                   (\<lambda>maxNameLength. ValidationChecks inst ''IBPPeer'' maxNameLength) of
              Fail e \<Rightarrow> (Fail e, m, w)
            | Panic p \<Rightarrow> (Panic p, m, w)
            | Ok _ \<Rightarrow>
              let update = peer_GetUpdateStatus (Name inst) m;
                  (popped, m) = peer_PopUpdate (Name inst) m;
                  ((res, err), w) = offering inst popped w;
                  m = fold (\<lambda>(n, u). peer_PushUpdate n u) arrivals m
              in (case peer_SetStatus k inst (RStatus res) err w of
                    (Panic p, w) \<Rightarrow> (Panic p, m, w)
                  | (Fail e, w) \<Rightarrow> (return_err (IsBreakingError (Some e)), m, w)
                  | (Ok _, w) \<Rightarrow>
                      (case err of
                         Some e \<Rightarrow>
                           (return_err (IsBreakingError (Some (Wrapped (''Peer instance '' @ quoted (Name inst) @
                              '' encountered error'') e))), m, w)
                       | None \<Rightarrow>
                           let m = (if Requeue res then peer_PushUpdate (Name inst) update m else m)
                           in if 0 < length (slice_of m (Name inst))
                              then (Ok (no_result\<lparr>rr_Requeue := True\<rparr>), m, w)
                              else (Ok \<lparr>rr_Requeue = Requeue res, rr_RequeueAfter = RequeueAfter res\<rparr>,
                                    m, w))))))"

end
