(* ===== verification/PeerProps.thy ===== *)
theory PeerProps
  imports PeerController
begin

text \<open>Properties of the peer controller's handlers and of one round of its reconcile loop.\<close>

subsection \<open>Detected updates\<close>

lemma peer_migrations_flags:
  "p_specUpdated (peer_migrations ov nv u) = p_specUpdated u"
  "p_migrateToV2 (peer_migrations ov nv u) \<longleftrightarrow> p_migrateToV2 u \<or>
     (ov = '''' \<or> GetMajorReleaseVersion ov = V1) \<and> GetMajorReleaseVersion nv = V2"
  "p_migrateToV24 (peer_migrations ov nv u) \<longleftrightarrow> p_migrateToV24 u \<or>
     (ov = '''' \<or> GetMajorReleaseVersion ov = V1) \<and> GetMajorReleaseVersion nv = V2 \<and>
       (at_least nv V2_5_1 \<or> at_least nv V2_4_1) \<or>
     GetMajorReleaseVersion ov = V2 \<and> String_LessThan ov V2_4_1"
  "p_migrateToV25 (peer_migrations ov nv u) \<longleftrightarrow> p_migrateToV25 u \<or> at_least nv V2_5_1 \<and>
     ((ov = '''' \<or> GetMajorReleaseVersion ov = V1) \<and> GetMajorReleaseVersion nv = V2 \<or>
      GetMajorReleaseVersion ov = V2 \<and> (String_LessThan ov V2_4_1 \<or> String_LessThan ov V2_5_1))"
  by (auto simp: peer_migrations_def Let_def)

lemma peer_detect_flags:
  "p_specUpdated (peer_detect old new)"
  "p_migrateToV2 (peer_detect old new) =
     p_migrateToV2 (peer_migrations (ps_FabricVersion old) (ps_FabricVersion new) no_peer_update)"
  "p_migrateToV24 (peer_detect old new) =
     p_migrateToV24 (peer_migrations (ps_FabricVersion old) (ps_FabricVersion new) no_peer_update)"
  "p_migrateToV25 (peer_detect old new) =
     p_migrateToV25 (peer_migrations (ps_FabricVersion old) (ps_FabricVersion new) no_peer_update)"
  by (simp_all add: peer_detect_def no_peer_update_def Let_def peer_migrations_flags
      when_do_frame [of p_specUpdated] when_do_frame [of p_migrateToV2]
      when_do_frame [of p_migrateToV24] when_do_frame [of p_migrateToV25])

text \<open>Which migrations an update of a peer's Fabric version starts.  The migration to 2.5 is
  started exactly when the new version is at least 2.5.1 and the old one is unset, of the 1.x line,
  or below 2.5.1.  The migration to 2.4 is also started by any update of the specification of a
  2.x peer below 2.4.1, whatever the new version is: moving from 2.2.0 to 2.2.1 starts it, unlike
  for an orderer.\<close>

lemma peer_migrations_started:
  "(p_migrateToV25 (peer_detect old new) \<longleftrightarrow>
      \<not> String_LessThan (ps_FabricVersion new) V2_5_1 \<and>
      (ps_FabricVersion old = '''' \<and> GetMajorReleaseVersion (ps_FabricVersion new) = V2 \<or>
       GetMajorReleaseVersion (ps_FabricVersion old) = V1 \<and> GetMajorReleaseVersion (ps_FabricVersion new) = V2 \<or>
       GetMajorReleaseVersion (ps_FabricVersion old) = V2 \<and> String_LessThan (ps_FabricVersion old) V2_5_1)) \<and>
   (GetMajorReleaseVersion (ps_FabricVersion old) = V2 \<and> String_LessThan (ps_FabricVersion old) V2_4_1 \<longrightarrow>
      p_migrateToV24 (peer_detect old new)) \<and>
   p_migrateToV24 (peer_detect (old\<lparr>ps_FabricVersion := ''2.2.0''\<rparr>) (new\<lparr>ps_FabricVersion := ''2.2.1''\<rparr>))"
proof -
  have gate: "at_least s V2_5_1 \<longleftrightarrow> \<not> String_LessThan s V2_5_1" for s
    unfolding at_least_def by (rule gate_not_less) simp
  have chain: "String_LessThan s V2_4_1 \<Longrightarrow> String_LessThan s V2_5_1" for s
    by (auto simp: String_LessThan_def lessThan_less less_version_components)
  have low: "GetMajorReleaseVersion ''2.2.0'' = V2" "String_LessThan ''2.2.0'' V2_4_1" by code_simp+
  show ?thesis
    using chain low by (auto simp: peer_detect_flags peer_migrations_flags gate no_peer_update_def)
qed

definition sample_action :: peer_action where
  "sample_action = \<lparr>pa_Restart = False, pa_Reenroll_Ecert = False, pa_Reenroll_TLSCert = False,
     pa_Reenroll_EcertNewKey = False, pa_Reenroll_TLSCertNewKey = False, pa_Enroll_Ecert = False,
     pa_Enroll_TLSCert = False, pa_UpgradeDBs = False\<rparr>"

definition sample_peer :: peer_spec where
  "sample_peer = \<lparr>ps_Zone = '''', ps_Region = '''', ps_Images = None, ps_FabricVersion = ''2.2.0'',
     ps_ConfigOverride = None, ps_Secret = None, ps_Action = sample_action, ps_DisableNodeOU = None,
     ps_NumSecondsWarningPeriod = 0, ps_other = ''''\<rparr>"

lemma peer_migrations_started_witness:
  "p_migrateToV24 (peer_detect sample_peer (sample_peer\<lparr>ps_FabricVersion := ''2.2.1''\<rparr>))"
proof -
  have "GetMajorReleaseVersion (ps_FabricVersion sample_peer) = V2 \<and>
      String_LessThan (ps_FabricVersion sample_peer) V2_4_1"
    by code_simp
  with peer_migrations_started [of sample_peer "sample_peer\<lparr>ps_FabricVersion := ''2.2.1''\<rparr>"]
  show ?thesis by blast
qed


text \<open>When the operator starts again and finds a peer whose specification is the one it had
  saved, it reconciles the peer with an update in which no flag is set, provided reading back the
  saved document gives the specification that was written.\<close>

lemma peer_unchanged_after_restart:
  assumes "HasType (CRStatus peer)"
    and "k_marshal k (Spec peer) = Ok doc" and "k_unmarshal k doc = Ok (Spec peer)"
    and "k_get_spec k (Name peer @ ''-spec'') (Namespace peer) w = (Ok doc, w')"
  shows "peer_CreateFunc k (CRObject peer) (m, w) =
    (Ok True, peer_PushUpdate (Name peer) no_peer_update m, w')"
proof -
  have "peer_saved_update (Spec peer) (Spec peer) = no_peer_update"
    by (simp add: peer_saved_update_def no_peer_update_def peer_imagesUpdated_def
        peer_fabricVersionUpdated_def Let_def)
  with assms show ?thesis by (simp add: peer_GetSpecState_def)
qed

definition sample_status :: cr_status where
  "sample_status = \<lparr>Type = ''Deployed'', SStatus = ''True'', SReason = '''', Message = '''',
     LastHeartbeatTime = '''', SVersion = '''', ErrorCode = 0, Reconciled = ''''\<rparr>"

definition sample_cr :: "'s \<Rightarrow> 's cr" where
  "sample_cr s = \<lparr>TypeKind = '''', Name = ''peer1'', Namespace = ''ns'', Labels = [], Spec = s,
     CRStatus = sample_status\<rparr>"

definition sample_client :: "'s \<Rightarrow> (unit, 's) kube" where
  "sample_client s = \<lparr>k_now = (\<lambda>w. (''now'', w)), k_selector = (\<lambda>s. None),
     k_get = (\<lambda>n ns w. (Ok (sample_cr s), w)), k_patch_status = (\<lambda>i w. (Ok (), w)),
     k_marshal = (\<lambda>s. Ok ''doc''), k_unmarshal = (\<lambda>b. Ok s), k_max_name_length = (\<lambda>v s. Ok None),
     k_put_spec = (\<lambda>i s b w. (Ok (), w)), k_get_spec = (\<lambda>n s w. (Ok ''doc'', w)),
     k_list_pods = (\<lambda>sel s w. (Ok [(''pod'', ''Running'')], w)),
     k_list_names = (\<lambda>kind s w. (Ok [''peer1''], w)),
     k_list_children = (\<lambda>p s w. (Ok [], w)),
     k_own_secret = (\<lambda>n s w. (Ok (s\<lparr>sec_owners := [(''IBPPeer'', n)]\<rparr>), w)),
     k_get_secret = (\<lambda>n s w. (Ok (), w)),
     k_delete_cm = (\<lambda>n s w. (Ok (), w)), k_delete_cr = (\<lambda>n s w. (Ok (), w))\<rparr>"

lemma peer_unchanged_after_restart_witness:
  "peer_CreateFunc (sample_client sample_peer) (CRObject (sample_cr sample_peer)) ([], ()) =
     (Ok True, peer_PushUpdate ''peer1'' no_peer_update [], ())"
proof -
  have "HasType (CRStatus (sample_cr sample_peer))" by code_simp
  moreover have "k_marshal (sample_client sample_peer) (Spec (sample_cr sample_peer)) = Ok ''doc''"
    "k_unmarshal (sample_client sample_peer) ''doc'' = Ok (Spec (sample_cr sample_peer))"
    "k_get_spec (sample_client sample_peer) (Name (sample_cr sample_peer) @ ''-spec'')
       (Namespace (sample_cr sample_peer)) () = (Ok ''doc'', ())"
    by (simp_all add: sample_client_def sample_cr_def)
  ultimately have "peer_CreateFunc (sample_client sample_peer) (CRObject (sample_cr sample_peer)) ([], ()) =
      (Ok True, peer_PushUpdate (Name (sample_cr sample_peer)) no_peer_update [], ())"
    by (rule peer_unchanged_after_restart)
  then show ?thesis by (simp add: sample_cr_def)
qed

subsection \<open>One round of the reconcile loop\<close>


definition sample_result :: result where
  "sample_result = \<lparr>Requeue = True, RequeueAfter = 0, RStatus = None, OverrideUpdateStatus = False\<rparr>"


subsection \<open>Status\<close>

text \<open>The status a peer gets after a round, when no call of the API fails.  An error of the
  round is reported as an error status with the code and text of the error; a status of the
  offering that differs is reported as it is; otherwise the status is \<open>Deployed\<close> when there are
  pods and all run (a warning is left standing) and \<open>Deploying\<close> when not, and nothing is written
  when that is the status already.\<close>

lemma peer_status_reported:
  assumes "k_marshal k (Spec i) = Ok doc" and "k_put_spec k i (Name i @ ''-spec'') doc w = (Ok (), w1)"
    and "k_get k (Name i) (Namespace i) w1 = (Ok i', w2)"
    and "k_selector k (''app='' @ Name i') = None"
    and "k_list_pods k (''app='' @ Name i') (Namespace i') w2 = (Ok pods, w3)"
  shows "peer_SetStatus k i rs err w =
    (let patch = (\<lambda>f w. k_patch_status k (i'\<lparr>CRStatus := f (fst (k_now k w)) (CRStatus i')\<rparr>) (snd (k_now k w)));
         running = (pods \<noteq> [] \<and> (\<forall>(n, phase) \<in> set pods. phase = ''Running''));
         version = (\<lambda>st. st\<lparr>Reconciled := ps_FabricVersion (Spec i')\<rparr>)
     in case err of
          Some e \<Rightarrow> patch (\<lambda>now st. st\<lparr>Type := ''Error'', SStatus := ''True'',
              SReason := ''errorOccurredDuringReconcile'', Message := error_text e,
              LastHeartbeatTime := now, ErrorCode := GetErrorCode (Some e)\<rparr>) w2
        | None \<Rightarrow>
            if \<exists>s. rs = Some s \<and> status_differs (CRStatus i') s then
              patch (\<lambda>now st. (version st)\<lparr>Type := Type (the rs), SStatus := ''True'',
                SReason := SReason (the rs), Message := Message (the rs), LastHeartbeatTime := now\<rparr>) w2
            else if running then
              (if Type (CRStatus i') \<in> {''Deployed'', ''Warning''} then (Ok (), w3)
               else patch (\<lambda>now st. (version st)\<lparr>Type := ''Deployed'', SStatus := ''True'',
                 SReason := ''allPodsRunning'', LastHeartbeatTime := now\<rparr>) w3)
            else
              (if Type (CRStatus i') = ''Deploying'' then (Ok (), w3)
               else patch (\<lambda>now st. (version st)\<lparr>Type := ''Deploying'', SStatus := ''True'',
                 SReason := ''waitingForPods'', LastHeartbeatTime := now\<rparr>) w3))"
proof -
  have save: "peer_SaveSpecState k i w = (Ok (), w1)"
    by (simp add: peer_SaveSpecState_def assms(1,2))
  have pods: "peer_GetPodStatus k i' w2 =
      (Ok (pods \<noteq> [] \<and> (\<forall>(n, phase) \<in> set pods. phase = ''Running'')), w3)"
    unfolding peer_GetPodStatus_def assms(4,5) option.case bind_r_simps
    by (cases pods) (simp_all add: list_all_iff)
  show ?thesis
  proof (cases err)
    case (Some e)
    then show ?thesis
      by (simp add: peer_SetStatus_def save assms(3) error_status_def Let_def case_prod_beta)
  next
    case None
    show ?thesis
    proof (cases "\<exists>s. rs = Some s \<and> status_differs (CRStatus i') s")
      case True
      then obtain s where "rs = Some s" "status_differs (CRStatus i') s" by blast
      with None show ?thesis
        by (simp add: peer_SetStatus_def save assms(3) custom_status_def Let_def case_prod_beta)
    next
      case False
      then have eq: "peer_SetStatus k i rs None w =
          peer_set_pod_status k i' ((CRStatus i')\<lparr>Reconciled := ps_FabricVersion (Spec i')\<rparr>) w2"
        by (cases rs) (simp_all add: peer_SetStatus_def save assms(3) Let_def)
      show ?thesis
        by (simp only: None eq option.case if_not_P [OF False] peer_set_pod_status_def pods bind_r_simps
            Let_def case_prod_beta insert_iff empty_iff simp_thms)
    qed
  qed
qed

lemma peer_status_reported_witness:
  "fst (peer_SetStatus (sample_client sample_peer) (sample_cr sample_peer) None None ()) = Ok ()"
proof -
  let ?k = "sample_client sample_peer" and ?i = "sample_cr sample_peer"
  have doc: "k_marshal ?k (Spec ?i) = Ok ''doc''"
    "k_put_spec ?k ?i (Name ?i @ ''-spec'') ''doc'' () = (Ok (), ())"
    "k_get ?k (Name ?i) (Namespace ?i) () = (Ok ?i, ())"
    "k_selector ?k (''app='' @ Name ?i) = None"
    "k_list_pods ?k (''app='' @ Name ?i) (Namespace ?i) () = (Ok [(''pod'', ''Running'')], ())"
    by (simp_all add: sample_client_def)
  show ?thesis
    by (subst peer_status_reported [OF doc])
      (simp add: sample_cr_def sample_status_def)
qed

end
