(* ===== verification/OrdererUpdate.thy ===== *)
theory OrdererUpdate
  imports UpdateStack Kube RestartManager
begin

text \<open>
  Updates of an ordering node: \<open>controllers/ibporderer/predicate.go\<close> and the update stack of
  \<open>controllers/ibporderer/ibporderer_controller.go\<close>.  The getters of single flags are the selectors
  of the record \<open>orderer_update\<close>.
\<close>

record orderer_update =
  o_specUpdated :: bool
  o_statusUpdated :: bool
  o_overridesUpdated :: bool
  o_tlsCertUpdated :: bool
  o_ecertUpdated :: bool
  o_ordererTagUpdated :: bool
  o_restartNeeded :: bool
  o_ecertReenrollNeeded :: bool
  o_tlscertReenrollNeeded :: bool
  o_ecertNewKeyReenroll :: bool
  o_tlscertNewKeyReenroll :: bool
  o_deploymentUpdated :: bool
  o_mspUpdated :: bool
  o_ecertEnroll :: bool
  o_tlscertEnroll :: bool
  o_tlsCertCreated :: bool
  o_ecertCreated :: bool
  o_migrateToV2 :: bool
  o_migrateToV24 :: bool
  o_migrateToV25 :: bool
  o_nodeOUUpdated :: bool
  o_imagesUpdated :: bool
  o_fabricVersionUpdated :: bool

definition no_orderer_update :: orderer_update where
  "no_orderer_update = \<lparr>
     o_specUpdated = False, o_statusUpdated = False, o_overridesUpdated = False,
     o_tlsCertUpdated = False, o_ecertUpdated = False, o_ordererTagUpdated = False,
     o_restartNeeded = False, o_ecertReenrollNeeded = False, o_tlscertReenrollNeeded = False,
     o_ecertNewKeyReenroll = False, o_tlscertNewKeyReenroll = False, o_deploymentUpdated = False,
     o_mspUpdated = False, o_ecertEnroll = False, o_tlscertEnroll = False,
     o_tlsCertCreated = False, o_ecertCreated = False, o_migrateToV2 = False,
     o_migrateToV24 = False, o_migrateToV25 = False, o_nodeOUUpdated = False,
     o_imagesUpdated = False, o_fabricVersionUpdated = False\<rparr>"

definition orderer_Detected :: "orderer_update \<Rightarrow> bool" where
  "orderer_Detected u \<longleftrightarrow>
     o_specUpdated u \<or> o_statusUpdated u \<or> o_overridesUpdated u \<or>
     o_tlsCertUpdated u \<or> o_ecertUpdated u \<or> o_ordererTagUpdated u \<or>
     o_restartNeeded u \<or> o_ecertReenrollNeeded u \<or> o_tlscertReenrollNeeded u \<or>
     o_ecertNewKeyReenroll u \<or> o_tlscertNewKeyReenroll u \<or> o_deploymentUpdated u \<or>
     o_mspUpdated u \<or> o_ecertEnroll u \<or> o_migrateToV2 u \<or> o_migrateToV24 u \<or>
     o_migrateToV25 u \<or> o_nodeOUUpdated u \<or> o_imagesUpdated u \<or>
     o_fabricVersionUpdated u"

definition orderer_CertificateUpdated :: "orderer_update \<Rightarrow> bool" where
  "orderer_CertificateUpdated u \<longleftrightarrow> o_tlsCertUpdated u \<or> o_ecertUpdated u"

definition orderer_GetUpdatedCertType :: "orderer_update \<Rightarrow> SecretType" where
  "orderer_GetUpdatedCertType u =
     (if o_tlsCertUpdated u then TLS else if o_ecertUpdated u then ECERT else OtherSecret)"

definition orderer_CertificateCreated :: "orderer_update \<Rightarrow> bool" where
  "orderer_CertificateCreated u \<longleftrightarrow> o_tlsCertCreated u \<or> o_ecertCreated u"

definition orderer_GetCreatedCertType :: "orderer_update \<Rightarrow> SecretType" where
  "orderer_GetCreatedCertType u =
     (if o_tlsCertCreated u then TLS else if o_ecertCreated u then ECERT else OtherSecret)"

definition orderer_CryptoBackupNeeded :: "orderer_update \<Rightarrow> bool" where
  "orderer_CryptoBackupNeeded u \<longleftrightarrow>
     o_ecertEnroll u \<or> o_tlscertEnroll u \<or> o_ecertReenrollNeeded u \<or> o_ecertNewKeyReenroll u \<or>
     o_tlscertReenrollNeeded u \<or> o_tlscertNewKeyReenroll u \<or> o_mspUpdated u"

definition orderer_GetUpdateStackWithTrues :: "orderer_update \<Rightarrow> string" where
  "orderer_GetUpdateStackWithTrues u = true_labels [
      (o_specUpdated u, ''specUpdated ''), (o_statusUpdated u, ''statusUpdated ''),
      (o_overridesUpdated u, ''overridesUpdated ''), (o_tlsCertUpdated u, ''tlsCertUpdated ''),
      (o_ecertUpdated u, ''ecertUpdated ''), (o_ordererTagUpdated u, ''ordererTagUpdated ''),
      (o_restartNeeded u, ''restartNeeded ''),
      (o_ecertReenrollNeeded u, ''ecertReenrollNeeded ''),
      (o_tlscertReenrollNeeded u, ''tlscertReenrollNeeded ''),
      (o_ecertNewKeyReenroll u, ''ecertNewKeyReenroll ''),
      (o_tlscertNewKeyReenroll u, ''tlscertNewKeyReenroll ''),
      (o_deploymentUpdated u, ''deploymentUpdated ''), (o_mspUpdated u, ''mspUpdated ''),
      (o_ecertEnroll u, ''ecertEnroll ''), (o_tlscertEnroll u, ''tlscertEnroll ''),
      (o_tlsCertCreated u, ''tlsCertCreated ''), (o_ecertCreated u, ''ecertCreated ''),
      (o_migrateToV2 u, ''migrateToV2 ''), (o_migrateToV24 u, ''migrateToV24 ''),
      (o_migrateToV25 u, ''migrateToV25 ''), (o_nodeOUUpdated u, ''nodeOUUpdated ''),
      (o_imagesUpdated u, ''imagesUpdated ''),
      (o_fabricVersionUpdated u, ''fabricVersionUpdated '')]"

subsection \<open>The specification of an orderer\<close>

record orderer_images =
  OrdererTag :: string
  oi_other :: string

record orderer_action =
  oa_Restart :: bool
  oa_Reenroll_Ecert :: bool
  oa_Reenroll_TLSCert :: bool
  oa_Reenroll_EcertNewKey :: bool
  oa_Reenroll_TLSCertNewKey :: bool
  oa_Enroll_Ecert :: bool
  oa_Enroll_TLSCert :: bool

record orderer_spec =
  os_Zone :: string
  os_Region :: string
  os_NodeNumber :: "int option"
  os_Images :: "orderer_images option"
  os_FabricVersion :: string
  os_ConfigOverride :: "string option"
  os_Secret :: "secret_spec option"
  os_Action :: orderer_action
  os_DisableNodeOU :: "bool option"
  os_UseChannelLess :: "bool option"
  os_NumSecondsWarningPeriod :: int
  os_Replicas :: "int option"
  os_Resources :: "string option"
  os_Storage :: "string option"
  os_ImagePullSecrets :: "string list"
  os_other :: string

definition orderer_NodeOUDisabled :: "orderer_spec \<Rightarrow> bool" where
  "orderer_NodeOUDisabled s = (case os_DisableNodeOU s of Some b \<Rightarrow> b | None \<Rightarrow> False)"

definition IsUsingChannelLess :: "orderer_spec \<Rightarrow> bool" where
  "IsUsingChannelLess s \<longleftrightarrow> os_UseChannelLess s \<noteq> None \<and> the (os_UseChannelLess s)"

definition orderer_imagesUpdated :: "orderer_spec \<Rightarrow> orderer_spec \<Rightarrow> bool" where
  "orderer_imagesUpdated old new =
     (if os_Images new \<noteq> None then
        if os_Images old = None then True
        else os_Images old \<noteq> os_Images new
      else False)"

definition orderer_fabricVersionUpdated :: "orderer_spec \<Rightarrow> orderer_spec \<Rightarrow> bool" where
  "orderer_fabricVersionUpdated old new \<longleftrightarrow> os_FabricVersion old \<noteq> os_FabricVersion new"

definition fabricVersionUpdatedTo149plusOr221plus :: "orderer_spec \<Rightarrow> orderer_spec \<Rightarrow> bool" where
  "fabricVersionUpdatedTo149plusOr221plus old new =
     (let newVersion = os_FabricVersion new; newMajorVersion = GetMajorReleaseVersion newVersion;
          oldVersion = os_FabricVersion old; oldMajorVersion = GetMajorReleaseVersion oldVersion
      in if oldVersion \<noteq> newVersion then
           if oldVersion = Unsupported \<or>
              (oldMajorVersion = V1 \<and> String_LessThan oldVersion ''1.4.9'') then
             if newMajorVersion = V1 then
               String_Equal newVersion ''1.4.9'' \<or> String_GreaterThan newVersion ''1.4.9''
             else if newMajorVersion = V2 then
               String_Equal newVersion ''2.2.1'' \<or> String_GreaterThan newVersion ''2.2.1''
             else False
           else if oldMajorVersion = V2 \<and> String_LessThan oldVersion ''2.2.1'' then
             String_Equal newVersion ''2.2.1'' \<or> String_GreaterThan newVersion ''2.2.1''
           else False
         else False)"

text \<open>The loop over the pull secrets only runs when the lengths are equal.\<close>

definition deploymentUpdated :: "orderer_spec \<Rightarrow> orderer_spec \<Rightarrow> bool" where
  "deploymentUpdated old new =
     (if os_Images old \<noteq> os_Images new then True
      else if os_Replicas old \<noteq> os_Replicas new then True
      else if os_Resources old \<noteq> os_Resources new then True
      else if os_Storage old \<noteq> os_Storage new then True
      else if length (os_ImagePullSecrets old) \<noteq> length (os_ImagePullSecrets new) then True
      else list_ex (\<lambda>i. os_ImagePullSecrets new ! i \<noteq> os_ImagePullSecrets old ! i)
             [0..<length (os_ImagePullSecrets new)])"

subsection \<open>The update stack\<close>

type_synonym orderer_stacks = "orderer_update list gomap"

definition orderer_GetUpdateStatusAtElement :: "string \<Rightarrow> nat \<Rightarrow> orderer_stacks \<Rightarrow> orderer_update go_result" where
  "orderer_GetUpdateStatusAtElement n index m =
     (case map_of m n of
        None \<Rightarrow> Ok no_orderer_update
      | Some us \<Rightarrow>
          if 1 \<le> length us then
            if index < length us then Ok (us ! index) else Panic ''index out of range''
          else Ok no_orderer_update)"

definition orderer_GetUpdateStatus :: "string \<Rightarrow> orderer_stacks \<Rightarrow> orderer_update" where
  "orderer_GetUpdateStatus n m =
     (case orderer_GetUpdateStatusAtElement n 0 m of Ok u \<Rightarrow> u | _ \<Rightarrow> no_orderer_update)"

definition orderer_AppendUpdateIfMissing :: "orderer_update list \<Rightarrow> orderer_update \<Rightarrow> orderer_update list" where
  "orderer_AppendUpdateIfMissing updates update =
     (if list_ex (\<lambda>u. u = update) updates then updates else updates @ [update])"

definition orderer_PushUpdate :: "string \<Rightarrow> orderer_update \<Rightarrow> orderer_stacks \<Rightarrow> orderer_stacks" where
  "orderer_PushUpdate n update m = AList.update n (orderer_AppendUpdateIfMissing (slice_of m n) update) m"

definition orderer_PopUpdate :: "string \<Rightarrow> orderer_stacks \<Rightarrow> orderer_update \<times> orderer_stacks" where
  "orderer_PopUpdate n m =
     (if 1 \<le> length (slice_of m n) then
        (slice_of m n ! 0,
         if length (slice_of m n) = 1 then AList.update n [] m
         else AList.update n (drop 1 (slice_of m n)) m)
      else (no_orderer_update, m))"

interpretation orderer_stack:
  update_stack orderer_PushUpdate orderer_PopUpdate orderer_GetUpdateStatus no_orderer_update
proof
  fix n u m n'
  show "slice_of (orderer_PushUpdate n u m) n' =
      (if n' = n \<and> u \<notin> set (slice_of m n) then slice_of m n @ [u] else slice_of m n')"
    by (auto simp: orderer_PushUpdate_def orderer_AppendUpdateIfMissing_def list_ex_iff)
next
  fix m n
  show "slice_of m n = [] \<Longrightarrow> orderer_PopUpdate n m = (no_orderer_update, m)"
    by (simp add: orderer_PopUpdate_def)
next
  fix m n u us
  show "slice_of m n = u # us \<Longrightarrow> fst (orderer_PopUpdate n m) = u \<and>
      (\<forall>n'. slice_of (snd (orderer_PopUpdate n m)) n' = (if n' = n then us else slice_of m n'))"
    by (auto simp: orderer_PopUpdate_def)
next
  fix n m
  show "orderer_GetUpdateStatus n m = (case slice_of m n of [] \<Rightarrow> no_orderer_update | u # us \<Rightarrow> u)"
    by (auto simp: orderer_GetUpdateStatus_def orderer_GetUpdateStatusAtElement_def slice_of_def
        split: option.splits list.splits)
qed

text \<open>\<open>GetUpdateStack\<close> prints all stacks, in the order \<open>ks\<close> of the visit.\<close>

definition orderer_GetUpdateStack :: "string list \<Rightarrow> orderer_stacks \<Rightarrow> string" where
  "orderer_GetUpdateStack ks m = concat (map (\<lambda>k. k @ '': [ '' @
     join_with '' , '' (map (\<lambda>u. ''{ '' @ orderer_GetUpdateStackWithTrues u @ ''}'') (slice_of m k)) @ '' ] '') ks)"


text \<open>The updates detected for an orderer are handed to the reconcile loop in the order in
  which they were first detected, each once, and a second detection of a waiting update changes
  nothing.\<close>

lemma orderer_updates_in_order:
  "fst (drain orderer_PopUpdate (length (slice_of m n)) n m) = slice_of m n \<and>
   slice_of (snd (drain orderer_PopUpdate (length (slice_of m n)) n m)) n = [] \<and>
   slice_of (orderer_PushUpdate n u (orderer_PushUpdate n u m)) n = slice_of (orderer_PushUpdate n u m) n \<and>
   orderer_GetUpdateStatus n m = fst (orderer_PopUpdate n m)"
  using orderer_stack.drain_all [of m n, OF refl] orderer_stack.push_twice [of n u m n]
    orderer_stack.peek_is_pop [of n m]
  by simp

text \<open>An orderer's deployment counts as unchanged exactly when its images, replicas, resources,
  storage and pull secrets are; comparing the pull secrets element by element never reads past
  the end of the old list.\<close>

lemma deployment_updated_iff:
  "\<not> deploymentUpdated old new \<longleftrightarrow>
     os_Images old = os_Images new \<and> os_Replicas old = os_Replicas new \<and>
     os_Resources old = os_Resources new \<and> os_Storage old = os_Storage new \<and>
     os_ImagePullSecrets old = os_ImagePullSecrets new"
  by (auto simp: deploymentUpdated_def list_ex_iff intro: nth_equalityI)

end
