(* ===== verification/OrdererController.thy ===== *)
theory OrdererController
  imports OrdererUpdate RestartProps
begin

text \<open>
  The orderer controller, \<open>controllers/ibporderer/ibporderer_controller.go\<close>.  An orderer resource
  without node number is a cluster (the parent); its nodes are resources of their own, with the
  parent's name as a label.  Otherwise the structure is that of the peer controller.
\<close>

subsection \<open>Status\<close>

definition orderer_SaveSpecState ::
  "('w, orderer_spec) kube \<Rightarrow> orderer_spec cr \<Rightarrow> 'w \<Rightarrow> unit go_result \<times> 'w" where
  "orderer_SaveSpecState k i w =
     bind_r (k_marshal k (Spec i), w) (\<lambda>data w. k_put_spec k i (Name i @ ''-spec'') data w)"

definition orderer_GetSpecState ::
  "('w, orderer_spec) kube \<Rightarrow> orderer_spec cr \<Rightarrow> 'w \<Rightarrow> string go_result \<times> 'w" where
  "orderer_GetSpecState k i w = k_get_spec k (Name i @ ''-spec'') (Namespace i) w"

text \<open>A map from the pods' names to their phases.\<close>

definition orderer_GetPodStatus ::
  "('w, orderer_spec) kube \<Rightarrow> orderer_spec cr \<Rightarrow> 'w \<Rightarrow> string gomap go_result \<times> 'w" where
  "orderer_GetPodStatus k i w =
     (case k_selector k (''app='' @ Name i) of
        Some e \<Rightarrow> (Fail (Wrapped ''failed to parse label selector for app name'' e), w)
      | None \<Rightarrow>
          bind_r (k_list_pods k (''app='' @ Name i) (Namespace i) w) (\<lambda>pods w.
            (Ok (fold (\<lambda>(n, phase) m. AList.update n phase m) pods []), w)))"

definition GetGenesisSecret ::
  "('w, orderer_spec) kube \<Rightarrow> orderer_spec cr \<Rightarrow> 'w \<Rightarrow> unit go_result \<times> 'w" where
  "GetGenesisSecret k i w = k_get_secret k (Name i @ ''-genesis'') (Namespace i) w"

text \<open>Step 4 of the hierarchy: the genesis secret, and the update if the status is new.\<close>

definition orderer_final_status ::
  "('w, orderer_spec) kube \<Rightarrow> orderer_spec cr \<Rightarrow> cr_status \<Rightarrow> 'w \<Rightarrow> unit go_result \<times> 'w" where
  "orderer_final_status k i status w =
     (let (precreated, w) =
            (if IsUsingChannelLess (Spec i) then (False, w)
             else case GetGenesisSecret k i w of (Ok _, w) \<Rightarrow> (False, w) | (_, w) \<Rightarrow> (True, w));
          status = (if precreated
                    then status\<lparr>Type := Precreated, SStatus := ''True'',
                                SReason := ''waiting for genesis block'',
                                Message := ''waiting for genesis block''\<rparr>
                    else status)
      in if Type status \<noteq> '''' \<and> status_differs (CRStatus i) status then
           let (now, w) = k_now k w
           in k_patch_status k (i\<lparr>CRStatus := status\<lparr>LastHeartbeatTime := now\<rparr>\<rparr>) w
         else (Ok (), w))"

definition pods_status :: "string gomap \<Rightarrow> cr_status \<Rightarrow> cr_status" where
  "pods_status podStatus status =
     (let numberOfPodsRunning = length (filter (\<lambda>phase. phase = ''Running'') (map snd podStatus))
      in if 0 < length podStatus then
           if length podStatus = numberOfPodsRunning
           then status\<lparr>Type := Deployed, SStatus := ''True'', SReason := ''allPodsRunning'',
                       Message := ''allPodsRunning''\<rparr>
           else status\<lparr>Type := Deploying, SStatus := ''True'', SReason := ''waitingForPods'',
                       Message := ''waitingForPods''\<rparr>
         else status)"

definition orderer_SetStatus ::
  "('w, orderer_spec) kube \<Rightarrow> orderer_spec cr \<Rightarrow> result option \<Rightarrow> go_error option \<Rightarrow> 'w \<Rightarrow>
     unit go_result \<times> 'w" where
  "orderer_SetStatus k i result reconcileErr w =
     bind_r (wrap_err ''failed to save spec state'' (orderer_SaveSpecState k i w)) (\<lambda>_ w.
     bind_r (k_get k (Name i) (Namespace i) w) (\<lambda>i w.
       let status = CRStatus i in
       (case reconcileErr of
          Some e \<Rightarrow>
            let (now, w) = k_now k w
            in k_patch_status k (i\<lparr>CRStatus := error_status e now status\<rparr>) w
        | None \<Rightarrow>
            let status = status\<lparr>Reconciled := os_FabricVersion (Spec i)\<rparr> in
            if os_NodeNumber (Spec i) = None then (Ok (), w)
            else
              bind_r (orderer_GetPodStatus k i w) (\<lambda>podStatus w.
                let status = pods_status podStatus status in
                (case result of
                   None \<Rightarrow> orderer_final_status k i status w
                 | Some res \<Rightarrow>
                     (case RStatus res of
                        None \<Rightarrow>
                          if OverrideUpdateStatus res then (Ok (), w)
                          else orderer_final_status k i status w
                      | Some rs \<Rightarrow>
                          if status_differs (CRStatus i) rs then
                            let (now, w) = k_now k w;
                                status = custom_status rs now status
                            in if OverrideUpdateStatus res
                               then k_patch_status k (i\<lparr>CRStatus := status\<rparr>) w
                               else orderer_final_status k i status w
                          else (Ok (), w)))))))"

subsection \<open>Event handlers\<close>

definition orderer_AddOwnerReferenceToSecret ::
  "('w, orderer_spec) kube \<Rightarrow> secret \<Rightarrow> 'w \<Rightarrow> (bool \<times> secret) go_result \<times> 'w" where
  "orderer_AddOwnerReferenceToSecret k sec w =
     (case secret_instance (sec_name sec) of
        None \<Rightarrow> (Ok (False, sec), w)
      | Some instanceName \<Rightarrow>
          bind_r (wrap_err ''failed to get list of orderers''
                    (k_list_names k IBPORDERER (sec_namespace sec) w)) (\<lambda>orderers w.
            if list_ex (\<lambda>n. n = instanceName) orderers
            then bind_r (k_own_secret k instanceName sec w) (\<lambda>sec w. (Ok (True, sec), w))
            else (Ok (False, sec), w)))"

definition orderer_secret_owner ::
  "('w, orderer_spec) kube \<Rightarrow> secret \<Rightarrow> 'w \<Rightarrow> (secret \<times> string \<times> string) option go_result \<times> 'w" where
  "orderer_secret_owner k sec w =
     (if sec_owners sec = [] then
        (case orderer_AddOwnerReferenceToSecret k sec w of
           (Fail e, w) \<Rightarrow> (Ok None, w)
         | (Panic p, w) \<Rightarrow> (Panic p, w)
         | (Ok (isOrdererSecret, sec), w) \<Rightarrow>
             if \<not> isOrdererSecret then (Ok None, w)
             else (seq_r (first_owner sec) (\<lambda>ow. Ok (Some (sec, ow))), w))
      else (seq_r (first_owner sec) (\<lambda>ow. Ok (Some (sec, ow))), w))"

definition orderer_saved_update :: "orderer_spec \<Rightarrow> orderer_spec \<Rightarrow> orderer_update" where
  "orderer_saved_update saved spec =
     (let u = no_orderer_update;
          u = when_do (spec \<noteq> saved) (\<lambda>u. u\<lparr>o_specUpdated := True\<rparr>) u;
          u = when_do (os_ConfigOverride spec \<noteq> os_ConfigOverride saved)
                (\<lambda>u. u\<lparr>o_overridesUpdated := True\<rparr>) u;
          u = u\<lparr>o_imagesUpdated := orderer_imagesUpdated saved spec,
                o_fabricVersionUpdated := orderer_fabricVersionUpdated saved spec\<rparr>
      in when_do (fabricVersionUpdatedTo149plusOr221plus saved spec)
           (\<lambda>u. u\<lparr>o_tlsCertCreated := True\<rparr>) u)"

type_synonym 'w ostate = "orderer_stacks \<times> 'w"

text \<open>The check of the name, made for every orderer whose saved specification could be read.\<close>

definition orderer_check_name ::
  "('w, orderer_spec) kube \<Rightarrow> orderer_spec cr \<Rightarrow> 'w ostate \<Rightarrow> bool go_result \<times> 'w ostate" where
  "orderer_check_name k orderer st =
     (case st of (m, w) \<Rightarrow>
        (case ValidateCRName k (Name orderer) (Namespace orderer) IBPORDERER w of
           (Ok _, w) \<Rightarrow> (Ok True, m, w)
         | (Panic p, w) \<Rightarrow> (Panic p, m, w)
         | (Fail e, w) \<Rightarrow>
             let operror = operr_Wrap e InvalidCustomResourceCreateRequest
                   ''failed to validate custom resource name''
             in (case orderer_SetStatus k orderer None (Some operror) w of
                   (Panic p, w) \<Rightarrow> (Panic p, m, w)
                 | (_, w) \<Rightarrow> (Ok False, m, w))))"

fun orderer_CreateFunc ::
  "('w, orderer_spec) kube \<Rightarrow> orderer_spec object \<Rightarrow> 'w ostate \<Rightarrow> bool go_result \<times> 'w ostate" where
  "orderer_CreateFunc k (CRObject orderer) (m, w) =
     (if HasType (CRStatus orderer) then
        (case orderer_GetSpecState k orderer w of
           (Fail e, w) \<Rightarrow> (Ok True, m, w)
         | (Panic p, w) \<Rightarrow> (Panic p, m, w)
         | (Ok specBytes, w) \<Rightarrow>
             (case k_unmarshal k specBytes of
                Fail e \<Rightarrow> (Ok True, m, w)
              | Panic p \<Rightarrow> (Panic p, m, w)
              | Ok saved \<Rightarrow>
                  orderer_check_name k orderer
                    (orderer_PushUpdate (Name orderer) (orderer_saved_update saved (Spec orderer)) m, w)))
      else orderer_check_name k orderer (m, w))"
| "orderer_CreateFunc k (SecretObject sec) (m, w) =
     (case orderer_secret_owner k sec w of
        (Ok None, w) \<Rightarrow> (Ok False, m, w)
      | (Fail e, w) \<Rightarrow> (Fail e, m, w)
      | (Panic p, w) \<Rightarrow> (Panic p, m, w)
      | (Ok (Some (sec, okind, instanceName)), w) \<Rightarrow>
          if okind = ''IBPOrderer'' then
            if IsSecretTLSCert (sec_name sec) then
              (Ok True, orderer_PushUpdate instanceName (no_orderer_update\<lparr>o_tlsCertCreated := True\<rparr>) m, w)
            else if IsSecretEcert (sec_name sec) then
              (Ok True, orderer_PushUpdate instanceName (no_orderer_update\<lparr>o_ecertCreated := True\<rparr>) m, w)
            else (Ok False, m, w)
          else (Ok True, m, w))"
| "orderer_CreateFunc k (ConfigMapObject n) (m, w) = (Ok (n = ''orderer-restart-config''), m, w)"
| "orderer_CreateFunc k _ (m, w) = (Ok True, m, w)"

text \<open>
  The three migration checks of \<open>UpdateFunc\<close>.  From 2.4.1 on the TLS certificate carries the admin
  host name, so crossing that version asks for a re-enrollment.
\<close>

definition orderer_migrations :: "string \<Rightarrow> string \<Rightarrow> orderer_update \<Rightarrow> orderer_update" where
  "orderer_migrations oldVer newVer u =
     (let u = (if (oldVer = '''' \<or> GetMajorReleaseVersion oldVer = V1) \<and>
                  GetMajorReleaseVersion newVer = V2
               then if at_least newVer V2_5_1
                    then u\<lparr>o_migrateToV2 := True, o_migrateToV25 := True, o_tlscertReenrollNeeded := True\<rparr>
                    else if at_least newVer V2_4_1
                    then u\<lparr>o_migrateToV2 := True, o_migrateToV24 := True, o_tlscertReenrollNeeded := True\<rparr>
                    else u\<lparr>o_migrateToV2 := True\<rparr>
               else u);
          u = (if GetMajorReleaseVersion oldVer = V2 \<and> String_LessThan oldVer V2_4_1
               then if at_least newVer V2_5_1
                    then u\<lparr>o_migrateToV25 := True, o_tlscertReenrollNeeded := True\<rparr>
                    else if at_least newVer V2_4_1
                    then u\<lparr>o_migrateToV24 := True, o_tlscertReenrollNeeded := True\<rparr>
                    else u
               else u)
      in if GetMajorReleaseVersion oldVer = V2 \<and> String_LessThan oldVer V2_5_1 \<and>
            at_least newVer V2_5_1
         then u\<lparr>o_migrateToV25 := True\<rparr> else u)"

definition orderer_detect :: "orderer_spec cr \<Rightarrow> orderer_spec cr \<Rightarrow> orderer_update" where
  "orderer_detect oldOrderer newOrderer =
     (let old = Spec oldOrderer; new = Spec newOrderer;
          oldVer = os_FabricVersion old; newVer = os_FabricVersion new;
          oldAct = os_Action old; newAct = os_Action new;
          u = no_orderer_update;
          u = when_do (CRStatus oldOrderer \<noteq> CRStatus newOrderer \<and>
                       status_differs (CRStatus oldOrderer) (CRStatus newOrderer))
                (\<lambda>u. u\<lparr>o_statusUpdated := True\<rparr>) u;
          u = when_do (os_ConfigOverride old \<noteq> os_ConfigOverride new)
                (\<lambda>u. u\<lparr>o_overridesUpdated := True\<rparr>) u;
          u = when_do (old \<noteq> new) (\<lambda>u. u\<lparr>o_specUpdated := True\<rparr>) u;
          u = when_do (case (os_Images old, os_Images new) of
                 (Some a, Some b) \<Rightarrow> OrdererTag a \<noteq> OrdererTag b | _ \<Rightarrow> False)
                (\<lambda>u. u\<lparr>o_ordererTagUpdated := True\<rparr>) u;
          u = when_do (fabricVersionUpdatedTo149plusOr221plus old new)
                (\<lambda>u. u\<lparr>o_tlsCertCreated := True\<rparr>) u;
          u = u\<lparr>o_mspUpdated := fst (MSPInfoUpdateDetected (os_Secret old) (os_Secret new))\<rparr>;
          u = when_do (oa_Restart newAct) (\<lambda>u. u\<lparr>o_restartNeeded := True\<rparr>) u;
          u = when_do (oa_Reenroll_Ecert oldAct \<noteq> oa_Reenroll_Ecert newAct)
                (\<lambda>u. u\<lparr>o_ecertReenrollNeeded := oa_Reenroll_Ecert newAct\<rparr>) u;
          u = when_do (oa_Reenroll_TLSCert oldAct \<noteq> oa_Reenroll_TLSCert newAct)
                (\<lambda>u. u\<lparr>o_tlscertReenrollNeeded := oa_Reenroll_TLSCert newAct\<rparr>) u;
          u = when_do (oa_Reenroll_EcertNewKey oldAct \<noteq> oa_Reenroll_EcertNewKey newAct)
                (\<lambda>u. u\<lparr>o_ecertNewKeyReenroll := oa_Reenroll_EcertNewKey newAct\<rparr>) u;
          u = when_do (oa_Reenroll_TLSCertNewKey oldAct \<noteq> oa_Reenroll_TLSCertNewKey newAct)
                (\<lambda>u. u\<lparr>o_tlscertNewKeyReenroll := oa_Reenroll_TLSCertNewKey newAct\<rparr>) u;
          u = when_do (oa_Enroll_Ecert newAct) (\<lambda>u. u\<lparr>o_ecertEnroll := True\<rparr>) u;
          u = when_do (oa_Enroll_TLSCert newAct) (\<lambda>u. u\<lparr>o_tlscertEnroll := True\<rparr>) u;
          u = u\<lparr>o_deploymentUpdated := deploymentUpdated old new\<rparr>;
          u = orderer_migrations oldVer newVer u;
          u = when_do (orderer_NodeOUDisabled old \<noteq> orderer_NodeOUDisabled new)
                (\<lambda>u. u\<lparr>o_nodeOUUpdated := True\<rparr>) u
      in when_do (os_NumSecondsWarningPeriod old \<noteq> os_NumSecondsWarningPeriod new)
           (\<lambda>u. u\<lparr>o_ecertUpdated := True, o_tlsCertUpdated := True\<rparr>) u)"

fun orderer_UpdateFunc ::
  "('w, orderer_spec) kube \<Rightarrow> orderer_spec object \<Rightarrow> orderer_spec object \<Rightarrow> 'w ostate \<Rightarrow>
     bool go_result \<times> 'w ostate" where
  "orderer_UpdateFunc k (CRObject old) (CRObject new) (m, w) =
     (if os_NodeNumber (Spec old) = None \<and>
         (Type (CRStatus old) = Deployed \<or> Type (CRStatus old) = ErrorType \<or>
          Type (CRStatus old) = Warning) then (Ok False, m, w)
      else if CheckIfZoneOrRegionUpdated (os_Zone (Spec old)) (os_Zone (Spec new)) then (Ok False, m, w)
      else if CheckIfZoneOrRegionUpdated (os_Region (Spec old)) (os_Region (Spec new)) then (Ok False, m, w)
      else let update = orderer_detect old new
           in if orderer_Detected update
              then (Ok True, orderer_PushUpdate (Name old) update m, w)
              else (Ok False, m, w))"
| "orderer_UpdateFunc k (SecretObject old) (SecretObject new) (m, w) =
     (case orderer_secret_owner k old w of
        (Ok None, w) \<Rightarrow> (Ok False, m, w)
      | (Fail e, w) \<Rightarrow> (Fail e, m, w)
      | (Panic p, w) \<Rightarrow> (Panic p, m, w)
      | (Ok (Some (sec, okind, instanceName)), w) \<Rightarrow>
          if okind = ''IBPOrderer'' then
            if sec_data sec = sec_data new then (Ok False, m, w)
            else
              let update = no_orderer_update\<lparr>o_tlsCertUpdated := IsSecretTLSCert (sec_name sec),
                                             o_ecertUpdated := IsSecretEcert (sec_name sec)\<rparr>
              in if orderer_CertificateUpdated update
                 then (Ok True, orderer_PushUpdate instanceName update m, w)
                 else (Ok False, m, w)
          else (Ok False, m, w))"
| "orderer_UpdateFunc k (ConfigMapObject n) _ (m, w) = (Ok (n = ''orderer-restart-config''), m, w)"
| "orderer_UpdateFunc k (CRObject old) _ (m, w) = (Panic ''interface conversion'', m, w)"
| "orderer_UpdateFunc k (SecretObject old) _ (m, w) = (Panic ''interface conversion'', m, w)"
| "orderer_UpdateFunc k _ _ (m, w) = (Ok False, m, w)"

text \<open>Deleting every child; an error of one deletion is logged and the next one tried.\<close>

fun delete_children ::
  "('w, orderer_spec) kube \<Rightarrow> (string \<times> string) list \<Rightarrow> 'w \<Rightarrow> 'w" where
  "delete_children k [] w = w"
| "delete_children k ((n, ns) # cs) w = delete_children k cs (snd (k_delete_cr k n ns w))"

text \<open>
  The two cases of \<open>DeleteFunc\<close> for an orderer: a node whose siblings are all gone takes its parent
  along, a parent takes all its nodes along.  A selector that does not parse makes the first case
  return; the second only logs it, and lists with whatever selector it has, here none.
\<close>

definition delete_node ::
  "('w, orderer_spec) kube \<Rightarrow> orderer_spec cr \<Rightarrow> 'w \<Rightarrow> bool go_result \<times> 'w" where
  "delete_node k node w =
     (let (_, w) = k_delete_cm k (Name node @ ''-init-config'') (Namespace node) w;
          parentName = (case map_of (Labels node) ''parent'' of None \<Rightarrow> '''' | Some p \<Rightarrow> p)
      in case k_selector k (''parent='' @ parentName) of
           Some e \<Rightarrow> (Ok False, w)
         | None \<Rightarrow>
             (case k_list_children k (''parent='' @ parentName) (Namespace node) w of
                (Fail e, w) \<Rightarrow> (Ok False, w)
              | (Panic p, w) \<Rightarrow> (Panic p, w)
              | (Ok items, w) \<Rightarrow>
                  if length items = 0
                  then (Ok False, snd (k_delete_cr k parentName (Namespace node) w))
                  else (Ok False, w)))"

definition delete_parent ::
  "('w, orderer_spec) kube \<Rightarrow> orderer_spec cr \<Rightarrow> 'w \<Rightarrow> bool go_result \<times> 'w" where
  "delete_parent k parent w =
     (let sel = (case k_selector k (''parent='' @ Name parent) of
                   Some e \<Rightarrow> '''' | None \<Rightarrow> ''parent='' @ Name parent)
      in case k_list_children k sel (Namespace parent) w of
           (Fail e, w) \<Rightarrow> (Ok False, w)
         | (Panic p, w) \<Rightarrow> (Panic p, w)
         | (Ok items, w) \<Rightarrow> (Ok False, delete_children k items w))"

fun orderer_DeleteFunc ::
  "('w, orderer_spec) kube \<Rightarrow> orderer_spec object \<Rightarrow> 'w \<Rightarrow> bool go_result \<times> 'w" where
  "orderer_DeleteFunc k (CRObject orderer) w =
     (if os_NodeNumber (Spec orderer) \<noteq> None then delete_node k orderer w
      else delete_parent k orderer w)"
| "orderer_DeleteFunc k _ w = (Ok True, w)"

subsection \<open>Reconcile\<close>

definition orderer_ReconcileRestart ::
  "'w env \<Rightarrow> visit \<Rightarrow> int \<Rightarrow> string \<Rightarrow> 'w \<Rightarrow> bool go_result \<times> 'w" where
  "orderer_ReconcileRestart env v timeout namespace w = Reconcile env v timeout ''orderer'' namespace w"

definition orderer_Reconcile ::
  "('w, orderer_spec) kube \<Rightarrow> 'w env \<Rightarrow> visit \<Rightarrow> int \<Rightarrow>
   (orderer_spec cr \<Rightarrow> orderer_update \<Rightarrow> 'w \<Rightarrow> (result \<times> go_error option) \<times> 'w) \<Rightarrow>
   (string \<times> orderer_update) list \<Rightarrow> string \<Rightarrow> string \<Rightarrow> 'w ostate \<Rightarrow>
   reconcile_result go_result \<times> 'w ostate" where
  "orderer_Reconcile k env v timeout offering arrivals name namespace st =
     (case st of (m, w) \<Rightarrow>
      if name = ''orderer-restart-config'' then
        (case orderer_ReconcileRestart env v timeout namespace w of
           (Ok requeue, w) \<Rightarrow> (Ok (no_result\<lparr>rr_Requeue := requeue\<rparr>), m, w)
         | (Fail e, w) \<Rightarrow> (Fail e, m, w)
         | (Panic p, w) \<Rightarrow> (Panic p, m, w))
      else
        (case k_get k name namespace w of
           (Fail e, w) \<Rightarrow>
             if IsNotFound e then (Ok no_result, m, w)
             else (return_err (IsBreakingError (Some e)), m, w)
         | (Panic p, w) \<Rightarrow> (Panic p, m, w)
         | (Ok inst, w) \<Rightarrow>
           (case seq_r (case os_ConfigOverride (Spec inst) of None \<Rightarrow> Ok None
                          | Some raw \<Rightarrow> k_max_name_length k (os_FabricVersion (Spec inst)) raw)
                   (\<lambda>maxNameLength. ValidationChecks inst ''IBPOrderer'' maxNameLength) of
              Fail e \<Rightarrow> (Fail e, m, w)
            | Panic p \<Rightarrow> (Panic p, m, w)
            | Ok _ \<Rightarrow>
              if os_NodeNumber (Spec inst) = None \<and> SVersion (CRStatus inst) \<noteq> '''' \<and>
                 (Type (CRStatus inst) = Deployed \<or> Type (CRStatus inst) = Warning)
              then (Ok no_result, m, w)
              else
              let update = orderer_GetUpdateStatus (Name inst) m;
                  (popped, m) = orderer_PopUpdate (Name inst) m;
                  ((res, err), w) = offering inst popped w;
                  m = fold (\<lambda>(n, u). orderer_PushUpdate n u) arrivals m
              in (case orderer_SetStatus k inst (Some res) err w of
                    (Panic p, w) \<Rightarrow> (Panic p, m, w)
                  | (Fail e, w) \<Rightarrow> (return_err (IsBreakingError (Some e)), m, w)
                  | (Ok _, w) \<Rightarrow>
                      (case err of
                         Some e \<Rightarrow>
                           (return_err (IsBreakingError (Some (Wrapped (''Orderer instance '' @ quoted (Name inst) @
                              '' encountered error'') e))), m, w)
                       | None \<Rightarrow>
                           let m = (if Requeue res then orderer_PushUpdate (Name inst) update m else m)
                           in if 0 < length (slice_of m (Name inst))
                              then (Ok (no_result\<lparr>rr_Requeue := True\<rparr>), m, w)
                              else (Ok \<lparr>rr_Requeue = Requeue res, rr_RequeueAfter = RequeueAfter res\<rparr>,
                                    m, w))))))"

end
