(* ===== verification/OrdererProps.thy ===== *)
theory OrdererProps
  imports OrdererController PeerProps
begin

text \<open>Properties of the orderer controller's handlers, of its status and of its deletions.\<close>

subsection \<open>Migrations\<close>

lemma orderer_migrations_flags:
  "o_migrateToV2 (orderer_migrations ov nv u) \<longleftrightarrow> o_migrateToV2 u \<or>
     (ov = '''' \<or> GetMajorReleaseVersion ov = V1) \<and> GetMajorReleaseVersion nv = V2"
  "o_migrateToV24 (orderer_migrations ov nv u) \<longleftrightarrow> o_migrateToV24 u \<or>
     at_least nv V2_4_1 \<and> \<not> at_least nv V2_5_1 \<and>
     ((ov = '''' \<or> GetMajorReleaseVersion ov = V1) \<and> GetMajorReleaseVersion nv = V2 \<or>
      GetMajorReleaseVersion ov = V2 \<and> String_LessThan ov V2_4_1)"
  "o_migrateToV25 (orderer_migrations ov nv u) \<longleftrightarrow> o_migrateToV25 u \<or> at_least nv V2_5_1 \<and>
     ((ov = '''' \<or> GetMajorReleaseVersion ov = V1) \<and> GetMajorReleaseVersion nv = V2 \<or>
      GetMajorReleaseVersion ov = V2 \<and> (String_LessThan ov V2_4_1 \<or> String_LessThan ov V2_5_1))"
  "o_tlscertReenrollNeeded (orderer_migrations ov nv u) \<longleftrightarrow> o_tlscertReenrollNeeded u \<or>
     (at_least nv V2_5_1 \<or> at_least nv V2_4_1) \<and>
     ((ov = '''' \<or> GetMajorReleaseVersion ov = V1) \<and> GetMajorReleaseVersion nv = V2 \<or>
      GetMajorReleaseVersion ov = V2 \<and> String_LessThan ov V2_4_1)"
  by (auto simp: orderer_migrations_def Let_def)

lemma orderer_detect_flags:
  "o_migrateToV24 (orderer_detect old new) =
     o_migrateToV24 (orderer_migrations (os_FabricVersion (Spec old)) (os_FabricVersion (Spec new))
       no_orderer_update)"
  "o_migrateToV25 (orderer_detect old new) =
     o_migrateToV25 (orderer_migrations (os_FabricVersion (Spec old)) (os_FabricVersion (Spec new))
       no_orderer_update)"
  by (simp_all add: orderer_detect_def no_orderer_update_def Let_def orderer_migrations_flags
      when_do_frame [of o_migrateToV24] when_do_frame [of o_migrateToV25])


definition sample_orderer :: orderer_spec where
  "sample_orderer = \<lparr>os_Zone = '''', os_Region = '''', os_NodeNumber = Some 1, os_Images = None,
     os_FabricVersion = ''2.2.0'', os_ConfigOverride = None, os_Secret = None,
     os_Action = \<lparr>oa_Restart = False, oa_Reenroll_Ecert = False, oa_Reenroll_TLSCert = False,
       oa_Reenroll_EcertNewKey = False, oa_Reenroll_TLSCertNewKey = False, oa_Enroll_Ecert = False,
       oa_Enroll_TLSCert = False\<rparr>,
     os_DisableNodeOU = None, os_UseChannelLess = None, os_NumSecondsWarningPeriod = 0,
     os_Replicas = None, os_Resources = None, os_Storage = None, os_ImagePullSecrets = [],
     os_other = ''''\<rparr>"



subsection \<open>Status\<close>

lemma update_absent: "k \<notin> set (keys m) \<Longrightarrow> AList.update k v m = m @ [(k, v)]"
  by (induction m) auto

lemma fold_update_distinct_keys:
  "distinct (keys (m @ kvs)) \<Longrightarrow> fold (\<lambda>(k, v) m. AList.update k v m) kvs m = m @ kvs"
proof (induction kvs arbitrary: m)
  case (Cons kv kvs)
  then have "fst kv \<notin> set (keys m)" by auto
  with Cons show ?case by (cases kv) (simp add: update_absent)
qed simp

lemma length_filter_all: "length xs = length (filter P xs) \<longleftrightarrow> list_all P xs"
proof (induction xs)
  case (Cons x xs)
  show ?case
  proof (cases "P x")
    case False
    then have "length (filter P (x # xs)) < length (x # xs)"
      using length_filter_le [of P xs] by (simp add: le_imp_less_Suc)
    then have "length (x # xs) \<noteq> length (filter P (x # xs))" by linarith
    with False show ?thesis by simp
  qed (simp add: Cons)
qed simp

lemma orderer_final_status_genesis:
  assumes "GetGenesisSecret k i w = (genesis, w')" and "\<not> IsUsingChannelLess (Spec i)"
  shows "orderer_final_status k i status w =
    (let s = (if genesis = Ok () then status
              else status\<lparr>Type := ''Precreated'', SStatus := ''True'',
                SReason := ''waiting for genesis block'', Message := ''waiting for genesis block''\<rparr>)
     in if Type s \<noteq> '''' \<and> status_differs (CRStatus i) s
        then k_patch_status k (i\<lparr>CRStatus := s\<lparr>LastHeartbeatTime := fst (k_now k w')\<rparr>\<rparr>) (snd (k_now k w'))
        else (Ok (), w'))"
  unfolding orderer_final_status_def assms(1) if_not_P [OF assms(2)]
  by (cases genesis) (simp_all add: Let_def case_prod_beta)

text \<open>The status of an ordering node, when the API answers and the offering asks for no status
  of its own.  A node without its genesis block is \<open>Precreated\<close> however its pods are, unless it
  runs without a system channel; otherwise it is \<open>Deployed\<close> when all its pods run, \<open>Deploying\<close> when
  some do not, and keeps its status when there are none.  The resource is written only when the
  type, reason or message changes.\<close>

lemma orderer_node_status:
  assumes "k_marshal k (Spec i) = Ok doc" and "k_put_spec k i (Name i @ ''-spec'') doc w = (Ok (), w1)"
    and "k_get k (Name i) (Namespace i) w1 = (Ok i', w2)" and "os_NodeNumber (Spec i') = Some n"
    and "k_selector k (''app='' @ Name i') = None"
    and "k_list_pods k (''app='' @ Name i') (Namespace i') w2 = (Ok pods, w3)" and "distinct (keys pods)"
    and "k_get_secret k (Name i' @ ''-genesis'') (Namespace i') w3 = (genesis, w4)"
    and "\<not> IsUsingChannelLess (Spec i')"
    and "case result of None \<Rightarrow> True | Some res \<Rightarrow> RStatus res = None \<and> \<not> OverrideUpdateStatus res"
  shows "orderer_SetStatus k i result None w =
    (let st = CRStatus i';
         want = (if genesis \<noteq> Ok () then (''Precreated'', ''waiting for genesis block'', ''waiting for genesis block'')
                 else if pods = [] then (Type st, SReason st, Message st)
                 else if \<forall>(n, phase) \<in> set pods. phase = ''Running''
                 then (''Deployed'', ''allPodsRunning'', ''allPodsRunning'')
                 else (''Deploying'', ''waitingForPods'', ''waitingForPods''));
         (now, w5) = k_now k w4
     in if (Type st, SReason st, Message st) = want then (Ok (), w4)
        else k_patch_status k (i'\<lparr>CRStatus := st\<lparr>Reconciled := os_FabricVersion (Spec i'),
               Type := fst want, SStatus := ''True'', SReason := fst (snd want),
               Message := snd (snd want), LastHeartbeatTime := now\<rparr>\<rparr>) w5)"
proof -
  let ?st = "(CRStatus i')\<lparr>Reconciled := os_FabricVersion (Spec i')\<rparr>"
  have save: "orderer_SaveSpecState k i w = (Ok (), w1)"
    by (simp add: orderer_SaveSpecState_def assms(1,2))
  have listed: "orderer_GetPodStatus k i' w2 = (Ok pods, w3)"
    unfolding orderer_GetPodStatus_def assms(5,6) option.case bind_r_simps
    using fold_update_distinct_keys [of "[]" pods] assms(7) by simp
  have final: "orderer_SetStatus k i result None w = orderer_final_status k i' (pods_status pods ?st) w3"
    using assms(10)
    by (cases result) (simp_all add: orderer_SetStatus_def save assms(3,4) listed Let_def)
  have running: "length pods = length (filter (\<lambda>p. p = ''Running'') (map snd pods)) \<longleftrightarrow>
      (\<forall>(n, phase) \<in> set pods. phase = ''Running'')"
    using length_filter_all [of "map snd pods" "\<lambda>p. p = ''Running''"] by (auto simp: list_all_iff)
  have pods: "pods_status pods ?st = (if pods = [] then ?st
      else if \<forall>(n, phase) \<in> set pods. phase = ''Running''
      then ?st\<lparr>Type := ''Deployed'', SStatus := ''True'', SReason := ''allPodsRunning'', Message := ''allPodsRunning''\<rparr>
      else ?st\<lparr>Type := ''Deploying'', SStatus := ''True'', SReason := ''waitingForPods'', Message := ''waitingForPods''\<rparr>)"
    unfolding pods_status_def Let_def running by simp
  have genesis: "GetGenesisSecret k i' w3 = (genesis, w4)"
    by (simp add: GetGenesisSecret_def assms(8))
  show ?thesis
    unfolding final pods orderer_final_status_genesis [OF genesis assms(9)] Let_def case_prod_beta
    by (cases "genesis = Ok ()"; cases "pods = []"; cases "\<forall>p \<in> set pods. snd p = ''Running''")
      (simp_all only: status_differs_def Let_def if_True if_False simp_thms cr_status.simps fst_conv snd_conv prod.inject, simp_all)
qed


lemma orderer_node_status_witness:
  "orderer_SetStatus (sample_client sample_orderer) (sample_cr sample_orderer) None None () = (Ok (), ())"
proof -
  let ?k = "sample_client sample_orderer" and ?i = "sample_cr sample_orderer"
  have asms: "k_marshal ?k (Spec ?i) = Ok ''doc''"
    "k_put_spec ?k ?i (Name ?i @ ''-spec'') ''doc'' () = (Ok (), ())"
    "k_get ?k (Name ?i) (Namespace ?i) () = (Ok ?i, ())" "os_NodeNumber (Spec ?i) = Some 1"
    "k_selector ?k (''app='' @ Name ?i) = None"
    "k_list_pods ?k (''app='' @ Name ?i) (Namespace ?i) () = (Ok [(''pod'', ''Running'')], ())"
    "distinct (keys [(''pod'', ''Running'')])"
    "k_get_secret ?k (Name ?i @ ''-genesis'') (Namespace ?i) () = (Ok (), ())"
    "\<not> IsUsingChannelLess (Spec ?i)"
    "case (None :: result option) of None \<Rightarrow> True | Some res \<Rightarrow> RStatus res = None \<and> \<not> OverrideUpdateStatus res"
    by (simp_all add: sample_client_def sample_cr_def sample_orderer_def IsUsingChannelLess_def)
  show ?thesis
    by (subst orderer_node_status [OF asms])
      (simp add: sample_client_def sample_cr_def sample_status_def Let_def)
qed

subsection \<open>Deletion\<close>

lemma delete_children_log:
  assumes "\<And>n s w. deleted (snd (k_delete_cr k n s w)) = deleted w @ [(n, s)]"
  shows "deleted (delete_children k items w) = deleted w @ items"
  by (induction items arbitrary: w) (auto simp: assms)

text \<open>C39: the deletion of an ordering service cascades both ways.  Deleting the parent resource
  deletes each of its nodes, one after the other whatever single deletions answer; deleting a node
  deletes the parent exactly when no node is left, and nothing else.  The event never triggers a
  reconciliation.\<close>

theorem orderer_deletion_cascade:
  assumes "\<And>n s w. deleted (snd (k_delete_cr k n s w)) = deleted w @ [(n, s)]"
    and "\<And>n s w. deleted (snd (k_delete_cm k n s w)) = deleted w"
    and "\<And>w. k_list_children k (''parent='' @ parent) (Namespace orderer) w = (Ok children, w)"
    and "k_selector k (''parent='' @ parent) = None"
    and "if os_NodeNumber (Spec orderer) = None then Name orderer = parent
         else map_of (Labels orderer) ''parent'' = Some parent"
  shows "fst (orderer_DeleteFunc k (CRObject orderer) w) = Ok False \<and>
    deleted (snd (orderer_DeleteFunc k (CRObject orderer) w)) = deleted w @
      (if os_NodeNumber (Spec orderer) = None then children
       else if children = [] then [(parent, Namespace orderer)] else [])"
proof (cases "os_NodeNumber (Spec orderer)")
  case None
  with assms(5) have "Name orderer = parent" by simp
  with None assms(3,4) show ?thesis
    by (simp add: delete_parent_def Let_def delete_children_log [of deleted, OF assms(1)])
next
  case (Some n)
  with assms(5) have "map_of (Labels orderer) ''parent'' = Some parent" by simp
  with Some assms(2,3,4) show ?thesis
    by (simp add: delete_node_def Let_def case_prod_beta assms(1))
qed

definition sample_deletions :: "((string \<times> string) list, orderer_spec) kube" where
  "sample_deletions = \<lparr>k_now = (\<lambda>w. (''now'', w)), k_selector = (\<lambda>s. None),
     k_get = (\<lambda>n ns w. (Ok (sample_cr sample_orderer), w)), k_patch_status = (\<lambda>i w. (Ok (), w)),
     k_marshal = (\<lambda>s. Ok ''doc''), k_unmarshal = (\<lambda>b. Ok sample_orderer),
     k_max_name_length = (\<lambda>v s. Ok None),
     k_put_spec = (\<lambda>i s b w. (Ok (), w)), k_get_spec = (\<lambda>n s w. (Ok ''doc'', w)),
     k_list_pods = (\<lambda>sel s w. (Ok [], w)), k_list_names = (\<lambda>kind s w. (Ok [], w)),
     k_list_children = (\<lambda>p s w. (Ok [(''os1node1'', s), (''os1node2'', s)], w)),
     k_own_secret = (\<lambda>n s w. (Ok s, w)), k_get_secret = (\<lambda>n s w. (Ok (), w)),
     k_delete_cm = (\<lambda>n s w. (Ok (), w)),
     k_delete_cr = (\<lambda>n s w. (if n = ''os1node1'' then Fail (NotFound n) else Ok (), w @ [(n, s)]))\<rparr>"

theorem orderer_deletion_cascade_witness:
  "snd (orderer_DeleteFunc sample_deletions
     (CRObject (sample_cr (sample_orderer\<lparr>os_NodeNumber := None\<rparr>))) []) =
   [(''os1node1'', ''ns''), (''os1node2'', ''ns'')]"
proof -
  let ?o = "sample_cr (sample_orderer\<lparr>os_NodeNumber := None\<rparr>)"
  let ?cs = "[(''os1node1'', ''ns''), (''os1node2'', ''ns'')]"
  have "id (snd (k_delete_cr sample_deletions n s w)) = id w @ [(n, s)]"
    "id (snd (k_delete_cm sample_deletions n s w)) = id w"
    "k_list_children sample_deletions (''parent='' @ ''peer1'') (Namespace ?o) w = (Ok ?cs, w)" for n s w
    by (simp_all add: sample_deletions_def sample_cr_def)
  note run = orderer_deletion_cascade [of id sample_deletions "''peer1''" ?o ?cs "[]", OF this]
  show ?thesis
    using run by (simp add: sample_deletions_def sample_cr_def)
qed

end
