(* ===== verification/CAUpdate.thy ===== *)
theory CAUpdate
  imports UpdateStack Kube RestartManager
begin

text \<open>
  Updates of a certificate authority: \<open>controllers/ibpca/predicate.go\<close> and the update stack of
  \<open>controllers/ibpca/ibpca_controller.go\<close>.  The getters of single flags are the selectors of the
  record \<open>ca_update\<close>.
\<close>

record ca_update =
  c_specUpdated :: bool
  c_caOverridesUpdated :: bool
  c_tlscaOverridesUpdated :: bool
  c_restartNeeded :: bool
  c_caCryptoUpdated :: bool
  c_caCryptoCreated :: bool
  c_renewTLSCert :: bool
  c_imagesUpdated :: bool
  c_fabricVersionUpdated :: bool
  c_caTagUpdated :: bool

definition no_ca_update :: ca_update where
  "no_ca_update = \<lparr>c_specUpdated = False, c_caOverridesUpdated = False,
     c_tlscaOverridesUpdated = False, c_restartNeeded = False, c_caCryptoUpdated = False,
     c_caCryptoCreated = False, c_renewTLSCert = False, c_imagesUpdated = False,
     c_fabricVersionUpdated = False, c_caTagUpdated = False\<rparr>"

definition ca_ConfigOverridesUpdated :: "ca_update \<Rightarrow> bool" where
  "ca_ConfigOverridesUpdated u \<longleftrightarrow> c_caOverridesUpdated u \<or> c_tlscaOverridesUpdated u"

definition ca_GetUpdateStackWithTrues :: "ca_update \<Rightarrow> string" where
  "ca_GetUpdateStackWithTrues u = true_labels [
      (c_specUpdated u, ''specUpdated ''), (c_caOverridesUpdated u, ''caOverridesUpdated ''),
      (c_tlscaOverridesUpdated u, ''tlscaOverridesUpdated ''),
      (c_restartNeeded u, ''restartNeeded ''), (c_caCryptoUpdated u, ''caCryptoUpdated ''),
      (c_caCryptoCreated u, ''caCryptoCreated ''), (c_renewTLSCert u, ''renewTLSCert ''),
      (c_imagesUpdated u, ''imagesUpdated ''),
      (c_fabricVersionUpdated u, ''fabricVersionUpdated ''), (c_caTagUpdated u, ''caTagUpdated '')]"

subsection \<open>The specification of a CA\<close>

record ca_images =
  CATag :: string
  ci_other :: string

record ca_override =
  CA_override :: "string option"
  TLSCA_override :: "string option"
  MaxNameLength :: "int option"

record ca_spec =
  cs_Zone :: string
  cs_Region :: string
  cs_Images :: "ca_images option"
  cs_FabricVersion :: string
  cs_ConfigOverride :: "ca_override option"
  cs_Restart :: bool
  cs_Renew_TLSCert :: bool
  cs_other :: string

definition ca_imagesUpdated :: "ca_spec \<Rightarrow> ca_spec \<Rightarrow> bool" where
  "ca_imagesUpdated old new =
     (if cs_Images new \<noteq> None then
        if cs_Images old = None then True
        else cs_Images old \<noteq> cs_Images new
      else False)"

definition ca_fabricVersionUpdated :: "ca_spec \<Rightarrow> ca_spec \<Rightarrow> bool" where
  "ca_fabricVersionUpdated old new \<longleftrightarrow> cs_FabricVersion old \<noteq> cs_FabricVersion new"

subsection \<open>The update stack\<close>

type_synonym ca_stacks = "ca_update list gomap"

definition ca_GetUpdateStatusAtElement :: "string \<Rightarrow> nat \<Rightarrow> ca_stacks \<Rightarrow> ca_update go_result" where
  "ca_GetUpdateStatusAtElement n index m =
     (case map_of m n of
        None \<Rightarrow> Ok no_ca_update
      | Some us \<Rightarrow>
          if 1 \<le> length us then
            if index < length us then Ok (us ! index) else Panic ''index out of range''
          else Ok no_ca_update)"

definition ca_GetUpdateStatus :: "string \<Rightarrow> ca_stacks \<Rightarrow> ca_update" where
  "ca_GetUpdateStatus n m =
     (case ca_GetUpdateStatusAtElement n 0 m of Ok u \<Rightarrow> u | _ \<Rightarrow> no_ca_update)"

definition ca_AppendUpdateIfMissing :: "ca_update list \<Rightarrow> ca_update \<Rightarrow> ca_update list" where
  "ca_AppendUpdateIfMissing updates update =
     (if list_ex (\<lambda>u. u = update) updates then updates else updates @ [update])"

definition ca_PushUpdate :: "string \<Rightarrow> ca_update \<Rightarrow> ca_stacks \<Rightarrow> ca_stacks" where
  "ca_PushUpdate n update m = AList.update n (ca_AppendUpdateIfMissing (slice_of m n) update) m"

definition ca_PopUpdate :: "string \<Rightarrow> ca_stacks \<Rightarrow> ca_update \<times> ca_stacks" where
  "ca_PopUpdate n m =
     (if 1 \<le> length (slice_of m n) then
        (slice_of m n ! 0,
         if length (slice_of m n) = 1 then AList.update n [] m
         else AList.update n (drop 1 (slice_of m n)) m)
      else (no_ca_update, m))"

interpretation ca_stack:
  update_stack ca_PushUpdate ca_PopUpdate ca_GetUpdateStatus no_ca_update
proof
  fix n u m n'
  show "slice_of (ca_PushUpdate n u m) n' =
      (if n' = n \<and> u \<notin> set (slice_of m n) then slice_of m n @ [u] else slice_of m n')"
    by (auto simp: ca_PushUpdate_def ca_AppendUpdateIfMissing_def list_ex_iff)
next
  fix m n
  show "slice_of m n = [] \<Longrightarrow> ca_PopUpdate n m = (no_ca_update, m)"
    by (simp add: ca_PopUpdate_def)
next
  fix m n u us
  show "slice_of m n = u # us \<Longrightarrow> fst (ca_PopUpdate n m) = u \<and>
      (\<forall>n'. slice_of (snd (ca_PopUpdate n m)) n' = (if n' = n then us else slice_of m n'))"
    by (auto simp: ca_PopUpdate_def)
next
  fix n m
  show "ca_GetUpdateStatus n m = (case slice_of m n of [] \<Rightarrow> no_ca_update | u # us \<Rightarrow> u)"
    by (auto simp: ca_GetUpdateStatus_def ca_GetUpdateStatusAtElement_def slice_of_def
        split: option.splits list.splits)
qed

text \<open>\<open>GetUpdateStack\<close> prints all stacks, in the order \<open>ks\<close> of the visit.\<close>

definition ca_GetUpdateStack :: "string list \<Rightarrow> ca_stacks \<Rightarrow> string" where
  "ca_GetUpdateStack ks m = concat (map (\<lambda>k. k @ '': [ '' @
     join_with '' , '' (map (\<lambda>u. ''{ '' @ ca_GetUpdateStackWithTrues u @ ''}'') (slice_of m k)) @ '' ] '') ks)"

text \<open>The updates detected for a CA are handed to the reconcile loop in the order in which
  they were first detected, each once, without touching those of another CA.\<close>

lemma ca_updates_in_order:
  "fst (drain ca_PopUpdate (length (slice_of m n)) n m) = slice_of m n \<and>
   slice_of (snd (drain ca_PopUpdate (length (slice_of m n)) n m)) n' =
     (if n' = n then [] else slice_of m n') \<and>
   slice_of (ca_PushUpdate n u (ca_PushUpdate n u m)) n' = slice_of (ca_PushUpdate n u m) n' \<and>
   ca_GetUpdateStatus n m = fst (ca_PopUpdate n m)"
  using ca_stack.drain_all [of m n, OF refl] ca_stack.push_twice [of n u m n']
    ca_stack.peek_is_pop [of n m]
  by simp

end
