(* ===== verification/CAController.thy ===== *)
theory CAController
  imports CAUpdate RestartProps
begin

text \<open>
  The CA controller, \<open>controllers/ibpca/ibpca_controller.go\<close>.  The structure is that of the peer
  controller; there is no deletion handler and no check of the name's length.
\<close>

subsection \<open>Status\<close>

definition ca_SaveSpecState :: "('w, ca_spec) kube \<Rightarrow> ca_spec cr \<Rightarrow> 'w \<Rightarrow> unit go_result \<times> 'w" where
  "ca_SaveSpecState k i w =
     bind_r (k_marshal k (Spec i), w) (\<lambda>data w. k_put_spec k i (Name i @ ''-spec'') data w)"

definition ca_GetSpecState :: "('w, ca_spec) kube \<Rightarrow> ca_spec cr \<Rightarrow> 'w \<Rightarrow> string go_result \<times> 'w" where
  "ca_GetSpecState k i w = k_get_spec k (Name i @ ''-spec'') (Namespace i) w"

definition PodsRunning :: "('w, ca_spec) kube \<Rightarrow> ca_spec cr \<Rightarrow> 'w \<Rightarrow> bool go_result \<times> 'w" where
  "PodsRunning k i w =
     (case k_selector k (''app='' @ Name i) of
        Some e \<Rightarrow> (Fail (Wrapped ''failed to parse label selector for app name'' e), w)
      | None \<Rightarrow>
          bind_r (k_list_pods k (''app='' @ Name i) (Namespace i) w) (\<lambda>pods w.
            if length pods = 0 then (Ok False, w)
            else (Ok (list_all (\<lambda>(n, phase). phase = ''Running'') pods), w)))"

definition ca_set_pod_status ::
  "('w, ca_spec) kube \<Rightarrow> ca_spec cr \<Rightarrow> cr_status \<Rightarrow> 'w \<Rightarrow> unit go_result \<times> 'w" where
  "ca_set_pod_status k i status w =
     bind_r (PodsRunning k i w) (\<lambda>running w.
       if running then
         if Type (CRStatus i) = Deployed then (Ok (), w)
         else
           let status = status\<lparr>Type := Deployed, SStatus := ''True'', SReason := ''allPodsRunning'',
                               Message := ''All pods running''\<rparr>;
               (now, w) = k_now k w
           in k_patch_status k (i\<lparr>CRStatus := status\<lparr>LastHeartbeatTime := now\<rparr>\<rparr>) w
       else
         if Type (CRStatus i) = Deploying then (Ok (), w)
         else
           let status = status\<lparr>Type := Deploying, SStatus := ''True'', SReason := ''waitingForPods'',
                               Message := ''Waiting for pods''\<rparr>;
               (now, w) = k_now k w
           in k_patch_status k (i\<lparr>CRStatus := status\<lparr>LastHeartbeatTime := now\<rparr>\<rparr>) w)"

definition ca_SetStatus ::
  "('w, ca_spec) kube \<Rightarrow> ca_spec cr \<Rightarrow> cr_status option \<Rightarrow> go_error option \<Rightarrow> 'w \<Rightarrow> unit go_result \<times> 'w"
  where
  "ca_SetStatus k i reconcileStatus reconcileErr w =
     bind_r (wrap_err ''failed to save spec state'' (ca_SaveSpecState k i w)) (\<lambda>_ w.
     bind_r (k_get k (Name i) (Namespace i) w) (\<lambda>i w.
       let status = CRStatus i in
       (case reconcileErr of
          Some e \<Rightarrow>
            let (now, w) = k_now k w
            in k_patch_status k (i\<lparr>CRStatus := error_status e now status\<rparr>) w
        | None \<Rightarrow>
            let status = status\<lparr>Reconciled := cs_FabricVersion (Spec i)\<rparr> in
            (case reconcileStatus of
               Some rs \<Rightarrow>
                 if status_differs (CRStatus i) rs then
                   let (now, w) = k_now k w
                   in k_patch_status k (i\<lparr>CRStatus := custom_status rs now status\<rparr>) w
                 else ca_set_pod_status k i status w
             | None \<Rightarrow> ca_set_pod_status k i status w))))"

subsection \<open>Event handlers\<close>

text \<open>
  The name of the CA a secret belongs to, from the secret's name; \<open>None\<close> when it is no CA secret.  A
  name that contains one of the texts has at least as many items as are cut off.
\<close>

definition ca_secret_instance :: "string \<Rightarrow> string option" where
  "ca_secret_instance secretName =
     (let items = split_on CHR ''-'' secretName
      in if str_contains secretName ''-ca-crypto'' \<or> str_contains secretName ''-tlsca-crypto''
         then Some (join_with ''-'' (take (length items - 2) items))
         else if str_contains secretName ''-ca'' \<or> str_contains secretName ''-tlsca''
         then Some (join_with ''-'' (take (length items - 1) items))
         else None)"

definition ca_AddOwnerReferenceToSecret ::
  "('w, ca_spec) kube \<Rightarrow> secret \<Rightarrow> 'w \<Rightarrow> (bool \<times> secret) go_result \<times> 'w" where
  "ca_AddOwnerReferenceToSecret k sec w =
     (case ca_secret_instance (sec_name sec) of
        None \<Rightarrow> (Ok (False, sec), w)
      | Some instanceName \<Rightarrow>
          bind_r (wrap_err ''failed to get list of CAs''
                    (k_list_names k IBPCA (sec_namespace sec) w)) (\<lambda>cas w.
            if list_ex (\<lambda>n. n = instanceName) cas
            then bind_r (k_own_secret k instanceName sec w) (\<lambda>sec w. (Ok (True, sec), w))
            else (Ok (False, sec), w)))"

definition ca_secret_owner ::
  "('w, ca_spec) kube \<Rightarrow> secret \<Rightarrow> 'w \<Rightarrow> (secret \<times> string \<times> string) option go_result \<times> 'w" where
  "ca_secret_owner k sec w =
     (if sec_owners sec = [] then
        (case ca_AddOwnerReferenceToSecret k sec w of
           (Fail e, w) \<Rightarrow> (Ok None, w)
         | (Panic p, w) \<Rightarrow> (Panic p, w)
         | (Ok (isCASecret, sec), w) \<Rightarrow>
             if \<not> isCASecret then (Ok None, w)
             else (seq_r (first_owner sec) (\<lambda>ow. Ok (Some (sec, ow))), w))
      else (seq_r (first_owner sec) (\<lambda>ow. Ok (Some (sec, ow))), w))"

text \<open>Both fields of the overrides, read through the pointers that are not nil.\<close>

definition ca_saved_update :: "ca_spec \<Rightarrow> ca_spec \<Rightarrow> ca_update" where
  "ca_saved_update existing ca =
     (let u = no_ca_update;
          u = when_do (ca \<noteq> existing) (\<lambda>u. u\<lparr>c_specUpdated := True\<rparr>) u;
          u = when_do (cs_ConfigOverride ca = None \<and> cs_ConfigOverride existing \<noteq> None)
                (\<lambda>u. u\<lparr>c_caOverridesUpdated := True, c_tlscaOverridesUpdated := True\<rparr>) u;
          u = (case (cs_ConfigOverride ca, cs_ConfigOverride existing) of
                 (Some a, Some b) \<Rightarrow>
                   let u = when_do (CA_override a \<noteq> None \<and> CA_override b \<noteq> None \<and> CA_override a \<noteq> CA_override b)
                             (\<lambda>u. u\<lparr>c_caOverridesUpdated := True\<rparr>) u
                   in when_do (TLSCA_override a \<noteq> None \<and> TLSCA_override b \<noteq> None \<and>
                               TLSCA_override a \<noteq> TLSCA_override b)
                        (\<lambda>u. u\<lparr>c_tlscaOverridesUpdated := True\<rparr>) u
               | _ \<Rightarrow> u)
      in u\<lparr>c_imagesUpdated := ca_imagesUpdated existing ca,
           c_fabricVersionUpdated := ca_fabricVersionUpdated existing ca\<rparr>)"

type_synonym 'w castate = "ca_stacks \<times> 'w"

fun ca_CreateFunc ::
  "('w, ca_spec) kube \<Rightarrow> ca_spec object \<Rightarrow> 'w castate \<Rightarrow> bool go_result \<times> 'w castate" where
  "ca_CreateFunc k (CRObject ca) (m, w) =
     (if HasType (CRStatus ca) then
        (case ca_GetSpecState k ca w of
           (Fail e, w) \<Rightarrow> (Ok True, m, w)
         | (Panic p, w) \<Rightarrow> (Panic p, m, w)
         | (Ok specBytes, w) \<Rightarrow>
             (case k_unmarshal k specBytes of
                Fail e \<Rightarrow> (Ok True, m, w)
              | Panic p \<Rightarrow> (Panic p, m, w)
              | Ok existing \<Rightarrow>
                  (Ok True, ca_PushUpdate (Name ca) (ca_saved_update existing (Spec ca)) m, w)))
      else
        (case ValidateCRName k (Name ca) (Namespace ca) IBPCA w of
           (Ok _, w) \<Rightarrow> (Ok True, m, w)
         | (Panic p, w) \<Rightarrow> (Panic p, m, w)
         | (Fail e, w) \<Rightarrow>
             let operror = operr_Wrap e InvalidCustomResourceCreateRequest
                   ''failed to validate custom resource name''
             in (case ca_SetStatus k ca None (Some operror) w of
                   (Panic p, w) \<Rightarrow> (Panic p, m, w)
                 | (_, w) \<Rightarrow> (Ok False, m, w))))"
| "ca_CreateFunc k (SecretObject sec) (m, w) =
     (case ca_secret_owner k sec w of
        (Ok None, w) \<Rightarrow> (Ok False, m, w)
      | (Fail e, w) \<Rightarrow> (Fail e, m, w)
      | (Panic p, w) \<Rightarrow> (Panic p, m, w)
      | (Ok (Some (sec, okind, instanceName)), w) \<Rightarrow>
          if okind = ''IBPCA'' then
            if has_suffix (sec_name sec) ''-ca-crypto'' then
              (Ok True, ca_PushUpdate instanceName (no_ca_update\<lparr>c_caCryptoCreated := True\<rparr>) m, w)
            else (Ok False, m, w)
          else (Ok True, m, w))"
| "ca_CreateFunc k (ConfigMapObject n) (m, w) = (Ok (n = ''ca-restart-config''), m, w)"
| "ca_CreateFunc k _ (m, w) = (Ok True, m, w)"

text \<open>
  The update of the overrides.  When the old overrides are set, both sides are read through their
  pointers, which fails for new overrides that are nil.
\<close>

definition ca_detect :: "ca_spec \<Rightarrow> ca_spec \<Rightarrow> ca_update go_result" where
  "ca_detect old new =
     (let u = no_ca_update\<lparr>c_specUpdated := True\<rparr>;
          u = when_do (case (cs_Images old, cs_Images new) of
                 (Some a, Some b) \<Rightarrow> CATag a \<noteq> CATag b | _ \<Rightarrow> False)
                (\<lambda>u. u\<lparr>c_caTagUpdated := True\<rparr>) u
      in seq_r
        (case cs_ConfigOverride old of
           None \<Rightarrow> Ok (when_do (cs_ConfigOverride new \<noteq> None)
                     (\<lambda>u. u\<lparr>c_caOverridesUpdated := True, c_tlscaOverridesUpdated := True\<rparr>) u)
         | Some a \<Rightarrow>
             (case cs_ConfigOverride new of
                None \<Rightarrow> Panic ''nil pointer dereference''
              | Some b \<Rightarrow>
                  let u = when_do (CA_override a \<noteq> CA_override b)
                            (\<lambda>u. u\<lparr>c_caOverridesUpdated := True\<rparr>) u
                  in Ok (when_do (TLSCA_override a \<noteq> TLSCA_override b)
                           (\<lambda>u. u\<lparr>c_tlscaOverridesUpdated := True\<rparr>) u)))
        (\<lambda>u.
          let u = when_do (cs_Restart new) (\<lambda>u. u\<lparr>c_restartNeeded := True\<rparr>) u;
              u = when_do (cs_Renew_TLSCert new) (\<lambda>u. u\<lparr>c_renewTLSCert := True\<rparr>) u
          in Ok (u\<lparr>c_imagesUpdated := ca_imagesUpdated old new,
                   c_fabricVersionUpdated := ca_fabricVersionUpdated old new\<rparr>)))"

fun ca_UpdateFunc ::
  "('w, ca_spec) kube \<Rightarrow> ca_spec object \<Rightarrow> ca_spec object \<Rightarrow> 'w castate \<Rightarrow>
     bool go_result \<times> 'w castate" where
  "ca_UpdateFunc k (CRObject old) (CRObject new) (m, w) =
     (if CheckIfZoneOrRegionUpdated (cs_Zone (Spec old)) (cs_Zone (Spec new)) then (Ok False, m, w)
      else if CheckIfZoneOrRegionUpdated (cs_Region (Spec old)) (cs_Region (Spec new)) then (Ok False, m, w)
      else if Spec old = Spec new then (Ok False, m, w)
      else (case ca_detect (Spec old) (Spec new) of
              Ok update \<Rightarrow> (Ok True, ca_PushUpdate (Name old) update m, w)
            | Fail e \<Rightarrow> (Fail e, m, w)
            | Panic p \<Rightarrow> (Panic p, m, w)))"
| "ca_UpdateFunc k (SecretObject old) (SecretObject new) (m, w) =
     (case ca_secret_owner k old w of
        (Ok None, w) \<Rightarrow> (Ok False, m, w)
      | (Fail e, w) \<Rightarrow> (Fail e, m, w)
      | (Panic p, w) \<Rightarrow> (Panic p, m, w)
      | (Ok (Some (sec, okind, instanceName)), w) \<Rightarrow>
          if okind = ''IBPCA'' then
            if sec_data sec = sec_data new then (Ok False, m, w)
            else if IsSecretTLSCert (sec_name sec) then
              (Ok True, ca_PushUpdate instanceName (no_ca_update\<lparr>c_caCryptoUpdated := True\<rparr>) m, w)
            else (Ok False, m, w)
          else (Ok False, m, w))"
| "ca_UpdateFunc k (ConfigMapObject n) _ (m, w) = (Ok (n = ''ca-restart-config''), m, w)"
| "ca_UpdateFunc k (CRObject old) _ (m, w) = (Panic ''interface conversion'', m, w)"
| "ca_UpdateFunc k (SecretObject old) _ (m, w) = (Panic ''interface conversion'', m, w)"
| "ca_UpdateFunc k _ _ (m, w) = (Ok False, m, w)"

subsection \<open>Reconcile\<close>

definition ca_ReconcileRestart ::
  "'w env \<Rightarrow> visit \<Rightarrow> int \<Rightarrow> string \<Rightarrow> 'w \<Rightarrow> bool go_result \<times> 'w" where
  "ca_ReconcileRestart env v timeout namespace w = Reconcile env v timeout ''ca'' namespace w"

definition ca_Reconcile ::
  "('w, ca_spec) kube \<Rightarrow> 'w env \<Rightarrow> visit \<Rightarrow> int \<Rightarrow>
   (ca_spec cr \<Rightarrow> ca_update \<Rightarrow> 'w \<Rightarrow> (result \<times> go_error option) \<times> 'w) \<Rightarrow>
   (string \<times> ca_update) list \<Rightarrow> string \<Rightarrow> string \<Rightarrow> 'w castate \<Rightarrow>
   reconcile_result go_result \<times> 'w castate" where
  "ca_Reconcile k env v timeout offering arrivals name namespace st =
     (case st of (m, w) \<Rightarrow>
      if name = ''ca-restart-config'' then
        (case ca_ReconcileRestart env v timeout namespace w of
           (Ok requeue, w) \<Rightarrow> (Ok (no_result\<lparr>rr_Requeue := requeue\<rparr>), m, w)
         | (Fail e, w) \<Rightarrow> (Fail e, m, w)
         | (Panic p, w) \<Rightarrow> (Panic p, m, w))
      else
        (case k_get k name namespace w of
           (Fail e, w) \<Rightarrow> if IsNotFound e then (Ok no_result, m, w) else (Fail e, m, w)
         | (Panic p, w) \<Rightarrow> (Panic p, m, w)
         | (Ok inst, w) \<Rightarrow>
              let update = ca_GetUpdateStatus (Name inst) m;
                  (popped, m) = ca_PopUpdate (Name inst) m;
                  ((res, err), w) = offering inst popped w;
                  m = fold (\<lambda>(n, u). ca_PushUpdate n u) arrivals m
              in (case ca_SetStatus k inst (RStatus res) err w of
                    (Panic p, w) \<Rightarrow> (Panic p, m, w)
                  | (Fail e, w) \<Rightarrow> (return_err (IsBreakingError (Some e)), m, w)
                  | (Ok _, w) \<Rightarrow>
                      (case err of
                         Some e \<Rightarrow>
                           (return_err (IsBreakingError (Some (Wrapped (''CA instance '' @ quoted (Name inst) @
                              '' encountered error'') e))), m, w)
                       | None \<Rightarrow>
                           let m = (if Requeue res then ca_PushUpdate (Name inst) update m else m)
                           in if 0 < length (slice_of m (Name inst))
                              then (Ok (no_result\<lparr>rr_Requeue := True\<rparr>), m, w)
                              else (Ok \<lparr>rr_Requeue = Requeue res, rr_RequeueAfter = RequeueAfter res\<rparr>,
                                    m, w)))))"

end
