(* ===== verification/CAProps.thy ===== *)
theory CAProps
  imports CAController PeerProps
begin

text \<open>Properties of the CA controller: the detection of changed overrides, its secrets, its status.\<close>

subsection \<open>Overrides\<close>

lemma ca_detect_cases:
  "if cs_ConfigOverride old \<noteq> None \<and> cs_ConfigOverride new = None
   then ca_detect old new = Panic ''nil pointer dereference''
   else \<exists>u. ca_detect old new = Ok u \<and> c_specUpdated u \<and>
      (c_caOverridesUpdated u \<longleftrightarrow> cs_ConfigOverride new \<noteq> None \<and>
         (cs_ConfigOverride old = None \<or>
          CA_override (the (cs_ConfigOverride old)) \<noteq> CA_override (the (cs_ConfigOverride new)))) \<and>
      (c_tlscaOverridesUpdated u \<longleftrightarrow> cs_ConfigOverride new \<noteq> None \<and>
         (cs_ConfigOverride old = None \<or>
          TLSCA_override (the (cs_ConfigOverride old)) \<noteq> TLSCA_override (the (cs_ConfigOverride new))))"
  by (cases "cs_ConfigOverride old"; cases "cs_ConfigOverride new")
    (simp_all add: ca_detect_def no_ca_update_def Let_def when_do_def)

text \<open>What an accepted change of a CA's specification does with the configuration overrides.
  The CA's (the TLS CA's) overrides are flagged exactly when they differ, or when overrides are
  given for the first time.  Removing the overrides of a CA that had some is not handled: the event
  handler dereferences a nil pointer.\<close>

lemma ca_override_update:
  assumes "\<not> CheckIfZoneOrRegionUpdated (cs_Zone (Spec old)) (cs_Zone (Spec new))"
    and "\<not> CheckIfZoneOrRegionUpdated (cs_Region (Spec old)) (cs_Region (Spec new))"
    and "Spec old \<noteq> Spec new"
  shows "if cs_ConfigOverride (Spec old) \<noteq> None \<and> cs_ConfigOverride (Spec new) = None
    then ca_UpdateFunc k (CRObject old) (CRObject new) (m, w) = (Panic ''nil pointer dereference'', m, w)
    else \<exists>u. ca_UpdateFunc k (CRObject old) (CRObject new) (m, w) = (Ok True, ca_PushUpdate (Name old) u m, w) \<and>
      c_specUpdated u \<and>
      (c_caOverridesUpdated u \<longleftrightarrow> cs_ConfigOverride (Spec new) \<noteq> None \<and>
         (cs_ConfigOverride (Spec old) = None \<or>
          CA_override (the (cs_ConfigOverride (Spec old))) \<noteq> CA_override (the (cs_ConfigOverride (Spec new))))) \<and>
      (c_tlscaOverridesUpdated u \<longleftrightarrow> cs_ConfigOverride (Spec new) \<noteq> None \<and>
         (cs_ConfigOverride (Spec old) = None \<or>
          TLSCA_override (the (cs_ConfigOverride (Spec old))) \<noteq> TLSCA_override (the (cs_ConfigOverride (Spec new)))))"
  using assms ca_detect_cases [of "Spec old" "Spec new"]
  by (auto split: if_splits)

definition sample_ca :: ca_spec where
  "sample_ca = \<lparr>cs_Zone = '''', cs_Region = '''', cs_Images = None, cs_FabricVersion = ''1.5.3'',
     cs_ConfigOverride = Some \<lparr>CA_override = Some ''{}'', TLSCA_override = None, MaxNameLength = None\<rparr>,
     cs_Restart = False, cs_Renew_TLSCert = False, cs_other = ''''\<rparr>"

lemma ca_override_update_witness:
  "ca_UpdateFunc (sample_client sample_ca) (CRObject (sample_cr sample_ca))
     (CRObject (sample_cr (sample_ca\<lparr>cs_ConfigOverride := None\<rparr>))) ([], ()) =
   (Panic ''nil pointer dereference'', [], ())"
proof -
  let ?old = "sample_cr sample_ca" and ?new = "sample_cr (sample_ca\<lparr>cs_ConfigOverride := None\<rparr>)"
  have "\<not> CheckIfZoneOrRegionUpdated (cs_Zone (Spec ?old)) (cs_Zone (Spec ?new))"
    "\<not> CheckIfZoneOrRegionUpdated (cs_Region (Spec ?old)) (cs_Region (Spec ?new))"
    "Spec ?old \<noteq> Spec ?new"
    by (simp_all add: sample_cr_def sample_ca_def CheckIfZoneOrRegionUpdated_def)
  from ca_override_update [OF this, of "sample_client sample_ca" "[]" "()"] show ?thesis
    by (simp add: sample_cr_def sample_ca_def)
qed

lemma ca_saved_flags:
  "c_caOverridesUpdated (ca_saved_update existing ca) =
     (case (cs_ConfigOverride ca, cs_ConfigOverride existing) of
        (None, Some b) \<Rightarrow> True
      | (Some a, Some b) \<Rightarrow> CA_override a \<noteq> None \<and> CA_override b \<noteq> None \<and> CA_override a \<noteq> CA_override b
      | _ \<Rightarrow> False)"
  "c_tlscaOverridesUpdated (ca_saved_update existing ca) =
     (case (cs_ConfigOverride ca, cs_ConfigOverride existing) of
        (None, Some b) \<Rightarrow> True
      | (Some a, Some b) \<Rightarrow> TLSCA_override a \<noteq> None \<and> TLSCA_override b \<noteq> None \<and> TLSCA_override a \<noteq> TLSCA_override b
      | _ \<Rightarrow> False)"
  by (simp_all add: ca_saved_update_def no_ca_update_def Let_def
      when_do_frame [of c_caOverridesUpdated] when_do_set [of c_caOverridesUpdated _ True]
      when_do_frame [of c_tlscaOverridesUpdated] when_do_set [of c_tlscaOverridesUpdated _ True]
      split: option.split)

text \<open>The same comparison against the specification saved before the operator went down has the
  two sides swapped: overrides that were added in the meantime are not flagged, those that were
  removed are, both of them, and a part that is set on one side only is not.\<close>

lemma ca_override_after_restart:
  "(cs_ConfigOverride existing = None \<longrightarrow> \<not> ca_ConfigOverridesUpdated (ca_saved_update existing ca)) \<and>
   (cs_ConfigOverride existing \<noteq> None \<and> cs_ConfigOverride ca = None \<longrightarrow>
      c_caOverridesUpdated (ca_saved_update existing ca) \<and> c_tlscaOverridesUpdated (ca_saved_update existing ca)) \<and>
   (\<forall>a b. cs_ConfigOverride existing = Some a \<and> cs_ConfigOverride ca = Some b \<longrightarrow>
      (c_caOverridesUpdated (ca_saved_update existing ca) \<longleftrightarrow>
         (\<exists>x y. CA_override a = Some x \<and> CA_override b = Some y \<and> x \<noteq> y)) \<and>
      (c_tlscaOverridesUpdated (ca_saved_update existing ca) \<longleftrightarrow>
         (\<exists>x y. TLSCA_override a = Some x \<and> TLSCA_override b = Some y \<and> x \<noteq> y)))"
  by (simp add: ca_saved_flags ca_ConfigOverridesUpdated_def split: option.split) auto

lemma ca_override_after_restart_witness:
  "\<not> ca_ConfigOverridesUpdated (ca_saved_update (sample_ca\<lparr>cs_ConfigOverride := None\<rparr>) sample_ca) \<and>
   c_caOverridesUpdated (ca_saved_update sample_ca (sample_ca\<lparr>cs_ConfigOverride := None\<rparr>))"
  using ca_override_after_restart [of "sample_ca\<lparr>cs_ConfigOverride := None\<rparr>" sample_ca]
    ca_override_after_restart [of sample_ca "sample_ca\<lparr>cs_ConfigOverride := None\<rparr>"]
  by (simp add: sample_ca_def)

subsection \<open>Secrets\<close>

lemma take_items:
  assumes "CHR ''-'' \<notin> set x"
  shows "split_on CHR ''-'' (name @ CHR ''-'' # x) = split_on CHR ''-'' name @ [x]"
  using assms by (simp add: split_on_middle split_on_no_sep)

text \<open>The four secrets of a CA give back the CA's name, hyphens in it included; the two without
  \<open>-crypto\<close> only if the CA's own name does not contain the suffix of the others.\<close>

lemma ca_secrets_name_ca:
  "ca_secret_instance (name @ ''-ca-crypto'') = Some name \<and>
   ca_secret_instance (name @ ''-tlsca-crypto'') = Some name \<and>
   (\<not> str_contains (name @ ''-ca'') ''-ca-crypto'' \<and> \<not> str_contains (name @ ''-ca'') ''-tlsca-crypto'' \<longrightarrow>
      ca_secret_instance (name @ ''-ca'') = Some name) \<and>
   (\<not> str_contains (name @ ''-tlsca'') ''-ca-crypto'' \<and> \<not> str_contains (name @ ''-tlsca'') ''-tlsca-crypto'' \<longrightarrow>
      ca_secret_instance (name @ ''-tlsca'') = Some name)"
proof -
  have two: "split_on CHR ''-'' (name @ CHR ''-'' # ''ca-crypto'') = split_on CHR ''-'' name @ [''ca'', ''crypto'']"
    "split_on CHR ''-'' (name @ CHR ''-'' # ''tlsca-crypto'') = split_on CHR ''-'' name @ [''tlsca'', ''crypto'']"
    by (simp_all add: split_on_middle)
  have one: "split_on CHR ''-'' (name @ CHR ''-'' # ''ca'') = split_on CHR ''-'' name @ [''ca'']"
    "split_on CHR ''-'' (name @ CHR ''-'' # ''tlsca'') = split_on CHR ''-'' name @ [''tlsca'']"
    by (simp_all add: take_items)
  have contains: "str_contains (name @ ''-ca-crypto'') ''-ca-crypto''"
    "str_contains (name @ ''-tlsca-crypto'') ''-tlsca-crypto''"
    "str_contains (name @ ''-ca'') ''-ca''" "str_contains (name @ ''-tlsca'') ''-tlsca''"
    by (auto simp: str_contains_iff)
  show ?thesis
    using two one contains join_split [of "CHR ''-''" name]
    by (simp add: ca_secret_instance_def Let_def)
qed

lemma ca_secrets_name_ca_witness:
  "ca_secret_instance ''org1-ca-ca'' = Some ''org1-ca''"
proof -
  have "\<not> str_contains (''org1-ca'' @ ''-ca'') ''-ca-crypto'' \<and> \<not> str_contains (''org1-ca'' @ ''-ca'') ''-tlsca-crypto''"
    by code_simp
  with ca_secrets_name_ca [of "''org1-ca''"] show ?thesis by simp
qed

subsection \<open>Status\<close>

text \<open>Without an error and without a status of the offering, a CA is \<open>Deployed\<close> when it has pods
  and all of them run, and \<open>Deploying\<close> otherwise; the status settles: a CA whose type is the wanted
  one is not written again, so its own status never triggers another round.\<close>

lemma ca_status_settles:
  assumes "k_marshal k (Spec i) = Ok doc" and "k_put_spec k i (Name i @ ''-spec'') doc w = (Ok (), w1)"
    and "k_get k (Name i) (Namespace i) w1 = (Ok i', w2)"
    and "k_selector k (''app='' @ Name i') = None"
    and "k_list_pods k (''app='' @ Name i') (Namespace i') w2 = (Ok pods, w3)"
  shows "ca_SetStatus k i None None w =
    (let (want, reason, message) =
       (if pods \<noteq> [] \<and> (\<forall>(n, phase) \<in> set pods. phase = ''Running'')
        then (''Deployed'', ''allPodsRunning'', ''All pods running'')
        else (''Deploying'', ''waitingForPods'', ''Waiting for pods''))
     in if Type (CRStatus i') = want then (Ok (), w3)
        else k_patch_status k (i'\<lparr>CRStatus := (CRStatus i')\<lparr>Reconciled := cs_FabricVersion (Spec i'),
               Type := want, SStatus := ''True'', SReason := reason, Message := message,
               LastHeartbeatTime := fst (k_now k w3)\<rparr>\<rparr>) (snd (k_now k w3)))"
proof -
  have save: "ca_SaveSpecState k i w = (Ok (), w1)"
    by (simp add: ca_SaveSpecState_def assms(1,2))
  have pods: "PodsRunning k i' w2 =
      (Ok (pods \<noteq> [] \<and> (\<forall>(n, phase) \<in> set pods. phase = ''Running'')), w3)"
    unfolding PodsRunning_def assms(4,5) option.case bind_r_simps
    by (cases pods) (simp_all add: list_all_iff)
  have eq: "ca_SetStatus k i None None w =
      ca_set_pod_status k i' ((CRStatus i')\<lparr>Reconciled := cs_FabricVersion (Spec i')\<rparr>) w2"
    by (simp add: ca_SetStatus_def save assms(3) Let_def)
  show ?thesis
    unfolding eq ca_set_pod_status_def pods bind_r_simps
    by (simp add: Let_def case_prod_beta)
qed

lemma ca_status_settles_witness:
  "ca_SetStatus (sample_client sample_ca) (sample_cr sample_ca) None None () = (Ok (), ())"
proof -
  let ?k = "sample_client sample_ca" and ?i = "sample_cr sample_ca"
  have asms: "k_marshal ?k (Spec ?i) = Ok ''doc''"
    "k_put_spec ?k ?i (Name ?i @ ''-spec'') ''doc'' () = (Ok (), ())"
    "k_get ?k (Name ?i) (Namespace ?i) () = (Ok ?i, ())"
    "k_selector ?k (''app='' @ Name ?i) = None"
    "k_list_pods ?k (''app='' @ Name ?i) (Namespace ?i) () = (Ok [(''pod'', ''Running'')], ())"
    by (simp_all add: sample_client_def)
  show ?thesis
    by (subst ca_status_settles [OF asms]) (simp add: sample_cr_def sample_status_def)
qed

end
