(* ===== verification/Console.thy ===== *)
theory Console
  imports UpdateStack Kube
begin

text \<open>
  The console controller, \<open>controllers/ibpconsole/ibpconsole_controller.go\<close>.  Unlike the other
  controllers it keeps one update for all consoles, the field \<open>update\<close> of \<open>ReconcileIBPConsole\<close>,
  which every event overwrites.  The overrides are raw JSON; package \<open>json\<close> on them is the record
  \<open>override_json\<close>.
\<close>

subsection \<open>Updates\<close>

record console_update =
  n_specUpdated :: bool
  n_restartNeeded :: bool
  n_deployerCMUpdated :: bool
  n_consoleCMUpdated :: bool
  n_envCMUpdated :: bool

definition no_console_update :: console_update where
  "no_console_update = \<lparr>n_specUpdated = False, n_restartNeeded = False,
     n_deployerCMUpdated = False, n_consoleCMUpdated = False, n_envCMUpdated = False\<rparr>"

definition console_GetUpdateStackWithTrues :: "console_update \<Rightarrow> string" where
  "console_GetUpdateStackWithTrues u = true_labels [
     (n_specUpdated u, ''specUpdated ''), (n_restartNeeded u, ''restartNeeded ''),
     (n_deployerCMUpdated u, ''deployerCMUpdated ''), (n_consoleCMUpdated u, ''consoleCMUpdated ''),
     (n_envCMUpdated u, ''envCMUpdated '')]"

subsection \<open>The specification of a console\<close>

record console_override =
  HostURL :: string
  ActivityTrackerConsolePath :: string
  ActivityTrackerHostPath :: string
  Override_HSM :: string

record deployer_override =
  Override_Timeouts :: "string option"

record raw_overrides =
  Raw_console :: "string option"
  Raw_deployer :: "string option"

record override_json =
  console_of_json :: "string \<Rightarrow> console_override go_result"
  deployer_of_json :: "string \<Rightarrow> deployer_override go_result"

record network_info =
  Domain :: string
  ni_other :: string

record console_spec =
  ns_Zone :: string
  ns_Region :: string
  ns_Version :: string
  ns_Restart :: bool
  ns_ImagePullSecrets :: "string list"
  ns_Deployer :: "string option"
  ns_NetworkInfo :: "network_info option"
  ns_RegistryURL :: string
  ns_Arch :: "string list"
  ns_Versions :: "string option"
  ns_Storage :: "string option"
  ns_CRN :: "string option"
  ns_ConfigOverride :: "raw_overrides option"
  ns_IBMID :: "string option"
  ns_IAMApiKey :: string
  ns_SegmentWriteKey :: string
  ns_Email :: string
  ns_AuthScheme :: string
  ns_ConfigtxlatorURL :: string
  ns_DeployerURL :: string
  ns_DeployerTimeout :: int
  ns_Components :: string
  ns_Sessions :: string
  ns_System :: string
  ns_SystemChannel :: string
  ns_Proxying :: "bool option"
  ns_FeatureFlags :: "string option"
  ns_ClusterData :: "string option"
  ns_ConnectionString :: string
  ns_TLSSecretName :: string
  ns_other :: string

subsection \<open>api/v1beta1/ibpconsole.go\<close>

definition GetOverridesConsole :: "override_json \<Rightarrow> console_spec \<Rightarrow> console_override go_result" where
  "GetOverridesConsole js s =
     (let override = \<lparr>HostURL = '''', ActivityTrackerConsolePath = '''',
                      ActivityTrackerHostPath = '''', Override_HSM = ''''\<rparr>
      in case ns_ConfigOverride s of
           None \<Rightarrow> Ok override
         | Some r \<Rightarrow> (case Raw_console r of None \<Rightarrow> Ok override | Some raw \<Rightarrow> console_of_json js raw))"

definition GetOverridesDeployer :: "override_json \<Rightarrow> console_spec \<Rightarrow> deployer_override go_result" where
  "GetOverridesDeployer js s =
     (let override = \<lparr>Override_Timeouts = None\<rparr>
      in case ns_ConfigOverride s of
           None \<Rightarrow> Ok override
         | Some r \<Rightarrow> (case Raw_deployer r of None \<Rightarrow> Ok override | Some raw \<Rightarrow> deployer_of_json js raw))"

text \<open>A comparison that answers false as soon as one side does not parse.\<close>

definition overrides_differ :: "'a go_result \<Rightarrow> 'a go_result \<Rightarrow> bool go_result" where
  "overrides_differ old new =
     (case old of
        Fail e \<Rightarrow> Ok False
      | Panic p \<Rightarrow> Panic p
      | Ok a \<Rightarrow> (case new of Fail e \<Rightarrow> Ok False | Panic p \<Rightarrow> Panic p | Ok b \<Rightarrow> Ok (a \<noteq> b)))"

text \<open>The network information is read through its pointer, which may be nil.\<close>

definition DeployerCMUpdated :: "override_json \<Rightarrow> console_spec \<Rightarrow> console_spec \<Rightarrow> bool go_result" where
  "DeployerCMUpdated js old new =
     (if ns_ImagePullSecrets old \<noteq> ns_ImagePullSecrets new then Ok True
      else if ns_Deployer old \<noteq> ns_Deployer new then Ok True
      else (case (ns_NetworkInfo old, ns_NetworkInfo new) of
        (Some a, Some b) \<Rightarrow>
          if Domain a \<noteq> Domain b then Ok True
          else if ns_RegistryURL old \<noteq> ns_RegistryURL new then Ok True
          else if ns_Arch old \<noteq> ns_Arch new then Ok True
          else if ns_Versions old \<noteq> ns_Versions new then Ok True
          else if ns_Storage old \<noteq> ns_Storage new then Ok True
          else if ns_CRN old \<noteq> ns_CRN new then Ok True
          else overrides_differ (GetOverridesDeployer js old) (GetOverridesDeployer js new)
      | _ \<Rightarrow> Panic ''nil pointer dereference''))"

definition ConsoleCMUpdated :: "override_json \<Rightarrow> console_spec \<Rightarrow> console_spec \<Rightarrow> bool go_result" where
  "ConsoleCMUpdated js old new =
     (if ns_IBMID old \<noteq> ns_IBMID new then Ok True
      else if ns_IAMApiKey old \<noteq> ns_IAMApiKey new then Ok True
      else if ns_SegmentWriteKey old \<noteq> ns_SegmentWriteKey new then Ok True
      else if ns_Email old \<noteq> ns_Email new then Ok True
      else if ns_AuthScheme old \<noteq> ns_AuthScheme new then Ok True
      else if ns_ConfigtxlatorURL old \<noteq> ns_ConfigtxlatorURL new then Ok True
      else if ns_DeployerURL old \<noteq> ns_DeployerURL new then Ok True
      else if ns_DeployerTimeout old \<noteq> ns_DeployerTimeout new then Ok True
      else if ns_Components old \<noteq> ns_Components new then Ok True
      else if ns_Sessions old \<noteq> ns_Sessions new then Ok True
      else if ns_System old \<noteq> ns_System new then Ok True
      else if ns_SystemChannel old \<noteq> ns_SystemChannel new then Ok True
      else if ns_Proxying old \<noteq> ns_Proxying new then Ok True
      else if ns_FeatureFlags old \<noteq> ns_FeatureFlags new then Ok True
      else if ns_ClusterData old \<noteq> ns_ClusterData new then Ok True
      else if ns_CRN old \<noteq> ns_CRN new then Ok True
      else overrides_differ (GetOverridesConsole js old) (GetOverridesConsole js new))"

definition EnvCMUpdated :: "console_spec \<Rightarrow> console_spec \<Rightarrow> bool" where
  "EnvCMUpdated old new =
     (if ns_ConnectionString old \<noteq> ns_ConnectionString new then True
      else if ns_System old \<noteq> ns_System new then True
      else if ns_TLSSecretName old \<noteq> ns_TLSSecretName new then True
      else False)"

subsection \<open>Status\<close>

definition console_SaveSpecState ::
  "('w, console_spec) kube \<Rightarrow> console_spec cr \<Rightarrow> 'w \<Rightarrow> unit go_result \<times> 'w" where
  "console_SaveSpecState k i w =
     bind_r (k_marshal k (Spec i), w) (\<lambda>data w. k_put_spec k i (Name i @ ''-spec'') data w)"

definition console_GetSpecState ::
  "('w, console_spec) kube \<Rightarrow> console_spec cr \<Rightarrow> 'w \<Rightarrow> string go_result \<times> 'w" where
  "console_GetSpecState k i w = k_get_spec k (Name i @ ''-spec'') (Namespace i) w"

definition console_GetPodStatus ::
  "('w, console_spec) kube \<Rightarrow> console_spec cr \<Rightarrow> 'w \<Rightarrow> bool go_result \<times> 'w" where
  "console_GetPodStatus k i w =
     (case k_selector k (''app='' @ Name i) of
        Some e \<Rightarrow> (Fail (Wrapped ''failed to parse label selector for app name'' e), w)
      | None \<Rightarrow>
          bind_r (k_list_pods k (''app='' @ Name i) (Namespace i) w) (\<lambda>pods w.
            (Ok (list_all (\<lambda>(n, phase). phase = ''Running'') pods), w)))"

definition console_SetStatus ::
  "('w, console_spec) kube \<Rightarrow> console_spec cr \<Rightarrow> go_error option \<Rightarrow> 'w \<Rightarrow> unit go_result \<times> 'w" where
  "console_SetStatus k i reconcileErr w =
     bind_r (wrap_err ''failed to save spec state'' (console_SaveSpecState k i w)) (\<lambda>_ w.
     bind_r (k_get k (Name i) (Namespace i) w) (\<lambda>i w.
       let status = CRStatus i in
       (case reconcileErr of
          Some e \<Rightarrow>
            let (now, w) = k_now k w
            in k_patch_status k (i\<lparr>CRStatus := error_status e now status\<rparr>) w
        | None \<Rightarrow>
            let status = status\<lparr>Reconciled := ns_Version (Spec i)\<rparr> in
            bind_r (console_GetPodStatus k i w) (\<lambda>running w.
              if running then
                if Type (CRStatus i) = Deployed then (Ok (), w)
                else
                  let status = status\<lparr>Type := Deployed, SStatus := ''True'', SReason := ''allPodsRunning''\<rparr>;
                      (now, w) = k_now k w
                  in k_patch_status k (i\<lparr>CRStatus := status\<lparr>LastHeartbeatTime := now\<rparr>\<rparr>) w
              else
                if Type (CRStatus i) = Deploying then (Ok (), w)
                else
                  let status = status\<lparr>Type := Deploying, SStatus := ''True'', SReason := ''waitingForPods''\<rparr>;
                      (now, w) = k_now k w
                  in k_patch_status k (i\<lparr>CRStatus := status\<lparr>LastHeartbeatTime := now\<rparr>\<rparr>) w))))"

subsection \<open>Event handlers\<close>

text \<open>The update after a changed specification was found at the operator's start.\<close>

definition console_saved_update ::
  "override_json \<Rightarrow> console_spec \<Rightarrow> console_spec \<Rightarrow> console_update go_result" where
  "console_saved_update js spec saved =
     (let u = no_console_update\<lparr>n_specUpdated := True\<rparr>
      in seq_r (DeployerCMUpdated js spec saved) (\<lambda>d.
         seq_r (ConsoleCMUpdated js spec saved) (\<lambda>c.
           let u = when_do d (\<lambda>u. u\<lparr>n_deployerCMUpdated := True\<rparr>) u;
               u = when_do c (\<lambda>u. u\<lparr>n_consoleCMUpdated := True\<rparr>) u
           in Ok (when_do (EnvCMUpdated spec saved) (\<lambda>u. u\<lparr>n_envCMUpdated := True\<rparr>) u))))"

text \<open>The handlers overwrite the update of the state; the result is whether to reconcile.\<close>

fun console_CreateFunc ::
  "('w, console_spec) kube \<Rightarrow> override_json \<Rightarrow> console_spec object \<Rightarrow> console_update \<times> 'w \<Rightarrow>
     bool go_result \<times> console_update \<times> 'w" where
  "console_CreateFunc k js (CRObject console) (update, w) =
     (let u = no_console_update
      in if HasType (CRStatus console) then
           (case console_GetSpecState k console w of
              (Fail e, w) \<Rightarrow> (Ok True, u, w)
            | (Panic p, w) \<Rightarrow> (Panic p, u, w)
            | (Ok specBytes, w) \<Rightarrow>
                (case k_unmarshal k specBytes of
                   Fail e \<Rightarrow> (Ok True, u, w)
                 | Panic p \<Rightarrow> (Panic p, u, w)
                 | Ok saved \<Rightarrow>
                     if Spec console \<noteq> saved then
                       (case console_saved_update js (Spec console) saved of
                          Ok u \<Rightarrow> (Ok True, u, w)
                        | Fail e \<Rightarrow> (Fail e, u, w)
                        | Panic p \<Rightarrow> (Panic p, u, w))
                     else (Ok False, u, w)))
         else
           (case ValidateCRName k (Name console) (Namespace console) IBPCONSOLE w of
              (Ok _, w) \<Rightarrow> (Ok True, u, w)
            | (Panic p, w) \<Rightarrow> (Panic p, u, w)
            | (Fail e, w) \<Rightarrow>
                let operror = operr_Wrap e InvalidCustomResourceCreateRequest
                      ''failed to validate ibpconsole name''
                in (case console_SetStatus k console (Some operror) w of
                      (Panic p, w) \<Rightarrow> (Panic p, u, w)
                    | (_, w) \<Rightarrow> (Ok False, u, w))))"
| "console_CreateFunc k js _ (update, w) = (Panic ''interface conversion'', no_console_update, w)"

fun console_UpdateFunc ::
  "console_spec object \<Rightarrow> console_spec object \<Rightarrow> console_update \<Rightarrow> bool go_result \<times> console_update" where
  "console_UpdateFunc (CRObject old) (CRObject new) update =
     (let u = no_console_update
      in if CheckIfZoneOrRegionUpdated (ns_Zone (Spec old)) (ns_Zone (Spec new)) then (Ok False, u)
         else if CheckIfZoneOrRegionUpdated (ns_Region (Spec old)) (ns_Region (Spec new)) then (Ok False, u)
         else if Spec old = Spec new then (Ok False, u)
         else
           let u = u\<lparr>n_specUpdated := True\<rparr>
           in (Ok True, when_do (ns_Restart (Spec new)) (\<lambda>u. u\<lparr>n_restartNeeded := True\<rparr>) u))"
| "console_UpdateFunc _ _ update = (Panic ''interface conversion'', no_console_update)"

subsection \<open>Reconcile\<close>

text \<open>The offering gets the one update there is; \<open>arrived\<close> is what a handler leaves meanwhile.\<close>

definition console_Reconcile ::
  "('w, console_spec) kube \<Rightarrow>
   (console_spec cr \<Rightarrow> console_update \<Rightarrow> 'w \<Rightarrow> (result \<times> go_error option) \<times> 'w) \<Rightarrow>
   console_update option \<Rightarrow> string \<Rightarrow> string \<Rightarrow> console_update \<times> 'w \<Rightarrow>
   reconcile_result go_result \<times> console_update \<times> 'w" where
  "console_Reconcile k offering arrived name namespace st =
     (case st of (u, w) \<Rightarrow>
        (case k_get k name namespace w of
           (Fail e, w) \<Rightarrow> if IsNotFound e then (Ok no_result, u, w) else (Fail e, u, w)
         | (Panic p, w) \<Rightarrow> (Panic p, u, w)
         | (Ok inst, w) \<Rightarrow>
              let ((res, err), w) = offering inst u w;
                  u = (case arrived of None \<Rightarrow> u | Some u' \<Rightarrow> u')
              in (case console_SetStatus k inst err w of
                    (Panic p, w) \<Rightarrow> (Panic p, u, w)
                  | (Fail e, w) \<Rightarrow> (return_err (IsBreakingError (Some e)), u, w)
                  | (Ok _, w) \<Rightarrow>
                      (case err of
                         Some e \<Rightarrow>
                           (return_err (IsBreakingError (Some (Wrapped (''Console instance '' @ quoted (Name inst) @
                              '' encountered error'') e))), u, w)
                       | None \<Rightarrow>
                           (Ok \<lparr>rr_Requeue = Requeue res, rr_RequeueAfter = RequeueAfter res\<rparr>, u, w)))))"

end
