(* ===== verification/ConsoleProps.thy ===== *)
theory ConsoleProps
  imports Console PeerProps
begin

text \<open>Properties of the console controller: its single update, the config map checks, its status.\<close>

subsection \<open>The shared update\<close>

text \<open>The console controller keeps a single update and no queue: whatever was detected for a
  console, the next event of any console that is not an accepted change of its specification (a
  status written by the controller itself, a move of the zone) leaves an update in which no flag is
  set, and the reconcile loop hands that one to the offering.\<close>

lemma console_update_is_overwritten:
  assumes "Spec old = Spec new \<or> CheckIfZoneOrRegionUpdated (ns_Zone (Spec old)) (ns_Zone (Spec new))"
    and "k_get k name namespace w = (Ok inst, w1)"
    and "offering inst no_console_update w1 = ((res, None), w2)"
    and "console_SetStatus k inst None w2 = (Ok (), w3)"
  shows "console_UpdateFunc (CRObject old) (CRObject new) update = (Ok False, no_console_update) \<and>
    console_Reconcile k offering None name namespace
      (snd (console_UpdateFunc (CRObject old) (CRObject new) update), w) =
    (Ok \<lparr>rr_Requeue = Requeue res, rr_RequeueAfter = RequeueAfter res\<rparr>, no_console_update, w3)"
proof -
  have "console_UpdateFunc (CRObject old) (CRObject new) update = (Ok False, no_console_update)"
    using assms(1) by (auto simp: Let_def)
  with assms(2,3,4) show ?thesis by (simp add: console_Reconcile_def Let_def)
qed

definition sample_console :: console_spec where
  "sample_console = \<lparr>ns_Zone = '''', ns_Region = '''', ns_Version = ''1.0.0'', ns_Restart = True,
     ns_ImagePullSecrets = [], ns_Deployer = None, ns_NetworkInfo = None, ns_RegistryURL = '''',
     ns_Arch = [], ns_Versions = None, ns_Storage = None, ns_CRN = None, ns_ConfigOverride = None,
     ns_IBMID = None, ns_IAMApiKey = '''', ns_SegmentWriteKey = '''', ns_Email = '''',
     ns_AuthScheme = '''', ns_ConfigtxlatorURL = '''', ns_DeployerURL = '''', ns_DeployerTimeout = 0,
     ns_Components = '''', ns_Sessions = '''', ns_System = '''', ns_SystemChannel = '''',
     ns_Proxying = None, ns_FeatureFlags = None, ns_ClusterData = None, ns_ConnectionString = '''',
     ns_TLSSecretName = '''', ns_other = ''''\<rparr>"

lemma console_update_is_overwritten_witness:
  "snd (console_UpdateFunc (CRObject (sample_cr sample_console)) (CRObject (sample_cr sample_console))
     (no_console_update\<lparr>n_specUpdated := True, n_restartNeeded := True\<rparr>)) = no_console_update"
proof -
  let ?k = "sample_client sample_console" and ?c = "sample_cr sample_console"
  let ?off = "\<lambda>(i :: console_spec cr) (u :: console_update) w. ((sample_result, None :: go_error option), w :: unit)"
  have get: "k_get ?k ''peer1'' ''ns'' () = (Ok ?c, ())" by (simp add: sample_client_def)
  have off: "?off ?c no_console_update () = ((sample_result, None), ())" by simp
  have st: "console_SetStatus ?k ?c None () = (Ok (), ())"
    unfolding console_SetStatus_def console_SaveSpecState_def console_GetPodStatus_def
    by (simp add: sample_client_def sample_cr_def sample_status_def Let_def)
  have same: "Spec ?c = Spec ?c \<or> CheckIfZoneOrRegionUpdated (ns_Zone (Spec ?c)) (ns_Zone (Spec ?c))" by simp
  from console_update_is_overwritten [where offering = ?off and update = "no_console_update\<lparr>n_specUpdated := True, n_restartNeeded := True\<rparr>",
      OF same get off st]
  show ?thesis by simp
qed

subsection \<open>Config maps to be renewed\<close>

lemma overrides_differ_same: "overrides_differ r r \<noteq> Ok True"
  by (cases r) (simp_all add: overrides_differ_def)

text \<open>When the specification changed while the operator was down, the three config maps of a
  console are flagged only if something they are made of changed: equal inputs flag nothing, and a
  change of the connection string, the system database or the TLS secret alone flags the
  environment.  The check fails on the nil network information of a console that has none, as soon
  as its pull secrets and deployer are unchanged, although the field is optional.\<close>

lemma console_config_map_checks:
  "DeployerCMUpdated js s s \<noteq> Ok True \<and> ConsoleCMUpdated js s s \<noteq> Ok True \<and>
   (\<not> EnvCMUpdated old new \<longleftrightarrow> ns_ConnectionString old = ns_ConnectionString new \<and>
      ns_System old = ns_System new \<and> ns_TLSSecretName old = ns_TLSSecretName new) \<and>
   (ns_NetworkInfo old = None \<or> ns_NetworkInfo new = None \<longrightarrow>
      (DeployerCMUpdated js old new = Panic ''nil pointer dereference'' \<longleftrightarrow>
       ns_ImagePullSecrets old = ns_ImagePullSecrets new \<and> ns_Deployer old = ns_Deployer new))"
proof (intro conjI impI)
  show "DeployerCMUpdated js s s \<noteq> Ok True"
    by (simp add: DeployerCMUpdated_def overrides_differ_same split: option.split)
  show "ConsoleCMUpdated js s s \<noteq> Ok True"
    by (simp add: ConsoleCMUpdated_def overrides_differ_same)
  show "\<not> EnvCMUpdated old new \<longleftrightarrow> ns_ConnectionString old = ns_ConnectionString new \<and>
      ns_System old = ns_System new \<and> ns_TLSSecretName old = ns_TLSSecretName new"
    by (simp add: EnvCMUpdated_def)
next
  assume "ns_NetworkInfo old = None \<or> ns_NetworkInfo new = None"
  then show "DeployerCMUpdated js old new = Panic ''nil pointer dereference'' \<longleftrightarrow>
      ns_ImagePullSecrets old = ns_ImagePullSecrets new \<and> ns_Deployer old = ns_Deployer new"
    by (cases "ns_NetworkInfo old"; cases "ns_NetworkInfo new") (simp_all add: DeployerCMUpdated_def)
qed

definition sample_json :: override_json where
  "sample_json = \<lparr>console_of_json = (\<lambda>s. Fail (Plain s)), deployer_of_json = (\<lambda>s. Fail (Plain s))\<rparr>"

lemma console_config_map_checks_witness:
  "DeployerCMUpdated sample_json sample_console (sample_console\<lparr>ns_Restart := False\<rparr>) =
     Panic ''nil pointer dereference''"
  using console_config_map_checks [of sample_json sample_console sample_console "sample_console\<lparr>ns_Restart := False\<rparr>"]
  by (simp add: sample_console_def)

subsection \<open>Status\<close>

text \<open>A console without any pod is reported as \<open>Deployed\<close>, where a peer or a CA in the same
  situation is \<open>Deploying\<close>.\<close>

lemma console_without_pods:
  assumes "k_selector k (''app='' @ Name i) = None"
    and "k_list_pods k (''app='' @ Name i) (Namespace i) w = (Ok pods, w')"
  shows "console_GetPodStatus k i w = (Ok (\<forall>(n, phase) \<in> set pods. phase = ''Running''), w') \<and>
    (pods = [] \<longrightarrow> console_GetPodStatus k i w = (Ok True, w'))"
  unfolding console_GetPodStatus_def assms option.case bind_r_simps by (auto simp: list_all_iff)

lemma console_without_pods_witness:
  "console_GetPodStatus ((sample_client sample_console)\<lparr>k_list_pods := (\<lambda>sel s w. (Ok [], w))\<rparr>)
     (sample_cr sample_console) () = (Ok True, ())"
proof -
  let ?k = "(sample_client sample_console)\<lparr>k_list_pods := (\<lambda>sel s w. (Ok [], w))\<rparr>"
  have "k_selector ?k (''app='' @ Name (sample_cr sample_console)) = None"
    "k_list_pods ?k (''app='' @ Name (sample_cr sample_console)) (Namespace (sample_cr sample_console)) () = (Ok [], ())"
    by (simp_all add: sample_client_def)
  from console_without_pods [OF this] show ?thesis by simp
qed

end
