(* ===== verification/Images.thy ===== *)
theory Images
  imports Version Cluster
begin

text \<open>
  Images of the components and their defaults: \<open>pkg/util/image/image.go\<close>, the \<open>Override\<close> methods of
  \<open>pkg/apis/deployer/deployer.go\<close> and \<open>api/v1beta1\<close>, the table of \<open>operatorconfig/versions.go\<close>, and
  the checks of \<open>pkg/offering/common/reconcilechecks\<close> that keep the images of a specification in
  step with its Fabric version.

  The structs list, for each container, an image, a tag and (in the deployer's structs) a digest in
  three fields; here these are one \<open>image_ref\<close> (one \<open>image_tag\<close>), and a struct is a record with one
  field per container.
\<close>

subsection \<open>pkg/util/image\<close>

definition image_Format :: "string \<Rightarrow> string \<Rightarrow> string" where
  "image_Format img tag =
     (if \<not> has_prefix tag ''sha256:'' then img @ '':'' @ tag else img @ ''@'' @ tag)"

definition GetImage :: "string \<Rightarrow> string \<Rightarrow> string \<Rightarrow> string" where
  "GetImage registryURL img requestedImage =
     (let img = (if requestedImage \<noteq> '''' then requestedImage else img)
      in if img \<noteq> '''' then
           if registryURL = '''' \<or> registryURL = ''no-registry-url'' \<or> registryURL = ''no-registry-url/''
           then img
           else if \<not> str_contains img registryURL then registryURL @ img
           else img
         else img)"

definition GetTag :: "string \<Rightarrow> string \<Rightarrow> string \<Rightarrow> string" where
  "GetTag arch tag requestedTag = (if requestedTag \<noteq> '''' then requestedTag else tag)"

subsection \<open>Sets of images\<close>

record image_ref =
  r_image :: string
  r_tag :: string
  r_digest :: string

record image_tag =
  t_image :: string
  t_tag :: string

record 'r ca_image_set =
  CAInit :: 'r
  CAMain :: 'r
  CAHSM :: 'r
  CAEnroller :: 'r

record 'r orderer_image_set =
  OGRPCWeb :: 'r
  OrdererInit :: 'r
  OrdererMain :: 'r
  OHSM :: 'r
  OEnroller :: 'r

record 'r peer_image_set =
  PeerInit :: 'r
  PeerMain :: 'r
  CouchDB :: 'r
  GRPCWeb :: 'r
  CCLauncher :: 'r
  FileTransfer :: 'r
  Builder :: 'r
  GoEnv :: 'r
  JavaEnv :: 'r
  NodeEnv :: 'r
  PHSM :: 'r
  PEnroller :: 'r

definition no_ref :: image_ref where
  "no_ref = \<lparr>r_image = '''', r_tag = '''', r_digest = ''''\<rparr>"

definition no_tag :: image_tag where
  "no_tag = \<lparr>t_image = '''', t_tag = ''''\<rparr>"

definition ref_override :: "string \<Rightarrow> string \<Rightarrow> image_ref \<Rightarrow> image_ref \<Rightarrow> image_ref" where
  "ref_override registryURL arch i requested =
     \<lparr>r_image = GetImage registryURL (r_image i) (r_image requested),
      r_tag = GetTag arch (r_tag i) (r_tag requested),
      r_digest = GetTag arch (r_digest i) (r_digest requested)\<rparr>"

definition tag_override :: "string \<Rightarrow> string \<Rightarrow> image_tag \<Rightarrow> image_tag \<Rightarrow> image_tag" where
  "tag_override registryURL arch i requested =
     \<lparr>t_image = GetImage registryURL (t_image i) (t_image requested),
      t_tag = GetTag arch (t_tag i) (t_tag requested)\<rparr>"

definition ca_zip :: "('a \<Rightarrow> 'b \<Rightarrow> 'c) \<Rightarrow> 'a ca_image_set \<Rightarrow> 'b ca_image_set \<Rightarrow> 'c ca_image_set" where
  "ca_zip f i r = \<lparr>CAInit = f (CAInit i) (CAInit r), CAMain = f (CAMain i) (CAMain r),
     CAHSM = f (CAHSM i) (CAHSM r), CAEnroller = f (CAEnroller i) (CAEnroller r)\<rparr>"

definition orderer_zip ::
  "('a \<Rightarrow> 'b \<Rightarrow> 'c) \<Rightarrow> 'a orderer_image_set \<Rightarrow> 'b orderer_image_set \<Rightarrow> 'c orderer_image_set" where
  "orderer_zip f i r = \<lparr>OGRPCWeb = f (OGRPCWeb i) (OGRPCWeb r),
     OrdererInit = f (OrdererInit i) (OrdererInit r), OrdererMain = f (OrdererMain i) (OrdererMain r),
     OHSM = f (OHSM i) (OHSM r), OEnroller = f (OEnroller i) (OEnroller r)\<rparr>"

definition peer_zip ::
  "('a \<Rightarrow> 'b \<Rightarrow> 'c) \<Rightarrow> 'a peer_image_set \<Rightarrow> 'b peer_image_set \<Rightarrow> 'c peer_image_set" where
  "peer_zip f i r = \<lparr>PeerInit = f (PeerInit i) (PeerInit r), PeerMain = f (PeerMain i) (PeerMain r),
     CouchDB = f (CouchDB i) (CouchDB r), GRPCWeb = f (GRPCWeb i) (GRPCWeb r),
     CCLauncher = f (CCLauncher i) (CCLauncher r), FileTransfer = f (FileTransfer i) (FileTransfer r),
     Builder = f (Builder i) (Builder r), GoEnv = f (GoEnv i) (GoEnv r),
     JavaEnv = f (JavaEnv i) (JavaEnv r), NodeEnv = f (NodeEnv i) (NodeEnv r),
     PHSM = f (PHSM i) (PHSM r), PEnroller = f (PEnroller i) (PEnroller r)\<rparr>"

definition no_ca_images :: "'r \<Rightarrow> 'r ca_image_set" where
  "no_ca_images z = \<lparr>CAInit = z, CAMain = z, CAHSM = z, CAEnroller = z\<rparr>"

definition no_orderer_images :: "'r \<Rightarrow> 'r orderer_image_set" where
  "no_orderer_images z = \<lparr>OGRPCWeb = z, OrdererInit = z, OrdererMain = z, OHSM = z, OEnroller = z\<rparr>"

definition no_peer_images :: "'r \<Rightarrow> 'r peer_image_set" where
  "no_peer_images z = \<lparr>PeerInit = z, PeerMain = z, CouchDB = z, GRPCWeb = z, CCLauncher = z,
     FileTransfer = z, Builder = z, GoEnv = z, JavaEnv = z, NodeEnv = z, PHSM = z, PEnroller = z\<rparr>"

text \<open>The \<open>Override\<close> methods of the deployer's structs; a nil request is \<open>None\<close>.\<close>

definition CAImages_Override ::
  "image_ref ca_image_set \<Rightarrow> image_ref ca_image_set option \<Rightarrow> string \<Rightarrow> string \<Rightarrow> image_ref ca_image_set" where
  "CAImages_Override i requested registryURL arch =
     ca_zip (ref_override registryURL arch) i
       (case requested of None \<Rightarrow> no_ca_images no_ref | Some r \<Rightarrow> r)"

definition PeerImages_Override ::
  "image_ref peer_image_set \<Rightarrow> image_ref peer_image_set option \<Rightarrow> string \<Rightarrow> string \<Rightarrow> image_ref peer_image_set" where
  "PeerImages_Override i requested registryURL arch =
     peer_zip (ref_override registryURL arch) i
       (case requested of None \<Rightarrow> no_peer_images no_ref | Some r \<Rightarrow> r)"

definition OrdererImages_Override ::
  "image_ref orderer_image_set \<Rightarrow> image_ref orderer_image_set option \<Rightarrow> string \<Rightarrow> string \<Rightarrow>
     image_ref orderer_image_set" where
  "OrdererImages_Override i requested registryURL arch =
     orderer_zip (ref_override registryURL arch) i
       (case requested of None \<Rightarrow> no_orderer_images no_ref | Some r \<Rightarrow> r)"

text \<open>The methods of the same names in \<open>api/v1beta1\<close>.\<close>

definition api_CAImages_Override ::
  "image_tag ca_image_set \<Rightarrow> image_tag ca_image_set option \<Rightarrow> string \<Rightarrow> string \<Rightarrow> image_tag ca_image_set" where
  "api_CAImages_Override i requested registryURL arch =
     ca_zip (tag_override registryURL arch) i
       (case requested of None \<Rightarrow> no_ca_images no_tag | Some r \<Rightarrow> r)"

definition api_PeerImages_Override ::
  "image_tag peer_image_set \<Rightarrow> image_tag peer_image_set option \<Rightarrow> string \<Rightarrow> string \<Rightarrow> image_tag peer_image_set" where
  "api_PeerImages_Override i requested registryURL arch =
     peer_zip (tag_override registryURL arch) i
       (case requested of None \<Rightarrow> no_peer_images no_tag | Some r \<Rightarrow> r)"

definition api_OrdererImages_Override ::
  "image_tag orderer_image_set \<Rightarrow> image_tag orderer_image_set option \<Rightarrow> string \<Rightarrow> string \<Rightarrow>
     image_tag orderer_image_set" where
  "api_OrdererImages_Override i requested registryURL arch =
     orderer_zip (tag_override registryURL arch) i
       (case requested of None \<Rightarrow> no_orderer_images no_tag | Some r \<Rightarrow> r)"

subsection \<open>Tables of versions\<close>

record 'i image_version =
  iv_Default :: bool
  iv_Version :: string
  iv_Image :: 'i

record deployer_versions =
  dv_CA :: "image_ref ca_image_set image_version gomap"
  dv_Peer :: "image_ref peer_image_set image_version gomap"
  dv_Orderer :: "image_ref orderer_image_set image_version gomap"

text \<open>One of the three loops of \<open>Versions.Override\<close>: every entry starts from the zero struct.\<close>

definition override_table ::
  "('i \<Rightarrow> 'i option \<Rightarrow> string \<Rightarrow> string \<Rightarrow> 'i) \<Rightarrow> 'i \<Rightarrow> string \<Rightarrow> string \<Rightarrow>
     'i image_version gomap \<Rightarrow> 'i image_version gomap \<Rightarrow> 'i image_version gomap" where
  "override_table ovr zero registryURL arch requested old =
     (if length requested \<noteq> 0 then
        map (\<lambda>(key, v). (key, \<lparr>iv_Default = iv_Default v, iv_Version = iv_Version v,
                              iv_Image = ovr zero (Some (iv_Image v)) registryURL arch\<rparr>)) requested
      else old)"

definition Versions_Override ::
  "deployer_versions \<Rightarrow> deployer_versions option \<Rightarrow> string \<Rightarrow> string \<Rightarrow> deployer_versions" where
  "Versions_Override v requestedVersions registryURL arch =
     (case requestedVersions of
        None \<Rightarrow> v
      | Some r \<Rightarrow>
          \<lparr>dv_CA = override_table CAImages_Override (no_ca_images no_ref) registryURL arch (dv_CA r) (dv_CA v),
           dv_Peer = override_table PeerImages_Override (no_peer_images no_ref) registryURL arch (dv_Peer r) (dv_Peer v),
           dv_Orderer = override_table OrdererImages_Override (no_orderer_images no_ref) registryURL arch
             (dv_Orderer r) (dv_Orderer v)\<rparr>)"

text \<open>\<open>operatorconfig/versions.go\<close>.\<close>

definition InitImage :: string where "InitImage = ''registry.access.redhat.com/ubi8/ubi-minimal''"
definition LatestTag :: string where "LatestTag = ''latest''"
definition FabricCAVersion :: string where "FabricCAVersion = ''1.5.11''"
definition DefaultFabricVersion :: string where "DefaultFabricVersion = ''2.5.8''"

definition getDefaultVersions :: deployer_versions where
  "getDefaultVersions = \<lparr>
     dv_CA = [(''1.5.11-1'', \<lparr>iv_Default = True, iv_Version = ''1.5.11-1'', iv_Image =
       (no_ca_images no_ref)\<lparr>CAInit := no_ref\<lparr>r_image := InitImage, r_tag := LatestTag\<rparr>,
         CAMain := no_ref\<lparr>r_image := ''hyperledger/fabric-ca'', r_tag := FabricCAVersion\<rparr>\<rparr>\<rparr>)],
     dv_Peer = [(''2.5.8-1'', \<lparr>iv_Default = True, iv_Version = ''2.5.8-1'', iv_Image =
       (no_peer_images no_ref)\<lparr>PeerInit := no_ref\<lparr>r_image := InitImage, r_tag := LatestTag\<rparr>,
         PeerMain := no_ref\<lparr>r_image := ''hyperledger/fabric-peer'', r_tag := DefaultFabricVersion\<rparr>,
         CouchDB := no_ref\<lparr>r_image := ''couchdb'', r_tag := ''3.3.3''\<rparr>,
         GRPCWeb := no_ref\<lparr>r_image := ''ghcr.io/hyperledger-labs/grpc-web'', r_tag := LatestTag\<rparr>\<rparr>\<rparr>)],
     dv_Orderer = [(''2.5.8-1'', \<lparr>iv_Default = True, iv_Version = ''2.5.8-1'', iv_Image =
       (no_orderer_images no_ref)\<lparr>OrdererInit := no_ref\<lparr>r_image := InitImage, r_tag := LatestTag\<rparr>,
         OrdererMain := no_ref\<lparr>r_image := ''hyperledger/fabric-orderer'', r_tag := DefaultFabricVersion\<rparr>,
         OGRPCWeb := no_ref\<lparr>r_image := ''ghcr.io/hyperledger-labs/grpc-web'', r_tag := LatestTag\<rparr>\<rparr>\<rparr>)]\<rparr>"

subsection \<open>Facts\<close>

lemma GetImage_idem: "GetImage registryURL (GetImage registryURL i r) '''' = GetImage registryURL i r"
  by (auto simp: GetImage_def Let_def str_contains_iff)

lemma ref_override_idem:
  "ref_override registryURL arch (ref_override registryURL arch i r) no_ref = ref_override registryURL arch i r"
  by (simp add: ref_override_def no_ref_def GetImage_idem GetTag_def)

lemma tag_override_idem:
  "tag_override registryURL arch (tag_override registryURL arch i r) no_tag = tag_override registryURL arch i r"
  by (simp add: tag_override_def no_tag_def GetImage_idem GetTag_def)

text \<open>Overriding default images is stable: once the requested images are in and the registry is
  prepended, doing it again with no request changes nothing, for each of the three components, and
  a requested image, tag or digest always wins over the default.\<close>

lemma image_override_stable:
  "CAImages_Override (CAImages_Override ca rca registryURL arch) None registryURL arch =
     CAImages_Override ca rca registryURL arch \<and>
   PeerImages_Override (PeerImages_Override peer rpeer registryURL arch) None registryURL arch =
     PeerImages_Override peer rpeer registryURL arch \<and>
   OrdererImages_Override (OrdererImages_Override orderer rorderer registryURL arch) None registryURL arch =
     OrdererImages_Override orderer rorderer registryURL arch \<and>
   api_PeerImages_Override (api_PeerImages_Override apeer rapeer registryURL arch) None registryURL arch =
     api_PeerImages_Override apeer rapeer registryURL arch \<and>
   r_tag (PeerMain (PeerImages_Override peer (Some r) registryURL arch)) =
     (if r_tag (PeerMain r) = '''' then r_tag (PeerMain peer) else r_tag (PeerMain r))"
  by (simp add: CAImages_Override_def PeerImages_Override_def OrdererImages_Override_def
      api_PeerImages_Override_def ca_zip_def peer_zip_def orderer_zip_def no_ca_images_def
      no_peer_images_def no_orderer_images_def ref_override_idem tag_override_idem)
    (simp add: ref_override_def GetTag_def)

end
