(* ===== verification/FabricVersions.thy ===== *)
theory FabricVersions
  imports Images
begin

text \<open>
  The checks on Fabric version and images that every offering makes before it creates anything,
  \<open>pkg/offering/common/reconcilechecks/fabricversion.go\<close> and its package \<open>images\<close>.  The code takes the
  instance, the update and the two checkers as interfaces; the locale \<open>version_checks\<close> states what
  the checkers owe the caller, and it is interpreted on the code's own \<open>Image\<close> and \<open>FabricVersion\<close>.

  An instance is seen through the interface \<open>Instance\<close>: the record \<open>view\<close> has the fields its methods
  read and write, and the images of the specification.
\<close>

record 'i view =
  vw_FabricVersion :: string
  vw_Arch :: "string list"
  vw_RegistryURL :: string
  vw_Images :: "'i option"

datatype instance_view =
    CAInstance "image_tag ca_image_set view"
  | PeerInstance "image_tag peer_image_set view"
  | OrdererInstance "image_tag orderer_image_set view"

fun GetFabricVersion :: "instance_view \<Rightarrow> string" where
  "GetFabricVersion (CAInstance i) = vw_FabricVersion i"
| "GetFabricVersion (PeerInstance i) = vw_FabricVersion i"
| "GetFabricVersion (OrdererInstance i) = vw_FabricVersion i"

fun SetFabricVersion :: "string \<Rightarrow> instance_view \<Rightarrow> instance_view" where
  "SetFabricVersion v (CAInstance i) = CAInstance (i\<lparr>vw_FabricVersion := v\<rparr>)"
| "SetFabricVersion v (PeerInstance i) = PeerInstance (i\<lparr>vw_FabricVersion := v\<rparr>)"
| "SetFabricVersion v (OrdererInstance i) = OrdererInstance (i\<lparr>vw_FabricVersion := v\<rparr>)"

fun ImagesSet :: "instance_view \<Rightarrow> bool" where
  "ImagesSet (CAInstance i) = (vw_Images i \<noteq> None)"
| "ImagesSet (PeerInstance i) = (vw_Images i \<noteq> None)"
| "ImagesSet (OrdererInstance i) = (vw_Images i \<noteq> None)"

record version_update =
  vu_ImagesUpdated :: bool
  vu_FabricVersionUpdated :: bool

subsection \<open>Package images\<close>

record image_defaults =
  id_Versions :: deployer_versions
  id_DefaultRegistryURL :: string
  id_DefaultArch :: string

definition UpdateRequired :: "version_update \<Rightarrow> bool" where
  "UpdateRequired update =
     (if vu_ImagesUpdated update then False
      else if \<not> vu_ImagesUpdated update \<and> \<not> vu_FabricVersionUpdated update then False
      else if vu_FabricVersionUpdated update then True
      else False)"

text \<open>
  The images of the table go to the specification through JSON, which keeps images and tags and
  drops the digests, for which the specification has no fields.
\<close>

definition to_tag :: "image_ref \<Rightarrow> image_tag" where
  "to_tag r = \<lparr>t_image = r_image r, t_tag = r_tag r\<rparr>"

definition no_defaults :: "string \<Rightarrow> string \<Rightarrow> go_error" where
  "no_defaults component fabricVersion = Plain (''no default '' @ component @
     '' images defined for fabric version '' @ [CHR 0x27] @ fabricVersion @ [CHR 0x27])"

definition setDefaultCAImages ::
  "image_tag ca_image_set view \<Rightarrow> string \<Rightarrow> string \<Rightarrow> image_ref ca_image_set image_version gomap \<Rightarrow>
     image_tag ca_image_set view go_result" where
  "setDefaultCAImages i arch registryURL versions =
     (case map_of versions (vw_FabricVersion i) of
        None \<Rightarrow> Fail (no_defaults ''CA'' (vw_FabricVersion i))
      | Some v \<Rightarrow>
          let image = CAImages_Override (iv_Image v) None registryURL arch
          in Ok (i\<lparr>vw_Images := Some (ca_zip (\<lambda>r _. to_tag r) image image)\<rparr>))"

definition setDefaultPeerImages ::
  "image_tag peer_image_set view \<Rightarrow> string \<Rightarrow> string \<Rightarrow> image_ref peer_image_set image_version gomap \<Rightarrow>
     image_tag peer_image_set view go_result" where
  "setDefaultPeerImages i arch registryURL versions =
     (case map_of versions (vw_FabricVersion i) of
        None \<Rightarrow> Fail (no_defaults ''Peer'' (vw_FabricVersion i))
      | Some v \<Rightarrow>
          let image = PeerImages_Override (iv_Image v) None registryURL arch
          in Ok (i\<lparr>vw_Images := Some (peer_zip (\<lambda>r _. to_tag r) image image)\<rparr>))"

definition setDefaultOrdererImages ::
  "image_tag orderer_image_set view \<Rightarrow> string \<Rightarrow> string \<Rightarrow>
     image_ref orderer_image_set image_version gomap \<Rightarrow> image_tag orderer_image_set view go_result" where
  "setDefaultOrdererImages i arch registryURL versions =
     (case map_of versions (vw_FabricVersion i) of
        None \<Rightarrow> Fail (no_defaults ''Orderer'' (vw_FabricVersion i))
      | Some v \<Rightarrow>
          let image = OrdererImages_Override (iv_Image v) None registryURL arch
          in Ok (i\<lparr>vw_Images := Some (orderer_zip (\<lambda>r _. to_tag r) image image)\<rparr>))"

text \<open>The architecture and the registry of an instance, with the defaults and the final slash.\<close>

definition view_arch :: "image_defaults \<Rightarrow> 'i view \<Rightarrow> string" where
  "view_arch d i = (if 0 < length (vw_Arch i) then vw_Arch i ! 0 else id_DefaultArch d)"

definition view_registry :: "image_defaults \<Rightarrow> 'i view \<Rightarrow> string" where
  "view_registry d i =
     (let url = (if vw_RegistryURL i \<noteq> '''' then vw_RegistryURL i else id_DefaultRegistryURL d)
      in if url \<noteq> '''' \<and> \<not> has_suffix url ''/'' then url @ ''/'' else url)"

definition SetDefaults :: "image_defaults \<Rightarrow> instance_view \<Rightarrow> instance_view go_result" where
  "SetDefaults d inst =
     (if \<not> str_contains (GetFabricVersion inst) ''-'' then
        Fail (Plain (''fabric version format '' @ [CHR 0x27] @ GetFabricVersion inst @ [CHR 0x27] @
          '' is not valid, must pass hyphenated version (e.g. 2.2.1-1)''))
      else (case inst of
          CAInstance i \<Rightarrow>
            seq_r (setDefaultCAImages i (view_arch d i) (view_registry d i) (dv_CA (id_Versions d)))
              (\<lambda>i. Ok (CAInstance i))
        | PeerInstance i \<Rightarrow>
            seq_r (setDefaultPeerImages i (view_arch d i) (view_registry d i) (dv_Peer (id_Versions d)))
              (\<lambda>i. Ok (PeerInstance i))
        | OrdererInstance i \<Rightarrow>
            seq_r (setDefaultOrdererImages i (view_arch d i) (view_registry d i) (dv_Orderer (id_Versions d)))
              (\<lambda>i. Ok (OrdererInstance i))))"

text \<open>The loop over the table, in the order \<open>ks\<close> of the visit.\<close>

fun find_default :: "string \<Rightarrow> 'i image_version gomap \<Rightarrow> string list \<Rightarrow> string" where
  "find_default fabricVersion versions [] = fabricVersion"
| "find_default fabricVersion versions (k # ks) =
     (case map_of versions k of
        Some config \<Rightarrow>
          if has_prefix k fabricVersion \<and> iv_Default config then k
          else find_default fabricVersion versions ks
      | None \<Rightarrow> find_default fabricVersion versions ks)"

definition normalizeFabricVersion :: "string \<Rightarrow> 'i image_version gomap \<Rightarrow> string list \<Rightarrow> string" where
  "normalizeFabricVersion fabricVersion versions ks =
     (if \<not> str_contains fabricVersion ''-'' then find_default fabricVersion versions ks
      else fabricVersion)"

record version_visit =
  vv_CA :: "image_ref ca_image_set image_version gomap \<Rightarrow> string list"
  vv_Peer :: "image_ref peer_image_set image_version gomap \<Rightarrow> string list"
  vv_Orderer :: "image_ref orderer_image_set image_version gomap \<Rightarrow> string list"

fun Normalize :: "deployer_versions \<Rightarrow> version_visit \<Rightarrow> instance_view \<Rightarrow> string" where
  "Normalize vs v (CAInstance i) = normalizeFabricVersion (vw_FabricVersion i) (dv_CA vs) (vv_CA v (dv_CA vs))"
| "Normalize vs v (PeerInstance i) = normalizeFabricVersion (vw_FabricVersion i) (dv_Peer vs) (vv_Peer v (dv_Peer vs))"
| "Normalize vs v (OrdererInstance i) =
     normalizeFabricVersion (vw_FabricVersion i) (dv_Orderer vs) (vv_Orderer v (dv_Orderer vs))"

definition unsupported_version :: "string \<Rightarrow> string \<Rightarrow> go_error" where
  "unsupported_version component fabricVersion = Plain (''fabric version '' @ [CHR 0x27] @
     fabricVersion @ [CHR 0x27] @ '' is not supported for '' @ component)"

fun Validate :: "deployer_versions \<Rightarrow> instance_view \<Rightarrow> unit go_result" where
  "Validate vs (CAInstance i) =
     (if map_of (dv_CA vs) (vw_FabricVersion i) = None
      then Fail (unsupported_version ''CA'' (vw_FabricVersion i)) else Ok ())"
| "Validate vs (PeerInstance i) =
     (if map_of (dv_Peer vs) (vw_FabricVersion i) = None
      then Fail (unsupported_version ''Peer'' (vw_FabricVersion i)) else Ok ())"
| "Validate vs (OrdererInstance i) =
     (if map_of (dv_Orderer vs) (vw_FabricVersion i) = None
      then Fail (unsupported_version ''Orderer'' (vw_FabricVersion i)) else Ok ())"

subsection \<open>Package reconcilechecks\<close>

text \<open>
  \<open>FabricVersion\<close>, with the two checkers as functions.  The instance is returned beside the result:
  it is changed in place, also when the call then fails.
\<close>

definition FabricVersion_check ::
  "(version_update \<Rightarrow> bool) \<Rightarrow> (instance_view \<Rightarrow> instance_view go_result) \<Rightarrow>
   (instance_view \<Rightarrow> string) \<Rightarrow> (instance_view \<Rightarrow> unit go_result) \<Rightarrow>
   version_update \<Rightarrow> instance_view \<Rightarrow> bool go_result \<times> instance_view" where
  "FabricVersion_check required defaults normal validate update inst =
     (if GetFabricVersion inst = '''' then (Fail (Plain ''fabric version is not set''), inst)
      else if vu_FabricVersionUpdated update \<and> IsMigratedFabricVersion (GetFabricVersion inst)
      then (Ok False, inst)
      else if ImagesSet inst \<and> \<not> required update then (Ok False, inst)
      else
        let inst = (if GetFabricVersion inst \<noteq> normal inst
                    then SetFabricVersion (normal inst) inst else inst)
        in (case validate inst of
              Fail e \<Rightarrow> (Fail e, inst)
            | Panic p \<Rightarrow> (Panic p, inst)
            | Ok _ \<Rightarrow>
                (case defaults inst of
                   Fail e \<Rightarrow> (Fail e, inst)
                 | Panic p \<Rightarrow> (Panic p, inst)
                 | Ok inst \<Rightarrow> (Ok True, inst))))"

definition helper_defaults :: "deployer_versions \<Rightarrow> image_defaults" where
  "helper_defaults vs = \<lparr>id_Versions = vs, id_DefaultRegistryURL = '''', id_DefaultArch = ''amd64''\<rparr>"

definition FabricVersionHelper ::
  "deployer_versions \<Rightarrow> version_visit \<Rightarrow> version_update \<Rightarrow> instance_view \<Rightarrow> bool go_result \<times> instance_view" where
  "FabricVersionHelper vs v update inst =
     FabricVersion_check UpdateRequired (SetDefaults (helper_defaults vs)) (Normalize vs v) (Validate vs)
       update inst"

subsection \<open>The contract of the checkers\<close>

lemma view_methods [simp]:
  "GetFabricVersion (SetFabricVersion v i) = v"
  "ImagesSet (SetFabricVersion v i) = ImagesSet i"
  "SetFabricVersion v (SetFabricVersion v' i) = SetFabricVersion v i"
  by (cases i; simp)+

locale version_checks =
  fixes required :: "version_update \<Rightarrow> bool"
    and defaults :: "instance_view \<Rightarrow> instance_view go_result"
    and normal :: "instance_view \<Rightarrow> string"
    and validate :: "instance_view \<Rightarrow> unit go_result"
  assumes images_win: "vu_ImagesUpdated u \<Longrightarrow> \<not> required u"
    and nothing_new: "\<not> vu_ImagesUpdated u \<Longrightarrow> required u \<longleftrightarrow> vu_FabricVersionUpdated u"
    and defaults_set: "defaults i = Ok i' \<Longrightarrow> ImagesSet i' \<and> GetFabricVersion i' = GetFabricVersion i"
    and defaults_valid: "defaults i = Ok i' \<Longrightarrow> validate i' = validate i"
begin

text \<open>Whatever is reported as changed has images, and is left alone when nothing new is detected.\<close>

lemma changed_settles:
  assumes "FabricVersion_check required defaults normal validate u i = (Ok True, i')"
  shows "ImagesSet i' \<and> validate i' = Ok () \<and> GetFabricVersion i' = normal i"
proof -
  let ?i = "if GetFabricVersion i \<noteq> normal i then SetFabricVersion (normal i) i else i"
  from assms have ok: "validate ?i = Ok ()" and d: "defaults ?i = Ok i'"
    by (auto simp: FabricVersion_check_def Let_def split: if_splits go_result.splits)
  have "GetFabricVersion ?i = normal i" by simp
  with defaults_set [OF d] defaults_valid [OF d] ok show ?thesis by simp
qed

lemma quiet_update:
  assumes "\<not> vu_FabricVersionUpdated u" and "ImagesSet i" and "GetFabricVersion i \<noteq> ''''"
  shows "FabricVersion_check required defaults normal validate u i = (Ok False, i)"
  using assms images_win [of u] nothing_new [of u] by (auto simp: FabricVersion_check_def)

lemma own_images_kept:
  assumes "vu_ImagesUpdated u" and "ImagesSet i" and "GetFabricVersion i \<noteq> ''''"
  shows "FabricVersion_check required defaults normal validate u i = (Ok False, i)"
  using assms images_win [of u] by (auto simp: FabricVersion_check_def)

end

lemma SetDefaults_Ok:
  assumes "SetDefaults d i = Ok i'"
  shows "ImagesSet i' \<and> GetFabricVersion i' = GetFabricVersion i \<and> Validate vs i' = Validate vs i"
proof (cases i)
  case (CAInstance c)
  with assms show ?thesis
    by (auto simp: SetDefaults_def setDefaultCAImages_def Let_def split: if_splits option.splits)
next
  case (PeerInstance c)
  with assms show ?thesis
    by (auto simp: SetDefaults_def setDefaultPeerImages_def Let_def split: if_splits option.splits)
next
  case (OrdererInstance c)
  with assms show ?thesis
    by (auto simp: SetDefaults_def setDefaultOrdererImages_def Let_def split: if_splits option.splits)
qed

interpretation helper_checks:
  version_checks UpdateRequired "SetDefaults (helper_defaults vs)" "Normalize vs v" "Validate vs" for vs v
proof
  show "vu_ImagesUpdated u \<Longrightarrow> \<not> UpdateRequired u" for u by (simp add: UpdateRequired_def)
  show "\<not> vu_ImagesUpdated u \<Longrightarrow> UpdateRequired u \<longleftrightarrow> vu_FabricVersionUpdated u" for u
    by (simp add: UpdateRequired_def)
  show "SetDefaults (helper_defaults vs) i = Ok i' \<Longrightarrow>
      ImagesSet i' \<and> GetFabricVersion i' = GetFabricVersion i" for i i'
    using SetDefaults_Ok by blast
  show "SetDefaults (helper_defaults vs) i = Ok i' \<Longrightarrow> Validate vs i' = Validate vs i" for i i'
    using SetDefaults_Ok by blast
qed

end
