(* ===== verification/FabricVersionProps.thy ===== *)
theory FabricVersionProps
  imports FabricVersions
begin

text \<open>Properties of the checks on Fabric version and images.\<close>

lemma SetDefaults_version:
  assumes "SetDefaults d i = Ok i'"
  shows "str_contains (GetFabricVersion i') ''-'' \<and> GetFabricVersion i' \<noteq> ''''"
proof -
  from assms have "str_contains (GetFabricVersion i) ''-''"
    by (auto simp: SetDefaults_def split: if_splits)
  then show ?thesis using SetDefaults_Ok [OF assms] by auto
qed

lemma helper_changed:
  assumes "FabricVersionHelper vs v u i = (Ok True, i')"
  shows "ImagesSet i' \<and> Validate vs i' = Ok () \<and> str_contains (GetFabricVersion i') ''-'' \<and>
    GetFabricVersion i' \<noteq> ''''"
proof -
  note helper_checks.changed_settles [OF assms [unfolded FabricVersionHelper_def]]
  moreover obtain j where "SetDefaults (helper_defaults vs) j = Ok i'"
    using assms
    by (auto simp: FabricVersionHelper_def FabricVersion_check_def Let_def split: if_splits go_result.splits)
  ultimately show ?thesis using SetDefaults_version by blast
qed

text \<open>The check that fills in default images settles after one change.  When it reports a
  change, the instance has images, its version is hyphenated and one of the operator's table, and
  checking it again changes nothing, neither when nothing new is detected nor when the images just
  written are detected as an update.\<close>

lemma image_check_settles:
  assumes "FabricVersionHelper vs v u i = (Ok True, i')"
    and "vu_ImagesUpdated u' \<or> \<not> vu_FabricVersionUpdated u'"
  shows "ImagesSet i' \<and> Validate vs i' = Ok () \<and> str_contains (GetFabricVersion i') ''-'' \<and>
    FabricVersionHelper vs v u' i' = (Ok False, i')"
  using helper_changed [OF assms(1)] assms(2) helper_checks.quiet_update [of u' i' vs v]
    helper_checks.own_images_kept [of u' i' vs v]
  by (auto simp: FabricVersionHelper_def)

definition table_order :: version_visit where
  "table_order = \<lparr>vv_CA = keys, vv_Peer = keys, vv_Orderer = keys\<rparr>"

definition fresh_peer :: "string \<Rightarrow> instance_view" where
  "fresh_peer fabricVersion = PeerInstance \<lparr>vw_FabricVersion = fabricVersion, vw_Arch = [],
     vw_RegistryURL = ''registry.example.com'', vw_Images = None\<rparr>"

lemma image_check_settles_witness:
  "FabricVersionHelper getDefaultVersions table_order \<lparr>vu_ImagesUpdated = True, vu_FabricVersionUpdated = True\<rparr>
     (snd (FabricVersionHelper getDefaultVersions table_order
        \<lparr>vu_ImagesUpdated = False, vu_FabricVersionUpdated = False\<rparr> (fresh_peer ''2.5.8''))) =
   (Ok False, snd (FabricVersionHelper getDefaultVersions table_order
        \<lparr>vu_ImagesUpdated = False, vu_FabricVersionUpdated = False\<rparr> (fresh_peer ''2.5.8'')))"
proof -
  let ?run = "FabricVersionHelper getDefaultVersions table_order
      \<lparr>vu_ImagesUpdated = False, vu_FabricVersionUpdated = False\<rparr> (fresh_peer ''2.5.8'')"
  have ok: "fst ?run = Ok True" by code_simp
  have run: "?run = (Ok True, snd ?run)"
    by (intro prod_eqI) (simp_all only: ok fst_conv snd_conv)
  have upd: "vu_ImagesUpdated \<lparr>vu_ImagesUpdated = True, vu_FabricVersionUpdated = True\<rparr> \<or>
      \<not> vu_FabricVersionUpdated \<lparr>vu_ImagesUpdated = True, vu_FabricVersionUpdated = True\<rparr>" by simp
  from image_check_settles [OF run upd] show ?thesis by blast
qed

lemma find_default_cases:
  "find_default fv versions ks = fv \<and>
      (\<forall>k \<in> set ks. \<forall>c. map_of versions k = Some c \<longrightarrow> \<not> (has_prefix k fv \<and> iv_Default c)) \<or>
   find_default fv versions ks \<in> set ks \<and> has_prefix (find_default fv versions ks) fv \<and>
      (\<exists>c. map_of versions (find_default fv versions ks) = Some c \<and> iv_Default c)"
  by (induction ks) (auto split: option.split)

text \<open>How a Fabric version without a tag is completed.  A hyphenated version is kept; any other
  is replaced by a default entry of the table that has it as a prefix, if there is one, in whatever
  order the table is visited.  The prefix is compared as text: with the operator's own table, the
  CA version 1.5.1 becomes 1.5.11-1.\<close>

lemma version_completed_by_prefix:
  assumes "set ks = set (keys versions)"
  shows "(str_contains fv ''-'' \<longrightarrow> normalizeFabricVersion fv versions ks = fv) \<and>
    (\<not> str_contains fv ''-'' \<longrightarrow>
       (if \<exists>k c. map_of versions k = Some c \<and> iv_Default c \<and> has_prefix k fv
        then \<exists>c. map_of versions (normalizeFabricVersion fv versions ks) = Some c \<and> iv_Default c \<and>
               has_prefix (normalizeFabricVersion fv versions ks) fv
        else normalizeFabricVersion fv versions ks = fv)) \<and>
    normalizeFabricVersion ''1.5.1'' (dv_CA getDefaultVersions) [''1.5.11-1''] = ''1.5.11-1''"
proof -
  have "k \<in> set ks" if "map_of versions k = Some c" for k c
    using that assms by (force dest: map_of_SomeD)
  moreover have "normalizeFabricVersion ''1.5.1'' (dv_CA getDefaultVersions) [''1.5.11-1''] = ''1.5.11-1''"
    by code_simp
  ultimately show ?thesis
    using find_default_cases [of fv versions ks] by (auto simp: normalizeFabricVersion_def)
qed

lemma version_completed_by_prefix_witness:
  "normalizeFabricVersion ''2.5'' (dv_Peer getDefaultVersions) [''2.5.8-1''] = ''2.5.8-1''"
proof -
  let ?t = "dv_Peer getDefaultVersions"
  have keys: "set [''2.5.8-1''] = set (keys ?t)" by (simp add: getDefaultVersions_def)
  have "\<not> str_contains ''2.5'' ''-''" by code_simp
  moreover have "\<exists>k c. map_of ?t k = Some c \<and> iv_Default c \<and> has_prefix k ''2.5''"
    by (rule exI [of _ "''2.5.8-1''"]) (simp add: getDefaultVersions_def has_prefix_def)
  ultimately obtain c where "map_of ?t (normalizeFabricVersion ''2.5'' ?t [''2.5.8-1'']) = Some c"
    using version_completed_by_prefix [OF keys, of "''2.5''"] by auto
  then show ?thesis by (auto simp: getDefaultVersions_def split: if_splits)
qed

text \<open>Images the user set are never replaced by the check: as long as the specification has
  images, only a change of the Fabric version that came without a change of the images lets the
  defaults in.\<close>

lemma own_images_survive:
  assumes "ImagesSet i" and "FabricVersionHelper vs v u i = (r, i')" and "i' \<noteq> i"
  shows "vu_FabricVersionUpdated u \<and> \<not> vu_ImagesUpdated u \<and> \<not> IsMigratedFabricVersion (GetFabricVersion i)"
  using assms
  by (auto simp: FabricVersionHelper_def FabricVersion_check_def UpdateRequired_def split: if_splits)

definition set_peer :: instance_view where
  "set_peer = PeerInstance \<lparr>vw_FabricVersion = ''2.5.8'', vw_Arch = [], vw_RegistryURL = '''',
     vw_Images = Some (no_peer_images no_tag)\<rparr>"

lemma own_images_survive_witness:
  "\<not> IsMigratedFabricVersion (GetFabricVersion set_peer) \<and>
   GetFabricVersion (snd (FabricVersionHelper getDefaultVersions table_order
      \<lparr>vu_ImagesUpdated = False, vu_FabricVersionUpdated = True\<rparr> set_peer)) = ''2.5.8-1''"
proof -
  let ?run = "FabricVersionHelper getDefaultVersions table_order
      \<lparr>vu_ImagesUpdated = False, vu_FabricVersionUpdated = True\<rparr> set_peer"
  have imgs: "ImagesSet set_peer" by (simp add: set_peer_def)
  have run: "?run = (fst ?run, snd ?run)" by simp
  have version: "GetFabricVersion (snd ?run) = ''2.5.8-1''" by code_simp
  have "snd ?run \<noteq> set_peer"
  proof
    assume "snd ?run = set_peer"
    with version have "GetFabricVersion set_peer = ''2.5.8-1''" by (simp only:)
    then show False by (simp add: set_peer_def)
  qed
  from own_images_survive [OF imgs run this] version show ?thesis by blast
qed

end
