(* ===== verification/Client.thy ===== *)
theory Client
  imports Errors
begin

text \<open>
  The operator's client, \<open>pkg/k8s/controllerclient/client.go\<close>: the layer between every component of
  the operator and the client of controller-runtime, with owner references, the global configuration
  and the patches that are tried again.

  The client below is a parameter, the record \<open>k8s_client\<close>.  An object is passed by pointer and
  the answer of the server is decoded into it, so every operation returns its error beside the object
  as it leaves it.  A patch computed by \<open>MergeFrom(base)\<close> is its base; the options of
  controller-runtime are part of the parameter.
\<close>

datatype 'o ownership = Owned 'o | AlreadyOwnedError | OwnerError go_error

record ('o, 'w) k8s_client =
  kc_name :: "'o \<Rightarrow> string"
  kc_namespace :: "'o \<Rightarrow> string"
  kc_get :: "string \<Rightarrow> string \<Rightarrow> 'w \<Rightarrow> 'o go_result \<times> 'w"
  kc_create :: "'o \<Rightarrow> 'w \<Rightarrow> unit go_result \<times> 'o \<times> 'w"
  kc_update :: "'o \<Rightarrow> 'w \<Rightarrow> unit go_result \<times> 'o \<times> 'w"
  kc_update_status :: "'o \<Rightarrow> 'w \<Rightarrow> unit go_result \<times> 'o \<times> 'w"
  kc_patch :: "'o \<Rightarrow> 'o \<Rightarrow> 'w \<Rightarrow> unit go_result \<times> 'o \<times> 'w"
  kc_patch_status :: "'o \<Rightarrow> 'o \<Rightarrow> 'w \<Rightarrow> unit go_result \<times> 'o \<times> 'w"
  kc_delete :: "'o \<Rightarrow> 'w \<Rightarrow> unit go_result \<times> 'w"
  kc_apply :: "'o \<Rightarrow> 'o"
  kc_controller_ref :: "'o \<Rightarrow> 'o \<Rightarrow> 'o ownership"
  kc_sleep :: "int \<Rightarrow> 'w \<Rightarrow> 'w"

text \<open>\<open>CreateOption\<close> and its likes: the owner, which may be nil, and whether there is a scheme.\<close>

record 'o owner_option =
  oo_Owner :: "'o option"
  oo_Scheme :: bool

definition setControllerReference ::
  "('o, 'w) k8s_client \<Rightarrow> 'o owner_option \<Rightarrow> 'o \<Rightarrow> 'o go_result" where
  "setControllerReference c opt obj =
     (case oo_Owner opt of
        None \<Rightarrow> Ok obj
      | Some owner \<Rightarrow>
          if oo_Scheme opt then
            (case kc_controller_ref c owner obj of
               Owned obj \<Rightarrow> Ok obj
             | AlreadyOwnedError \<Rightarrow> Ok obj
             | OwnerError e \<Rightarrow> Fail (Wrapped ''controller reference error'' e))
          else Ok obj)"

text \<open>The same as a first step of an operation, skipped without options.\<close>

definition with_owner ::
  "('o, 'w) k8s_client \<Rightarrow> 'o owner_option option \<Rightarrow> 'o \<Rightarrow> 'w \<Rightarrow>
     ('o \<Rightarrow> 'w \<Rightarrow> unit go_result \<times> 'o \<times> 'w) \<Rightarrow> unit go_result \<times> 'o \<times> 'w" where
  "with_owner c opts obj w step =
     (case opts of
        None \<Rightarrow> step obj w
      | Some opt \<Rightarrow>
          (case setControllerReference c opt obj of
             Ok obj \<Rightarrow> step obj w
           | Fail e \<Rightarrow> (Fail e, obj, w)
           | Panic p \<Rightarrow> (Panic p, obj, w)))"

definition IgnoreAlreadyExistError :: "go_error \<Rightarrow> unit go_result" where
  "IgnoreAlreadyExistError err =
     (if \<not> str_contains (error_text err) ''already exists'' then Fail err else Ok ())"

definition client_Create ::
  "('o, 'w) k8s_client \<Rightarrow> 'o \<Rightarrow> 'o owner_option option \<Rightarrow> 'w \<Rightarrow> unit go_result \<times> 'o \<times> 'w" where
  "client_Create c obj opts w =
     with_owner c opts (kc_apply c obj) w (\<lambda>obj w.
       (case kc_create c obj w of
          (Fail e, obj, w) \<Rightarrow> (IgnoreAlreadyExistError e, obj, w)
        | r \<Rightarrow> r))"

definition client_Update ::
  "('o, 'w) k8s_client \<Rightarrow> 'o \<Rightarrow> 'o owner_option option \<Rightarrow> 'w \<Rightarrow> unit go_result \<times> 'o \<times> 'w" where
  "client_Update c obj opts w = with_owner c opts (kc_apply c obj) w (kc_update c)"

text \<open>\<open>CreateOrUpdate\<close> sets the owner before the global configuration.\<close>

definition client_CreateOrUpdate ::
  "('o, 'w) k8s_client \<Rightarrow> 'o \<Rightarrow> 'o owner_option option \<Rightarrow> 'w \<Rightarrow> unit go_result \<times> 'o \<times> 'w" where
  "client_CreateOrUpdate c obj opts w =
     with_owner c opts obj w (\<lambda>obj w.
       (case kc_create c (kc_apply c obj) w of
          (Fail e, obj, w) \<Rightarrow> if IsAlreadyExists e then kc_update c obj w else (Fail e, obj, w)
        | r \<Rightarrow> r))"

subsection \<open>Patches that are tried again\<close>

definition resilientPatch ::
  "('o, 'w) k8s_client \<Rightarrow> ('o \<Rightarrow> 'o \<Rightarrow> 'w \<Rightarrow> unit go_result \<times> 'o \<times> 'w) \<Rightarrow> 'o \<Rightarrow> 'w \<Rightarrow> unit go_result \<times> 'o \<times> 'w"
  where
  "resilientPatch c patch obj w =
     (case kc_get c (kc_name c obj) (kc_namespace c obj) w of
        (Fail e, w) \<Rightarrow> (Fail e, obj, w)
      | (Panic p, w) \<Rightarrow> (Panic p, obj, w)
      | (Ok into, w) \<Rightarrow> patch into obj w)"

text \<open>
  The loop of \<open>ResilientPatch\<close> and \<open>ResilientPatchStatus\<close>, from its index \<open>i\<close> on.  An attempt that
  succeeds does not leave the loop.
\<close>

function patch_loop ::
  "('o, 'w) k8s_client \<Rightarrow> ('o \<Rightarrow> 'w \<Rightarrow> unit go_result \<times> 'o \<times> 'w) \<Rightarrow> int \<Rightarrow> int \<Rightarrow> 'o \<Rightarrow> 'w \<Rightarrow>
     unit go_result \<times> 'o \<times> 'w" where
  "patch_loop c attempt retry i obj w =
     (if i < retry then
        (case attempt obj w of
           (Ok _, obj, w) \<Rightarrow> patch_loop c attempt retry (i + 1) obj w
         | (Panic p, obj, w) \<Rightarrow> (Panic p, obj, w)
         | (Fail e, obj, w) \<Rightarrow>
             if i = retry then (Fail e, obj, w)
             else if IsConflict e then patch_loop c attempt retry (i + 1) obj (kc_sleep c 2 w)
             else (Fail e, obj, w))
      else (Ok (), obj, w))"
  by auto

termination
  by (relation "measure (\<lambda>(c, attempt, retry, i, obj, w). nat (retry - i))") auto

declare patch_loop.simps [simp del]

definition ResilientPatch ::
  "('o, 'w) k8s_client \<Rightarrow> int \<Rightarrow> 'o \<Rightarrow> 'w \<Rightarrow> unit go_result \<times> 'o \<times> 'w" where
  "ResilientPatch c retry obj w =
     patch_loop c (resilientPatch c (kc_patch c)) retry 0 (kc_apply c obj) w"

definition ResilientPatchStatus ::
  "('o, 'w) k8s_client \<Rightarrow> int \<Rightarrow> 'o \<Rightarrow> 'w \<Rightarrow> unit go_result \<times> 'o \<times> 'w" where
  "ResilientPatchStatus c retry obj w =
     patch_loop c (resilientPatch c (kc_patch_status c)) retry 0 obj w"

text \<open>What the caller passes: a patch with its base, or the number of tries.\<close>

datatype 'o patch_request = MergeFrom 'o | Resilient int

fun client_Patch ::
  "('o, 'w) k8s_client \<Rightarrow> 'o \<Rightarrow> 'o patch_request \<Rightarrow> 'w \<Rightarrow> unit go_result \<times> 'o \<times> 'w" where
  "client_Patch c obj (Resilient retry) w = ResilientPatch c retry (kc_apply c obj) w"
| "client_Patch c obj (MergeFrom base) w = kc_patch c base (kc_apply c obj) w"

fun client_PatchStatus ::
  "('o, 'w) k8s_client \<Rightarrow> 'o \<Rightarrow> 'o patch_request \<Rightarrow> 'w \<Rightarrow> unit go_result \<times> 'o \<times> 'w" where
  "client_PatchStatus c obj (Resilient retry) w = ResilientPatchStatus c retry obj w"
| "client_PatchStatus c obj (MergeFrom base) w = kc_patch_status c base obj w"

end
