(* ===== verification/ClientProps.thy ===== *)
theory ClientProps
  imports Client
begin

text \<open>
  What the operator's client promises and does not promise about patches that are tried again.
\<close>

subsection \<open>The loop\<close>

lemma patch_loop_end: "retry \<le> i \<Longrightarrow> patch_loop c attempt retry i obj w = (Ok (), obj, w)"
  by (simp add: patch_loop.simps)

lemma patch_loop_step:
  "i < retry \<Longrightarrow> patch_loop c attempt retry i obj w =
     (case attempt obj w of
        (Ok _, obj, w) \<Rightarrow> patch_loop c attempt retry (i + 1) obj w
      | (Panic p, obj, w) \<Rightarrow> (Panic p, obj, w)
      | (Fail e, obj, w) \<Rightarrow>
          if IsConflict e then patch_loop c attempt retry (i + 1) obj (kc_sleep c 2 w)
          else (Fail e, obj, w))"
  by (simp add: patch_loop.simps [of c attempt retry i] split: go_result.splits prod.splits)

lemma patch_loop_no_conflict:
  "patch_loop c attempt retry i obj w = (Fail e, obj', w') \<Longrightarrow> \<not> IsConflict e"
proof (induction c attempt retry i obj w rule: patch_loop.induct)
  case (1 c attempt retry i obj w)
  show ?case
  proof (cases "i < retry")
    case False
    with "1.prems" show ?thesis by (simp add: patch_loop_end)
  next
    case True
    obtain r o1 w1 where a: "attempt obj w = (r, o1, w1)" by (metis surj_pair)
    show ?thesis
    proof (cases r)
      case (Ok u)
      with "1.IH"(1) [OF True a [symmetric]] True a "1.prems" show ?thesis
        by (simp add: patch_loop_step)
    next
      case (Fail e1)
      with "1.IH"(2) [OF True a [symmetric]] True a "1.prems" show ?thesis
        by (auto simp: patch_loop_step split: if_splits)
    next
      case (Panic p)
      with True a "1.prems" show ?thesis by (simp add: patch_loop_step)
    qed
  qed
qed

text \<open>An error handed out is the answer of the last attempt, which was not a conflict.\<close>

lemma patch_loop_successes:
  assumes "\<And>obj w. fst (attempt obj w) = Ok ()"
  shows "i \<le> retry \<Longrightarrow> patch_loop c attempt retry i obj w =
     (Ok (), ((\<lambda>(obj, w). snd (attempt obj w)) ^^ nat (retry - i)) (obj, w))"
proof (induction "nat (retry - i)" arbitrary: i obj w)
  case 0
  then show ?case by (simp add: patch_loop_end)
next
  case (Suc n)
  then have i: "i < retry" and n: "n = nat (retry - (i + 1))" by simp_all
  obtain r o1 w1 where a: "attempt obj w = (r, o1, w1)" by (metis surj_pair)
  with assms [of obj w] have "r = Ok ()" by simp
  with a i Suc.hyps(1) [OF n, of o1 w1] show ?case
    by (simp add: patch_loop_step n [symmetric] Suc.hyps(2) [symmetric] funpow_swap1)
qed

lemma patch_loop_conflicts:
  assumes "\<And>w. P w \<Longrightarrow> \<exists>m. attempt obj w = (Fail (Conflict m), obj, w)"
    and "\<And>w. P w \<Longrightarrow> P (kc_sleep c 2 w)"
  shows "P w \<Longrightarrow> i \<le> retry \<Longrightarrow>
    patch_loop c attempt retry i obj w = (Ok (), obj, (kc_sleep c 2 ^^ nat (retry - i)) w)"
proof (induction "nat (retry - i)" arbitrary: i w)
  case 0
  then show ?case by (simp add: patch_loop_end)
next
  case (Suc n)
  then have i: "i < retry" and n: "n = nat (retry - (i + 1))" by simp_all
  from assms(1) [OF Suc.prems(1)] obtain m where a: "attempt obj w = (Fail (Conflict m), obj, w)" ..
  from Suc.hyps(1) [OF n assms(2) [OF Suc.prems(1)]] a i show ?case
    by (simp add: patch_loop_step n [symmetric] Suc.hyps(2) [symmetric] funpow_swap1)
qed

subsection \<open>A server that keeps versions\<close>

text \<open>
  The documented behaviour of the API server for one object: a read answers what is stored, a patch
  that carries a version other than the stored one is refused with a conflict, and versions only grow.
\<close>

definition versioned :: "('o, 'w) k8s_client \<Rightarrow> ('o \<Rightarrow> nat) \<Rightarrow> ('w \<Rightarrow> 'o) \<Rightarrow> bool" where
  "versioned c ver stored \<longleftrightarrow>
     (\<forall>n s w. kc_get c n s w = (Ok (stored w), w)) \<and>
     (\<forall>base obj w. ver obj \<noteq> ver (stored w) \<longrightarrow> (\<exists>m. kc_patch c base obj w = (Fail (Conflict m), obj, w))) \<and>
     (\<forall>t w. ver (stored w) \<le> ver (stored (kc_sleep c t w))) \<and>
     (\<forall>obj. ver (kc_apply c obj) = ver obj)"


text \<open>A server with one object, a pair of version and content, and a log of the calls.\<close>

definition sample_client :: "(nat \<times> string, (nat \<times> string) \<times> string list) k8s_client" where
  "sample_client = \<lparr>kc_name = (\<lambda>o'. ''a''), kc_namespace = (\<lambda>o'. ''n''),
     kc_get = (\<lambda>n s w. (Ok (fst w), w)),
     kc_create = (\<lambda>o' w. (Fail (AlreadyExists ''a already exists''), o', w)),
     kc_update = (\<lambda>o' w. (Ok (), (Suc (fst (fst w)), snd o'), (Suc (fst (fst w)), snd o'), snd w)),
     kc_update_status = (\<lambda>o' w. (Ok (), o', w)),
     kc_patch = (\<lambda>base o' w. if fst o' = fst (fst w)
       then (Ok (), (if o' = fst w then o' else (Suc (fst o'), snd o')),
             (if o' = fst w then o' else (Suc (fst o'), snd o')), snd w @ [snd o'])
       else (Fail (Conflict ''please apply your changes to the latest version''), o', w)),
     kc_patch_status = (\<lambda>base o' w. (Ok (), o', fst w, snd w @ [snd o'])),
     kc_delete = (\<lambda>o' w. (Ok (), w)), kc_apply = (\<lambda>o'. o'),
     kc_controller_ref = (\<lambda>owner o'. Owned o'), kc_sleep = (\<lambda>t w. w)\<rparr>"




end
