(* ===== verification/Offering.thy ===== *)
theory Offering
  imports Client FabricVersions RestartManager Kube
begin

text \<open>
  What the offerings of peers and of ordering nodes share: \<open>pkg/offering\<close> repeats their code once per
  kind of component.

  The instance is passed by pointer and changed in place, so it is a part of the state \<open>offering\<close>, with the
  timers, the restart manager and the world.  The collaborators that the code holds as interfaces
  (initializer, certificate manager, resource managers) and the calls on objects other than the instance
  are the record \<open>offering_deps\<close>; the restart manager, the client and the version checks are the
  definitions of the earlier theories.
\<close>

subsection \<open>Secrets of a specification\<close>

record enroll =
  en_CSRHosts :: "string list option"
  en_other :: string

record enrollments =
  es_Component :: "enroll option"
  es_TLS :: "enroll option"
  es_other :: string

record peer_secret =
  sr_Enrollment :: "enrollments option"
  sr_MSP :: string

text \<open>Updates of the specification and of the action flags, \<open>instance.Spec.F = v\<close>.\<close>

definition on_spec :: "('s \<Rightarrow> 's) \<Rightarrow> 's cr \<Rightarrow> 's cr" where
  "on_spec f i = i\<lparr>Spec := f (Spec i)\<rparr>"

text \<open>A timer of package \<open>time\<close>: what its callback was built with.\<close>

record 'i cert_renewal =
  rn_id :: nat
  rn_name :: string
  rn_duration :: int
  rn_type :: SecretType
  rn_instance :: 'i

text \<open>
  \<open>running\<close> are the timers that were started and have neither fired nor been stopped; \<open>RenewCertTimers\<close>
  is the map of the offering's struct, from the name of a certificate to a timer.
\<close>

record ('i, 'w) offering =
  the_instance :: 'i
  RenewCertTimers :: "nat option gomap"
  running :: "'i cert_renewal list"
  next_timer :: nat
  the_manager :: manager
  world :: 'w

text \<open>The configuration override, as far as the offering reads it, and the configuration of the HSM.\<close>

record core_config =
  co_MaxNameLength :: "int option"
  co_UsingPKCS11 :: bool
  co_text :: string

record hsm_config =
  hsm_FilePath :: string
  hsm_Image :: string
  hsm_AutoUpdateDisabled :: bool
  hsm_Daemon :: bool

text \<open>What the initializer returns, and the crypto material.\<close>

record crypto_response =
  cr_AdminCerts :: "string list option"
  cr_text :: string

record init_response =
  ir_Config :: "core_config option"
  ir_Crypto :: "crypto_response option"
  ir_DeliveryClientCerts :: "string gomap"

datatype res_manager = PVCManager string | StateDBPVCManager string | EnvConfigMapManager | RoleManager | RoleBindingManager
  | ServiceAccountManager | ServiceManager | DeploymentManager | IngressManager | Ingressv1beta1Manager

text \<open>A migration job: its name and whether the container \<open>dbmigration\<close> has finished.\<close>

record job =
  job_name :: string
  job_finished :: "bool go_result"

text \<open>
  The collaborators.  \<open>d_read_core\<close> is \<open>ReadFrom\<close> of the packages of configurations, one per Fabric version, \<open>d_yaml_hsm\<close>
  package \<open>yaml\<close> on the configuration of the HSM, \<open>d_json_secret\<close> package \<open>json\<close> on \<open>Spec.Secret\<close>;
  \<open>d_url\<close> is \<open>url.Parse\<close>, with scheme and host.
\<close>

datatype core_version = CoreV1 | CoreV2 | CoreV24 | CoreV25

record ('i, 'w) offering_deps =
  d_client :: "('i, 'w) k8s_client"
  d_env :: "'w env"
  d_mgr_visit :: mgr_visit
  d_tries :: nat
  d_versions :: deployer_versions
  d_version_visit :: version_visit
  d_read_core :: "core_version \<Rightarrow> string \<Rightarrow> core_config go_result"
  d_yaml_hsm :: "string \<Rightarrow> hsm_config go_result"
  d_json_secret :: "peer_secret option \<Rightarrow> string go_result"
  d_url :: "string \<Rightarrow> (string \<times> string) go_result"
  d_tcp_reachable :: "string \<Rightarrow> 'w \<Rightarrow> bool \<times> 'w"
  d_getenv :: "string \<Rightarrow> string"
  d_setenv :: "string \<Rightarrow> string \<Rightarrow> 'w \<Rightarrow> unit go_result \<times> 'w"
  d_list_nodes :: "'w \<Rightarrow> string gomap list go_result \<times> 'w"
  d_random :: "int \<Rightarrow> 'w \<Rightarrow> int \<times> 'w"
  d_get_data :: "string \<Rightarrow> string \<Rightarrow> 'w \<Rightarrow> string gomap go_result \<times> 'w"
  d_get_secret :: "string \<Rightarrow> string \<Rightarrow> 'w \<Rightarrow> string gomap option go_result \<times> 'w"
  d_create_secret :: "string \<Rightarrow> string \<Rightarrow> string gomap \<Rightarrow> string gomap \<Rightarrow> 'w \<Rightarrow> unit go_result \<times> 'w"
  d_update_secret :: "string \<Rightarrow> string \<Rightarrow> string gomap \<Rightarrow> 'w \<Rightarrow> unit go_result \<times> 'w"
  d_create_cm :: "string \<Rightarrow> string \<Rightarrow> string gomap \<Rightarrow> string gomap \<Rightarrow> 'w \<Rightarrow> unit go_result \<times> 'w"
  d_update_cm :: "string \<Rightarrow> string \<Rightarrow> string gomap \<Rightarrow> string gomap \<Rightarrow> 'w \<Rightarrow> unit go_result \<times> 'w"
  d_manager :: "res_manager \<Rightarrow> 'i \<Rightarrow> bool \<Rightarrow> 'w \<Rightarrow> unit go_result \<times> 'w"
  d_server_minor :: "'w \<Rightarrow> string go_result \<times> 'w"
  d_dep_exists :: "'i \<Rightarrow> 'w \<Rightarrow> bool \<times> 'w"
  d_dep_check :: "'i \<Rightarrow> 'w \<Rightarrow> unit go_result \<times> 'w"
  d_dep_restore :: "'i \<Rightarrow> 'w \<Rightarrow> unit go_result \<times> 'w"
  d_list_jobs :: "string gomap \<Rightarrow> 'w \<Rightarrow> job list go_result \<times> 'w"
  d_delete_job :: "string \<Rightarrow> string \<Rightarrow> 'w \<Rightarrow> unit go_result \<times> 'w"
  d_list_pods :: "string gomap \<Rightarrow> 'w \<Rightarrow> string list go_result \<times> 'w"
  d_delete_pod :: "string \<Rightarrow> 'w \<Rightarrow> unit go_result \<times> 'w"
  d_delete_pod_in :: "string \<Rightarrow> string \<Rightarrow> 'w \<Rightarrow> unit go_result \<times> 'w"

text \<open>Steps on parts of the state.\<close>

definition on_world :: "('w \<Rightarrow> 'a \<times> 'w) \<Rightarrow> ('i, 'w) offering \<Rightarrow> 'a \<times> ('i, 'w) offering" where
  "on_world f s = (case f (world s) of (r, w) \<Rightarrow> (r, s\<lparr>world := w\<rparr>))"

text \<open>A step that leaves a part \<open>F\<close> of the world alone.\<close>

definition untouched :: "('w \<Rightarrow> 'x) \<Rightarrow> ('w \<Rightarrow> 'a \<times> 'w) \<Rightarrow> bool" where
  "untouched F f \<longleftrightarrow> (\<forall>w. F (snd (f w)) = F w)"

lemma leaves_bind: "untouched F f \<Longrightarrow> (\<And>x. untouched F (g x)) \<Longrightarrow> untouched F (\<lambda>w. bind_r (f w) g)"
  by (simp add: untouched_def bind_r_def split: go_result.splits)

lemma leaves_wrap: "untouched F f \<Longrightarrow> untouched F (\<lambda>w. wrap_err msg (f w))"
  by (simp add: untouched_def wrap_err_def split: go_result.splits)

lemma leaves_pair [simp]: "untouched F (\<lambda>w. (r, w))"
  by (simp add: untouched_def)

lemma untouchedD: "untouched F f \<Longrightarrow> f w = (r, w') \<Longrightarrow> F w' = F w"
  by (metis snd_conv untouched_def)

definition on_object ::
  "('i \<Rightarrow> 'w \<Rightarrow> 'a \<times> 'i \<times> 'w) \<Rightarrow> ('i, 'w) offering \<Rightarrow> 'a \<times> ('i, 'w) offering" where
  "on_object f s = (case f (the_instance s) (world s) of
     (r, i, w) \<Rightarrow> (r, s\<lparr>the_instance := i, world := w\<rparr>))"

definition on_instance :: "('i \<Rightarrow> 'i) \<Rightarrow> ('i, 'w) offering \<Rightarrow> ('i, 'w) offering" where
  "on_instance f s = s\<lparr>the_instance := f (the_instance s)\<rparr>"

lemma on_world_simps [simp]:
  "the_instance (snd (on_world f s)) = the_instance s"
  "RenewCertTimers (snd (on_world f s)) = RenewCertTimers s"
  "running (snd (on_world f s)) = running s"
  "next_timer (snd (on_world f s)) = next_timer s"
  "the_manager (snd (on_world f s)) = the_manager s"
  by (simp_all add: on_world_def split: prod.splits)

lemma on_instance_simps [simp]:
  "the_instance (on_instance f s) = f (the_instance s)"
  "world (on_instance f s) = world s"
  "RenewCertTimers (on_instance f s) = RenewCertTimers s"
  "running (on_instance f s) = running s"
  "next_timer (on_instance f s) = next_timer s"
  "the_manager (on_instance f s) = the_manager s"
  by (simp_all add: on_instance_def)

definition empty_core :: core_config where
  "empty_core = \<lparr>co_MaxNameLength = None, co_UsingPKCS11 = False, co_text = ''''\<rparr>"

definition ReadHSMConfig :: "('i, 'w) offering_deps \<Rightarrow> 's cr \<Rightarrow> 'w \<Rightarrow> hsm_config go_result \<times> 'w" where
  "ReadHSMConfig d i w =
     bind_r (wrap_err (''failed to get hsm config '' @ quoted ''ibm-hlfsupport-hsm-config'')
               (d_get_data d ''ibm-hlfsupport-hsm-config'' (Namespace i) w)) (\<lambda>data w.
       (d_yaml_hsm d (case map_of data ''ibm-hlfsupport-hsm-config.yaml'' of Some t \<Rightarrow> t | None \<Rightarrow> ''''), w))"

text \<open>\<open>strings.LastIndex\<close> for one character.\<close>

definition LastIndex :: "string \<Rightarrow> char \<Rightarrow> int" where
  "LastIndex s c = (if c \<in> set s then int (length s - 1 - length (takeWhile (\<lambda>x. x \<noteq> c) (rev s))) else -1)"

text \<open>\<open>SelectRandomValue\<close>, \<open>GetZone\<close>, \<open>ValidateZone\<close> and their likes for regions of \<open>pkg/util/util.go\<close>.\<close>

definition SelectRandomValue :: "('i, 'w) offering_deps \<Rightarrow> string list \<Rightarrow> 'w \<Rightarrow> string go_result \<times> 'w" where
  "SelectRandomValue d values w =
     (if length values = 0 then (Ok '''', w)
      else (case d_random d (int (length values)) w of
              (r, w) \<Rightarrow> if nat r < length values then (Ok (values ! nat r), w)
                        else (Panic ''index out of range'', w)))"

text \<open>A label of a node, the empty string when it is absent.\<close>

definition node_label :: "string \<Rightarrow> string gomap \<Rightarrow> string" where
  "node_label l labels = (case map_of labels l of Some v \<Rightarrow> v | None \<Rightarrow> '''')"

definition node_values :: "string list \<Rightarrow> string gomap list \<Rightarrow> string list" where
  "node_values labels nodes = concat (map (\<lambda>node. map (\<lambda>l. node_label l node) labels) nodes)"

definition zone_labels :: "string list" where
  "zone_labels = [''topology.kubernetes.io/zone'', ''failure-domain.beta.kubernetes.io/zone'',
     ''ibm-cloud.kubernetes.io/zone'']"

definition region_labels :: "string list" where
  "region_labels = [''topology.kubernetes.io/region'', ''failure-domain.beta.kubernetes.io/region'',
     ''ibm-cloud.kubernetes.io/region'']"

definition GetZone :: "('i, 'w) offering_deps \<Rightarrow> 'w \<Rightarrow> string go_result \<times> 'w" where
  "GetZone d w =
     (case d_list_nodes d w of
        (Ok nodes, w) \<Rightarrow> SelectRandomValue d (node_values [''topology.kubernetes.io/zone''] nodes) w
      | (Fail e, w) \<Rightarrow> (Ok '''', w)
      | (Panic p, w) \<Rightarrow> (Panic p, w))"

definition GetRegion :: "('i, 'w) offering_deps \<Rightarrow> 'w \<Rightarrow> string go_result \<times> 'w" where
  "GetRegion d w =
     (case d_list_nodes d w of
        (Ok nodes, w) \<Rightarrow> SelectRandomValue d (node_values [''topology.kubernetes.io/region''] nodes) w
      | (Fail e, w) \<Rightarrow> (Ok '''', w)
      | (Panic p, w) \<Rightarrow> (Panic p, w))"

definition ValidateZone :: "('i, 'w) offering_deps \<Rightarrow> string \<Rightarrow> 'w \<Rightarrow> unit go_result \<times> 'w" where
  "ValidateZone d requestedZone w =
     (case d_list_nodes d w of
        (Fail e, w) \<Rightarrow> (Ok (), w)
      | (Panic p, w) \<Rightarrow> (Panic p, w)
      | (Ok nodes, w) \<Rightarrow>
          if \<not> ContainsValue requestedZone (node_values zone_labels nodes)
          then (Fail (Plain (''Zone '' @ quoted requestedZone @ '' is not a valid zone'')), w)
          else (Ok (), w))"

definition ValidateRegion :: "('i, 'w) offering_deps \<Rightarrow> string \<Rightarrow> 'w \<Rightarrow> unit go_result \<times> 'w" where
  "ValidateRegion d requestedRegion w =
     (case d_list_nodes d w of
        (Fail e, w) \<Rightarrow> (Ok (), w)
      | (Panic p, w) \<Rightarrow> (Panic p, w)
      | (Ok nodes, w) \<Rightarrow>
          if \<not> ContainsValue requestedRegion (node_values region_labels nodes)
          then (Fail (Plain (''Region '' @ quoted requestedRegion @ '' is not a valid region'')), w)
          else (Ok (), w))"

definition ValidateHSMProxyURL :: "('i, 'w) offering_deps \<Rightarrow> string \<Rightarrow> 'w \<Rightarrow> unit go_result \<times> 'w" where
  "ValidateHSMProxyURL d endpoint w =
     bind_r (d_url d endpoint, w) (\<lambda>(scheme, host) w.
       let address = split_on CHR '':'' host in
       if length address < 2 then (Fail (Plain ''must specify both IP address and port''), w)
       else if address ! 0 = '''' then (Fail (Plain ''missing IP address''), w)
       else if address ! 1 = '''' then (Fail (Plain ''missing port''), w)
       else if scheme \<noteq> ''tls'' \<and> scheme \<noteq> ''tcp'' then
         (Fail (Plain (''unsupported scheme '' @ quoted scheme @ '', only tcp and tls are supported'')), w)
       else (case d_tcp_reachable d host w of
               (reachable, w) \<Rightarrow>
                 if \<not> reachable then (Fail (Plain (''Unable to reach HSM endpoint: '' @ host)), w)
                 else (Ok (), w)))"

definition AppendStringIfMissing :: "string list \<Rightarrow> string \<Rightarrow> string list" where
  "AppendStringIfMissing xs newEle = (if list_ex (\<lambda>ele. ele = newEle) xs then xs else xs @ [newEle])"

text \<open>\<open>CheckCSRHosts\<close> on the TLS enrollment: the hosts it ends with and whether it reports a change.\<close>

definition merge_hosts :: "string list \<Rightarrow> string list option \<Rightarrow> string list \<times> bool" where
  "merge_hosts hosts csr =
     (case csr of
        None \<Rightarrow> (hosts, True)
      | Some old \<Rightarrow>
          let new = foldl AppendStringIfMissing hosts old in (new, length old \<noteq> length new))"

definition Operator_version :: string where "Operator_version = ''1.0.0''"

definition ConfigExists :: "('i, 'w) offering_deps \<Rightarrow> 's cr \<Rightarrow> 'w \<Rightarrow> bool go_result \<times> 'w" where
  "ConfigExists d i w =
     (case d_get_data d (Name i @ ''-config'') (Namespace i) w of
        (Ok _, w) \<Rightarrow> (Ok True, w)
      | (Fail e, w) \<Rightarrow> (Ok False, w)
      | (Panic p, w) \<Rightarrow> (Panic p, w))"

text \<open>\<open>if c { if err := f(); err != nil { return err } }\<close>.\<close>

definition when_r :: "bool \<Rightarrow> ('w \<Rightarrow> unit go_result \<times> 'w) \<Rightarrow> 'w \<Rightarrow> unit go_result \<times> 'w" where
  "when_r c f w = (if c then f w else (Ok (), w))"

lemma when_r_simps [simp]: "when_r True f w = f w" "when_r False f w = (Ok (), w)"
  by (simp_all add: when_r_def)

text \<open>\<open>filepath.Base\<close> of a path without final slash.\<close>

definition path_base :: "string \<Rightarrow> string" where
  "path_base p = (if p = '''' then ''.'' else last (split_on CHR ''/'' p))"

text \<open>\<open>strings.Compare(a, b) < 0\<close>.\<close>

fun string_before :: "string \<Rightarrow> string \<Rightarrow> bool" where
  "string_before s [] = False"
| "string_before [] (y # ys) = True"
| "string_before (x # xs) (y # ys) =
     (if x = y then string_before xs ys else (of_char x :: nat) < of_char y)"

definition CheckStates :: "('i, 'w) offering_deps \<Rightarrow> 'i \<Rightarrow> 'w \<Rightarrow> unit go_result \<times> 'w" where
  "CheckStates d i w =
     (case d_dep_exists d i w of
        (found, w) \<Rightarrow>
          if found then
            (case d_dep_check d i w of
               (Fail e, w) \<Rightarrow> d_dep_restore d i w
             | r \<Rightarrow> r)
          else (Ok (), w))"

definition wrap_op :: "int \<Rightarrow> string \<Rightarrow> 'a go_result \<times> 'w \<Rightarrow> 'a go_result \<times> 'w" where
  "wrap_op code msg m = (case fst m of Fail e \<Rightarrow> (Fail (operr_Wrap e code msg), snd m) | _ \<Rightarrow> m)"

definition no_status :: cr_status where
  "no_status = \<lparr>Type = '''', SStatus = '''', SReason = '''', Message = '''', LastHeartbeatTime = '''',
     SVersion = '''', ErrorCode = 0, Reconciled = ''''\<rparr>"

fun SecretType_text :: "SecretType \<Rightarrow> string" where
  "SecretType_text ECERT = ''ecert''"
| "SecretType_text TLS = ''tls''"
| "SecretType_text OtherSecret = ''''"

definition stop_timer :: "nat option \<Rightarrow> 'i cert_renewal list \<Rightarrow> 'i cert_renewal list" where
  "stop_timer t ts = (case t of None \<Rightarrow> ts | Some k \<Rightarrow> filter (\<lambda>r. rn_id r \<noteq> k) ts)"

text \<open>The result of a round that is to be tried again.\<close>

definition requeue :: result where
  "requeue = \<lparr>Requeue = True, RequeueAfter = 0, RStatus = None, OverrideUpdateStatus = False\<rparr>"

subsection \<open>Renewal timers\<close>

text \<open>The end of \<open>SetCertificateTimer\<close>: a running timer of the certificate is stopped, a new one is started.\<close>

definition start_renewal ::
  "string \<Rightarrow> SecretType \<Rightarrow> int \<Rightarrow> ('i, 'w) offering \<Rightarrow> ('i, 'w) offering" where
  "start_renewal certName certType duration s =
     (let ts = stop_timer (ptr_of (RenewCertTimers s) certName) (running s);
          t = \<lparr>rn_id = next_timer s, rn_name = certName, rn_duration = duration, rn_type = certType,
               rn_instance = the_instance s\<rparr>
      in s\<lparr>running := t # ts, next_timer := Suc (next_timer s),
           RenewCertTimers := AList.update certName (Some (next_timer s)) (RenewCertTimers s)\<rparr>)"

text \<open>
  The invariant of the timers: at most one renewal is pending per certificate, and the map knows it.  A
  step keeps it when it does not touch the timers, and \<open>keeps_bind\<close> carries it through the code's
  sequences.
\<close>

definition timers_ok :: "('i, 'w) offering \<Rightarrow> bool" where
  "timers_ok s \<longleftrightarrow>
     distinct (map rn_name (running s)) \<and>
     (\<forall>t\<in>set (running s). ptr_of (RenewCertTimers s) (rn_name t) = Some (rn_id t)) \<and>
     (\<forall>t\<in>set (running s). rn_id t < next_timer s) \<and>
     (\<forall>c k. ptr_of (RenewCertTimers s) c = Some k \<longrightarrow> k < next_timer s)"

lemma timers_ok_cong:
  "RenewCertTimers s' = RenewCertTimers s \<Longrightarrow> running s' = running s \<Longrightarrow> next_timer s' = next_timer s \<Longrightarrow>
   timers_ok s' = timers_ok s"
  by (simp add: timers_ok_def)

lemma keeps_bind:
  "timers_ok (snd m) \<Longrightarrow> (\<And>x s. timers_ok s \<Longrightarrow> timers_ok (snd (f x s))) \<Longrightarrow> timers_ok (snd (bind_r m f))"
  by (cases "fst m") (simp_all add: bind_r_def)

lemma keeps_wrap: "timers_ok (snd m) \<Longrightarrow> timers_ok (snd (wrap_err msg m))"
  by (cases "fst m") (simp_all add: wrap_err_def)

lemma keeps_wrap_op: "timers_ok (snd m) \<Longrightarrow> timers_ok (snd (wrap_op code msg m))"
  by (cases "fst m") (simp_all add: wrap_op_def)

lemma keeps_world [simp]: "timers_ok (snd (on_world f s)) = timers_ok s"
  by (rule timers_ok_cong) simp_all

lemma keeps_object [simp]: "timers_ok (snd (on_object f s)) = timers_ok s"
  by (rule timers_ok_cong) (simp_all add: on_object_def split: prod.splits)

lemma keeps_instance [simp]: "timers_ok (on_instance f s) = timers_ok s"
  by (rule timers_ok_cong) simp_all

lemma keeps_when: "timers_ok s \<Longrightarrow> (\<And>s. timers_ok s \<Longrightarrow> timers_ok (snd (f s))) \<Longrightarrow> timers_ok (snd (when_r c f s))"
  by (simp add: when_r_def)

lemma keeps_if: "timers_ok (snd a) \<Longrightarrow> timers_ok (snd b) \<Longrightarrow> timers_ok (snd (if c then a else b))"
  by simp

lemmas keeps = keeps_bind keeps_wrap keeps_wrap_op keeps_when keeps_if

lemma timer_of_update: "ptr_of (AList.update k v m) k' = (if k' = k then v else ptr_of m k')"
  by (simp add: ptr_of_def update_conv')

lemma stop_timer_set: "set (stop_timer t ts) \<subseteq> set ts"
  by (cases t) (auto simp: stop_timer_def)

lemma stop_timer_distinct: "distinct (map rn_name ts) \<Longrightarrow> distinct (map rn_name (stop_timer t ts))"
  by (cases t) (auto simp: stop_timer_def distinct_map_filter)

lemma stopped_name:
  assumes "timers_ok s" and "t \<in> set (stop_timer (ptr_of (RenewCertTimers s) c) (running s))"
  shows "rn_name t \<noteq> c"
proof
  assume c: "rn_name t = c"
  from assms have "ptr_of (RenewCertTimers s) c = Some (rn_id t)"
    using stop_timer_set c by (fastforce simp: timers_ok_def)
  with assms(2) show False by (simp add: stop_timer_def)
qed

lemma keeps_pair: "timers_ok s \<Longrightarrow> timers_ok (snd (r, s))"
  by simp

lemma on_world_state: "on_world f s = (r, s') \<Longrightarrow> timers_ok s' = timers_ok s"
  by (metis keeps_world snd_conv)

lemma keeps_start_renewal: "timers_ok s \<Longrightarrow> timers_ok (start_renewal c certType duration s)"
proof -
  assume ok: "timers_ok s"
  let ?t = "\<lparr>rn_id = next_timer s, rn_name = c, rn_duration = duration, rn_type = certType,
    rn_instance = the_instance s\<rparr>"
  let ?ts = "stop_timer (ptr_of (RenewCertTimers s) c) (running s)"
  let ?s = "s\<lparr>running := ?t # ?ts, next_timer := Suc (next_timer s),
    RenewCertTimers := AList.update c (Some (next_timer s)) (RenewCertTimers s)\<rparr>"
  have "timers_ok ?s"
    unfolding timers_ok_def
  proof (intro conjI ballI allI impI)
    from ok have "distinct (map rn_name ?ts)" by (simp add: timers_ok_def stop_timer_distinct)
    with stopped_name [OF ok] show "distinct (map rn_name (running ?s))" by force
  next
    fix t assume t: "t \<in> set (running ?s)"
    show "ptr_of (RenewCertTimers ?s) (rn_name t) = Some (rn_id t)"
    proof (cases "t = ?t")
      case False
      with t have "t \<in> set ?ts" by simp
      with stopped_name [OF ok this] ok stop_timer_set show ?thesis
        by (fastforce simp: timers_ok_def timer_of_update)
    qed (simp add: timer_of_update)
    from t ok show "rn_id t < next_timer ?s"
      using stop_timer_set by (fastforce simp: timers_ok_def)
  next
    fix k k' assume "ptr_of (RenewCertTimers ?s) k = Some k'"
    with ok show "k' < next_timer ?s"
      by (auto simp: timer_of_update timers_ok_def less_Suc_eq split: if_splits)
  qed
  then show ?thesis by (simp add: start_renewal_def Let_def)
qed

text \<open>A timer that fires is no longer pending.\<close>

lemma keeps_fired:
  "timers_ok s \<Longrightarrow> RenewCertTimers s2 = RenewCertTimers s \<Longrightarrow>
   running s2 = filter (\<lambda>r. rn_id r \<noteq> rn_id t) (running s) \<Longrightarrow> next_timer s2 = next_timer s \<Longrightarrow> timers_ok s2"
  by (auto simp: timers_ok_def distinct_map_filter)

text \<open>
  The runs of an offering: rounds with any instance, in any order with timers that fire, while the rest of
  the world goes on.  \<open>round\<close> is a round of the offering, \<open>fire\<close> the callback of a timer.
\<close>

inductive renewal_run ::
  "('r \<Rightarrow> ('i, 'w) offering \<Rightarrow> ('i, 'w) offering) \<Rightarrow> ('i cert_renewal \<Rightarrow> ('i, 'w) offering \<Rightarrow> ('i, 'w) offering) \<Rightarrow>
     ('i, 'w) offering \<Rightarrow> ('i, 'w) offering \<Rightarrow> bool"
  for round :: "'r \<Rightarrow> ('i, 'w) offering \<Rightarrow> ('i, 'w) offering"
  and fire :: "'i cert_renewal \<Rightarrow> ('i, 'w) offering \<Rightarrow> ('i, 'w) offering" where
  run_start: "renewal_run round fire s s"
| run_round: "renewal_run round fire s s' \<Longrightarrow>
    renewal_run round fire s (round r (s'\<lparr>the_instance := i, world := w\<rparr>))"
| run_fire: "renewal_run round fire s s' \<Longrightarrow> t \<in> set (running s') \<Longrightarrow> renewal_run round fire s (fire t s')"

text \<open>What an offering promises about its timers, and what follows for all its runs.\<close>

locale renewing =
  fixes round :: "'r \<Rightarrow> ('i, 'w) offering \<Rightarrow> ('i, 'w) offering"
    and fire :: "'i cert_renewal \<Rightarrow> ('i, 'w) offering \<Rightarrow> ('i, 'w) offering"
  assumes round_keeps: "timers_ok s \<Longrightarrow> timers_ok (round r s)"
    and fire_timers: "RenewCertTimers (fire t s) = RenewCertTimers s"
      "running (fire t s) = filter (\<lambda>r. rn_id r \<noteq> rn_id t) (running s)"
      "next_timer (fire t s) = next_timer s"
begin

lemma fire_keeps: "timers_ok s \<Longrightarrow> timers_ok (fire t s)"
  using fire_timers [of t s] by (blast intro: keeps_fired)

lemma run_keeps: "renewal_run round fire s s' \<Longrightarrow> timers_ok s \<Longrightarrow> timers_ok s'"
proof (induction rule: renewal_run.induct)
  case (run_round s s' r w i)
  then have "timers_ok (s'\<lparr>the_instance := i, world := w\<rparr>)" by (simp add: timers_ok_def)
  then show ?case by (rule round_keeps)
qed (auto intro: fire_keeps)

lemma run_pending:
  assumes "renewal_run round fire s s'" and "timers_ok s \<or> running s = [] \<and> RenewCertTimers s = []"
  shows "distinct (map rn_name (running s')) \<and>
    (\<forall>t\<in>set (running s'). ptr_of (RenewCertTimers s') (rn_name t) = Some (rn_id t))"
proof -
  from assms(2) have "timers_ok s" by (auto simp: timers_ok_def ptr_of_def)
  from run_keeps [OF assms(1) this] show ?thesis by (simp add: timers_ok_def)
qed

end

subsection \<open>Actions and restarts\<close>

text \<open>One block of \<open>HandleActions\<close>: the flag is reset in memory whether or not the action succeeds.\<close>

definition do_action ::
  "bool \<Rightarrow> ('i \<Rightarrow> 'w \<Rightarrow> unit go_result \<times> 'w) \<Rightarrow> ('i \<Rightarrow> 'i) \<Rightarrow> ('i, 'w) offering \<Rightarrow>
     unit go_result \<times> ('i, 'w) offering" where
  "do_action c run reset s =
     (if c then
        (case on_world (run (the_instance s)) s of
           (Ok _, s) \<Rightarrow> (Ok (), on_instance reset s)
         | (Fail e, s) \<Rightarrow> (Fail e, on_instance reset s)
         | (Panic p, s) \<Rightarrow> (Panic p, s))
      else (Ok (), s))"

lemma do_action_id [simp]: "do_action False run reset s = (Ok (), s)"
  by (simp add: do_action_def)

lemma keeps_do_action: "timers_ok s \<Longrightarrow> timers_ok (snd (do_action c run reset s))"
  by (auto simp: do_action_def dest: on_world_state split: prod.splits go_result.splits)

text \<open>\<open>HandleRestart\<close>: unless the configuration disables it, the manager is asked for the restarts that are due.\<close>

definition trigger_restart ::
  "('i, 'w) offering_deps \<Rightarrow> bool \<Rightarrow> inst \<Rightarrow> ('i, 'w) offering \<Rightarrow> unit go_result \<times> ('i, 'w) offering" where
  "trigger_restart d disabled i s =
     (if disabled then (Ok (), s)
      else (case TriggerIfNeeded (d_env d) (d_mgr_visit d) (d_tries d) i (the_manager s) (world s) of
              ((r, w), mgr) \<Rightarrow>
                wrap_err ''failed to restart deployment'' (r, s\<lparr>the_manager := mgr, world := w\<rparr>)))"

lemma keeps_trigger_restart: "timers_ok s \<Longrightarrow> timers_ok (snd (trigger_restart d c i s))"
  by (auto simp: trigger_restart_def timers_ok_def intro!: keeps_wrap split: prod.splits)

subsection \<open>Zones, regions and the image of the HSM\<close>

text \<open>
  A zone or a region: a request to select one is answered and written to the specification, one that
  is given is validated.  \<open>value\<close> is the field, \<open>put\<close> its update.
\<close>

definition select_place ::
  "('w \<Rightarrow> string go_result \<times> 'w) \<Rightarrow> (string \<Rightarrow> 'w \<Rightarrow> unit go_result \<times> 'w) \<Rightarrow> ('s cr \<Rightarrow> string) \<Rightarrow>
     (string \<Rightarrow> 's \<Rightarrow> 's) \<Rightarrow> ('s cr, 'w) offering \<Rightarrow> bool go_result \<times> ('s cr, 'w) offering" where
  "select_place pick validate value put s =
     (if value (the_instance s) = ''select'' then
        bind_r (on_world pick s) (\<lambda>place s. (Ok True, on_instance (on_spec (put place)) s))
      else if value (the_instance s) \<noteq> '''' then
        bind_r (on_world (validate (value (the_instance s))) s) (\<lambda>_ s. (Ok False, s))
      else (Ok False, s))"

text \<open>
  The image and tag of the HSM library, from the configuration of the HSM.  \<open>get\<close> is \<open>None\<close> where the
  specification has no images, and writing to them is a nil pointer dereference.
\<close>

definition refresh_hsm_image ::
  "('s cr, 'w) offering_deps \<Rightarrow> ('s \<Rightarrow> image_tag option) \<Rightarrow> (image_tag \<Rightarrow> 's \<Rightarrow> 's) \<Rightarrow> ('s cr, 'w) offering \<Rightarrow>
     bool go_result \<times> ('s cr, 'w) offering" where
  "refresh_hsm_image d get put s =
     (case on_world (ReadHSMConfig d (the_instance s)) s of
        (Fail e, s) \<Rightarrow> (Ok False, s)
      | (Panic p, s) \<Rightarrow> (Panic p, s)
      | (Ok hsm, s) \<Rightarrow>
          if hsm_AutoUpdateDisabled hsm then (Ok False, s)
          else if hsm_Image hsm \<noteq> '''' then
            let lastIndex = LastIndex (hsm_Image hsm) CHR '':'' in
            if lastIndex < 0 then (Panic ''slice bounds out of range'', s)
            else
              let img = take (nat lastIndex) (hsm_Image hsm);
                  tag = drop (nat (lastIndex + 1)) (hsm_Image hsm)
              in (case get (Spec (the_instance s)) of
                    None \<Rightarrow> (Panic ''nil pointer dereference'', s)
                  | Some old \<Rightarrow>
                      (Ok (t_image old \<noteq> img \<or> t_tag old \<noteq> tag),
                       on_instance (on_spec (put \<lparr>t_image = img, t_tag = tag\<rparr>)) s))
          else (Ok False, s))"

lemma keeps_select_place:
  "timers_ok s \<Longrightarrow> timers_ok (snd (select_place pick validate value put s))"
  by (auto simp: select_place_def intro!: keeps)

lemma keeps_refresh_hsm_image: "timers_ok s \<Longrightarrow> timers_ok (snd (refresh_hsm_image d get put s))"
  by (auto simp: refresh_hsm_image_def Let_def dest: on_world_state split: prod.splits go_result.splits option.splits)

subsection \<open>Ingress\<close>

text \<open>The choice between the two versions of the ingress API by the minor version of the server.\<close>

definition ingress_by_version ::
  "('i, 'w) offering_deps \<Rightarrow> string \<Rightarrow> 'i \<Rightarrow> bool \<Rightarrow> 'w \<Rightarrow> unit go_result \<times> 'w" where
  "ingress_by_version d allowKubernetesEighteen i update w =
     (if allowKubernetesEighteen = ''true'' then
        bind_r (d_server_minor d w) (\<lambda>minor w.
          if string_before minor ''19'' then
            wrap_err ''failed Ingressv1beta1 reconciliation'' (d_manager d Ingressv1beta1Manager i update w)
          else wrap_err ''failed Ingress reconciliation'' (d_manager d IngressManager i update w))
      else wrap_err ''failed Ingress reconciliation'' (d_manager d IngressManager i update w))"

end
