(* ===== verification/PeerOffering.thy ===== *)
theory PeerOffering
  imports Offering PeerUpdate
begin

text \<open>
  The peer offering, \<open>pkg/offering/base/peer/peer.go\<close> and \<open>pkg/offering/k8s/peer/peer.go\<close>, first part:
  its state, its collaborators, and the checks a round makes before it creates anything.

  The state, the collaborators and the steps it shares with other offerings are those of \<open>Offering\<close>.
\<close>

subsection \<open>The custom resource as the offering sees it\<close>

record peer_full =
  pf_FabricVersion :: string
  pf_Arch :: "string list"
  pf_RegistryURL :: string
  pf_Images :: "image_tag peer_image_set option"
  pf_ConfigOverride :: "string option"
  pf_MSPID :: string
  pf_MSPSecret :: string
  pf_Secret :: "peer_secret option"
  pf_Action :: peer_action
  pf_DisableNodeOU :: "bool option"
  pf_HSM :: "string option"
  pf_Domain :: string
  pf_Zone :: string
  pf_Region :: string
  pf_StateDb :: string
  pf_Replicas :: "int option"
  pf_ExternalEndpoint :: string
  pf_PVCPeer :: string
  pf_PVCStateDB :: string
  pf_NumSecondsWarningPeriod :: int

type_synonym peer_cr = "peer_full cr"

type_synonym 'w offering_state = "(peer_cr, 'w) offering"

type_synonym 'w deps = "(peer_cr, 'w) offering_deps"

type_synonym renewal = "peer_cr cert_renewal"

text \<open>Methods of \<open>api/v1beta1/ibppeer.go\<close>.\<close>

definition NodeOUDisabled :: "peer_full \<Rightarrow> bool" where
  "NodeOUDisabled s = (case pf_DisableNodeOU s of Some b \<Rightarrow> b | None \<Rightarrow> False)"

definition HSMSet :: "peer_full \<Rightarrow> bool" where
  "HSMSet s = (case pf_HSM s of Some endpoint \<Rightarrow> endpoint \<noteq> '''' | None \<Rightarrow> False)"

definition UsingHSMProxy :: "peer_cr \<Rightarrow> bool" where
  "UsingHSMProxy i = (case pf_HSM (Spec i) of Some endpoint \<Rightarrow> endpoint \<noteq> '''' | None \<Rightarrow> False)"

definition DomainSet :: "peer_full \<Rightarrow> bool" where
  "DomainSet s \<longleftrightarrow> pf_Domain s \<noteq> ''''"

definition UsingCouchDB :: "peer_cr \<Rightarrow> bool" where
  "UsingCouchDB i \<longleftrightarrow> to_lower (pf_StateDb (Spec i)) = ''couchdb''"

definition GetNumSecondsWarningPeriod :: "peer_full \<Rightarrow> int" where
  "GetNumSecondsWarningPeriod s =
     (if pf_NumSecondsWarningPeriod s = 0 then 30 * (24 * 60 * 60) else pf_NumSecondsWarningPeriod s)"

definition IsV25Peer :: "string \<Rightarrow> bool" where
  "IsV25Peer fabricVersion =
     (if String_EqualWithoutTag fabricVersion V2_5_1 \<or> String_GreaterThan fabricVersion V2_5_1
      then True else False)"

definition on_action :: "(peer_action \<Rightarrow> peer_action) \<Rightarrow> peer_cr \<Rightarrow> peer_cr" where
  "on_action f = on_spec (\<lambda>s. s\<lparr>pf_Action := f (pf_Action s)\<rparr>)"

definition ResetRestart :: "peer_cr \<Rightarrow> peer_cr" where
  "ResetRestart = on_action (\<lambda>a. a\<lparr>pa_Restart := False\<rparr>)"

definition ResetEcertReenroll :: "peer_cr \<Rightarrow> peer_cr" where
  "ResetEcertReenroll = on_action (\<lambda>a. a\<lparr>pa_Reenroll_Ecert := False, pa_Reenroll_EcertNewKey := False\<rparr>)"

definition ResetTLSReenroll :: "peer_cr \<Rightarrow> peer_cr" where
  "ResetTLSReenroll = on_action (\<lambda>a. a\<lparr>pa_Reenroll_TLSCert := False, pa_Reenroll_TLSCertNewKey := False\<rparr>)"

definition ResetEcertEnroll :: "peer_cr \<Rightarrow> peer_cr" where
  "ResetEcertEnroll = on_action (\<lambda>a. a\<lparr>pa_Enroll_Ecert := False\<rparr>)"

definition ResetTLSEnroll :: "peer_cr \<Rightarrow> peer_cr" where
  "ResetTLSEnroll = on_action (\<lambda>a. a\<lparr>pa_Enroll_TLSCert := False\<rparr>)"

definition ResetUpgradeDBs :: "peer_cr \<Rightarrow> peer_cr" where
  "ResetUpgradeDBs = on_action (\<lambda>a. a\<lparr>pa_UpgradeDBs := False\<rparr>)"

subsection \<open>State and collaborators\<close>

record init_peer =
  ip_UsingHSMProxy :: bool
  ip_Config :: string
  ip_text :: string

datatype migration = ToV2 | ToV24 | ToV25

datatype cert_kind = TLSSignCert | TLSCACert | TLSInterCert | EcertSignCert | EcertCACert | EcertAdminCert

record peer_endpoints =
  ep_API :: string
  ep_Operations :: string
  ep_Grpcweb :: string

record connection_profile =
  cp_Endpoints :: peer_endpoints
  cp_TLSSignCerts :: "string list"
  cp_TLSCACerts :: "string list"
  cp_SignCerts :: "string list"
  cp_CACerts :: "string list"
  cp_AdminCerts :: "string list"

text \<open>The part of the collaborators that is the initializer, the certificate manager and the migrators.\<close>

record 'w init_deps =
  n_GetInitPeer :: "peer_cr \<Rightarrow> string \<Rightarrow> 'w \<Rightarrow> init_peer go_result \<times> 'w"
  n_CoreConfigFromFile :: "peer_cr \<Rightarrow> core_version \<Rightarrow> 'w \<Rightarrow> string go_result \<times> 'w"
  n_CoreFromConfigMap :: "peer_cr \<Rightarrow> 'w \<Rightarrow> string go_result \<times> 'w"
  n_CoreConfigFromBytes :: "peer_cr \<Rightarrow> string \<Rightarrow> string go_result"
  n_Create :: "core_config \<Rightarrow> init_peer \<Rightarrow> string \<Rightarrow> 'w \<Rightarrow> init_response option go_result \<times> 'w"
  n_Update :: "core_config \<Rightarrow> init_peer \<Rightarrow> 'w \<Rightarrow> init_response option go_result \<times> 'w"
  n_MissingCrypto :: "peer_cr \<Rightarrow> 'w \<Rightarrow> bool \<times> 'w"
  n_AdminCertsUpdated :: "peer_cr \<Rightarrow> 'w \<Rightarrow> bool go_result \<times> 'w"
  n_UpdateAdminSecret :: "peer_cr \<Rightarrow> 'w \<Rightarrow> unit go_result \<times> 'w"
  n_GetCrypto :: "peer_cr \<Rightarrow> 'w \<Rightarrow> crypto_response go_result \<times> 'w"
  n_VerifyCertOU :: "crypto_response \<Rightarrow> string \<Rightarrow> unit go_result"
  n_SetBCCSPLibrary :: "string \<Rightarrow> core_config \<Rightarrow> core_config"
  n_GenerateSecretsFromResponse :: "peer_cr \<Rightarrow> crypto_response \<Rightarrow> 'w \<Rightarrow> unit go_result \<times> 'w"
  n_UpdateSecretsFromResponse :: "peer_cr \<Rightarrow> crypto_response \<Rightarrow> 'w \<Rightarrow> unit go_result \<times> 'w"
  n_GenerateOrdererCACerts :: "peer_cr \<Rightarrow> string gomap \<Rightarrow> 'w \<Rightarrow> unit go_result \<times> 'w"
  n_GenerateSecrets :: "string \<Rightarrow> peer_cr \<Rightarrow> crypto_response \<Rightarrow> 'w \<Rightarrow> unit go_result \<times> 'w"
  n_CreateOrUpdateConfig :: "peer_cr \<Rightarrow> core_config \<Rightarrow> 'w \<Rightarrow> unit go_result \<times> 'w"
  n_AddNodeOU :: "peer_cr \<Rightarrow> 'w \<Rightarrow> unit go_result \<times> 'w"
  n_GetUpdatedPeer :: "peer_cr \<Rightarrow> 'w \<Rightarrow> string go_result \<times> 'w"
  n_GenerateCrypto :: "string \<Rightarrow> 'w \<Rightarrow> crypto_response option go_result \<times> 'w"
  n_Enroll :: "peer_cr \<Rightarrow> enroll \<Rightarrow> string \<Rightarrow> bool \<Rightarrow> 'w \<Rightarrow> crypto_response go_result \<times> 'w"
  n_UpgradeDBs :: "peer_cr \<Rightarrow> 'w \<Rightarrow> unit go_result \<times> 'w"
  n_CheckForExpire :: "peer_cr \<Rightarrow> int \<Rightarrow> 'w \<Rightarrow> (string \<times> string) go_result \<times> 'w"
  n_DurationToNextRenewal :: "SecretType \<Rightarrow> peer_cr \<Rightarrow> int \<Rightarrow> 'w \<Rightarrow> int go_result \<times> 'w"
  n_BCCSP :: "core_config \<Rightarrow> bool \<Rightarrow> string option"
  n_RenewCert :: "SecretType \<Rightarrow> peer_cr \<Rightarrow> enrollments \<Rightarrow> string option \<Rightarrow> string \<Rightarrow> bool \<Rightarrow> bool \<Rightarrow> 'w \<Rightarrow>
    unit go_result \<times> 'w"
  n_BackupCrypto :: "peer_cr \<Rightarrow> string gomap \<Rightarrow> 'w \<Rightarrow> unit go_result \<times> 'w"
  n_Certs :: "cert_kind \<Rightarrow> peer_cr \<Rightarrow> 'w \<Rightarrow> string list go_result \<times> 'w"
  n_Profile :: "connection_profile \<Rightarrow> string go_result"
  n_RemoveKeyStore :: "string \<Rightarrow> core_config option go_result"
  n_Migrate :: "migration \<Rightarrow> peer_cr \<Rightarrow> 'w \<Rightarrow> unit go_result \<times> 'w"
  n_StoragePath :: string
  n_RestartDisabled :: bool
  n_AllowKubernetesEighteen :: string
  n_Time :: "'w \<Rightarrow> string \<times> 'w"

definition inst_of :: "peer_cr \<Rightarrow> inst" where
  "inst_of i = \<lparr>inst_kind = KPeer, inst_name = Name i, inst_namespace = Namespace i,
     inst_mspid = pf_MSPID (Spec i)\<rparr>"

subsection \<open>Configuration override and HSM\<close>

definition GetConfigOverride :: "'w deps \<Rightarrow> peer_cr \<Rightarrow> core_config go_result" where
  "GetConfigOverride d i =
     (if GetMajorReleaseVersion (pf_FabricVersion (Spec i)) = V2 then
        let isv25Peer = IsV25Peer (pf_FabricVersion (Spec i)) in
        (case pf_ConfigOverride (Spec i) of
           None \<Rightarrow> Ok empty_core
         | Some raw \<Rightarrow> if isv25Peer then d_read_core d CoreV25 raw else d_read_core d CoreV2 raw)
      else
        (case pf_ConfigOverride (Spec i) of
           None \<Rightarrow> Ok empty_core
         | Some raw \<Rightarrow> d_read_core d CoreV1 raw))"

definition IsHSMEnabled :: "'w deps \<Rightarrow> peer_cr \<Rightarrow> bool" where
  "IsHSMEnabled d i = (case GetConfigOverride d i of Ok co \<Rightarrow> co_UsingPKCS11 co | _ \<Rightarrow> False)"

text \<open>
  \<open>ReconcileHSMImages\<close>.  Slicing with the index -1 and writing through the nil pointer \<open>Images\<close> are
  run-time panics.
\<close>

definition ReconcileHSMImages :: "'w deps \<Rightarrow> 'w offering_state \<Rightarrow> bool go_result \<times> 'w offering_state" where
  "ReconcileHSMImages d s =
     (case on_world (ReadHSMConfig d (the_instance s)) s of
        (Fail e, s) \<Rightarrow> (Ok False, s)
      | (Panic p, s) \<Rightarrow> (Panic p, s)
      | (Ok hsm, s) \<Rightarrow>
          if hsm_AutoUpdateDisabled hsm then (Ok False, s)
          else if hsm_Image hsm \<noteq> '''' then
            let lastIndex = LastIndex (hsm_Image hsm) CHR '':'' in
            if lastIndex < 0 then (Panic ''slice bounds out of range'', s)
            else
              let img = take (nat lastIndex) (hsm_Image hsm);
                  tag = drop (nat (lastIndex + 1)) (hsm_Image hsm)
              in (case pf_Images (Spec (the_instance s)) of
                    None \<Rightarrow> (Panic ''nil pointer dereference'', s)
                  | Some images \<Rightarrow>
                      let new = PHSM images;
                          imageUpdated = (t_image new \<noteq> img);
                          new = (if imageUpdated then new\<lparr>t_image := img\<rparr> else new);
                          tagUpdated = (t_tag new \<noteq> tag);
                          new = (if tagUpdated then new\<lparr>t_tag := tag\<rparr> else new)
                      in (Ok (imageUpdated \<or> tagUpdated),
                          on_instance (on_spec (\<lambda>sp. sp\<lparr>pf_Images := Some (images\<lparr>PHSM := new\<rparr>)\<rparr>)) s))
          else (Ok False, s))"

subsection \<open>Zones and regions\<close>

definition SelectZone :: "'w deps \<Rightarrow> 'w offering_state \<Rightarrow> bool go_result \<times> 'w offering_state" where
  "SelectZone d s =
     (if pf_Zone (Spec (the_instance s)) = ''select'' then
        bind_r (on_world (GetZone d) s) (\<lambda>zone s.
          (Ok True, on_instance (on_spec (\<lambda>sp. sp\<lparr>pf_Zone := zone\<rparr>)) s))
      else if pf_Zone (Spec (the_instance s)) \<noteq> '''' then
        bind_r (on_world (ValidateZone d (pf_Zone (Spec (the_instance s)))) s) (\<lambda>_ s. (Ok False, s))
      else (Ok False, s))"

definition SelectRegion :: "'w deps \<Rightarrow> 'w offering_state \<Rightarrow> bool go_result \<times> 'w offering_state" where
  "SelectRegion d s =
     (if pf_Region (Spec (the_instance s)) = ''select'' then
        bind_r (on_world (GetRegion d) s) (\<lambda>region s.
          (Ok True, on_instance (on_spec (\<lambda>sp. sp\<lparr>pf_Region := region\<rparr>)) s))
      else if pf_Region (Spec (the_instance s)) \<noteq> '''' then
        bind_r (on_world (ValidateRegion d (pf_Region (Spec (the_instance s)))) s) (\<lambda>_ s. (Ok False, s))
      else (Ok False, s))"

subsection \<open>The checks of a round\<close>

definition CheckDBType :: "'w offering_state \<Rightarrow> bool \<times> 'w offering_state" where
  "CheckDBType s =
     (if pf_StateDb (Spec (the_instance s)) = ''''
      then (True, on_instance (on_spec (\<lambda>sp. sp\<lparr>pf_StateDb := ''CouchDB''\<rparr>)) s)
      else (False, s))"

text \<open>The images and the version as the version checks see them, and the way back.\<close>

definition peer_view :: "peer_full \<Rightarrow> image_tag peer_image_set view" where
  "peer_view s = \<lparr>vw_FabricVersion = pf_FabricVersion s, vw_Arch = pf_Arch s,
     vw_RegistryURL = pf_RegistryURL s, vw_Images = pf_Images s\<rparr>"

fun put_view :: "instance_view \<Rightarrow> peer_full \<Rightarrow> peer_full" where
  "put_view (PeerInstance v) s = s\<lparr>pf_FabricVersion := vw_FabricVersion v, pf_Images := vw_Images v\<rparr>"
| "put_view _ s = s"

definition check_images ::
  "'w deps \<Rightarrow> peer_update \<Rightarrow> 'w offering_state \<Rightarrow> bool go_result \<times> 'w offering_state" where
  "check_images d u s =
     (case FabricVersionHelper (d_versions d) (d_version_visit d)
             \<lparr>vu_ImagesUpdated = p_imagesUpdated u, vu_FabricVersionUpdated = p_fabricVersionUpdated u\<rparr>
             (PeerInstance (peer_view (Spec (the_instance s)))) of
        (r, v) \<Rightarrow> (r, on_instance (on_spec (put_view v)) s))"

definition conflicting_actions :: "peer_action \<Rightarrow> unit go_result" where
  "conflicting_actions a =
     (if pa_Enroll_Ecert a \<and> pa_Reenroll_Ecert a then
        Fail (Plain ''both enroll and renenroll action requested for ecert, must only select one'')
      else if pa_Enroll_TLSCert a \<and> pa_Reenroll_TLSCert a then
        Fail (Plain ''both enroll and renenroll action requested for TLS cert, must only select one'')
      else if pa_Reenroll_Ecert a \<and> pa_Reenroll_EcertNewKey a then
        Fail (Plain ''both reenroll and renenroll with new action requested for ecert, must only select one'')
      else if pa_Reenroll_TLSCert a \<and> pa_Reenroll_TLSCertNewKey a then
        Fail (Plain ''both reenroll and renenroll with new action requested for TLS cert, must only select one'')
      else Ok ())"

definition PreReconcileChecks ::
  "'w deps \<Rightarrow> peer_update \<Rightarrow> 'w offering_state \<Rightarrow> bool go_result \<times> 'w offering_state" where
  "PreReconcileChecks d u s =
     bind_r (wrap_err ''failed to during version and image checks'' (check_images d u s)) (\<lambda>imagesUpdated s.
     bind_r (GetConfigOverride d (the_instance s), s) (\<lambda>co s.
     bind_r (ValidationChecks (the_instance s) ''IBPPeer'' (co_MaxNameLength co), s) (\<lambda>_ s.
     bind_r (conflicting_actions (pf_Action (Spec (the_instance s))), s) (\<lambda>_ s.
     bind_r (if HSMSet (Spec (the_instance s)) then
               wrap_err (''invalid HSM endpoint for peer instance '' @ quoted (Name (the_instance s)))
                 (on_world (ValidateHSMProxyURL d
                    (case pf_HSM (Spec (the_instance s)) of Some e \<Rightarrow> e | None \<Rightarrow> '''')) s)
             else (Ok (), s)) (\<lambda>_ s.
     bind_r (ReconcileHSMImages d s) (\<lambda>hsmImageUpdated s.
     if \<not> DomainSet (Spec (the_instance s)) then
       (Fail (Plain (''domain not set for peer instance '' @ quoted (Name (the_instance s)))), s)
     else
     bind_r (SelectZone d s) (\<lambda>zoneUpdated s.
     bind_r (SelectRegion d s) (\<lambda>regionUpdated s.
     let replicasUpdated = (pf_Replicas (Spec (the_instance s)) = None);
         s = (if replicasUpdated then on_instance (on_spec (\<lambda>sp. sp\<lparr>pf_Replicas := Some 1\<rparr>)) s else s);
         (dbTypeUpdated, s) = CheckDBType s
     in (Ok (dbTypeUpdated \<or> zoneUpdated \<or> regionUpdated \<or> hsmImageUpdated \<or> replicasUpdated \<or>
             imagesUpdated), s)))))))))"

definition UpdateExternalEndpoint :: "'w offering_state \<Rightarrow> bool \<times> 'w offering_state" where
  "UpdateExternalEndpoint s =
     (let i = the_instance s in
      if pf_ExternalEndpoint (Spec i) = ''do-not-set'' then (False, s)
      else if pf_ExternalEndpoint (Spec i) = '''' then
        (True, on_instance (on_spec (\<lambda>sp. sp\<lparr>pf_ExternalEndpoint :=
           Namespace i @ ''-'' @ Name i @ ''-peer.'' @ pf_Domain sp @ '':443''\<rparr>)) s)
      else (False, s))"

definition CheckCSRHosts :: "string list \<Rightarrow> 'w offering_state \<Rightarrow> bool \<times> 'w offering_state" where
  "CheckCSRHosts hosts s =
     (case pf_Secret (Spec (the_instance s)) of
        None \<Rightarrow> (False, s)
      | Some sec \<Rightarrow>
          (case sr_Enrollment sec of
             None \<Rightarrow> (False, s)
           | Some es \<Rightarrow>
               let tls = (case es_TLS es of None \<Rightarrow> \<lparr>en_CSRHosts = None, en_other = ''''\<rparr> | Some t \<Rightarrow> t);
                   (new, changed) = merge_hosts hosts (en_CSRHosts tls);
                   es = es\<lparr>es_TLS := Some (tls\<lparr>en_CSRHosts := Some new\<rparr>)\<rparr>
               in (changed, on_instance (on_spec (\<lambda>sp. sp\<lparr>pf_Secret :=
                    Some (sec\<lparr>sr_Enrollment := Some es\<rparr>)\<rparr>)) s)))"

definition k8s_hosts :: "peer_cr \<Rightarrow> string list" where
  "k8s_hosts i =
     (let at = (\<lambda>suffix. Namespace i @ ''-'' @ Name i @ suffix @ ''.'' @ pf_Domain (Spec i))
      in [at ''-peer'', at ''-operations'', at ''-grpcweb'', at '''', ''127.0.0.1''])"

definition SetVersion :: "'w deps \<Rightarrow> 'w offering_state \<Rightarrow> bool go_result \<times> 'w offering_state" where
  "SetVersion d s =
     (if SVersion (CRStatus (the_instance s)) = '''' \<or>
         \<not> String_Equal (SVersion (CRStatus (the_instance s))) Operator_version then
        let s = on_instance (\<lambda>i. i\<lparr>CRStatus := (CRStatus i)\<lparr>SVersion := Operator_version\<rparr>\<rparr>) s
        in bind_r (on_object (\<lambda>i. client_PatchStatus (d_client d) i (Resilient 3)) s) (\<lambda>_ s. (Ok True, s))
      else (Ok False, s))"

end
