(* ===== verification/PeerReconcile.thy ===== *)
theory PeerReconcile
  imports PeerOffering
begin

text \<open>
  The peer offering, second part: initialization, the resource managers, the actions a user can
  request, certificate renewal, and the two \<open>Reconcile\<close> of \<open>pkg/offering/base/peer/peer.go\<close> and
  \<open>pkg/offering/k8s/peer/peer.go\<close>.
\<close>

subsection \<open>Initialization\<close>

definition GetInitStoragePath :: "'w init_deps \<Rightarrow> peer_cr \<Rightarrow> string" where
  "GetInitStoragePath n i =
     (if n_StoragePath n \<noteq> '''' then n_StoragePath n @ ''/'' @ Name i else ''/peerinit/'' @ Name i)"

definition InitializeCreate ::
  "'w deps \<Rightarrow> 'w init_deps \<Rightarrow> peer_cr \<Rightarrow> init_peer \<Rightarrow> 'w \<Rightarrow> unit go_result \<times> 'w" where
  "InitializeCreate d n i initPeer w =
     bind_r (ConfigExists d i w) (\<lambda>found w.
     if found then (Ok (), w)
     else
       bind_r (GetConfigOverride d i, w) (\<lambda>co w.
       bind_r (n_Create n co initPeer (GetInitStoragePath n i) w) (\<lambda>resp w.
       (case resp of
          None \<Rightarrow> (Ok (), w)
        | Some resp \<Rightarrow>
            bind_r (case ir_Crypto resp of
                      None \<Rightarrow> (Ok (), w)
                    | Some crypto \<Rightarrow>
                        bind_r (when_r (\<not> NodeOUDisabled (Spec i))
                                  (\<lambda>w. (n_VerifyCertOU n crypto ''peer'', w)) w) (\<lambda>_ w.
                        n_GenerateSecretsFromResponse n i crypto w)) (\<lambda>_ w.
            bind_r (when_r (0 < length (ir_DeliveryClientCerts resp))
                      (n_GenerateOrdererCACerts n i (ir_DeliveryClientCerts resp)) w) (\<lambda>_ w.
            (case ir_Config resp of
               None \<Rightarrow> (Ok (), w)
             | Some config \<Rightarrow>
                 bind_r (if IsHSMEnabled d i \<and> \<not> UsingHSMProxy i then
                           bind_r (ReadHSMConfig d i w) (\<lambda>hsm w.
                             (Ok (n_SetBCCSPLibrary n (''/hsm/lib/'' @ path_base (hsm_FilePath hsm)) config), w))
                         else (Ok config, w)) (\<lambda>config w.
                 n_CreateOrUpdateConfig n i config w))))))))"

definition InitializeUpdateConfigOverride ::
  "'w deps \<Rightarrow> 'w init_deps \<Rightarrow> peer_cr \<Rightarrow> init_peer \<Rightarrow> 'w \<Rightarrow> unit go_result \<times> 'w" where
  "InitializeUpdateConfigOverride d n i initPeer w =
     (case n_MissingCrypto n i w of
        (missing, w) \<Rightarrow>
          if missing then InitializeCreate d n i initPeer w
          else
            bind_r (n_CoreFromConfigMap n i w) (\<lambda>bytes w.
            bind_r (n_CoreConfigFromBytes n i bytes, w) (\<lambda>config w.
            bind_r (GetConfigOverride d i, w) (\<lambda>co w.
            bind_r (n_Update n co (initPeer\<lparr>ip_Config := config\<rparr>) w) (\<lambda>resp w.
            (case resp of
               None \<Rightarrow> (Ok (), w)
             | Some resp \<Rightarrow>
                 bind_r (case ir_Config resp of
                           None \<Rightarrow> (Ok (), w)
                         | Some config \<Rightarrow> n_CreateOrUpdateConfig n i config w) (\<lambda>_ w.
                 when_r (0 < length (ir_DeliveryClientCerts resp))
                   (n_GenerateOrdererCACerts n i (ir_DeliveryClientCerts resp)) w)))))))"

definition InitializeUpdateNodeOU :: "'w init_deps \<Rightarrow> peer_cr \<Rightarrow> 'w \<Rightarrow> unit go_result \<times> 'w" where
  "InitializeUpdateNodeOU n i w =
     bind_r (n_GetCrypto n i w) (\<lambda>crypto w.
     bind_r (if \<not> NodeOUDisabled (Spec i) then (n_VerifyCertOU n crypto ''peer'', w)
             else if cr_AdminCerts crypto = None then
               (Fail (Plain ''node OU disabled, admin certs are required but missing''), w)
             else (Ok (), w)) (\<lambda>_ w.
     n_AddNodeOU n i w))"

definition ReconcilePeerRBAC :: "'w deps \<Rightarrow> peer_cr \<Rightarrow> 'w \<Rightarrow> unit go_result \<times> 'w" where
  "ReconcilePeerRBAC d i w =
     bind_r (d_manager d RoleManager i False w) (\<lambda>_ w.
     bind_r (d_manager d RoleBindingManager i False w) (\<lambda>_ w.
     d_manager d ServiceAccountManager i False w))"

text \<open>The HSM part of \<open>Initialize\<close>: the proxy's socket, or the volume of the HSM daemon.\<close>

definition init_hsm :: "'w deps \<Rightarrow> peer_cr \<Rightarrow> peer_update \<Rightarrow> 'w \<Rightarrow> unit go_result \<times> 'w" where
  "init_hsm d i u w =
     (if IsHSMEnabled d i then
        if UsingHSMProxy i then
          d_setenv d ''PKCS11_PROXY_SOCKET'' (case pf_HSM (Spec i) of Some e \<Rightarrow> e | None \<Rightarrow> '''') w
        else (case ReadHSMConfig d i w of
            (Fail e, w) \<Rightarrow> (Fail (Plain (''using non-proxy HSM, but no HSM config defined as config map '' @
               quoted ''ibm-hlfsupport-hsm-config'')), w)
          | (Panic p, w) \<Rightarrow> (Panic p, w)
          | (Ok hsm, w) \<Rightarrow>
              if hsm_Daemon hsm then
                wrap_err ''failed PVC reconciliation''
                  (d_manager d (PVCManager (pf_PVCPeer (Spec i))) i (p_specUpdated u) w)
              else (Ok (), w))
      else (Ok (), w))"

definition core_file :: "string \<Rightarrow> core_version" where
  "core_file fabricVersion =
     (if GetMajorReleaseVersion fabricVersion = V2 then
        if String_EqualWithoutTag fabricVersion V2_5_1 \<or> String_GreaterThan fabricVersion V2_5_1
        then CoreV25 else CoreV2
      else CoreV1)"

definition Initialize ::
  "'w deps \<Rightarrow> 'w init_deps \<Rightarrow> peer_cr \<Rightarrow> peer_update \<Rightarrow> 'w \<Rightarrow> unit go_result \<times> 'w" where
  "Initialize d n i u w =
     bind_r (ReconcilePeerRBAC d i w) (\<lambda>_ w.
     bind_r (init_hsm d i u w) (\<lambda>_ w.
     bind_r (when_r (UsingHSMProxy i)
       (d_setenv d ''PKCS11_PROXY_SOCKET'' (case pf_HSM (Spec i) of Some e \<Rightarrow> e | None \<Rightarrow> '''')) w) (\<lambda>_ w.
     bind_r (n_GetInitPeer n i (GetInitStoragePath n i) w) (\<lambda>initPeer w.
     bind_r (n_CoreConfigFromFile n i (core_file (pf_FabricVersion (Spec i))) w) (\<lambda>config w.
     let initPeer = initPeer\<lparr>ip_UsingHSMProxy := UsingHSMProxy i, ip_Config := config\<rparr>;
         updated = (p_overridesUpdated u \<or> p_nodeOUUpdated u) in
     bind_r (when_r (p_overridesUpdated u) (\<lambda>w.
       bind_r (InitializeUpdateConfigOverride d n i initPeer w) (\<lambda>_ w.
       ForConfigOverride (d_env d) (inst_of i) w)) w) (\<lambda>_ w.
     bind_r (when_r (p_nodeOUUpdated u) (\<lambda>w.
       bind_r (InitializeUpdateNodeOU n i w) (\<lambda>_ w.
       ForNodeOU (d_env d) (inst_of i) w)) w) (\<lambda>_ w.
     bind_r (when_r (\<not> updated) (InitializeCreate d n i initPeer) w) (\<lambda>_ w.
     bind_r (n_AdminCertsUpdated n i w) (\<lambda>updateNeeded w.
     when_r updateNeeded (\<lambda>w.
       bind_r (n_UpdateAdminSecret n i w) (\<lambda>_ w.
       ForAdminCertUpdate (d_env d) (inst_of i) w)) w)))))))))"

subsection \<open>Objects of the peer\<close>

definition peer_GetLabels :: "'w deps \<Rightarrow> peer_cr \<Rightarrow> string gomap" where
  "peer_GetLabels d i =
     (let prefix = d_getenv d ''OPERATOR_LABEL_PREFIX'';
          label = (if prefix = '''' then ''fabric'' else prefix)
      in [(''app'', Name i), (''creator'', label), (''orgname'', pf_MSPID (Spec i)),
          (''app.kubernetes.io/name'', label), (''app.kubernetes.io/instance'', label @ ''peer''),
          (''app.kubernetes.io/managed-by'', label @ ''-operator'')])"

definition msp_secret_name :: "peer_cr \<Rightarrow> string" where
  "msp_secret_name i = (if pf_MSPSecret (Spec i) = '''' then Name i @ ''-secret'' else pf_MSPSecret (Spec i))"

definition CreateSecret :: "'w deps \<Rightarrow> peer_cr \<Rightarrow> 'w \<Rightarrow> unit go_result \<times> 'w" where
  "CreateSecret d i w =
     bind_r (d_json_secret d (pf_Secret (Spec i)), w) (\<lambda>bytesData w.
       d_create_secret d (msp_secret_name i) (Namespace i) (peer_GetLabels d i)
         [(''secret.json'', bytesData)] w)"

text \<open>The data of the secret that was read; \<open>None\<close> is a nil map.\<close>

definition UpdateSecret :: "'w deps \<Rightarrow> peer_cr \<Rightarrow> string \<Rightarrow> string gomap option \<Rightarrow> 'w \<Rightarrow> unit go_result \<times> 'w" where
  "UpdateSecret d i name dat w =
     bind_r (d_json_secret d (pf_Secret (Spec i)), w) (\<lambda>bytesData w.
       (case dat of
          None \<Rightarrow> (Ok (), w)
        | Some m \<Rightarrow>
            if (case map_of m ''secret.json'' of Some t \<Rightarrow> t | None \<Rightarrow> '''') \<noteq> bytesData
            then d_update_secret d name (Namespace i) (AList.update ''secret.json'' bytesData m) w
            else (Ok (), w)))"

definition ReconcileSecret :: "'w deps \<Rightarrow> peer_cr \<Rightarrow> 'w \<Rightarrow> unit go_result \<times> 'w" where
  "ReconcileSecret d i w =
     (case d_get_secret d (msp_secret_name i) (Namespace i) w of
        (Fail e, w) \<Rightarrow> if IsNotFound e then CreateSecret d i w else (Fail e, w)
      | (Panic p, w) \<Rightarrow> (Panic p, w)
      | (Ok dat, w) \<Rightarrow> UpdateSecret d i (msp_secret_name i) dat w)"

definition ReconcileManagers :: "'w deps \<Rightarrow> peer_cr \<Rightarrow> peer_update \<Rightarrow> 'w \<Rightarrow> unit go_result \<times> 'w" where
  "ReconcileManagers d i u w =
     (let update = p_specUpdated u in
      bind_r (wrap_err ''failed PVC reconciliation''
        (d_manager d (PVCManager (pf_PVCPeer (Spec i))) i update w)) (\<lambda>_ w.
      bind_r (wrap_err ''failed CouchDB PVC reconciliation''
        (d_manager d (StateDBPVCManager (pf_PVCStateDB (Spec i))) i update w)) (\<lambda>_ w.
      bind_r (wrap_err ''failed Secret reconciliation'' (ReconcileSecret d i w)) (\<lambda>_ w.
      bind_r (wrap_err ''failed Service reconciliation'' (d_manager d ServiceManager i update w)) (\<lambda>_ w.
      bind_r (wrap_err ''failed Deployment reconciliation'' (d_manager d DeploymentManager i update w)) (\<lambda>_ w.
      wrap_err ''failed RBAC reconciliation'' (ReconcilePeerRBAC d i w)))))))"

definition ReconcileIngressManager ::
  "'w deps \<Rightarrow> 'w init_deps \<Rightarrow> peer_cr \<Rightarrow> bool \<Rightarrow> 'w \<Rightarrow> unit go_result \<times> 'w" where
  "ReconcileIngressManager d n i update w = ingress_by_version d (n_AllowKubernetesEighteen n) i update w"

definition k8s_ReconcileManagers ::
  "'w deps \<Rightarrow> 'w init_deps \<Rightarrow> peer_cr \<Rightarrow> peer_update \<Rightarrow> 'w \<Rightarrow> unit go_result \<times> 'w" where
  "k8s_ReconcileManagers d n i u w =
     bind_r (ReconcileManagers d i u w) (\<lambda>_ w.
     wrap_err ''failed Ingress reconciliation'' (ReconcileIngressManager d n i (p_specUpdated u) w))"

definition GetEndpoints :: "peer_cr \<Rightarrow> peer_endpoints" where
  "GetEndpoints i =
     (let at = (\<lambda>scheme part. scheme @ ''://'' @ Namespace i @ ''-'' @ Name i @ part @ pf_Domain (Spec i) @ '':443'')
      in \<lparr>ep_API = at ''grpcs'' ''-peer.'', ep_Operations = at ''https'' ''-operations.'',
          ep_Grpcweb = at ''https'' ''-grpcweb.''\<rparr>)"

definition UpdateConnectionProfileConfigmap ::
  "'w deps \<Rightarrow> 'w init_deps \<Rightarrow> peer_cr \<Rightarrow> connection_profile \<Rightarrow> 'w \<Rightarrow> unit go_result \<times> 'w" where
  "UpdateConnectionProfileConfigmap d n i profile w =
     bind_r (wrap_err ''failed to marshal connectionprofile'' (n_Profile n profile, w)) (\<lambda>bytes w.
       let name = Name i @ ''-connection-profile''; dat = [(''profile.json'', bytes)]
       in (case d_get_data d name (Namespace i) w of
             (Ok _, w) \<Rightarrow> wrap_err ''failed to update connection profile configmap''
               (d_update_cm d name (Namespace i) (peer_GetLabels d i) dat w)
           | (Fail e, w) \<Rightarrow> wrap_err ''failed to create connection profile configmap''
               (d_create_cm d name (Namespace i) (peer_GetLabels d i) dat w)
           | (Panic p, w) \<Rightarrow> (Panic p, w)))"

definition UpdateConnectionProfile :: "'w deps \<Rightarrow> 'w init_deps \<Rightarrow> peer_cr \<Rightarrow> 'w \<Rightarrow> unit go_result \<times> 'w" where
  "UpdateConnectionProfile d n i w =
     bind_r (n_Certs n TLSSignCert i w) (\<lambda>tlscert w.
     bind_r (n_Certs n TLSCACert i w) (\<lambda>tlscacerts w.
     bind_r (n_Certs n TLSInterCert i w) (\<lambda>tlsintercerts w.
     bind_r (n_Certs n EcertSignCert i w) (\<lambda>ecert w.
     bind_r (n_Certs n EcertCACert i w) (\<lambda>cacert w.
     bind_r (n_Certs n EcertAdminCert i w) (\<lambda>admincerts w.
     let tlscacerts = (if 0 < length tlsintercerts then tlsintercerts else tlscacerts) in
     UpdateConnectionProfileConfigmap d n i
       \<lparr>cp_Endpoints = GetEndpoints i, cp_TLSSignCerts = tlscert, cp_TLSCACerts = tlscacerts,
        cp_SignCerts = ecert, cp_CACerts = cacert, cp_AdminCerts = admincerts\<rparr> w))))))"

subsection \<open>Migrations\<close>

definition V1_4_6 :: string where [go_defs]: "V1_4_6 = ''1.4.6''"

text \<open>The configuration without the key store, when the peer needs it and has one.\<close>

definition FabricPeerMigrationV1_4 ::
  "'w deps \<Rightarrow> 'w init_deps \<Rightarrow> peer_cr \<Rightarrow> 'w \<Rightarrow> core_config option go_result \<times> 'w" where
  "FabricPeerMigrationV1_4 d n i w =
     (if \<not> IsHSMEnabled d i then (Ok None, w)
      else (case pf_Images (Spec i) of
          None \<Rightarrow> (Panic ''nil pointer dereference'', w)
        | Some images \<Rightarrow>
            let peerTag = t_tag (PeerMain images);
                tag = hd (split_on CHR ''-'' peerTag)
            in if \<not> str_contains peerTag ''sha'' \<and> \<not> String_GreaterThan tag V1_4_6 then (Ok None, w)
               else if str_contains peerTag ''sha'' \<and> GetMajorReleaseVersion (pf_FabricVersion (Spec i)) = V2
               then (Ok None, w)
               else
                 bind_r (wrap_err (''failed to get '' @ quoted (Name i) @ '' peer's config map'')
                           (n_CoreFromConfigMap n i w)) (\<lambda>bytes w.
                 wrap_err ''invalid peer config'' (n_RemoveKeyStore n bytes, w))))"

definition ReconcileFabricPeerMigrationV1_4 ::
  "'w deps \<Rightarrow> 'w init_deps \<Rightarrow> peer_cr \<Rightarrow> 'w \<Rightarrow> unit go_result \<times> 'w" where
  "ReconcileFabricPeerMigrationV1_4 d n i w =
     bind_r (wrap_err ''failed to migrate peer between fabric versions''
               (FabricPeerMigrationV1_4 d n i w)) (\<lambda>peerConfig w.
       (case peerConfig of
          None \<Rightarrow> (Ok (), w)
        | Some config \<Rightarrow>
            wrap_err (''failed to create/update '' @ quoted (Name i) @ '' peer's config map'')
              (n_CreateOrUpdateConfig n i config w)))"

datatype JobStatus = COMPLETED | RUNNING | NOTFOUND | UNKNOWN

definition CheckForRunningJobs ::
  "'w deps \<Rightarrow> string gomap \<Rightarrow> 'w \<Rightarrow> (JobStatus \<times> string) go_result \<times> 'w" where
  "CheckForRunningJobs d listOpt w =
     (case d_list_jobs d listOpt w of
        (Fail e, w) \<Rightarrow> (Ok (NOTFOUND, ''''), w)
      | (Panic p, w) \<Rightarrow> (Panic p, w)
      | (Ok jobs, w) \<Rightarrow>
          (case jobs of
             [] \<Rightarrow> (Ok (NOTFOUND, ''''), w)
           | job # rest \<Rightarrow>
               bind_r (job_finished job, w) (\<lambda>completed w.
                 if completed then (Ok (COMPLETED, job_name job), w) else (Ok (RUNNING, ''''), w))))"

definition HandleMigrationJobs :: "'w deps \<Rightarrow> string gomap \<Rightarrow> peer_cr \<Rightarrow> 'w \<Rightarrow> bool go_result \<times> 'w" where
  "HandleMigrationJobs d listOpt i w =
     bind_r (CheckForRunningJobs d listOpt w) (\<lambda>(status, jobName) w.
       (case status of
          RUNNING \<Rightarrow> (Ok True, w)
        | COMPLETED \<Rightarrow>
            bind_r (wrap_err ''failed to delete migration job after completion''
                      (d_delete_job d jobName (Namespace i) w)) (\<lambda>_ w.
            bind_r (wrap_err ''failed to list db migraton pods''
                      (d_list_pods d [(''job-name'', jobName)] w)) (\<lambda>pods w.
            bind_r (when_r (length pods = 1) (\<lambda>w. wrap_err ''failed to delete db migration pod''
                      (d_delete_pod d (hd pods) w)) w) (\<lambda>_ w.
            bind_r (when_r (UsingCouchDB i) (\<lambda>w. wrap_err ''failed to delete couchdb pod''
                      (d_delete_pod_in d (Name i @ ''-couchdb'') (Namespace i) w)) w) (\<lambda>_ w.
            (Ok False, w)))))
        | _ \<Rightarrow> (Ok False, w)))"

definition migration_jobs_of :: "peer_cr \<Rightarrow> string gomap" where
  "migration_jobs_of i = [(''owner'', Name i), (''job-name'', Name i @ ''-dbmigration'')]"

text \<open>The four migrations of the Kubernetes offering's \<open>Reconcile\<close>, each wrapped as a breaking error.\<close>

definition FabricPeerMigrationFailed :: int where "FabricPeerMigrationFailed = 24"
definition PeerInitilizationFailed :: int where "PeerInitilizationFailed = 22"

definition peer_migrate ::
  "'w deps \<Rightarrow> 'w init_deps \<Rightarrow> peer_cr \<Rightarrow> peer_update \<Rightarrow> 'w \<Rightarrow> unit go_result \<times> 'w" where
  "peer_migrate d n i u w =
     bind_r (when_r (p_peerTagUpdated u) (\<lambda>w. wrap_op FabricPeerMigrationFailed
       ''failed to migrate fabric peer versions'' (ReconcileFabricPeerMigrationV1_4 d n i w)) w) (\<lambda>_ w.
     bind_r (when_r (p_migrateToV2 u) (\<lambda>w. wrap_op FabricPeerMigrationFailed
       ''failed to migrate fabric peer to version v2.0.x'' (n_Migrate n ToV2 i w)) w) (\<lambda>_ w.
     bind_r (when_r (p_migrateToV24 u) (\<lambda>w. wrap_op FabricPeerMigrationFailed
       ''failed to migrate fabric peer to version v2.4.x'' (n_Migrate n ToV24 i w)) w) (\<lambda>_ w.
     when_r (p_migrateToV25 u) (\<lambda>w. wrap_op FabricPeerMigrationFailed
       ''failed to migrate fabric peer to version v2.5.x'' (n_Migrate n ToV25 i w)) w)))"

subsection \<open>Renewal of certificates\<close>

definition GetBCCSPSectionForInstance :: "'w deps \<Rightarrow> 'w init_deps \<Rightarrow> peer_cr \<Rightarrow> string option go_result" where
  "GetBCCSPSectionForInstance d n i =
     (if IsHSMEnabled d i then
        (case GetConfigOverride d i of
           Ok co \<Rightarrow> Ok (n_BCCSP n co (UsingHSMProxy i))
         | Fail e \<Rightarrow> Fail (Wrapped ''failed to get configoverride'' e)
         | Panic p \<Rightarrow> Panic p)
      else Ok None)"

definition RenewCert ::
  "'w deps \<Rightarrow> 'w init_deps \<Rightarrow> SecretType \<Rightarrow> peer_cr \<Rightarrow> bool \<Rightarrow> 'w \<Rightarrow> unit go_result \<times> 'w" where
  "RenewCert d n certType i newKey w =
     (case pf_Secret (Spec i) of
        None \<Rightarrow> (Fail (Plain (''missing secret spec for instance '' @ quoted (Name i))), w)
      | Some sec \<Rightarrow>
          (case sr_Enrollment sec of
             None \<Rightarrow> (Fail (Plain ''cannot auto-renew certificate created by MSP, force renewal required''), w)
           | Some spec \<Rightarrow>
               bind_r (GetBCCSPSectionForInstance d n i, w) (\<lambda>bccsp w.
                 n_RenewCert n certType i spec bccsp (GetInitStoragePath n i) (IsHSMEnabled d i) newKey w)))"

definition CheckCertificates :: "'w init_deps \<Rightarrow> peer_cr \<Rightarrow> 'w \<Rightarrow> cr_status go_result \<times> 'w" where
  "CheckCertificates n i w =
     bind_r (n_CheckForExpire n i (GetNumSecondsWarningPeriod (Spec i)) w) (\<lambda>(statusType, message) w.
       (Ok (no_status\<lparr>Type := statusType, Message := message,
          SReason := (if statusType = Deployed then ''allPodsDeployed'' else ''certRenewalRequired'')\<rparr>), w))"

definition UpdateCRStatus :: "'w deps \<Rightarrow> 'w init_deps \<Rightarrow> peer_cr \<Rightarrow> 'w \<Rightarrow> unit go_result \<times> 'w" where
  "UpdateCRStatus d n i w =
     bind_r (wrap_err ''failed to check certificates'' (CheckCertificates n i w)) (\<lambda>status w.
     bind_r (wrap_err ''failed to get new instance''
               (kc_get (d_client d) (Name i) (Namespace i) w)) (\<lambda>latest w.
       if Type (CRStatus latest) = Type status \<and> SReason (CRStatus latest) = SReason status \<and>
          Message (CRStatus latest) = Message status then (Ok (), w)
       else
         (case n_Time n w of
            (now, w) \<Rightarrow>
              (case kc_update_status (d_client d) (latest\<lparr>CRStatus := (CRStatus latest)\<lparr>Type := Type status,
                      SReason := SReason status, Message := Message status, SStatus := ''True'',
                      LastHeartbeatTime := now\<rparr>\<rparr>) w of
                 (r, latest, w) \<Rightarrow>
                   wrap_err (''failed to update status to '' @ Type status @ '' phase'') (r, w)))))"

definition SetCertificateTimer ::
  "'w init_deps \<Rightarrow> SecretType \<Rightarrow> 'w offering_state \<Rightarrow> unit go_result \<times> 'w offering_state" where
  "SetCertificateTimer n certType s =
     (let i = the_instance s;
          certName = SecretType_text certType @ ''-'' @ Name i @ ''-signcert'' in
      bind_r (on_world (n_DurationToNextRenewal n certType i (GetNumSecondsWarningPeriod (Spec i))) s) (\<lambda>duration s.
        (Ok (), start_renewal certName certType duration s)))"

text \<open>
  The callback of a timer, which runs on its own.  It reads the name, the namespace and the warning
  period of the instance it was built with, which the rest of a round leaves alone, and renews the
  certificate of a copy read from the server, so it changes the world only.  Its errors go to the log.
\<close>

definition renewal_fires :: "'w deps \<Rightarrow> 'w init_deps \<Rightarrow> renewal \<Rightarrow> 'w offering_state \<Rightarrow> 'w offering_state" where
  "renewal_fires d n t s =
     (let s = s\<lparr>running := filter (\<lambda>r. rn_id r \<noteq> rn_id t) (running s)\<rparr>;
          i = rn_instance t;
          (_, w) = UpdateCRStatus d n i (world s)
      in (case kc_get (d_client d) (Name i) (Namespace i) w of
            (Ok latest, w) \<Rightarrow>
              (case n_BackupCrypto n i (peer_GetLabels d i) w of
                 (Ok _, w) \<Rightarrow> s\<lparr>world := snd (RenewCert d n (rn_type t) latest False w)\<rparr>
               | (_, w) \<Rightarrow> s\<lparr>world := w\<rparr>)
          | (_, w) \<Rightarrow> s\<lparr>world := w\<rparr>))"

definition CanSetCertificateTimer :: "peer_cr \<Rightarrow> peer_update \<Rightarrow> bool" where
  "CanSetCertificateTimer i u =
     (if peer_CertificateCreated u \<or> peer_CertificateUpdated u then
        if \<not> (Type (CRStatus i) = Deployed \<or> Type (CRStatus i) = Warning) then False else True
      else True)"

text \<open>\<open>CustomLogic\<close>: the status, and the result with which the round ends early, if any.\<close>

definition CustomLogic ::
  "'w deps \<Rightarrow> 'w init_deps \<Rightarrow> peer_update \<Rightarrow> 'w offering_state \<Rightarrow>
     (cr_status option \<times> result option) go_result \<times> 'w offering_state" where
  "CustomLogic d n u s =
     (if \<not> CanSetCertificateTimer (the_instance s) u then (Ok (None, Some requeue), s)
      else
        bind_r (when_r (peer_CryptoBackupNeeded u) (\<lambda>s. wrap_err ''failed to backup TLS and ecert crypto''
          (on_world (n_BackupCrypto n (the_instance s) (peer_GetLabels d (the_instance s))) s)) s) (\<lambda>_ s.
        bind_r (wrap_err ''failed to check for expiring certificates''
          (on_world (CheckCertificates n (the_instance s)) s)) (\<lambda>status s.
        bind_r (when_r (peer_CertificateCreated u) (\<lambda>s. wrap_err ''failed to set timer for certificate renewal''
          (SetCertificateTimer n (peer_GetCreatedCertType u) s)) s) (\<lambda>_ s.
        bind_r (when_r (p_ecertUpdated u) (\<lambda>s. wrap_err ''failed to set timer for certificate renewal''
          (SetCertificateTimer n ECERT s)) s) (\<lambda>_ s.
        bind_r (when_r (p_tlsCertUpdated u) (\<lambda>s. wrap_err ''failed to set timer for certificate renewal''
          (SetCertificateTimer n TLS s)) s) (\<lambda>_ s.
        (Ok (Some status, None), s)))))))"

subsection \<open>Actions\<close>

definition EnrollForEcert :: "'w init_deps \<Rightarrow> peer_cr \<Rightarrow> 'w \<Rightarrow> unit go_result \<times> 'w" where
  "EnrollForEcert n i w =
     (case Option.bind (Option.bind (pf_Secret (Spec i)) sr_Enrollment) es_Component of
        None \<Rightarrow> (Fail (Plain ''unable to enroll, no ecert enrollment information provided''), w)
      | Some ecertSpec \<Rightarrow>
          bind_r (wrap_err ''failed to enroll for ecert''
                    (n_Enroll n i ecertSpec (GetInitStoragePath n i @ ''/ecert'') True w)) (\<lambda>crypto w.
          wrap_err ''failed to generate ecert secrets'' (n_GenerateSecrets n ''ecert'' i crypto w)))"

definition EnrollForTLSCert :: "'w init_deps \<Rightarrow> peer_cr \<Rightarrow> 'w \<Rightarrow> unit go_result \<times> 'w" where
  "EnrollForTLSCert n i w =
     (case Option.bind (Option.bind (pf_Secret (Spec i)) sr_Enrollment) es_TLS of
        None \<Rightarrow> (Fail (Plain ''unable to enroll, no TLS enrollment information provided''), w)
      | Some tlscertSpec \<Rightarrow>
          bind_r (wrap_err ''failed to enroll for TLS cert''
                    (n_Enroll n i tlscertSpec (GetInitStoragePath n i @ ''/tls'') False w)) (\<lambda>crypto w.
          wrap_err ''failed to generate ecert secrets'' (n_GenerateSecrets n ''tls'' i crypto w)))"

text \<open>\<open>ReenrollEcert\<close>, \<open>ReenrollTLSCert\<close> and their variants with a new key, through \<open>action.Reenroll\<close>.\<close>

definition reenrollCert ::
  "'w deps \<Rightarrow> 'w init_deps \<Rightarrow> SecretType \<Rightarrow> bool \<Rightarrow> string \<Rightarrow> peer_cr \<Rightarrow> 'w \<Rightarrow> unit go_result \<times> 'w" where
  "reenrollCert d n certType newKey msg i w = wrap_err msg (RenewCert d n certType i newKey w)"

definition RestartAction :: "'w deps \<Rightarrow> peer_cr \<Rightarrow> 'w \<Rightarrow> unit go_result \<times> 'w" where
  "RestartAction d i w = wrap_err ''failed to restart peer pods'' (ForRestartAction (d_env d) (inst_of i) w)"

text \<open>The action \<open>UpgradeDBs\<close>, which patches the instance itself.\<close>

definition UpgradeDBs :: "'w deps \<Rightarrow> 'w init_deps \<Rightarrow> 'w offering_state \<Rightarrow> unit go_result \<times> 'w offering_state" where
  "UpgradeDBs d n s =
     bind_r (wrap_err ''failed to reset peer'' (on_world (n_UpgradeDBs n (the_instance s)) s)) (\<lambda>_ s.
       let orig = the_instance s;
           s = on_instance ResetUpgradeDBs s
       in wrap_err ''failed to reset reenroll action flag''
            (on_object (\<lambda>i. client_Patch (d_client d) i (MergeFrom orig)) s))"

definition run_actions ::
  "'w deps \<Rightarrow> 'w init_deps \<Rightarrow> peer_update \<Rightarrow> 'w offering_state \<Rightarrow> unit go_result \<times> 'w offering_state" where
  "run_actions d n u s =
     bind_r (do_action (p_ecertReenrollNeeded u)
       (reenrollCert d n ECERT False ''ecert reenroll reusing existing private key action failed'')
       ResetEcertReenroll s) (\<lambda>_ s.
     bind_r (do_action (p_tlsReenrollNeeded u)
       (reenrollCert d n TLS False ''tls reenroll reusing existing private key action failed'')
       ResetTLSReenroll s) (\<lambda>_ s.
     bind_r (do_action (p_ecertNewKeyReenroll u)
       (reenrollCert d n ECERT True ''ecert reenroll with new key action failed'')
       ResetEcertReenroll s) (\<lambda>_ s.
     bind_r (do_action (p_tlscertNewKeyReenroll u)
       (reenrollCert d n TLS True ''tls reenroll with new key action failed'')
       ResetTLSReenroll s) (\<lambda>_ s.
     bind_r (do_action (p_ecertEnroll u) (EnrollForEcert n) ResetEcertEnroll s) (\<lambda>_ s.
     bind_r (do_action (p_tlscertEnroll u) (EnrollForTLSCert n) ResetTLSEnroll s) (\<lambda>_ s.
     if p_upgradedbs u then
       bind_r (UpgradeDBs d n s) (\<lambda>_ s. (Ok (), on_instance ResetUpgradeDBs s))
     else do_action (p_restartNeeded u) (RestartAction d) ResetRestart s))))))"

definition HandleActions ::
  "'w deps \<Rightarrow> 'w init_deps \<Rightarrow> peer_update \<Rightarrow> 'w offering_state \<Rightarrow> unit go_result \<times> 'w offering_state" where
  "HandleActions d n u s =
     (let orig = the_instance s in
      bind_r (run_actions d n u s) (\<lambda>_ s.
      wrap_err ''failed to reset action flags''
        (on_object (\<lambda>i. client_Patch (d_client d) i (MergeFrom orig)) s)))"

definition HandleRestart ::
  "'w deps \<Rightarrow> 'w init_deps \<Rightarrow> 'w offering_state \<Rightarrow> unit go_result \<times> 'w offering_state" where
  "HandleRestart d n s =
     trigger_restart d (n_RestartDisabled n) (inst_of (the_instance s)) s"

definition UpdateMSPCertificates :: "'w init_deps \<Rightarrow> peer_cr \<Rightarrow> 'w \<Rightarrow> unit go_result \<times> 'w" where
  "UpdateMSPCertificates n i w =
     bind_r (n_GetUpdatedPeer n i w) (\<lambda>updatedPeer w.
     bind_r (n_GenerateCrypto n updatedPeer w) (\<lambda>crypto w.
       (case crypto of None \<Rightarrow> (Ok (), w) | Some c \<Rightarrow> n_UpdateSecretsFromResponse n i c w)))"

subsection \<open>Reconcile\<close>

text \<open>
  The first part of both \<open>Reconcile\<close>: \<open>Some r\<close> is the result with which the round ends, since the
  version or the specification had to be written back.  \<open>csr\<close> is the additional check of the
  Kubernetes offering.
\<close>

definition peer_checks ::
  "'w deps \<Rightarrow> peer_update \<Rightarrow> ('w offering_state \<Rightarrow> bool \<times> 'w offering_state) \<Rightarrow> string \<Rightarrow> 'w offering_state \<Rightarrow>
     result option go_result \<times> 'w offering_state" where
  "peer_checks d u csr msg s =
     bind_r (wrap_err (''failed updating CR '' @ quoted (Name (the_instance s)) @ '' to version '' @
               quoted Operator_version) (SetVersion d s)) (\<lambda>versionSet s.
     if versionSet then (Ok (Some requeue), s)
     else
       bind_r (wrap_err ''failed pre reconcile checks'' (PreReconcileChecks d u s)) (\<lambda>instanceUpdated s.
       let (externalEndpointUpdated, s) = UpdateExternalEndpoint s;
           (csrHostUpdated, s) = csr s
       in if instanceUpdated \<or> externalEndpointUpdated \<or> csrHostUpdated then
            bind_r (wrap_err msg (on_object (\<lambda>i. client_Patch (d_client d) i (Resilient 3)) s)) (\<lambda>_ s.
              (Ok (Some requeue), s))
          else (Ok None, s)))"

text \<open>The requests for a restart after a change of certificates.\<close>

definition request_cert_restarts ::
  "'w deps \<Rightarrow> peer_update \<Rightarrow> 'w offering_state \<Rightarrow> unit go_result \<times> 'w offering_state" where
  "request_cert_restarts d u s =
     bind_r (when_r (p_ecertUpdated u) (\<lambda>s. wrap_err ''failed to update restart config''
       (on_world (ForCertUpdate (d_env d) ECERT (inst_of (the_instance s))) s)) s) (\<lambda>_ s.
     when_r (p_tlsCertUpdated u) (\<lambda>s. wrap_err ''failed to update restart config''
       (on_world (ForCertUpdate (d_env d) TLS (inst_of (the_instance s))) s)) s)"

definition update_msp ::
  "'w init_deps \<Rightarrow> peer_update \<Rightarrow> 'w offering_state \<Rightarrow> unit go_result \<times> 'w offering_state" where
  "update_msp n u s = when_r (p_mspUpdated u) (\<lambda>s. wrap_err ''failed to update certificates passed in MSP spec''
     (on_world (UpdateMSPCertificates n (the_instance s)) s)) s"

text \<open>The part both share between initialization and the certificates: managers, profile, states.\<close>

definition peer_resources ::
  "'w deps \<Rightarrow> 'w init_deps \<Rightarrow> (peer_cr \<Rightarrow> peer_update \<Rightarrow> 'w \<Rightarrow> unit go_result \<times> 'w) \<Rightarrow> peer_update \<Rightarrow>
     'w offering_state \<Rightarrow> unit go_result \<times> 'w offering_state" where
  "peer_resources d n managers u s =
     bind_r (wrap_err ''failed to reconcile managers'' (on_world (managers (the_instance s) u) s)) (\<lambda>_ s.
     bind_r (wrap_err ''failed to create connection profile''
       (on_world (UpdateConnectionProfile d n (the_instance s)) s)) (\<lambda>_ s.
     wrap_err ''failed to check and restore state'' (on_world (CheckStates d (the_instance s)) s)))"

definition initialize_peer ::
  "'w deps \<Rightarrow> 'w init_deps \<Rightarrow> peer_update \<Rightarrow> 'w offering_state \<Rightarrow> unit go_result \<times> 'w offering_state" where
  "initialize_peer d n u s = wrap_op PeerInitilizationFailed ''failed to initialize peer''
     (on_world (Initialize d n (the_instance s) u) s)"

definition base_Reconcile ::
  "'w deps \<Rightarrow> 'w init_deps \<Rightarrow> peer_update \<Rightarrow> 'w offering_state \<Rightarrow> result go_result \<times> 'w offering_state" where
  "base_Reconcile d n u s =
     bind_r (peer_checks d u (\<lambda>s. (False, s)) ''failed to update instance'' s) (\<lambda>early s.
     (case early of
        Some r \<Rightarrow> (Ok r, s)
      | None \<Rightarrow>
          bind_r (initialize_peer d n u s) (\<lambda>_ s.
          bind_r (peer_resources d n (ReconcileManagers d) u s) (\<lambda>_ s.
          bind_r (wrap_err ''failed to run custom offering logic'' (CustomLogic d n u s)) (\<lambda>(status, res) s.
          (case res of
             Some r \<Rightarrow> (Ok r, s)
           | None \<Rightarrow>
               bind_r (update_msp n u s) (\<lambda>_ s.
               bind_r (request_cert_restarts d u s) (\<lambda>_ s.
               bind_r (HandleActions d n u s) (\<lambda>_ s.
               bind_r (HandleRestart d n s) (\<lambda>_ s.
               (Ok (requeue\<lparr>Requeue := False, RStatus := status\<rparr>), s)))))))))))"

definition k8s_Reconcile ::
  "'w deps \<Rightarrow> 'w init_deps \<Rightarrow> peer_update \<Rightarrow> 'w offering_state \<Rightarrow> result go_result \<times> 'w offering_state" where
  "k8s_Reconcile d n u s =
     bind_r (peer_checks d u (\<lambda>s. CheckCSRHosts (k8s_hosts (the_instance s)) s)
       ''failed to update instance after prereconcile checks'' s) (\<lambda>early s.
     (case early of
        Some r \<Rightarrow> (Ok r, s)
      | None \<Rightarrow>
          bind_r (on_world (HandleMigrationJobs d (migration_jobs_of (the_instance s)) (the_instance s)) s)
            (\<lambda>jobRunning s.
          if jobRunning then (Ok requeue, s)
          else
          bind_r (initialize_peer d n u s) (\<lambda>_ s.
          bind_r (on_world (peer_migrate d n (the_instance s) u) s) (\<lambda>_ s.
          bind_r (peer_resources d n (k8s_ReconcileManagers d n) u s) (\<lambda>_ s.
          bind_r (wrap_err ''failed to run custom offering logic'' (CustomLogic d n u s)) (\<lambda>(status, res) s.
          (case res of
             Some r \<Rightarrow> (Ok r, s)
           | None \<Rightarrow>
               bind_r (request_cert_restarts d u s) (\<lambda>_ s.
               bind_r (update_msp n u s) (\<lambda>_ s.
               bind_r (HandleActions d n u s) (\<lambda>_ s.
               bind_r (HandleRestart d n s) (\<lambda>_ s.
               (Ok (requeue\<lparr>Requeue := False, RStatus := status\<rparr>), s)))))))))))))"

end
