(* ===== verification/PeerTimers.thy ===== *)
theory PeerTimers
  imports PeerReconcile
begin

text \<open>
  The timers that renew certificates: over any sequence of rounds of the Kubernetes offering and of
  timers that fire, at most one renewal is pending per certificate.
\<close>

subsection \<open>Setting a timer and letting it fire\<close>

lemma keeps_SetCertificateTimer: "timers_ok s \<Longrightarrow> timers_ok (snd (SetCertificateTimer n certType s))"
  unfolding SetCertificateTimer_def Let_def by (auto intro!: keeps keeps_start_renewal)

lemma renewal_fires_timers:
  "RenewCertTimers (renewal_fires d n t s) = RenewCertTimers s \<and>
   running (renewal_fires d n t s) = filter (\<lambda>r. rn_id r \<noteq> rn_id t) (running s) \<and>
   next_timer (renewal_fires d n t s) = next_timer s"
  by (simp add: renewal_fires_def Let_def split: prod.splits go_result.splits)

subsection \<open>A round of the offering\<close>

lemma keeps_SetVersion: "timers_ok s \<Longrightarrow> timers_ok (snd (SetVersion d s))"
  by (auto simp: SetVersion_def Let_def intro!: keeps)

lemma keeps_ReconcileHSMImages: "timers_ok s \<Longrightarrow> timers_ok (snd (ReconcileHSMImages d s))"
  by (auto simp: ReconcileHSMImages_def Let_def dest: on_world_state split: prod.splits go_result.splits option.splits)

lemma keeps_zones:
  "timers_ok s \<Longrightarrow> timers_ok (snd (SelectZone d s))"
  "timers_ok s \<Longrightarrow> timers_ok (snd (SelectRegion d s))"
  by (auto simp: SelectZone_def SelectRegion_def intro!: keeps)

lemma keeps_CheckDBType: "CheckDBType s = (b, s') \<Longrightarrow> timers_ok s' = timers_ok s"
  by (auto simp: CheckDBType_def split: if_splits)

lemma keeps_PreReconcileChecks: "timers_ok s \<Longrightarrow> timers_ok (snd (PreReconcileChecks d u s))"
  unfolding PreReconcileChecks_def
  by (intro keeps keeps_ReconcileHSMImages keeps_zones)
    (auto simp: check_images_def Let_def keeps_ReconcileHSMImages keeps_zones
       dest: keeps_CheckDBType split: prod.splits intro!: keeps)

lemma keeps_endpoint: "UpdateExternalEndpoint s = (b, s') \<Longrightarrow> timers_ok s' = timers_ok s"
  by (auto simp: UpdateExternalEndpoint_def Let_def split: if_splits)

lemma keeps_CSRHosts: "CheckCSRHosts hosts s = (b, s') \<Longrightarrow> timers_ok s' = timers_ok s"
  by (auto simp: CheckCSRHosts_def Let_def split: option.splits prod.splits)

lemma keeps_peer_checks:
  assumes "\<And>s b s'. csr s = (b, s') \<Longrightarrow> timers_ok s' = timers_ok s"
  shows "timers_ok s \<Longrightarrow> timers_ok (snd (peer_checks d u csr msg s))"
  unfolding peer_checks_def
  by (intro keeps keeps_SetVersion keeps_PreReconcileChecks)
    (auto simp: Let_def keeps_PreReconcileChecks dest: keeps_endpoint assms split: prod.splits
      intro!: keeps)

lemma keeps_CustomLogic: "timers_ok s \<Longrightarrow> timers_ok (snd (CustomLogic d n u s))"
  unfolding CustomLogic_def
  by (auto intro!: keeps keeps_SetCertificateTimer)

lemma keeps_HandleActions: "timers_ok s \<Longrightarrow> timers_ok (snd (HandleActions d n u s))"
  unfolding HandleActions_def run_actions_def UpgradeDBs_def Let_def
  by (auto intro!: keeps keeps_do_action)

lemma keeps_HandleRestart: "timers_ok s \<Longrightarrow> timers_ok (snd (HandleRestart d n s))"
  by (simp add: HandleRestart_def keeps_trigger_restart)

lemma keeps_steps:
  "timers_ok s \<Longrightarrow> timers_ok (snd (initialize_peer d n u s))"
  "timers_ok s \<Longrightarrow> timers_ok (snd (peer_resources d n m u s))"
  "timers_ok s \<Longrightarrow> timers_ok (snd (request_cert_restarts d u s))"
  "timers_ok s \<Longrightarrow> timers_ok (snd (update_msp n u s))"
  by (auto simp: initialize_peer_def peer_resources_def request_cert_restarts_def update_msp_def intro!: keeps)

lemmas keeps_round = keeps_peer_checks keeps_CustomLogic keeps_HandleActions keeps_HandleRestart keeps_steps

lemma keeps_k8s_Reconcile: "timers_ok s \<Longrightarrow> timers_ok (snd (k8s_Reconcile d n u s))"
  unfolding k8s_Reconcile_def
  by (auto intro!: keeps keeps_round dest: keeps_CSRHosts split: option.splits prod.splits)

lemma keeps_base_Reconcile: "timers_ok s \<Longrightarrow> timers_ok (snd (base_Reconcile d n u s))"
  unfolding base_Reconcile_def
  by (auto intro!: keeps keeps_round split: option.splits prod.splits)

text \<open>The two \<open>Reconcile\<close> are the rounds of the peer's offering.\<close>

definition peer_step :: "'w deps \<Rightarrow> 'w init_deps \<Rightarrow> bool \<times> peer_update \<Rightarrow> 'w offering_state \<Rightarrow> 'w offering_state" where
  "peer_step d n r s = snd (if fst r then k8s_Reconcile d n (snd r) s else base_Reconcile d n (snd r) s)"

interpretation peer_renewing: renewing "peer_step d n" "renewal_fires d n"
  by unfold_locales (simp_all add: peer_step_def keeps_k8s_Reconcile keeps_base_Reconcile renewal_fires_timers)

abbreviation offering_run :: "'w deps \<Rightarrow> 'w init_deps \<Rightarrow> 'w offering_state \<Rightarrow> 'w offering_state \<Rightarrow> bool" where
  "offering_run d n \<equiv> renewal_run (peer_step d n) (renewal_fires d n)"

end
