(* ===== verification/PeerSample.thy ===== *)
theory PeerSample
  imports PeerReconcile
begin

text \<open>
  A small cluster with one peer, on which the properties of the peer offering are tried out: its
  world is the stored custom resource and a log of the calls that write.  The collaborators answer
  at once; the server merges patches.
\<close>

abbreviation flags :: "peer_cr \<Rightarrow> peer_action" where
  "flags i \<equiv> pf_Action (Spec i)"

text \<open>
  A merge patch carries the fields in which the object differs from its base; the server writes these
  into what it stores and answers with the result.
\<close>

definition merge_flag :: "bool \<Rightarrow> bool \<Rightarrow> bool \<Rightarrow> bool" where
  "merge_flag b a st = (if a \<noteq> b then a else st)"

definition merge_action :: "peer_action \<Rightarrow> peer_action \<Rightarrow> peer_action \<Rightarrow> peer_action" where
  "merge_action b a st = \<lparr>pa_Restart = merge_flag (pa_Restart b) (pa_Restart a) (pa_Restart st),
     pa_Reenroll_Ecert = merge_flag (pa_Reenroll_Ecert b) (pa_Reenroll_Ecert a) (pa_Reenroll_Ecert st),
     pa_Reenroll_TLSCert = merge_flag (pa_Reenroll_TLSCert b) (pa_Reenroll_TLSCert a) (pa_Reenroll_TLSCert st),
     pa_Reenroll_EcertNewKey =
       merge_flag (pa_Reenroll_EcertNewKey b) (pa_Reenroll_EcertNewKey a) (pa_Reenroll_EcertNewKey st),
     pa_Reenroll_TLSCertNewKey =
       merge_flag (pa_Reenroll_TLSCertNewKey b) (pa_Reenroll_TLSCertNewKey a) (pa_Reenroll_TLSCertNewKey st),
     pa_Enroll_Ecert = merge_flag (pa_Enroll_Ecert b) (pa_Enroll_Ecert a) (pa_Enroll_Ecert st),
     pa_Enroll_TLSCert = merge_flag (pa_Enroll_TLSCert b) (pa_Enroll_TLSCert a) (pa_Enroll_TLSCert st),
     pa_UpgradeDBs = merge_flag (pa_UpgradeDBs b) (pa_UpgradeDBs a) (pa_UpgradeDBs st)\<rparr>"

type_synonym sample_world = "peer_cr \<times> string list"

definition logged :: "string \<Rightarrow> sample_world \<Rightarrow> unit go_result \<times> sample_world" where
  "logged entry w = (Ok (), fst w, snd w @ [entry])"

lemma logged_simps [simp]: "fst (logged e w) = Ok ()" "fst (snd (logged e w)) = fst w"
  by (simp_all add: logged_def)

definition peer_client :: "(peer_cr, sample_world) k8s_client" where
  "peer_client = \<lparr>kc_name = Name, kc_namespace = Namespace,
     kc_get = (\<lambda>n s w. (Ok (fst w), w)),
     kc_create = (\<lambda>i w. (Ok (), i, w)),
     kc_update = (\<lambda>i w. (Ok (), i, i, snd w)),
     kc_update_status = (\<lambda>i w. (Ok (), i, i, snd w)),
     kc_patch = (\<lambda>orig i w.
       let new = on_spec (\<lambda>sp. sp\<lparr>pf_Action := merge_action (flags orig) (flags i) (flags (fst w))\<rparr>) i
       in (Ok (), new, new, snd w @ [''patch''])),
     kc_patch_status = (\<lambda>orig i w. (Ok (), i, i, snd w @ [''patch status''])),
     kc_delete = (\<lambda>i w. (Ok (), w)), kc_apply = (\<lambda>i. i),
     kc_controller_ref = (\<lambda>owner i. Owned i), kc_sleep = (\<lambda>t w. w)\<rparr>"

definition sample_env :: "sample_world env" where
  "sample_env = \<lparr>e_now = (\<lambda>w. (0, w)), e_random = (\<lambda>n w. (0, w)), e_selector = (\<lambda>s. None),
     e_get_cm = (\<lambda>n s w. (Fail (NotFound n), w)), e_put_cm = (\<lambda>n s b. logged n),
     e_list_pods = (\<lambda>sel s w. (Ok [], w)), e_list_deployments = (\<lambda>sel s w. (Ok [], w)),
     e_get_deployment = (\<lambda>n s w. (Fail (NotFound n), w)), e_patch_deployment = (\<lambda>dep w. (Ok (), w))\<rparr>"

definition sample_deps :: "sample_world deps" where
  "sample_deps = \<lparr>d_client = peer_client, d_env = sample_env,
     d_mgr_visit = \<lparr>mv_trigger = keys, mv_pending = keys, mv_oldest = keys, mv_clear = keys\<rparr>, d_tries = 1,
     d_versions = getDefaultVersions,
     d_version_visit = \<lparr>vv_CA = keys, vv_Peer = keys, vv_Orderer = keys\<rparr>,
     d_read_core = (\<lambda>v t. Ok empty_core), d_yaml_hsm = (\<lambda>t. Ok \<lparr>hsm_FilePath = ''/usr/lib/hsm.so'',
       hsm_Image = t, hsm_AutoUpdateDisabled = False, hsm_Daemon = False\<rparr>),
     d_json_secret = (\<lambda>s. Ok ''{}''), d_url = (\<lambda>t. Ok (''tcp'', t)), d_tcp_reachable = (\<lambda>h w. (True, w)),
     d_getenv = (\<lambda>v. ''''), d_setenv = (\<lambda>v t. logged ''setenv''),
     d_list_nodes = (\<lambda>w. (Ok [[(''topology.kubernetes.io/zone'', ''z1''), (''topology.kubernetes.io/region'', ''r1'')]], w)),
     d_random = (\<lambda>k w. (0, w)),
     d_get_data = (\<lambda>n s w. (Fail (NotFound n), w)), d_get_secret = (\<lambda>n s w. (Fail (NotFound n), w)),
     d_create_secret = (\<lambda>n s l m. logged n), d_update_secret = (\<lambda>n s m. logged n),
     d_create_cm = (\<lambda>n s l m. logged n), d_update_cm = (\<lambda>n s l m. logged n),
     d_manager = (\<lambda>m i u. logged ''manager''), d_server_minor = (\<lambda>w. (Ok ''20'', w)),
     d_dep_exists = (\<lambda>i w. (False, w)), d_dep_check = (\<lambda>i w. (Ok (), w)), d_dep_restore = (\<lambda>i w. (Ok (), w)),
     d_list_jobs = (\<lambda>l w. (Ok [], w)), d_delete_job = (\<lambda>n s. logged n), d_list_pods = (\<lambda>l w. (Ok [], w)),
     d_delete_pod = (\<lambda>n. logged n), d_delete_pod_in = (\<lambda>n s. logged n)\<rparr>"

definition sample_init :: "sample_world init_deps" where
  "sample_init = \<lparr>n_GetInitPeer = (\<lambda>i path w. (Ok \<lparr>ip_UsingHSMProxy = False, ip_Config = '''', ip_text = ''''\<rparr>, w)),
     n_CoreConfigFromFile = (\<lambda>i v w. (Ok ''core'', w)), n_CoreFromConfigMap = (\<lambda>i w. (Ok ''core'', w)),
     n_CoreConfigFromBytes = (\<lambda>i t. Ok t), n_Create = (\<lambda>co p path w. (Ok None, w)),
     n_Update = (\<lambda>co p w. (Ok None, w)), n_MissingCrypto = (\<lambda>i w. (False, w)),
     n_AdminCertsUpdated = (\<lambda>i w. (Ok False, w)), n_UpdateAdminSecret = (\<lambda>i. logged ''admin''),
     n_GetCrypto = (\<lambda>i w. (Ok \<lparr>cr_AdminCerts = None, cr_text = ''''\<rparr>, w)),
     n_VerifyCertOU = (\<lambda>c t. Ok ()), n_SetBCCSPLibrary = (\<lambda>t co. co),
     n_GenerateSecretsFromResponse = (\<lambda>i c. logged ''secrets''), n_UpdateSecretsFromResponse = (\<lambda>i c. logged ''secrets''),
     n_GenerateOrdererCACerts = (\<lambda>i m. logged ''cacerts''), n_GenerateSecrets = (\<lambda>k i c. logged k),
     n_CreateOrUpdateConfig = (\<lambda>i co. logged ''config''), n_AddNodeOU = (\<lambda>i. logged ''nodeou''),
     n_GetUpdatedPeer = (\<lambda>i w. (Ok '''', w)), n_GenerateCrypto = (\<lambda>t w. (Ok None, w)),
     n_Enroll = (\<lambda>i e path b w. (Ok \<lparr>cr_AdminCerts = None, cr_text = ''''\<rparr>, w)), n_UpgradeDBs = (\<lambda>i. logged ''upgrade''),
     n_CheckForExpire = (\<lambda>i t w. (Ok (Deployed, ''''), w)), n_DurationToNextRenewal = (\<lambda>t i k w. (Ok 1000, w)),
     n_BCCSP = (\<lambda>co b. None), n_RenewCert = (\<lambda>t i sp b path h k. logged ''renew''),
     n_BackupCrypto = (\<lambda>i l. logged ''backup''), n_Certs = (\<lambda>k i w. (Ok [], w)), n_Profile = (\<lambda>p. Ok ''''),
     n_RemoveKeyStore = (\<lambda>t. Ok None), n_Migrate = (\<lambda>m i. logged ''migrate''), n_StoragePath = '''',
     n_RestartDisabled = True, n_AllowKubernetesEighteen = '''', n_Time = (\<lambda>w. (''now'', w))\<rparr>"

definition no_action :: peer_action where
  "no_action = \<lparr>pa_Restart = False, pa_Reenroll_Ecert = False, pa_Reenroll_TLSCert = False,
     pa_Reenroll_EcertNewKey = False, pa_Reenroll_TLSCertNewKey = False, pa_Enroll_Ecert = False,
     pa_Enroll_TLSCert = False, pa_UpgradeDBs = False\<rparr>"

definition sample_secret :: peer_secret where
  "sample_secret = \<lparr>sr_Enrollment = Some \<lparr>es_Component = Some \<lparr>en_CSRHosts = None, en_other = ''''\<rparr>,
     es_TLS = None, es_other = ''''\<rparr>, sr_MSP = ''''\<rparr>"

text \<open>A peer as a user creates it, and one that runs and whose user asks for two actions.\<close>

definition new_peer :: peer_cr where
  "new_peer = \<lparr>TypeKind = ''IBPPeer'', Name = ''peer1'', Namespace = ''ns'', Labels = [], Spec = \<lparr>
     pf_FabricVersion = ''2.5'', pf_Arch = [], pf_RegistryURL = '''', pf_Images = None, pf_ConfigOverride = None,
     pf_MSPID = ''Org1'', pf_MSPSecret = '''', pf_Secret = Some sample_secret, pf_Action = no_action,
     pf_DisableNodeOU = None, pf_HSM = None, pf_Domain = ''example.org'', pf_Zone = ''select'', pf_Region = '''',
     pf_StateDb = '''', pf_Replicas = None, pf_ExternalEndpoint = '''', pf_PVCPeer = '''', pf_PVCStateDB = '''',
     pf_NumSecondsWarningPeriod = 0\<rparr>, CRStatus = no_status\<lparr>SVersion := Operator_version\<rparr>\<rparr>"

definition asking_peer :: peer_cr where
  "asking_peer = on_action (\<lambda>a. a\<lparr>pa_Reenroll_Ecert := True, pa_UpgradeDBs := True\<rparr>) new_peer"

definition start_state :: "peer_cr \<Rightarrow> sample_world offering_state" where
  "start_state i = \<lparr>the_instance = i, RenewCertTimers = [], running = [], next_timer = 0,
     the_manager = \<lparr>WaitTime = 600, Timers = []\<rparr>, world = (i, [])\<rparr>"

definition asking_state :: "sample_world offering_state" where
  "asking_state = start_state asking_peer"

end
