(* ===== verification/PeerActions.thy ===== *)
theory PeerActions
  imports PeerSample
begin

text \<open>
  What becomes of the action flags of a peer, the fields of \<open>Spec.Action\<close> by which a user asks for a
  new certificate, a restart or an upgrade of the databases, when the operator has acted on them.
\<close>

subsection \<open>A server that merges\<close>

definition merges :: "(peer_cr, 'w) k8s_client \<Rightarrow> ('w \<Rightarrow> peer_cr) \<Rightarrow> bool" where
  "merges c stored \<longleftrightarrow>
     (\<forall>i. kc_apply c i = i) \<and>
     (\<forall>orig obj w. \<exists>w'. kc_patch c orig obj w = (Ok (), stored w', w') \<and>
        flags (stored w') = merge_action (flags orig) (flags obj) (flags (stored w)))"

text \<open>The other calls leave the flags that are stored alone.\<close>

definition only_patches_write :: "'w deps \<Rightarrow> 'w init_deps \<Rightarrow> ('w \<Rightarrow> 'x) \<Rightarrow> bool" where
  "only_patches_write d n F \<longleftrightarrow>
     (\<forall>t i sp b path h k. untouched F (n_RenewCert n t i sp b path h k)) \<and>
     (\<forall>i e path c. untouched F (n_Enroll n i e path c)) \<and>
     (\<forall>k i c. untouched F (n_GenerateSecrets n k i c)) \<and>
     (\<forall>i. untouched F (n_UpgradeDBs n i)) \<and>
     untouched F (e_now (d_env d)) \<and>
     (\<forall>m s. untouched F (e_get_cm (d_env d) m s)) \<and>
     (\<forall>m s b. untouched F (e_put_cm (d_env d) m s b))"

lemma leaves_RenewCert:
  "only_patches_write d n F \<Longrightarrow> untouched F (RenewCert d n t i k)"
  unfolding RenewCert_def
  by (cases "pf_Secret (Spec i)"; cases "Option.bind (pf_Secret (Spec i)) sr_Enrollment")
    (auto simp: only_patches_write_def split: option.splits intro!: leaves_bind)

lemma leaves_reenrollCert: "only_patches_write d n F \<Longrightarrow> untouched F (reenrollCert d n t k msg i)"
  using leaves_wrap [OF leaves_RenewCert] by (simp add: reenrollCert_def [abs_def])

lemma leaves_Enroll:
  assumes "only_patches_write d n F"
  shows "untouched F (EnrollForEcert n i)" and "untouched F (EnrollForTLSCert n i)"
proof -
  from assms have enroll: "untouched F (n_Enroll n i e path c)" and gen: "untouched F (n_GenerateSecrets n k i r)"
    for e path c k r by (simp_all add: only_patches_write_def)
  note steps = leaves_bind leaves_wrap enroll gen leaves_pair
  show "untouched F (EnrollForEcert n i)"
    unfolding EnrollForEcert_def
    by (cases "Option.bind (Option.bind (pf_Secret (Spec i)) sr_Enrollment) es_Component")
      (auto simp del: Option.bind_assoc intro!: steps)
  show "untouched F (EnrollForTLSCert n i)"
    unfolding EnrollForTLSCert_def
    by (cases "Option.bind (Option.bind (pf_Secret (Spec i)) sr_Enrollment) es_TLS")
      (auto simp del: Option.bind_assoc intro!: steps)
qed

lemma leaves_updateConfigFor:
  assumes "only_patches_write d n F"
  shows "untouched F (updateConfigFor (d_env d) i reason)"
proof -
  from assms have now: "F (snd (e_now (d_env d) w)) = F w"
    and get: "F (snd (e_get_cm (d_env d) m s w)) = F w"
    and put: "F (snd (e_put_cm (d_env d) m s b w)) = F w" for m s b w
    by (simp_all add: only_patches_write_def untouched_def)
  have "untouched F (Mgr_GetConfig (d_env d) i)"
    using get by (auto simp: untouched_def Mgr_GetConfig_def GetRestartConfigFrom_def wrap_err_def
        split: prod.splits go_result.splits option.splits blob.splits) (metis snd_conv)+
  moreover have "untouched F (updateRestartRequest (d_env d) p reason)" for p
    using now by (auto simp: untouched_def updateRestartRequest_def Let_def split: prod.splits option.splits)
      (metis snd_conv)+
  moreover have "untouched F (Mgr_UpdateConfigMap (d_env d) cfg i)" for cfg
    using put leaves_wrap [of F] by (simp add: Mgr_UpdateConfigMap_def [abs_def] UpdateConfig_def untouched_def)
  ultimately show ?thesis
    unfolding updateConfigFor_def Let_def by (intro leaves_bind) auto
qed

lemma leaves_RestartAction: "only_patches_write d n F \<Longrightarrow> untouched F (RestartAction d i)"
  using leaves_wrap [OF leaves_updateConfigFor] by (simp add: RestartAction_def [abs_def] ForRestartAction_def)

subsection \<open>The actions\<close>

text \<open>The flags an update resets.\<close>

definition reset_flags :: "peer_update \<Rightarrow> peer_action \<Rightarrow> peer_action" where
  "reset_flags u a = a\<lparr>
     pa_Reenroll_Ecert := pa_Reenroll_Ecert a \<and> \<not> p_ecertReenrollNeeded u \<and> \<not> p_ecertNewKeyReenroll u,
     pa_Reenroll_EcertNewKey := pa_Reenroll_EcertNewKey a \<and> \<not> p_ecertReenrollNeeded u \<and> \<not> p_ecertNewKeyReenroll u,
     pa_Reenroll_TLSCert := pa_Reenroll_TLSCert a \<and> \<not> p_tlsReenrollNeeded u \<and> \<not> p_tlscertNewKeyReenroll u,
     pa_Reenroll_TLSCertNewKey := pa_Reenroll_TLSCertNewKey a \<and> \<not> p_tlsReenrollNeeded u \<and> \<not> p_tlscertNewKeyReenroll u,
     pa_Enroll_Ecert := pa_Enroll_Ecert a \<and> \<not> p_ecertEnroll u,
     pa_Enroll_TLSCert := pa_Enroll_TLSCert a \<and> \<not> p_tlscertEnroll u\<rparr>"

lemmas resets = ResetRestart_def ResetEcertReenroll_def ResetTLSReenroll_def ResetEcertEnroll_def
  ResetTLSEnroll_def ResetUpgradeDBs_def on_action_def on_spec_def

lemma do_action_stored:
  assumes "untouched F (run (the_instance s))" and "do_action c run reset s = (r, s')"
  shows "F (world s') = F (world s)"
  using assms by (auto simp: do_action_def on_world_def untouched_def split: if_splits prod.splits go_result.splits)
    (metis snd_conv)+

lemma do_action_Ok:
  assumes "do_action c run reset s = (Ok x, s')"
  shows "the_instance s' = (if c then reset (the_instance s) else the_instance s)"
  using assms by (auto simp: do_action_def on_world_def split: if_splits prod.splits go_result.splits)

text \<open>The six actions on certificates, before the upgrade or the restart.\<close>

definition cert_actions ::
  "'w deps \<Rightarrow> 'w init_deps \<Rightarrow> peer_update \<Rightarrow> 'w offering_state \<Rightarrow> unit go_result \<times> 'w offering_state" where
  "cert_actions d n u s = fold (\<lambda>a m. bind_r m (\<lambda>_. a))
     [do_action (p_ecertReenrollNeeded u)
        (reenrollCert d n ECERT False ''ecert reenroll reusing existing private key action failed'') ResetEcertReenroll,
      do_action (p_tlsReenrollNeeded u)
        (reenrollCert d n TLS False ''tls reenroll reusing existing private key action failed'') ResetTLSReenroll,
      do_action (p_ecertNewKeyReenroll u)
        (reenrollCert d n ECERT True ''ecert reenroll with new key action failed'') ResetEcertReenroll,
      do_action (p_tlscertNewKeyReenroll u)
        (reenrollCert d n TLS True ''tls reenroll with new key action failed'') ResetTLSReenroll,
      do_action (p_ecertEnroll u) (EnrollForEcert n) ResetEcertEnroll,
      do_action (p_tlscertEnroll u) (EnrollForTLSCert n) ResetTLSEnroll] (Ok (), s)"

lemma bind_r_assoc: "bind_r (bind_r m f) g = bind_r m (\<lambda>x s. bind_r (f x s) g)"
  by (cases "fst m") (simp_all add: bind_r_def)

lemma run_actions_split:
  "run_actions d n u s = bind_r (cert_actions d n u s) (\<lambda>_ s.
     if p_upgradedbs u then bind_r (UpgradeDBs d n s) (\<lambda>_ s. (Ok (), on_instance ResetUpgradeDBs s))
     else do_action (p_restartNeeded u) (RestartAction d) ResetRestart s)"
  by (simp only: run_actions_def cert_actions_def fold.simps comp_apply id_apply bind_r_assoc bind_r_simps)

lemma fold_stored:
  assumes "\<And>a s. a \<in> set as \<Longrightarrow> F (world (snd (a s))) = F (world s)"
  shows "F (world (snd (fold (\<lambda>a m. bind_r m (\<lambda>_. a)) as m))) = F (world (snd m))"
  using assms
proof (induction as arbitrary: m)
  case (Cons a as)
  have "F (world (snd (bind_r m (\<lambda>_. a)))) = F (world (snd m))"
    using Cons.prems [of a] by (cases "fst m") (simp_all add: bind_r_def)
  with Cons show ?case by simp
qed simp

lemma cert_actions_stored:
  assumes "only_patches_write d n F"
  shows "F (world (snd (cert_actions d n u s))) = F (world s)"
proof -
  have step: "F (world (snd (do_action c run reset s))) = F (world s)" if "\<And>i. untouched F (run i)" for c run reset s
    using do_action_stored [where run = run and c = c and reset = reset and s = s, OF that] by (metis prod.exhaust_sel)
  note runs = leaves_reenrollCert [OF assms] leaves_Enroll [OF assms]
  show ?thesis
    unfolding cert_actions_def
    by (subst fold_stored) (auto intro!: step runs)
qed

lemma cert_actions_flags:
  assumes "cert_actions d n u s = (Ok x, s')"
  shows "flags (the_instance s') = reset_flags u (flags (the_instance s))"
  using assms unfolding cert_actions_def
  by (auto elim!: bind_r_OkE dest!: do_action_Ok simp: resets reset_flags_def)

text \<open>One patch with its base against the server.\<close>

lemma merge_patch:
  assumes "merges c stored"
  obtains s' where "on_object (\<lambda>i. client_Patch c i (MergeFrom orig)) s = (Ok (), s')"
    and "the_instance s' = stored (world s')"
    and "flags (stored (world s')) =
      merge_action (flags orig) (flags (the_instance s)) (flags (stored (world s)))"
proof -
  from assms obtain w' where "kc_patch c orig (the_instance s) (world s) = (Ok (), stored w', w')"
    and "flags (stored w') = merge_action (flags orig) (flags (the_instance s)) (flags (stored (world s)))"
    unfolding merges_def by blast
  with assms that [of "s\<lparr>the_instance := stored w', world := w'\<rparr>"] show ?thesis
    by (simp add: on_object_def merges_def)
qed

lemma merge_same: "merge_action a b a = b"
  by (cases a; cases b) (auto simp: merge_action_def merge_flag_def)

lemma flags_on_instance_upgrade [simp]:
  "flags (ResetUpgradeDBs i) = (flags i)\<lparr>pa_UpgradeDBs := False\<rparr>"
  "flags (ResetRestart i) = (flags i)\<lparr>pa_Restart := False\<rparr>"
  by (simp_all add: resets)

lemma merge_upgrade:
  "pa_UpgradeDBs a = pa_UpgradeDBs st \<Longrightarrow>
   merge_action a (a\<lparr>pa_UpgradeDBs := False\<rparr>) st = st\<lparr>pa_UpgradeDBs := False\<rparr>"
  by (cases a; cases st) (auto simp: merge_action_def merge_flag_def)

lemma UpgradeDBs_flags:
  assumes "merges (d_client d) stored" and "only_patches_write d n (\<lambda>w. flags (stored w))"
    and "pa_UpgradeDBs (flags (the_instance s)) = pa_UpgradeDBs (flags (stored (world s)))"
    and "UpgradeDBs d n s = (r, s')"
  shows "r = Ok () \<Longrightarrow> flags (stored (world s')) = (flags (stored (world s)))\<lparr>pa_UpgradeDBs := False\<rparr> \<and>
      the_instance s' = stored (world s')"
    and "r \<noteq> Ok () \<Longrightarrow> flags (stored (world s')) = flags (stored (world s))"
proof -
  obtain q w where run: "n_UpgradeDBs n (the_instance s) (world s) = (q, w)" by (metis surj_pair)
  with assms(2) have w: "flags (stored w) = flags (stored (world s))"
    by (metis only_patches_write_def untouched_def snd_conv)
  let ?s = "s\<lparr>world := w\<rparr>"
  from merge_patch [OF assms(1), of "the_instance s" "on_instance ResetUpgradeDBs ?s"] obtain s2
    where patch: "on_object (\<lambda>i. client_Patch (d_client d) i (MergeFrom (the_instance s)))
        (on_instance ResetUpgradeDBs ?s) = (Ok (), s2)"
      and inst: "the_instance s2 = stored (world s2)"
      and m: "flags (stored (world s2)) = merge_action (flags (the_instance s))
        ((flags (the_instance s))\<lparr>pa_UpgradeDBs := False\<rparr>) (flags (stored w))"
    by (auto simp del: client_Patch.simps)
  from assms(3) w m have fl: "flags (stored (world s2)) = (flags (stored (world s)))\<lparr>pa_UpgradeDBs := False\<rparr>"
    by (simp add: merge_upgrade)
  have U: "UpgradeDBs d n s = (case q of Ok _ \<Rightarrow> (Ok (), s2) | Fail e \<Rightarrow> (Fail (Wrapped ''failed to reset peer'' e), ?s)
      | Panic p \<Rightarrow> (Panic p, ?s))"
    using run patch by (cases q) (simp_all add: UpgradeDBs_def on_world_def Let_def del: client_Patch.simps)
  from U assms(4) fl inst w show "r = Ok () \<Longrightarrow> flags (stored (world s')) =
      (flags (stored (world s)))\<lparr>pa_UpgradeDBs := False\<rparr> \<and> the_instance s' = stored (world s')"
    by (auto split: go_result.splits)
  from U assms(4) w show "r \<noteq> Ok () \<Longrightarrow> flags (stored (world s')) = flags (stored (world s))"
    by (auto split: go_result.splits)
qed

lemma run_actions_flags:
  assumes "merges (d_client d) stored" and "only_patches_write d n (\<lambda>w. flags (stored w))"
    and "flags (the_instance s) = flags (stored (world s))"
    and "run_actions d n u s = (r, s')"
  defines "a \<equiv> flags (the_instance s)"
  shows "r = Ok () \<Longrightarrow>
      (if p_upgradedbs u then flags (stored (world s')) = a\<lparr>pa_UpgradeDBs := False\<rparr> \<and>
          flags (the_instance s') = a\<lparr>pa_UpgradeDBs := False\<rparr>
       else flags (stored (world s')) = a \<and> flags (the_instance s') =
          (if p_restartNeeded u then (reset_flags u a)\<lparr>pa_Restart := False\<rparr> else reset_flags u a))"
    and "r \<noteq> Ok () \<Longrightarrow> flags (stored (world s')) = a"
proof -
  let ?F = "\<lambda>w. flags (stored w)"
  obtain r1 s1 where c: "cert_actions d n u s = (r1, s1)" by (metis surj_pair)
  with cert_actions_stored [OF assms(2), of u s] assms(3) have st: "?F (world s1) = a"
    by (simp add: a_def)
  note split = run_actions_split [of d n u s, unfolded c]
  have "(r = Ok () \<longrightarrow> (if p_upgradedbs u then ?F (world s') = a\<lparr>pa_UpgradeDBs := False\<rparr> \<and>
          flags (the_instance s') = a\<lparr>pa_UpgradeDBs := False\<rparr>
       else ?F (world s') = a \<and> flags (the_instance s') =
          (if p_restartNeeded u then (reset_flags u a)\<lparr>pa_Restart := False\<rparr> else reset_flags u a))) \<and>
     (r \<noteq> Ok () \<longrightarrow> ?F (world s') = a)"
  proof (cases r1)
    case (Ok x)
    with cert_actions_flags c have fl: "flags (the_instance s1) = reset_flags u a" by (auto simp: a_def)
    show ?thesis
    proof (cases "p_upgradedbs u")
      case False
      with split Ok assms(4) have act: "do_action (p_restartNeeded u) (RestartAction d) ResetRestart s1 = (r, s')"
        by simp
      from do_action_stored [where F = ?F, OF leaves_RestartAction [OF assms(2)] act] st
      have "?F (world s') = a" by simp
      moreover have "the_instance s' = (if p_restartNeeded u then ResetRestart (the_instance s1) else the_instance s1)"
        if "r = Ok ()" using do_action_Ok act that by blast
      ultimately show ?thesis using False fl by simp
    next
      case True
      obtain r2 s2 where up: "UpgradeDBs d n s1 = (r2, s2)" by (metis surj_pair)
      have eq: "pa_UpgradeDBs (flags (the_instance s1)) = pa_UpgradeDBs (?F (world s1))"
        using fl st by (simp add: reset_flags_def)
      note U = UpgradeDBs_flags [OF assms(1,2) eq up]
      from split Ok True up assms(4)
      have "(r, s') = bind_r (r2, s2) (\<lambda>_ s. (Ok (), on_instance ResetUpgradeDBs s))" by simp
      with U st True show ?thesis by (cases r2) auto
    qed
  next
    case (Fail e)
    with split assms(4) st show ?thesis by simp
  next
    case (Panic p)
    with split assms(4) st show ?thesis by simp
  qed
  then show "r = Ok () \<Longrightarrow> (if p_upgradedbs u then ?F (world s') = a\<lparr>pa_UpgradeDBs := False\<rparr> \<and>
          flags (the_instance s') = a\<lparr>pa_UpgradeDBs := False\<rparr>
       else ?F (world s') = a \<and> flags (the_instance s') =
          (if p_restartNeeded u then (reset_flags u a)\<lparr>pa_Restart := False\<rparr> else reset_flags u a))"
    and "r \<noteq> Ok () \<Longrightarrow> ?F (world s') = a" by blast+
qed

lemma merge_upgraded: "merge_action a (a\<lparr>pa_UpgradeDBs := False\<rparr>) (a\<lparr>pa_UpgradeDBs := False\<rparr>) = a\<lparr>pa_UpgradeDBs := False\<rparr>"
  by (cases a) (simp add: merge_action_def merge_flag_def)

text \<open>C9: the action flags of a peer after a round acted on them, against a server that merges
  patches.  Without an upgrade of the databases the flags of the actions of the round are reset in
  the cluster and no other flag changes.  With one, the upgrade's own patch brings the other flags
  back from the server before the last patch is computed, so only the flag of the upgrade is reset
  and the others stay set although their actions were done.  When an action fails nothing is written:
  the flag was reset in memory only and stays set in the cluster.\<close>

theorem action_flags_after_round:
  assumes "merges (d_client d) stored" and "only_patches_write d n (\<lambda>w. flags (stored w))"
    and "flags (the_instance s) = flags (stored (world s))"
  shows "(HandleActions d n u s = (Ok (), s') \<longrightarrow> flags (stored (world s')) =
      (let a = flags (stored (world s)) in
       if p_upgradedbs u then a\<lparr>pa_UpgradeDBs := False\<rparr>
       else if p_restartNeeded u then (reset_flags u a)\<lparr>pa_Restart := False\<rparr> else reset_flags u a)) \<and>
    (HandleActions d n u s = (Fail e, s') \<longrightarrow> flags (stored (world s')) = flags (stored (world s)))"
proof -
  obtain r1 s1 where run: "run_actions d n u s = (r1, s1)" by (metis surj_pair)
  from merge_patch [OF assms(1), of "the_instance s" s1] obtain s2
    where patch: "on_object (\<lambda>i. client_Patch (d_client d) i (MergeFrom (the_instance s))) s1 = (Ok (), s2)"
      and m: "flags (stored (world s2)) =
        merge_action (flags (the_instance s)) (flags (the_instance s1)) (flags (stored (world s1)))"
    by (auto simp del: client_Patch.simps)
  have H: "HandleActions d n u s = (case r1 of Ok _ \<Rightarrow> (Ok (), s2) | Fail e \<Rightarrow> (Fail e, s1) | Panic p \<Rightarrow> (Panic p, s1))"
    using run patch by (cases r1) (simp_all add: HandleActions_def del: client_Patch.simps)
  note R = run_actions_flags [OF assms(1-3) run]
  show ?thesis
  proof (cases "r1 = Ok ()")
    case True
    with H R(1) m assms(3) show ?thesis
      by (auto simp: Let_def merge_same merge_upgraded split: if_splits)
  next
    case False
    with H R(2) assms(3) show ?thesis by (auto split: go_result.splits)
  qed
qed

text \<open>The user asked for a new certificate and for an upgrade at once: the first flag stays set.\<close>

theorem action_flags_after_round_witness:
  "pa_Reenroll_Ecert (flags (fst (world (snd (HandleActions sample_deps sample_init
     (no_peer_update\<lparr>p_ecertReenrollNeeded := True, p_upgradedbs := True\<rparr>) asking_state)))))"
proof -
  let ?u = "no_peer_update\<lparr>p_ecertReenrollNeeded := True, p_upgradedbs := True\<rparr>"
  let ?run = "HandleActions sample_deps sample_init ?u asking_state"
  have m: "merges (d_client sample_deps) fst"
    by (simp add: merges_def sample_deps_def peer_client_def Let_def on_spec_def)
  have o: "only_patches_write sample_deps sample_init (\<lambda>w. flags (fst w))"
    by (simp add: only_patches_write_def untouched_def sample_deps_def sample_init_def sample_env_def)
  have same: "flags (the_instance asking_state) = flags (fst (world asking_state))"
    by (simp add: asking_state_def start_state_def)
  have ok: "fst ?run = Ok ()" by code_simp
  then have "?run = (Ok (), snd ?run)" by (metis prod.collapse)
  with action_flags_after_round [OF m o same, of ?u "snd ?run"]
  have "flags (fst (world (snd ?run))) = (flags (fst (world asking_state)))\<lparr>pa_UpgradeDBs := False\<rparr>"
    by (simp add: Let_def)
  then show ?thesis by (simp add: asking_state_def start_state_def asking_peer_def on_action_def on_spec_def)
qed

end
