(* ===== verification/PeerChecks.thy ===== *)
theory PeerChecks
  imports PeerSample
begin

text \<open>
  The checks at the start of a round write defaults into the specification, and the round ends after
  the specification is written back.  Here: when the cluster does not change in between, the checks of
  the next round find nothing to write, so a peer is requeued once and not for ever.
\<close>

text \<open>Nodes, config maps and the reachability of hosts are the same at every time.\<close>

definition steady :: "'w deps \<Rightarrow> string gomap list go_result \<Rightarrow> (string \<Rightarrow> string \<Rightarrow> string gomap go_result) \<Rightarrow>
  (string \<Rightarrow> bool) \<Rightarrow> bool" where
  "steady d nodes dat reach \<longleftrightarrow> (\<forall>w. d_list_nodes d w = (nodes, w)) \<and>
     (\<forall>n s w. d_get_data d n s w = (dat n s, w)) \<and> (\<forall>h w. d_tcp_reachable d h w = (reach h, w))"

text \<open>No node carries the word that asks the operator to choose.\<close>

definition no_select :: "string gomap list go_result \<Rightarrow> bool" where
  "no_select nodes \<longleftrightarrow> (\<forall>ns. nodes = Ok ns \<longrightarrow> ''select'' \<notin> set (node_values (zone_labels @ region_labels) ns))"

lemma on_world_pure: "(\<And>w. f w = (r, w)) \<Longrightarrow> on_world f s = (r, s)"
  by (simp add: on_world_def)

lemma node_values_set: "set (node_values labels ns) = {node_label l n | l n. l \<in> set labels \<and> n \<in> set ns}"
  by (auto simp: node_values_def)

lemma node_values_mono: "set ls \<subseteq> set ms \<Longrightarrow> set (node_values ls ns) \<subseteq> set (node_values ms ns)"
  by (auto simp: node_values_set)

lemma SelectRandomValue_member:
  "SelectRandomValue d vs w = (Ok v, w') \<Longrightarrow> v = '''' \<or> v \<in> set vs"
  by (auto simp: SelectRandomValue_def split: if_splits prod.splits)

lemma GetZone_valid:
  assumes "steady d nodes dat reach" and "no_select nodes" and "GetZone d w = (Ok z, w')"
  shows "z \<noteq> ''select'' \<and> (z = '''' \<or> ValidateZone d z w2 = (Ok (), w2))"
proof (cases nodes)
  case (Ok ns)
  with assms(1,3)
  have "z = '''' \<or> z \<in> set (node_values [''topology.kubernetes.io/zone''] ns)"
    by (auto simp: GetZone_def steady_def dest: SelectRandomValue_member)
  then have "z = '''' \<or> z \<in> set (node_values zone_labels ns)"
    by (auto simp: node_values_set zone_labels_def)
  moreover have "''select'' \<notin> set (node_values zone_labels ns)"
    using Ok assms(2) node_values_mono [of zone_labels "zone_labels @ region_labels" ns]
    by (auto simp: no_select_def)
  moreover have "z \<in> set (node_values zone_labels ns) \<Longrightarrow> ValidateZone d z w2 = (Ok (), w2)"
    using Ok assms(1) by (simp add: ValidateZone_def steady_def ContainsValue_set)
  ultimately show ?thesis by auto
qed (use assms in \<open>auto simp: GetZone_def steady_def\<close>)

lemma GetRegion_valid:
  assumes "steady d nodes dat reach" and "no_select nodes" and "GetRegion d w = (Ok z, w')"
  shows "z \<noteq> ''select'' \<and> (z = '''' \<or> ValidateRegion d z w2 = (Ok (), w2))"
proof (cases nodes)
  case (Ok ns)
  with assms(1,3)
  have "z = '''' \<or> z \<in> set (node_values [''topology.kubernetes.io/region''] ns)"
    by (auto simp: GetRegion_def steady_def dest: SelectRandomValue_member)
  then have "z = '''' \<or> z \<in> set (node_values region_labels ns)"
    by (auto simp: node_values_set region_labels_def)
  moreover have "''select'' \<notin> set (node_values region_labels ns)"
    using Ok assms(2) node_values_mono [of region_labels "zone_labels @ region_labels" ns]
    by (auto simp: no_select_def)
  moreover have "z \<in> set (node_values region_labels ns) \<Longrightarrow> ValidateRegion d z w2 = (Ok (), w2)"
    using Ok assms(1) by (simp add: ValidateRegion_def steady_def ContainsValue_set)
  ultimately show ?thesis by auto
qed (use assms in \<open>auto simp: GetRegion_def steady_def\<close>)

lemma ValidateZone_steady:
  "steady d nodes dat reach \<Longrightarrow> ValidateZone d z w = (Ok (), w') \<Longrightarrow> ValidateZone d z w2 = (Ok (), w2)"
  by (cases nodes) (auto simp: ValidateZone_def steady_def split: if_splits)

lemma ValidateRegion_steady:
  "steady d nodes dat reach \<Longrightarrow> ValidateRegion d z w = (Ok (), w') \<Longrightarrow> ValidateRegion d z w2 = (Ok (), w2)"
  by (cases nodes) (auto simp: ValidateRegion_def steady_def split: if_splits)

text \<open>Each step: what it leaves in the instance, and that it finds nothing to do in a state that has it.\<close>

lemma zone_settles:
  assumes "steady d nodes dat reach" and "no_select nodes" and "SelectZone d s = (Ok b, s')"
  shows "(\<exists>z. the_instance s' = on_spec (\<lambda>sp. sp\<lparr>pf_Zone := z\<rparr>) (the_instance s)) \<and>
    (\<forall>t. pf_Zone (Spec (the_instance t)) = pf_Zone (Spec (the_instance s')) \<longrightarrow> SelectZone d t = (Ok False, t))"
proof (cases "pf_Zone (Spec (the_instance s)) = ''select''")
  case True
  with assms(3) obtain z w where z: "GetZone d (world s) = (Ok z, w)"
      "the_instance s' = on_spec (\<lambda>sp. sp\<lparr>pf_Zone := z\<rparr>) (the_instance s)"
    by (auto simp: SelectZone_def on_world_def split: prod.splits elim!: bind_r_OkE)
  with GetZone_valid [OF assms(1,2) z(1)] show ?thesis
    by (auto simp: SelectZone_def on_spec_def on_world_def)
next
  case False
  then have "the_instance s' = the_instance s"
    using assms(3) by (auto simp: SelectZone_def on_world_def split: if_splits prod.splits elim!: bind_r_OkE)
  moreover have "pf_Zone (Spec (the_instance s)) = '''' \<or>
      (\<forall>w. ValidateZone d (pf_Zone (Spec (the_instance s))) w = (Ok (), w))"
    using assms(3) False ValidateZone_steady [OF assms(1)]
    by (auto simp: SelectZone_def on_world_def split: if_splits prod.splits elim!: bind_r_OkE)
  moreover have "the_instance s = on_spec (\<lambda>sp. sp\<lparr>pf_Zone := pf_Zone (Spec (the_instance s))\<rparr>) (the_instance s)"
    by (simp add: on_spec_def)
  ultimately show ?thesis using False by (auto simp: SelectZone_def on_world_def)
qed

lemma region_settles:
  assumes "steady d nodes dat reach" and "no_select nodes" and "SelectRegion d s = (Ok b, s')"
  shows "(\<exists>z. the_instance s' = on_spec (\<lambda>sp. sp\<lparr>pf_Region := z\<rparr>) (the_instance s)) \<and>
    (\<forall>t. pf_Region (Spec (the_instance t)) = pf_Region (Spec (the_instance s')) \<longrightarrow> SelectRegion d t = (Ok False, t))"
proof (cases "pf_Region (Spec (the_instance s)) = ''select''")
  case True
  with assms(3) obtain z w where z: "GetRegion d (world s) = (Ok z, w)"
      "the_instance s' = on_spec (\<lambda>sp. sp\<lparr>pf_Region := z\<rparr>) (the_instance s)"
    by (auto simp: SelectRegion_def on_world_def split: prod.splits elim!: bind_r_OkE)
  with GetRegion_valid [OF assms(1,2) z(1)] show ?thesis
    by (auto simp: SelectRegion_def on_spec_def on_world_def)
next
  case False
  then have "the_instance s' = the_instance s"
    using assms(3) by (auto simp: SelectRegion_def on_world_def split: if_splits prod.splits elim!: bind_r_OkE)
  moreover have "pf_Region (Spec (the_instance s)) = '''' \<or>
      (\<forall>w. ValidateRegion d (pf_Region (Spec (the_instance s))) w = (Ok (), w))"
    using assms(3) False ValidateRegion_steady [OF assms(1)]
    by (auto simp: SelectRegion_def on_world_def split: if_splits prod.splits elim!: bind_r_OkE)
  moreover have "the_instance s = on_spec (\<lambda>sp. sp\<lparr>pf_Region := pf_Region (Spec (the_instance s))\<rparr>) (the_instance s)"
    by (simp add: on_spec_def)
  ultimately show ?thesis using False by (auto simp: SelectRegion_def on_world_def)
qed

text \<open>The image of the HSM library.\<close>

lemma ReadHSMConfig_steady:
  assumes "steady d nodes dat reach"
  obtains r where "\<And>i w. Namespace i = ns \<Longrightarrow> ReadHSMConfig d i w = (r, w)"
proof -
  obtain r where "r = fst (ReadHSMConfig d (new_peer\<lparr>Namespace := ns\<rparr>) undefined)" by blast
  with assms that [of r] show ?thesis
    by (cases "dat ''ibm-hlfsupport-hsm-config'' ns")
      (auto simp: ReadHSMConfig_def steady_def)
qed

lemma hsm_settles:
  assumes "steady d nodes dat reach" and "ReconcileHSMImages d s = (Ok b, s')"
  shows "(\<exists>im. the_instance s' = on_spec (\<lambda>sp. sp\<lparr>pf_Images := im\<rparr>) (the_instance s)) \<and>
    (\<forall>t. pf_Images (Spec (the_instance t)) = pf_Images (Spec (the_instance s')) \<longrightarrow>
       Namespace (the_instance t) = Namespace (the_instance s') \<longrightarrow> ReconcileHSMImages d t = (Ok False, t))"
proof -
  obtain r where r: "\<And>(i :: peer_cr) w. Namespace i = Namespace (the_instance s) \<Longrightarrow> ReadHSMConfig d i w = (r, w)"
    using ReadHSMConfig_steady [OF assms(1)] by blast
  have w: "on_world (ReadHSMConfig d (the_instance t)) t = (r, t)"
    if "Namespace (the_instance t) = Namespace (the_instance s)" for t :: "(peer_cr, _) offering"
    by (rule on_world_pure) (simp add: r that)
  have same: "i = on_spec (\<lambda>sp. sp\<lparr>pf_Images := pf_Images (Spec i)\<rparr>) i" for i
    by (simp add: on_spec_def)
  show ?thesis
  proof (cases r)
    case (Ok hsm)
    show ?thesis
    proof (cases "hsm_AutoUpdateDisabled hsm \<or> hsm_Image hsm = ''''")
      case True
      with assms(2) w [of s] Ok have "s' = s" by (auto simp: ReconcileHSMImages_def split: if_splits)
      with True w Ok same show ?thesis by (auto simp: ReconcileHSMImages_def)
    next
      case False
      define img where "img = take (nat (LastIndex (hsm_Image hsm) CHR '':'')) (hsm_Image hsm)"
      define tag where "tag = drop (nat (LastIndex (hsm_Image hsm) CHR '':'' + 1)) (hsm_Image hsm)"
      from False assms(2) w [of s] Ok obtain images where im: "pf_Images (Spec (the_instance s)) = Some images"
        and idx: "\<not> LastIndex (hsm_Image hsm) CHR '':'' < 0"
        by (auto simp: ReconcileHSMImages_def Let_def split: if_splits option.splits)
      obtain x1 x2 where ph: "PHSM images = \<lparr>t_image = x1, t_tag = x2\<rparr>" by (cases "PHSM images") auto
      have s': "s' = on_instance (on_spec (\<lambda>sp. sp\<lparr>pf_Images :=
          Some (images\<lparr>PHSM := \<lparr>t_image = img, t_tag = tag\<rparr>\<rparr>)\<rparr>)) s"
        using False assms(2) w [of s] Ok im idx ph
        by (auto simp: ReconcileHSMImages_def Let_def img_def tag_def split: if_splits)
      then have "ReconcileHSMImages d t = (Ok False, t)"
        if t: "pf_Images (Spec (the_instance t)) = pf_Images (Spec (the_instance s'))"
          "Namespace (the_instance t) = Namespace (the_instance s')" for t
      proof -
        from t s' have "Namespace (the_instance t) = Namespace (the_instance s)" by (simp add: on_spec_def)
        note wt = w [OF this]
        from t s' have imt: "pf_Images (Spec (the_instance t)) = Some (images\<lparr>PHSM := \<lparr>t_image = img, t_tag = tag\<rparr>\<rparr>)"
          by (simp add: on_spec_def)
        have "on_instance (on_spec (\<lambda>sp. sp\<lparr>pf_Images := Some (images\<lparr>PHSM := \<lparr>t_image = img, t_tag = tag\<rparr>\<rparr>)\<rparr>)) t = t"
          using imt by (simp add: on_instance_def on_spec_def)
        with False wt Ok imt idx show ?thesis
          by (simp add: ReconcileHSMImages_def Let_def img_def tag_def)
      qed
      with s' show ?thesis by (auto simp: on_spec_def)
    qed
  next
    case (Fail e)
    with assms(2) w [of s] have "s' = s" by (simp add: ReconcileHSMImages_def)
    with w Fail same show ?thesis by (auto simp: ReconcileHSMImages_def)
  next
    case (Panic p)
    with assms(2) w [of s] show ?thesis by (simp add: ReconcileHSMImages_def)
  qed
qed

text \<open>The whole sequence.\<close>

lemma check_images_quiet:
  assumes "\<not> p_fabricVersionUpdated u" and "pf_Images (Spec (the_instance t)) \<noteq> None"
    and "pf_FabricVersion (Spec (the_instance t)) \<noteq> ''''"
  shows "check_images d u t = (Ok False, t)"
  using assms by (simp add: check_images_def FabricVersionHelper_def FabricVersion_check_def
      UpdateRequired_def peer_view_def on_instance_def on_spec_def)

lemma GetConfigOverride_cong:
  "pf_FabricVersion (Spec i) = pf_FabricVersion (Spec j) \<Longrightarrow> pf_ConfigOverride (Spec i) = pf_ConfigOverride (Spec j) \<Longrightarrow>
   GetConfigOverride d i = GetConfigOverride d j"
  by (simp add: GetConfigOverride_def)

lemma ValidationChecks_cong:
  "Name i = Name j \<Longrightarrow> TypeKind i = TypeKind j \<Longrightarrow> ValidationChecks i k m = ValidationChecks j k m"
  by (simp only: ValidationChecks_def Let_def)

lemma ValidateHSMProxyURL_steady:
  "steady d nodes dat reach \<Longrightarrow> ValidateHSMProxyURL d e w = (Ok (), w') \<Longrightarrow> ValidateHSMProxyURL d e w2 = (Ok (), w2)"
  by (cases "d_url d e") (auto simp: ValidateHSMProxyURL_def steady_def Let_def split: if_splits prod.splits)

abbreviation valid_hsm_url :: "'w deps \<Rightarrow> 'w offering_state \<Rightarrow> unit go_result \<times> 'w offering_state" where
  "valid_hsm_url d s \<equiv> (if HSMSet (Spec (the_instance s)) then
     wrap_err (''invalid HSM endpoint for peer instance '' @ quoted (Name (the_instance s)))
       (on_world (ValidateHSMProxyURL d (case pf_HSM (Spec (the_instance s)) of Some e \<Rightarrow> e | None \<Rightarrow> '''')) s)
     else (Ok (), s))"

lemma hsm_url_settles:
  fixes d :: "'w deps"
  assumes "steady d nodes dat reach" and "valid_hsm_url d s = (Ok x, s')"
  shows "the_instance s' = the_instance s \<and>
    (\<forall>t. pf_HSM (Spec (the_instance t)) = pf_HSM (Spec (the_instance s)) \<longrightarrow> valid_hsm_url d t = (Ok (), t))"
proof (cases "HSMSet (Spec (the_instance s))")
  case True
  let ?e = "case pf_HSM (Spec (the_instance s)) of Some e \<Rightarrow> e | None \<Rightarrow> ''''"
  obtain r w where run: "ValidateHSMProxyURL d ?e (world s) = (r, w)" by (metis surj_pair)
  with True assms(2) have r: "r = Ok ()" and s': "s' = s\<lparr>world := w\<rparr>"
    by (auto simp: on_world_def)
  from run r ValidateHSMProxyURL_steady [OF assms(1)]
  have again: "ValidateHSMProxyURL d ?e w2 = (Ok (), w2)" for w2 by blast
  show ?thesis
  proof (intro conjI allI impI)
    show "the_instance s' = the_instance s" using s' by simp
    fix t :: "'w offering_state" assume t: "pf_HSM (Spec (the_instance t)) = pf_HSM (Spec (the_instance s))"
    from again have "on_world (ValidateHSMProxyURL d ?e) t = (Ok (), t)" by (rule on_world_pure)
    with t show "valid_hsm_url d t = (Ok (), t)" by (simp cong: option.case_cong)
  qed
next
  case False
  with assms(2) show ?thesis by (auto simp: HSMSet_def)
qed

text \<open>The last part: replicas and the kind of database.\<close>

definition last_defaults :: "peer_full \<Rightarrow> peer_full" where
  "last_defaults sp = (let sp = (if pf_Replicas sp = None then sp\<lparr>pf_Replicas := Some 1\<rparr> else sp)
     in if pf_StateDb sp = '''' then sp\<lparr>pf_StateDb := ''CouchDB''\<rparr> else sp)"

text \<open>C13: the checks settle: when the checks of a round end without error and leave a version and
  images, and the cluster stays as it is, the checks of a later round whose update brings no new
  Fabric version report that nothing changed and leave the instance as it is. A peer that was requeued
  because its specification was completed goes on to be deployed in the next round.\<close>

theorem peer_checks_settle:
  assumes "steady d nodes dat reach" and "no_select nodes"
    and "PreReconcileChecks d u s = (Ok b, s1)"
    and "pf_Images (Spec (the_instance s1)) \<noteq> None" and "pf_FabricVersion (Spec (the_instance s1)) \<noteq> ''''"
    and "\<not> p_fabricVersionUpdated u2"
  shows "PreReconcileChecks d u2 (s1\<lparr>world := w2\<rparr>) = (Ok False, s1\<lparr>world := w2\<rparr>)"
proof -
  from assms(3) obtain img s2 co x s3 h s4 z s5 r s6 where
    co: "GetConfigOverride d (the_instance s2) = Ok co"
    and va: "ValidationChecks (the_instance s2) ''IBPPeer'' (co_MaxNameLength co) = Ok ()"
    and ca: "conflicting_actions (flags (the_instance s2)) = Ok ()"
    and hv: "valid_hsm_url d s2 = (Ok x, s3)"
    and hs: "ReconcileHSMImages d s3 = (Ok h, s4)"
    and dom: "DomainSet (Spec (the_instance s4))"
    and sz: "SelectZone d s4 = (Ok z, s5)"
    and sr: "SelectRegion d s5 = (Ok r, s6)"
    and i1: "the_instance s1 = on_spec last_defaults (the_instance s6)"
    unfolding PreReconcileChecks_def
    by (elim bind_r_OkE)
      (auto simp: Let_def CheckDBType_def last_defaults_def on_spec_def split: if_splits elim!: bind_r_OkE)
  note H = hsm_url_settles [OF assms(1) hv]
  note I = hsm_settles [OF assms(1) hs]
  note Z = zone_settles [OF assms(1,2) sz]
  note R = region_settles [OF assms(1,2) sr]
  from H have i3: "the_instance s3 = the_instance s2" ..
  from I obtain im where i4: "the_instance s4 = on_spec (\<lambda>sp. sp\<lparr>pf_Images := im\<rparr>) (the_instance s3)" by blast
  from Z obtain zone where i5: "the_instance s5 = on_spec (\<lambda>sp. sp\<lparr>pf_Zone := zone\<rparr>) (the_instance s4)" by blast
  from R obtain region where i6: "the_instance s6 = on_spec (\<lambda>sp. sp\<lparr>pf_Region := region\<rparr>) (the_instance s5)" by blast
  let ?t = "s1\<lparr>world := w2\<rparr>"
  note inst = i1 i3 i4 i5 i6 on_spec_def last_defaults_def Let_def
  have "check_images d u2 ?t = (Ok False, ?t)"
    by (rule check_images_quiet) (use assms(4-6) in simp_all)
  moreover have "GetConfigOverride d (the_instance ?t) = Ok co"
    using GetConfigOverride_cong [of "the_instance ?t" "the_instance s2" d] co by (simp add: inst)
  moreover have "ValidationChecks (the_instance ?t) ''IBPPeer'' (co_MaxNameLength co) = Ok ()"
    using va ValidationChecks_cong [of "the_instance ?t" "the_instance s2"] by (simp add: inst)
  moreover have "conflicting_actions (flags (the_instance ?t)) = Ok ()"
    using ca by (simp add: inst)
  moreover have "valid_hsm_url d ?t = (Ok (), ?t)"
    by (rule H [THEN conjunct2, rule_format]) (simp add: inst)
  moreover have "ReconcileHSMImages d ?t = (Ok False, ?t)"
    by (rule I [THEN conjunct2, rule_format]) (simp_all add: inst)
  moreover have "DomainSet (Spec (the_instance ?t))"
    using dom by (simp add: DomainSet_def inst)
  moreover have "SelectZone d ?t = (Ok False, ?t)"
    by (rule Z [THEN conjunct2, rule_format]) (simp add: inst)
  moreover have "SelectRegion d ?t = (Ok False, ?t)"
    by (rule R [THEN conjunct2, rule_format]) (simp add: inst)
  moreover have "pf_Replicas (Spec (the_instance ?t)) \<noteq> None" and "CheckDBType ?t = (False, ?t)"
    by (simp_all add: CheckDBType_def inst)
  ultimately show ?thesis
    by (auto simp: PreReconcileChecks_def Let_def)
qed

text \<open>The sample peer: a first round completes zone, replicas, database and images.\<close>

definition sample_nodes :: "string gomap list" where
  "sample_nodes = [[(''topology.kubernetes.io/zone'', ''z1''), (''topology.kubernetes.io/region'', ''r1'')]]"

definition first_round :: "bool go_result \<times> sample_world offering_state" where
  "first_round = PreReconcileChecks sample_deps no_peer_update (start_state new_peer)"

lemma sample_steady:
  "steady sample_deps (Ok sample_nodes) (\<lambda>n s. Fail (NotFound n)) (\<lambda>h. True)"
  by (simp add: steady_def sample_deps_def sample_nodes_def)

lemma first_images:
  "check_images sample_deps no_peer_update (start_state new_peer) = (Ok True, on_instance (on_spec (\<lambda>sp.
     sp\<lparr>pf_FabricVersion := ''2.5.8-1'', pf_Images := pf_Images (Spec (the_instance
       (snd (check_images sample_deps no_peer_update (start_state new_peer)))))\<rparr>)) (start_state new_peer)) \<and>
   pf_Images (Spec (the_instance (snd (check_images sample_deps no_peer_update (start_state new_peer))))) \<noteq> None"
proof -
  let ?v = "PeerInstance (peer_view (Spec new_peer))"
  let ?h = "FabricVersionHelper getDefaultVersions \<lparr>vv_CA = keys, vv_Peer = keys, vv_Orderer = keys\<rparr>
     \<lparr>vu_ImagesUpdated = False, vu_FabricVersionUpdated = False\<rparr> ?v"
  have "fst ?h = Ok True" by code_simp
  moreover have "GetFabricVersion (snd ?h) = ''2.5.8-1''" by code_simp
  moreover have "ImagesSet (snd ?h)" by code_simp
  moreover have "\<exists>v. snd ?h = PeerInstance v"
    by (simp add: FabricVersionHelper_def FabricVersion_check_def SetDefaults_def setDefaultPeerImages_def
        seq_r_def Let_def split: go_result.splits option.splits)
  ultimately obtain v where h: "?h = (Ok True, PeerInstance v)" and "vw_FabricVersion v = ''2.5.8-1''"
    and "vw_Images v \<noteq> None" by (metis GetFabricVersion.simps(2) ImagesSet.simps(2) prod.exhaust_sel)
  then show ?thesis
    by (simp add: check_images_def sample_deps_def start_state_def no_peer_update_def on_instance_def on_spec_def)
qed

lemma first_round_result:
  obtains s1 where "first_round = (Ok True, s1)" and "pf_Images (Spec (the_instance s1)) \<noteq> None"
    and "pf_FabricVersion (Spec (the_instance s1)) = ''2.5.8-1''" and "pf_Zone (Spec (the_instance s1)) = ''z1''"
proof -
  define im where "im = pf_Images (Spec (the_instance
       (snd (check_images sample_deps no_peer_update (start_state new_peer)))))"
  define i where "i = on_spec (\<lambda>sp. sp\<lparr>pf_FabricVersion := ''2.5.8-1'', pf_Images := im\<rparr>) new_peer"
  have im: "im \<noteq> None" and imgs: "check_images sample_deps no_peer_update (start_state new_peer) =
      (Ok True, (start_state new_peer)\<lparr>the_instance := i\<rparr>)"
    using first_images by (simp_all add: im_def i_def on_instance_def start_state_def)
  let ?s = "(start_state new_peer)\<lparr>the_instance := i\<rparr>"
  have fields: "pf_HSM (Spec i) = None" "pf_Domain (Spec i) = ''example.org''" "pf_Zone (Spec i) = ''select''"
    "pf_Region (Spec i) = ''''" "pf_Replicas (Spec i) = None" "pf_StateDb (Spec i) = ''''" "flags i = no_action"
    "pf_ConfigOverride (Spec i) = None" "Name i = ''peer1''" "TypeKind i = ''IBPPeer''"
    by (simp_all add: i_def on_spec_def new_peer_def)
  have co: "GetConfigOverride sample_deps i = Ok empty_core"
    by (simp add: GetConfigOverride_def fields)
  have va: "ValidationChecks i ''IBPPeer'' (co_MaxNameLength empty_core) = Ok ()"
    by (simp add: ValidationChecks_def fields empty_core_def maximumCRNameLength_def)
  have ca: "conflicting_actions no_action = Ok ()" by (simp add: conflicting_actions_def no_action_def)
  have hs: "ReconcileHSMImages sample_deps ?s = (Ok False, ?s)"
    by (simp add: ReconcileHSMImages_def ReadHSMConfig_def on_world_def sample_deps_def start_state_def)
  have sz: "SelectZone sample_deps ?s = (Ok True, on_instance (on_spec (\<lambda>sp. sp\<lparr>pf_Zone := ''z1''\<rparr>)) ?s)"
    by (simp add: SelectZone_def fields on_world_def GetZone_def SelectRandomValue_def sample_deps_def
        node_values_def node_label_def start_state_def)
  have "\<exists>s1. first_round = (Ok True, s1) \<and> the_instance s1 = on_spec (\<lambda>sp. sp\<lparr>pf_Zone := ''z1'',
      pf_Replicas := Some 1, pf_StateDb := ''CouchDB''\<rparr>) i"
    unfolding first_round_def PreReconcileChecks_def
    by (simp add: imgs co va ca hs sz fields HSMSet_def DomainSet_def SelectRegion_def CheckDBType_def on_spec_def)
  with that im show ?thesis by (auto simp: on_spec_def i_def)
qed

theorem peer_checks_settle_witness:
  "\<exists>s1. PreReconcileChecks sample_deps no_peer_update (start_state new_peer) = (Ok True, s1) \<and>
     pf_Zone (Spec (the_instance s1)) = ''z1'' \<and>
     PreReconcileChecks sample_deps no_peer_update s1 = (Ok False, s1)"
proof -
  obtain s1 where run: "PreReconcileChecks sample_deps no_peer_update (start_state new_peer) = (Ok True, s1)"
    and im: "pf_Images (Spec (the_instance s1)) \<noteq> None"
    and v: "pf_FabricVersion (Spec (the_instance s1)) = ''2.5.8-1''" and z: "pf_Zone (Spec (the_instance s1)) = ''z1''"
    using first_round_result unfolding first_round_def by metis
  have nodes: "no_select (Ok sample_nodes)"
    by (simp add: no_select_def sample_nodes_def node_values_def node_label_def zone_labels_def region_labels_def)
  have "pf_FabricVersion (Spec (the_instance s1)) \<noteq> ''''" using v by simp
  from peer_checks_settle [OF sample_steady nodes run im this, of no_peer_update "world s1"]
  have "PreReconcileChecks sample_deps no_peer_update s1 = (Ok False, s1)"
    by (simp add: no_peer_update_def)
  with run z show ?thesis by blast
qed

end
