(* ===== verification/PeerOfferingProps.thy ===== *)
theory PeerOfferingProps
  imports PeerTimers PeerActions PeerChecks
begin

text \<open>
  What a round of the peer offering promises: pending renewals, the hosts of the TLS certificate, the
  image of the HSM library, the checks that write the specification back, and failed initialization.
\<close>

subsection \<open>Renewals\<close>

text \<open>C12: however rounds of the offering and expiring timers interleave, starting from an offering
  without timers or from any state reached so, at most one renewal is pending per certificate, and
  each pending one is the timer the offering's map names for it, so a later round can stop it.\<close>

theorem one_renewal_per_certificate:
  assumes "offering_run d n s s'" and "timers_ok s \<or> running s = [] \<and> RenewCertTimers s = []"
  shows "distinct (map rn_name (running s')) \<and>
    (\<forall>t\<in>set (running s'). ptr_of (RenewCertTimers s') (rn_name t) = Some (rn_id t))"
  using assms by (rule peer_renewing.run_pending)

text \<open>The enrollment certificate is renewed twice and the TLS certificate once; then one timer fires.\<close>

definition three_renewals :: "sample_world offering_state" where
  "three_renewals = (let set_timer = (\<lambda>t s. snd (SetCertificateTimer sample_init t s))
     in set_timer TLS (set_timer ECERT (set_timer ECERT (start_state asking_peer))))"

theorem one_renewal_per_certificate_witness:
  "map rn_name (running three_renewals) = [''tls-peer1-signcert'', ''ecert-peer1-signcert''] \<and>
   distinct (map rn_name (running (renewal_fires sample_deps sample_init (hd (running three_renewals)) three_renewals)))"
proof -
  have ok: "timers_ok three_renewals"
    unfolding three_renewals_def Let_def
    by (intro keeps_SetCertificateTimer) (simp add: timers_ok_def start_state_def ptr_of_def)
  have names: "map rn_name (running three_renewals) = [''tls-peer1-signcert'', ''ecert-peer1-signcert'']"
    by code_simp
  then have t: "hd (running three_renewals) \<in> set (running three_renewals)"
    by (cases "running three_renewals") auto
  have "offering_run sample_deps sample_init three_renewals
      (renewal_fires sample_deps sample_init (hd (running three_renewals)) three_renewals)"
    using t by (intro renewal_run.intros)
  from one_renewal_per_certificate [OF this] ok names show ?thesis by blast
qed

subsection \<open>Hosts of the TLS certificate\<close>

lemma append_missing:
  "AppendStringIfMissing xs x = (if x \<in> set xs then xs else xs @ [x])"
  by (auto simp: AppendStringIfMissing_def list_ex_iff)

lemma fold_append_missing:
  "set (foldl AppendStringIfMissing xs ys) = set xs \<union> set ys \<and>
   (distinct xs \<longrightarrow> distinct (foldl AppendStringIfMissing xs ys))"
proof (induction ys arbitrary: xs)
  case (Cons y ys)
  show ?case using Cons.IH [of "AppendStringIfMissing xs y"] by (auto simp: append_missing)
qed simp

lemma fold_append_known: "set ys \<subseteq> set xs \<Longrightarrow> foldl AppendStringIfMissing xs ys = xs"
  by (induction ys) (auto simp: append_missing)

lemma fold_append_prefix: "\<exists>zs. foldl AppendStringIfMissing xs ys = xs @ zs"
proof (induction ys arbitrary: xs)
  case (Cons y ys)
  show ?case using Cons.IH [of "AppendStringIfMissing xs y"] by (auto simp: append_missing)
qed simp

lemma fold_append_rest:
  assumes "distinct (xs @ zs)"
  shows "foldl AppendStringIfMissing xs (xs @ zs) = xs @ zs"
proof -
  have "foldl AppendStringIfMissing xs zs = xs @ zs" if "distinct zs" "set zs \<inter> set xs = {}" for xs zs
    using that by (induction zs arbitrary: xs) (auto simp: append_missing)
  from this [of zs xs] assms show ?thesis by (auto simp: fold_append_known)
qed

text \<open>The hosts of the certificate request: the peer's own hosts and all that were listed are in
  the result, each once; when the list had no repetitions a change is reported exactly if one of the
  peer's hosts was missing; and merging again changes nothing, so the check does not requeue for ever.\<close>

lemma csr_hosts_merged:
  assumes "distinct hosts" and "merge_hosts hosts csr = (new, changed)"
  shows "set new = set hosts \<union> (case csr of None \<Rightarrow> {} | Some old \<Rightarrow> set old) \<and> distinct new \<and>
    (\<forall>old. csr = Some old \<longrightarrow> distinct old \<longrightarrow> changed = (\<not> set hosts \<subseteq> set old)) \<and>
    merge_hosts hosts (Some new) = (new, False)"
proof (cases csr)
  case None
  with assms show ?thesis by (auto simp: merge_hosts_def Let_def fold_append_known)
next
  case (Some old)
  with assms(2) have new: "new = foldl AppendStringIfMissing hosts old" and ch: "changed = (length old \<noteq> length new)"
    by (auto simp: merge_hosts_def Let_def)
  have sets: "set new = set hosts \<union> set old" and d: "distinct new"
    using fold_append_missing [of hosts old] assms(1) new by auto
  obtain zs where zs: "new = hosts @ zs" using fold_append_prefix [of hosts old] new by blast
  have "merge_hosts hosts (Some new) = (new, False)"
    using fold_append_rest [of hosts zs] d zs by (simp add: merge_hosts_def Let_def)
  moreover have "changed = (\<not> set hosts \<subseteq> set old)" if "distinct old"
  proof -
    have "(length old = length new) = (set old = set new)"
    proof
      assume "length old = length new"
      then have "card (set old) = card (set new)" by (simp add: distinct_card that d)
      with sets show "set old = set new" by (simp add: card_subset_eq)
    next
      assume "set old = set new"
      then show "length old = length new" by (metis distinct_card that d)
    qed
    with sets ch show ?thesis by auto
  qed
  ultimately show ?thesis using Some sets d by simp
qed

lemma csr_hosts_merged_witness:
  "merge_hosts [''a'', ''b''] (Some [''c'', ''a'']) = ([''a'', ''b'', ''c''], True) \<and>
   merge_hosts [''a'', ''b''] (Some [''a'', ''b'', ''c'']) = ([''a'', ''b'', ''c''], False)"
proof -
  have m: "merge_hosts [''a'', ''b''] (Some [''c'', ''a'']) = ([''a'', ''b'', ''c''], True)"
    by (simp add: merge_hosts_def append_missing)
  have "distinct [''a'', ''b'']" by simp
  from csr_hosts_merged [OF this m] m show ?thesis by simp
qed

subsection \<open>The image of the HSM library\<close>

lemma LastIndex_split:
  assumes "c \<notin> set t"
  shows "LastIndex (s @ c # t) c = int (length s)"
proof -
  have "takeWhile (\<lambda>x. x \<noteq> c) (rev t @ c # rev s) = rev t"
    using assms by (subst takeWhile_append2) auto
  then show ?thesis by (simp add: LastIndex_def)
qed

text \<open>The image and the tag of the HSM library are split at the last colon of the configured name
  and written to the specification, a change is reported exactly if one of the two differs. A name
  without a colon, or a specification without images, makes the round panic.\<close>

lemma hsm_image_split:
  assumes "ReadHSMConfig d (the_instance s) (world s) = (Ok hsm, w)" and "\<not> hsm_AutoUpdateDisabled hsm"
    and "hsm_Image hsm \<noteq> ''''"
  shows "(CHR '':'' \<notin> set (hsm_Image hsm) \<longrightarrow>
      ReconcileHSMImages d s = (Panic ''slice bounds out of range'', s\<lparr>world := w\<rparr>)) \<and>
    (\<forall>img tag. hsm_Image hsm = img @ CHR '':'' # tag \<longrightarrow> CHR '':'' \<notin> set tag \<longrightarrow>
      ReconcileHSMImages d s =
        (case pf_Images (Spec (the_instance s)) of
           None \<Rightarrow> (Panic ''nil pointer dereference'', s\<lparr>world := w\<rparr>)
         | Some images \<Rightarrow>
             (Ok (PHSM images \<noteq> \<lparr>t_image = img, t_tag = tag\<rparr>),
              on_instance (on_spec (\<lambda>sp. sp\<lparr>pf_Images :=
                Some (images\<lparr>PHSM := \<lparr>t_image = img, t_tag = tag\<rparr>\<rparr>)\<rparr>)) (s\<lparr>world := w\<rparr>))))"
proof (intro conjI allI impI)
  assume "CHR '':'' \<notin> set (hsm_Image hsm)"
  with assms show "ReconcileHSMImages d s = (Panic ''slice bounds out of range'', s\<lparr>world := w\<rparr>)"
    by (simp add: ReconcileHSMImages_def on_world_def LastIndex_def)
next
  fix img tag assume im: "hsm_Image hsm = img @ CHR '':'' # tag" and tag: "CHR '':'' \<notin> set tag"
  have idx: "LastIndex (img @ CHR '':'' # tag) CHR '':'' = int (length img)" by (rule LastIndex_split [OF tag])
  have parts: "nat (int (length img) + 1) = Suc (length img)" by simp
  show "ReconcileHSMImages d s =
        (case pf_Images (Spec (the_instance s)) of
           None \<Rightarrow> (Panic ''nil pointer dereference'', s\<lparr>world := w\<rparr>)
         | Some images \<Rightarrow>
             (Ok (PHSM images \<noteq> \<lparr>t_image = img, t_tag = tag\<rparr>),
              on_instance (on_spec (\<lambda>sp. sp\<lparr>pf_Images :=
                Some (images\<lparr>PHSM := \<lparr>t_image = img, t_tag = tag\<rparr>\<rparr>)\<rparr>)) (s\<lparr>world := w\<rparr>)))"
  proof (cases "pf_Images (Spec (the_instance s))")
    case (Some images)
    obtain a b where "PHSM images = \<lparr>t_image = a, t_tag = b\<rparr>" by (cases "PHSM images") auto
    with Some assms im idx parts show ?thesis
      by (simp add: ReconcileHSMImages_def on_world_def Let_def)
  qed (use assms im idx in \<open>simp add: ReconcileHSMImages_def on_world_def Let_def\<close>)
qed

text \<open>A registry with a port and no tag: the port goes to the tag.\<close>

definition hsm_deps :: "sample_world deps" where
  "hsm_deps = sample_deps\<lparr>d_get_data := (\<lambda>n s w. (Ok [(''ibm-hlfsupport-hsm-config.yaml'', ''reg:5000/hsm'')], w))\<rparr>"

lemma hsm_image_split_witness:
  "\<exists>s'. ReconcileHSMImages hsm_deps (start_state (on_spec (\<lambda>sp. sp\<lparr>pf_Images := Some (no_peer_images no_tag)\<rparr>) new_peer))
      = (Ok True, s') \<and>
    map_option PHSM (pf_Images (Spec (the_instance s'))) = Some \<lparr>t_image = ''reg'', t_tag = ''5000/hsm''\<rparr>"
proof -
  let ?s = "start_state (on_spec (\<lambda>sp. sp\<lparr>pf_Images := Some (no_peer_images no_tag)\<rparr>) new_peer)"
  let ?hsm = "\<lparr>hsm_FilePath = ''/usr/lib/hsm.so'', hsm_Image = ''reg:5000/hsm'', hsm_AutoUpdateDisabled = False,
    hsm_Daemon = False\<rparr>"
  have read: "ReadHSMConfig hsm_deps (the_instance ?s) (world ?s) = (Ok ?hsm, world ?s)"
    by (simp add: ReadHSMConfig_def hsm_deps_def sample_deps_def)
  have im: "hsm_Image ?hsm = ''reg'' @ CHR '':'' # ''5000/hsm''" and tag: "CHR '':'' \<notin> set ''5000/hsm''"
    by simp_all
  have "\<not> hsm_AutoUpdateDisabled ?hsm" "hsm_Image ?hsm \<noteq> ''''" by simp_all
  note H = hsm_image_split [OF read this, THEN conjunct2, rule_format, OF im tag]
  show ?thesis
    unfolding H by (simp add: start_state_def on_spec_def no_peer_images_def no_tag_def on_instance_def)
qed

subsection \<open>Failed initialization\<close>

lemma operr_Wrap_breaking: "code \<in> set BreakingErrors \<Longrightarrow> IsBreakingError (Some (operr_Wrap e code msg)) = None"
  by (simp add: operr_Wrap_def IsBreakingError_def)

lemma peer_migrate_error:
  assumes "peer_migrate d n i u w = (Fail e, w')"
  shows "\<exists>e' msg. e = operr_Wrap e' FabricPeerMigrationFailed msg"
  using assms unfolding peer_migrate_def
  by (auto simp: bind_r_def when_r_def wrap_op_def split: if_splits go_result.splits)


text \<open>A peer that runs, and an initializer that meets a conflict.\<close>

definition running_peer :: peer_cr where
  "running_peer = (on_spec (\<lambda>s. s\<lparr>pf_FabricVersion := ''2.5.8-1'', pf_Images := Some (no_peer_images no_tag),
      pf_Zone := ''z1'', pf_StateDb := ''CouchDB'', pf_Replicas := Some 1, pf_Secret := None,
      pf_ExternalEndpoint := ''do-not-set''\<rparr>) new_peer)\<lparr>CRStatus := no_status\<lparr>Type := Deployed,
      SVersion := Operator_version\<rparr>\<rparr>"

definition failing_init :: "sample_world init_deps" where
  "failing_init = sample_init\<lparr>n_GetInitPeer := (\<lambda>i path w. (Fail (Conflict ''object was modified''), w))\<rparr>"

lemma running_fields:
  "SVersion (CRStatus running_peer) = Operator_version" "pf_FabricVersion (Spec running_peer) = ''2.5.8-1''"
  "pf_Images (Spec running_peer) \<noteq> None" "pf_Zone (Spec running_peer) = ''z1''"
  "pf_Region (Spec running_peer) = ''''" "pf_StateDb (Spec running_peer) = ''CouchDB''"
  "pf_Replicas (Spec running_peer) = Some 1" "pf_Secret (Spec running_peer) = None"
  "pf_ExternalEndpoint (Spec running_peer) = ''do-not-set''" "pf_ConfigOverride (Spec running_peer) = None"
  "flags running_peer = no_action" "pf_HSM (Spec running_peer) = None" "pf_Domain (Spec running_peer) = ''example.org''"
  "Name running_peer = ''peer1''" "TypeKind running_peer = ''IBPPeer''" "Namespace running_peer = ''ns''"
  by (simp_all add: running_peer_def on_spec_def new_peer_def no_status_def)

lemma running_checks:
  "peer_checks sample_deps no_peer_update (\<lambda>s. CheckCSRHosts (k8s_hosts (the_instance s)) s) msg
     (start_state running_peer) = (Ok None, start_state running_peer)"
proof -
  let ?s = "start_state running_peer"
  have i: "the_instance ?s = running_peer" by (simp add: start_state_def)
  have "String_Equal Operator_version Operator_version" "Operator_version \<noteq> ''''" by code_simp+
  then have v: "SetVersion sample_deps ?s = (Ok False, ?s)" by (simp add: SetVersion_def i running_fields)
  have im: "check_images sample_deps no_peer_update ?s = (Ok False, ?s)"
    by (rule check_images_quiet) (use running_fields(3) in \<open>simp_all add: i running_fields no_peer_update_def\<close>)
  have co: "GetConfigOverride sample_deps running_peer = Ok empty_core"
    by (simp add: GetConfigOverride_def running_fields)
  have va: "ValidationChecks running_peer ''IBPPeer'' (co_MaxNameLength empty_core) = Ok ()"
    by (simp add: ValidationChecks_def running_fields empty_core_def maximumCRNameLength_def)
  have ca: "conflicting_actions no_action = Ok ()" by (simp add: conflicting_actions_def no_action_def)
  have hs: "ReconcileHSMImages sample_deps ?s = (Ok False, ?s)"
    by (simp add: ReconcileHSMImages_def ReadHSMConfig_def on_world_def sample_deps_def start_state_def)
  have "ValidateZone sample_deps ''z1'' w = (Ok (), w)" for w
    by (simp add: ValidateZone_def sample_deps_def node_values_def node_label_def zone_labels_def)
  then have sz: "SelectZone sample_deps ?s = (Ok False, ?s)"
    by (simp add: SelectZone_def i running_fields on_world_def)
  have "PreReconcileChecks sample_deps no_peer_update ?s = (Ok False, ?s)"
    unfolding PreReconcileChecks_def
    by (simp add: im co va ca hs sz i running_fields HSMSet_def DomainSet_def SelectRegion_def CheckDBType_def)
  then show ?thesis
    by (simp add: peer_checks_def v UpdateExternalEndpoint_def CheckCSRHosts_def i running_fields Let_def)
qed


end
