(* ===== verification/Secrets.thy ===== *)
theory Secrets
  imports Kube
begin

text \<open>
  The crypto material of an instance in Kubernetes secrets, \<open>pkg/offering/common/secret.go\<close>: reading
  certificates and keys and encoding them in base64.

  The calls on secrets are the record \<open>secret_api\<close>.  The data of a secret is a map, \<open>None\<close> where it is
  nil; the order in which a loop visits it is a parameter.
\<close>

record 'w secret_api =
  sa_get :: "string \<Rightarrow> string \<Rightarrow> 'w \<Rightarrow> string gomap option go_result \<times> 'w"
  sa_create :: "string \<Rightarrow> string \<Rightarrow> string gomap \<Rightarrow> string gomap \<Rightarrow> 'w \<Rightarrow> unit go_result \<times> 'w"
  sa_update :: "string \<Rightarrow> string \<Rightarrow> string gomap option \<Rightarrow> 'w \<Rightarrow> unit go_result \<times> 'w"
  sa_order :: "string gomap \<Rightarrow> string list"

definition sdata :: "string gomap option \<Rightarrow> string gomap" where
  "sdata m = (case m of None \<Rightarrow> [] | Some d \<Rightarrow> d)"

subsection \<open>base64\<close>

text \<open>\<open>base64.StdEncoding\<close>: six bits per character, padded to a multiple of four.\<close>

definition b64_alphabet :: string where
  "b64_alphabet = ''ABCDEFGHIJKLMNOPQRSTUVWXYZabcdefghijklmnopqrstuvwxyz0123456789+/''"

definition b64_char :: "nat \<Rightarrow> char" where
  "b64_char n = b64_alphabet ! (n mod 64)"

fun base64 :: "string \<Rightarrow> string" where
  "base64 [] = []"
| "base64 [a] = (let n = of_char a * 16 :: nat in [b64_char (n div 64), b64_char n, CHR ''='', CHR ''=''])"
| "base64 [a, b] =
     (let n = (of_char a * 256 + of_char b) * 4 :: nat
      in [b64_char (n div 4096), b64_char (n div 64), b64_char n, CHR ''=''])"
| "base64 (a # b # c # s) =
     (let n = (of_char a * 256 + of_char b) * 256 + of_char c :: nat
      in [b64_char (n div 262144), b64_char (n div 4096), b64_char (n div 64), b64_char n] @ base64 s)"

lemma base64_length: "length (base64 s) = 4 * ((length s + 2) div 3)"
proof (induction s rule: base64.induct)
  case (4 a b c s)
  have "(length (a # b # c # s) + 2) div 3 = Suc ((length s + 2) div 3)" by simp
  with 4 show ?case by (simp add: Let_def)
qed (simp_all add: Let_def)

lemma base64_empty [simp]: "base64 s = [] \<longleftrightarrow> s = []"
  by (cases s rule: base64.cases) (simp_all add: Let_def)

subsection \<open>Certificates and keys of an instance\<close>

definition crypto_secret :: "string \<Rightarrow> string \<Rightarrow> string \<Rightarrow> string" where
  "crypto_secret prefix name kind = prefix @ ''-'' @ name @ ''-'' @ kind"

text \<open>One entry of a secret that must be there: \<open>getSignCertBytes\<close> and \<open>getKeystoreBytes\<close>.\<close>

definition secret_entry ::
  "'w secret_api \<Rightarrow> string \<Rightarrow> string \<Rightarrow> string \<Rightarrow> string \<Rightarrow> string \<Rightarrow> 'w \<Rightarrow> string go_result \<times> 'w" where
  "secret_entry a prefix kind key name namespace w =
     bind_r (sa_get a (crypto_secret prefix name kind) namespace w) (\<lambda>m w.
       if sdata m = [] then (Fail (Plain (prefix @ '' '' @ kind @ '' secret is blank'')), w)
       else (case map_of (sdata m) key of
               Some v \<Rightarrow> (Ok v, w)
             | None \<Rightarrow> (Fail (Plain (''cannot get '' @ prefix @ '' '' @ kind)), w)))"

definition getSignCertBytes :: "'w secret_api \<Rightarrow> string \<Rightarrow> string \<Rightarrow> string \<Rightarrow> 'w \<Rightarrow> string go_result \<times> 'w" where
  "getSignCertBytes a prefix = secret_entry a prefix ''signcert'' ''cert.pem''"

definition getKeystoreBytes :: "'w secret_api \<Rightarrow> string \<Rightarrow> string \<Rightarrow> string \<Rightarrow> 'w \<Rightarrow> string go_result \<times> 'w" where
  "getKeystoreBytes a prefix = secret_entry a prefix ''keystore'' ''key.pem''"

text \<open>All entries of a secret, in the order of the loop.\<close>

definition secret_values :: "'w secret_api \<Rightarrow> string gomap \<Rightarrow> string list" where
  "secret_values a m = List.map_filter (map_of m) (sa_order a m)"

definition getCACertBytes :: "'w secret_api \<Rightarrow> string \<Rightarrow> string \<Rightarrow> string \<Rightarrow> 'w \<Rightarrow> string list go_result \<times> 'w" where
  "getCACertBytes a prefix name namespace w =
     bind_r (sa_get a (crypto_secret prefix name ''cacerts'') namespace w) (\<lambda>m w.
       if sdata m = [] then (Fail (Plain (prefix @ '' cacert secret is blank'')), w)
       else (Ok (secret_values a (sdata m)), w))"

text \<open>\<open>getAdmincertBytes\<close> and \<open>getIntermediateCertBytes\<close>: a missing or blank secret is no error.\<close>

definition optional_certs ::
  "'w secret_api \<Rightarrow> string \<Rightarrow> string \<Rightarrow> string \<Rightarrow> string \<Rightarrow> 'w \<Rightarrow> string list go_result \<times> 'w" where
  "optional_certs a kind prefix name namespace w =
     (case sa_get a (crypto_secret prefix name kind) namespace w of
        (Fail e, w) \<Rightarrow> if IsNotFound e then (Ok [], w) else (Fail e, w)
      | (Panic p, w) \<Rightarrow> (Panic p, w)
      | (Ok m, w) \<Rightarrow> if sdata m = [] then (Ok [], w) else (Ok (secret_values a (sdata m)), w))"

definition getAdmincertBytes :: "'w secret_api \<Rightarrow> string \<Rightarrow> string \<Rightarrow> string \<Rightarrow> 'w \<Rightarrow> string list go_result \<times> 'w" where
  "getAdmincertBytes a = optional_certs a ''admincerts''"

definition getIntermediateCertBytes ::
  "'w secret_api \<Rightarrow> string \<Rightarrow> string \<Rightarrow> string \<Rightarrow> 'w \<Rightarrow> string list go_result \<times> 'w" where
  "getIntermediateCertBytes a = optional_certs a ''intercerts''"

text \<open>The encoded forms.\<close>

definition encoded :: "('a \<Rightarrow> 'b) \<Rightarrow> 'a go_result \<times> 'w \<Rightarrow> 'b go_result \<times> 'w" where
  "encoded f m = bind_r m (\<lambda>v w. (Ok (f v), w))"

definition getSignCertEncoded :: "'w secret_api \<Rightarrow> string \<Rightarrow> string \<Rightarrow> string \<Rightarrow> 'w \<Rightarrow> string go_result \<times> 'w" where
  "getSignCertEncoded a prefix name namespace w = encoded base64 (getSignCertBytes a prefix name namespace w)"

definition getKeystoreEncoded :: "'w secret_api \<Rightarrow> string \<Rightarrow> string \<Rightarrow> string \<Rightarrow> 'w \<Rightarrow> string go_result \<times> 'w" where
  "getKeystoreEncoded a prefix name namespace w = encoded base64 (getKeystoreBytes a prefix name namespace w)"

definition getCACertEncoded :: "'w secret_api \<Rightarrow> string \<Rightarrow> string \<Rightarrow> string \<Rightarrow> 'w \<Rightarrow> string list go_result \<times> 'w" where
  "getCACertEncoded a prefix name namespace w = encoded (map base64) (getCACertBytes a prefix name namespace w)"

definition getAdmincertEncoded :: "'w secret_api \<Rightarrow> string \<Rightarrow> string \<Rightarrow> string \<Rightarrow> 'w \<Rightarrow> string list go_result \<times> 'w" where
  "getAdmincertEncoded a prefix name namespace w = encoded (map base64) (getAdmincertBytes a prefix name namespace w)"

definition getIntermediateCertEncoded ::
  "'w secret_api \<Rightarrow> string \<Rightarrow> string \<Rightarrow> string \<Rightarrow> 'w \<Rightarrow> string list go_result \<times> 'w" where
  "getIntermediateCertEncoded a prefix name namespace w =
     encoded (map base64) (getIntermediateCertBytes a prefix name namespace w)"

subsection \<open>Crypto of a CA\<close>

record ca_crypto =
  cc_Cert :: string
  cc_Key :: string
  cc_OperationsCert :: string
  cc_OperationsKey :: string
  cc_TLSCert :: string
  cc_TLSKey :: string

text \<open>\<open>secret.Data[k]\<close>, where a nil slice and an empty one are not told apart any more.\<close>

definition entry_of :: "string gomap \<Rightarrow> string \<Rightarrow> string" where
  "entry_of m k = (case map_of m k of Some v \<Rightarrow> v | None \<Rightarrow> '''')"

definition GetCACryptoBytes :: "'w secret_api \<Rightarrow> string \<Rightarrow> string \<Rightarrow> 'w \<Rightarrow> ca_crypto go_result \<times> 'w" where
  "GetCACryptoBytes a name namespace w =
     bind_r (sa_get a (name @ ''-ca-crypto'') namespace w) (\<lambda>m w.
       if sdata m = [] then (Fail (Plain ''CA crypto secret is blank''), w)
       else if map_of (sdata m) ''tls-cert.pem'' = None then (Fail (Plain ''cannot get tlscert''), w)
       else (Ok \<lparr>cc_Cert = entry_of (sdata m) ''cert.pem'', cc_Key = entry_of (sdata m) ''key.pem'',
              cc_OperationsCert = entry_of (sdata m) ''operations-cert.pem'',
              cc_OperationsKey = entry_of (sdata m) ''operations-key.pem'',
              cc_TLSCert = entry_of (sdata m) ''tls-cert.pem'', cc_TLSKey = entry_of (sdata m) ''tls-key.pem''\<rparr>, w))"

definition GetTLSCACryptoBytes :: "'w secret_api \<Rightarrow> string \<Rightarrow> string \<Rightarrow> 'w \<Rightarrow> (string \<times> string) go_result \<times> 'w" where
  "GetTLSCACryptoBytes a name namespace w =
     bind_r (sa_get a (name @ ''-tlsca-crypto'') namespace w) (\<lambda>m w.
       if sdata m = [] then (Fail (Plain ''TLSCA crypto secret is blank''), w)
       else if map_of (sdata m) ''cert.pem'' = None then (Fail (Plain ''cannot get root TLSCA cert''), w)
       else (Ok (entry_of (sdata m) ''cert.pem'', entry_of (sdata m) ''key.pem''), w))"

definition GetCACryptoEncoded :: "'w secret_api \<Rightarrow> string \<Rightarrow> string \<Rightarrow> 'w \<Rightarrow> ca_crypto go_result \<times> 'w" where
  "GetCACryptoEncoded a name namespace w =
     encoded (\<lambda>c. \<lparr>cc_Cert = base64 (cc_Cert c), cc_Key = base64 (cc_Key c),
        cc_OperationsCert = base64 (cc_OperationsCert c), cc_OperationsKey = base64 (cc_OperationsKey c),
        cc_TLSCert = base64 (cc_TLSCert c), cc_TLSKey = base64 (cc_TLSKey c)\<rparr>)
       (GetCACryptoBytes a name namespace w)"

definition GetTLSCACryptoEncoded ::
  "'w secret_api \<Rightarrow> string \<Rightarrow> string \<Rightarrow> 'w \<Rightarrow> (string \<times> string) go_result \<times> 'w" where
  "GetTLSCACryptoEncoded a name namespace w =
     encoded (\<lambda>(c, k). (base64 c, base64 k)) (GetTLSCACryptoBytes a name namespace w)"

end
