(* ===== verification/CryptoBackup.thy ===== *)
theory CryptoBackup
  imports Secrets
begin

text \<open>
  The backup of the crypto material of an instance, \<open>pkg/offering/common/backupcrypto.go\<close>: before the
  operator renews or replaces certificates it stores what the instance has in the secret
  \<open><name>-crypto-backup\<close>, a document per kind of crypto with the last \<open>ITERATIONS\<close> copies.

  The bytes of a document are a type of their own, \<open>'d\<close>: only the codec looks into them.  Package
  \<open>json\<close> on \<open>Backup\<close> is \<open>bk_marshal\<close> and \<open>bk_unmarshal\<close>; marshalling a struct of strings and slices of
  strings does not fail, so the error branches after it are dead code.  Pointers are options, a nil slice
  and an empty one are not told apart (all slices are \<open>omitempty\<close>).
\<close>

record msp_crypto =
  m_SignCerts :: string
  m_KeyStore :: string
  m_CACerts :: "string list"
  m_IntermediateCerts :: "string list"
  m_AdminCerts :: "string list"

record backup =
  bk_List :: "msp_crypto option list"
  bk_Timestamp :: int

record crypto =
  c_TLS :: "msp_crypto option"
  c_Ecert :: "msp_crypto option"
  c_Operations :: "msp_crypto option"
  c_CA :: "msp_crypto option"

record ('w, 'd) backup_api =
  bk_marshal :: "backup \<Rightarrow> 'd"
  bk_unmarshal :: "'d \<Rightarrow> backup go_result"
  bk_now :: "'w \<Rightarrow> int \<times> 'w"
  bk_get :: "string \<Rightarrow> string \<Rightarrow> 'w \<Rightarrow> 'd gomap option go_result \<times> 'w"
  bk_create :: "string \<Rightarrow> string \<Rightarrow> string gomap \<Rightarrow> 'd gomap \<Rightarrow> 'w \<Rightarrow> unit go_result \<times> 'w"
  bk_update :: "string \<Rightarrow> string \<Rightarrow> 'd gomap option \<Rightarrow> 'w \<Rightarrow> unit go_result \<times> 'w"

definition ITERATIONS :: nat where "ITERATIONS = 10"

subsection \<open>The documents\<close>

text \<open>The four documents in the order the code writes them.\<close>

definition slots :: "(string \<times> (crypto \<Rightarrow> msp_crypto option)) list" where
  "slots = [(''tls-backup.json'', c_TLS), (''ecert-backup.json'', c_Ecert),
            (''operations-backup.json'', c_Operations), (''ca-backup.json'', c_CA)]"

text \<open>One \<open>if crypto.X != nil\<close> of \<open>CreateBackupSecretData\<close>, and the function.\<close>

definition create_slot ::
  "('w, 'd) backup_api \<Rightarrow> string \<Rightarrow> msp_crypto option \<Rightarrow> 'd gomap \<Rightarrow> 'w \<Rightarrow> 'd gomap \<times> 'w" where
  "create_slot b key crypto data w =
     (case crypto of
        None \<Rightarrow> (data, w)
      | Some c \<Rightarrow>
          let (now, w) = bk_now b w
          in (AList.update key (bk_marshal b \<lparr>bk_List = [Some c], bk_Timestamp = now\<rparr>) data, w))"

fun create_slots ::
  "('w, 'd) backup_api \<Rightarrow> (string \<times> (crypto \<Rightarrow> msp_crypto option)) list \<Rightarrow> crypto \<Rightarrow> 'd gomap \<Rightarrow> 'w \<Rightarrow> 'd gomap \<times> 'w"
where
  "create_slots b [] c data w = (data, w)"
| "create_slots b ((key, f) # ss) c data w =
     (let (data, w) = create_slot b key (f c) data w in create_slots b ss c data w)"

definition CreateBackupSecretData :: "('w, 'd) backup_api \<Rightarrow> crypto \<Rightarrow> 'w \<Rightarrow> 'd gomap \<times> 'w" where
  "CreateBackupSecretData b c w = create_slots b slots c [] w"

definition getUpdatedBackup ::
  "('w, 'd) backup_api \<Rightarrow> 'd option \<Rightarrow> msp_crypto \<Rightarrow> 'w \<Rightarrow> backup go_result \<times> 'w" where
  "getUpdatedBackup b data c w =
     bind_r (case data of
               None \<Rightarrow> (Ok [Some c], w)
             | Some d \<Rightarrow>
                 bind_r (bk_unmarshal b d, w) (\<lambda>old w.
                   (Ok (if length (bk_List old) < ITERATIONS then bk_List old @ [Some c]
                        else drop 1 (bk_List old) @ [Some c]), w)))
       (\<lambda>l w. let (now, w) = bk_now b w in (Ok \<lparr>bk_List = l, bk_Timestamp = now\<rparr>, w))"

text \<open>
  One \<open>if crypto.X != nil\<close> of \<open>UpdateBackupSecretData\<close>.  Reading the nil map of a secret without data is
  fine, assigning to it is a panic.
\<close>

definition update_slot ::
  "('w, 'd) backup_api \<Rightarrow> string \<Rightarrow> msp_crypto option \<Rightarrow> 'd gomap option \<Rightarrow> 'w \<Rightarrow> 'd gomap option go_result \<times> 'w" where
  "update_slot b key crypto data w =
     (case crypto of
        None \<Rightarrow> (Ok data, w)
      | Some c \<Rightarrow>
          bind_r (getUpdatedBackup b (case data of None \<Rightarrow> None | Some m \<Rightarrow> map_of m key) c w) (\<lambda>new w.
            case data of
              None \<Rightarrow> (Panic ''assignment to entry in nil map'', w)
            | Some m \<Rightarrow> (Ok (Some (AList.update key (bk_marshal b new) m)), w)))"

fun update_slots ::
  "('w, 'd) backup_api \<Rightarrow> (string \<times> (crypto \<Rightarrow> msp_crypto option)) list \<Rightarrow> crypto \<Rightarrow> 'd gomap option \<Rightarrow> 'w
     \<Rightarrow> 'd gomap option go_result \<times> 'w" where
  "update_slots b [] c data w = (Ok data, w)"
| "update_slots b ((key, f) # ss) c data w =
     bind_r (update_slot b key (f c) data w) (\<lambda>data w. update_slots b ss c data w)"

definition UpdateBackupSecretData ::
  "('w, 'd) backup_api \<Rightarrow> 'd gomap option \<Rightarrow> crypto \<Rightarrow> 'w \<Rightarrow> 'd gomap option go_result \<times> 'w" where
  "UpdateBackupSecretData b data c w = update_slots b slots c data w"

subsection \<open>The secret\<close>

definition GetBackupSecret ::
  "('w, 'd) backup_api \<Rightarrow> string \<Rightarrow> string \<Rightarrow> 'w \<Rightarrow> 'd gomap option go_result \<times> 'w" where
  "GetBackupSecret b name namespace w = bk_get b (name @ ''-crypto-backup'') namespace w"

definition backupCrypto ::
  "('w, 'd) backup_api \<Rightarrow> string \<Rightarrow> string \<Rightarrow> string gomap \<Rightarrow> crypto \<Rightarrow> 'w \<Rightarrow> unit go_result \<times> 'w" where
  "backupCrypto b name namespace labels c w =
     (case GetBackupSecret b name namespace w of
        (Fail e, w) \<Rightarrow>
          if IsNotFound e then
            let (data, w) = CreateBackupSecretData b c w
            in wrap_err ''failed to create backup secret''
                 (bk_create b (name @ ''-crypto-backup'') namespace labels data w)
          else (Fail (Wrapped ''failed to get backup secret'' e), w)
      | (Panic p, w) \<Rightarrow> (Panic p, w)
      | (Ok data, w) \<Rightarrow>
          bind_r (wrap_err ''failed to update backup secret data'' (UpdateBackupSecretData b data c w))
            (\<lambda>data w. wrap_err ''failed to update backup secret''
               (bk_update b (name @ ''-crypto-backup'') namespace data w)))"

subsection \<open>What is backed up\<close>

text \<open>A getter that failed leaves the zero value.\<close>

definition or_zero :: "'a \<Rightarrow> 'a go_result \<times> 'w \<Rightarrow> ('a \<Rightarrow> 'w \<Rightarrow> 'b go_result \<times> 'w) \<Rightarrow> 'b go_result \<times> 'w" where
  "or_zero z m f = (case m of (Ok v, w) \<Rightarrow> f v w | (Fail e, w) \<Rightarrow> f z w | (Panic p, w) \<Rightarrow> (Panic p, w))"

definition GetCrypto ::
  "'w secret_api \<Rightarrow> string \<Rightarrow> string \<Rightarrow> string \<Rightarrow> 'w \<Rightarrow> msp_crypto option go_result \<times> 'w" where
  "GetCrypto a prefix name namespace w =
     or_zero '''' (getSignCertEncoded a prefix name namespace w) (\<lambda>signcert w.
     or_zero '''' (getKeystoreEncoded a prefix name namespace w) (\<lambda>keystore w.
     or_zero [] (getCACertEncoded a prefix name namespace w) (\<lambda>cacerts w.
     or_zero [] (getAdmincertEncoded a prefix name namespace w) (\<lambda>admincerts w.
     or_zero [] (getIntermediateCertEncoded a prefix name namespace w) (\<lambda>intercerts w.
       (Ok (if signcert \<noteq> '''' \<or> keystore \<noteq> '''' \<or> cacerts \<noteq> [] \<or> admincerts \<noteq> [] \<or> intercerts \<noteq> []
            then Some \<lparr>m_SignCerts = signcert, m_KeyStore = keystore, m_CACerts = cacerts,
                    m_IntermediateCerts = intercerts, m_AdminCerts = admincerts\<rparr>
            else None), w))))))"

definition sign_key_msp :: "string \<Rightarrow> string \<Rightarrow> msp_crypto" where
  "sign_key_msp cert key =
     \<lparr>m_SignCerts = cert, m_KeyStore = key, m_CACerts = [], m_IntermediateCerts = [], m_AdminCerts = []\<rparr>"

definition GetCACrypto ::
  "'w secret_api \<Rightarrow> string \<Rightarrow> string \<Rightarrow> 'w \<Rightarrow> (msp_crypto \<times> msp_crypto \<times> msp_crypto) option go_result \<times> 'w" where
  "GetCACrypto a name namespace w =
     (case GetCACryptoEncoded a name namespace w of
        (Ok e, w) \<Rightarrow> (Ok (Some (sign_key_msp (cc_Cert e) (cc_Key e),
                         sign_key_msp (cc_OperationsCert e) (cc_OperationsKey e),
                         sign_key_msp (cc_TLSCert e) (cc_TLSKey e))), w)
      | (Fail e, w) \<Rightarrow> (Ok None, w)
      | (Panic p, w) \<Rightarrow> (Panic p, w))"

definition BackupCrypto ::
  "'w secret_api \<Rightarrow> ('w, 'd) backup_api \<Rightarrow> string \<Rightarrow> string \<Rightarrow> string gomap \<Rightarrow> 'w \<Rightarrow> unit go_result \<times> 'w" where
  "BackupCrypto a b name namespace labels w =
     bind_r (GetCrypto a ''tls'' name namespace w) (\<lambda>tls w.
     bind_r (GetCrypto a ''ecert'' name namespace w) (\<lambda>ecert w.
       if tls = None \<and> ecert = None then (Ok (), w)
       else backupCrypto b name namespace labels
              \<lparr>c_TLS = tls, c_Ecert = ecert, c_Operations = None, c_CA = None\<rparr> w))"

definition BackupCACrypto ::
  "'w secret_api \<Rightarrow> ('w, 'd) backup_api \<Rightarrow> string \<Rightarrow> string \<Rightarrow> string gomap \<Rightarrow> 'w \<Rightarrow> unit go_result \<times> 'w" where
  "BackupCACrypto a b name namespace labels w =
     bind_r (GetCACrypto a name namespace w) (\<lambda>cs w.
       case cs of
         None \<Rightarrow> (Ok (), w)
       | Some (ca, operations, tls) \<Rightarrow> backupCrypto b name namespace labels
              \<lparr>c_TLS = Some tls, c_Ecert = None, c_Operations = Some operations, c_CA = Some ca\<rparr> w)"

end
