(* ===== verification/Certificates.thy ===== *)
theory Certificates
  imports PeerReconcile CryptoBackup
begin

text \<open>
  The certificate manager, \<open>pkg/certificate/certificate.go\<close>: when the certificates of an instance expire,
  how long until they have to be renewed, and the renewal itself.

  Parsing a certificate (packages \<open>pem\<close> and \<open>x509\<close>) is \<open>cd_not_after\<close>, the text of a time \<open>cd_time_text\<close>;
  the reenrollers, which talk to a CA or start a job, are the functions \<open>cd_new\<close> to \<open>cd_new_hsm\<close>.
  Durations are 64-bit numbers of nanoseconds; a difference of times saturates, a product wraps around.
  The storage path is taken to be clean, so that joining paths is joining them with a slash.
\<close>

record cert_instance =
  ci_name :: string
  ci_namespace :: string
  ci_labels :: "string gomap"
  ci_hsm_proxy :: bool

record ('w, 'r) cert_deps =
  cd_api :: "'w secret_api"
  cd_update :: "string \<Rightarrow> string \<Rightarrow> string gomap \<Rightarrow> string gomap \<Rightarrow> 'w \<Rightarrow> unit go_result \<times> 'w"
  cd_now :: "'w \<Rightarrow> int \<times> 'w"
  cd_not_after :: "string \<Rightarrow> int go_result"
  cd_time_text :: "int \<Rightarrow> string"
  cd_new :: "enroll option \<Rightarrow> string \<Rightarrow> string option \<Rightarrow> bool \<Rightarrow> 'w \<Rightarrow> 'r go_result \<times> 'w"
  cd_init :: "'r \<Rightarrow> 'w \<Rightarrow> 'r go_result \<times> 'w"
  cd_load :: "'r \<Rightarrow> string \<Rightarrow> string \<Rightarrow> bool \<Rightarrow> 'w \<Rightarrow> 'r go_result \<times> 'w"
  cd_reenroll :: "'r \<Rightarrow> 'w \<Rightarrow> (string \<times> string) go_result \<times> 'w"
  cd_read_hsm :: "cert_instance \<Rightarrow> 'w \<Rightarrow> hsm_config go_result \<times> 'w"
  cd_new_hsm :: "bool \<Rightarrow> enroll option \<Rightarrow> string \<Rightarrow> string option \<Rightarrow> hsm_config \<Rightarrow> cert_instance \<Rightarrow> bool \<Rightarrow>
    'w \<Rightarrow> 'r go_result \<times> 'w"

text \<open>The zero time, the first of January of the year 1, and \<open>time.Duration(n) * time.Second\<close>.\<close>

definition zero_time :: int where "zero_time = -62135596800 * second"

definition seconds :: "int \<Rightarrow> int" where
  "seconds n = wrap64 (n * second)"

subsection \<open>Reading\<close>

definition cert_secret :: "SecretType \<Rightarrow> cert_instance \<Rightarrow> string \<Rightarrow> string" where
  "cert_secret certType i kind = SecretType_text certType @ ''-'' @ ci_name i @ ''-'' @ kind"

definition cm_entry ::
  "('w, 'r) cert_deps \<Rightarrow> string \<Rightarrow> string \<Rightarrow> string \<Rightarrow> 'w \<Rightarrow> string go_result \<times> 'w" where
  "cm_entry c key name namespace w =
     bind_r (sa_get (cd_api c) name namespace w) (\<lambda>m w.
       if sdata m = [] then (Fail (Plain (name @ '' secret is blank'')), w)
       else (case map_of (sdata m) key of
               Some v \<Rightarrow> (Ok v, w)
             | None \<Rightarrow> (Fail (Plain (''cannot get '' @ name)), w)))"

definition cm_GetSignCert :: "('w, 'r) cert_deps \<Rightarrow> string \<Rightarrow> string \<Rightarrow> 'w \<Rightarrow> string go_result \<times> 'w" where
  "cm_GetSignCert c = cm_entry c ''cert.pem''"

definition cm_GetKey :: "('w, 'r) cert_deps \<Rightarrow> string \<Rightarrow> string \<Rightarrow> 'w \<Rightarrow> string go_result \<times> 'w" where
  "cm_GetKey c = cm_entry c ''key.pem''"

definition GetSignCertAndKey ::
  "('w, 'r) cert_deps \<Rightarrow> SecretType \<Rightarrow> cert_instance \<Rightarrow> bool \<Rightarrow> 'w \<Rightarrow> (string \<times> string) go_result \<times> 'w" where
  "GetSignCertAndKey c certType i hsmEnabled w =
     bind_r (cm_GetSignCert c (cert_secret certType i ''signcert'') (ci_namespace i) w) (\<lambda>cert w.
       if hsmEnabled then (Ok (cert, ''''), w)
       else bind_r (cm_GetKey c (cert_secret certType i ''keystore'') (ci_namespace i) w)
              (\<lambda>key w. (Ok (cert, key), w)))"

subsection \<open>Expiry\<close>

definition GetExpireDate :: "('w, 'r) cert_deps \<Rightarrow> string \<Rightarrow> int go_result" where
  "GetExpireDate c pem =
     (case cd_not_after c pem of
        Ok t \<Rightarrow> Ok t
      | Fail e \<Rightarrow> Fail (Plain ''failed to get certificate from bytes'')
      | Panic p \<Rightarrow> Panic p)"

text \<open>Two readings of the clock: for the test whether the certificate has expired and for the duration.\<close>

definition GetDurationToNextRenewalForCert ::
  "('w, 'r) cert_deps \<Rightarrow> string \<Rightarrow> string \<Rightarrow> int \<Rightarrow> 'w \<Rightarrow> int go_result \<times> 'w" where
  "GetDurationToNextRenewalForCert c certName cert n w =
     bind_r (GetExpireDate c cert, w) (\<lambda>expireDate w.
       if expireDate = zero_time
       then (Fail (Plain ''failed to get non-zero expiration date from certificate''), w)
       else
         let (now, w) = cd_now c w in
         if expireDate < now then (Fail (Plain (certName @ '' has expired'')), w)
         else
           let renewDate = expireDate + wrap64 (wrap64 (- n) * second);
               (now, w) = cd_now c w;
               duration = time_sub renewDate now
           in if duration < 0 then (Ok 0, w) else (Ok duration, w))"

definition GetDurationToNextRenewal ::
  "('w, 'r) cert_deps \<Rightarrow> SecretType \<Rightarrow> cert_instance \<Rightarrow> int \<Rightarrow> 'w \<Rightarrow> int go_result \<times> 'w" where
  "GetDurationToNextRenewal c certType i n w =
     bind_r (cm_GetSignCert c (cert_secret certType i ''signcert'') (ci_namespace i) w) (\<lambda>cert w.
       GetDurationToNextRenewalForCert c (cert_secret certType i ''signcert'') cert n w)"

definition Expires ::
  "('w, 'r) cert_deps \<Rightarrow> string \<Rightarrow> int \<Rightarrow> 'w \<Rightarrow> (bool \<times> int) go_result \<times> 'w" where
  "Expires c cert n w =
     bind_r (GetExpireDate c cert, w) (\<lambda>expireDate w.
       let (now, w) = cd_now c w in
       if time_sub expireDate now \<le> seconds n then (Ok (True, expireDate), w)
       else (Ok (False, zero_time), w))"

definition CertificateExpiring ::
  "('w, 'r) cert_deps \<Rightarrow> SecretType \<Rightarrow> cert_instance \<Rightarrow> int \<Rightarrow> 'w \<Rightarrow> (bool \<times> int) go_result \<times> 'w" where
  "CertificateExpiring c certType i n w =
     bind_r (cm_GetSignCert c (cert_secret certType i ''signcert'') (ci_namespace i) w) (\<lambda>cert w.
       Expires c cert n w)"

text \<open>
  One \<open>if xExpiring\<close> of \<open>CheckCertificatesForExpire\<close>: the status so far and the text added to the message.
\<close>

definition expiry_text ::
  "('w, 'r) cert_deps \<Rightarrow> SecretType \<Rightarrow> cert_instance \<Rightarrow> bool \<times> int \<Rightarrow> string \<Rightarrow> 'w \<Rightarrow> (string \<times> string) \<times> 'w" where
  "expiry_text c certType i r statusType w =
     (if fst r then
        let (now, w) = cd_now c w in
        if snd r < now
        then ((ErrorType, cert_secret certType i ''signcert'' @ '' has expired''), w)
        else ((statusType, cert_secret certType i ''signcert'' @ '' expires on '' @ cd_time_text c (snd r)), w)
      else ((statusType, ''''), w))"

definition CheckCertificatesForExpire ::
  "('w, 'r) cert_deps \<Rightarrow> cert_instance \<Rightarrow> int \<Rightarrow> 'w \<Rightarrow> (string \<times> string) go_result \<times> 'w" where
  "CheckCertificatesForExpire c i n w =
     bind_r (wrap_err ''failed to get tls signcert expiry info'' (CertificateExpiring c TLS i n w)) (\<lambda>tls w.
     bind_r (wrap_err ''failed to get ecert signcert expiry info'' (CertificateExpiring c ECERT i n w)) (\<lambda>ecert w.
       if \<not> fst tls \<and> \<not> fst ecert then (Ok (Deployed, ''''), w)
       else
         let ((statusType, message), w) = expiry_text c TLS i tls Warning w;
             message = (if message \<noteq> '''' then message @ '', '' else message);
             ((statusType, text), w) = expiry_text c ECERT i ecert statusType w
         in (Ok (statusType, message @ text), w)))"

subsection \<open>Renewal\<close>

definition cm_UpdateSecret ::
  "('w, 'r) cert_deps \<Rightarrow> cert_instance \<Rightarrow> string \<Rightarrow> string gomap \<Rightarrow> 'w \<Rightarrow> unit go_result \<times> 'w" where
  "cm_UpdateSecret c i name data w = cd_update c name (ci_namespace i) (ci_labels i) data w"

definition UpdateSignCert ::
  "('w, 'r) cert_deps \<Rightarrow> string \<Rightarrow> string \<Rightarrow> cert_instance \<Rightarrow> 'w \<Rightarrow> unit go_result \<times> 'w" where
  "UpdateSignCert c name cert i w =
     (if cert = '''' then (Ok (), w) else cm_UpdateSecret c i name [(''cert.pem'', cert)] w)"

definition UpdateKey ::
  "('w, 'r) cert_deps \<Rightarrow> string \<Rightarrow> string \<Rightarrow> cert_instance \<Rightarrow> 'w \<Rightarrow> unit go_result \<times> 'w" where
  "UpdateKey c name key i w =
     (if key = '''' then (Ok (), w) else cm_UpdateSecret c i name [(''key.pem'', key)] w)"

definition GetReenroller ::
  "('w, 'r) cert_deps \<Rightarrow> SecretType \<Rightarrow> enrollments \<Rightarrow> string option \<Rightarrow> string \<Rightarrow> string \<Rightarrow> string \<Rightarrow> bool \<Rightarrow> bool \<Rightarrow>
     'w \<Rightarrow> 'r go_result \<times> 'w" where
  "GetReenroller c certType spec bccsp storagePath cert key hsmEnabled newKey w =
     (let path = storagePath @ ''/reenroller/'' @ SecretType_text certType;
          cfg = (if certType = TLS then es_TLS spec else es_Component spec)
      in bind_r (wrap_err ''failed to initialize reenroller'' (cd_new c cfg path bccsp newKey w)) (\<lambda>r w.
         bind_r (wrap_err ''failed to initialize CA client for reenroller'' (cd_init c r w)) (\<lambda>r w.
           wrap_err ''failed to load Identity for reenroller'' (cd_load c r cert key hsmEnabled w))))"

definition ReenrollCert ::
  "('w, 'r) cert_deps \<Rightarrow> SecretType \<Rightarrow> 'r option \<Rightarrow> cert_instance \<Rightarrow> bool \<Rightarrow> 'w \<Rightarrow> unit go_result \<times> 'w" where
  "ReenrollCert c certType reenroller i hsmEnabled w =
     (case reenroller of
        None \<Rightarrow> (Fail (Plain ''reenroller not passed''), w)
      | Some r \<Rightarrow>
          bind_r (wrap_err (''failed to renew '' @ SecretType_text certType @ '' certificate for instance '' @ quoted (ci_name i))
                    (cd_reenroll c r w)) (\<lambda>(signCert, keystore) w.
          bind_r (wrap_err (''failed to update signcert secret for instance '' @ quoted (ci_name i))
                    (UpdateSignCert c (cert_secret certType i ''signcert'') signCert i w)) (\<lambda>_ w.
            if hsmEnabled then (Ok (), w)
            else wrap_err (''failed to update keystore secret for instance '' @ quoted (ci_name i))
                   (UpdateKey c (cert_secret certType i ''keystore'') keystore i w))))"

definition cm_RenewCert ::
  "('w, 'r) cert_deps \<Rightarrow> SecretType \<Rightarrow> cert_instance \<Rightarrow> enrollments \<Rightarrow> string option \<Rightarrow> string \<Rightarrow> bool \<Rightarrow> bool \<Rightarrow>
     'w \<Rightarrow> unit go_result \<times> 'w" where
  "cm_RenewCert c certType i spec bccsp storagePath hsmEnabled newKey w =
     bind_r (GetSignCertAndKey c certType i hsmEnabled w) (\<lambda>(cert, key) w.
       let bccsp = (if certType = TLS \<and> hsmEnabled \<and> \<not> ci_hsm_proxy i then None else bccsp) in
       if certType = ECERT \<and> hsmEnabled \<and> \<not> ci_hsm_proxy i then
         bind_r (cd_read_hsm c i w) (\<lambda>hsm w.
         bind_r (cd_new_hsm c (hsm_Daemon hsm) (es_Component spec) storagePath bccsp hsm i newKey w) (\<lambda>r w.
           ReenrollCert c certType (Some r) i hsmEnabled w))
       else if certType = TLS then
         bind_r (cm_GetKey c (cert_secret certType i ''keystore'') (ci_namespace i) w) (\<lambda>key w.
         bind_r (GetReenroller c certType spec None storagePath cert key False newKey w) (\<lambda>r w.
           ReenrollCert c certType (Some r) i False w))
       else
         bind_r (GetReenroller c certType spec bccsp storagePath cert key hsmEnabled newKey w) (\<lambda>r w.
           ReenrollCert c certType (Some r) i hsmEnabled w))"

end
