(* ===== verification/CryptoBackupProps.thy ===== *)
theory CryptoBackupProps
  imports CryptoBackup
begin

text \<open>
  What the backup secret holds after any number of backups: every document is a ring of the last
  \<open>ITERATIONS\<close> copies.  \<open>backup_store\<close> is what the API promises about the secret, \<open>slot_ok\<close> relates a
  document to the copies it should hold.
\<close>

subsection \<open>Rings\<close>

definition last_copies :: "'a list \<Rightarrow> 'a list" where
  "last_copies xs = drop (length xs - ITERATIONS) xs"

lemma last_copies_nil [simp]: "last_copies [] = []"
  by (simp add: last_copies_def)

lemma last_copies_map: "last_copies (map f xs) = map f (last_copies xs)"
  by (simp add: last_copies_def drop_map)

lemma ring_step:
  "(if length (last_copies xs) < ITERATIONS then last_copies xs @ [x] else drop 1 (last_copies xs) @ [x])
     = last_copies (xs @ [x])"
proof (cases "length xs < ITERATIONS")
  case True
  then show ?thesis by (simp add: last_copies_def)
next
  case False
  then have "length xs + 1 - ITERATIONS = Suc (length xs - ITERATIONS)" by simp
  with False show ?thesis by (simp add: last_copies_def ITERATIONS_def)
qed

lemma last_copies_length: "length (last_copies xs) = min ITERATIONS (length xs)"
  by (simp add: last_copies_def)

definition slot_ok :: "('w, 'd) backup_api \<Rightarrow> 'd option \<Rightarrow> msp_crypto list \<Rightarrow> bool" where
  "slot_ok b v xs \<longleftrightarrow>
     (if xs = [] then v = None
      else \<exists>t. v = Some (bk_marshal b \<lparr>bk_List = map Some (last_copies xs), bk_Timestamp = t\<rparr>))"

definition opt_list :: "'a option \<Rightarrow> 'a list" where
  "opt_list v = (case v of None \<Rightarrow> [] | Some x \<Rightarrow> [x])"

lemma opt_list_simps [simp]: "opt_list None = []" "opt_list (Some x) = [x]"
  by (simp_all add: opt_list_def)

subsection \<open>The API\<close>

text \<open>
  The secret \<open>name-crypto-backup\<close> as a part \<open>stored\<close> of the world: a read returns it (a secret with
  no data has nil data), a write that succeeds replaces it, a write that fails does not, and the codec
  decodes what it encoded.
\<close>

definition backup_store ::
  "('w, 'd) backup_api \<Rightarrow> ('w \<Rightarrow> 'd gomap option) \<Rightarrow> string \<Rightarrow> string \<Rightarrow> bool" where
  "backup_store b stored name namespace \<longleftrightarrow>
     (\<forall>x. bk_unmarshal b (bk_marshal b x) = Ok x) \<and>
     (\<forall>w. stored (snd (bk_now b w)) = stored w) \<and>
     (\<forall>w. stored (snd (GetBackupSecret b name namespace w)) = stored w \<and>
          (case fst (GetBackupSecret b name namespace w) of
             Ok d \<Rightarrow> (case stored w of None \<Rightarrow> False | Some m \<Rightarrow> d = (if m = [] then None else Some m))
           | Fail e \<Rightarrow> IsNotFound e \<longrightarrow> stored w = None
           | Panic p \<Rightarrow> False)) \<and>
     (\<forall>w labels d.
        (case bk_create b (name @ ''-crypto-backup'') namespace labels d w of
           (Ok u, w2) \<Rightarrow> stored w2 = Some d | (Fail e, w2) \<Rightarrow> stored w2 = stored w | (Panic p, w2) \<Rightarrow> False)) \<and>
     (\<forall>w d.
        (case bk_update b (name @ ''-crypto-backup'') namespace (Some d) w of
           (Ok u, w2) \<Rightarrow> stored w2 = Some d | (Fail e, w2) \<Rightarrow> stored w2 = stored w | (Panic p, w2) \<Rightarrow> False))"

lemma backup_storeD:
  assumes "backup_store b stored name namespace"
  shows codec: "bk_unmarshal b (bk_marshal b x) = Ok x"
    and stored_now: "stored (snd (bk_now b w)) = stored w"
    and stored_get: "stored (snd (GetBackupSecret b name namespace w)) = stored w"
  using assms by (simp_all add: backup_store_def)

lemma stored_now_pair:
  assumes "backup_store b stored name namespace" and "bk_now b w = (t, w2)"
  shows "stored w2 = stored w"
  using stored_now [OF assms(1), of w] assms(2) by simp

subsection \<open>One document\<close>

lemma create_slot_step:
  assumes b: "backup_store b stored name namespace"
    and old: "map_of data k = None"
    and run: "create_slot b k v data w = (data2, w2)"
  shows "slot_ok b (map_of data2 k) (opt_list v)"
    and "k2 \<noteq> k \<Longrightarrow> map_of data2 k2 = map_of data k2"
    and "stored w2 = stored w" and "v \<noteq> None \<or> data \<noteq> [] \<Longrightarrow> data2 \<noteq> []"
proof -
  show "slot_ok b (map_of data2 k) (opt_list v)" "k2 \<noteq> k \<Longrightarrow> map_of data2 k2 = map_of data k2"
    "stored w2 = stored w" "v \<noteq> None \<or> data \<noteq> [] \<Longrightarrow> data2 \<noteq> []"
    using run old stored_now_pair [OF b]
    by (auto simp: create_slot_def slot_ok_def last_copies_def ITERATIONS_def update_conv'
        split: option.splits prod.splits)
qed

lemma getUpdatedBackup_step:
  assumes b: "backup_store b stored name namespace" and old: "slot_ok b v xs"
  obtains t w2 where "bk_now b w = (t, w2)"
    and "getUpdatedBackup b v c w = (Ok \<lparr>bk_List = map Some (last_copies (xs @ [c])), bk_Timestamp = t\<rparr>, w2)"
proof -
  obtain t w2 where now: "bk_now b w = (t, w2)" by fastforce
  have "getUpdatedBackup b v c w = (Ok \<lparr>bk_List = map Some (last_copies (xs @ [c])), bk_Timestamp = t\<rparr>, w2)"
  proof (cases "xs = []")
    case True
    with old now show ?thesis
      by (simp add: slot_ok_def getUpdatedBackup_def last_copies_def ITERATIONS_def)
  next
    case False
    with old obtain t0 where
      v: "v = Some (bk_marshal b \<lparr>bk_List = map Some (last_copies xs), bk_Timestamp = t0\<rparr>)"
      by (auto simp: slot_ok_def)
    have copies: "map Some (last_copies xs) = last_copies (map Some xs)"
      "map Some (last_copies (xs @ [c])) = last_copies (map Some xs @ [Some c])"
      by (simp_all add: last_copies_map flip: last_copies_map [of Some "xs @ [c]"])
    have "(if length (map Some (last_copies xs)) < ITERATIONS then map Some (last_copies xs) @ [Some c]
           else drop 1 (map Some (last_copies xs)) @ [Some c]) = map Some (last_copies (xs @ [c]))"
      by (simp only: copies ring_step)
    with v now codec [OF b] show ?thesis by (simp add: getUpdatedBackup_def del: length_map One_nat_def split del: if_split cong: if_cong)
  qed
  with now that show ?thesis by blast
qed

lemma update_slot_step:
  assumes b: "backup_store b stored name namespace" and old: "slot_ok b (map_of data k) xs"
  obtains data2 w2 where "update_slot b k v (Some data) w = (Ok (Some data2), w2)"
    and "slot_ok b (map_of data2 k) (xs @ opt_list v)"
    and "\<And>k2. k2 \<noteq> k \<Longrightarrow> map_of data2 k2 = map_of data k2"
    and "stored w2 = stored w" and "data \<noteq> [] \<Longrightarrow> data2 \<noteq> []"
proof (cases v)
  case None
  with old that [of data w] show ?thesis by (simp add: update_slot_def)
next
  case (Some c)
  obtain t w2 where now: "bk_now b w = (t, w2)" and
    run: "getUpdatedBackup b (map_of data k) c w =
            (Ok \<lparr>bk_List = map Some (last_copies (xs @ [c])), bk_Timestamp = t\<rparr>, w2)"
    by (rule getUpdatedBackup_step [OF b old])
  let ?d = "AList.update k (bk_marshal b \<lparr>bk_List = map Some (last_copies (xs @ [c])), bk_Timestamp = t\<rparr>) data"
  have "update_slot b k v (Some data) w = (Ok (Some ?d), w2)" using Some run by (simp add: update_slot_def)
  then show ?thesis
  proof (rule that)
    show "slot_ok b (map_of ?d k) (xs @ opt_list v)" using Some by (auto simp: slot_ok_def update_conv')
    show "stored w2 = stored w" by (rule stored_now_pair [OF b now])
    show "?d \<noteq> []" by (cases data) auto
  qed (simp add: update_conv')
qed

subsection \<open>All documents\<close>

lemma create_slots_step:
  assumes b: "backup_store b stored name namespace"
  shows "distinct (map fst ss) \<Longrightarrow> (\<And>k f. (k, f) \<in> set ss \<Longrightarrow> map_of data k = None) \<Longrightarrow>
    create_slots b ss c data w = (data2, w2) \<Longrightarrow>
    (\<forall>(k, f) \<in> set ss. slot_ok b (map_of data2 k) (opt_list (f c))) \<and>
    (\<forall>k. k \<notin> fst ` set ss \<longrightarrow> map_of data2 k = map_of data k) \<and> stored w2 = stored w \<and>
    ((\<exists>(k, f) \<in> set ss. f c \<noteq> None) \<or> data \<noteq> [] \<longrightarrow> data2 \<noteq> [])"
proof (induction ss arbitrary: data w)
  case Nil
  then show ?case by simp
next
  case (Cons s ss)
  obtain k f where s: "s = (k, f)" by fastforce
  obtain d1 w1 where one: "create_slot b k (f c) data w = (d1, w1)" by fastforce
  have "map_of data k = None" by (rule Cons.prems(2) [of k f]) (simp add: s)
  note one_step = create_slot_step [OF b this one]
  from Cons.prems(1) s have k: "k \<notin> fst ` set ss" "distinct (map fst ss)" by simp_all
  have "map_of d1 k2 = None" if "(k2, f2) \<in> set ss" for k2 f2
  proof -
    from that k have "k2 \<noteq> k" by force
    with one_step(2) [of k2] Cons.prems(2) [of k2 f2] that show ?thesis by simp
  qed
  moreover from Cons.prems(3) s one have "create_slots b ss c d1 w1 = (data2, w2)" by simp
  ultimately show ?case using Cons.IH [OF k(2), of d1 w1] one_step k s by fastforce
qed

lemma update_slots_step:
  assumes b: "backup_store b stored name namespace"
  shows "distinct (map fst ss) \<Longrightarrow> (\<And>k f. (k, f) \<in> set ss \<Longrightarrow> slot_ok b (map_of data k) (xs f)) \<Longrightarrow>
    \<exists>data2 w2. update_slots b ss c (Some data) w = (Ok (Some data2), w2) \<and>
      (\<forall>(k, f) \<in> set ss. slot_ok b (map_of data2 k) (xs f @ opt_list (f c))) \<and>
      (\<forall>k. k \<notin> fst ` set ss \<longrightarrow> map_of data2 k = map_of data k) \<and> stored w2 = stored w \<and>
      (data \<noteq> [] \<longrightarrow> data2 \<noteq> [])"
proof (induction ss arbitrary: data w)
  case Nil
  then show ?case by simp
next
  case (Cons s ss)
  obtain k f where s: "s = (k, f)" by fastforce
  from Cons.prems(2) s have "slot_ok b (map_of data k) (xs f)" by simp
  then obtain d1 w1 where one: "update_slot b k (f c) (Some data) w = (Ok (Some d1), w1)"
    "slot_ok b (map_of d1 k) (xs f @ opt_list (f c))"
    "\<And>k2. k2 \<noteq> k \<Longrightarrow> map_of d1 k2 = map_of data k2" "stored w1 = stored w" "data \<noteq> [] \<Longrightarrow> d1 \<noteq> []"
    using update_slot_step [OF b, of data k "xs f" "f c" w] by metis
  from Cons.prems(1) s have k: "k \<notin> fst ` set ss" "distinct (map fst ss)" by simp_all
  have "slot_ok b (map_of d1 k2) (xs f2)" if "(k2, f2) \<in> set ss" for k2 f2
  proof -
    from that k have "k2 \<noteq> k" by force
    with that Cons.prems(2) [of k2 f2] one(3) [of k2] show ?thesis by simp
  qed
  from Cons.IH [OF k(2) this, of w1] obtain d2 w2 where
    rest: "update_slots b ss c (Some d1) w1 = (Ok (Some d2), w2)"
      "\<forall>(k, f) \<in> set ss. slot_ok b (map_of d2 k) (xs f @ opt_list (f c))"
      "\<forall>k. k \<notin> fst ` set ss \<longrightarrow> map_of d2 k = map_of d1 k" "stored w2 = stored w1" "d1 \<noteq> [] \<longrightarrow> d2 \<noteq> []"
    by auto
  have "update_slots b (s # ss) c (Some data) w = (Ok (Some d2), w2)" using s one(1) rest(1) by simp
  moreover have "slot_ok b (map_of d2 k) (xs f @ opt_list (f c))" using one(2) rest(3) k(1) by simp
  moreover have "\<forall>k2. k2 \<notin> fst ` set (s # ss) \<longrightarrow> map_of d2 k2 = map_of data k2" using rest(3) one(3) s by simp
  ultimately show ?case using s rest one(4,5) by auto
qed

subsection \<open>A history of backups\<close>

text \<open>The documents after the copies \<open>h\<close> have been backed up.\<close>

definition holds_last_copies :: "('w, 'd) backup_api \<Rightarrow> 'd gomap option \<Rightarrow> crypto list \<Rightarrow> bool" where
  "holds_last_copies b st h \<longleftrightarrow>
     (case st of
        None \<Rightarrow> h = []
      | Some d \<Rightarrow> d \<noteq> [] \<and> (\<forall>(k, f) \<in> set slots. slot_ok b (map_of d k) (List.map_filter f h)))"

text \<open>Backups of an instance one after the other, with the result of each.\<close>

fun backup_run ::
  "('w, 'd) backup_api \<Rightarrow> string \<Rightarrow> string \<Rightarrow> string gomap \<Rightarrow> crypto list \<Rightarrow> 'w \<Rightarrow> (crypto \<times> unit go_result) list \<times> 'w"
where
  "backup_run b name namespace labels [] w = ([], w)"
| "backup_run b name namespace labels (c # cs) w =
     (let (r, w) = backupCrypto b name namespace labels c w;
          (rs, w) = backup_run b name namespace labels cs w
      in ((c, r) # rs, w))"

definition backed_up :: "(crypto \<times> unit go_result) list \<Rightarrow> crypto list" where
  "backed_up rs = map fst (filter (\<lambda>(c, r). r = Ok ()) rs)"

lemma backed_up_simps [simp]:
  "backed_up [] = []"
  "backed_up ((c, r) # rs) = (if r = Ok () then c # backed_up rs else backed_up rs)"
  by (simp_all add: backed_up_def)

lemma map_filter_snoc: "List.map_filter f (h @ [c]) = List.map_filter f h @ opt_list (f c)"
  by (cases "f c") (simp_all add: map_filter_def)

lemma slots_distinct [simp]: "distinct (map fst slots)"
  by (simp add: slots_def)

definition has_crypto :: "crypto \<Rightarrow> bool" where
  "has_crypto c \<longleftrightarrow> (\<exists>(k, f) \<in> set slots. f c \<noteq> None)"

lemma backup_store_calls:
  assumes "backup_store b stored name namespace"
  shows "case fst (GetBackupSecret b name namespace w) of
             Ok d \<Rightarrow> (case stored w of None \<Rightarrow> False | Some m \<Rightarrow> d = (if m = [] then None else Some m))
           | Fail e \<Rightarrow> IsNotFound e \<longrightarrow> stored w = None
           | Panic p \<Rightarrow> False"
    and "case bk_create b (name @ ''-crypto-backup'') namespace labels d w of
      (Ok u, w2) \<Rightarrow> stored w2 = Some d | (Fail e, w2) \<Rightarrow> stored w2 = stored w | (Panic p, w2) \<Rightarrow> False"
    and "case bk_update b (name @ ''-crypto-backup'') namespace (Some d) w of
      (Ok u, w2) \<Rightarrow> stored w2 = Some d | (Fail e, w2) \<Rightarrow> stored w2 = stored w | (Panic p, w2) \<Rightarrow> False"
  using assms [unfolded backup_store_def, THEN conjunct2, THEN conjunct2, THEN conjunct1, rule_format, THEN conjunct2]
    assms [unfolded backup_store_def, THEN conjunct2, THEN conjunct2, THEN conjunct2, THEN conjunct1, rule_format]
    assms [unfolded backup_store_def, THEN conjunct2, THEN conjunct2, THEN conjunct2, THEN conjunct2, rule_format]
  by - assumption+

lemma store_write:
  assumes "backup_store b stored name namespace"
    and "bk_create b (name @ ''-crypto-backup'') namespace labels d w = (r, w2) \<or>
         bk_update b (name @ ''-crypto-backup'') namespace (Some d) w = (r, w2)"
  obtains "r = Ok ()" and "stored w2 = Some d" | e where "r = Fail e" and "stored w2 = stored w"
proof -
  have c: "case bk_create b (name @ ''-crypto-backup'') namespace labels d w of
      (Ok u, w2) \<Rightarrow> stored w2 = Some d | (Fail e, w2) \<Rightarrow> stored w2 = stored w | (Panic p, w2) \<Rightarrow> False"
    by (rule backup_store_calls(2) [OF assms(1)])
  have u: "case bk_update b (name @ ''-crypto-backup'') namespace (Some d) w of
      (Ok u, w2) \<Rightarrow> stored w2 = Some d | (Fail e, w2) \<Rightarrow> stored w2 = stored w | (Panic p, w2) \<Rightarrow> False"
    by (rule backup_store_calls(3) [OF assms(1)])
  from assms(2) c u that show ?thesis by (cases r) auto
qed

lemma store_read:
  assumes "backup_store b stored name namespace" and "GetBackupSecret b name namespace w = (g, w2)"
  obtains e where "g = Fail e" and "IsNotFound e \<Longrightarrow> stored w = None" and "stored w2 = stored w"
  | m where "g = Ok (if m = [] then None else Some m)" and "stored w = Some m" and "stored w2 = stored w"
proof -
  have w2: "stored w2 = stored w" using stored_get [OF assms(1), of w] assms(2) by simp
  have "case fst (GetBackupSecret b name namespace w) of
             Ok d \<Rightarrow> (case stored w of None \<Rightarrow> False | Some m \<Rightarrow> d = (if m = [] then None else Some m))
           | Fail e \<Rightarrow> IsNotFound e \<longrightarrow> stored w = None
           | Panic p \<Rightarrow> False"
    by (rule backup_store_calls(1) [OF assms(1)])
  with assms(2) w2 that show ?thesis by (cases g) (auto split: option.splits)
qed

lemma first_backup:
  assumes b: "backup_store b stored name namespace" and c: "has_crypto c"
  obtains d w2 where "CreateBackupSecretData b c w = (d, w2)"
    and "holds_last_copies b (Some d) [c]" and "stored w2 = stored w"
proof -
  obtain d w2 where new: "create_slots b slots c [] w = (d, w2)" by fastforce
  from create_slots_step [OF b slots_distinct _ new] c
  have "\<forall>(k, f) \<in> set slots. slot_ok b (map_of d k) (opt_list (f c))" "d \<noteq> []" "stored w2 = stored w"
    by (auto simp: has_crypto_def)
  moreover have "List.map_filter f [c] = opt_list (f c)" for f :: "crypto \<Rightarrow> msp_crypto option"
    using map_filter_snoc [of f "[]" c] by (simp add: map_filter_def)
  ultimately show ?thesis using new that by (simp add: holds_last_copies_def CreateBackupSecretData_def)
qed

lemma next_backup:
  assumes b: "backup_store b stored name namespace" and m: "holds_last_copies b (Some m) h"
  obtains d w2 where "UpdateBackupSecretData b (Some m) c w = (Ok (Some d), w2)"
    and "holds_last_copies b (Some d) (h @ [c])" and "stored w2 = stored w"
proof -
  from m have "(k, f) \<in> set slots \<Longrightarrow> slot_ok b (map_of m k) (List.map_filter f h)" for k f
    by (auto simp: holds_last_copies_def)
  from update_slots_step [where xs = "\<lambda>f. List.map_filter f h", OF b slots_distinct this, of c w]
  obtain d w2 where "update_slots b slots c (Some m) w = (Ok (Some d), w2)"
    "\<forall>(k, f) \<in> set slots. slot_ok b (map_of d k) (List.map_filter f h @ opt_list (f c))"
    "stored w2 = stored w" "m \<noteq> [] \<longrightarrow> d \<noteq> []"
    by blast
  with m that show ?thesis by (simp add: holds_last_copies_def map_filter_snoc UpdateBackupSecretData_def)
qed

lemma backupCrypto_step:
  assumes b: "backup_store b stored name namespace" and c: "has_crypto c"
    and st: "holds_last_copies b (stored w) h"
    and run: "backupCrypto b name namespace labels c w = (r, w2)"
  shows "(\<forall>p. r \<noteq> Panic p) \<and> holds_last_copies b (stored w2) (if r = Ok () then h @ [c] else h)"
proof -
  obtain g w1 where get: "GetBackupSecret b name namespace w = (g, w1)" by fastforce
  then show ?thesis
  proof (cases rule: store_read [OF b get])
    case (1 e)
    show ?thesis
    proof (cases "IsNotFound e")
      case False
      with 1 get run st show ?thesis by (auto simp: backupCrypto_def)
    next
      case True
      with 1 st have h: "h = []" "stored w = None" by (simp_all add: holds_last_copies_def)
      obtain d w3 where d: "CreateBackupSecretData b c w1 = (d, w3)" "holds_last_copies b (Some d) [c]"
        "stored w3 = stored w1" by (rule first_backup [OF b c])
      obtain r0 w4 where cr: "bk_create b (name @ ''-crypto-backup'') namespace labels d w3 = (r0, w4)" by fastforce
      with run get 1(1) True d(1) have r: "wrap_err ''failed to create backup secret'' (r0, w4) = (r, w2)"
        by (simp add: backupCrypto_def)
      show ?thesis
        by (cases rule: store_write [OF b disjI1 [OF cr]]) (use r d h 1 st in auto)
    qed
  next
    case (2 m)
    with st have m: "holds_last_copies b (Some m) h" "m \<noteq> []" by (simp_all add: holds_last_copies_def)
    obtain d w3 where d: "UpdateBackupSecretData b (Some m) c w1 = (Ok (Some d), w3)"
      "holds_last_copies b (Some d) (h @ [c])" "stored w3 = stored w1" by (rule next_backup [OF b m(1)])
    obtain r0 w4 where wr: "bk_update b (name @ ''-crypto-backup'') namespace (Some d) w3 = (r0, w4)" by fastforce
    with run get 2(1) m(2) d(1) have r: "wrap_err ''failed to update backup secret'' (r0, w4) = (r, w2)"
      by (simp add: backupCrypto_def)
    show ?thesis
      by (cases rule: store_write [OF b disjI2 [OF wr]]) (use r d 2 st in auto)
  qed
qed

lemma backup_run_holds:
  assumes b: "backup_store b stored name namespace"
  shows "holds_last_copies b (stored w) h \<Longrightarrow> (\<And>c. c \<in> set cs \<Longrightarrow> has_crypto c) \<Longrightarrow>
    backup_run b name namespace labels cs w = (rs, w2) \<Longrightarrow>
    holds_last_copies b (stored w2) (h @ backed_up rs) \<and> map fst rs = cs \<and> (\<forall>p. Panic p \<notin> snd ` set rs)"
proof (induction cs arbitrary: w h rs)
  case Nil
  then show ?case by simp
next
  case (Cons c cs)
  obtain r w1 where one: "backupCrypto b name namespace labels c w = (r, w1)" by fastforce
  obtain rs1 where rest: "backup_run b name namespace labels cs w1 = (rs1, w2)" and rs: "rs = (c, r) # rs1"
    using Cons.prems(3) one by (auto split: prod.splits)
  from Cons.prems(2) have "has_crypto c" by simp
  note step = backupCrypto_step [OF b this Cons.prems(1) one]
  from Cons.IH [OF step [THEN conjunct2] _ rest] Cons.prems(2) rs step [THEN conjunct1] show ?case by auto
qed

subsection \<open>Properties\<close>

text \<open>A store in memory, whose clock ticks and whose writes fail at the times in \<open>ps_fails\<close>.\<close>

record plain_store =
  ps_clock :: int
  ps_fails :: "int list"
  ps_secret :: "backup gomap option"

definition ps_write :: "backup gomap \<Rightarrow> plain_store \<Rightarrow> unit go_result \<times> plain_store" where
  "ps_write d w =
     (if ps_clock w \<in> set (ps_fails w) then (Fail (Plain ''timeout''), w\<lparr>ps_clock := ps_clock w + 1\<rparr>)
      else (Ok (), w\<lparr>ps_secret := Some d\<rparr>))"

definition plain_api :: "(plain_store, backup) backup_api" where
  "plain_api =
     \<lparr>bk_marshal = (\<lambda>x. x), bk_unmarshal = Ok, bk_now = (\<lambda>w. (ps_clock w, w\<lparr>ps_clock := ps_clock w + 1\<rparr>)),
      bk_get = (\<lambda>n ns w. (case ps_secret w of
          None \<Rightarrow> Fail (NotFound n) | Some d \<Rightarrow> Ok (if d = [] then None else Some d), w)),
      bk_create = (\<lambda>n ns l. ps_write), bk_update = (\<lambda>n ns d. ps_write (case d of None \<Rightarrow> [] | Some d \<Rightarrow> d))\<rparr>"

lemma plain_store_ok: "backup_store plain_api ps_secret name namespace"
  by (auto simp: backup_store_def plain_api_def ps_write_def GetBackupSecret_def split: option.splits)

definition numbered_crypto :: "nat \<Rightarrow> crypto" where
  "numbered_crypto n = \<lparr>c_TLS = Some (sign_key_msp [digit_char n] ''key''),
     c_Ecert = (if even n then Some (sign_key_msp ''ecert'' ''key'') else None), c_Operations = None, c_CA = None\<rparr>"

text \<open>C15: The backup secret refines a ring of the last ten copies.  Take any sequence of backups of an
  instance that starts without a backup secret, each with some crypto, against an API that keeps what it
  successfully wrote, and let some of its reads and writes fail.  Then no backup panics, and afterwards every
  document of the secret (TLS, ecert, operations, CA) holds exactly the last \<open>ITERATIONS\<close> copies of its
  kind among the backups that returned no error, oldest first; it is absent if there was none.  A backup that
  failed leaves no trace.\<close>

theorem backup_keeps_last_ten:
  assumes "backup_store b stored name namespace" and "stored w = None"
    and "\<And>c. c \<in> set cs \<Longrightarrow> has_crypto c"
    and "backup_run b name namespace labels cs w = (rs, w2)"
  shows "map fst rs = cs \<and> (\<forall>p. Panic p \<notin> snd ` set rs) \<and> holds_last_copies b (stored w2) (backed_up rs)"
proof -
  from assms(2) have "holds_last_copies b (stored w) []" by (simp add: holds_last_copies_def)
  from backup_run_holds [OF assms(1) this assms(3,4)] show ?thesis by simp
qed

theorem backup_keeps_last_ten_witness:
  "map fst (fst (backup_run plain_api ''peer1'' ''ns'' [] (map numbered_crypto [0..<3]) \<lparr>ps_clock = 0, ps_fails = [3], ps_secret = None\<rparr>))
     = map numbered_crypto [0..<3] \<and>
   holds_last_copies plain_api
     (ps_secret (snd (backup_run plain_api ''peer1'' ''ns'' [] (map numbered_crypto [0..<3])
        \<lparr>ps_clock = 0, ps_fails = [3], ps_secret = None\<rparr>)))
     (backed_up (fst (backup_run plain_api ''peer1'' ''ns'' [] (map numbered_crypto [0..<3])
        \<lparr>ps_clock = 0, ps_fails = [3], ps_secret = None\<rparr>)))"
proof -
  have "\<And>c. c \<in> set (map numbered_crypto [0..<3]) \<Longrightarrow> has_crypto c"
    by (auto simp: has_crypto_def slots_def numbered_crypto_def)
  from backup_keeps_last_ten [where cs = "map numbered_crypto [0..<3]" and name = "''peer1''" and namespace = "''ns''" and labels = "[]"
      and w = "\<lparr>ps_clock = 0, ps_fails = [3], ps_secret = None\<rparr>", OF plain_store_ok _ this surjective_pairing]
  show ?thesis by simp
qed

text \<open>
  \<open>GetCrypto\<close> swallows the errors of its five reads, and \<open>BackupCrypto\<close> then has nothing to do: an instance
  none of whose secrets can be read is reported as backed up.
\<close>

lemma unreadable_crypto_is_no_error:
  assumes "\<And>prefix kind. prefix \<in> {''tls'', ''ecert''} \<Longrightarrow>
      kind \<in> {''signcert'', ''keystore'', ''cacerts'', ''admincerts'', ''intercerts''} \<Longrightarrow>
      \<exists>e. sa_get a (crypto_secret prefix name kind) namespace w = (Fail e, w)"
  shows "BackupCrypto a b name namespace labels w = (Ok (), w)"
proof -
  have one: "GetCrypto a prefix name namespace w = (Ok None, w)"
    if "\<And>kind. kind \<in> {''signcert'', ''keystore'', ''cacerts'', ''admincerts'', ''intercerts''} \<Longrightarrow>
           \<exists>e. sa_get a (crypto_secret prefix name kind) namespace w = (Fail e, w)" for prefix
  proof -
    from that obtain e1 e2 e3 e4 e5 where
      "sa_get a (crypto_secret prefix name ''signcert'') namespace w = (Fail e1, w)"
      "sa_get a (crypto_secret prefix name ''keystore'') namespace w = (Fail e2, w)"
      "sa_get a (crypto_secret prefix name ''cacerts'') namespace w = (Fail e3, w)"
      "sa_get a (crypto_secret prefix name ''admincerts'') namespace w = (Fail e4, w)"
      "sa_get a (crypto_secret prefix name ''intercerts'') namespace w = (Fail e5, w)"
      by (metis insertCI)
    then show ?thesis
      by (simp add: GetCrypto_def or_zero_def getSignCertEncoded_def getKeystoreEncoded_def getCACertEncoded_def
          getAdmincertEncoded_def getIntermediateCertEncoded_def encoded_def getSignCertBytes_def getKeystoreBytes_def
          secret_entry_def getCACertBytes_def getAdmincertBytes_def getIntermediateCertBytes_def optional_certs_def)
  qed
  have "GetCrypto a prefix name namespace w = (Ok None, w)" if "prefix \<in> {''tls'', ''ecert''}" for prefix
    by (rule one) (rule assms [OF that])
  then show ?thesis by (simp add: BackupCrypto_def)
qed

text \<open>
  A backup secret that is there but has no data: its \<open>Data\<close> is the nil map, to which
  \<open>UpdateBackupSecretData\<close> assigns.
\<close>

lemma backup_into_blank_secret_panics:
  assumes "GetBackupSecret b name namespace w = (Ok None, w2)" and "has_crypto c"
  shows "\<exists>p w3. backupCrypto b name namespace labels c w = (Panic p, w3)"
proof -
  have panics: "\<exists>p w3. update_slots b ss c None w = (Panic p, w3)" if "\<exists>(k, f) \<in> set ss. f c \<noteq> None" for ss w
    using that
  proof (induction ss arbitrary: w)
    case Nil
    then show ?case by simp
  next
    case (Cons s ss)
    obtain k f where s: "s = (k, f)" by fastforce
    show ?case
    proof (cases "f c")
      case None
      with Cons s show ?thesis by (auto simp: update_slot_def)
    next
      case (Some m)
      with s show ?thesis by (simp add: update_slot_def getUpdatedBackup_def split: prod.split)
    qed
  qed
  from assms(2) have "\<exists>(k, f) \<in> set slots. f c \<noteq> None" by (simp add: has_crypto_def)
  from panics [OF this, of w2] obtain p w3 where "update_slots b slots c None w2 = (Panic p, w3)" by blast
  with assms(1) show ?thesis by (simp add: backupCrypto_def UpdateBackupSecretData_def)
qed

end
