(* ===== verification/CertificatesProps.thy ===== *)
theory CertificatesProps
  imports Certificates PeerSample CryptoBackupProps
begin

text \<open>
  Properties of the certificate manager, alone and as the peer offering uses it: the renewal timer and the
  warning agree, the status of expiring certificates, what a renewal leaves behind when it fails half way.
\<close>

subsection \<open>Durations\<close>

lemma wrap64_small: "min_int64 \<le> x \<Longrightarrow> x \<le> max_int64 \<Longrightarrow> wrap64 x = x"
  by (simp add: wrap64_def min_int64_def max_int64_def)

text \<open>A period of up to 292 years.\<close>

definition sane_period :: "int \<Rightarrow> bool" where
  "sane_period n \<longleftrightarrow> 0 \<le> n \<and> n \<le> 9223372036"

lemma seconds_exact: "sane_period n \<Longrightarrow> seconds n = n * second"
  by (simp add: sane_period_def seconds_def wrap64_small second_def min_int64_def max_int64_def)

lemma negated_seconds_exact: "sane_period n \<Longrightarrow> wrap64 (wrap64 (- n) * second) = - (n * second)"
  by (simp add: sane_period_def wrap64_small second_def min_int64_def max_int64_def)

lemma within_period: "sane_period n \<Longrightarrow> time_sub t now \<le> seconds n \<longleftrightarrow> t - n * second \<le> now"
  by (auto simp: seconds_exact time_sub_def sane_period_def second_def min_int64_def max_int64_def)

lemma Expires_spec:
  assumes "sane_period n" and "cd_not_after c cert = Ok t" and "cd_now c w = (now, w2)"
  shows "Expires c cert n w =
    (Ok (t - n * second \<le> now, if t - n * second \<le> now then t else zero_time), w2)"
  using assms(2,3) within_period [OF assms(1), of t now] by (simp add: Expires_def GetExpireDate_def)

subsection \<open>The peer offering with this certificate manager\<close>

definition cert_instance_of :: "peer_cr \<Rightarrow> cert_instance" where
  "cert_instance_of i =
     \<lparr>ci_name = Name i, ci_namespace = Namespace i, ci_labels = Labels i, ci_hsm_proxy = UsingHSMProxy i\<rparr>"

text \<open>The certificate functions of the offering are those of the certificate manager.\<close>

definition with_certificates ::
  "('w, 'r) cert_deps \<Rightarrow> ('w, 'd) backup_api \<Rightarrow> 'w init_deps \<Rightarrow> 'w init_deps" where
  "with_certificates c b n = n\<lparr>
     n_CheckForExpire := \<lambda>i. CheckCertificatesForExpire c (cert_instance_of i),
     n_DurationToNextRenewal := \<lambda>t i. GetDurationToNextRenewal c t (cert_instance_of i),
     n_RenewCert := \<lambda>t i. cm_RenewCert c t (cert_instance_of i),
     n_BackupCrypto := \<lambda>i. BackupCrypto (cd_api c) b (Name i) (Namespace i)\<rparr>"

text \<open>A manager whose two certificates expire at fixed times; the clock of the sample cluster ticks with every write.\<close>

definition sample_dates :: "string \<Rightarrow> int go_result" where
  "sample_dates pem = (if pem = ''T'' then Ok (1000 * second) else if pem = ''E'' then Ok (5000 * second)
     else Fail (Plain ''no PEM''))"

definition sample_secrets :: "string \<Rightarrow> string gomap option go_result" where
  "sample_secrets name =
     (if name = ''tls-peer1-signcert'' then Ok (Some [(''cert.pem'', ''T'')])
      else if name = ''ecert-peer1-signcert'' then Ok (Some [(''cert.pem'', ''E'')])
      else if name = ''tls-peer1-keystore'' then Ok (Some [(''key.pem'', ''K'')])
      else Fail (NotFound name))"

definition sample_certs :: "(sample_world, unit) cert_deps" where
  "sample_certs = \<lparr>
     cd_api = \<lparr>sa_get = (\<lambda>n ns w. (sample_secrets n, w)), sa_create = (\<lambda>n ns l d. logged n),
       sa_update = (\<lambda>n ns d. logged n), sa_order = keys\<rparr>,
     cd_update = (\<lambda>n ns l d w. if n = ''tls-peer1-keystore'' then (Fail (Plain ''timeout''), w) else logged n w),
     cd_now = (\<lambda>w. (100 * second * int (length (snd w)), w)), cd_not_after = sample_dates,
     cd_time_text = (\<lambda>t. itoa t), cd_new = (\<lambda>e p b k w. (Ok (), w)), cd_init = (\<lambda>r w. (Ok (), w)),
     cd_load = (\<lambda>r ce k h w. (Ok (), w)), cd_reenroll = (\<lambda>r w. (Ok (''T2'', ''K2''), w)),
     cd_read_hsm = (\<lambda>i w. (Fail (NotFound ''hsm''), w)),
     cd_new_hsm = (\<lambda>dm e p b h i k w. (Ok (), w))\<rparr>"

lemma sample_certs_fields [simp]:
  "cd_now sample_certs w = (100 * second * int (length (snd w)), w)"
  "cd_not_after sample_certs = sample_dates"
  "cd_time_text sample_certs = itoa"
  "cd_reenroll sample_certs r w = (Ok (''T2'', ''K2''), w)"
  "sa_get (cd_api sample_certs) m ns w = (sample_secrets m, w)"
  "cd_update sample_certs m ns l d w = (if m = ''tls-peer1-keystore'' then (Fail (Plain ''timeout''), w) else logged m w)"
  by (simp_all add: sample_certs_def)

subsection \<open>Properties\<close>


definition warned_peer :: peer_cr where
  "warned_peer = on_spec (\<lambda>sp. sp\<lparr>pf_NumSecondsWarningPeriod := 300\<rparr>) new_peer"

lemma warned_peer_simps [simp]:
  "Name warned_peer = ''peer1''" "Namespace warned_peer = ''ns''"
  "GetNumSecondsWarningPeriod (Spec warned_peer) = 300" "Labels warned_peer = []" "UsingHSMProxy warned_peer = False"
  by (simp_all add: warned_peer_def on_spec_def new_peer_def GetNumSecondsWarningPeriod_def UsingHSMProxy_def)

lemma sample_reads:
  "cm_GetSignCert sample_certs ''tls-peer1-signcert'' ''ns'' w = (Ok ''T'', w)"
  "cm_GetSignCert sample_certs ''ecert-peer1-signcert'' ''ns'' w = (Ok ''E'', w)"
  "cm_GetKey sample_certs ''tls-peer1-keystore'' ''ns'' w = (Ok ''K'', w)"
  by (simp_all add: cm_GetSignCert_def cm_GetKey_def cm_entry_def sample_secrets_def sdata_def)

lemma warned_names:
  "cert_secret TLS (cert_instance_of warned_peer) ''signcert'' = ''tls-peer1-signcert''"
  "cert_secret ECERT (cert_instance_of warned_peer) ''signcert'' = ''ecert-peer1-signcert''"
  "cert_secret TLS (cert_instance_of warned_peer) ''keystore'' = ''tls-peer1-keystore''"
  by (simp_all add: cert_secret_def cert_instance_of_def)

definition sample_backups :: "(sample_world, backup) backup_api" where
  "sample_backups = \<lparr>bk_marshal = (\<lambda>x. x), bk_unmarshal = Ok, bk_now = (\<lambda>w. (0, w)),
     bk_get = (\<lambda>n ns w. (Fail (NotFound n), w)), bk_create = (\<lambda>n ns l d. logged n), bk_update = (\<lambda>n ns d. logged n)\<rparr>"

abbreviation sample_offering :: "sample_world init_deps" where
  "sample_offering \<equiv> with_certificates sample_certs sample_backups sample_init"


definition certificate_message :: "(int \<Rightarrow> string) \<Rightarrow> int \<Rightarrow> string \<Rightarrow> int \<Rightarrow> string" where
  "certificate_message show now name t =
     (if t < now then name @ '' has expired'' else name @ '' expires on '' @ show t)"

lemma expiry_text_spec:
  "cd_now c w = (now, w) \<Longrightarrow> expiry_text c certType i r st w =
     ((if fst r \<and> snd r < now then ErrorType else st,
       if fst r then certificate_message (cd_time_text c) now (cert_secret certType i ''signcert'') (snd r) else ''''), w)"
  by (simp add: expiry_text_def certificate_message_def)

text \<open>The status that the certificate manager reports.  Let both certificates be readable and expire at \<open>tt\<close> (TLS)
  and \<open>te\<close> (ecert), and let the clock stand at \<open>now\<close>.  The status is \<open>Deployed\<close>, with no message, while neither is
  within the warning period; else \<open>Error\<close> if one of them has expired, and \<open>Warning\<close> if none has.  The message names
  exactly the certificates within the period.  When only the TLS certificate is, it ends in the separator \<open>", "\<close>
  that was meant to precede the other certificate.\<close>

lemma expiry_status:
  assumes "cm_GetSignCert c (cert_secret TLS i ''signcert'') (ci_namespace i) w = (Ok ct, w)"
    and "cm_GetSignCert c (cert_secret ECERT i ''signcert'') (ci_namespace i) w = (Ok ce, w)"
    and "cd_not_after c ct = Ok tt" and "cd_not_after c ce = Ok te"
    and "cd_now c w = (now, w)" and "sane_period n"
  shows "CheckCertificatesForExpire c i n w =
    (let warn_t = (tt - n * second \<le> now); warn_e = (te - n * second \<le> now) in
     (Ok (if \<not> warn_t \<and> \<not> warn_e then Deployed else if tt < now \<or> te < now then ErrorType else Warning,
       (if warn_t then certificate_message (cd_time_text c) now (cert_secret TLS i ''signcert'') tt @ '', '' else '''') @
       (if warn_e then certificate_message (cd_time_text c) now (cert_secret ECERT i ''signcert'') te else '''')), w))"
proof -
  have late: "t < now \<Longrightarrow> t - n * second \<le> now" for t
    using assms(6) by (simp add: sane_period_def second_def)
  have ex: "CertificateExpiring c TLS i n w =
      (Ok (tt - n * second \<le> now, if tt - n * second \<le> now then tt else zero_time), w)"
    "CertificateExpiring c ECERT i n w =
      (Ok (te - n * second \<le> now, if te - n * second \<le> now then te else zero_time), w)"
    using assms(1,2) Expires_spec [OF assms(6,3,5)] Expires_spec [OF assms(6,4,5)]
    by (simp_all add: CertificateExpiring_def)
  have msg: "certificate_message (cd_time_text c) now (cert_secret TLS i ''signcert'') tt \<noteq> ''''"
    by (simp add: certificate_message_def cert_secret_def)
  show ?thesis
    by (cases "tt - n * second \<le> now"; cases "te - n * second \<le> now")
      (use late [of tt] late [of te] msg in
        \<open>auto simp: CheckCertificatesForExpire_def ex expiry_text_spec [OF assms(5)] split: prod.split\<close>)
qed

lemma expiry_status_witness:
  "CheckCertificatesForExpire sample_certs (cert_instance_of warned_peer) 300 (warned_peer, replicate 8 ''write'') =
     (Ok (Warning, ''tls-peer1-signcert expires on '' @ itoa (1000 * second) @ '', ''), (warned_peer, replicate 8 ''write''))"
proof -
  let ?w = "(warned_peer, replicate 8 ''write'')"
  have "cm_GetSignCert sample_certs (cert_secret TLS (cert_instance_of warned_peer) ''signcert'')
      (ci_namespace (cert_instance_of warned_peer)) ?w = (Ok ''T'', ?w)"
    and "cm_GetSignCert sample_certs (cert_secret ECERT (cert_instance_of warned_peer) ''signcert'')
      (ci_namespace (cert_instance_of warned_peer)) ?w = (Ok ''E'', ?w)"
    unfolding warned_names by (simp_all add: sample_reads cert_instance_of_def)
  from expiry_status [OF this, where n = 300]
  show ?thesis unfolding warned_names
    by (simp add: sample_dates_def sane_period_def second_def certificate_message_def)
qed

text \<open>A TLS certificate is renewed the same way whether or not the instance uses an HSM: where reading a secret
  leaves the cluster as it is, neither the HSM flag nor the BCCSP section has any influence on the renewal, which
  always uses the key in the keystore secret and writes the new key there.\<close>

lemma tls_renewal_ignores_hsm:
  assumes "\<And>name namespace w. snd (sa_get (cd_api c) name namespace w) = w"
  shows "cm_RenewCert c TLS i spec bccsp path hsmEnabled newKey w = cm_RenewCert c TLS i spec None path False newKey w"
proof -
  have pure: "snd (cm_entry c key name namespace w) = w" for key name namespace w
    using assms [of name namespace w]
    by (cases "sa_get (cd_api c) name namespace w")
      (auto simp: cm_entry_def bind_r_def split: go_result.splits option.splits)
  obtain r where cert: "cm_entry c ''cert.pem'' (cert_secret TLS i ''signcert'') (ci_namespace i) w = (r, w)"
    using pure by (metis prod.collapse)
  obtain k where key: "cm_entry c ''key.pem'' (cert_secret TLS i ''keystore'') (ci_namespace i) w = (k, w)"
    using pure by (metis prod.collapse)
  show ?thesis
    by (cases r; cases k)
      (simp_all add: cm_RenewCert_def GetSignCertAndKey_def cm_GetSignCert_def cm_GetKey_def cert key)
qed

lemma tls_renewal_ignores_hsm_witness:
  "cm_RenewCert sample_certs TLS (cert_instance_of warned_peer)
     \<lparr>es_Component = None, es_TLS = None, es_other = ''''\<rparr> (Some ''PKCS11'') ''/tmp'' True False (warned_peer, []) =
   cm_RenewCert sample_certs TLS (cert_instance_of warned_peer)
     \<lparr>es_Component = None, es_TLS = None, es_other = ''''\<rparr> None ''/tmp'' False False (warned_peer, [])"
  by (rule tls_renewal_ignores_hsm) simp

subsection \<open>What a renewal writes\<close>

text \<open>
  The secrets as a part \<open>stored\<close> of the world, by name: an update replaces the data of a secret or fails
  and leaves it; asking a CA for a certificate does not touch secrets.
\<close>

definition secret_store ::
  "('w, 'r) cert_deps \<Rightarrow> ('w \<Rightarrow> string \<Rightarrow> string gomap) \<Rightarrow> string \<Rightarrow> bool" where
  "secret_store c stored namespace \<longleftrightarrow>
     (\<forall>r w. stored (snd (cd_reenroll c r w)) = stored w) \<and>
     (\<forall>name labels d w.
        (case cd_update c name namespace labels d w of
           (Ok u, w2) \<Rightarrow> stored w2 = (stored w)(name := d)
         | (Fail e, w2) \<Rightarrow> stored w2 = stored w
         | (Panic p, w2) \<Rightarrow> False))"

text \<open>The secrets after a certificate, or a key, that may be empty has been written.\<close>

definition written :: "string \<Rightarrow> string \<Rightarrow> string \<Rightarrow> (string \<Rightarrow> string gomap) \<Rightarrow> string \<Rightarrow> string gomap" where
  "written name key v st = (if v = '''' then st else st(name := [(key, v)]))"

lemma UpdateSecret_cases:
  assumes "secret_store c stored (ci_namespace i)" and "cm_UpdateSecret c i name d w = (r, w2)"
  obtains "r = Ok ()" and "stored w2 = (stored w)(name := d)" | e where "r = Fail e" and "stored w2 = stored w"
proof -
  have "case cd_update c name (ci_namespace i) (ci_labels i) d w of
           (Ok u, w2) \<Rightarrow> stored w2 = (stored w)(name := d)
         | (Fail e, w2) \<Rightarrow> stored w2 = stored w
         | (Panic p, w2) \<Rightarrow> False"
    
    by (rule assms(1) [unfolded secret_store_def, THEN conjunct2, THEN spec, THEN spec, THEN spec, THEN spec])
  with assms(2) that show ?thesis by (cases r) (auto simp: cm_UpdateSecret_def)
qed

lemma UpdateSignCert_cases:
  assumes "secret_store c stored (ci_namespace i)" and "UpdateSignCert c name v i w = (r, w2)"
  obtains "r = Ok ()" and "stored w2 = written name ''cert.pem'' v (stored w)"
  | e where "r = Fail e" and "stored w2 = stored w" and "v \<noteq> ''''"
proof (cases "v = ''''")
  case True
  with assms(2) that show ?thesis by (simp add: UpdateSignCert_def written_def)
next
  case False
  with assms(2) have "cm_UpdateSecret c i name [(''cert.pem'', v)] w = (r, w2)" by (simp add: UpdateSignCert_def)
  then show ?thesis using False that by (cases rule: UpdateSecret_cases [OF assms(1)]) (auto simp: written_def)
qed

lemma UpdateKey_cases:
  assumes "secret_store c stored (ci_namespace i)" and "UpdateKey c name v i w = (r, w2)"
  obtains "r = Ok ()" and "stored w2 = written name ''key.pem'' v (stored w)"
  | e where "r = Fail e" and "stored w2 = stored w" and "v \<noteq> ''''"
proof (cases "v = ''''")
  case True
  with assms(2) that show ?thesis by (simp add: UpdateKey_def written_def)
next
  case False
  with assms(2) have "cm_UpdateSecret c i name [(''key.pem'', v)] w = (r, w2)" by (simp add: UpdateKey_def)
  then show ?thesis using False that by (cases rule: UpdateSecret_cases [OF assms(1)]) (auto simp: written_def)
qed

text \<open>C17: What a renewal leaves in the secrets, when the CA answered with a certificate and a key.  If it returns no
  error, the certificate has been written, and the key as well unless the instance uses an HSM; an empty one is
  never written.  If it returns an error, either nothing has changed, or the new certificate has been written and
  the old key is still there, although the new certificate comes with another key: the two writes are not atomic,
  and the certificate goes first.\<close>

theorem renewal_outcomes:
  assumes "secret_store c stored (ci_namespace i)"
    and "cd_reenroll c r w = (Ok (cert, key), w1)"
    and "ReenrollCert c certType (Some r) i hsmEnabled w = (res, w2)"
  shows "let new_cert = written (cert_secret certType i ''signcert'') ''cert.pem'' cert (stored w) in
     (res = Ok () \<and> stored w2 =
        (if hsmEnabled then new_cert else written (cert_secret certType i ''keystore'') ''key.pem'' key new_cert)) \<or>
     (\<exists>e. res = Fail e \<and>
        (stored w2 = stored w \<or> \<not> hsmEnabled \<and> key \<noteq> '''' \<and> stored w2 = new_cert))"
proof -
  from assms(1,2) have w1: "stored w1 = stored w"
    unfolding secret_store_def by (metis snd_conv)
  obtain q w3 where cq: "UpdateSignCert c (cert_secret certType i ''signcert'') cert i w1 = (q, w3)" by fastforce
  note cases1 = UpdateSignCert_cases [OF assms(1) cq, unfolded w1]
  obtain k w4 where kq: "UpdateKey c (cert_secret certType i ''keystore'') key i w3 = (k, w4)" by fastforce
  note cases2 = UpdateKey_cases [OF assms(1) kq]
  show ?thesis
  proof (cases rule: cases1)
    case 1
    show ?thesis
      by (cases rule: cases2) (use 1 assms(2,3) cq kq in \<open>auto simp: ReenrollCert_def Let_def split: if_splits\<close>)
  next
    case (2 e)
    with assms(2,3) cq show ?thesis by (auto simp: ReenrollCert_def Let_def)
  qed
qed

text \<open>The sample cluster fails to write the keystore: the renewal ends with the new certificate and the old key.\<close>

definition half_store :: "((string \<Rightarrow> string gomap), unit) cert_deps" where
  "half_store = \<lparr>
     cd_api = \<lparr>sa_get = (\<lambda>n ns w. (Ok (Some (w n)), w)), sa_create = (\<lambda>n ns l d w. (Ok (), w(n := d))),
       sa_update = (\<lambda>n ns d w. (Ok (), w(n := sdata d))), sa_order = keys\<rparr>,
     cd_update = (\<lambda>n ns l d w. if n = ''tls-peer1-keystore'' then (Fail (Plain ''timeout''), w) else (Ok (), w(n := d))),
     cd_now = (\<lambda>w. (0, w)), cd_not_after = sample_dates, cd_time_text = itoa,
     cd_new = (\<lambda>e p b k w. (Ok (), w)), cd_init = (\<lambda>r w. (Ok (), w)),
     cd_load = (\<lambda>r ce k h w. (Ok (), w)), cd_reenroll = (\<lambda>r w. (Ok (''T2'', ''K2''), w)),
     cd_read_hsm = (\<lambda>i w. (Fail (NotFound ''hsm''), w)),
     cd_new_hsm = (\<lambda>dm e p b h i k w. (Ok (), w))\<rparr>"

lemma half_store_ok: "secret_store half_store (\<lambda>w. w) namespace"
  by (auto simp: secret_store_def half_store_def)

lemma half_renewal:
  "\<exists>e. ReenrollCert half_store TLS (Some ()) (cert_instance_of warned_peer) False (\<lambda>n. [])
     = (Fail e, (\<lambda>n. [])(''tls-peer1-signcert'' := [(''cert.pem'', ''T2'')]))"
  unfolding ReenrollCert_def warned_names
  by (simp add: half_store_def UpdateSignCert_def UpdateKey_def cm_UpdateSecret_def)

theorem renewal_outcomes_witness:
  "let res = ReenrollCert half_store TLS (Some ()) (cert_instance_of warned_peer) True (\<lambda>n. []) in
     fst res = Ok () \<and> snd res = (\<lambda>n. [])(''tls-peer1-signcert'' := [(''cert.pem'', ''T2'')])"
proof -
  have cd: "cd_reenroll half_store () (\<lambda>n. []) = (Ok (''T2'', ''K2''), \<lambda>n. [])" by (simp add: half_store_def)
  have ok: "fst (ReenrollCert half_store TLS (Some ()) (cert_instance_of warned_peer) True (\<lambda>n. [])) = Ok ()"
    unfolding ReenrollCert_def warned_names by (simp add: half_store_def UpdateSignCert_def cm_UpdateSecret_def)
  from renewal_outcomes [OF half_store_ok cd surjective_pairing, of TLS "cert_instance_of warned_peer" True] ok
  show ?thesis unfolding warned_names by (auto simp: written_def Let_def)
qed

end
