(* ===== verification/OrdererConfig.thy ===== *)
theory OrdererConfig
  imports Offering
begin

text \<open>
  The configuration of an ordering node, \<open>pkg/initializer/orderer/config\<close>: the code has one struct per
  Fabric version with the same methods; here the version is a field.  The fields the code reads are
  modelled, the others are \<open>oc_text\<close>.  A nil pointer is \<open>None\<close>.  Merging of two configurations is done by
  a third-party library, the function \<open>merge\<close>.
\<close>

record pkcs11 =
  pk_Library :: string
  pk_Hash :: string
  pk_Security :: int
  pk_FileKeyStore :: "string option"
  pk_other :: string

record bccsp =
  bc_Default :: string
  bc_PKCS11 :: "pkcs11 option"
  bc_SW :: string

record orderer_config =
  oc_version :: core_version
  oc_BCCSP :: "bccsp option"
  oc_AdminTLS_Enabled :: "bool option"
  oc_AdminTLS_ClientAuthRequired :: "bool option"
  oc_text :: string

definition empty_orderer_config :: "core_version \<Rightarrow> orderer_config" where
  "empty_orderer_config v = \<lparr>oc_version = v, oc_BCCSP = None, oc_AdminTLS_Enabled = None,
     oc_AdminTLS_ClientAuthRequired = None, oc_text = ''''\<rparr>"

definition no_pkcs11 :: pkcs11 where
  "no_pkcs11 = \<lparr>pk_Library = '''', pk_Hash = '''', pk_Security = 0, pk_FileKeyStore = None, pk_other = ''''\<rparr>"

definition UsingPKCS11 :: "orderer_config \<Rightarrow> bool" where
  "UsingPKCS11 c = (case oc_BCCSP c of
     Some b \<Rightarrow> if to_lower (bc_Default b) = ''pkcs11'' then True else False
   | None \<Rightarrow> False)"

text \<open>An update of the PKCS11 section, which is made if there is none; \<open>BCCSP\<close> is dereferenced unchecked.\<close>

definition on_pkcs11 :: "(pkcs11 \<Rightarrow> pkcs11) \<Rightarrow> orderer_config \<Rightarrow> orderer_config go_result" where
  "on_pkcs11 f c = (case oc_BCCSP c of
     None \<Rightarrow> Panic ''nil pointer dereference''
   | Some b \<Rightarrow>
       let p = (case bc_PKCS11 b of None \<Rightarrow> no_pkcs11 | Some p \<Rightarrow> p)
       in Ok (c\<lparr>oc_BCCSP := Some (b\<lparr>bc_PKCS11 := Some (f p)\<rparr>)\<rparr>))"

definition SetPKCS11Defaults :: "bool \<Rightarrow> orderer_config \<Rightarrow> orderer_config go_result" where
  "SetPKCS11Defaults usingHSMProxy = on_pkcs11 (\<lambda>p.
     let p = (if usingHSMProxy then p\<lparr>pk_Library := ''/usr/local/lib/libpkcs11-proxy.so''\<rparr> else p);
         p = (if pk_Hash p = '''' then p\<lparr>pk_Hash := ''SHA2''\<rparr> else p)
     in if pk_Security p = 0 then p\<lparr>pk_Security := 256\<rparr> else p)"

definition SetBCCSPLibrary :: "string \<Rightarrow> orderer_config \<Rightarrow> orderer_config go_result" where
  "SetBCCSPLibrary library = on_pkcs11 (\<lambda>p. p\<lparr>pk_Library := library\<rparr>)"

text \<open>
  \<open>MergeWith\<close>: the new configuration must be of the receiver's type, the type assertion panics
  otherwise.
\<close>

definition MergeWith ::
  "(orderer_config \<Rightarrow> orderer_config \<Rightarrow> orderer_config go_result) \<Rightarrow> orderer_config \<Rightarrow> bool \<Rightarrow> orderer_config \<Rightarrow>
     orderer_config go_result" where
  "MergeWith merge newConfig usingHSMProxy c =
     (if oc_version newConfig \<noteq> oc_version c then Panic ''interface conversion''
      else
        (case merge c newConfig of
           Fail e \<Rightarrow> Fail (Wrapped ''failed to merge orderer configuration overrides'' e)
         | Panic p \<Rightarrow> Panic p
         | Ok c \<Rightarrow> if UsingPKCS11 c then SetPKCS11Defaults usingHSMProxy c else Ok c))"

definition GetBCCSPSection :: "orderer_config \<Rightarrow> bccsp option" where
  "GetBCCSPSection c = oc_BCCSP c"

text \<open>The library a configuration loads for PKCS11.\<close>

definition pkcs11_library :: "orderer_config \<Rightarrow> string option" where
  "pkcs11_library c = map_option pk_Library (Option.bind (oc_BCCSP c) bc_PKCS11)"

lemma SetPKCS11Defaults_library:
  "SetPKCS11Defaults proxy c = Ok c' \<Longrightarrow>
   pkcs11_library c' = (if proxy then Some ''/usr/local/lib/libpkcs11-proxy.so''
     else Some (case pkcs11_library c of None \<Rightarrow> '''' | Some l \<Rightarrow> l))"
  by (auto simp: SetPKCS11Defaults_def on_pkcs11_def pkcs11_library_def no_pkcs11_def Let_def
      split: option.splits if_splits)

end
