(* ===== verification/Base64.thy ===== *)
theory Base64
  imports Secrets
begin

text \<open>
  Decoding: \<open>base64.StdEncoding.DecodeString\<close>, and \<open>Base64ToBytes\<close> of \<open>pkg/util/util.go\<close>, which strips
  superfluous padding by trying again.
\<close>

definition b64_value :: "char \<Rightarrow> nat option" where
  "b64_value = map_of (zip b64_alphabet [0..<64])"

text \<open>The decoder reads four characters at a time; padding ends the input.\<close>

fun b64_quanta :: "string \<Rightarrow> string option" where
  "b64_quanta [] = Some []"
| "b64_quanta (a # b # c # d # s) =
     (case (b64_value a, b64_value b) of
        (Some x, Some y) \<Rightarrow>
          (case (b64_value c, b64_value d) of
             (Some z, Some u) \<Rightarrow>
               (let n = x * 262144 + y * 4096 + z * 64 + u
                in map_option (\<lambda>t. char_of (n div 65536) # char_of (n div 256) # char_of n # t) (b64_quanta s))
           | (Some z, None) \<Rightarrow>
               if d = CHR ''='' \<and> s = [] then
                 (let n = x * 4096 + y * 64 + z in Some [char_of (n div 1024), char_of (n div 4)])
               else None
           | (None, _) \<Rightarrow>
               if c = CHR ''='' \<and> d = CHR ''='' \<and> s = [] then
                 (let n = x * 64 + y in Some [char_of (n div 16)])
               else None)
      | _ \<Rightarrow> None)"
| "b64_quanta _ = None"

text \<open>The decoder skips line breaks wherever they stand.\<close>

definition DecodeString :: "string \<Rightarrow> string go_result" where
  "DecodeString s =
     (case b64_quanta (filter (\<lambda>c. c \<noteq> CHR 0x0A \<and> c \<noteq> CHR 0x0D) s) of
        Some b \<Rightarrow> Ok b
      | None \<Rightarrow> Fail (Plain ''illegal base64 data''))"

function Base64ToBytes :: "string \<Rightarrow> string go_result" where
  "Base64ToBytes s =
     (case DecodeString s of
        Ok b \<Rightarrow> Ok b
      | Panic p \<Rightarrow> Panic p
      | Fail e \<Rightarrow>
          if s \<noteq> [] \<and> last s = CHR ''='' then Base64ToBytes (butlast s)
          else Fail (Wrapped (''failed to parse base64 string '' @ s) e))"
  by auto

termination
  by (relation "measure length") auto

declare Base64ToBytes.simps [simp del]

subsection \<open>Decoding what was encoded\<close>

lemma b64_value_char [simp]: "b64_value (b64_char n) = Some (n mod 64)"
proof -
  have "distinct b64_alphabet" "length b64_alphabet = 64" by (simp_all add: b64_alphabet_def)
  then show ?thesis
    using map_of_zip_nth [of b64_alphabet "[0..<64]" "n mod 64"] by (simp add: b64_value_def b64_char_def)
qed

lemma b64_char_plain: "b64_char n \<noteq> CHR ''=''" "b64_char n \<noteq> CHR 0x0A" "b64_char n \<noteq> CHR 0x0D"
proof -
  have "set b64_alphabet \<subseteq> - {CHR ''='', CHR 0x0A, CHR 0x0D}" by (simp add: b64_alphabet_def)
  moreover have "b64_char n \<in> set b64_alphabet"
    unfolding b64_char_def by (rule nth_mem) (simp add: b64_alphabet_def)
  ultimately show "b64_char n \<noteq> CHR ''=''" "b64_char n \<noteq> CHR 0x0A" "b64_char n \<noteq> CHR 0x0D" by blast+
qed

lemma b64_value_pad [simp]: "b64_value (CHR ''='') = None"
  by (simp add: b64_value_def b64_alphabet_def)

text \<open>Six bits at a time make up the number again, and a full, a half and a quarter group decode to it.\<close>

lemma six_bits: "n div 64 * 64 + n mod 64 = (n :: nat)"
  by (rule div_mult_mod_eq)

lemma sextets:
  fixes n :: nat
  shows "n < 4096 \<Longrightarrow> n div 64 mod 64 * 64 + n mod 64 = n"
    and "n < 262144 \<Longrightarrow> n div 4096 mod 64 * 4096 + n div 64 mod 64 * 64 + n mod 64 = n"
    and "n < 16777216 \<Longrightarrow>
      n div 262144 mod 64 * 262144 + n div 4096 mod 64 * 4096 + n div 64 mod 64 * 64 + n mod 64 = n"
proof -
  have d: "n div 4096 = n div 64 div 64" "n div 262144 = n div 64 div 64 div 64"
    by (simp_all add: div_mult2_eq [symmetric])
  note e = six_bits [of n] six_bits [of "n div 64"] six_bits [of "n div 64 div 64"]
  show "n < 4096 \<Longrightarrow> n div 64 mod 64 * 64 + n mod 64 = n"
    using e by (simp add: less_mult_imp_div_less)
  show "n < 262144 \<Longrightarrow> n div 4096 mod 64 * 4096 + n div 64 mod 64 * 64 + n mod 64 = n"
    using e unfolding d by (simp add: less_mult_imp_div_less) (use e in linarith)
  show "n < 16777216 \<Longrightarrow>
      n div 262144 mod 64 * 262144 + n div 4096 mod 64 * 4096 + n div 64 mod 64 * 64 + n mod 64 = n"
    using e unfolding d by (simp add: less_mult_imp_div_less) (use e in linarith)
qed

lemma b64_group3: "n < 16777216 \<Longrightarrow>
    b64_quanta (b64_char (n div 262144) # b64_char (n div 4096) # b64_char (n div 64) # b64_char n # s) =
    map_option (\<lambda>t. char_of (n div 65536) # char_of (n div 256) # char_of n # t) (b64_quanta s)"
  using sextets(3) [of n] by (simp only: b64_quanta.simps b64_value_char option.simps prod.simps Let_def)

lemma b64_group2: "n < 262144 \<Longrightarrow>
    b64_quanta [b64_char (n div 4096), b64_char (n div 64), b64_char n, CHR ''=''] =
    Some [char_of (n div 1024), char_of (n div 4)]"
  using sextets(2) [of n] by (simp only: b64_quanta.simps b64_value_char b64_value_pad option.simps prod.simps Let_def simp_thms if_True)

lemma b64_group1: "n < 4096 \<Longrightarrow>
    b64_quanta [b64_char (n div 64), b64_char n, CHR ''='', CHR ''=''] = Some [char_of (n div 16)]"
  using sextets(1) [of n] by (simp only: b64_quanta.simps b64_value_char b64_value_pad option.simps prod.simps Let_def simp_thms if_True)

lemma char_bound: "(of_char c :: nat) < 256"
  by (metis of_char_mod_256 mod_less_divisor zero_less_numeral)

lemma digits_less: "x < m \<Longrightarrow> y < k \<Longrightarrow> x * k + y < m * (k :: nat)"
proof -
  assume "x < m" "y < k"
  then have "x * k + y < Suc x * k" by simp
  also have "Suc x * k \<le> m * k" using \<open>x < m\<close> by (intro mult_le_mono1) simp
  finally show ?thesis .
qed

lemma digits_div: "y < k \<Longrightarrow> (x * k + y) div k = (x :: nat)"
  by simp

lemma byte_bounds:
  "x < 256 \<Longrightarrow> y < 256 \<Longrightarrow> (x * 256 + y) * 4 < (262144 :: nat)"
  "x < 256 \<Longrightarrow> y < 256 \<Longrightarrow> z < 256 \<Longrightarrow> (x * 256 + y) * 256 + z < (16777216 :: nat)"
  "y < 256 \<Longrightarrow> (x * 256 + y) * 4 div 1024 = (x :: nat)"
  "y < 256 \<Longrightarrow> z < 256 \<Longrightarrow> ((x * 256 + y) * 256 + z) div 65536 = (x :: nat)"
proof -
  show "x < 256 \<Longrightarrow> y < 256 \<Longrightarrow> (x * 256 + y) * 4 < (262144 :: nat)"
    using digits_less [of x 256 y 256] by simp
  show "x < 256 \<Longrightarrow> y < 256 \<Longrightarrow> z < 256 \<Longrightarrow> (x * 256 + y) * 256 + z < (16777216 :: nat)"
    using digits_less [of x 256 y 256] digits_less [of "x * 256 + y" 65536 z 256] by simp
  have "(x * 256 + y) * 4 div 1024 = (x * 256 + y) div 256" by (simp add: div_mult_mult2 [of 4 _ 256, simplified])
  then show "y < 256 \<Longrightarrow> (x * 256 + y) * 4 div 1024 = x" by (simp only: digits_div)
  have "((x * 256 + y) * 256 + z) div 65536 = ((x * 256 + y) * 256 + z) div 256 div 256"
    by (simp add: div_mult2_eq [symmetric])
  then show "y < 256 \<Longrightarrow> z < 256 \<Longrightarrow> ((x * 256 + y) * 256 + z) div 65536 = x" by (simp only: digits_div)
qed

lemma low_byte: "char_of (m * 256 + of_char c :: nat) = c"
proof -
  have "(m * 256 + of_char c) mod 256 = (of_char c :: nat)" using char_bound [of c] by simp
  then show ?thesis by (metis char_of_mod_256 char_of_char)
qed

lemma two_bytes: "((of_char a * 256 + of_char b) * 4 :: nat) < 262144"
    "char_of ((of_char a * 256 + of_char b) * 4 div 1024 :: nat) = a"
    "char_of ((of_char a * 256 + of_char b) * 4 div 4 :: nat) = b"
proof -
  let ?A = "of_char a :: nat" and ?B = "of_char b :: nat"
  show "(?A * 256 + ?B) * 4 < 262144" by (intro byte_bounds char_bound)
  have "(?A * 256 + ?B) * 4 div 1024 = ?A" by (intro byte_bounds char_bound)
  then show "char_of ((?A * 256 + ?B) * 4 div 1024) = a" by (simp only: char_of_char)
  have "(?A * 256 + ?B) * 4 div 4 = ?A * 256 + ?B" by (rule nonzero_mult_div_cancel_right) simp
  then show "char_of ((?A * 256 + ?B) * 4 div 4) = b" by (simp only: low_byte)
qed

lemma three_bytes: "((of_char a * 256 + of_char b) * 256 + of_char c :: nat) < 16777216"
    "char_of (((of_char a * 256 + of_char b) * 256 + of_char c) div 65536 :: nat) = a"
    "char_of (((of_char a * 256 + of_char b) * 256 + of_char c) div 256 :: nat) = b"
    "char_of ((of_char a * 256 + of_char b) * 256 + of_char c :: nat) = c"
proof -
  let ?A = "of_char a :: nat" and ?B = "of_char b :: nat" and ?C = "of_char c :: nat"
  show "(?A * 256 + ?B) * 256 + ?C < 16777216"
    by (intro byte_bounds char_bound)
  have "((?A * 256 + ?B) * 256 + ?C) div 65536 = ?A" by (intro byte_bounds char_bound)
  then show "char_of (((?A * 256 + ?B) * 256 + ?C) div 65536) = a" by (simp only: char_of_char)
  have "((?A * 256 + ?B) * 256 + ?C) div 256 = ?A * 256 + ?B" by (intro digits_div char_bound)
  then show "char_of (((?A * 256 + ?B) * 256 + ?C) div 256) = b" by (simp only: low_byte)
  show "char_of ((?A * 256 + ?B) * 256 + ?C) = c" by (rule low_byte)
qed

lemma b64_quanta_base64: "b64_quanta (base64 s) = Some s"
proof (induction s rule: base64.induct)
  case (2 a)
  show ?case
    unfolding base64.simps Let_def using char_bound [of a] by (subst b64_group1) simp_all
next
  case (3 a b)
  show ?case
    unfolding base64.simps Let_def by (subst b64_group2) (simp_all only: two_bytes)
next
  case (4 a b c s)
  show ?case
    unfolding base64.simps Let_def append.simps by (subst b64_group3) (simp_all only: three_bytes 4 option.simps)
qed simp

subsection \<open>Superfluous padding\<close>

lemma base64_no_breaks: "filter (\<lambda>c. c \<noteq> CHR 0x0A \<and> c \<noteq> CHR 0x0D) (base64 s) = base64 s"
  by (induction s rule: base64.induct) (simp_all add: Let_def b64_char_plain)

lemma b64_quanta_padded: "0 < k \<Longrightarrow> b64_quanta (base64 s @ replicate k CHR ''='') = None"
proof (induction s rule: base64.induct)
  case 1
  obtain j where "k = Suc j" using 1 gr0_implies_Suc by blast
  then show ?case
    by (cases j; cases "j - 1"; cases "j - 2") (simp_all add: Suc_diff_Suc numeral_2_eq_2 split: nat.splits)
next
  case (4 a b c s)
  then show ?case by (simp add: Let_def)
qed (simp_all add: Let_def)

text \<open>Base64ToBytes gives back the bytes that were encoded, however many padding characters were added to the
  end of their encoding: it strips one at a time until the rest decodes, and every longer text fails to
  decode.
\<close>

lemma padding_is_forgiven: "Base64ToBytes (base64 b @ replicate k CHR ''='') = Ok b"
proof (induction k)
  case 0
  show ?case
    by (subst Base64ToBytes.simps) (simp add: DecodeString_def base64_no_breaks b64_quanta_base64)
next
  case (Suc k)
  have "DecodeString (base64 b @ replicate (Suc k) CHR ''='') = Fail (Plain ''illegal base64 data'')"
    unfolding DecodeString_def filter_append base64_no_breaks
    using b64_quanta_padded [of "Suc k" b] by (simp add: filter_replicate)
  moreover have "butlast (base64 b @ replicate (Suc k) CHR ''='') = base64 b @ replicate k CHR ''=''"
    by (simp add: butlast_append replicate_append_same [symmetric] del: replicate_append_same)
  ultimately show ?case
    using Suc by (subst Base64ToBytes.simps) (simp add: last_append del: replicate.simps)
qed

end
