(* ===== verification/OrdererNode.thy ===== *)
theory OrdererNode
  imports OrdererConfig OrdererUpdate Base64
begin

text \<open>
  The offering of an ordering node, \<open>pkg/offering/base/orderer/node.go\<close>, first part: the custom resource
  as the offering sees it (\<open>api/v1beta1/ibporderer.go\<close>), its collaborators, and the checks of a round.
  A node's name is that of its instance; \<open>node_\<close> marks the functions that the peer's offering has under
  the same name.
\<close>

subsection \<open>The custom resource\<close>

record location =
  loc_Zone :: string
  loc_Region :: string

record orderer_full =
  of_LicenseAccept :: bool
  of_FabricVersion :: string
  of_Arch :: "string list"
  of_RegistryURL :: string
  of_Images :: "image_tag orderer_image_set option"
  of_ConfigOverride :: "string option"
  of_OrdererType :: string
  of_OrgName :: string
  of_MSPID :: string
  of_SystemChannelName :: string
  of_GenesisProfile :: string
  of_GenesisBlock :: string
  of_Secret :: "peer_secret option"
  of_Action :: orderer_action
  of_DisableNodeOU :: "bool option"
  of_HSM :: "string option"
  of_Domain :: string
  of_Zone :: string
  of_Region :: string
  of_Replicas :: "int option"
  of_ExternalAddress :: string
  of_PVCOrderer :: string
  of_NumSecondsWarningPeriod :: int
  of_IsPrecreate :: "bool option"
  of_UseChannelLess :: "bool option"
  of_NodeNumber :: "int option"
  of_ClusterSize :: int
  of_ClusterLocation :: "location list option"
  of_ClusterConfigOverride :: "string option list option"
  of_ClusterSecret :: "peer_secret option list option"

type_synonym orderer_cr = "orderer_full cr"

type_synonym 'w node_state = "(orderer_cr, 'w) offering"

type_synonym 'w odeps = "(orderer_cr, 'w) offering_deps"

type_synonym node_renewal = "orderer_cr cert_renewal"

definition node_NodeOUDisabled :: "orderer_full \<Rightarrow> bool" where
  "node_NodeOUDisabled s = (case of_DisableNodeOU s of Some b \<Rightarrow> b | None \<Rightarrow> False)"

definition node_HSMSet :: "orderer_full \<Rightarrow> bool" where
  "node_HSMSet s = (case of_HSM s of Some endpoint \<Rightarrow> endpoint \<noteq> '''' | None \<Rightarrow> False)"

definition node_UsingHSMProxy :: "orderer_cr \<Rightarrow> bool" where
  "node_UsingHSMProxy i = (case of_HSM (Spec i) of Some endpoint \<Rightarrow> endpoint \<noteq> '''' | None \<Rightarrow> False)"

definition node_DomainSet :: "orderer_full \<Rightarrow> bool" where
  "node_DomainSet s \<longleftrightarrow> of_Domain s \<noteq> ''''"

definition IsPrecreateOrderer :: "orderer_full \<Rightarrow> bool" where
  "IsPrecreateOrderer s \<longleftrightarrow> of_IsPrecreate s = Some True"

definition ChannelLess :: "orderer_full \<Rightarrow> bool" where
  "ChannelLess s \<longleftrightarrow> of_UseChannelLess s = Some True"

definition node_GetNumSecondsWarningPeriod :: "orderer_full \<Rightarrow> int" where
  "node_GetNumSecondsWarningPeriod s =
     (if of_NumSecondsWarningPeriod s = 0 then 30 * (24 * 60 * 60) else of_NumSecondsWarningPeriod s)"

text \<open>The version of the configuration, 2.5, 2.4, 2.x or 1.4; \<open>GetConfigOverride\<close> chooses by it.\<close>

definition node_version :: "string \<Rightarrow> core_version" where
  "node_version fabricVersion =
     (if GetMajorReleaseVersion fabricVersion = V2 then
        if String_EqualWithoutTag fabricVersion V2_5_1 \<or> String_GreaterThan fabricVersion V2_5_1 then CoreV25
        else if String_EqualWithoutTag fabricVersion V2_4_1 \<or> String_GreaterThan fabricVersion V2_4_1 then CoreV24
        else CoreV2
      else CoreV1)"

definition on_node_action :: "(orderer_action \<Rightarrow> orderer_action) \<Rightarrow> orderer_cr \<Rightarrow> orderer_cr" where
  "on_node_action f = on_spec (\<lambda>s. s\<lparr>of_Action := f (of_Action s)\<rparr>)"

definition node_ResetRestart :: "orderer_cr \<Rightarrow> orderer_cr" where
  "node_ResetRestart = on_node_action (\<lambda>a. a\<lparr>oa_Restart := False\<rparr>)"

definition node_ResetEcertReenroll :: "orderer_cr \<Rightarrow> orderer_cr" where
  "node_ResetEcertReenroll = on_node_action (\<lambda>a. a\<lparr>oa_Reenroll_Ecert := False, oa_Reenroll_EcertNewKey := False\<rparr>)"

definition node_ResetTLSReenroll :: "orderer_cr \<Rightarrow> orderer_cr" where
  "node_ResetTLSReenroll = on_node_action (\<lambda>a. a\<lparr>oa_Reenroll_TLSCert := False, oa_Reenroll_TLSCertNewKey := False\<rparr>)"

definition node_ResetEcertEnroll :: "orderer_cr \<Rightarrow> orderer_cr" where
  "node_ResetEcertEnroll = on_node_action (\<lambda>a. a\<lparr>oa_Enroll_Ecert := False\<rparr>)"

definition node_ResetTLSEnroll :: "orderer_cr \<Rightarrow> orderer_cr" where
  "node_ResetTLSEnroll = on_node_action (\<lambda>a. a\<lparr>oa_Enroll_TLSCert := False\<rparr>)"

subsection \<open>Collaborators\<close>

record init_orderer =
  io_UsingHSMProxy :: bool
  io_Config :: orderer_config
  io_text :: string

record node_crypto =
  nc_Enrollment :: crypto_response
  nc_TLS :: crypto_response
  nc_ClientAuth :: crypto_response

record node_response =
  nr_Config :: "orderer_config option"
  nr_Crypto :: "node_crypto option"

record config_map =
  cm_Name :: string
  cm_Namespace :: string
  cm_Labels :: "string gomap"
  cm_Data :: "string gomap option"

record orderer_profile =
  op_Endpoints :: "string gomap"
  op_TLSSignCerts :: string
  op_TLSCACerts :: "string list"
  op_SignCerts :: string
  op_CACerts :: "string list"
  op_AdminCerts :: "string list"

record genesis_secret =
  gs_Name :: string
  gs_Namespace :: string
  gs_Labels :: "string gomap"
  gs_Data :: "string gomap"

text \<open>The objects of a client that takes owners: the secrets it creates and the nodes that own them.\<close>

datatype owned_object = NodeObject orderer_cr | SecretObject genesis_secret

text \<open>What \<open>Delete\<close> removes.\<close>

datatype node_part = NodeService | NodePVC | NodeEnvConfigMap | NodeSecrets | NodeDeployment

record 'w node_deps =
  nd_GetInitOrderer :: "orderer_cr \<Rightarrow> string \<Rightarrow> 'w \<Rightarrow> init_orderer go_result \<times> 'w"
  nd_CoreConfigFromFile :: "orderer_cr \<Rightarrow> core_version \<Rightarrow> 'w \<Rightarrow> orderer_config go_result \<times> 'w"
  nd_ConfigFromMap :: "orderer_cr \<Rightarrow> 'w \<Rightarrow> string go_result \<times> 'w"
  nd_CoreConfigFromBytes :: "orderer_cr \<Rightarrow> string \<Rightarrow> orderer_config go_result"
  nd_yaml :: "string \<Rightarrow> orderer_config go_result"
  nd_Create :: "orderer_config \<Rightarrow> init_orderer \<Rightarrow> string \<Rightarrow> 'w \<Rightarrow> node_response option go_result \<times> 'w"
  nd_Update :: "orderer_config \<Rightarrow> init_orderer \<Rightarrow> 'w \<Rightarrow> node_response option go_result \<times> 'w"
  nd_MissingCrypto :: "orderer_cr \<Rightarrow> 'w \<Rightarrow> bool \<times> 'w"
  nd_AdminCertsUpdated :: "orderer_cr \<Rightarrow> 'w \<Rightarrow> bool go_result \<times> 'w"
  nd_UpdateAdminSecret :: "orderer_cr \<Rightarrow> 'w \<Rightarrow> unit go_result \<times> 'w"
  nd_GetCrypto :: "orderer_cr \<Rightarrow> 'w \<Rightarrow> node_crypto go_result \<times> 'w"
  nd_VerifyCertOU :: "node_crypto \<Rightarrow> string \<Rightarrow> unit go_result"
  nd_GenerateSecretsFromResponse :: "orderer_cr \<Rightarrow> node_crypto \<Rightarrow> 'w \<Rightarrow> unit go_result \<times> 'w"
  nd_UpdateSecrets :: "string \<Rightarrow> orderer_cr \<Rightarrow> crypto_response \<Rightarrow> 'w \<Rightarrow> unit go_result \<times> 'w"
  nd_GenerateSecrets :: "string \<Rightarrow> orderer_cr \<Rightarrow> crypto_response \<Rightarrow> 'w \<Rightarrow> unit go_result \<times> 'w"
  nd_CreateOrUpdateConfigMap :: "orderer_cr \<Rightarrow> orderer_config option \<Rightarrow> 'w \<Rightarrow> unit go_result \<times> 'w"
  nd_GetUpdatedOrderer :: "orderer_cr \<Rightarrow> 'w \<Rightarrow> init_orderer go_result \<times> 'w"
  nd_GenerateCrypto :: "init_orderer \<Rightarrow> 'w \<Rightarrow> node_crypto option go_result \<times> 'w"
  nd_Enroll :: "orderer_cr \<Rightarrow> enroll \<Rightarrow> string \<Rightarrow> bool \<Rightarrow> 'w \<Rightarrow> crypto_response go_result \<times> 'w"
  nd_CheckForExpire :: "orderer_cr \<Rightarrow> int \<Rightarrow> 'w \<Rightarrow> (string \<times> string) go_result \<times> 'w"
  nd_DurationToNextRenewal :: "SecretType \<Rightarrow> orderer_cr \<Rightarrow> int \<Rightarrow> 'w \<Rightarrow> int go_result \<times> 'w"
  nd_RenewCert :: "SecretType \<Rightarrow> orderer_cr \<Rightarrow> enrollments \<Rightarrow> bccsp option \<Rightarrow> string \<Rightarrow> bool \<Rightarrow> bool \<Rightarrow> 'w \<Rightarrow>
    unit go_result \<times> 'w"
  nd_BackupCrypto :: "orderer_cr \<Rightarrow> string gomap \<Rightarrow> 'w \<Rightarrow> unit go_result \<times> 'w"
  nd_secrets :: "'w secret_api"
  nd_Profile :: "orderer_profile \<Rightarrow> string go_result"
  nd_ReadOrdererFile :: "core_version \<Rightarrow> 'w \<Rightarrow> orderer_config go_result \<times> 'w"
  nd_read_config :: "core_version \<Rightarrow> string \<Rightarrow> orderer_config go_result"
  nd_merge :: "orderer_config \<Rightarrow> orderer_config \<Rightarrow> orderer_config go_result"
  nd_get_cm :: "string \<Rightarrow> string \<Rightarrow> 'w \<Rightarrow> config_map go_result \<times> 'w"
  nd_update_cm :: "orderer_cr \<Rightarrow> config_map \<Rightarrow> 'w \<Rightarrow> unit go_result \<times> 'w"
  nd_objects :: "(owned_object, 'w) k8s_client"
  nd_selector :: "string \<Rightarrow> unit go_result"
  nd_list :: "string \<Rightarrow> string \<Rightarrow> 'w \<Rightarrow> orderer_cr list go_result \<times> 'w"
  nd_Delete :: "node_part \<Rightarrow> orderer_cr \<Rightarrow> 'w \<Rightarrow> unit go_result \<times> 'w"
  nd_GetName :: "node_part \<Rightarrow> orderer_cr \<Rightarrow> string"
  nd_StoragePath :: string
  nd_RestartDisabled :: bool
  nd_DisableTLScert :: bool
  nd_AllowKubernetesEighteen :: string
  nd_Time :: "'w \<Rightarrow> string \<times> 'w"

text \<open>The configuration override of the instance, read as its version wants it.\<close>

definition node_GetConfigOverride :: "'w node_deps \<Rightarrow> orderer_cr \<Rightarrow> orderer_config go_result" where
  "node_GetConfigOverride n i =
     (let v = node_version (of_FabricVersion (Spec i)) in
      (case of_ConfigOverride (Spec i) of
         None \<Rightarrow> Ok (empty_orderer_config v)
       | Some raw \<Rightarrow> nd_read_config n v raw))"

definition node_IsHSMEnabled :: "'w node_deps \<Rightarrow> orderer_cr \<Rightarrow> bool" where
  "node_IsHSMEnabled n i = (case node_GetConfigOverride n i of Ok co \<Rightarrow> UsingPKCS11 co | _ \<Rightarrow> False)"

definition node_inst_of :: "orderer_cr \<Rightarrow> inst" where
  "node_inst_of i = \<lparr>inst_kind = KOrderer, inst_name = Name i, inst_namespace = Namespace i,
     inst_mspid = of_MSPID (Spec i)\<rparr>"

subsection \<open>The checks of a round\<close>

definition node_SelectZone :: "'w odeps \<Rightarrow> 'w node_state \<Rightarrow> bool go_result \<times> 'w node_state" where
  "node_SelectZone d = select_place (GetZone d) (ValidateZone d) (\<lambda>i. of_Zone (Spec i)) (\<lambda>z sp. sp\<lparr>of_Zone := z\<rparr>)"

definition node_SelectRegion :: "'w odeps \<Rightarrow> 'w node_state \<Rightarrow> bool go_result \<times> 'w node_state" where
  "node_SelectRegion d =
     select_place (GetRegion d) (ValidateRegion d) (\<lambda>i. of_Region (Spec i)) (\<lambda>z sp. sp\<lparr>of_Region := z\<rparr>)"

definition node_ReconcileHSMImages :: "'w odeps \<Rightarrow> 'w node_state \<Rightarrow> bool go_result \<times> 'w node_state" where
  "node_ReconcileHSMImages d =
     refresh_hsm_image d (\<lambda>sp. map_option OHSM (of_Images sp))
       (\<lambda>t sp. sp\<lparr>of_Images := map_option (\<lambda>im. im\<lparr>OHSM := t\<rparr>) (of_Images sp)\<rparr>)"

definition node_view :: "orderer_full \<Rightarrow> image_tag orderer_image_set view" where
  "node_view s = \<lparr>vw_FabricVersion = of_FabricVersion s, vw_Arch = of_Arch s,
     vw_RegistryURL = of_RegistryURL s, vw_Images = of_Images s\<rparr>"

fun node_put_view :: "instance_view \<Rightarrow> orderer_full \<Rightarrow> orderer_full" where
  "node_put_view (OrdererInstance v) s = s\<lparr>of_FabricVersion := vw_FabricVersion v, of_Images := vw_Images v\<rparr>"
| "node_put_view _ s = s"

definition node_check_images ::
  "'w odeps \<Rightarrow> orderer_update \<Rightarrow> 'w node_state \<Rightarrow> bool go_result \<times> 'w node_state" where
  "node_check_images d u s =
     (case FabricVersionHelper (d_versions d) (d_version_visit d)
             \<lparr>vu_ImagesUpdated = o_imagesUpdated u, vu_FabricVersionUpdated = o_fabricVersionUpdated u\<rparr>
             (OrdererInstance (node_view (Spec (the_instance s)))) of
        (r, v) \<Rightarrow> (r, on_instance (on_spec (node_put_view v)) s))"

definition node_conflicting_actions :: "orderer_action \<Rightarrow> unit go_result" where
  "node_conflicting_actions a =
     (if oa_Enroll_Ecert a \<and> oa_Reenroll_Ecert a then
        Fail (Plain ''both enroll and renenroll action requested for ecert, must only select one'')
      else if oa_Enroll_TLSCert a \<and> oa_Reenroll_TLSCert a then
        Fail (Plain ''both enroll and renenroll action requested for TLS cert, must only select one'')
      else if oa_Enroll_Ecert a \<and> oa_Reenroll_EcertNewKey a then
        Fail (Plain ''both enroll and renenroll with new key action requested for ecert, must only select one'')
      else if oa_Enroll_TLSCert a \<and> oa_Reenroll_TLSCertNewKey a then
        Fail (Plain ''both enroll and renenroll with new key action requested for TLS cert, must only select one'')
      else if oa_Reenroll_Ecert a \<and> oa_Reenroll_EcertNewKey a then
        Fail (Plain ''both reenroll and renenroll with new key action requested for ecert, must only select one'')
      else if oa_Reenroll_TLSCert a \<and> oa_Reenroll_TLSCertNewKey a then
        Fail (Plain ''both reenroll and renenroll with new key action requested for TLS cert, must only select one'')
      else Ok ())"

definition node_PreReconcileChecks ::
  "'w odeps \<Rightarrow> orderer_update \<Rightarrow> 'w node_state \<Rightarrow> bool go_result \<times> 'w node_state" where
  "node_PreReconcileChecks d u s =
     bind_r (wrap_err ''failed during version and image checks'' (node_check_images d u s)) (\<lambda>imagesUpdated s.
     bind_r (if node_HSMSet (Spec (the_instance s)) then
               wrap_err (''invalid HSM endpoint for orderer instance '' @ quoted (Name (the_instance s)))
                 (on_world (ValidateHSMProxyURL d
                    (case of_HSM (Spec (the_instance s)) of Some e \<Rightarrow> e | None \<Rightarrow> '''')) s)
             else (Ok (), s)) (\<lambda>_ s.
     if \<not> node_DomainSet (Spec (the_instance s)) then
       (Fail (Plain (''domain not set for orderer instance '' @ quoted (Name (the_instance s)))), s)
     else
     bind_r (node_conflicting_actions (of_Action (Spec (the_instance s))), s) (\<lambda>_ s.
     bind_r (node_SelectZone d s) (\<lambda>zoneUpdated s.
     bind_r (node_SelectRegion d s) (\<lambda>regionUpdated s.
     bind_r (node_ReconcileHSMImages d s) (\<lambda>hsmImageUpdated s.
     let replicasUpdated = (of_Replicas (Spec (the_instance s)) = None);
         s = (if replicasUpdated then on_instance (on_spec (\<lambda>sp. sp\<lparr>of_Replicas := Some 1\<rparr>)) s else s)
     in (Ok (zoneUpdated \<or> regionUpdated \<or> hsmImageUpdated \<or> replicasUpdated \<or> imagesUpdated), s)))))))"

definition node_UpdateExternalEndpoint :: "'w node_state \<Rightarrow> bool \<times> 'w node_state" where
  "node_UpdateExternalEndpoint s =
     (let i = the_instance s in
      if of_ExternalAddress (Spec i) = '''' then
        (True, on_instance (on_spec (\<lambda>sp. sp\<lparr>of_ExternalAddress :=
           Namespace i @ ''-'' @ Name i @ ''-orderer.'' @ of_Domain sp @ '':443''\<rparr>)) s)
      else (False, s))"

text \<open>\<open>SetVersion\<close>, the same for a node and for the cluster.\<close>

definition node_SetVersion :: "'w odeps \<Rightarrow> 'w node_state \<Rightarrow> bool go_result \<times> 'w node_state" where
  "node_SetVersion d s =
     (if SVersion (CRStatus (the_instance s)) = '''' \<or>
         \<not> String_Equal (SVersion (CRStatus (the_instance s))) Operator_version then
        let s = on_instance (\<lambda>i. i\<lparr>CRStatus := (CRStatus i)\<lparr>SVersion := Operator_version\<rparr>\<rparr>) s
        in bind_r (on_object (\<lambda>i. client_PatchStatus (d_client d) i (Resilient 3)) s) (\<lambda>_ s. (Ok True, s))
      else (Ok False, s))"

subsection \<open>Initialization\<close>

definition node_GetInitStoragePath :: "'w node_deps \<Rightarrow> orderer_cr \<Rightarrow> string" where
  "node_GetInitStoragePath n i =
     (if nd_StoragePath n \<noteq> '''' then nd_StoragePath n @ ''/'' @ Name i else ''/ordererinit/'' @ Name i)"

text \<open>The library path for a HSM without proxy: \<open>SetBCCSPLibrary\<close> with the file of the HSM's configuration.\<close>

definition set_hsm_library ::
  "'w odeps \<Rightarrow> 'w node_deps \<Rightarrow> orderer_cr \<Rightarrow> orderer_config \<Rightarrow> 'w \<Rightarrow> orderer_config go_result \<times> 'w" where
  "set_hsm_library d n i config w =
     (if node_IsHSMEnabled n i \<and> \<not> node_UsingHSMProxy i then
        bind_r (ReadHSMConfig d i w) (\<lambda>hsm w.
          (SetBCCSPLibrary (''/hsm/lib/'' @ path_base (hsm_FilePath hsm)) config, w))
      else (Ok config, w))"

definition node_InitializeCreate ::
  "'w odeps \<Rightarrow> 'w node_deps \<Rightarrow> orderer_cr \<Rightarrow> init_orderer \<Rightarrow> 'w \<Rightarrow> unit go_result \<times> 'w" where
  "node_InitializeCreate d n i initOrderer w =
     bind_r (ConfigExists d i w) (\<lambda>found w.
     if found then (Ok (), w)
     else
       bind_r (node_GetConfigOverride n i, w) (\<lambda>co w.
       bind_r (nd_Create n co initOrderer (node_GetInitStoragePath n i) w) (\<lambda>resp w.
       (case resp of
          None \<Rightarrow> (Ok (), w)
        | Some resp \<Rightarrow>
            bind_r (case nr_Crypto resp of
                      None \<Rightarrow> (Ok (), w)
                    | Some crypto \<Rightarrow>
                        bind_r (when_r (\<not> node_NodeOUDisabled (Spec i))
                                  (\<lambda>w. (nd_VerifyCertOU n crypto ''orderer'', w)) w) (\<lambda>_ w.
                        nd_GenerateSecretsFromResponse n i crypto w)) (\<lambda>_ w.
            (case nr_Config resp of
               None \<Rightarrow> (Ok (), w)
             | Some config \<Rightarrow>
                 bind_r (set_hsm_library d n i config w) (\<lambda>config w.
                 nd_CreateOrUpdateConfigMap n i (Some config) w)))))))"

definition node_InitializeUpdateConfigOverride ::
  "'w odeps \<Rightarrow> 'w node_deps \<Rightarrow> orderer_cr \<Rightarrow> init_orderer \<Rightarrow> 'w \<Rightarrow> unit go_result \<times> 'w" where
  "node_InitializeUpdateConfigOverride d n i initOrderer w =
     (case nd_MissingCrypto n i w of
        (missing, w) \<Rightarrow>
          if missing then node_InitializeCreate d n i initOrderer w
          else
            bind_r (nd_ConfigFromMap n i w) (\<lambda>bytes w.
            bind_r (nd_CoreConfigFromBytes n i bytes, w) (\<lambda>config w.
            bind_r (node_GetConfigOverride n i, w) (\<lambda>co w.
            bind_r (nd_Update n co (initOrderer\<lparr>io_Config := config\<rparr>) w) (\<lambda>resp w.
            (case Option.bind resp nr_Config of
               None \<Rightarrow> (Ok (), w)
             | Some config \<Rightarrow> nd_CreateOrUpdateConfigMap n i (Some config) w))))))"

definition node_InitializeUpdateNodeOU :: "'w node_deps \<Rightarrow> orderer_cr \<Rightarrow> 'w \<Rightarrow> unit go_result \<times> 'w" where
  "node_InitializeUpdateNodeOU n i w =
     bind_r (nd_GetCrypto n i w) (\<lambda>crypto w.
     bind_r (if \<not> node_NodeOUDisabled (Spec i) then (nd_VerifyCertOU n crypto ''orderer'', w)
             else if cr_AdminCerts (nc_Enrollment crypto) = None then
               (Fail (Plain ''node OU disabled, admin certs are required but missing''), w)
             else (Ok (), w)) (\<lambda>_ w.
     nd_CreateOrUpdateConfigMap n i None w))"

definition node_ReconcileRBAC :: "'w odeps \<Rightarrow> orderer_cr \<Rightarrow> 'w \<Rightarrow> unit go_result \<times> 'w" where
  "node_ReconcileRBAC d i w =
     bind_r (d_manager d RoleManager i False w) (\<lambda>_ w.
     bind_r (d_manager d RoleBindingManager i False w) (\<lambda>_ w.
     d_manager d ServiceAccountManager i False w))"

definition node_init_hsm :: "'w odeps \<Rightarrow> 'w node_deps \<Rightarrow> orderer_cr \<Rightarrow> orderer_update \<Rightarrow> 'w \<Rightarrow> unit go_result \<times> 'w" where
  "node_init_hsm d n i u w =
     (if node_IsHSMEnabled n i then
        if node_UsingHSMProxy i then
          d_setenv d ''PKCS11_PROXY_SOCKET'' (case of_HSM (Spec i) of Some e \<Rightarrow> e | None \<Rightarrow> '''') w
        else (case ReadHSMConfig d i w of
            (Fail e, w) \<Rightarrow> (Fail (Plain (''using non-proxy HSM, but no HSM config defined as config map '' @
               quoted ''ibm-hlfsupport-hsm-config'')), w)
          | (Panic p, w) \<Rightarrow> (Panic p, w)
          | (Ok hsm, w) \<Rightarrow>
              if hsm_Daemon hsm then
                wrap_err ''failed PVC reconciliation''
                  (d_manager d (PVCManager (of_PVCOrderer (Spec i))) i (o_specUpdated u) w)
              else (Ok (), w))
      else (Ok (), w))"

text \<open>The file \<open>Initialize\<close> reads the configuration from.\<close>

definition node_file :: "string \<Rightarrow> core_version" where
  "node_file fabricVersion =
     (if GetMajorReleaseVersion fabricVersion = V2 then
        if String_EqualWithoutTag fabricVersion V2_5_1 \<or> String_GreaterThan fabricVersion V2_5_1 then CoreV25
        else if String_EqualWithoutTag fabricVersion V2_4_1 \<or> String_GreaterThan fabricVersion V2_4_1 then CoreV24
        else if String_LessThan fabricVersion V2_4_1 then CoreV2
        else CoreV1
      else CoreV1)"

definition node_Initialize ::
  "'w odeps \<Rightarrow> 'w node_deps \<Rightarrow> orderer_cr \<Rightarrow> orderer_update \<Rightarrow> 'w \<Rightarrow> unit go_result \<times> 'w" where
  "node_Initialize d n i u w =
     bind_r (wrap_err ''failed RBAC reconciliation'' (node_ReconcileRBAC d i w)) (\<lambda>_ w.
     bind_r (node_init_hsm d n i u w) (\<lambda>_ w.
     bind_r (nd_GetInitOrderer n i (node_GetInitStoragePath n i) w) (\<lambda>initOrderer w.
     bind_r (nd_CoreConfigFromFile n i (node_file (of_FabricVersion (Spec i))) w) (\<lambda>config w.
     let initOrderer = initOrderer\<lparr>io_UsingHSMProxy := node_UsingHSMProxy i, io_Config := config\<rparr>;
         updated = (o_overridesUpdated u \<or> o_nodeOUUpdated u) in
     bind_r (when_r (o_overridesUpdated u) (\<lambda>w.
       bind_r (node_InitializeUpdateConfigOverride d n i initOrderer w) (\<lambda>_ w.
       ForConfigOverride (d_env d) (node_inst_of i) w)) w) (\<lambda>_ w.
     bind_r (when_r (o_nodeOUUpdated u) (\<lambda>w.
       bind_r (node_InitializeUpdateNodeOU n i w) (\<lambda>_ w.
       ForNodeOU (d_env d) (node_inst_of i) w)) w) (\<lambda>_ w.
     bind_r (when_r (\<not> updated) (node_InitializeCreate d n i initOrderer) w) (\<lambda>_ w.
     bind_r (nd_AdminCertsUpdated n i w) (\<lambda>updateNeeded w.
     when_r updateNeeded (\<lambda>w.
       bind_r (nd_UpdateAdminSecret n i w) (\<lambda>_ w.
       ForAdminCertUpdate (d_env d) (node_inst_of i) w)) w))))))))"

end
