(* ===== verification/OrdererNodeReconcile.thy ===== *)
theory OrdererNodeReconcile
  imports OrdererNode
begin

text \<open>
  The offering of an ordering node, second part: its objects, the status of its parent, migrations,
  renewal of certificates, actions, and the two \<open>Reconcile\<close> of \<open>pkg/offering/base/orderer/node.go\<close> and
  \<open>pkg/offering/k8s/orderer/node.go\<close>.
\<close>

subsection \<open>Labels and the genesis secret\<close>

text \<open>\<open>strings.Split(s, "node")\<close>, from left to right.\<close>

fun split_node :: "string \<Rightarrow> string list" where
  "split_node [] = [[]]"
| "split_node (c # s) =
     (if has_prefix (c # s) ''node'' then [] # split_node (drop 3 s)
      else (case split_node s of [] \<Rightarrow> [[c]] | p # ps \<Rightarrow> (c # p) # ps))"

definition node_GetLabels :: "'w odeps \<Rightarrow> orderer_cr \<Rightarrow> string gomap" where
  "node_GetLabels d i =
     (let parts = split_node (Name i);
          prefix = d_getenv d ''OPERATOR_LABEL_PREFIX'';
          label = (if prefix = '''' then ''fabric'' else prefix);
          common = [(''app.kubernetes.io/name'', label), (''app.kubernetes.io/instance'', label @ ''orderer''),
            (''app.kubernetes.io/managed-by'', label @ ''-operator'')]
      in if 1 < length parts then
           let ordererclustername = join_with ''node'' (butlast parts);
               orderingnode = ''node'' @ last parts
           in [(''app'', Name i), (''creator'', label), (''orderingservice'', ordererclustername),
               (''orderingnode'', orderingnode), (''parent'', ordererclustername)] @ common
         else [(''app'', Name i), (''creator'', label), (''orderingservice'', Name i)] @ common)"

definition CreateGenesisSecret :: "'w odeps \<Rightarrow> 'w node_deps \<Rightarrow> orderer_cr \<Rightarrow> 'w \<Rightarrow> unit go_result \<times> 'w" where
  "CreateGenesisSecret d n i w =
     bind_r (wrap_err ''failed to decode genesis block'' (Base64ToBytes (of_GenesisBlock (Spec i)), w))
       (\<lambda>genesisBlock w.
     wrap_err ''failed to create genesis secret''
       (case client_CreateOrUpdate (nd_objects n)
               (SecretObject \<lparr>gs_Name = Name i @ ''-genesis'', gs_Namespace = Namespace i,
                  gs_Labels = node_GetLabels d i, gs_Data = [(''orderer.block'', genesisBlock)]\<rparr>)
               (Some \<lparr>oo_Owner = Some (NodeObject i), oo_Scheme = True\<rparr>) w of
          (r, _, w) \<Rightarrow> (r, w)))"

definition ReconcileGenesisSecret :: "'w odeps \<Rightarrow> 'w node_deps \<Rightarrow> orderer_cr \<Rightarrow> 'w \<Rightarrow> unit go_result \<times> 'w" where
  "ReconcileGenesisSecret d n i w =
     (case kc_get (nd_objects n) (Name i @ ''-genesis'') (Namespace i) w of
        (Fail e, w) \<Rightarrow> if IsNotFound e then CreateGenesisSecret d n i w else (Fail e, w)
      | (Panic p, w) \<Rightarrow> (Panic p, w)
      | (Ok _, w) \<Rightarrow> (Ok (), w))"

subsection \<open>Managers and the connection profile\<close>

definition node_ReconcileManagers ::
  "'w odeps \<Rightarrow> 'w node_deps \<Rightarrow> orderer_cr \<Rightarrow> orderer_update \<Rightarrow> 'w \<Rightarrow> unit go_result \<times> 'w" where
  "node_ReconcileManagers d n i u w =
     (let update = o_specUpdated u in
      bind_r (wrap_err ''failed PVC reconciliation''
        (d_manager d (PVCManager (of_PVCOrderer (Spec i))) i update w)) (\<lambda>_ w.
      bind_r (wrap_err ''failed Service reconciliation'' (d_manager d ServiceManager i update w)) (\<lambda>_ w.
      bind_r (wrap_err ''failed RBAC reconciliation'' (node_ReconcileRBAC d i w)) (\<lambda>_ w.
      bind_r (wrap_err ''failed Env ConfigMap reconciliation''
        (d_manager d EnvConfigMapManager i update w)) (\<lambda>_ w.
      bind_r (if ChannelLess (Spec i) then (Ok (), w)
              else if \<not> IsPrecreateOrderer (Spec i) then
                wrap_err ''failed Genesis Secret reconciliation'' (ReconcileGenesisSecret d n i w)
              else (Ok (), w)) (\<lambda>_ w.
      wrap_err ''failed Deployment reconciliation''
        (d_manager d DeploymentManager i (o_deploymentUpdated u) w)))))))"

definition node_ReconcileIngressManager ::
  "'w odeps \<Rightarrow> 'w node_deps \<Rightarrow> orderer_cr \<Rightarrow> bool \<Rightarrow> 'w \<Rightarrow> unit go_result \<times> 'w" where
  "node_ReconcileIngressManager d n i update w = ingress_by_version d (nd_AllowKubernetesEighteen n) i update w"

definition k8s_node_ReconcileManagers ::
  "'w odeps \<Rightarrow> 'w node_deps \<Rightarrow> orderer_cr \<Rightarrow> orderer_update \<Rightarrow> 'w \<Rightarrow> unit go_result \<times> 'w" where
  "k8s_node_ReconcileManagers d n i u w =
     bind_r (node_ReconcileManagers d n i u w) (\<lambda>_ w.
     wrap_err ''failed Ingress reconciliation''
       (node_ReconcileIngressManager d n i (o_specUpdated u) w))"

definition node_GetEndpoints :: "orderer_cr \<Rightarrow> string gomap" where
  "node_GetEndpoints i =
     (let at = (\<lambda>scheme part. scheme @ ''://'' @ Namespace i @ ''-'' @ Name i @ part @ of_Domain (Spec i) @ '':443'');
          v = of_FabricVersion (Spec i)
      in [(''api'', at ''grpcs'' ''-orderer.''), (''operations'', at ''https'' ''-operations.''),
          (''grpcweb'', at ''https'' ''-grpcweb.'')] @
         (if String_EqualWithoutTag v V2_4_1 \<or> String_EqualWithoutTag v V2_5_1 \<or> String_GreaterThan v V2_4_1
          then [(''admin'', at ''https'' ''-admin.'')] else []))"

definition node_UpdateConnectionProfileConfigmap ::
  "'w odeps \<Rightarrow> 'w node_deps \<Rightarrow> orderer_cr \<Rightarrow> orderer_profile \<Rightarrow> 'w \<Rightarrow> unit go_result \<times> 'w" where
  "node_UpdateConnectionProfileConfigmap d n i profile w =
     bind_r (wrap_err ''failed to marshal connection profile'' (nd_Profile n profile, w)) (\<lambda>bytes w.
       let name = Name i @ ''-connection-profile''; dat = [(''profile.json'', bytes)]
       in (case d_get_data d name (Namespace i) w of
             (Ok _, w) \<Rightarrow> wrap_err ''failed to update connection profile configmap''
               (d_update_cm d name (Namespace i) (node_GetLabels d i) dat w)
           | (Fail e, w) \<Rightarrow> wrap_err ''failed to create connection profile configmap''
               (d_create_cm d name (Namespace i) (node_GetLabels d i) dat w)
           | (Panic p, w) \<Rightarrow> (Panic p, w)))"

definition node_UpdateConnectionProfile ::
  "'w odeps \<Rightarrow> 'w node_deps \<Rightarrow> orderer_cr \<Rightarrow> 'w \<Rightarrow> unit go_result \<times> 'w" where
  "node_UpdateConnectionProfile d n i w =
     (let a = nd_secrets n in
      bind_r (getSignCertEncoded a ''tls'' (Name i) (Namespace i) w) (\<lambda>tlscert w.
      bind_r (getCACertEncoded a ''tls'' (Name i) (Namespace i) w) (\<lambda>tlscacerts w.
      bind_r (getIntermediateCertEncoded a ''tls'' (Name i) (Namespace i) w) (\<lambda>tlsintercerts w.
      bind_r (getSignCertEncoded a ''ecert'' (Name i) (Namespace i) w) (\<lambda>ecert w.
      bind_r (getCACertEncoded a ''ecert'' (Name i) (Namespace i) w) (\<lambda>cacert w.
      bind_r (getAdmincertEncoded a ''ecert'' (Name i) (Namespace i) w) (\<lambda>admincerts w.
      let tlscacerts = (if 0 < length tlsintercerts then tlsintercerts else tlscacerts) in
      node_UpdateConnectionProfileConfigmap d n i
        \<lparr>op_Endpoints = node_GetEndpoints i, op_TLSSignCerts = tlscert, op_TLSCACerts = tlscacerts,
         op_SignCerts = ecert, op_CACerts = cacert, op_AdminCerts = admincerts\<rparr> w)))))))"

text \<open>\<open>Delete\<close>; the deployment goes last.\<close>

definition node_Delete :: "'w node_deps \<Rightarrow> orderer_cr \<Rightarrow> 'w \<Rightarrow> unit go_result \<times> 'w" where
  "node_Delete n i w =
     bind_r (wrap_err (''failed to delete service '' @ quoted (nd_GetName n NodeService i))
               (nd_Delete n NodeService i w)) (\<lambda>_ w.
     bind_r (wrap_err (''failed to delete pvc '' @ quoted (nd_GetName n NodeService i))
               (nd_Delete n NodePVC i w)) (\<lambda>_ w.
     bind_r (wrap_err (''failed to delete config map '' @ quoted (nd_GetName n NodeService i))
               (nd_Delete n NodeEnvConfigMap i w)) (\<lambda>_ w.
     bind_r (wrap_err ''failed to delete secrets'' (nd_Delete n NodeSecrets i w)) (\<lambda>_ w.
     wrap_err (''failed to delete deployment '' @ quoted (nd_GetName n NodeDeployment i))
       (nd_Delete n NodeDeployment i w)))))"

subsection \<open>The status of the parent\<close>

text \<open>
  What the states of the nodes of a cluster make of the parent: its type and the reason, or nothing.
  A node in any other state, also one without a state, is left out.
\<close>

definition nodes_in :: "string \<Rightarrow> orderer_cr list \<Rightarrow> string list" where
  "nodes_in t nodes = map Name (filter (\<lambda>node. Type (CRStatus node) = t) nodes)"

definition parent_status :: "orderer_cr list \<Rightarrow> (string \<times> string) option" where
  "parent_status nodes =
     (if length (nodes_in Deploying nodes) \<noteq> 0 then None
      else if length (nodes_in ErrorType nodes) \<noteq> 0 then
        Some (ErrorType, ''The orderer nodes '' @ join_with '','' (nodes_in ErrorType nodes) @ '' are in Error state'')
      else if length (nodes_in Precreated nodes) \<noteq> 0 then
        Some (Precreated, ''The orderer nodes '' @ join_with '','' (nodes_in Precreated nodes) @ '' are in Precreated state'')
      else if length (nodes_in Warning nodes) \<noteq> 0 then
        Some (Warning, ''The orderer nodes '' @ join_with '','' (nodes_in Warning nodes) @ '' are in Warning state'')
      else if length (nodes_in Deployed nodes) \<noteq> 0 then Some (Deployed, ''All nodes are deployed'')
      else None)"

text \<open>The parent a node's label names, the empty string without the label.\<close>

definition parent_name :: "orderer_cr \<Rightarrow> string" where
  "parent_name i = (case map_of (Labels i) ''parent'' of Some p \<Rightarrow> p | None \<Rightarrow> '''')"

definition UpdateParentStatus :: "'w odeps \<Rightarrow> 'w node_deps \<Rightarrow> orderer_cr \<Rightarrow> 'w \<Rightarrow> unit go_result \<times> 'w" where
  "UpdateParentStatus d n i w =
     (case kc_get (d_client d) (parent_name i) (Namespace i) w of
        (Fail e, w) \<Rightarrow> if IsNotFound e then (Ok (), w) else (Fail e, w)
      | (Panic p, w) \<Rightarrow> (Panic p, w)
      | (Ok parent, w) \<Rightarrow>
          if Type (CRStatus parent) = Deployed \<and> Type (CRStatus i) \<noteq> Warning then (Ok (), w)
          else
            bind_r (wrap_err ''failed to parse selector for parent name''
                      (nd_selector n (''parent='' @ parent_name i), w)) (\<lambda>_ w.
            bind_r (nd_list n (parent_name i) (Namespace i) w) (\<lambda>nodes w.
            (case parent_status nodes of
               None \<Rightarrow> (Ok (), w)
             | Some (t, reason) \<Rightarrow>
                 (case nd_Time n w of
                    (now, w) \<Rightarrow>
                      (case kc_update_status (d_client d) (parent\<lparr>CRStatus := (CRStatus parent)\<lparr>Type := t,
                              SStatus := ''True'', SReason := reason, LastHeartbeatTime := now\<rparr>\<rparr>) w of
                         (r, parent, w) \<Rightarrow> (r, w)))))))"

subsection \<open>Migrations\<close>

definition node_V1_4_6 :: string where [go_defs]: "node_V1_4_6 = ''1.4.6''"

text \<open>
  The configuration without the key store, when the node needs it and has one.  The version is compared
  with \<open>2\<close> as it stands.
\<close>

definition FabricOrdererMigration ::
  "'w node_deps \<Rightarrow> orderer_cr \<Rightarrow> 'w \<Rightarrow> orderer_config option go_result \<times> 'w" where
  "FabricOrdererMigration n i w =
     (if \<not> node_IsHSMEnabled n i then (Ok None, w)
      else (case of_Images (Spec i) of
          None \<Rightarrow> (Panic ''nil pointer dereference'', w)
        | Some images \<Rightarrow>
            let ordererTag = t_tag (OrdererMain images);
                tag = hd (split_on CHR ''-'' ordererTag)
            in if \<not> str_contains ordererTag ''sha'' \<and> \<not> String_GreaterThan tag node_V1_4_6 then (Ok None, w)
               else if str_contains ordererTag ''sha'' \<and> of_FabricVersion (Spec i) = V2 then (Ok None, w)
               else
                 bind_r (wrap_err (''failed to get '' @ quoted (Name i) @ '' orderer's config map'')
                           (nd_ConfigFromMap n i w)) (\<lambda>bytes w.
                 bind_r (wrap_err ''invalid orderer config'' (nd_yaml n bytes, w)) (\<lambda>config w.
                 (case oc_BCCSP config of
                    None \<Rightarrow> (Panic ''nil pointer dereference'', w)
                  | Some b \<Rightarrow>
                      (case bc_PKCS11 b of
                         None \<Rightarrow> (Panic ''nil pointer dereference'', w)
                       | Some p \<Rightarrow>
                           if pk_FileKeyStore p = None then (Ok None, w)
                           else (Ok (Some (config\<lparr>oc_BCCSP :=
                             Some (b\<lparr>bc_PKCS11 := Some (p\<lparr>pk_FileKeyStore := None\<rparr>)\<rparr>)\<rparr>)), w)))))))"

definition ReconcileFabricOrdererMigration :: "'w node_deps \<Rightarrow> orderer_cr \<Rightarrow> 'w \<Rightarrow> unit go_result \<times> 'w" where
  "ReconcileFabricOrdererMigration n i w =
     bind_r (wrap_err ''failed to migrate orderer between fabric versions''
               (FabricOrdererMigration n i w)) (\<lambda>ordererConfig w.
       (case ordererConfig of
          None \<Rightarrow> (Ok (), w)
        | Some config \<Rightarrow>
            wrap_err (''failed to create/update '' @ quoted (Name i) @ '' orderer's config map'')
              (nd_CreateOrUpdateConfigMap n i (Some config) w)))"

text \<open>
  The end the three migrations share: the override is merged into the new configuration, the library of a
  HSM without proxy is set, and the result is written to the config map.
\<close>

definition OverrideConfig :: "'w node_deps \<Rightarrow> init_orderer \<Rightarrow> orderer_config \<Rightarrow> init_orderer go_result" where
  "OverrideConfig n io newConfig =
     (case MergeWith (nd_merge n) newConfig (io_UsingHSMProxy io) (io_Config io) of
        Ok c \<Rightarrow> Ok (io\<lparr>io_Config := c\<rparr>)
      | Fail e \<Rightarrow> Fail (Wrapped ''failed to merge override configuration'' e)
      | Panic p \<Rightarrow> Panic p)"

definition write_migrated ::
  "'w odeps \<Rightarrow> 'w node_deps \<Rightarrow> orderer_cr \<Rightarrow> init_orderer \<Rightarrow> 'w \<Rightarrow> unit go_result \<times> 'w" where
  "write_migrated d n i initOrderer w =
     bind_r (node_GetConfigOverride n i, w) (\<lambda>configOverride w.
     bind_r (OverrideConfig n initOrderer configOverride, w) (\<lambda>initOrderer w.
     bind_r (set_hsm_library d n i (io_Config initOrderer) w) (\<lambda>config w.
     nd_CreateOrUpdateConfigMap n i (Some config) w)))"

definition read_default :: "'w node_deps \<Rightarrow> core_version \<Rightarrow> 'w \<Rightarrow> orderer_config go_result \<times> 'w" where
  "read_default n v w =
     wrap_err (''failed to read v'' @ (case v of CoreV25 \<Rightarrow> ''2.5.x'' | CoreV24 \<Rightarrow> ''2.4.x'' | CoreV2 \<Rightarrow> ''2.2.x''
         | CoreV1 \<Rightarrow> ''1.4'') @ '' default config file'') (nd_ReadOrdererFile n v w)"

text \<open>The default configuration of the version; a version the comparisons do not place keeps the old one.\<close>

definition migration_config ::
  "'w node_deps \<Rightarrow> string \<Rightarrow> orderer_config \<Rightarrow> 'w \<Rightarrow> orderer_config go_result \<times> 'w" where
  "migration_config n v old w =
     (if GetMajorReleaseVersion v = V2 then
        if String_EqualWithoutTag v V2_5_1 \<or> String_GreaterThan v V2_5_1 then read_default n CoreV25 w
        else if String_EqualWithoutTag v V2_4_1 \<or> String_GreaterThan v V2_4_1 then read_default n CoreV24 w
        else if String_LessThan v V2_4_1 then read_default n CoreV2 w
        else (Ok old, w)
      else read_default n CoreV1 w)"

definition FabricOrdererMigrationV2_0 ::
  "'w odeps \<Rightarrow> 'w node_deps \<Rightarrow> orderer_cr \<Rightarrow> 'w \<Rightarrow> unit go_result \<times> 'w" where
  "FabricOrdererMigrationV2_0 d n i w =
     bind_r (nd_GetInitOrderer n i (node_GetInitStoragePath n i) w) (\<lambda>initOrderer w.
     let initOrderer = initOrderer\<lparr>io_UsingHSMProxy := node_UsingHSMProxy i\<rparr> in
     bind_r (migration_config n (of_FabricVersion (Spec i)) (io_Config initOrderer) w) (\<lambda>config w.
     write_migrated d n i (initOrderer\<lparr>io_Config := config\<rparr>) w))"

text \<open>The entries of the config map \<open>-env\<close> for the admin server of 2.4 and 2.5.\<close>

definition admin_env :: "bool \<Rightarrow> bool \<Rightarrow> (string \<times> string) list" where
  "admin_env v25 intermediateExists =
     (let ca = (if intermediateExists then ''/certs/msp/tlsintermediatecerts/intercert-0.pem''
                else ''/certs/msp/tlscacerts/cacert-0.pem'')
      in [(''ORDERER_CHANNELPARTICIPATION_ENABLED'', ''true'')] @
         (if v25 then [(''ORDERER_GENERAL_CLUSTER_SENDBUFFERSIZE'', ''100'')] else []) @
         [(''ORDERER_ADMIN_TLS_ENABLED'', ''true''),
          (''ORDERER_ADMIN_TLS_CERTIFICATE'', ''/certs/tls/signcerts/cert.pem''),
          (''ORDERER_ADMIN_TLS_PRIVATEKEY'', ''/certs/tls/keystore/key.pem''),
          (''ORDERER_ADMIN_TLS_CLIENTAUTHREQUIRED'', ''true''),
          (''ORDERER_ADMIN_LISTENADDRESS'', ''0.0.0.0:9443''),
          (''ORDERER_ADMIN_TLS_ROOTCAS'', ca), (''ORDERER_ADMIN_TLS_CLIENTROOTCAS'', ca)])"

definition set_env :: "(string \<times> string) list \<Rightarrow> config_map \<Rightarrow> config_map go_result" where
  "set_env entries cm =
     (case cm_Data cm of
        None \<Rightarrow> if entries = [] then Ok cm else Panic ''assignment to entry in nil map''
      | Some m \<Rightarrow> Ok (cm\<lparr>cm_Data := Some (fold (\<lambda>(k, v). AList.update k v) entries m)\<rparr>))"

definition IntermediateSecretExists :: "'w node_deps \<Rightarrow> string \<Rightarrow> string \<Rightarrow> 'w \<Rightarrow> bool go_result \<times> 'w" where
  "IntermediateSecretExists n namespace secretName w =
     (case sa_get (nd_secrets n) secretName namespace w of
        (Ok _, w) \<Rightarrow> (Ok True, w)
      | (Fail e, w) \<Rightarrow> (Ok False, w)
      | (Panic p, w) \<Rightarrow> (Panic p, w))"

definition intermediates_exist :: "'w node_deps \<Rightarrow> orderer_cr \<Rightarrow> 'w \<Rightarrow> bool go_result \<times> 'w" where
  "intermediates_exist n i w =
     bind_r (IntermediateSecretExists n (Namespace i) (''ecert-'' @ Name i @ ''-intercerts'') w) (\<lambda>found w.
       if found then IntermediateSecretExists n (Namespace i) (''tls-'' @ Name i @ ''-intercerts'') w
       else (Ok False, w))"

text \<open>The migrations to 2.4 and 2.5 from the initial orderer on, with the version they require of the node.\<close>

definition migrate_env ::
  "'w odeps \<Rightarrow> 'w node_deps \<Rightarrow> core_version \<Rightarrow> string \<Rightarrow> orderer_cr \<Rightarrow> init_orderer \<Rightarrow> 'w \<Rightarrow> unit go_result \<times> 'w" where
  "migrate_env d n v least i initOrderer w =
     bind_r (read_default n v w) (\<lambda>ordererConfig w.
     bind_r (wrap_err ''failed to get env configmap'' (nd_get_cm n (Name i @ ''-env'') (Namespace i) w)) (\<lambda>cm w.
     let ordererConfig = ordererConfig\<lparr>oc_AdminTLS_Enabled := Some True, oc_AdminTLS_ClientAuthRequired := Some True\<rparr> in
     bind_r (intermediates_exist n i w) (\<lambda>intermediateExists w.
     let currentVer = of_FabricVersion (Spec i) in
     bind_r (if String_EqualWithoutTag currentVer least \<or> String_GreaterThan currentVer least
             then set_env (admin_env (v = CoreV25) intermediateExists) cm else Ok cm, w) (\<lambda>cm w.
     bind_r (wrap_err ''failed to update env configmap'' (nd_update_cm n i cm w)) (\<lambda>_ w.
     write_migrated d n i (initOrderer\<lparr>io_Config := ordererConfig\<rparr>) w)))))"

definition FabricOrdererMigrationV2_4 ::
  "'w odeps \<Rightarrow> 'w node_deps \<Rightarrow> orderer_cr \<Rightarrow> 'w \<Rightarrow> unit go_result \<times> 'w" where
  "FabricOrdererMigrationV2_4 d n i w =
     bind_r (nd_GetInitOrderer n i (node_GetInitStoragePath n i) w) (\<lambda>initOrderer w.
     migrate_env d n CoreV24 V2_4_1 i initOrderer w)"

definition FabricOrdererMigrationV2_5 ::
  "'w odeps \<Rightarrow> 'w node_deps \<Rightarrow> orderer_cr \<Rightarrow> 'w \<Rightarrow> unit go_result \<times> 'w" where
  "FabricOrdererMigrationV2_5 d n i w =
     bind_r (nd_GetInitOrderer n i (node_GetInitStoragePath n i) w) (\<lambda>initOrderer w.
     migrate_env d n CoreV25 V2_5_1 i (initOrderer\<lparr>io_UsingHSMProxy := node_UsingHSMProxy i\<rparr>) w)"

definition OrdererInitilizationFailed :: int where "OrdererInitilizationFailed = 21"
definition FabricOrdererMigrationFailed :: int where "FabricOrdererMigrationFailed = 25"

text \<open>The four migrations in the Kubernetes offering's \<open>Reconcile\<close>.\<close>

definition node_migrate ::
  "'w odeps \<Rightarrow> 'w node_deps \<Rightarrow> orderer_cr \<Rightarrow> orderer_update \<Rightarrow> 'w \<Rightarrow> unit go_result \<times> 'w" where
  "node_migrate d n i u w =
     bind_r (when_r (o_ordererTagUpdated u) (\<lambda>w. wrap_op FabricOrdererMigrationFailed
       ''failed to migrate fabric orderer versions'' (ReconcileFabricOrdererMigration n i w)) w) (\<lambda>_ w.
     bind_r (when_r (o_migrateToV2 u) (\<lambda>w. wrap_op FabricOrdererMigrationFailed
       ''failed to migrate fabric orderer to version v2.x'' (FabricOrdererMigrationV2_0 d n i w)) w) (\<lambda>_ w.
     bind_r (when_r (o_migrateToV24 u) (\<lambda>w. wrap_op FabricOrdererMigrationFailed
       ''failed to migrate fabric orderer to version v2.4.x'' (FabricOrdererMigrationV2_4 d n i w)) w) (\<lambda>_ w.
     when_r (o_migrateToV25 u) (\<lambda>w. wrap_op FabricOrdererMigrationFailed
       ''failed to migrate fabric orderer to version v2.5.x'' (FabricOrdererMigrationV2_5 d n i w)) w)))"

end
