(* ===== verification/OrdererNodeRound.thy ===== *)
theory OrdererNodeRound
  imports OrdererNodeReconcile
begin

text \<open>
  The offering of an ordering node, third part: renewal of certificates, actions, and the two
  \<open>Reconcile\<close> of \<open>pkg/offering/base/orderer/node.go\<close> and \<open>pkg/offering/k8s/orderer/node.go\<close>.
\<close>

subsection \<open>Renewal of certificates\<close>

definition node_GetBCCSPSectionForInstance :: "'w node_deps \<Rightarrow> orderer_cr \<Rightarrow> bccsp option go_result" where
  "node_GetBCCSPSectionForInstance n i =
     (if node_IsHSMEnabled n i then
        (case node_GetConfigOverride n i of
           Ok co \<Rightarrow> seq_r (SetPKCS11Defaults (node_UsingHSMProxy i) co) (\<lambda>co. Ok (GetBCCSPSection co))
         | Fail e \<Rightarrow> Fail (Wrapped ''failed to get configoverride'' e)
         | Panic p \<Rightarrow> Panic p)
      else Ok None)"

definition node_RenewCert ::
  "'w node_deps \<Rightarrow> SecretType \<Rightarrow> orderer_cr \<Rightarrow> bool \<Rightarrow> 'w \<Rightarrow> unit go_result \<times> 'w" where
  "node_RenewCert n certType i newKey w =
     (case of_Secret (Spec i) of
        None \<Rightarrow> (Fail (Plain (''missing secret spec for instance '' @ quoted (Name i))), w)
      | Some sec \<Rightarrow>
          (case sr_Enrollment sec of
             None \<Rightarrow> (Fail (Plain ''cannot auto-renew certificate created by MSP, force renewal required''), w)
           | Some spec \<Rightarrow>
               bind_r (node_GetBCCSPSectionForInstance n i, w) (\<lambda>bccsp w.
                 nd_RenewCert n certType i spec bccsp (node_GetInitStoragePath n i) (node_IsHSMEnabled n i) newKey w)))"

definition node_CheckCertificates :: "'w node_deps \<Rightarrow> orderer_cr \<Rightarrow> 'w \<Rightarrow> cr_status go_result \<times> 'w" where
  "node_CheckCertificates n i w =
     bind_r (nd_CheckForExpire n i (node_GetNumSecondsWarningPeriod (Spec i)) w) (\<lambda>(statusType, message) w.
       (Ok (no_status\<lparr>Type := statusType,
          Message := (if statusType = Deployed \<and> message = '''' then ''allPodsRunning'' else message),
          SReason := (if statusType = Deployed then ''allPodsRunning'' else ''certRenewalRequired'')\<rparr>), w))"

definition node_UpdateCRStatus :: "'w odeps \<Rightarrow> 'w node_deps \<Rightarrow> orderer_cr \<Rightarrow> 'w \<Rightarrow> unit go_result \<times> 'w" where
  "node_UpdateCRStatus d n i w =
     bind_r (wrap_err ''failed to check certificates'' (node_CheckCertificates n i w)) (\<lambda>status w.
     bind_r (wrap_err ''failed to get new instance''
               (kc_get (d_client d) (Name i) (Namespace i) w)) (\<lambda>latest w.
       if Type (CRStatus latest) = Type status \<and> SReason (CRStatus latest) = SReason status \<and>
          Message (CRStatus latest) = Message status then (Ok (), w)
       else
         (case nd_Time n w of
            (now, w) \<Rightarrow>
              (case kc_update_status (d_client d) (latest\<lparr>CRStatus := (CRStatus latest)\<lparr>Type := Type status,
                      SReason := SReason status, Message := Message status, SStatus := ''True'',
                      LastHeartbeatTime := now\<rparr>\<rparr>) w of
                 (r, latest, w) \<Rightarrow>
                   wrap_err (''failed to update status to '' @ Type status @ '' phase'') (r, w)))))"

definition node_SetCertificateTimer ::
  "'w node_deps \<Rightarrow> SecretType \<Rightarrow> 'w node_state \<Rightarrow> unit go_result \<times> 'w node_state" where
  "node_SetCertificateTimer n certType s =
     (let i = the_instance s;
          certName = SecretType_text certType @ ''-'' @ Name i @ ''-signcert'' in
      bind_r (on_world (nd_DurationToNextRenewal n certType i (node_GetNumSecondsWarningPeriod (Spec i))) s)
        (\<lambda>duration s. (Ok (), start_renewal certName certType duration s)))"

text \<open>
  Whether the callback goes on to renew: a TLS certificate only when its renewal is not disabled and the
  orderer is at least 1.4.9 or 2.2.1.
\<close>

definition tls_renewable :: "'w node_deps \<Rightarrow> string \<Rightarrow> bool" where
  "tls_renewable n fabricVersion =
     (if nd_DisableTLScert n then False
      else if GetMajorReleaseVersion fabricVersion = V2 then
        if String_LessThan fabricVersion ''2.2.1'' then False else True
      else if GetMajorReleaseVersion fabricVersion = V1 then
        if String_LessThan fabricVersion ''1.4.9'' then False else True
      else False)"

definition node_renewal_fires ::
  "'w odeps \<Rightarrow> 'w node_deps \<Rightarrow> node_renewal \<Rightarrow> 'w node_state \<Rightarrow> 'w node_state" where
  "node_renewal_fires d n t s =
     (let s = s\<lparr>running := filter (\<lambda>r. rn_id r \<noteq> rn_id t) (running s)\<rparr>;
          i = rn_instance t;
          (_, w) = node_UpdateCRStatus d n i (world s)
      in (case kc_get (d_client d) (Name i) (Namespace i) w of
            (Ok latest, w) \<Rightarrow>
              if rn_type t = TLS \<and> \<not> tls_renewable n (of_FabricVersion (Spec latest)) then s\<lparr>world := w\<rparr>
              else
                (case nd_BackupCrypto n i (node_GetLabels d i) w of
                   (Ok _, w) \<Rightarrow> s\<lparr>world := snd (node_RenewCert n (rn_type t) latest False w)\<rparr>
                 | (_, w) \<Rightarrow> s\<lparr>world := w\<rparr>)
          | (_, w) \<Rightarrow> s\<lparr>world := w\<rparr>))"

text \<open>A timer is set only when the parent, or a node without parent itself, is deployed.\<close>

definition node_CanSetCertificateTimer ::
  "'w odeps \<Rightarrow> orderer_cr \<Rightarrow> orderer_update \<Rightarrow> 'w \<Rightarrow> bool go_result \<times> 'w" where
  "node_CanSetCertificateTimer d i u w =
     (if orderer_CertificateCreated u \<or> orderer_CertificateUpdated u then
        if parent_name i = '''' then
          (Ok (Type (CRStatus i) = Deployed \<or> Type (CRStatus i) = Warning), w)
        else
          (case kc_get (d_client d) (parent_name i) (Namespace i) w of
             (Fail e, w) \<Rightarrow> (Ok False, w)
           | (Panic p, w) \<Rightarrow> (Panic p, w)
           | (Ok parent, w) \<Rightarrow>
               (Ok (Type (CRStatus parent) = Deployed \<or> Type (CRStatus parent) = Warning), w))
      else (Ok True, w))"

definition node_CustomLogic ::
  "'w odeps \<Rightarrow> 'w node_deps \<Rightarrow> orderer_update \<Rightarrow> 'w node_state \<Rightarrow>
     (cr_status option \<times> result option) go_result \<times> 'w node_state" where
  "node_CustomLogic d n u s =
     bind_r (on_world (node_CanSetCertificateTimer d (the_instance s) u) s) (\<lambda>can s.
     if \<not> can then (Ok (None, Some requeue), s)
     else
        bind_r (when_r (orderer_CryptoBackupNeeded u) (\<lambda>s. wrap_err ''failed to backup TLS and ecert crypto''
          (on_world (nd_BackupCrypto n (the_instance s) (node_GetLabels d (the_instance s))) s)) s) (\<lambda>_ s.
        bind_r (wrap_err ''failed to check for expiring certificates''
          (on_world (node_CheckCertificates n (the_instance s)) s)) (\<lambda>status s.
        bind_r (when_r (orderer_CertificateCreated u) (\<lambda>s. wrap_err ''failed to set timer for certificate renewal''
          (node_SetCertificateTimer n (orderer_GetCreatedCertType u) s)) s) (\<lambda>_ s.
        bind_r (when_r (o_ecertUpdated u) (\<lambda>s. wrap_err ''failed to set timer for certificate renewal''
          (node_SetCertificateTimer n ECERT s)) s) (\<lambda>_ s.
        bind_r (when_r (o_tlsCertUpdated u) (\<lambda>s. wrap_err ''failed to set timer for certificate renewal''
          (node_SetCertificateTimer n TLS s)) s) (\<lambda>_ s.
        (Ok (Some status, None), s)))))))"

subsection \<open>Actions\<close>

definition node_EnrollForEcert :: "'w node_deps \<Rightarrow> orderer_cr \<Rightarrow> 'w \<Rightarrow> unit go_result \<times> 'w" where
  "node_EnrollForEcert n i w =
     (case Option.bind (Option.bind (of_Secret (Spec i)) sr_Enrollment) es_Component of
        None \<Rightarrow> (Fail (Plain ''unable to enroll, no ecert enrollment information provided''), w)
      | Some ecertSpec \<Rightarrow>
          bind_r (wrap_err ''failed to enroll for ecert''
                    (nd_Enroll n i ecertSpec (node_GetInitStoragePath n i @ ''/ecert'') True w)) (\<lambda>crypto w.
          wrap_err ''failed to generate ecert secrets'' (nd_GenerateSecrets n ''ecert'' i crypto w)))"

definition node_EnrollForTLSCert :: "'w node_deps \<Rightarrow> orderer_cr \<Rightarrow> 'w \<Rightarrow> unit go_result \<times> 'w" where
  "node_EnrollForTLSCert n i w =
     (case Option.bind (Option.bind (of_Secret (Spec i)) sr_Enrollment) es_TLS of
        None \<Rightarrow> (Fail (Plain ''unable to enroll, no TLS enrollment information provided''), w)
      | Some tlscertSpec \<Rightarrow>
          bind_r (wrap_err ''failed to enroll for TLS cert''
                    (nd_Enroll n i tlscertSpec (node_GetInitStoragePath n i @ ''/tls'') False w)) (\<lambda>crypto w.
          wrap_err ''failed to generate ecert secrets'' (nd_GenerateSecrets n ''tls'' i crypto w)))"

definition node_reenrollCert ::
  "'w node_deps \<Rightarrow> SecretType \<Rightarrow> bool \<Rightarrow> string \<Rightarrow> orderer_cr \<Rightarrow> 'w \<Rightarrow> unit go_result \<times> 'w" where
  "node_reenrollCert n certType newKey msg i w = wrap_err msg (node_RenewCert n certType i newKey w)"

definition node_RestartAction :: "'w odeps \<Rightarrow> orderer_cr \<Rightarrow> 'w \<Rightarrow> unit go_result \<times> 'w" where
  "node_RestartAction d i w =
     wrap_err ''failed to restart orderer node pods'' (ForRestartAction (d_env d) (node_inst_of i) w)"

definition node_run_actions ::
  "'w odeps \<Rightarrow> 'w node_deps \<Rightarrow> orderer_update \<Rightarrow> 'w node_state \<Rightarrow> unit go_result \<times> 'w node_state" where
  "node_run_actions d n u s =
     bind_r (do_action (o_ecertReenrollNeeded u)
       (node_reenrollCert n ECERT False ''ecert reenroll reusing existing private key action failed'')
       node_ResetEcertReenroll s) (\<lambda>_ s.
     bind_r (do_action (o_tlscertReenrollNeeded u)
       (node_reenrollCert n TLS False ''tls reenroll reusing existing private key action failed'')
       node_ResetTLSReenroll s) (\<lambda>_ s.
     bind_r (do_action (o_ecertNewKeyReenroll u)
       (node_reenrollCert n ECERT True ''ecert reenroll with new key action failed'')
       node_ResetEcertReenroll s) (\<lambda>_ s.
     bind_r (do_action (o_tlscertNewKeyReenroll u)
       (node_reenrollCert n TLS True ''tls reenroll with new key action failed'')
       node_ResetTLSReenroll s) (\<lambda>_ s.
     bind_r (do_action (o_ecertEnroll u) (node_EnrollForEcert n) node_ResetEcertEnroll s) (\<lambda>_ s.
     bind_r (do_action (o_tlscertEnroll u) (node_EnrollForTLSCert n) node_ResetTLSEnroll s) (\<lambda>_ s.
     do_action (o_restartNeeded u) (node_RestartAction d) node_ResetRestart s))))))"

definition node_HandleActions ::
  "'w odeps \<Rightarrow> 'w node_deps \<Rightarrow> orderer_update \<Rightarrow> 'w node_state \<Rightarrow> unit go_result \<times> 'w node_state" where
  "node_HandleActions d n u s =
     (let orig = the_instance s in
      bind_r (node_run_actions d n u s) (\<lambda>_ s.
      wrap_err ''failed to reset action flags''
        (on_object (\<lambda>i. client_Patch (d_client d) i (MergeFrom orig)) s)))"

definition node_HandleRestart :: "'w odeps \<Rightarrow> 'w node_deps \<Rightarrow> 'w node_state \<Rightarrow> unit go_result \<times> 'w node_state" where
  "node_HandleRestart d n s = trigger_restart d (nd_RestartDisabled n) (node_inst_of (the_instance s)) s"

definition node_UpdateMSPCertificates :: "'w node_deps \<Rightarrow> orderer_cr \<Rightarrow> 'w \<Rightarrow> unit go_result \<times> 'w" where
  "node_UpdateMSPCertificates n i w =
     bind_r (nd_GetUpdatedOrderer n i w) (\<lambda>updatedOrderer w.
     bind_r (nd_GenerateCrypto n updatedOrderer w) (\<lambda>crypto w.
     (case crypto of
        None \<Rightarrow> (Ok (), w)
      | Some c \<Rightarrow>
          bind_r (wrap_err ''failed to update ecert secrets''
                    (nd_UpdateSecrets n ''ecert'' i (nc_Enrollment c) w)) (\<lambda>_ w.
          bind_r (wrap_err ''failed to update tls secrets'' (nd_UpdateSecrets n ''tls'' i (nc_TLS c) w)) (\<lambda>_ w.
          wrap_err ''failed to update client auth secrets''
            (nd_UpdateSecrets n ''clientauth'' i (nc_ClientAuth c) w))))))"

subsection \<open>Reconcile\<close>

text \<open>
  The first part of both \<open>Reconcile\<close>: \<open>Some r\<close> is the result with which the round ends.  The Kubernetes
  offering overrides the status of the update with it.
\<close>

definition node_defaults_status :: cr_status where
  "node_defaults_status = no_status\<lparr>Type := ''Initializing'',
     SReason := ''Setting default values for either zone, region, and/or external endpoint'',
     Message := ''Operator has updated spec with defaults as part of initialization''\<rparr>"

definition node_checks ::
  "'w odeps \<Rightarrow> bool \<Rightarrow> orderer_update \<Rightarrow> 'w node_state \<Rightarrow> result option go_result \<times> 'w node_state" where
  "node_checks d override u s =
     bind_r (wrap_err (''failed updating CR '' @ quoted (Name (the_instance s)) @ '' to version '' @
               quoted Operator_version) (node_SetVersion d s)) (\<lambda>versionSet s.
     if versionSet then (Ok (Some (requeue\<lparr>OverrideUpdateStatus := override\<rparr>)), s)
     else
       bind_r (wrap_err ''failed pre reconcile checks'' (node_PreReconcileChecks d u s)) (\<lambda>instanceUpdated s.
       let (externalEndpointUpdated, s) = node_UpdateExternalEndpoint s
       in if instanceUpdated \<or> externalEndpointUpdated then
            bind_r (wrap_err ''failed to update instance''
                      (on_object (\<lambda>i. client_Patch (d_client d) i (Resilient 3)) s)) (\<lambda>_ s.
              (Ok (Some (requeue\<lparr>RStatus := Some node_defaults_status, OverrideUpdateStatus := override\<rparr>)), s))
          else (Ok None, s)))"

definition node_cert_restarts ::
  "'w odeps \<Rightarrow> orderer_update \<Rightarrow> 'w node_state \<Rightarrow> unit go_result \<times> 'w node_state" where
  "node_cert_restarts d u s =
     bind_r (when_r (o_ecertUpdated u) (\<lambda>s. wrap_err ''failed to update restart config''
       (on_world (ForCertUpdate (d_env d) ECERT (node_inst_of (the_instance s))) s)) s) (\<lambda>_ s.
     when_r (o_tlsCertUpdated u) (\<lambda>s. wrap_err ''failed to update restart config''
       (on_world (ForCertUpdate (d_env d) TLS (node_inst_of (the_instance s))) s)) s)"

definition node_update_msp ::
  "'w node_deps \<Rightarrow> orderer_update \<Rightarrow> 'w node_state \<Rightarrow> unit go_result \<times> 'w node_state" where
  "node_update_msp n u s = when_r (o_mspUpdated u) (\<lambda>s. wrap_err ''failed to update certificates passed in MSP spec''
     (on_world (node_UpdateMSPCertificates n (the_instance s)) s)) s"

definition node_resources ::
  "'w odeps \<Rightarrow> 'w node_deps \<Rightarrow> (orderer_cr \<Rightarrow> orderer_update \<Rightarrow> 'w \<Rightarrow> unit go_result \<times> 'w) \<Rightarrow> orderer_update \<Rightarrow>
     'w node_state \<Rightarrow> unit go_result \<times> 'w node_state" where
  "node_resources d n managers u s =
     bind_r (wrap_err ''failed to reconcile managers'' (on_world (managers (the_instance s) u) s)) (\<lambda>_ s.
     bind_r (wrap_err ''failed to create connection profile''
       (on_world (node_UpdateConnectionProfile d n (the_instance s)) s)) (\<lambda>_ s.
     wrap_err ''failed to check and restore state'' (on_world (CheckStates d (the_instance s)) s)))"

definition initialize_node ::
  "'w odeps \<Rightarrow> 'w node_deps \<Rightarrow> orderer_update \<Rightarrow> 'w node_state \<Rightarrow> unit go_result \<times> 'w node_state" where
  "initialize_node d n u s = wrap_op OrdererInitilizationFailed ''failed to initialize orderer node''
     (on_world (node_Initialize d n (the_instance s) u) s)"

definition base_node_Reconcile ::
  "'w odeps \<Rightarrow> 'w node_deps \<Rightarrow> orderer_update \<Rightarrow> 'w node_state \<Rightarrow> result go_result \<times> 'w node_state" where
  "base_node_Reconcile d n u s =
     bind_r (node_checks d False u s) (\<lambda>early s.
     (case early of
        Some r \<Rightarrow> (Ok r, s)
      | None \<Rightarrow>
          bind_r (initialize_node d n u s) (\<lambda>_ s.
          bind_r (node_resources d n (node_ReconcileManagers d n) u s) (\<lambda>_ s.
          bind_r (wrap_err ''failed to run custom offering logic'' (node_CustomLogic d n u s)) (\<lambda>(status, res) s.
          (case res of
             Some r \<Rightarrow> (Ok r, s)
           | None \<Rightarrow>
               bind_r (node_update_msp n u s) (\<lambda>_ s.
               bind_r (node_cert_restarts d u s) (\<lambda>_ s.
               bind_r (wrap_err ''failed to handle actions'' (node_HandleActions d n u s)) (\<lambda>_ s.
               bind_r (node_HandleRestart d n s) (\<lambda>_ s.
               (Ok (requeue\<lparr>Requeue := False, RStatus := status\<rparr>), s)))))))))))"

definition k8s_node_Reconcile ::
  "'w odeps \<Rightarrow> 'w node_deps \<Rightarrow> orderer_update \<Rightarrow> 'w node_state \<Rightarrow> result go_result \<times> 'w node_state" where
  "k8s_node_Reconcile d n u s =
     bind_r (node_checks d True u s) (\<lambda>early s.
     (case early of
        Some r \<Rightarrow> (Ok r, s)
      | None \<Rightarrow>
          bind_r (initialize_node d n u s) (\<lambda>_ s.
          bind_r (on_world (node_migrate d n (the_instance s) u) s) (\<lambda>_ s.
          bind_r (node_resources d n (k8s_node_ReconcileManagers d n) u s) (\<lambda>_ s.
          bind_r (wrap_err ''failed to update parent's status''
            (on_world (UpdateParentStatus d n (the_instance s)) s)) (\<lambda>_ s.
          bind_r (wrap_err (''failed to run custom offering logic'' @ [CHR 0x09, CHR 0x09])
            (node_CustomLogic d n u s)) (\<lambda>(status, res) s.
          (case res of
             Some r \<Rightarrow> (Ok r, s)
           | None \<Rightarrow>
               bind_r (node_cert_restarts d u s) (\<lambda>_ s.
               bind_r (node_update_msp n u s) (\<lambda>_ s.
               bind_r (node_HandleActions d n u s) (\<lambda>_ s.
               bind_r (node_HandleRestart d n s) (\<lambda>_ s.
               (Ok (requeue\<lparr>Requeue := False, RStatus := status\<rparr>), s)))))))))))))"

end
