(* ===== verification/OrdererNodeTimers.thy ===== *)
theory OrdererNodeTimers
  imports OrdererNodeRound
begin

text \<open>
  The renewal timers of ordering nodes, which share the map of the cluster's offering: every step of a
  round keeps the invariant of \<open>Offering\<close>.
\<close>

lemma node_renewal_fires_timers:
  "RenewCertTimers (node_renewal_fires d n t s) = RenewCertTimers s"
  "running (node_renewal_fires d n t s) = filter (\<lambda>r. rn_id r \<noteq> rn_id t) (running s)"
  "next_timer (node_renewal_fires d n t s) = next_timer s"
  by (simp_all add: node_renewal_fires_def Let_def split: prod.splits go_result.splits)

lemma keeps_node_SetVersion: "timers_ok s \<Longrightarrow> timers_ok (snd (node_SetVersion d s))"
  by (auto simp: node_SetVersion_def Let_def intro!: keeps)

lemma keeps_node_PreReconcileChecks: "timers_ok s \<Longrightarrow> timers_ok (snd (node_PreReconcileChecks d u s))"
  unfolding node_PreReconcileChecks_def
  by (auto simp: node_check_images_def node_SelectZone_def node_SelectRegion_def node_ReconcileHSMImages_def Let_def
      split: prod.splits intro!: keeps keeps_select_place keeps_refresh_hsm_image)

lemma keeps_node_endpoint: "node_UpdateExternalEndpoint s = (b, s') \<Longrightarrow> timers_ok s' = timers_ok s"
  by (auto simp: node_UpdateExternalEndpoint_def Let_def split: if_splits)

lemma keeps_node_checks: "timers_ok s \<Longrightarrow> timers_ok (snd (node_checks d b u s))"
  unfolding node_checks_def
  by (auto simp: Let_def dest: keeps_node_endpoint split: prod.splits
      intro!: keeps keeps_node_SetVersion keeps_node_PreReconcileChecks)

lemma keeps_node_CustomLogic: "timers_ok s \<Longrightarrow> timers_ok (snd (node_CustomLogic d n u s))"
  unfolding node_CustomLogic_def node_SetCertificateTimer_def Let_def
  by (auto intro!: keeps keeps_start_renewal)

lemma keeps_node_HandleActions: "timers_ok s \<Longrightarrow> timers_ok (snd (node_HandleActions d n u s))"
  unfolding node_HandleActions_def node_run_actions_def Let_def
  by (auto intro!: keeps keeps_do_action)

lemma keeps_node_steps:
  "timers_ok s \<Longrightarrow> timers_ok (snd (node_HandleRestart d n s))"
  "timers_ok s \<Longrightarrow> timers_ok (snd (initialize_node d n u s))"
  "timers_ok s \<Longrightarrow> timers_ok (snd (node_resources d n m u s))"
  "timers_ok s \<Longrightarrow> timers_ok (snd (node_cert_restarts d u s))"
  "timers_ok s \<Longrightarrow> timers_ok (snd (node_update_msp n u s))"
  by (auto simp: node_HandleRestart_def initialize_node_def node_resources_def node_cert_restarts_def node_update_msp_def
      intro!: keeps keeps_trigger_restart)

lemmas keeps_node_round = keeps_node_checks keeps_node_CustomLogic keeps_node_HandleActions keeps_node_steps

lemma keeps_k8s_node_Reconcile: "timers_ok s \<Longrightarrow> timers_ok (snd (k8s_node_Reconcile d n u s))"
  unfolding k8s_node_Reconcile_def
  by (auto intro!: keeps keeps_node_round split: option.splits prod.splits)

lemma keeps_base_node_Reconcile: "timers_ok s \<Longrightarrow> timers_ok (snd (base_node_Reconcile d n u s))"
  unfolding base_node_Reconcile_def
  by (auto intro!: keeps keeps_node_round split: option.splits prod.splits)

definition node_step ::
  "'w odeps \<Rightarrow> 'w node_deps \<Rightarrow> bool \<times> orderer_update \<Rightarrow> 'w node_state \<Rightarrow> 'w node_state" where
  "node_step d n r s =
     snd (if fst r then k8s_node_Reconcile d n (snd r) s else base_node_Reconcile d n (snd r) s)"

interpretation node_renewing: renewing "node_step d n" "node_renewal_fires d n"
  by unfold_locales
    (simp_all add: node_step_def keeps_k8s_node_Reconcile keeps_base_node_Reconcile node_renewal_fires_timers)

end
