(* ===== verification/ConfigTx.thy ===== *)
theory ConfigTx
  imports Kube
begin

text \<open>
  The configuration of a channel and its genesis block: \<open>config.go\<close>, \<open>configtx.go\<close>, \<open>profile.go\<close> and
  \<open>encoder.go\<close> of \<open>pkg/initializer/orderer/configtx\<close>.

  A profile is changed in place by the code; here a change returns the new profile.  A nil map or
  pointer is \<open>None\<close> where the code tells it apart.  The loops over maps visit the entries in the order
  of the association list, which is arbitrary.  What the code takes from Fabric's libraries
  (serialization, parsing of policy rules, keys of configuration values, reading of MSP directories) is
  the record \<open>configtx_lib\<close>.
\<close>

subsection \<open>Types of config.go\<close>

record cx_policy =
  po_Type :: string
  po_Rule :: string

record organization =
  og_Name :: string
  og_ID :: string
  og_MSPDir :: string
  og_MSPType :: string
  og_Policies :: "cx_policy gomap option"
  og_AnchorPeers :: "(string \<times> int) list"
  og_OrdererEndpoints :: "string list"
  og_AdminPrincipal :: string
  og_SkipAsForeign :: bool

record consenter =
  cn_Host :: string
  cn_Port :: int
  cn_ClientTlsCert :: "string option"
  cn_ServerTlsCert :: "string option"

record raft_options =
  ro_TickInterval :: string
  ro_ElectionTick :: int
  ro_HeartbeatTick :: int
  ro_MaxInflightBlocks :: int
  ro_SnapshotIntervalSize :: int

record raft_metadata =
  rm_Consenters :: "consenter list"
  rm_Options :: raft_options

record batch_size =
  bs_MaxMessageCount :: int
  bs_AbsoluteMaxBytes :: int
  bs_PreferredMaxBytes :: int

record cx_orderer =
  xo_OrdererType :: string
  xo_Addresses :: "string list"
  xo_BatchTimeout :: int
  xo_BatchSize :: batch_size
  xo_EtcdRaft :: "raft_metadata option"
  xo_Organizations :: "organization list"
  xo_MaxChannels :: int
  xo_Capabilities :: "bool gomap"
  xo_Policies :: "cx_policy gomap"

record application =
  ap_Organizations :: "organization list"
  ap_Capabilities :: "bool gomap"
  ap_Policies :: "cx_policy gomap option"
  ap_ACLs :: "string gomap"

record profile =
  pr_Consortium :: string
  pr_Application :: "application option"
  pr_Orderer :: "cx_orderer option"
  pr_Consortiums :: "organization list gomap option"
  pr_Capabilities :: "bool gomap"
  pr_Policies :: "cx_policy gomap"

definition ConsensusTypeSolo :: string where "ConsensusTypeSolo = ''solo''"
definition ConsensusTypeKafka :: string where "ConsensusTypeKafka = ''kafka''"
definition ConsensusTypeEtcdRaft :: string where "ConsensusTypeEtcdRaft = ''etcdraft''"
definition OrdererAdminsPolicy :: string where "OrdererAdminsPolicy = ''/Channel/Orderer/Admins''"
definition SignaturePolicyType :: string where "SignaturePolicyType = ''Signature''"
definition ImplicitMetaPolicyType :: string where "ImplicitMetaPolicyType = ''ImplicitMeta''"
definition AdminRoleAdminPrincipal :: string where "AdminRoleAdminPrincipal = ''Role.ADMIN''"

lemmas consensus_defs = ConsensusTypeSolo_def ConsensusTypeKafka_def ConsensusTypeEtcdRaft_def

text \<open>The keys of policies, constants of Fabric's package \<open>channelconfig\<close>, and \<open>BlockValidationPolicyKey\<close>.\<close>

definition AdminsPolicyKey :: string where "AdminsPolicyKey = ''Admins''"
definition ReadersPolicyKey :: string where "ReadersPolicyKey = ''Readers''"
definition WritersPolicyKey :: string where "WritersPolicyKey = ''Writers''"
definition BlockValidationPolicyKey :: string where "BlockValidationPolicyKey = ''BlockValidation''"

text \<open>\<open>errors.Wrap\<close> of a pure step, and a loop over a slice that threads a value and stops at an error.\<close>

definition wrap_r :: "string \<Rightarrow> 'a go_result \<Rightarrow> 'a go_result" where
  "wrap_r msg r = (case r of Fail e \<Rightarrow> Fail (Wrapped msg e) | _ \<Rightarrow> r)"

fun fold_r :: "('x \<Rightarrow> 'a \<Rightarrow> 'a go_result) \<Rightarrow> 'x list \<Rightarrow> 'a \<Rightarrow> 'a go_result" where
  "fold_r f [] a = Ok a"
| "fold_r f (x # xs) a = seq_r (f x a) (fold_r f xs)"

lemma wrap_r_simps [simp]:
  "wrap_r m (Ok x) = Ok x" "wrap_r m (Fail e) = Fail (Wrapped m e)" "wrap_r m (Panic p) = Panic p"
  by (simp_all add: wrap_r_def)

lemma wrap_r_Ok [simp]: "wrap_r m r = Ok x \<longleftrightarrow> r = Ok x"
  by (cases r) simp_all

lemma wrap_r_Panic [simp]: "wrap_r m r = Panic x \<longleftrightarrow> r = Panic x"
  by (cases r) simp_all

subsection \<open>Profiles\<close>

text \<open>The pointer \<open>p.Orderer\<close> is dereferenced without a check.\<close>

definition on_orderer :: "(cx_orderer \<Rightarrow> cx_orderer go_result) \<Rightarrow> profile \<Rightarrow> profile go_result" where
  "on_orderer f p = (case pr_Orderer p of
     None \<Rightarrow> Panic ''nil pointer dereference''
   | Some o' \<Rightarrow> seq_r (f o') (\<lambda>o'. Ok (p\<lparr>pr_Orderer := Some o'\<rparr>)))"

definition AddOrdererAddress :: "string \<Rightarrow> profile \<Rightarrow> profile go_result" where
  "AddOrdererAddress address = on_orderer (\<lambda>o'. Ok (o'\<lparr>xo_Addresses := xo_Addresses o' @ [address]\<rparr>))"

definition SetOrdererType :: "string \<Rightarrow> profile \<Rightarrow> profile go_result" where
  "SetOrdererType ordererType = on_orderer (\<lambda>o'. Ok (o'\<lparr>xo_OrdererType := ordererType\<rparr>))"

definition SetCapabilitiesForOrderer :: "bool gomap \<Rightarrow> profile \<Rightarrow> profile go_result" where
  "SetCapabilitiesForOrderer capabilities = on_orderer (\<lambda>o'. Ok (o'\<lparr>xo_Capabilities := capabilities\<rparr>))"

definition AddRaftConsentingNode :: "consenter \<Rightarrow> profile \<Rightarrow> profile go_result" where
  "AddRaftConsentingNode c = on_orderer (\<lambda>o'.
     if to_lower (xo_OrdererType o') \<noteq> ''etcdraft'' then
       Fail (Plain (''can only add raft consenting node if orderer type is '' @ quoted ''etcdraft''))
     else (case xo_EtcdRaft o' of
             None \<Rightarrow> Panic ''nil pointer dereference''
           | Some m \<Rightarrow> Ok (o'\<lparr>xo_EtcdRaft := Some (m\<lparr>rm_Consenters := rm_Consenters m @ [c]\<rparr>)\<rparr>)))"

definition ValidateOrg :: "organization \<Rightarrow> unit go_result" where
  "ValidateOrg org =
     (if og_MSPType org = '''' then Fail (Plain (''failed to provide msp type for org '' @ quoted (og_Name org)))
      else if og_AdminPrincipal org = '''' then Fail (Plain ''failed to provide admin principal'')
      else Ok ())"

definition AddConsortium :: "string \<Rightarrow> organization list \<Rightarrow> profile \<Rightarrow> profile go_result" where
  "AddConsortium name orgs p =
     seq_r (fold_r (\<lambda>org _. ValidateOrg org) orgs ()) (\<lambda>_.
       (case pr_Consortiums p of
          None \<Rightarrow> Panic ''assignment to entry in nil map''
        | Some m \<Rightarrow> Ok (p\<lparr>pr_Consortiums := Some (AList.update name orgs m)\<rparr>)))"

definition AddOrgToConsortium :: "string \<Rightarrow> organization \<Rightarrow> profile \<Rightarrow> profile go_result" where
  "AddOrgToConsortium name org p =
     seq_r (ValidateOrg org) (\<lambda>_.
       (case Option.bind (pr_Consortiums p) (\<lambda>m. map_of m name) of
          None \<Rightarrow> Panic ''nil pointer dereference''
        | Some orgs \<Rightarrow> Ok (p\<lparr>pr_Consortiums := map_option (AList.update name (orgs @ [org])) (pr_Consortiums p)\<rparr>)))"

definition AddOrgToOrderer :: "organization \<Rightarrow> profile \<Rightarrow> profile go_result" where
  "AddOrgToOrderer org p =
     seq_r (ValidateOrg org) (\<lambda>_.
       on_orderer (\<lambda>o'. Ok (o'\<lparr>xo_Organizations := xo_Organizations o' @ [org]\<rparr>)) p)"

definition SetMaxChannel :: "int \<Rightarrow> profile \<Rightarrow> profile go_result" where
  "SetMaxChannel n = on_orderer (\<lambda>o'. Ok (o'\<lparr>xo_MaxChannels := n\<rparr>))"

definition SetChannelPolicy :: "cx_policy gomap \<Rightarrow> profile \<Rightarrow> profile" where
  "SetChannelPolicy policies p = p\<lparr>pr_Policies := policies\<rparr>"

subsection \<open>Default profiles\<close>

definition meta_policy :: "string \<Rightarrow> cx_policy" where
  "meta_policy rule = \<lparr>po_Type = ''ImplicitMeta'', po_Rule = rule\<rparr>"

definition GetGenesisDefaults :: "profile gomap" where
  "GetGenesisDefaults =
     [(''Initial'', \<lparr>pr_Consortium = '''', pr_Application = None,
        pr_Orderer = Some \<lparr>xo_OrdererType = ''etcdraft'', xo_Addresses = [], xo_BatchTimeout = 2 * second,
          xo_BatchSize = \<lparr>bs_MaxMessageCount = 500, bs_AbsoluteMaxBytes = 10 * 1024 * 1024,
            bs_PreferredMaxBytes = 2 * 1024 * 1024\<rparr>,
          xo_EtcdRaft = Some \<lparr>rm_Consenters = [], rm_Options = \<lparr>ro_TickInterval = ''500ms'',
            ro_ElectionTick = 10, ro_HeartbeatTick = 1, ro_MaxInflightBlocks = 5,
            ro_SnapshotIntervalSize = 20 * 1024 * 1024\<rparr>\<rparr>,
          xo_Organizations = [], xo_MaxChannels = 0, xo_Capabilities = [(''V1_4_2'', True)],
          xo_Policies = [(''Readers'', meta_policy ''ANY Readers''), (''Writers'', meta_policy ''ANY Writers''),
            (''Admins'', meta_policy ''ANY Admins''), (''BlockValidation'', meta_policy ''ANY Writers'')]\<rparr>,
        pr_Consortiums = Some [(''SampleConsortium'', [])],
        pr_Capabilities = [(''V1_4_3'', True)],
        pr_Policies = [(''Readers'', meta_policy ''ANY Readers''), (''Writers'', meta_policy ''ANY Writers''),
          (''Admins'', meta_policy ''MAJORITY Admins'')]\<rparr>)]"

text \<open>\<open>duration\<close> is \<open>time.ParseDuration\<close>.\<close>

definition check_consenter :: "consenter \<Rightarrow> unit go_result" where
  "check_consenter c =
     (let missing = (\<lambda>part. Fail (Plain (''consenter info in etcdraft configuration did not specify '' @ part))) in
      if cn_Host c = '''' then missing ''host''
      else if cn_Port c = 0 then missing ''port''
      else if cn_ClientTlsCert c = None then missing ''client TLS cert''
      else if cn_ServerTlsCert c = None then missing ''server TLS cert''
      else Ok ())"

definition CompleteOrdererInitialization :: "(string \<Rightarrow> int go_result) \<Rightarrow> cx_orderer \<Rightarrow> unit go_result" where
  "CompleteOrdererInitialization duration ord =
     (if xo_OrdererType ord = ConsensusTypeSolo then Ok ()
      else if xo_OrdererType ord = ConsensusTypeKafka then Ok ()
      else if xo_OrdererType ord = ConsensusTypeEtcdRaft then
        (case xo_EtcdRaft ord of
           None \<Rightarrow> Panic ''nil pointer dereference''
         | Some m \<Rightarrow>
             (case duration (ro_TickInterval (rm_Options m)) of
                Fail _ \<Rightarrow> Fail (Plain (''Etcdraft TickInterval ('' @ ro_TickInterval (rm_Options m) @
                  '') must be in time duration format''))
              | Panic p \<Rightarrow> Panic p
              | Ok _ \<Rightarrow>
                  if ro_ElectionTick (rm_Options m) \<le> ro_HeartbeatTick (rm_Options m) then
                    Fail (Plain ''election tick must be greater than heartbeat tick'')
                  else fold_r (\<lambda>c _. check_consenter c) (rm_Consenters m) ()))
      else Fail (Plain (''unknown orderer type: '' @ xo_OrdererType ord)))"

definition CompleteProfileInitialization :: "(string \<Rightarrow> int go_result) \<Rightarrow> profile \<Rightarrow> unit go_result" where
  "CompleteProfileInitialization duration p =
     (case pr_Orderer p of Some o' \<Rightarrow> CompleteOrdererInitialization duration o' | None \<Rightarrow> Ok ())"

definition GetProfile :: "(string \<Rightarrow> int go_result) \<Rightarrow> profile gomap \<Rightarrow> string \<Rightarrow> profile go_result" where
  "GetProfile duration profiles name =
     (case map_of profiles name of
        None \<Rightarrow> Fail (Plain (''profile '' @ quoted name @ '' does not exist''))
      | Some p \<Rightarrow> seq_r (CompleteProfileInitialization duration p) (\<lambda>_. Ok p))"

subsection \<open>Groups of the channel configuration\<close>

text \<open>
  A group of the configuration, and the values and policies it can hold: each carries its content and
  the policy that governs its change.
\<close>

datatype policy_value = MetaMajority string | MetaAny string | ParsedMeta string | ParsedSignature string
  | SignedByMspMember string | SignedByMspAdmin string | AcceptAll

datatype config_value = HashingAlgorithm | BlockDataHashingStructure | OrdererAddresses "string list"
  | ConsortiumValue string | CapabilitiesValue "bool gomap" | BatchSizeValue int int int
  | BatchTimeoutValue string | ChannelRestrictionsValue int | ConsensusTypeValue string string
  | MSPValue "string option" | EndpointsValue "string list" | ACLValues "string gomap"
  | AnchorPeersValue "(string \<times> int) list" | ChannelCreationPolicyValue policy_value

datatype config_group = Group
  (cg_Groups: "(string \<times> config_group) list")
  (cg_Values: "(string \<times> config_value \<times> string) list")
  (cg_Policies: "(string \<times> policy_value \<times> string) list")
  (cg_ModPolicy: string)

record configtx_lib =
  cx_Duration :: "string \<Rightarrow> int go_result"
  cx_DurationText :: "int \<Rightarrow> string"
  cx_ImplicitMeta :: "string \<Rightarrow> string go_result"
  cx_Signature :: "string \<Rightarrow> string go_result"
  cx_Key :: "config_value \<Rightarrow> string"
  cx_RaftBytes :: "raft_metadata option \<Rightarrow> string go_result"
  cx_VerifyingMsp :: "string \<Rightarrow> string \<Rightarrow> string \<Rightarrow> string go_result"
  cx_Block :: "string \<Rightarrow> int \<Rightarrow> string \<Rightarrow> config_group \<Rightarrow> string go_result"

definition NewConfigGroup :: config_group where
  "NewConfigGroup = Group [] [] [] ''''"

fun set_mod_policy :: "string \<Rightarrow> config_group \<Rightarrow> config_group" where
  "set_mod_policy m (Group gs vs ps _) = Group gs vs ps m"

fun add_group :: "string \<Rightarrow> config_group \<Rightarrow> config_group \<Rightarrow> config_group" where
  "add_group name g (Group gs vs ps m) = Group (AList.update name g gs) vs ps m"

fun addValue :: "configtx_lib \<Rightarrow> config_value \<Rightarrow> string \<Rightarrow> config_group \<Rightarrow> config_group" where
  "addValue x v modPolicy (Group gs vs ps m) = Group gs (AList.update (cx_Key x v) (v, modPolicy) vs) ps m"

fun addPolicy :: "string \<Rightarrow> policy_value \<Rightarrow> string \<Rightarrow> config_group \<Rightarrow> config_group" where
  "addPolicy name v modPolicy (Group gs vs ps m) = Group gs vs (AList.update name (v, modPolicy) ps) m"

text \<open>One policy of the configuration, parsed by its type; \<open>addPolicies\<close> of \<open>profile.go\<close> loops over them.\<close>

definition add_parsed :: "configtx_lib \<Rightarrow> string \<Rightarrow> string \<times> cx_policy \<Rightarrow> config_group \<Rightarrow> config_group go_result" where
  "add_parsed x modPolicy entry cg =
     (case entry of (name, p) \<Rightarrow>
        if po_Type p = ImplicitMetaPolicyType then
          seq_r (wrap_r (''invalid implicit meta policy rule '' @ quoted (po_Rule p)) (cx_ImplicitMeta x (po_Rule p)))
            (\<lambda>v. Ok (addPolicy name (ParsedMeta v) modPolicy cg))
        else if po_Type p = SignaturePolicyType then
          seq_r (wrap_r (''invalid signature policy rule '' @ quoted (po_Rule p)) (cx_Signature x (po_Rule p)))
            (\<lambda>v. Ok (addPolicy name (ParsedSignature v) modPolicy cg))
        else Fail (Plain (''unknown policy type: '' @ po_Type p)))"

definition addPolicies :: "configtx_lib \<Rightarrow> cx_policy gomap \<Rightarrow> string \<Rightarrow> config_group \<Rightarrow> config_group go_result" where
  "addPolicies x policyMap modPolicy = fold_r (add_parsed x modPolicy) policyMap"

text \<open>\<open>AddPolicies\<close> of \<open>encoder.go\<close> requires the three standard policies.\<close>

definition encoder_AddPolicies ::
  "configtx_lib \<Rightarrow> cx_policy gomap option \<Rightarrow> string \<Rightarrow> config_group \<Rightarrow> config_group go_result" where
  "encoder_AddPolicies x policyMap modPolicy cg =
     (case policyMap of
        None \<Rightarrow> Fail (Plain ''no policies defined'')
      | Some m \<Rightarrow>
          if map_of m AdminsPolicyKey = None then Fail (Plain ''no Admins policy defined'')
          else if map_of m ReadersPolicyKey = None then Fail (Plain ''no Readers policy defined'')
          else if map_of m WritersPolicyKey = None then Fail (Plain ''no Writers policy defined'')
          else fold_r (add_parsed x modPolicy) m cg)"

definition addImplicitMetaPolicyDefaults :: "config_group \<Rightarrow> config_group" where
  "addImplicitMetaPolicyDefaults cg =
     addPolicy WritersPolicyKey (MetaAny WritersPolicyKey) AdminsPolicyKey
       (addPolicy ReadersPolicyKey (MetaAny ReadersPolicyKey) AdminsPolicyKey
         (addPolicy AdminsPolicyKey (MetaMajority AdminsPolicyKey) AdminsPolicyKey cg))"

definition addSignaturePolicyDefaults :: "string \<Rightarrow> bool \<Rightarrow> config_group \<Rightarrow> config_group" where
  "addSignaturePolicyDefaults mspID devMode cg =
     addPolicy WritersPolicyKey (SignedByMspMember mspID) AdminsPolicyKey
       (addPolicy ReadersPolicyKey (SignedByMspMember mspID) AdminsPolicyKey
         (addPolicy AdminsPolicyKey
            (if devMode then SignedByMspMember mspID else SignedByMspAdmin mspID) AdminsPolicyKey cg))"

definition NewOrdererOrgGroup :: "configtx_lib \<Rightarrow> organization \<Rightarrow> string option \<Rightarrow> config_group go_result" where
  "NewOrdererOrgGroup x conf mspConfig =
     (let policies = (case og_Policies conf of Some m \<Rightarrow> m | None \<Rightarrow> []) in
      seq_r (if length policies = 0 then
               Ok (addSignaturePolicyDefaults (og_ID conf)
                     (og_AdminPrincipal conf \<noteq> AdminRoleAdminPrincipal) NewConfigGroup)
             else wrap_r (''error adding policies to orderer org group '' @ quoted (og_Name conf))
                    (addPolicies x policies AdminsPolicyKey NewConfigGroup)) (\<lambda>cg.
      let cg = set_mod_policy AdminsPolicyKey (addValue x (MSPValue mspConfig) AdminsPolicyKey cg)
      in Ok (if 0 < length (og_OrdererEndpoints conf)
             then addValue x (EndpointsValue (og_OrdererEndpoints conf)) AdminsPolicyKey cg else cg)))"

text \<open>The consensus metadata of \<open>NewOrdererGroup\<close>, serialized for raft only; its type must be known.\<close>

definition consensus_metadata :: "configtx_lib \<Rightarrow> cx_orderer \<Rightarrow> string go_result" where
  "consensus_metadata x conf =
     (if xo_OrdererType conf = ConsensusTypeSolo then Ok ''''
      else if xo_OrdererType conf = ConsensusTypeKafka then Ok ''''
      else if xo_OrdererType conf = ConsensusTypeEtcdRaft then cx_RaftBytes x (xo_EtcdRaft conf)
      else Fail (Plain (''unknown orderer type: '' @ xo_OrdererType conf)))"

definition add_orderer_org ::
  "configtx_lib \<Rightarrow> string gomap \<Rightarrow> organization \<Rightarrow> config_group \<Rightarrow> config_group go_result" where
  "add_orderer_org x mspConfigs org cg =
     seq_r (wrap_r ''failed to create orderer org'' (NewOrdererOrgGroup x org (map_of mspConfigs (og_Name org))))
       (\<lambda>g. Ok (add_group (og_Name org) g cg))"

definition NewOrdererGroup :: "configtx_lib \<Rightarrow> cx_orderer \<Rightarrow> string gomap \<Rightarrow> config_group go_result" where
  "NewOrdererGroup x conf mspConfigs =
     seq_r (if length (xo_Policies conf) = 0 then Ok (addImplicitMetaPolicyDefaults NewConfigGroup)
            else wrap_r ''error adding policies to orderer group''
                   (addPolicies x (xo_Policies conf) AdminsPolicyKey NewConfigGroup)) (\<lambda>cg.
     let cg = addPolicy BlockValidationPolicyKey (MetaAny WritersPolicyKey) AdminsPolicyKey cg;
         cg = addValue x (BatchSizeValue (bs_MaxMessageCount (xo_BatchSize conf))
                (bs_AbsoluteMaxBytes (xo_BatchSize conf)) (bs_PreferredMaxBytes (xo_BatchSize conf)))
                AdminsPolicyKey cg;
         cg = addValue x (BatchTimeoutValue (cx_DurationText x (xo_BatchTimeout conf))) AdminsPolicyKey cg;
         cg = addValue x (ChannelRestrictionsValue (xo_MaxChannels conf)) AdminsPolicyKey cg;
         cg = (if 0 < length (xo_Capabilities conf)
               then addValue x (CapabilitiesValue (xo_Capabilities conf)) AdminsPolicyKey cg else cg)
     in seq_r (consensus_metadata x conf) (\<lambda>consensusMetadata.
        let cg = addValue x (ConsensusTypeValue (xo_OrdererType conf) consensusMetadata) AdminsPolicyKey cg
        in seq_r (fold_r (add_orderer_org x mspConfigs) (xo_Organizations conf) cg) (\<lambda>cg.
           Ok (set_mod_policy AdminsPolicyKey cg))))"

subsection \<open>Application and consortiums\<close>

definition NewApplicationOrgGroup :: "configtx_lib \<Rightarrow> organization \<Rightarrow> config_group go_result" where
  "NewApplicationOrgGroup x conf =
     (let cg = set_mod_policy AdminsPolicyKey NewConfigGroup in
      if og_SkipAsForeign conf then Ok cg
      else
        seq_r (wrap_r (''1 - Error loading MSP configuration for org '' @ og_Name conf)
                 (cx_VerifyingMsp x (og_MSPDir conf) (og_ID conf) (og_MSPType conf))) (\<lambda>mspConfig.
        seq_r (wrap_r (''error adding policies to application org group '' @ og_Name conf)
                 (encoder_AddPolicies x (og_Policies conf) AdminsPolicyKey cg)) (\<lambda>cg.
        let cg = addValue x (MSPValue (Some mspConfig)) AdminsPolicyKey cg
        in Ok (if 0 < length (og_AnchorPeers conf)
               then addValue x (AnchorPeersValue (og_AnchorPeers conf)) AdminsPolicyKey cg else cg))))"

definition NewApplicationGroup :: "configtx_lib \<Rightarrow> application \<Rightarrow> config_group go_result" where
  "NewApplicationGroup x conf =
     seq_r (wrap_r ''error adding policies to application group''
              (encoder_AddPolicies x (ap_Policies conf) AdminsPolicyKey NewConfigGroup)) (\<lambda>cg.
     let cg = (if 0 < length (ap_ACLs conf) then addValue x (ACLValues (ap_ACLs conf)) AdminsPolicyKey cg else cg);
         cg = (if 0 < length (ap_Capabilities conf)
               then addValue x (CapabilitiesValue (ap_Capabilities conf)) AdminsPolicyKey cg else cg)
     in seq_r (fold_r (\<lambda>org cg. seq_r (wrap_r ''failed to create application org'' (NewApplicationOrgGroup x org))
                 (\<lambda>g. Ok (add_group (og_Name org) g cg))) (ap_Organizations conf) cg) (\<lambda>cg.
        Ok (set_mod_policy AdminsPolicyKey cg)))"

definition NewConsortiumOrgGroup :: "configtx_lib \<Rightarrow> organization \<Rightarrow> config_group go_result" where
  "NewConsortiumOrgGroup x conf =
     (let cg = set_mod_policy AdminsPolicyKey NewConfigGroup in
      if og_SkipAsForeign conf then Ok cg
      else
        seq_r (wrap_r (''error loading MSP configuration for org: '' @ og_Name conf)
                 (cx_VerifyingMsp x (og_MSPDir conf) (og_ID conf) (og_MSPType conf))) (\<lambda>mspConfig.
        seq_r (wrap_r (''error adding policies to consortiums org group '' @ quoted (og_Name conf))
                 (encoder_AddPolicies x (og_Policies conf) AdminsPolicyKey cg)) (\<lambda>cg.
        Ok (addValue x (MSPValue (Some mspConfig)) AdminsPolicyKey cg))))"

definition NewConsortiumGroup :: "configtx_lib \<Rightarrow> organization list \<Rightarrow> config_group go_result" where
  "NewConsortiumGroup x orgs =
     seq_r (fold_r (\<lambda>org cg. seq_r (wrap_r ''failed to create consortium org'' (NewConsortiumOrgGroup x org))
              (\<lambda>g. Ok (add_group (og_Name org) g cg))) orgs NewConfigGroup) (\<lambda>cg.
     Ok (set_mod_policy OrdererAdminsPolicy
       (addValue x (ChannelCreationPolicyValue (MetaAny AdminsPolicyKey)) OrdererAdminsPolicy cg)))"

definition NewConsortiumsGroup :: "configtx_lib \<Rightarrow> organization list gomap \<Rightarrow> config_group go_result" where
  "NewConsortiumsGroup x conf =
     seq_r (fold_r (\<lambda>(consortiumName, consortium) cg.
              seq_r (wrap_r (''failed to create consortium '' @ consortiumName) (NewConsortiumGroup x consortium))
                (\<lambda>g. Ok (add_group consortiumName g cg))) conf
              (addPolicy AdminsPolicyKey AcceptAll OrdererAdminsPolicy NewConfigGroup)) (\<lambda>cg.
     Ok (set_mod_policy OrdererAdminsPolicy cg))"

subsection \<open>The genesis block\<close>

definition NewChannelConfigGroup :: "configtx_lib \<Rightarrow> profile \<Rightarrow> string gomap \<Rightarrow> config_group go_result" where
  "NewChannelConfigGroup x p mspConfigs =
     (let cg = (if length (pr_Policies p) = 0 then addImplicitMetaPolicyDefaults NewConfigGroup
                else NewConfigGroup) in
      seq_r (wrap_r ''error adding policies to channel group''
               (addPolicies x (pr_Policies p) AdminsPolicyKey cg)) (\<lambda>cg.
      let cg = addValue x HashingAlgorithm AdminsPolicyKey cg;
          cg = addValue x BlockDataHashingStructure AdminsPolicyKey cg;
          cg = (case pr_Orderer p of
                  Some o' \<Rightarrow> if 0 < length (xo_Addresses o')
                    then addValue x (OrdererAddresses (xo_Addresses o')) OrdererAdminsPolicy cg else cg
                | None \<Rightarrow> cg);
          cg = (if pr_Consortium p \<noteq> ''''
                then addValue x (ConsortiumValue (pr_Consortium p)) AdminsPolicyKey cg else cg);
          cg = (if 0 < length (pr_Capabilities p)
                then addValue x (CapabilitiesValue (pr_Capabilities p)) AdminsPolicyKey cg else cg)
      in seq_r (case pr_Orderer p of
                  None \<Rightarrow> Ok cg
                | Some o' \<Rightarrow> seq_r (wrap_r ''could not create orderer group'' (NewOrdererGroup x o' mspConfigs))
                    (\<lambda>g. Ok (add_group ''Orderer'' g cg))) (\<lambda>cg.
         seq_r (case pr_Application p of
                  None \<Rightarrow> Ok cg
                | Some a \<Rightarrow> seq_r (wrap_r ''could not create application group'' (NewApplicationGroup x a))
                    (\<lambda>g. Ok (add_group ''Application'' g cg))) (\<lambda>cg.
         seq_r (case pr_Consortiums p of
                  None \<Rightarrow> Ok cg
                | Some c \<Rightarrow> seq_r (wrap_r ''could not create consortiums group'' (NewConsortiumsGroup x c))
                    (\<lambda>g. Ok (add_group ''Consortiums'' g cg))) (\<lambda>cg.
         Ok (set_mod_policy AdminsPolicyKey cg))))))"

text \<open>
  \<open>GenerateBlock\<close>: the block is serialized around the nonce and the time it is made at.  They are read
  from the world with \<open>nonce\<close> and \<open>now\<close>; a nonce that cannot be read panics.
\<close>

definition GenerateBlock ::
  "configtx_lib \<Rightarrow> ('w \<Rightarrow> string go_result \<times> 'w) \<Rightarrow> ('w \<Rightarrow> int \<times> 'w) \<Rightarrow> string \<Rightarrow> profile \<Rightarrow> string gomap \<Rightarrow>
     'w \<Rightarrow> string go_result \<times> 'w" where
  "GenerateBlock x nonce now channelID p mspConfigs w =
     (if pr_Orderer p = None then
        (Fail (Plain ''refusing to generate block which is missing orderer section''), w)
      else if pr_Consortiums p = None then
        (Fail (Plain (''Genesis block does not contain a consortiums group definition.  '' @
           ''This block cannot be used for orderer bootstrap.'')), w)
      else
        bind_r (NewChannelConfigGroup x p mspConfigs, w) (\<lambda>cg w.
          (case now w of
             (t, w) \<Rightarrow> bind_r (nonce w) (\<lambda>k w.
               (wrap_r ''error marshalling genesis block'' (cx_Block x channelID t k cg), w)))))"

subsection \<open>What the steps keep\<close>

text \<open>Adding a policy or a group leaves the values, and adding a value or a policy leaves the groups.\<close>

lemma config_group_parts [simp]:
  "cg_Values (set_mod_policy m g) = cg_Values g" "cg_Groups (set_mod_policy m g) = cg_Groups g"
  "cg_Values (add_group name h g) = cg_Values g"
  "cg_Groups (add_group name h g) = AList.update name h (cg_Groups g)"
  "cg_Values (addValue x v m g) = AList.update (cx_Key x v) (v, m) (cg_Values g)"
  "cg_Groups (addValue x v m g) = cg_Groups g"
  "cg_Values (addPolicy name p m g) = cg_Values g" "cg_Groups (addPolicy name p m g) = cg_Groups g"
  by (cases g; simp)+

lemma fold_r_keeps:
  "fold_r f xs a = Ok b \<Longrightarrow> (\<And>x a b. f x a = Ok b \<Longrightarrow> P b = P a) \<Longrightarrow> P b = P a"
proof (induction xs arbitrary: a)
  case (Cons x xs)
  from Cons.prems(1) obtain a1 where "f x a = Ok a1" "fold_r f xs a1 = Ok b" by (auto elim!: seq_r_OkE)
  with Cons show ?case by metis
qed simp

lemma add_parsed_parts:
  "add_parsed x m e g = Ok h \<Longrightarrow> cg_Values h = cg_Values g \<and> cg_Groups h = cg_Groups g"
  by (cases e) (auto simp: add_parsed_def split: if_splits elim!: seq_r_OkE)

lemma addPolicies_parts:
  assumes "addPolicies x ps m g = Ok h"
  shows "cg_Values h = cg_Values g" and "cg_Groups h = cg_Groups g"
  using fold_r_keeps [OF assms [unfolded addPolicies_def], where P = cg_Values]
    fold_r_keeps [OF assms [unfolded addPolicies_def], where P = cg_Groups] add_parsed_parts by blast+

lemma add_orderer_orgs_values:
  "fold_r (add_orderer_org x m) orgs g = Ok h \<Longrightarrow> cg_Values h = cg_Values g"
  by (erule fold_r_keeps) (auto simp: add_orderer_org_def elim!: seq_r_OkE)

text \<open>The kinds of values have keys of their own.\<close>

fun value_kind :: "config_value \<Rightarrow> nat" where
  "value_kind HashingAlgorithm = 0"
| "value_kind BlockDataHashingStructure = 1"
| "value_kind (OrdererAddresses _) = 2"
| "value_kind (ConsortiumValue _) = 3"
| "value_kind (CapabilitiesValue _) = 4"
| "value_kind (BatchSizeValue _ _ _) = 5"
| "value_kind (BatchTimeoutValue _) = 6"
| "value_kind (ChannelRestrictionsValue _) = 7"
| "value_kind (ConsensusTypeValue _ _) = 8"
| "value_kind (MSPValue _) = 9"
| "value_kind (EndpointsValue _) = 10"
| "value_kind (ACLValues _) = 11"
| "value_kind (AnchorPeersValue _) = 12"
| "value_kind (ChannelCreationPolicyValue _) = 13"

definition distinct_keys :: "configtx_lib \<Rightarrow> bool" where
  "distinct_keys x \<longleftrightarrow> (\<forall>v v'. value_kind v \<noteq> value_kind v' \<longrightarrow> cx_Key x v \<noteq> cx_Key x v')"

lemma distinct_keysD: "distinct_keys x \<Longrightarrow> value_kind v \<noteq> value_kind v' \<Longrightarrow> cx_Key x v \<noteq> cx_Key x v'"
  by (simp add: distinct_keys_def)

text \<open>The consensus type in the group of the orderer, and the addresses and that group in the channel's.\<close>

lemma NewOrdererGroup_consensus:
  assumes "NewOrdererGroup x conf m = Ok g"
  obtains bytes where "consensus_metadata x conf = Ok bytes"
    and "map_of (cg_Values g) (cx_Key x (ConsensusTypeValue (xo_OrdererType conf) bytes)) =
      Some (ConsensusTypeValue (xo_OrdererType conf) bytes, AdminsPolicyKey)"
  using assms add_orderer_orgs_values
  by (fastforce simp: NewOrdererGroup_def Let_def update_conv' elim!: seq_r_OkE)

lemma NewChannelConfigGroup_orderer:
  assumes "NewChannelConfigGroup x p m = Ok g" and "pr_Orderer p = Some conf" and "distinct_keys x"
  obtains og where "NewOrdererGroup x conf m = Ok og" and "map_of (cg_Groups g) ''Orderer'' = Some og"
    and "xo_Addresses conf \<noteq> [] \<longrightarrow>
      map_of (cg_Values g) (cx_Key x (OrdererAddresses (xo_Addresses conf))) =
      Some (OrdererAddresses (xo_Addresses conf), OrdererAdminsPolicy)"
proof -
  note apart = distinct_keysD [OF assms(3), of "OrdererAddresses (xo_Addresses conf)"]
  from assms(1,2) obtain og where og: "NewOrdererGroup x conf m = Ok og"
    unfolding NewChannelConfigGroup_def Let_def by (auto elim!: seq_r_OkE)
  have "map_of (cg_Groups g) ''Orderer'' = Some og \<and> (xo_Addresses conf \<noteq> [] \<longrightarrow>
      map_of (cg_Values g) (cx_Key x (OrdererAddresses (xo_Addresses conf))) =
      Some (OrdererAddresses (xo_Addresses conf), OrdererAdminsPolicy))"
    using assms(1,2) og apart
    unfolding NewChannelConfigGroup_def Let_def
    by (auto simp: update_conv' split: option.splits if_splits elim!: seq_r_OkE)
  with og that show ?thesis by blast
qed

end
