(* ===== verification/OrdererCluster.thy ===== *)
theory OrdererCluster
  imports OrdererNodeRound ConfigTx
begin

text \<open>
  The offering of a cluster of ordering nodes, \<open>pkg/offering/base/orderer/orderer.go\<close> and
  \<open>pkg/offering/k8s/orderer/orderer.go\<close>: the parent resource precreates a resource per node, waits until
  the nodes have their certificates, and then makes the genesis block and hands it to every node.
\<close>

record fabric_msp =
  fm_Name :: string
  fm_Admins :: "string list"
  fm_RootCerts :: "string list"
  fm_IntermediateCerts :: "string list"
  fm_TlsRootCerts :: "string list"
  fm_TlsIntermediateCerts :: "string list"
  fm_NodeOUs :: "(string \<times> string) list"

text \<open>
  Collaborators beside those of the nodes: Fabric's libraries, the nonce and the time of a block, package
  \<open>json\<close> on the override, the serialization of a MSP, and the number of polls for a secret.
\<close>

record 'w cluster_deps =
  cl_lib :: configtx_lib
  cl_nonce :: "'w \<Rightarrow> string go_result \<times> 'w"
  cl_now :: "'w \<Rightarrow> int \<times> 'w"
  cl_max_name_length :: "string \<Rightarrow> int option go_result"
  cl_msp_bytes :: "fabric_msp \<Rightarrow> string go_result"
  cl_polls :: nat

definition V210 :: string where [go_defs]: "V210 = ''2.1.0''"

definition InvalidOrdererType :: int where "InvalidOrdererType = 16"

subsection \<open>Checks\<close>

definition ClusterSizeUpdate :: "'w node_state \<Rightarrow> bool \<times> 'w node_state" where
  "ClusterSizeUpdate s =
     (if of_ClusterSize (Spec (the_instance s)) = 0
      then (True, on_instance (on_spec (\<lambda>sp. sp\<lparr>of_ClusterSize := 1\<rparr>)) s)
      else (False, s))"

text \<open>The lists of a cluster must have its size, where they are given.\<close>

definition check_cluster_lists :: "orderer_full \<Rightarrow> unit go_result" where
  "check_cluster_lists sp =
     (let invalid = (\<lambda>msg. Fail (OperatorError InvalidOrdererType msg));
          parent = (of_NodeNumber sp = None);
          wrong = (\<lambda>n. of_ClusterSize sp \<noteq> 0 \<and> int n \<noteq> of_ClusterSize sp)
      in if to_lower (of_OrdererType sp) \<noteq> ''etcdraft'' then
           invalid (''orderer type '' @ quoted (of_OrdererType sp) @ '' is not supported'')
         else if parent \<and> (case of_ClusterLocation sp of Some l \<Rightarrow> wrong (length l) | None \<Rightarrow> False) then
           invalid ''Number of Cluster Node Locations does not match cluster size''
         else if parent \<and> of_ClusterSecret sp = None then invalid ''Cluster MSP Secrets should be passed''
         else if parent \<and> (case of_ClusterSecret sp of Some l \<Rightarrow> wrong (length l) | None \<Rightarrow> False) then
           invalid ''Number of Cluster MSP Secrets does not match cluster size''
         else if parent \<and> (case of_ClusterConfigOverride sp of Some l \<Rightarrow> wrong (length l) | None \<Rightarrow> False) then
           invalid ''Number of Cluster Override does not match cluster size''
         else Ok ())"

definition cluster_PreReconcileChecks ::
  "'w odeps \<Rightarrow> 'w cluster_deps \<Rightarrow> 'w node_state \<Rightarrow> bool go_result \<times> 'w node_state" where
  "cluster_PreReconcileChecks d c s =
     (let i = the_instance s in
      bind_r (check_cluster_lists (Spec i), s) (\<lambda>_ s.
      bind_r (case of_ConfigOverride (Spec i) of
                None \<Rightarrow> (Ok None, s)
              | Some raw \<Rightarrow> (cl_max_name_length c raw, s)) (\<lambda>maxNameLength s.
      bind_r (ValidationChecks i ''IBPOrderer'' maxNameLength, s) (\<lambda>_ s.
      let (sizeUpdate, s) = ClusterSizeUpdate s
      in if sizeUpdate then
           bind_r (on_object (\<lambda>i. client_Patch (d_client d) i (Resilient 3)) s) (\<lambda>_ s. (Ok True, s))
         else (Ok False, s)))))"

definition cluster_GetLabels :: "'w odeps \<Rightarrow> orderer_cr \<Rightarrow> string gomap" where
  "cluster_GetLabels d i =
     (let prefix = d_getenv d ''OPERATOR_LABEL_PREFIX'';
          label = (if prefix = '''' then ''fabric'' else prefix);
          name = (case of_NodeNumber (Spec i) of Some k \<Rightarrow> Name i @ ''node'' @ itoa k | None \<Rightarrow> Name i)
      in [(''app'', name), (''creator'', label), (''parent'', Name i), (''app.kubernetes.io/name'', label),
          (''app.kubernetes.io/instance'', label @ ''orderer''),
          (''app.kubernetes.io/managed-by'', label @ ''-operator'')])"

definition node_CheckCSRHosts :: "string list \<Rightarrow> orderer_cr \<Rightarrow> orderer_cr" where
  "node_CheckCSRHosts hosts i =
     (case of_Secret (Spec i) of
        None \<Rightarrow> i
      | Some sec \<Rightarrow>
          (case sr_Enrollment sec of
             None \<Rightarrow> i
           | Some es \<Rightarrow>
               let tls = (case es_TLS es of None \<Rightarrow> \<lparr>en_CSRHosts = None, en_other = ''''\<rparr> | Some t \<Rightarrow> t);
                   (new, changed) = merge_hosts hosts (en_CSRHosts tls);
                   es = es\<lparr>es_TLS := Some (tls\<lparr>en_CSRHosts := Some new\<rparr>)\<rparr>
               in on_spec (\<lambda>sp. sp\<lparr>of_Secret := Some (sec\<lparr>sr_Enrollment := Some es\<rparr>)\<rparr>) i))"

subsection \<open>Nodes of a cluster\<close>

definition GetClusterNodes :: "'w node_deps \<Rightarrow> orderer_cr \<Rightarrow> 'w \<Rightarrow> orderer_cr list go_result \<times> 'w" where
  "GetClusterNodes n i w =
     bind_r (wrap_err ''failed to parse selector for parent name'' (nd_selector n (''parent='' @ Name i), w))
       (\<lambda>_ w. nd_list n (Name i) (Namespace i) w)"

text \<open>\<open>GetNodes\<close>: the names of the nodes, \<open>node1\<close> to \<open>nodeN\<close>.\<close>

definition node_name :: "int \<Rightarrow> string" where
  "node_name k = ''node'' @ itoa k"

definition GetNodes :: "orderer_cr \<Rightarrow> string list" where
  "GetNodes i = map node_name [1..of_ClusterSize (Spec i)]"

text \<open>Entry \<open>number\<close>, counted from 1, of a list that may be nil or too short.\<close>

definition entry_at :: "int \<Rightarrow> 'a list option \<Rightarrow> 'a option" where
  "entry_at number l =
     (case l of
        None \<Rightarrow> None
      | Some xs \<Rightarrow> if number \<le> int (length xs) then Some (xs ! nat (number - 1)) else None)"

text \<open>The resource of node \<open>number\<close>: a copy of the parent's with what is given for this node.\<close>

definition node_cr :: "'w odeps \<Rightarrow> orderer_cr \<Rightarrow> int \<Rightarrow> orderer_cr" where
  "node_cr d i number =
     (let prefix = d_getenv d ''OPERATOR_LABEL_PREFIX'';
          label = (if prefix = '''' then ''fabric'' else prefix);
          name = Name i @ node_name number;
          sp = Spec i;
          sp = (case entry_at number (of_ClusterConfigOverride sp) of
                  Some co \<Rightarrow> sp\<lparr>of_ConfigOverride := co\<rparr> | None \<Rightarrow> sp);
          sp = (case entry_at number (of_ClusterSecret sp) of
                  Some sec \<Rightarrow> sp\<lparr>of_Secret := sec\<rparr> | None \<Rightarrow> sp);
          sp = (case entry_at number (of_ClusterLocation sp) of
                  Some l \<Rightarrow> sp\<lparr>of_Zone := loc_Zone l,
                    of_Region := (if loc_Zone l \<noteq> '''' \<and> loc_Region l = '''' then ''select'' else loc_Region l)\<rparr>
                | None \<Rightarrow> sp);
          sp = (if ChannelLess (Spec i) then sp\<lparr>of_UseChannelLess := of_UseChannelLess (Spec i)\<rparr>
                else sp\<lparr>of_IsPrecreate := Some True\<rparr>)
      in i\<lparr>Name := name,
           Labels := [(''app'', name), (''creator'', label), (''parent'', Name i), (''app.kubernetes.io/name'', label),
             (''app.kubernetes.io/instance'', label @ ''orderer''),
             (''app.kubernetes.io/managed-by'', label @ ''-operator'')],
           Spec := sp\<lparr>of_NodeNumber := Some number, of_ClusterSize := 1, of_ClusterSecret := None,
             of_ClusterConfigOverride := None, of_ClusterLocation := None\<rparr>\<rparr>)"

definition CreateNodeCR :: "'w odeps \<Rightarrow> orderer_cr \<Rightarrow> int \<Rightarrow> 'w \<Rightarrow> unit go_result \<times> 'w" where
  "CreateNodeCR d i number w =
     (if of_NodeNumber (Spec i) \<noteq> None then
        (Fail (Plain (''only parent orderer can create nodes custom resources, instance '' @ quoted (Name i) @
           '' is not a parent'')), w)
      else if \<not> of_LicenseAccept (Spec i) then
        (Fail (Plain ''user must accept license before continuing''), w)
      else
        (case client_Create (d_client d) (node_cr d i number) None w of
           (Fail e, node, w) \<Rightarrow> (Fail e, w)
         | (Panic p, node, w) \<Rightarrow> (Panic p, w)
         | (Ok _, node, w) \<Rightarrow>
             if SVersion (CRStatus i) \<noteq> Operator_version then
               (case kc_update_status (d_client d) (node\<lparr>CRStatus := (CRStatus node)\<lparr>SVersion := Operator_version\<rparr>\<rparr>) w of
                  (r, node, w) \<Rightarrow> (r, w))
             else (Ok (), w)))"

text \<open>A loop over a slice that stops at the first error.\<close>

fun each_r :: "('a \<Rightarrow> 'w \<Rightarrow> unit go_result \<times> 'w) \<Rightarrow> 'a list \<Rightarrow> 'w \<Rightarrow> unit go_result \<times> 'w" where
  "each_r f [] w = (Ok (), w)"
| "each_r f (x # xs) w = bind_r (f x w) (\<lambda>_ w. each_r f xs w)"

subsection \<open>The genesis block\<close>

definition LoadInitialProfile :: "'w cluster_deps \<Rightarrow> orderer_cr \<Rightarrow> profile go_result" where
  "LoadInitialProfile c i =
     (let profile = (if of_GenesisProfile (Spec i) = '''' then ''Initial'' else of_GenesisProfile (Spec i)) in
      seq_r (GetProfile (cx_Duration (cl_lib c)) GetGenesisDefaults profile) (\<lambda>initProfile.
      AddOrgToOrderer \<lparr>og_Name = of_OrgName (Spec i), og_ID = of_MSPID (Spec i), og_MSPDir = ''/certs/msp'',
        og_MSPType = ''bccsp'', og_Policies = None, og_AnchorPeers = [], og_OrdererEndpoints = [],
        og_AdminPrincipal = ''Role.MEMBER'', og_SkipAsForeign = False\<rparr> initProfile))"

text \<open>\<open>wait.Poll\<close> for an object that may not exist yet.\<close>

fun poll_get :: "nat \<Rightarrow> ('w \<Rightarrow> 'a go_result \<times> 'w) \<Rightarrow> 'w \<Rightarrow> 'a go_result \<times> 'w" where
  "poll_get 0 get w = (Fail (Plain ''timed out waiting for the condition''), w)"
| "poll_get (Suc k) get w =
     (case get w of
        (Ok x, w) \<Rightarrow> (Ok x, w)
      | (Fail e, w) \<Rightarrow> poll_get k get w
      | (Panic p, w) \<Rightarrow> (Panic p, w))"

definition node_fqdn :: "orderer_cr \<Rightarrow> string \<Rightarrow> string" where
  "node_fqdn i node = Namespace i @ ''-'' @ Name i @ node @ ''-orderer.'' @ of_Domain (Spec i)"

definition add_host_port ::
  "'w node_deps \<Rightarrow> 'w cluster_deps \<Rightarrow> orderer_cr \<Rightarrow> string \<Rightarrow> profile \<Rightarrow> 'w \<Rightarrow> profile go_result \<times> 'w" where
  "add_host_port n c i node p w =
     (let name = ''tls-'' @ Name i @ node @ ''-signcert'' in
      bind_r (wrap_err (''failed to find secret '' @ quoted name)
        (poll_get (cl_polls c) (sa_get (nd_secrets n) name (Namespace i)) w)) (\<lambda>tlsSecret w.
      let fqdn = node_fqdn i node; cert = map_of (sdata tlsSecret) ''cert.pem'' in
      (seq_r (AddOrdererAddress (fqdn @ '':443'') p)
         (AddRaftConsentingNode \<lparr>cn_Host = fqdn, cn_Port = 443, cn_ClientTlsCert = cert, cn_ServerTlsCert = cert\<rparr>), w)))"

fun add_hosts ::
  "'w node_deps \<Rightarrow> 'w cluster_deps \<Rightarrow> orderer_cr \<Rightarrow> string list \<Rightarrow> profile \<Rightarrow> 'w \<Rightarrow> profile go_result \<times> 'w" where
  "add_hosts n c i [] p w = (Ok p, w)"
| "add_hosts n c i (node # nodes) p w =
     bind_r (add_host_port n c i node p w) (\<lambda>p w. add_hosts n c i nodes p w)"

definition AddHostPortToProfile ::
  "'w node_deps \<Rightarrow> 'w cluster_deps \<Rightarrow> orderer_cr \<Rightarrow> profile \<Rightarrow> 'w \<Rightarrow> profile go_result \<times> 'w" where
  "AddHostPortToProfile n c i p w = add_hosts n c i (GetNodes i) p w"

text \<open>
  The certificates in a secret of node 1, in the order of the loop over the map; \<open>required\<close> secrets must
  exist, and for the others only \<open>not found\<close> is forgiven.
\<close>

definition node1_certs ::
  "'w node_deps \<Rightarrow> orderer_cr \<Rightarrow> string \<Rightarrow> string \<Rightarrow> bool \<Rightarrow> 'w \<Rightarrow> string list go_result \<times> 'w" where
  "node1_certs n i prefix kind required w =
     (case sa_get (nd_secrets n) (prefix @ ''-'' @ Name i @ node_name 1 @ ''-'' @ kind) (Namespace i) w of
        (Ok m, w) \<Rightarrow> (Ok (secret_values (nd_secrets n) (sdata m)), w)
      | (Fail e, w) \<Rightarrow> if \<not> required \<and> IsNotFound e then (Ok [], w) else (Fail e, w)
      | (Panic p, w) \<Rightarrow> (Panic p, w))"

definition first_cert :: "string list \<Rightarrow> string go_result" where
  "first_cert cs = (case cs of [] \<Rightarrow> Panic ''index out of range'' | c # _ \<Rightarrow> Ok c)"

definition GetMSPConfig ::
  "'w node_deps \<Rightarrow> 'w cluster_deps \<Rightarrow> orderer_cr \<Rightarrow> string \<Rightarrow> 'w \<Rightarrow> string go_result \<times> 'w" where
  "GetMSPConfig n c i ID w =
     bind_r (node1_certs n i ''ecert'' ''admincerts'' False w) (\<lambda>admincert w.
     bind_r (node1_certs n i ''ecert'' ''cacerts'' True w) (\<lambda>cacerts w.
     bind_r (node1_certs n i ''ecert'' ''intercerts'' False w) (\<lambda>intermediateCerts w.
     bind_r (node1_certs n i ''tls'' ''cacerts'' True w) (\<lambda>tlsCACerts w.
     bind_r (node1_certs n i ''tls'' ''intercerts'' False w) (\<lambda>tlsIntermediateCerts w.
     bind_r (first_cert cacerts, w) (\<lambda>root w.
     let ou = (case intermediateCerts of [] \<Rightarrow> root | cert # _ \<Rightarrow> cert) in
     (cl_msp_bytes c \<lparr>fm_Name = ID, fm_Admins = admincert, fm_RootCerts = cacerts,
        fm_IntermediateCerts = intermediateCerts, fm_TlsRootCerts = tlsCACerts,
        fm_TlsIntermediateCerts = tlsIntermediateCerts,
        fm_NodeOUs = [(''client'', ou), (''peer'', ou), (''admin'', ou), (''orderer'', ou)]\<rparr>, w)))))))"

fun msp_configs ::
  "'w node_deps \<Rightarrow> 'w cluster_deps \<Rightarrow> orderer_cr \<Rightarrow> organization list \<Rightarrow> string gomap \<Rightarrow> 'w \<Rightarrow>
     string gomap go_result \<times> 'w" where
  "msp_configs n c i [] m w = (Ok m, w)"
| "msp_configs n c i (org # orgs) m w =
     bind_r (wrap_err ''failed to create orderer org'' (GetMSPConfig n c i (og_ID org) w)) (\<lambda>conf w.
       msp_configs n c i orgs (AList.update (og_Name org) conf m) w)"

definition GenerateGenesisBlock ::
  "'w node_deps \<Rightarrow> 'w cluster_deps \<Rightarrow> orderer_cr \<Rightarrow> 'w \<Rightarrow> string go_result \<times> 'w" where
  "GenerateGenesisBlock n c i w =
     bind_r (LoadInitialProfile c i, w) (\<lambda>initProfile w.
     bind_r (AddHostPortToProfile n c i initProfile w) (\<lambda>initProfile w.
     (case pr_Orderer initProfile of
        None \<Rightarrow> (Panic ''nil pointer dereference'', w)
      | Some conf \<Rightarrow>
          bind_r (msp_configs n c i (xo_Organizations conf) [] w) (\<lambda>mspConfigs w.
          GenerateBlock (cl_lib c) (cl_nonce c) (cl_now c) (of_SystemChannelName (Spec i)) initProfile mspConfigs w))))"

text \<open>The block goes to the nodes that have none, and into a secret of every node.\<close>

definition UpdateNodesWithGenesisBlock ::
  "'w odeps \<Rightarrow> string \<Rightarrow> orderer_cr list \<Rightarrow> 'w \<Rightarrow> unit go_result \<times> 'w" where
  "UpdateNodesWithGenesisBlock d genesisBlock =
     each_r (\<lambda>node w.
       if of_GenesisBlock (Spec node) = '''' then
         (case client_Patch (d_client d) (on_spec (\<lambda>sp. sp\<lparr>of_GenesisBlock := genesisBlock\<rparr>) node) (Resilient 3) w of
            (r, node, w) \<Rightarrow> (r, w))
       else (Ok (), w))"

definition genesis_secret_of :: "string \<Rightarrow> orderer_cr \<Rightarrow> genesis_secret" where
  "genesis_secret_of genesisBlock node =
     \<lparr>gs_Name = Name node @ ''-genesis'', gs_Namespace = Namespace node, gs_Labels = Labels node,
      gs_Data = [(''orderer.block'', genesisBlock)]\<rparr>"

definition GenerateGenesisSecretForNodes ::
  "'w node_deps \<Rightarrow> string \<Rightarrow> orderer_cr list \<Rightarrow> 'w \<Rightarrow> unit go_result \<times> 'w" where
  "GenerateGenesisSecretForNodes n genesisBlock =
     each_r (\<lambda>node w. wrap_err (''failed to create orderer node's genesis secret'')
       (case client_Create (nd_objects n) (SecretObject (genesis_secret_of genesisBlock node))
               (Some \<lparr>oo_Owner = Some (NodeObject node), oo_Scheme = True\<rparr>) w of
          (r, _, w) \<Rightarrow> (r, w)))"

subsection \<open>Reconciling the cluster\<close>

definition all_precreated :: "orderer_cr list \<Rightarrow> bool" where
  "all_precreated nodes \<longleftrightarrow>
     list_all (\<lambda>node. Type (CRStatus node) = Deployed \<or> Type (CRStatus node) = Precreated) nodes"

fun genesis_secrets_found :: "'w node_deps \<Rightarrow> orderer_cr list \<Rightarrow> 'w \<Rightarrow> nat go_result \<times> 'w" where
  "genesis_secrets_found n [] w = (Ok 0, w)"
| "genesis_secrets_found n (node # nodes) w =
     (case kc_get (nd_objects n) (Name node @ ''-genesis'') (Namespace node) w of
        (Ok _, w) \<Rightarrow> bind_r (genesis_secrets_found n nodes w) (\<lambda>k w. (Ok (Suc k), w))
      | (Fail e, w) \<Rightarrow> genesis_secrets_found n nodes w
      | (Panic p, w) \<Rightarrow> (Panic p, w))"

text \<open>The part of \<open>ReconcileCluster\<close> once all nodes exist: nothing is left to do, or block and secrets.\<close>

definition make_genesis ::
  "'w odeps \<Rightarrow> 'w node_deps \<Rightarrow> 'w cluster_deps \<Rightarrow> orderer_cr \<Rightarrow> orderer_cr list \<Rightarrow> 'w \<Rightarrow> result go_result \<times> 'w" where
  "make_genesis d n c i nodes w =
     (let done = requeue\<lparr>Requeue := False\<rparr> in
      if \<not> all_precreated nodes then (Ok requeue, w)
      else
        bind_r (genesis_secrets_found n nodes w) (\<lambda>found w.
        if found = length nodes then (Ok done, w)
        else
          bind_r (GenerateGenesisBlock n c i w) (\<lambda>genesisBlock w.
          bind_r (UpdateNodesWithGenesisBlock d (base64 genesisBlock) nodes w) (\<lambda>_ w.
          bind_r (GenerateGenesisSecretForNodes n genesisBlock nodes w) (\<lambda>_ w. (Ok done, w))))))"

definition ReconcileCluster ::
  "'w odeps \<Rightarrow> 'w node_deps \<Rightarrow> 'w cluster_deps \<Rightarrow> 'w node_state \<Rightarrow> result go_result \<times> 'w node_state" where
  "ReconcileCluster d n c s =
     (let i = the_instance s; size = of_ClusterSize (Spec i); done = requeue\<lparr>Requeue := False\<rparr> in
      bind_r (on_world (GetClusterNodes n i) s) (\<lambda>nodes s.
      if int (length nodes) = size \<and> IsPrecreateOrderer (Spec i) then (Ok done, s)
      else if int (length nodes) = size \<and> \<not> ChannelLess (Spec i) then
        on_world (make_genesis d n c i nodes) s
      else
        bind_r (if Type (CRStatus i) = '''' \<or> Type (CRStatus i) = Deploying
                then on_world (each_r (CreateNodeCR d i) [1..size]) s else (Ok (), s)) (\<lambda>_ s.
        if \<not> String_Equal (SVersion (CRStatus i)) Operator_version then
          let s = on_instance (\<lambda>i. i\<lparr>CRStatus := (CRStatus i)\<lparr>SVersion := Operator_version\<rparr>\<rparr>) s
          in bind_r (on_object (\<lambda>i. client_PatchStatus (d_client d) i (Resilient 3)) s) (\<lambda>_ s. (Ok done, s))
        else (Ok done, s))))"

definition DeleteNode :: "'w node_deps \<Rightarrow> orderer_cr \<Rightarrow> int \<Rightarrow> 'w \<Rightarrow> unit go_result \<times> 'w" where
  "DeleteNode n i nodes w =
     (if nodes = 0 then (Fail (Plain ''no cluster nodes left to delete''), w)
      else wrap_err (''failed to delete node '' @ quoted (node_name nodes)) (node_Delete n i w))"

subsection \<open>The Kubernetes offering\<close>

definition node_hosts :: "orderer_cr \<Rightarrow> string list" where
  "node_hosts i =
     (let at = (\<lambda>suffix. Namespace i @ ''-'' @ Name i @ suffix @ ''.'' @ of_Domain (Spec i));
          v = of_FabricVersion (Spec i)
      in if String_EqualWithoutTag v V2_4_1 \<or> String_EqualWithoutTag v V2_5_1 \<or> String_GreaterThan v V2_4_1
         then [at ''-orderer'', at ''-operations'', at ''-grpcweb'', at ''-admin'', at '''', ''127.0.0.1'']
         else [at ''-orderer'', at ''-operations'', at ''-grpcweb'', at '''', ''127.0.0.1''])"

definition k8s_ReconcileNode ::
  "'w odeps \<Rightarrow> 'w node_deps \<Rightarrow> orderer_update \<Rightarrow> 'w node_state \<Rightarrow> result go_result \<times> 'w node_state" where
  "k8s_ReconcileNode d n u s =
     (let s = on_instance (\<lambda>i. node_CheckCSRHosts (node_hosts i) i) s; i = the_instance s in
      if \<not> ChannelLess (Spec i) \<and> of_GenesisBlock (Spec i) = '''' \<and> \<not> IsPrecreateOrderer (Spec i) then
        (Fail (Plain (''Genesis block not provided for orderer node: '' @ Name i)), s)
      else k8s_node_Reconcile d n u s)"

text \<open>The steps of a parent before its cluster is reconciled.\<close>

definition cluster_checks ::
  "'w odeps \<Rightarrow> 'w cluster_deps \<Rightarrow> 'w node_state \<Rightarrow> result option go_result \<times> 'w node_state" where
  "cluster_checks d c s =
     bind_r (wrap_err (''failed updating CR '' @ quoted (Name (the_instance s)) @ '' to version '' @
               quoted Operator_version) (node_SetVersion d s)) (\<lambda>versionSet s.
     if versionSet then (Ok (Some requeue), s)
     else
       let st = CRStatus (the_instance s) in
       if SStatus st = '''' \<or> SStatus st = ''False'' \<or> (SVersion st \<noteq> '''' \<and> String_GreaterThan (SVersion st) V210) then
         bind_r (wrap_err ''failed pre reconcile checks'' (cluster_PreReconcileChecks d c s)) (\<lambda>instanceUpdated s.
         if instanceUpdated then (Ok (Some (requeue\<lparr>OverrideUpdateStatus := True\<rparr>)), s) else (Ok None, s))
       else (Ok None, s))"

definition cluster_Reconcile ::
  "'w odeps \<Rightarrow> 'w node_deps \<Rightarrow> 'w cluster_deps \<Rightarrow> orderer_update \<Rightarrow> 'w node_state \<Rightarrow> result go_result \<times> 'w node_state" where
  "cluster_Reconcile d n c u s =
     bind_r (if of_NodeNumber (Spec (the_instance s)) = None then cluster_checks d c s else (Ok None, s)) (\<lambda>early s.
     (case early of
        Some r \<Rightarrow> (Ok r, s)
      | None \<Rightarrow>
          let st = CRStatus (the_instance s);
              s = (if (SVersion st = '''' \<and> SStatus st = ''True'') \<or>
                      (SVersion st \<noteq> '''' \<and> String_Equal (SVersion st) V210)
                   then if of_NodeNumber (Spec (the_instance s)) = None
                        then on_instance (on_spec (\<lambda>sp. sp\<lparr>of_NodeNumber := Some 1\<rparr>)) s else s
                   else s)
          in if of_NodeNumber (Spec (the_instance s)) = None
             then wrap_err ''failed to reconcile cluster'' (ReconcileCluster d n c s)
             else wrap_err ''failed to reconcile node'' (k8s_ReconcileNode d n u s)))"

end
