(* ===== verification/OrdererClusterSample.thy ===== *)
theory OrdererClusterSample
  imports OrdererCluster
begin

text \<open>
  A small world in which the properties of the cluster's offering are tried out: the custom resources, the
  genesis secrets, and a counter that numbers the blocks.  All certificates are there.
\<close>

record cluster_world =
  cw_nodes :: "string \<times> string \<Rightarrow> orderer_cr option"
  cw_secrets :: "string \<times> string \<Rightarrow> string gomap option"
  cw_blocks :: nat

definition cluster_cr_client :: "(orderer_cr, cluster_world) k8s_client" where
  "cluster_cr_client = \<lparr>kc_name = Name, kc_namespace = Namespace,
     kc_get = (\<lambda>n s w. (case cw_nodes w (n, s) of Some x \<Rightarrow> Ok x | None \<Rightarrow> Fail (NotFound n), w)),
     kc_create = (\<lambda>x w. case cw_nodes w (Name x, Namespace x) of
        Some _ \<Rightarrow> (Fail (Plain ''already exists''), x, w)
      | None \<Rightarrow> (Ok (), x, w\<lparr>cw_nodes := (cw_nodes w)((Name x, Namespace x) \<mapsto> x)\<rparr>)),
     kc_update = (\<lambda>x w. (Ok (), x, w\<lparr>cw_nodes := (cw_nodes w)((Name x, Namespace x) \<mapsto> x)\<rparr>)),
     kc_update_status = (\<lambda>x w. (Ok (), x, w\<lparr>cw_nodes := (cw_nodes w)((Name x, Namespace x) \<mapsto> x)\<rparr>)),
     kc_patch = (\<lambda>orig x w. (Ok (), x, w\<lparr>cw_nodes := (cw_nodes w)((Name x, Namespace x) \<mapsto> x)\<rparr>)),
     kc_patch_status = (\<lambda>orig x w. (Ok (), x, w\<lparr>cw_nodes := (cw_nodes w)((Name x, Namespace x) \<mapsto> x)\<rparr>)),
     kc_delete = (\<lambda>x w. (Ok (), w\<lparr>cw_nodes := (cw_nodes w)((Name x, Namespace x) := None)\<rparr>)),
     kc_apply = (\<lambda>x. x), kc_controller_ref = (\<lambda>owner x. Owned x), kc_sleep = (\<lambda>t w. w)\<rparr>"

fun create_genesis :: "owned_object \<Rightarrow> cluster_world \<Rightarrow> unit go_result \<times> owned_object \<times> cluster_world" where
  "create_genesis (SecretObject s) w =
     (case cw_secrets w (gs_Name s, gs_Namespace s) of
        Some _ \<Rightarrow> (Fail (Plain ''already exists''), SecretObject s, w)
      | None \<Rightarrow> (Ok (), SecretObject s,
          w\<lparr>cw_secrets := (cw_secrets w)((gs_Name s, gs_Namespace s) \<mapsto> gs_Data s)\<rparr>))"
| "create_genesis x w = (Fail (Plain ''not a secret''), x, w)"

definition cluster_secret_client :: "(owned_object, cluster_world) k8s_client" where
  "cluster_secret_client = \<lparr>kc_name = (\<lambda>x. ''''), kc_namespace = (\<lambda>x. ''''),
     kc_get = (\<lambda>n s w. (case cw_secrets w (n, s) of
        Some m \<Rightarrow> Ok (SecretObject \<lparr>gs_Name = n, gs_Namespace = s, gs_Labels = [], gs_Data = m\<rparr>)
      | None \<Rightarrow> Fail (NotFound n), w)),
     kc_create = create_genesis,
     kc_update = (\<lambda>x w. (Ok (), x, w)), kc_update_status = (\<lambda>x w. (Ok (), x, w)),
     kc_patch = (\<lambda>orig x w. (Ok (), x, w)), kc_patch_status = (\<lambda>orig x w. (Ok (), x, w)),
     kc_delete = (\<lambda>x w. (Ok (), w)),
     kc_apply = (\<lambda>x. x), kc_controller_ref = (\<lambda>owner x. Owned x), kc_sleep = (\<lambda>t w. w)\<rparr>"

text \<open>Fabric's libraries: a block is the name of its channel and its nonce.\<close>

fun sample_key :: "config_value \<Rightarrow> string" where
  "sample_key HashingAlgorithm = ''HashingAlgorithm''"
| "sample_key BlockDataHashingStructure = ''BlockDataHashingStructure''"
| "sample_key (OrdererAddresses _) = ''OrdererAddresses''"
| "sample_key (ConsortiumValue _) = ''Consortium''"
| "sample_key (CapabilitiesValue _) = ''Capabilities''"
| "sample_key (BatchSizeValue _ _ _) = ''BatchSize''"
| "sample_key (BatchTimeoutValue _) = ''BatchTimeout''"
| "sample_key (ChannelRestrictionsValue _) = ''ChannelRestrictions''"
| "sample_key (ConsensusTypeValue _ _) = ''ConsensusType''"
| "sample_key (MSPValue _) = ''MSP''"
| "sample_key (EndpointsValue _) = ''Endpoints''"
| "sample_key (ACLValues _) = ''ACLs''"
| "sample_key (AnchorPeersValue _) = ''AnchorPeers''"
| "sample_key (ChannelCreationPolicyValue _) = ''ChannelCreationPolicy''"

definition sample_lib :: configtx_lib where
  "sample_lib = \<lparr>cx_Duration = (\<lambda>t. Ok 500), cx_DurationText = (\<lambda>t. ''2s''), cx_ImplicitMeta = Ok,
     cx_Signature = Ok, cx_Key = sample_key, cx_RaftBytes = (\<lambda>m. Ok ''raft''),
     cx_VerifyingMsp = (\<lambda>dir ID t. Ok ID), cx_Block = (\<lambda>ch t k cg. Ok (ch @ k))\<rparr>"

definition sample_cluster :: "cluster_world cluster_deps" where
  "sample_cluster = \<lparr>cl_lib = sample_lib,
     cl_nonce = (\<lambda>w. (Ok (show_nat (cw_blocks w)), w\<lparr>cw_blocks := Suc (cw_blocks w)\<rparr>)),
     cl_now = (\<lambda>w. (0, w)), cl_max_name_length = (\<lambda>t. Ok None), cl_msp_bytes = (\<lambda>m. Ok (fm_Name m)), cl_polls = 1\<rparr>"

definition sample_node_deps :: "cluster_world node_deps" where
  "sample_node_deps = undefined\<lparr>
     nd_secrets := \<lparr>sa_get = (\<lambda>n s w. (Ok (Some [(''cert.pem'', ''C'')]), w)), sa_create = (\<lambda>n s l m w. (Ok (), w)),
       sa_update = (\<lambda>n s m w. (Ok (), w)), sa_order = keys\<rparr>,
     nd_objects := cluster_secret_client, nd_selector := (\<lambda>t. Ok ()),
     nd_list := (\<lambda>parent s w. (Ok (List.map_filter (\<lambda>k. cw_nodes w (parent @ node_name k, s)) [1..3]), w)),
     nd_Time := (\<lambda>w. (''now'', w))\<rparr>"

definition sample_cluster_deps :: "cluster_world odeps" where
  "sample_cluster_deps = undefined\<lparr>d_client := cluster_cr_client, d_getenv := (\<lambda>v. '''')\<rparr>"

definition sample_cluster_cr :: orderer_cr where
  "sample_cluster_cr = \<lparr>TypeKind = ''IBPOrderer'', Name = ''os'', Namespace = ''ns'', Labels = [], Spec = \<lparr>
     of_LicenseAccept = True, of_FabricVersion = ''2.5.1'', of_Arch = [], of_RegistryURL = '''', of_Images = None,
     of_ConfigOverride = None, of_OrdererType = ''etcdraft'', of_OrgName = ''org'', of_MSPID = ''OrgMSP'',
     of_SystemChannelName = ''sys'', of_GenesisProfile = '''', of_GenesisBlock = '''', of_Secret = None,
     of_Action = \<lparr>oa_Restart = False, oa_Reenroll_Ecert = False, oa_Reenroll_TLSCert = False,
       oa_Reenroll_EcertNewKey = False, oa_Reenroll_TLSCertNewKey = False, oa_Enroll_Ecert = False,
       oa_Enroll_TLSCert = False\<rparr>,
     of_DisableNodeOU = None, of_HSM = None, of_Domain = ''example.org'', of_Zone = '''', of_Region = '''',
     of_Replicas = None, of_ExternalAddress = '''', of_PVCOrderer = '''', of_NumSecondsWarningPeriod = 0,
     of_IsPrecreate = None, of_UseChannelLess = None, of_NodeNumber = None, of_ClusterSize = 2,
     of_ClusterLocation = None, of_ClusterConfigOverride = None,
     of_ClusterSecret = Some [Some \<lparr>sr_Enrollment = None, sr_MSP = ''msp1''\<rparr>, Some \<lparr>sr_Enrollment = None, sr_MSP = ''msp2''\<rparr>]\<rparr>,
     CRStatus = no_status\<lparr>Type := Deploying, SVersion := Operator_version\<rparr>\<rparr>"

text \<open>A world in which one node has a resource, and one in which both nodes have been precreated.\<close>

definition precreated_node :: "int \<Rightarrow> orderer_cr" where
  "precreated_node k = (node_cr sample_cluster_deps sample_cluster_cr k)\<lparr>CRStatus := no_status\<lparr>Type := Precreated\<rparr>\<rparr>"

definition one_node :: cluster_world where
  "one_node = \<lparr>cw_nodes = [(''osnode1'', ''ns'') \<mapsto> precreated_node 1], cw_secrets = Map.empty, cw_blocks = 7\<rparr>"

definition resumed_world :: cluster_world where
  "resumed_world = \<lparr>cw_nodes = [(''osnode1'', ''ns'') \<mapsto> precreated_node 1, (''osnode2'', ''ns'') \<mapsto> precreated_node 2],
     cw_secrets = [(''osnode1-genesis'', ''ns'') \<mapsto> [(''orderer.block'', ''sys6'')]], cw_blocks = 7\<rparr>"

text \<open>What the sample computes.\<close>

lemma sample_parts [simp]:
  "nd_objects sample_node_deps = cluster_secret_client" "d_client sample_cluster_deps = cluster_cr_client"
  "nd_list sample_node_deps parent s w = (Ok (List.map_filter (\<lambda>k. cw_nodes w (parent @ node_name k, s)) [1..3]), w)"
  "nd_selector sample_node_deps t = Ok ()" "nd_Time sample_node_deps w = (''now'', w)"
  "sa_get (nd_secrets sample_node_deps) name ns w = (Ok (Some [(''cert.pem'', ''C'')]), w)"
  "secret_values (nd_secrets sample_node_deps) [(''cert.pem'', ''C'')] = [''C'']"
  "d_getenv sample_cluster_deps v = ''''"
  by (simp_all add: sample_node_deps_def sample_cluster_deps_def secret_values_def)

lemma sample_names [simp]: "node_name 1 = ''node1''" "node_name 2 = ''node2''" "node_name 3 = ''node3''" "show_nat 7 = ''7''"
  "to_lower ''etcdraft'' = ''etcdraft''"
  by code_simp+

lemma sample_fields [simp]:
  "of_NodeNumber (Spec sample_cluster_cr) = None" "of_LicenseAccept (Spec sample_cluster_cr)" "\<not> ChannelLess (Spec sample_cluster_cr)"
  "SVersion (CRStatus sample_cluster_cr) = Operator_version" "Type (CRStatus sample_cluster_cr) = Deploying"
  "of_Domain (Spec sample_cluster_cr) = ''example.org''" "of_GenesisBlock (Spec sample_cluster_cr) = ''''"
  "of_OrdererType (Spec sample_cluster_cr) = ''etcdraft''" "of_ClusterLocation (Spec sample_cluster_cr) = None"
  "of_ClusterConfigOverride (Spec sample_cluster_cr) = None"
  "of_ClusterSecret (Spec sample_cluster_cr) = Some [Some \<lparr>sr_Enrollment = None, sr_MSP = ''msp1''\<rparr>,
     Some \<lparr>sr_Enrollment = None, sr_MSP = ''msp2''\<rparr>]"
  "of_ClusterSize (Spec sample_cluster_cr) = 2" "of_GenesisProfile (Spec sample_cluster_cr) = ''''"
  "of_MSPID (Spec sample_cluster_cr) = ''OrgMSP''" "of_OrgName (Spec sample_cluster_cr) = ''org''"
  "of_SystemChannelName (Spec sample_cluster_cr) = ''sys''" "Name sample_cluster_cr = ''os''" "Namespace sample_cluster_cr = ''ns''"
  "cl_lib sample_cluster = sample_lib" "cl_polls sample_cluster = 1" "cl_now sample_cluster w = (0, w)"
  "cl_nonce sample_cluster w = (Ok (show_nat (cw_blocks w)), w\<lparr>cw_blocks := Suc (cw_blocks w)\<rparr>)"
  "cl_msp_bytes sample_cluster m = Ok (fm_Name m)"
  "cx_Duration sample_lib t = Ok 500" "cx_DurationText sample_lib k = ''2s''" "cx_ImplicitMeta sample_lib t = Ok t"
  "cx_Key sample_lib = sample_key" "cx_RaftBytes sample_lib r = Ok ''raft''" "cx_Block sample_lib ch k n cg = Ok (ch @ n)"
  by (simp_all add: sample_cluster_cr_def ChannelLess_def sample_cluster_def sample_lib_def)

lemma sample_node_names: "GetNodes sample_cluster_cr = [''node1'', ''node2'']"
  by (simp add: GetNodes_def upto.simps sample_names)

lemma sample_host: "add_host_port sample_node_deps sample_cluster sample_cluster_cr node p w =
   (seq_r (AddOrdererAddress (node_fqdn sample_cluster_cr node @ '':443'') p)
     (AddRaftConsentingNode \<lparr>cn_Host = node_fqdn sample_cluster_cr node, cn_Port = 443,
        cn_ClientTlsCert = Some ''C'', cn_ServerTlsCert = Some ''C''\<rparr>), w)"
  by (simp add: add_host_port_def sdata_def numeral_eq_Suc Let_def)

lemma sample_msp: "GetMSPConfig sample_node_deps sample_cluster sample_cluster_cr ID w = (Ok ID, w)"
  by (simp add: GetMSPConfig_def node1_certs_def sdata_def first_cert_def)

lemma sample_block: "GenerateGenesisBlock sample_node_deps sample_cluster sample_cluster_cr w =
  (Ok (''sys'' @ show_nat (cw_blocks w)), w\<lparr>cw_blocks := Suc (cw_blocks w)\<rparr>)"
  by (simp add: GenerateGenesisBlock_def AddHostPortToProfile_def sample_node_names sample_host sample_msp
      LoadInitialProfile_def GetProfile_def GetGenesisDefaults_def AddOrgToOrderer_def on_orderer_def Let_def
      ValidateOrg_def CompleteProfileInitialization_def CompleteOrdererInitialization_def consensus_defs
      meta_policy_def AddOrdererAddress_def AddRaftConsentingNode_def GenerateBlock_def NewChannelConfigGroup_def
      NewOrdererGroup_def NewConsortiumsGroup_def NewConsortiumGroup_def consensus_metadata_def NewConfigGroup_def
      addPolicies_def add_parsed_def ImplicitMetaPolicyType_def add_orderer_org_def NewOrdererOrgGroup_def)

lemma precreated_fields [simp]:
  "Name (precreated_node k) = ''os'' @ node_name k" "Namespace (precreated_node k) = ''ns''"
  "Type (CRStatus (precreated_node k)) = Precreated" "of_GenesisBlock (Spec (precreated_node k)) = ''''"
  by (simp_all add: precreated_node_def node_cr_def entry_at_def Let_def)

definition deploying_state :: "cluster_world node_state" where
  "deploying_state = \<lparr>the_instance = sample_cluster_cr, RenewCertTimers = [], running = [], next_timer = 0,
     the_manager = \<lparr>WaitTime = 600, Timers = []\<rparr>, world = one_node\<rparr>"

end
