(* ===== verification/OrdererNodeProps.thy ===== *)
theory OrdererNodeProps
  imports OrdererNodeTimers OrdererClusterSample
begin

text \<open>
  What the offering of an ordering node does for the status of its parent, and what its migrations make of
  the configuration.
\<close>

subsection \<open>The parent\<close>

definition some_in :: "string \<Rightarrow> orderer_cr list \<Rightarrow> bool" where
  "some_in t nodes \<longleftrightarrow> (\<exists>node\<in>set nodes. Type (CRStatus node) = t)"

lemma nodes_in_empty [simp]: "nodes_in t nodes = [] \<longleftrightarrow> \<not> some_in t nodes"
  by (auto simp: nodes_in_def some_in_def filter_empty_conv)


text \<open>A cluster without a channel, of which one node is deployed and the other has no state yet.\<close>

definition half_deployed :: cluster_world where
  "half_deployed = \<lparr>cw_nodes = [(''os'', ''ns'') \<mapsto> sample_cluster_cr,
       (''osnode1'', ''ns'') \<mapsto> (precreated_node 1)\<lparr>CRStatus := no_status\<lparr>Type := Deployed\<rparr>\<rparr>,
       (''osnode2'', ''ns'') \<mapsto> (precreated_node 2)\<lparr>CRStatus := no_status\<rparr>],
     cw_secrets = Map.empty, cw_blocks = 0\<rparr>"


subsection \<open>Migrations\<close>

text \<open>C23: the migration to 2.4 goes by the update that asks for it, and reads the override of the instance by the
  version the instance has by then.  When that is another version than 2.4 (a user moved on to 2.5 before
  the update was handled), the migration does not return an error: with all collaborators succeeding it
  panics in the type assertion of \<open>MergeWith\<close>, after it has rewritten the environment of the node.\<close>

theorem stale_migration_panics:
  assumes "nd_GetInitOrderer n i (node_GetInitStoragePath n i) w = (Ok io, w1)"
    and "nd_ReadOrdererFile n CoreV24 w1 = (Ok config, w2)" and "oc_version config = CoreV24"
    and "nd_get_cm n (Name i @ ''-env'') (Namespace i) w2 = (Ok cm, w3)" and "cm_Data cm \<noteq> None"
    and "intermediates_exist n i w3 = (Ok found, w4)"
    and "\<And>cm. nd_update_cm n i cm w4 = (Ok (), w5 cm)"
    and "node_GetConfigOverride n i = Ok co" and "oc_version co = node_version (of_FabricVersion (Spec i))"
    and "node_version (of_FabricVersion (Spec i)) \<noteq> CoreV24"
  shows "\<exists>cm'. FabricOrdererMigrationV2_4 d n i w = (Panic ''interface conversion'', w5 cm')"
proof -
  let ?v = "of_FabricVersion (Spec i)"
  obtain cm' where env: "(if String_EqualWithoutTag ?v V2_4_1 \<or> String_GreaterThan ?v V2_4_1
      then set_env (admin_env False found) cm else Ok cm) = Ok cm'"
    using assms(5) by (cases "String_EqualWithoutTag ?v V2_4_1 \<or> String_GreaterThan ?v V2_4_1")
      (auto simp: set_env_def)
  have "write_migrated d n i (io\<lparr>io_Config := config\<lparr>oc_AdminTLS_Enabled := Some True,
      oc_AdminTLS_ClientAuthRequired := Some True\<rparr>\<rparr>) w = (Panic ''interface conversion'', w)" for w
    using assms(3,8-10) by (simp add: write_migrated_def OverrideConfig_def MergeWith_def)
  with assms(1,2,4,6,7) env show ?thesis
    by (auto simp: FabricOrdererMigrationV2_4_def migrate_env_def read_default_def Let_def)
qed

text \<open>The configuration a migration writes, for a node whose HSM is behind a proxy.\<close>

lemma UsingPKCS11_on_pkcs11: "on_pkcs11 f c = Ok c' \<Longrightarrow> UsingPKCS11 c' = UsingPKCS11 c"
  by (auto simp: on_pkcs11_def UsingPKCS11_def Let_def split: option.splits)

lemma write_migrated_Ok:
  assumes "write_migrated d n i io w = (Ok u, w')" and "node_UsingHSMProxy i"
  obtains co merged c w1 where "node_GetConfigOverride n i = Ok co" and "nd_merge n (io_Config io) co = Ok merged"
    and "nd_CreateOrUpdateConfigMap n i (Some c) w1 = (Ok (), w')" and "UsingPKCS11 c = UsingPKCS11 merged"
    and "UsingPKCS11 c \<Longrightarrow> pkcs11_library c =
      Some (if io_UsingHSMProxy io then ''/usr/local/lib/libpkcs11-proxy.so''
        else case pkcs11_library merged of None \<Rightarrow> '''' | Some l \<Rightarrow> l)"
proof -
  from assms obtain co c w1 where co: "node_GetConfigOverride n i = Ok co"
    and c: "MergeWith (nd_merge n) co (io_UsingHSMProxy io) (io_Config io) = Ok c"
    and written: "nd_CreateOrUpdateConfigMap n i (Some c) w1 = (Ok (), w')"
    by (auto simp: write_migrated_def OverrideConfig_def set_hsm_library_def elim!: bind_r_OkE split: go_result.splits)
  from c obtain merged where merged: "nd_merge n (io_Config io) co = Ok merged"
    and set: "if UsingPKCS11 merged then SetPKCS11Defaults (io_UsingHSMProxy io) merged = Ok c else c = merged"
    by (auto simp: MergeWith_def split: if_splits go_result.splits)
  from set have "UsingPKCS11 c = UsingPKCS11 merged"
    by (auto simp: SetPKCS11Defaults_def dest: UsingPKCS11_on_pkcs11 split: if_splits)
  with set SetPKCS11Defaults_library [of "io_UsingHSMProxy io" merged c] that [OF co merged written] show ?thesis
    by (auto split: if_splits)
qed

text \<open>For a node whose HSM is behind a proxy and whose configuration uses PKCS11, the migrations to 2.0 and 2.5
  write a configuration that loads the proxy's library.  The migration to 2.4 does not: it leaves the
  library to what the default file and the override say, since it never tells the configuration that the
  node uses a proxy.\<close>

lemma migrated_proxy_library:
  assumes "node_UsingHSMProxy i"
    and "nd_GetInitOrderer n i (node_GetInitStoragePath n i) w = (Ok io, w1)" and "\<not> io_UsingHSMProxy io"
    and "proxied = (\<lambda>c. UsingPKCS11 c \<longrightarrow> pkcs11_library c = Some ''/usr/local/lib/libpkcs11-proxy.so'')"
    and "written = (\<lambda>c w'. \<exists>w2. nd_CreateOrUpdateConfigMap n i (Some c) w2 = (Ok (), w'))"
  shows "(FabricOrdererMigrationV2_0 d n i w = (Ok (), w') \<longrightarrow> (\<exists>c. written c w' \<and> proxied c)) \<and>
    (FabricOrdererMigrationV2_5 d n i w = (Ok (), w') \<longrightarrow> (\<exists>c. written c w' \<and> proxied c)) \<and>
    (FabricOrdererMigrationV2_4 d n i w = (Ok (), w') \<longrightarrow>
      (\<exists>w3 default co merged c. fst (nd_ReadOrdererFile n CoreV24 w3) = Ok default \<and> node_GetConfigOverride n i = Ok co \<and>
        nd_merge n (default\<lparr>oc_AdminTLS_Enabled := Some True, oc_AdminTLS_ClientAuthRequired := Some True\<rparr>) co = Ok merged \<and>
        written c w' \<and>
        UsingPKCS11 c = UsingPKCS11 merged \<and>
        (UsingPKCS11 c \<longrightarrow> pkcs11_library c = Some (case pkcs11_library merged of None \<Rightarrow> '''' | Some l \<Rightarrow> l))))"
proof (intro conjI impI)
  assume "FabricOrdererMigrationV2_0 d n i w = (Ok (), w')"
  with assms(1,2) obtain c w2 where "write_migrated d n i (io\<lparr>io_UsingHSMProxy := True, io_Config := c\<rparr>) w2 = (Ok (), w')"
    by (auto simp: FabricOrdererMigrationV2_0_def Let_def elim!: bind_r_OkE)
  then show "\<exists>c. written c w' \<and> proxied c"
    by (rule write_migrated_Ok [OF _ assms(1)]) (auto simp: assms(4,5))
next
  assume "FabricOrdererMigrationV2_5 d n i w = (Ok (), w')"
  with assms(1,2) obtain c w2 where "write_migrated d n i (io\<lparr>io_UsingHSMProxy := True, io_Config := c\<rparr>) w2 = (Ok (), w')"
    by (auto simp: FabricOrdererMigrationV2_5_def migrate_env_def Let_def elim!: bind_r_OkE)
  then show "\<exists>c. written c w' \<and> proxied c"
    by (rule write_migrated_Ok [OF _ assms(1)]) (auto simp: assms(4,5))
next
  assume "FabricOrdererMigrationV2_4 d n i w = (Ok (), w')"
  with assms(2) obtain default w2 where default: "fst (nd_ReadOrdererFile n CoreV24 w1) = Ok default"
    and "write_migrated d n i (io\<lparr>io_Config := default\<lparr>oc_AdminTLS_Enabled := Some True,
      oc_AdminTLS_ClientAuthRequired := Some True\<rparr>\<rparr>) w2 = (Ok (), w')"
    by (auto simp: FabricOrdererMigrationV2_4_def migrate_env_def read_default_def Let_def elim!: bind_r_OkE)
  from this(2) show "\<exists>w3 default co merged c. fst (nd_ReadOrdererFile n CoreV24 w3) = Ok default \<and>
        node_GetConfigOverride n i = Ok co \<and>
        nd_merge n (default\<lparr>oc_AdminTLS_Enabled := Some True, oc_AdminTLS_ClientAuthRequired := Some True\<rparr>) co = Ok merged \<and>
        written c w' \<and> UsingPKCS11 c = UsingPKCS11 merged \<and>
        (UsingPKCS11 c \<longrightarrow> pkcs11_library c = Some (case pkcs11_library merged of None \<Rightarrow> '''' | Some l \<Rightarrow> l))"
  proof (rule write_migrated_Ok [OF _ assms(1)])
    fix co merged c w4
    assume "node_GetConfigOverride n i = Ok co" "nd_CreateOrUpdateConfigMap n i (Some c) w4 = (Ok (), w')"
      and "nd_merge n (io_Config (io\<lparr>io_Config := default\<lparr>oc_AdminTLS_Enabled := Some True,
        oc_AdminTLS_ClientAuthRequired := Some True\<rparr>\<rparr>)) co = Ok merged"
      and "UsingPKCS11 c = UsingPKCS11 merged"
      and "UsingPKCS11 c \<Longrightarrow> pkcs11_library c = Some (if io_UsingHSMProxy (io\<lparr>io_Config := default\<lparr>oc_AdminTLS_Enabled :=
        Some True, oc_AdminTLS_ClientAuthRequired := Some True\<rparr>\<rparr>) then ''/usr/local/lib/libpkcs11-proxy.so''
        else case pkcs11_library merged of None \<Rightarrow> '''' | Some l \<Rightarrow> l)"
    with assms(3) default show ?thesis
      by (intro exI [of _ w1] exI [of _ default] exI [of _ co] exI [of _ merged] exI [of _ c]) (auto simp: assms(5))
  qed
qed

text \<open>A node with a proxied HSM, whose world is the list of configurations that were written.\<close>

definition hsm_node :: "string \<Rightarrow> orderer_cr" where
  "hsm_node v = sample_cluster_cr\<lparr>Name := ''os1'',
     Spec := (Spec sample_cluster_cr)\<lparr>of_FabricVersion := v, of_HSM := Some ''tcp://proxy:2345''\<rparr>\<rparr>"

definition hsm_file :: "core_version \<Rightarrow> orderer_config" where
  "hsm_file v = (empty_orderer_config v)\<lparr>oc_BCCSP := Some \<lparr>bc_Default = ''PKCS11'', bc_PKCS11 = None, bc_SW = ''''\<rparr>\<rparr>"

definition migration_deps :: "orderer_config list node_deps" where
  "migration_deps = undefined\<lparr>
     nd_GetInitOrderer := (\<lambda>i path w. (Ok \<lparr>io_UsingHSMProxy = False, io_Config = empty_orderer_config CoreV1, io_text = ''''\<rparr>, w)),
     nd_ReadOrdererFile := (\<lambda>v w. (Ok (hsm_file v), w)),
     nd_get_cm := (\<lambda>name ns w. (Ok \<lparr>cm_Name = name, cm_Namespace = ns, cm_Labels = [], cm_Data = Some []\<rparr>, w)),
     nd_update_cm := (\<lambda>i cm w. (Ok (), w)),
     nd_secrets := \<lparr>sa_get = (\<lambda>n s w. (Fail (NotFound n), w)), sa_create = (\<lambda>n s l m w. (Ok (), w)),
       sa_update = (\<lambda>n s m w. (Ok (), w)), sa_order = keys\<rparr>,
     nd_merge := (\<lambda>c co. Ok c),
     nd_CreateOrUpdateConfigMap := (\<lambda>i c w. (Ok (), w @ [the c]))\<rparr>"

lemma migration_parts [simp]:
  "nd_GetInitOrderer migration_deps i path w =
     (Ok \<lparr>io_UsingHSMProxy = False, io_Config = empty_orderer_config CoreV1, io_text = ''''\<rparr>, w)"
  "nd_ReadOrdererFile migration_deps v w = (Ok (hsm_file v), w)"
  "nd_get_cm migration_deps name ns w = (Ok \<lparr>cm_Name = name, cm_Namespace = ns, cm_Labels = [], cm_Data = Some []\<rparr>, w)"
  "nd_update_cm migration_deps i cm w = (Ok (), w)" "nd_merge migration_deps c co = Ok c"
  "nd_CreateOrUpdateConfigMap migration_deps i y w = (Ok (), w @ [the y])"
  "intermediates_exist migration_deps i w = (Ok False, w)"
  "node_GetConfigOverride migration_deps (hsm_node ver) = Ok (empty_orderer_config (node_version ver))"
  "node_UsingHSMProxy (hsm_node ver)" "of_FabricVersion (Spec (hsm_node ver)) = ver" "oc_version (hsm_file x) = x"
  by (simp_all add: migration_deps_def intermediates_exist_def IntermediateSecretExists_def node_GetConfigOverride_def
      hsm_node_def sample_cluster_cr_def node_UsingHSMProxy_def hsm_file_def empty_orderer_config_def)

lemma sample_versions [simp]: "node_version ''2.4.1'' = CoreV24" "node_version ''2.5.1'' = CoreV25"
  by code_simp+

definition quiet_deps :: "orderer_config list odeps" where
  "quiet_deps = undefined\<lparr>d_getenv := (\<lambda>v. '''')\<rparr>"

lemma stale_migration_panics_witness:
  "FabricOrdererMigrationV2_4 quiet_deps migration_deps (hsm_node ''2.5.1'') [] = (Panic ''interface conversion'', [])"
proof -
  have "oc_version (empty_orderer_config (node_version ''2.5.1'')) = node_version (of_FabricVersion (Spec (hsm_node ''2.5.1'')))"
    by (simp add: empty_orderer_config_def)
  from stale_migration_panics [where d = quiet_deps and ?w5.0 = "\<lambda>_. []", OF migration_parts(1,2) _ migration_parts(3) _
      migration_parts(7,4,8) this]
  show ?thesis by simp
qed

lemma migrated_proxy_library_witness:
  "\<exists>c. FabricOrdererMigrationV2_4 quiet_deps migration_deps (hsm_node ''2.4.1'') [] = (Ok (), [c]) \<and>
    UsingPKCS11 c \<and> pkcs11_library c = Some ''''"
proof -
  let ?i = "hsm_node ''2.4.1''"
  have "\<exists>c. FabricOrdererMigrationV2_4 quiet_deps migration_deps ?i [] = (Ok (), [c])"
    by (simp add: FabricOrdererMigrationV2_4_def migrate_env_def read_default_def Let_def set_env_def write_migrated_def
        OverrideConfig_def MergeWith_def set_hsm_library_def empty_orderer_config_def SetPKCS11Defaults_def on_pkcs11_def
        hsm_file_def split: option.splits)
  moreover have "to_lower ''PKCS11'' = ''pkcs11''" by code_simp
  ultimately obtain c where lower: "to_lower ''PKCS11'' = ''pkcs11''"
    and c: "FabricOrdererMigrationV2_4 quiet_deps migration_deps ?i [] = (Ok (), [c])" by blast
  from migrated_proxy_library [of ?i migration_deps "[]", OF _ _ _ refl refl, THEN conjunct2, THEN conjunct2,
      THEN mp, OF _ _ _ c]
  show ?thesis
    using c by (auto simp: lower hsm_file_def UsingPKCS11_def pkcs11_library_def)
qed

end
