(* ===== verification/OrdererClusterProps.thy ===== *)
theory OrdererClusterProps
  imports OrdererClusterSample ClientProps
begin

text \<open>
  What the cluster offering promises: which resources it creates for the nodes, what is in the genesis
  block, and which block every node ends up with.
\<close>

subsection \<open>Genesis secrets\<close>

text \<open>
  A client whose secrets are \<open>sec\<close>, by name and namespace: creating one that exists fails, and only a
  creation that succeeds adds to them.
\<close>

definition genesis_store ::
  "(owned_object, 'w) k8s_client \<Rightarrow> ('w \<Rightarrow> string \<times> string \<Rightarrow> string gomap option) \<Rightarrow> bool" where
  "genesis_store c sec \<longleftrightarrow>
     (\<forall>x. kc_apply c x = x) \<and> (\<forall>owner x. kc_controller_ref c owner x = Owned x) \<and>
     (\<forall>s w x w'. kc_create c (SecretObject s) w = (Ok (), x, w') \<longrightarrow>
        sec w (gs_Name s, gs_Namespace s) = None \<and>
        sec w' = (sec w)((gs_Name s, gs_Namespace s) \<mapsto> gs_Data s)) \<and>
     (\<forall>s w e x w'. kc_create c (SecretObject s) w = (Fail e, x, w') \<longrightarrow>
        sec w' = sec w \<and> (IgnoreAlreadyExistError e = Ok () \<longrightarrow> sec w (gs_Name s, gs_Namespace s) \<noteq> None)) \<and>
     (\<forall>name ns w. sec (snd (kc_get c name ns w)) = sec w) \<and>
     (\<forall>name ns w x w'. kc_get c name ns w = (Ok x, w') \<longrightarrow> sec w (name, ns) \<noteq> None)"

text \<open>Nothing else that the genesis step calls touches these secrets.\<close>

definition leaves_secrets ::
  "'w odeps \<Rightarrow> 'w node_deps \<Rightarrow> 'w cluster_deps \<Rightarrow> ('w \<Rightarrow> 'x) \<Rightarrow> bool" where
  "leaves_secrets d n c F \<longleftrightarrow>
     (\<forall>name ns. untouched F (sa_get (nd_secrets n) name ns)) \<and> untouched F (cl_nonce c) \<and> untouched F (cl_now c) \<and>
     (\<forall>name ns. untouched F (kc_get (d_client d) name ns)) \<and>
     (\<forall>base obj w. F (snd (snd (kc_patch (d_client d) base obj w))) = F w) \<and>
     (\<forall>k w. F (kc_sleep (d_client d) k w) = F w)"

definition genesis_keys :: "orderer_cr list \<Rightarrow> (string \<times> string) set" where
  "genesis_keys nodes = (\<lambda>node. (Name node @ ''-genesis'', Namespace node)) ` set nodes"

text \<open>The secrets after a round: those that were there, and the block for the nodes that had none.\<close>

definition with_block ::
  "string \<Rightarrow> orderer_cr list \<Rightarrow> (string \<times> string \<Rightarrow> string gomap option) \<Rightarrow> string \<times> string \<Rightarrow> string gomap option" where
  "with_block block nodes sec k =
     (case sec k of
        Some b \<Rightarrow> Some b
      | None \<Rightarrow> if k \<in> genesis_keys nodes then Some [(''orderer.block'', block)] else None)"

lemma client_Create_secret:
  assumes "genesis_store c sec" and "client_Create c (SecretObject s) (Some opt) w = (Ok u, x, w')"
  shows "sec w' = (case sec w (gs_Name s, gs_Namespace s) of
    Some b \<Rightarrow> sec w | None \<Rightarrow> (sec w)((gs_Name s, gs_Namespace s) \<mapsto> gs_Data s))"
proof -
  from assms(1) have plain: "kc_apply c y = y" "kc_controller_ref c owner y = Owned y" for y owner
    by (simp_all add: genesis_store_def)
  obtain r y w1 where step: "kc_create c (SecretObject s) w = (r, y, w1)" by (metis prod_cases3)
  with assms(2) plain have r: "w1 = w'" "r = Ok () \<or> (\<exists>e. r = Fail e \<and> IgnoreAlreadyExistError e = Ok ())"
    by (auto simp: client_Create_def with_owner_def setControllerReference_def IgnoreAlreadyExistError_def
        split: option.splits if_splits go_result.splits)
  from r(2) show ?thesis
  proof
    assume "r = Ok ()"
    with assms(1) step r(1) show ?thesis by (simp add: genesis_store_def)
  next
    assume "\<exists>e. r = Fail e \<and> IgnoreAlreadyExistError e = Ok ()"
    then obtain e where "kc_create c (SecretObject s) w = (Fail e, y, w')" "IgnoreAlreadyExistError e = Ok ()"
      using step r(1) by blast
    with assms(1) have "sec w' = sec w \<and> sec w (gs_Name s, gs_Namespace s) \<noteq> None"
      unfolding genesis_store_def by blast
    then show ?thesis by auto
  qed
qed

lemma GenerateGenesisSecretForNodes_Ok:
  assumes "genesis_store (nd_objects n) sec"
  shows "GenerateGenesisSecretForNodes n block nodes w = (Ok u, w') \<Longrightarrow> sec w' = with_block block nodes (sec w)"
proof (induction nodes arbitrary: w)
  case Nil
  then show ?case by (auto simp: GenerateGenesisSecretForNodes_def with_block_def genesis_keys_def split: option.splits)
next
  case (Cons node nodes)
  let ?s = "genesis_secret_of block node"
  from Cons.prems obtain x w1 where
    create: "client_Create (nd_objects n) (SecretObject ?s) (Some \<lparr>oo_Owner = Some (NodeObject node), oo_Scheme = True\<rparr>) w =
      (Ok (), x, w1)" and rest: "GenerateGenesisSecretForNodes n block nodes w1 = (Ok u, w')"
    by (auto simp: GenerateGenesisSecretForNodes_def elim!: bind_r_OkE split: prod.splits)
  show ?case
    using client_Create_secret [OF assms create] Cons.IH [OF rest]
    by (auto simp: with_block_def genesis_keys_def genesis_secret_of_def fun_eq_iff split: option.splits if_splits)
qed

lemma genesis_secrets_found_Ok:
  assumes "genesis_store (nd_objects n) sec"
  shows "genesis_secrets_found n nodes w = (Ok k, w') \<Longrightarrow>
    sec w' = sec w \<and> k \<le> length nodes \<and> (k = length nodes \<longrightarrow> (\<forall>key\<in>genesis_keys nodes. sec w key \<noteq> None))"
proof (induction nodes arbitrary: w k)
  case (Cons node nodes)
  obtain r w1 where get: "kc_get (nd_objects n) (Name node @ ''-genesis'') (Namespace node) w = (r, w1)" by fastforce
  with assms have same: "sec w1 = sec w" unfolding genesis_store_def by (metis snd_conv)
  from Cons.prems get show ?case
  proof (cases r)
    case (Ok x)
    with get assms have "sec w (Name node @ ''-genesis'', Namespace node) \<noteq> None"
      unfolding genesis_store_def by blast
    with Cons get Ok same show ?thesis by (fastforce simp: genesis_keys_def elim!: bind_r_OkE)
  qed (use Cons get same in \<open>fastforce+\<close>)
qed (simp add: genesis_keys_def)

lemma leaves_poll: "untouched F get \<Longrightarrow> untouched F (poll_get k get)"
proof (induction k)
  case (Suc k)
  then show ?case unfolding untouched_def by (auto split: prod.splits go_result.splits) (metis snd_conv)+
qed (simp add: untouched_def)

lemma leaves_add_hosts: "leaves_secrets d n c F \<Longrightarrow> untouched F (add_hosts n c i nodes p)"
proof (induction nodes arbitrary: p)
  case (Cons node nodes)
  then have "untouched F (sa_get (nd_secrets n) name ns)" for name ns by (simp add: leaves_secrets_def)
  with Cons show ?case
    unfolding add_hosts.simps [abs_def] add_host_port_def Let_def
    by (intro leaves_bind leaves_wrap leaves_poll) auto
qed (simp add: untouched_def)

lemma leaves_GetMSPConfig: "leaves_secrets d n c F \<Longrightarrow> untouched F (GetMSPConfig n c i ID)"
proof -
  assume "leaves_secrets d n c F"
  then have "untouched F (node1_certs n i prefix kind b)" for prefix kind b
    by (auto simp: node1_certs_def leaves_secrets_def untouched_def split: prod.splits go_result.splits) (metis snd_conv)+
  then show ?thesis unfolding GetMSPConfig_def Let_def by (intro leaves_bind leaves_pair)
qed

lemma leaves_msp_configs: "leaves_secrets d n c F \<Longrightarrow> untouched F (msp_configs n c i orgs m)"
proof (induction orgs arbitrary: m)
  case (Cons org orgs)
  then show ?case
    unfolding msp_configs.simps [abs_def] by (intro leaves_bind leaves_wrap leaves_GetMSPConfig) auto
qed (simp add: untouched_def)

lemma leaves_GenerateGenesisBlock: "leaves_secrets d n c F \<Longrightarrow> untouched F (GenerateGenesisBlock n c i)"
proof -
  assume F: "leaves_secrets d n c F"
  have block: "untouched F (GenerateBlock (cl_lib c) (cl_nonce c) (cl_now c) ch p m)" for ch p m
  proof -
    from F have "untouched F (cl_nonce c)" "untouched F (cl_now c)" by (simp_all add: leaves_secrets_def)
    then show ?thesis
      by (auto simp: untouched_def GenerateBlock_def bind_r_def split: prod.splits go_result.splits) (metis snd_conv)+
  qed
  have "untouched F (\<lambda>w. case pr_Orderer p of None \<Rightarrow> (Panic ''nil pointer dereference'', w)
      | Some conf \<Rightarrow> bind_r (msp_configs n c i (xo_Organizations conf) [] w) (\<lambda>mspConfigs w.
          GenerateBlock (cl_lib c) (cl_nonce c) (cl_now c) (of_SystemChannelName (Spec i)) p mspConfigs w))" for p
    using leaves_msp_configs [OF F] block by (cases "pr_Orderer p") (simp_all add: leaves_bind)
  then show ?thesis
    unfolding GenerateGenesisBlock_def AddHostPortToProfile_def
    by (intro leaves_bind leaves_pair leaves_add_hosts [OF F])
qed

lemma leaves_patch_loop:
  assumes "\<And>obj w. F (snd (snd (attempt obj w))) = F w" and "\<And>k w. F (kc_sleep cl k w) = F w"
  shows "F (snd (snd (patch_loop cl attempt retry j obj w))) = F w"
proof (induction "nat (retry - j)" arbitrary: j obj w rule: less_induct)
  case less
  show ?case
  proof (cases "j < retry")
    case True
    obtain r x w1 where a: "attempt obj w = (r, x, w1)" by (metis prod_cases3)
    with assms(1) [of obj w] have "F w1 = F w" by simp
    moreover have "F (snd (snd (patch_loop cl attempt retry (j + 1) y v))) = F v" for y v
      using True by (intro less) simp
    ultimately show ?thesis using True a assms(2) by (cases r) (simp_all add: patch_loop_step)
  qed (simp add: patch_loop_end)
qed

lemma leaves_client_Patch:
  assumes "leaves_secrets d n c F"
  shows "F (snd (snd (client_Patch (d_client d) obj (Resilient k) w))) = F w"
proof -
  from assms have "F (snd (snd (resilientPatch (d_client d) (kc_patch (d_client d)) obj w))) = F w" for obj w
    by (auto simp: leaves_secrets_def untouched_def resilientPatch_def split: prod.splits go_result.splits)
      (metis snd_conv)+
  with assms show ?thesis by (simp add: ResilientPatch_def leaves_patch_loop leaves_secrets_def)
qed

lemma leaves_each: "(\<And>x. untouched F (f x)) \<Longrightarrow> untouched F (each_r f xs)"
  by (induction xs) (simp_all add: untouched_def bind_r_def split: go_result.splits)

lemma leaves_UpdateNodes:
  assumes "leaves_secrets d n c F"
  shows "untouched F (UpdateNodesWithGenesisBlock d block nodes)"
proof -
  have "F (snd (case client_Patch (d_client d) obj (Resilient 3) w of (r, node, w) \<Rightarrow> (r, w))) = F w" for obj w
    using leaves_client_Patch [OF assms, of obj 3 w] by (auto split: prod.splits)
  then show ?thesis
    unfolding UpdateNodesWithGenesisBlock_def by (intro leaves_each) (simp add: untouched_def)
qed

text \<open>C18: when a round of the cluster's offering reports that the genesis step is finished, every node of the
  cluster has a genesis secret.  A secret that existed before is left as it is; the secrets that were
  missing all hold the block generated in this round.  So a cluster starts from one common block only if
  the secrets were all missing or all made in one round: a round that resumes after a failure gives the
  remaining nodes another block.\<close>

theorem genesis_secrets_after_round:
  assumes "genesis_store (nd_objects n) sec" and "leaves_secrets d n c sec"
    and "make_genesis d n c i nodes w = (Ok r, w')" and "\<not> Requeue r"
  shows "all_precreated nodes \<and>
    (\<forall>key\<in>genesis_keys nodes. sec w' key \<noteq> None) \<and>
    (\<exists>block. sec w' = with_block block nodes (sec w) \<and>
       (sec w' \<noteq> sec w \<longrightarrow> (\<exists>w1 w2. GenerateGenesisBlock n c i w1 = (Ok block, w2))))"
proof -
  from assms(3,4) have pre: "all_precreated nodes"
    by (auto simp: make_genesis_def Let_def requeue_def split: if_splits)
  with assms(3) obtain found w1 where found: "genesis_secrets_found n nodes w = (Ok found, w1)"
    and rest: "(if found = length nodes then (Ok (requeue\<lparr>Requeue := False\<rparr>), w1)
        else bind_r (GenerateGenesisBlock n c i w1) (\<lambda>genesisBlock w.
          bind_r (UpdateNodesWithGenesisBlock d (base64 genesisBlock) nodes w) (\<lambda>_ w.
          bind_r (GenerateGenesisSecretForNodes n genesisBlock nodes w) (\<lambda>_ w.
          (Ok (requeue\<lparr>Requeue := False\<rparr>), w))))) = (Ok r, w')"
    unfolding make_genesis_def Let_def by (auto elim!: bind_r_OkE)
  note f = genesis_secrets_found_Ok [OF assms(1) found]
  show ?thesis
  proof (cases "found = length nodes")
    case True
    with rest f have same: "sec w' = sec w" "\<forall>key\<in>genesis_keys nodes. sec w key \<noteq> None" by auto
    then have "sec w' = with_block '''' nodes (sec w)" by (auto simp: with_block_def fun_eq_iff split: option.splits)
    with pre same show ?thesis by metis
  next
    case False
    with rest obtain block w2 w3 where gen: "GenerateGenesisBlock n c i w1 = (Ok block, w2)"
      and upd: "UpdateNodesWithGenesisBlock d (base64 block) nodes w2 = (Ok (), w3)"
      and secs: "GenerateGenesisSecretForNodes n block nodes w3 = (Ok (), w')"
      by (auto elim!: bind_r_OkE)
    have "sec w3 = sec w"
      using untouchedD [OF leaves_UpdateNodes [OF assms(2)] upd]
        untouchedD [OF leaves_GenerateGenesisBlock [OF assms(2)] gen] f by simp
    with GenerateGenesisSecretForNodes_Ok [OF assms(1) secs] have s: "sec w' = with_block block nodes (sec w)" by simp
    moreover from s have "\<forall>key\<in>genesis_keys nodes. sec w' key \<noteq> None"
      by (auto simp: with_block_def split: option.splits)
    ultimately show ?thesis using pre gen by blast
  qed
qed

lemma already_exists [simp]: "IgnoreAlreadyExistError (Plain ''already exists'') = Ok ()"
  by code_simp

text \<open>
  A round resumed after node 1 got its secret from block 6 and node 2 got none: node 2 gets block 7.
\<close>

lemma sample_genesis_store: "genesis_store cluster_secret_client cw_secrets"
  by (auto simp: genesis_store_def cluster_secret_client_def split: option.splits)

lemma sample_leaves: "leaves_secrets sample_cluster_deps sample_node_deps sample_cluster cw_secrets"
  by (simp add: leaves_secrets_def untouched_def cluster_cr_client_def)

lemma resumed_round:
  obtains w where "make_genesis sample_cluster_deps sample_node_deps sample_cluster sample_cluster_cr
      [precreated_node 1, precreated_node 2] resumed_world = (Ok (requeue\<lparr>Requeue := False\<rparr>), w)"
    and "cw_secrets w (''osnode2-genesis'', ''ns'') = Some [(''orderer.block'', ''sys7'')]"
proof -
  have "\<exists>w. make_genesis sample_cluster_deps sample_node_deps sample_cluster sample_cluster_cr
        [precreated_node 1, precreated_node 2] resumed_world = (Ok (requeue\<lparr>Requeue := False\<rparr>), w) \<and>
      cw_secrets w (''osnode2-genesis'', ''ns'') = Some [(''orderer.block'', ''sys7'')]"
    by (simp add: make_genesis_def Let_def all_precreated_def cluster_secret_client_def
        resumed_world_def sample_block UpdateNodesWithGenesisBlock_def
        GenerateGenesisSecretForNodes_def genesis_secret_of_def cluster_cr_client_def client_Create_def with_owner_def
        setControllerReference_def on_spec_def ResilientPatch_def resilientPatch_def patch_loop.simps)
  with that show ?thesis by blast
qed

lemma genesis_secrets_after_round_witness:
  "\<exists>block. cw_secrets (snd (make_genesis sample_cluster_deps sample_node_deps sample_cluster sample_cluster_cr
      [precreated_node 1, precreated_node 2] resumed_world)) =
    [(''osnode1-genesis'', ''ns'') \<mapsto> [(''orderer.block'', ''sys6'')],
     (''osnode2-genesis'', ''ns'') \<mapsto> [(''orderer.block'', block)]]"
proof -
  obtain w where round: "make_genesis sample_cluster_deps sample_node_deps sample_cluster sample_cluster_cr
      [precreated_node 1, precreated_node 2] resumed_world = (Ok (requeue\<lparr>Requeue := False\<rparr>), w)"
    using resumed_round by blast
  have "genesis_store (nd_objects sample_node_deps) cw_secrets" by (simp add: sample_genesis_store)
  from genesis_secrets_after_round [OF this sample_leaves round]
  obtain block where "cw_secrets w = with_block block [precreated_node 1, precreated_node 2] (cw_secrets resumed_world)"
    by auto
  moreover have "cw_secrets resumed_world = [(''osnode1-genesis'', ''ns'') \<mapsto> [(''orderer.block'', ''sys6'')]]"
    by (simp add: resumed_world_def)
  ultimately show ?thesis
    unfolding round snd_conv
    by (intro exI [of _ block]) (simp add: with_block_def genesis_keys_def fun_eq_iff)
qed

subsection \<open>What the block says\<close>

lemma add_host_port_Ok:
  assumes "add_host_port n c i node p w = (Ok p', w')"
  obtains ord m cert where "pr_Orderer p = Some ord" and "xo_EtcdRaft ord = Some m"
    and "p' = p\<lparr>pr_Orderer := Some (ord\<lparr>xo_Addresses := xo_Addresses ord @ [node_fqdn i node @ '':443''],
      xo_EtcdRaft := Some (m\<lparr>rm_Consenters := rm_Consenters m @
        [\<lparr>cn_Host = node_fqdn i node, cn_Port = 443, cn_ClientTlsCert = cert, cn_ServerTlsCert = cert\<rparr>]\<rparr>)\<rparr>)\<rparr>"
  using assms
  by (auto simp: add_host_port_def Let_def AddOrdererAddress_def AddRaftConsentingNode_def on_orderer_def
      elim!: bind_r_OkE seq_r_OkE split: option.splits if_splits)

lemma add_hosts_Ok:
  assumes "add_hosts n c i nodes p w = (Ok p', w')" and "pr_Orderer p = Some ord" and "xo_EtcdRaft ord = Some m"
  obtains ord' m' where "pr_Orderer p' = Some ord'" and "xo_EtcdRaft ord' = Some m'"
    and "xo_OrdererType ord' = xo_OrdererType ord" and "xo_Organizations ord' = xo_Organizations ord"
    and "xo_Addresses ord' = xo_Addresses ord @ map (\<lambda>node. node_fqdn i node @ '':443'') nodes"
    and "map (\<lambda>x. (cn_Host x, cn_Port x)) (rm_Consenters m') =
      map (\<lambda>x. (cn_Host x, cn_Port x)) (rm_Consenters m) @ map (\<lambda>node. (node_fqdn i node, 443)) nodes"
  using assms
proof (induction nodes arbitrary: p w ord m thesis)
  case (Cons node nodes)
  from Cons.prems(2) obtain p1 w1 where step: "add_host_port n c i node p w = (Ok p1, w1)"
    and rest: "add_hosts n c i nodes p1 w1 = (Ok p', w')" by (auto elim!: bind_r_OkE)
  from step Cons.prems(3,4) obtain cert where
    p1: "pr_Orderer p1 = Some (ord\<lparr>xo_Addresses := xo_Addresses ord @ [node_fqdn i node @ '':443''],
      xo_EtcdRaft := Some (m\<lparr>rm_Consenters := rm_Consenters m @
        [\<lparr>cn_Host = node_fqdn i node, cn_Port = 443, cn_ClientTlsCert = cert, cn_ServerTlsCert = cert\<rparr>]\<rparr>)\<rparr>)"
    by (auto elim!: add_host_port_Ok)
  show ?case by (rule Cons.IH [OF _ rest p1]) (auto intro!: Cons.prems(1))
qed auto

lemma LoadInitialProfile_Ok:
  assumes "LoadInitialProfile c i = Ok p"
  obtains ord m where "pr_Orderer p = Some ord" and "xo_OrdererType ord = ''etcdraft''" and "xo_Addresses ord = []"
    and "xo_EtcdRaft ord = Some m" and "rm_Consenters m = []" and "map og_ID (xo_Organizations ord) = [of_MSPID (Spec i)]"
  using assms
  by (auto simp: LoadInitialProfile_def GetProfile_def GetGenesisDefaults_def AddOrgToOrderer_def on_orderer_def Let_def
      elim!: seq_r_OkE split: if_splits)

text \<open>C19: a genesis block that is generated has, at the level of the channel, the addresses of all nodes of
  the cluster, from node 1 to the last, governed by the admins of the orderers; its consensus is raft, and its
  consenters are the same nodes in the same order, each at port 443.\<close>

theorem genesis_block_names_every_node:
  assumes "GenerateGenesisBlock n c i w = (Ok block, w')" and "distinct_keys (cl_lib c)"
    and "0 < of_ClusterSize (Spec i)"
  shows "\<exists>cg og m bytes t k. cx_Block (cl_lib c) (of_SystemChannelName (Spec i)) t k cg = Ok block \<and>
    (let addresses = OrdererAddresses (map (\<lambda>node. node_fqdn i node @ '':443'') (GetNodes i));
         consensus = ConsensusTypeValue ''etcdraft'' bytes
     in map_of (cg_Values cg) (cx_Key (cl_lib c) addresses) = Some (addresses, OrdererAdminsPolicy) \<and>
        map_of (cg_Groups cg) ''Orderer'' = Some og \<and>
        map_of (cg_Values og) (cx_Key (cl_lib c) consensus) = Some (consensus, AdminsPolicyKey) \<and>
        cx_RaftBytes (cl_lib c) (Some m) = Ok bytes \<and>
        map (\<lambda>x. (cn_Host x, cn_Port x)) (rm_Consenters m) = map (\<lambda>node. (node_fqdn i node, 443)) (GetNodes i))"
proof -
  from assms(1) obtain p0 p w1 conf mc w2 where p0: "LoadInitialProfile c i = Ok p0"
    and hosts: "add_hosts n c i (GetNodes i) p0 w = (Ok p, w1)" and conf: "pr_Orderer p = Some conf"
    and blk: "GenerateBlock (cl_lib c) (cl_nonce c) (cl_now c) (of_SystemChannelName (Spec i)) p mc w2 = (Ok block, w')"
    by (auto simp: GenerateGenesisBlock_def AddHostPortToProfile_def elim!: bind_r_OkE split: option.splits)
  from p0 obtain ord m0 where "pr_Orderer p0 = Some ord" "xo_OrdererType ord = ''etcdraft''" "xo_Addresses ord = []"
    "xo_EtcdRaft ord = Some m0" "rm_Consenters m0 = []" by (rule LoadInitialProfile_Ok)
  note initial = this
  obtain m where conf': "xo_EtcdRaft conf = Some m" "xo_OrdererType conf = ''etcdraft''"
    "xo_Addresses conf = map (\<lambda>node. node_fqdn i node @ '':443'') (GetNodes i)"
    "map (\<lambda>x. (cn_Host x, cn_Port x)) (rm_Consenters m) = map (\<lambda>node. (node_fqdn i node, 443)) (GetNodes i)"
    by (rule add_hosts_Ok [OF hosts initial(1,4)]) (use conf initial in auto)
  from assms(3) have "GetNodes i \<noteq> []" by (simp add: GetNodes_def)
  from blk obtain cg t k where cg: "NewChannelConfigGroup (cl_lib c) p mc = Ok cg"
    and bytes: "cx_Block (cl_lib c) (of_SystemChannelName (Spec i)) t k cg = Ok block"
    by (auto simp: GenerateBlock_def elim!: bind_r_OkE split: if_splits prod.splits)
  from NewChannelConfigGroup_orderer [OF cg conf assms(2)] obtain og where og: "NewOrdererGroup (cl_lib c) conf mc = Ok og"
    "map_of (cg_Groups cg) ''Orderer'' = Some og"
    and addr: "map_of (cg_Values cg) (cx_Key (cl_lib c) (OrdererAddresses (xo_Addresses conf))) =
      Some (OrdererAddresses (xo_Addresses conf), OrdererAdminsPolicy)"
    using conf'(3) \<open>GetNodes i \<noteq> []\<close> by auto
  from NewOrdererGroup_consensus [OF og(1)] obtain b where raft: "cx_RaftBytes (cl_lib c) (Some m) = Ok b"
    "map_of (cg_Values og) (cx_Key (cl_lib c) (ConsensusTypeValue ''etcdraft'' b)) =
      Some (ConsensusTypeValue ''etcdraft'' b, AdminsPolicyKey)"
    using conf'(1,2) by (auto simp: consensus_metadata_def consensus_defs)
  note addr' = addr [unfolded conf'(3)]
  show ?thesis
    unfolding Let_def
    by (rule exI [of _ cg], rule exI [of _ og], rule exI [of _ m], rule exI [of _ b], rule exI [of _ t], rule exI [of _ k],
      intro conjI) (fact bytes addr' og(2) raft conf'(4))+
qed

lemma genesis_block_names_every_node_witness:
  "\<exists>cg (m :: raft_metadata). map_of (cg_Values cg) ''OrdererAddresses'' =
      Some (OrdererAddresses [''ns-osnode1-orderer.example.org:443'', ''ns-osnode2-orderer.example.org:443''],
        ''/Channel/Orderer/Admins'') \<and>
    map (\<lambda>x. (cn_Host x, cn_Port x)) (rm_Consenters m) =
      [(''ns-osnode1-orderer.example.org'', 443), (''ns-osnode2-orderer.example.org'', 443)]"
proof -
  have keys: "distinct_keys sample_lib"
  proof -
    have "value_kind v \<noteq> value_kind v' \<Longrightarrow> sample_key v \<noteq> sample_key v'" for v v' by (cases v; cases v') simp_all
    then show ?thesis by (simp add: distinct_keys_def)
  qed
  obtain cg and m :: raft_metadata where
    "map_of (cg_Values cg) (sample_key (OrdererAddresses (map (\<lambda>node. node_fqdn sample_cluster_cr node @ '':443'')
        (GetNodes sample_cluster_cr)))) =
      Some (OrdererAddresses (map (\<lambda>node. node_fqdn sample_cluster_cr node @ '':443'') (GetNodes sample_cluster_cr)),
        OrdererAdminsPolicy)"
    "map (\<lambda>x. (cn_Host x, cn_Port x)) (rm_Consenters m) =
      map (\<lambda>node. (node_fqdn sample_cluster_cr node, 443)) (GetNodes sample_cluster_cr)"
    using genesis_block_names_every_node [OF sample_block [of resumed_world]] keys by (simp add: Let_def) blast
  then show ?thesis
    by (intro exI [of _ cg] exI [of _ m] conjI) (simp_all add: sample_node_names node_fqdn_def OrdererAdminsPolicy_def)
qed

subsection \<open>Resources of the nodes\<close>

lemma itoa_inject: "0 \<le> j \<Longrightarrow> 0 \<le> k \<Longrightarrow> itoa j = itoa k \<longleftrightarrow> j = k"
  using show_nat_value [of "nat j"] show_nat_value [of "nat k"] unfolding itoa_def by (metis linorder_not_less nat_eq_iff2)

lemma node_name_eq: "1 \<le> j \<Longrightarrow> 1 \<le> k \<Longrightarrow> node_name j = node_name k \<longleftrightarrow> j = k"
  by (simp add: node_name_def itoa_inject)

text \<open>
  A client whose custom resources are \<open>nodes\<close>, by name and namespace; creation behaves as for secrets.
\<close>

definition node_store :: "(orderer_cr, 'w) k8s_client \<Rightarrow> ('w \<Rightarrow> string \<times> string \<Rightarrow> orderer_cr option) \<Rightarrow> bool" where
  "node_store c nodes \<longleftrightarrow>
     (\<forall>x. kc_apply c x = x) \<and>
     (\<forall>x w y w'. kc_create c x w = (Ok (), y, w') \<longrightarrow>
        nodes w (Name x, Namespace x) = None \<and> nodes w' = (nodes w)((Name x, Namespace x) \<mapsto> x)) \<and>
     (\<forall>x w e y w'. kc_create c x w = (Fail e, y, w') \<longrightarrow>
        nodes w' = nodes w \<and> (IgnoreAlreadyExistError e = Ok () \<longrightarrow> nodes w (Name x, Namespace x) \<noteq> None))"

lemma client_Create_node:
  assumes "node_store c nodes" and "client_Create c x None w = (Ok u, y, w')"
  shows "nodes w' = (case nodes w (Name x, Namespace x) of
    Some b \<Rightarrow> nodes w | None \<Rightarrow> (nodes w)((Name x, Namespace x) \<mapsto> x))"
proof -
  from assms(1) have plain: "kc_apply c y = y" for y by (simp add: node_store_def)
  obtain r y' w1 where step: "kc_create c x w = (r, y', w1)" by (metis prod_cases3)
  with assms(2) plain have r: "w1 = w'" "r = Ok () \<or> (\<exists>e. r = Fail e \<and> IgnoreAlreadyExistError e = Ok ())"
    by (auto simp: client_Create_def with_owner_def split: go_result.splits)
  from r(2) show ?thesis
  proof
    assume "r = Ok ()"
    with assms(1) step r(1) show ?thesis by (simp add: node_store_def)
  next
    assume "\<exists>e. r = Fail e \<and> IgnoreAlreadyExistError e = Ok ()"
    then obtain e where "kc_create c x w = (Fail e, y', w')" "IgnoreAlreadyExistError e = Ok ()"
      using step r(1) by blast
    with assms(1) have "nodes w' = nodes w \<and> nodes w (Name x, Namespace x) \<noteq> None"
      unfolding node_store_def by blast
    then show ?thesis by auto
  qed
qed

lemma node_cr_id [simp]: "Name (node_cr d i k) = Name i @ node_name k" "Namespace (node_cr d i k) = Namespace i"
  by (simp_all add: node_cr_def Let_def)

text \<open>The keys of the first nodes, and the resources after their creation.\<close>

definition with_nodes ::
  "'w odeps \<Rightarrow> orderer_cr \<Rightarrow> int list \<Rightarrow> (string \<times> string \<Rightarrow> orderer_cr option) \<Rightarrow> string \<times> string \<Rightarrow> orderer_cr option" where
  "with_nodes d i ks nodes key =
     (case nodes key of
        Some x \<Rightarrow> Some x
      | None \<Rightarrow> map_option (node_cr d i) (List.find (\<lambda>k. key = (Name i @ node_name k, Namespace i)) ks))"

lemma with_nodes_Cons:
  "with_nodes d i (k # ks) f = with_nodes d i ks
     (case f (Name i @ node_name k, Namespace i) of
        Some b \<Rightarrow> f | None \<Rightarrow> f((Name i @ node_name k, Namespace i) \<mapsto> node_cr d i k))"
proof
  fix x
  show "with_nodes d i (k # ks) f x = with_nodes d i ks
      (case f (Name i @ node_name k, Namespace i) of
         Some b \<Rightarrow> f | None \<Rightarrow> f((Name i @ node_name k, Namespace i) \<mapsto> node_cr d i k)) x"
    by (cases "x = (Name i @ node_name k, Namespace i)"; cases "f (Name i @ node_name k, Namespace i)")
      (auto simp: with_nodes_def split: option.splits)
qed

lemma operator_version_equal: "String_Equal Operator_version Operator_version"
  by code_simp

lemma create_nodes_Ok:
  assumes "node_store (d_client d) nodes" and "SVersion (CRStatus i) = Operator_version"
  shows "each_r (CreateNodeCR d i) ks w = (Ok u, w') \<Longrightarrow>
    nodes w' = with_nodes d i ks (nodes w) \<and> (ks \<noteq> [] \<longrightarrow> of_NodeNumber (Spec i) = None \<and> of_LicenseAccept (Spec i))"
proof (induction ks arbitrary: w)
  case Nil
  then show ?case by (auto simp: with_nodes_def split: option.splits)
next
  case (Cons k ks)
  from Cons.prems obtain u1 w1 where one: "CreateNodeCR d i k w = (Ok u1, w1)"
    and rest: "each_r (CreateNodeCR d i) ks w1 = (Ok u, w')" by (auto elim!: bind_r_OkE)
  from one assms(2) obtain y where ok: "of_NodeNumber (Spec i) = None" "of_LicenseAccept (Spec i)"
    and create: "client_Create (d_client d) (node_cr d i k) None w = (Ok (), y, w1)"
    by (auto simp: CreateNodeCR_def split: if_splits prod.splits go_result.splits)
  from client_Create_node [OF assms(1) create] have "nodes w1 = (case nodes w (Name i @ node_name k, Namespace i) of
      Some b \<Rightarrow> nodes w | None \<Rightarrow> (nodes w)((Name i @ node_name k, Namespace i) \<mapsto> node_cr d i k))"
    by (simp only: node_cr_id)
  with Cons.IH [OF rest] ok show ?case by (simp add: with_nodes_Cons)
qed


lemma one_node_stored: "cw_nodes one_node = [(''osnode1'', ''ns'') \<mapsto> precreated_node 1]"
  by (simp add: one_node_def)

lemma one_node_listed: "GetClusterNodes sample_node_deps sample_cluster_cr one_node = (Ok [precreated_node 1], one_node)"
  by (simp add: GetClusterNodes_def one_node_stored map_filter_def upto.simps)

lemma sample_create:
  "CreateNodeCR sample_cluster_deps sample_cluster_cr k w =
     (Ok (), if cw_nodes w (''os'' @ node_name k, ''ns'') = None
        then w\<lparr>cw_nodes := (cw_nodes w)((''os'' @ node_name k, ''ns'') \<mapsto> node_cr sample_cluster_deps sample_cluster_cr k)\<rparr>
        else w)"
  by (simp add: CreateNodeCR_def client_Create_def with_owner_def cluster_cr_client_def split: option.splits)

lemma deploying_round:
  obtains r s where "ReconcileCluster sample_cluster_deps sample_node_deps sample_cluster deploying_state = (Ok r, s)"
  by (simp add: deploying_state_def ReconcileCluster_def Let_def on_world_def one_node_listed upto.simps sample_create
      operator_version_equal)

lemma sample_node_store: "node_store (d_client sample_cluster_deps) cw_nodes"
  by (auto simp: node_store_def cluster_cr_client_def split: option.splits)


end
