(* ===== verification/GenesisProps.thy ===== *)
theory GenesisProps
  imports OrdererClusterProps
begin

text \<open>
  The policies of a genesis block: whoever may change a part of the configuration is named by a policy that
  exists.
\<close>

text \<open>
  The name of a policy is looked up in the group itself; the one absolute name the code uses is the path of
  the admins of the group of the orderer.
\<close>

definition refers_to :: "(string \<times> policy_value \<times> string) list \<Rightarrow> string \<Rightarrow> bool" where
  "refers_to ps m \<longleftrightarrow> m = OrdererAdminsPolicy \<or> map_of ps m \<noteq> None"

fun policies_resolve :: "config_group \<Rightarrow> bool" where
  "policies_resolve (Group gs vs ps m) \<longleftrightarrow>
     refers_to ps m \<and> (\<forall>x\<in>set vs. refers_to ps (snd (snd x))) \<and> (\<forall>x\<in>set ps. refers_to ps (snd (snd x))) \<and>
     (\<forall>x\<in>set gs. policies_resolve (snd x))"

text \<open>While a group is built, its parts refer to \<open>Admins\<close> or to the admins of the orderer.\<close>

definition admin_names :: "string set" where
  "admin_names = {AdminsPolicyKey, OrdererAdminsPolicy}"

fun refers_to_admins :: "config_group \<Rightarrow> bool" where
  "refers_to_admins (Group gs vs ps m) \<longleftrightarrow>
     (\<forall>x\<in>set vs. snd (snd x) \<in> admin_names) \<and> (\<forall>x\<in>set ps. snd (snd x) \<in> admin_names) \<and>
     (\<forall>x\<in>set gs. policies_resolve (snd x))"

definition has_policy :: "string \<Rightarrow> config_group \<Rightarrow> bool" where
  "has_policy name g \<longleftrightarrow> map_of (cg_Policies g) name \<noteq> None"

lemma admin_names_simps [simp]: "AdminsPolicyKey \<in> admin_names" "OrdererAdminsPolicy \<in> admin_names"
  by (simp_all add: admin_names_def)

lemma set_AList_update: "x \<in> set (AList.update k v al) \<Longrightarrow> x = (k, v) \<or> x \<in> set al"
  by (induction al) (auto split: if_splits)

lemma refers_to_admins_steps:
  "refers_to_admins g \<Longrightarrow> m \<in> admin_names \<Longrightarrow> refers_to_admins (addValue x v m g)"
  "refers_to_admins g \<Longrightarrow> m \<in> admin_names \<Longrightarrow> refers_to_admins (addPolicy name p m g)"
  "refers_to_admins g \<Longrightarrow> policies_resolve h \<Longrightarrow> refers_to_admins (add_group name h g)"
  "refers_to_admins g \<Longrightarrow> refers_to_admins (set_mod_policy m g)"
  "refers_to_admins NewConfigGroup"
  by (cases g; auto dest!: set_AList_update simp: NewConfigGroup_def)+

lemma has_policy_steps [simp]:
  "has_policy n (addValue x v m g) = has_policy n g"
  "has_policy n (addPolicy name p m g) \<longleftrightarrow> n = name \<or> has_policy n g"
  "has_policy n (add_group name h g) = has_policy n g"
  "has_policy n (set_mod_policy m g) = has_policy n g"
  by (cases g; simp add: has_policy_def update_conv')+

lemma policies_resolve_closed:
  assumes "refers_to_admins g" and "has_policy AdminsPolicyKey g" and "m \<in> admin_names"
  shows "policies_resolve (set_mod_policy m g)"
  using assms by (cases g) (auto simp: admin_names_def refers_to_def has_policy_def)

lemma fold_r_inv:
  "fold_r f xs a = Ok b \<Longrightarrow> P a \<Longrightarrow> (\<And>x a b. x \<in> set xs \<Longrightarrow> f x a = Ok b \<Longrightarrow> P a \<Longrightarrow> P b) \<Longrightarrow> P b"
proof (induction xs arbitrary: a)
  case (Cons x xs)
  from Cons.prems(1) obtain a1 where "f x a = Ok a1" "fold_r f xs a1 = Ok b" by (auto elim!: seq_r_OkE)
  with Cons.prems show ?case by (intro Cons.IH [of a1]) auto
qed simp

lemma add_parsed_Ok:
  assumes "add_parsed x m e g = Ok h"
  obtains v where "h = addPolicy (fst e) v m g"
  using assms by (cases e) (auto simp: add_parsed_def split: if_splits elim!: seq_r_OkE)

lemma addPolicies_admins:
  assumes "addPolicies x ps m g = Ok h" and "refers_to_admins g" and "m \<in> admin_names"
  shows "refers_to_admins h"
  using assms(1) [unfolded addPolicies_def] assms(2)
  by (rule fold_r_inv) (auto elim!: add_parsed_Ok intro!: refers_to_admins_steps assms(3))

lemma addPolicies_has:
  "addPolicies x ps m g = Ok h \<Longrightarrow> map_of ps name \<noteq> None \<or> has_policy name g \<Longrightarrow> has_policy name h"
  unfolding addPolicies_def
proof (induction ps arbitrary: g)
  case (Cons p ps)
  from Cons.prems(1) obtain g1 where step: "add_parsed x m p g = Ok g1" "fold_r (add_parsed x m) ps g1 = Ok h"
    by (auto elim!: seq_r_OkE)
  then obtain v where "g1 = addPolicy (fst p) v m g" by (auto elim: add_parsed_Ok)
  with Cons.prems(2) have "map_of ps name \<noteq> None \<or> has_policy name g1" by (cases p) (auto split: if_splits)
  with step(2) Cons.IH show ?case by blast
qed simp

text \<open>A group under construction that already has the policy \<open>Admins\<close>; its parts only add to it.\<close>

definition administered :: "config_group \<Rightarrow> bool" where
  "administered g \<longleftrightarrow> refers_to_admins g \<and> has_policy AdminsPolicyKey g"

lemma administered_steps:
  "administered g \<Longrightarrow> m \<in> admin_names \<Longrightarrow> administered (addValue x v m g)"
  "administered g \<Longrightarrow> m \<in> admin_names \<Longrightarrow> administered (addPolicy name p m g)"
  "administered g \<Longrightarrow> policies_resolve h \<Longrightarrow> administered (add_group name h g)"
  "administered g \<Longrightarrow> administered (set_mod_policy m g)"
  "refers_to_admins g \<Longrightarrow> m \<in> admin_names \<Longrightarrow> administered (addPolicy AdminsPolicyKey p m g)"
  "administered g \<Longrightarrow> administered h \<Longrightarrow> administered (if b then g else h)"
  by (auto simp: administered_def intro: refers_to_admins_steps)

lemma administered_resolves: "administered g \<Longrightarrow> m \<in> admin_names \<Longrightarrow> policies_resolve (set_mod_policy m g)"
  by (simp add: administered_def policies_resolve_closed)

lemma addPolicies_administered:
  assumes "addPolicies x ps m g = Ok h" and "refers_to_admins g" and "m \<in> admin_names"
    and "map_of ps AdminsPolicyKey \<noteq> None"
  shows "administered h"
  unfolding administered_def
  using addPolicies_admins [OF assms(1-3)] addPolicies_has [OF assms(1), of AdminsPolicyKey] assms(4) by blast

text \<open>The groups of the orderer and of its organizations, and of consortiums without members.\<close>

lemma NewOrdererOrgGroup_resolves:
  assumes "NewOrdererOrgGroup x conf msp = Ok g" and "og_Policies conf = None"
  shows "policies_resolve g"
proof -
  let ?cg = "addSignaturePolicyDefaults (og_ID conf) (og_AdminPrincipal conf \<noteq> AdminRoleAdminPrincipal) NewConfigGroup"
  have "administered ?cg"
    unfolding addSignaturePolicyDefaults_def by (intro administered_steps refers_to_admins_steps admin_names_simps)
  moreover have "addValue x v m (set_mod_policy k h) = set_mod_policy k (addValue x v m h)" for v m k h
    by (cases h) simp
  ultimately show ?thesis
    using assms by (auto simp: NewOrdererOrgGroup_def Let_def intro!: administered_resolves administered_steps)
qed

lemma NewOrdererGroup_resolves:
  assumes "NewOrdererGroup x conf m = Ok g" and "map_of (xo_Policies conf) AdminsPolicyKey \<noteq> None"
    and "\<forall>org\<in>set (xo_Organizations conf). og_Policies org = None"
  shows "policies_resolve g \<and> has_policy AdminsPolicyKey g"
proof -
  have some: "xo_Policies conf \<noteq> []" using assms(2) by auto
  with assms(1) obtain g0 where pols: "addPolicies x (xo_Policies conf) AdminsPolicyKey NewConfigGroup = Ok g0"
    by (auto simp: NewOrdererGroup_def Let_def elim!: seq_r_OkE)
  have "administered g0"
    by (rule addPolicies_administered [OF pols _ _ assms(2)]) (auto intro: refers_to_admins_steps)
  then obtain g1 h where orgs: "fold_r (add_orderer_org x m) (xo_Organizations conf) g1 = Ok h" and g1: "administered g1"
    and g: "g = set_mod_policy AdminsPolicyKey h"
    using assms(1) some pols
    by (auto simp: NewOrdererGroup_def Let_def elim!: seq_r_OkE split: if_splits)
      (blast intro: administered_steps admin_names_simps)+
  have "administered h"
    using orgs g1
  proof (rule fold_r_inv)
    fix org a b
    assume "org \<in> set (xo_Organizations conf)" "add_orderer_org x m org a = Ok b" "administered a"
    with assms(3) show "administered b"
      by (auto simp: add_orderer_org_def elim!: seq_r_OkE intro!: administered_steps NewOrdererOrgGroup_resolves)
  qed
  then show ?thesis unfolding g by (simp add: administered_resolves) (simp add: administered_def)
qed

lemma NewConsortiumGroup_empty: "NewConsortiumGroup x [] = Ok g \<Longrightarrow> policies_resolve g"
  by (auto simp: NewConsortiumGroup_def NewConfigGroup_def refers_to_def elim!: seq_r_OkE)

lemma NewConsortiumsGroup_resolves:
  assumes "NewConsortiumsGroup x conf = Ok g" and "\<forall>c\<in>set conf. snd c = []"
  shows "policies_resolve g"
proof -
  obtain h where orgs: "fold_r (\<lambda>(consortiumName, consortium) cg.
        seq_r (wrap_r (''failed to create consortium '' @ consortiumName) (NewConsortiumGroup x consortium))
          (\<lambda>g. Ok (add_group consortiumName g cg))) conf
        (addPolicy AdminsPolicyKey AcceptAll OrdererAdminsPolicy NewConfigGroup) = Ok h"
    and g: "g = set_mod_policy OrdererAdminsPolicy h"
    using assms(1) by (auto simp: NewConsortiumsGroup_def elim!: seq_r_OkE)
  have "administered h"
    using orgs
  proof (rule fold_r_inv)
    show "administered (addPolicy AdminsPolicyKey AcceptAll OrdererAdminsPolicy NewConfigGroup)"
      by (intro administered_steps refers_to_admins_steps admin_names_simps)
    fix c a b
    assume "c \<in> set conf" "administered a" and "(case c of (consortiumName, consortium) \<Rightarrow> \<lambda>cg.
        seq_r (wrap_r (''failed to create consortium '' @ consortiumName) (NewConsortiumGroup x consortium))
          (\<lambda>g. Ok (add_group consortiumName g cg))) a = Ok b"
    with assms(2) show "administered b"
      by (cases c) (fastforce elim!: seq_r_OkE intro!: administered_steps NewConsortiumGroup_empty)
  qed
  then show ?thesis unfolding g by (simp add: administered_resolves)
qed

lemma NewChannelConfigGroup_resolves:
  assumes "NewChannelConfigGroup x p m = Ok g" and "map_of (pr_Policies p) AdminsPolicyKey \<noteq> None"
    and "pr_Orderer p = Some conf" and "map_of (xo_Policies conf) AdminsPolicyKey \<noteq> None"
    and "\<forall>org\<in>set (xo_Organizations conf). og_Policies org = None"
    and "pr_Application p = None" and "pr_Consortiums p = Some cons" and "\<forall>c\<in>set cons. snd c = []"
  shows "policies_resolve g"
proof -
  have some: "pr_Policies p \<noteq> []" using assms(2) by auto
  with assms(1) obtain g0 where pols: "addPolicies x (pr_Policies p) AdminsPolicyKey NewConfigGroup = Ok g0"
    by (auto simp: NewChannelConfigGroup_def Let_def elim!: seq_r_OkE)
  have "administered g0"
    by (rule addPolicies_administered [OF pols _ _ assms(2)]) (auto intro: refers_to_admins_steps)
  moreover note NewOrdererGroup_resolves [OF _ assms(4,5)] NewConsortiumsGroup_resolves [OF _ assms(8)]
  ultimately show ?thesis
    using assms(1,3,6,7) some pols
    by (auto simp: NewChannelConfigGroup_def Let_def elim!: seq_r_OkE split: if_splits
        intro!: administered_resolves administered_steps)
qed

lemma NewChannelConfigGroup_group:
  assumes "NewChannelConfigGroup x p m = Ok g" and "pr_Orderer p = Some conf"
  obtains og where "NewOrdererGroup x conf m = Ok og" and "map_of (cg_Groups g) ''Orderer'' = Some og"
proof -
  from assms obtain og where og: "NewOrdererGroup x conf m = Ok og"
    unfolding NewChannelConfigGroup_def Let_def by (auto elim!: seq_r_OkE)
  have "map_of (cg_Groups g) ''Orderer'' = Some og"
    using assms og unfolding NewChannelConfigGroup_def Let_def
    by (auto simp: update_conv' split: option.splits if_splits elim!: seq_r_OkE)
  with og that show ?thesis by blast
qed

text \<open>The profile of a new cluster keeps the policies of the defaults.\<close>

definition profile_parts :: "profile \<Rightarrow> bool" where
  "profile_parts p \<longleftrightarrow>
     map_of (pr_Policies p) AdminsPolicyKey \<noteq> None \<and> pr_Application p = None \<and>
     (\<exists>cons. pr_Consortiums p = Some cons \<and> (\<forall>c\<in>set cons. snd c = [])) \<and>
     (\<exists>conf. pr_Orderer p = Some conf \<and> map_of (xo_Policies conf) AdminsPolicyKey \<noteq> None \<and>
        (\<forall>org\<in>set (xo_Organizations conf). og_Policies org = None))"

lemma LoadInitialProfile_parts: "LoadInitialProfile c i = Ok p \<Longrightarrow> profile_parts p"
  by (auto simp: LoadInitialProfile_def GetProfile_def GetGenesisDefaults_def AddOrgToOrderer_def on_orderer_def Let_def
      profile_parts_def AdminsPolicyKey_def elim!: seq_r_OkE split: if_splits)

lemma add_hosts_parts: "add_hosts n c i nodes p w = (Ok p', w') \<Longrightarrow> profile_parts p \<Longrightarrow> profile_parts p'"
proof (induction nodes arbitrary: p w)
  case (Cons node nodes)
  from Cons.prems(1) obtain p1 w1 where step: "add_host_port n c i node p w = (Ok p1, w1)"
    and rest: "add_hosts n c i nodes p1 w1 = (Ok p', w')" by (auto elim!: bind_r_OkE)
  from step Cons.prems(2) have "profile_parts p1"
    by (rule_tac add_host_port_Ok [OF step]) (auto simp: profile_parts_def)
  with Cons.IH rest show ?case by blast
qed simp

text \<open>C20: in a genesis block that is generated, every policy that is named as the one that governs a part of the
  configuration exists: each group, value and policy refers to a policy of its own group, or to the admins
  of the orderers, which exist in the group Orderer.  So no part of the initial configuration is locked
  for ever, whatever the name, the organization and the size of the cluster are.\<close>

theorem genesis_policies_resolve:
  assumes "GenerateGenesisBlock n c i w = (Ok block, w')"
  shows "\<exists>cg og t k. cx_Block (cl_lib c) (of_SystemChannelName (Spec i)) t k cg = Ok block \<and> policies_resolve cg \<and>
    map_of (cg_Groups cg) ''Orderer'' = Some og \<and> has_policy AdminsPolicyKey og"
proof -
  from assms obtain p0 p w1 conf mc w2 where p0: "LoadInitialProfile c i = Ok p0"
    and hosts: "add_hosts n c i (GetNodes i) p0 w = (Ok p, w1)" and conf: "pr_Orderer p = Some conf"
    and blk: "GenerateBlock (cl_lib c) (cl_nonce c) (cl_now c) (of_SystemChannelName (Spec i)) p mc w2 = (Ok block, w')"
    by (auto simp: GenerateGenesisBlock_def AddHostPortToProfile_def elim!: bind_r_OkE split: option.splits)
  from blk obtain cg t k where cg: "NewChannelConfigGroup (cl_lib c) p mc = Ok cg"
    and bytes: "cx_Block (cl_lib c) (of_SystemChannelName (Spec i)) t k cg = Ok block"
    by (auto simp: GenerateBlock_def elim!: bind_r_OkE split: if_splits prod.splits)
  note parts = add_hosts_parts [OF hosts LoadInitialProfile_parts [OF p0], unfolded profile_parts_def]
  with conf have "policies_resolve cg" by (auto intro: NewChannelConfigGroup_resolves [OF cg])
  moreover obtain og where "NewOrdererGroup (cl_lib c) conf mc = Ok og" "map_of (cg_Groups cg) ''Orderer'' = Some og"
    using NewChannelConfigGroup_group [OF cg conf] by blast
  ultimately show ?thesis using NewOrdererGroup_resolves parts conf bytes by fastforce
qed

lemma genesis_policies_resolve_witness:
  "\<exists>cg og. policies_resolve cg \<and> map_of (cg_Groups cg) ''Orderer'' = Some og \<and> has_policy AdminsPolicyKey og"
  using genesis_policies_resolve [OF sample_block [of resumed_world]] by blast

end
