(* ===== verification/CAConfig.thy ===== *)
theory CAConfig
  imports Offering Base64
begin

text \<open>
  The configuration of a CA server while the operator initializes it, \<open>pkg/initializer/ca/config\<close>: the
  certificates and keys that the configuration holds or names are collected in maps, one per block of the
  configuration, and the configuration is rewritten to name files.

  The fields of \<open>pkg/apis/ca/v1\<close> that the code reads or writes are modelled, the others are \<open>_other\<close>; a nil
  pointer is \<open>None\<close>.  The home directory and the mount path are clean and not empty, so that joining them
  with a name is joining with a slash.
\<close>

subsection \<open>Data\<close>

record client_tls =
  tc_Enabled :: "bool option"
  tc_CertFiles :: "string list"
  tc_CertFile :: string
  tc_KeyFile :: string

record server_tls =
  st_Enabled :: "bool option"
  st_CertFile :: string
  st_KeyFile :: string
  st_CertFiles :: "string list"
  st_other :: string

record ca_db =
  db_Type :: string
  db_Datasource :: string
  db_TLS :: client_tls

record ca_pkcs11 =
  cp_Library :: string
  cp_Hash :: string
  cp_Security :: int
  cp_KeyStorePath :: string
  cp_other :: string

record ca_csp =
  cp_Default :: string
  cp_PKCS11 :: "ca_pkcs11 option"
  cp_SW :: string

record ca_info =
  in_Certfile :: string
  in_Keyfile :: string
  in_Chainfile :: string
  in_ReenrollIgnoreCertExpiry :: "bool option"
  in_Name :: string

record server_config =
  sc_TLS :: server_tls
  sc_Operations_TLS :: server_tls
  sc_CA :: ca_info
  sc_CSR_CN :: string
  sc_DB :: "ca_db option"
  sc_CSP :: "ca_csp option"
  sc_ParentServer_URL :: string
  sc_Intermediate_TLS :: client_tls
  sc_Identities_AllowRemove :: "bool option"
  sc_Affiliations_AllowRemove :: "bool option"
  sc_CAfiles :: "string list"
  sc_other :: string

definition enabled :: "bool option \<Rightarrow> bool" where
  "enabled e = (case e of Some b \<Rightarrow> b | None \<Rightarrow> False)"

text \<open>The five maps of the struct \<open>Config\<close> are one field, a function of the block; \<open>None\<close> is a nil map.\<close>

datatype block = CABlock | DBBlock | TLSBlock | OperationsBlock | IntermediateBlock

datatype ca_type = EnrollmentCA | TLSCA | OtherCA string

record ca_config =
  cf_ServerConfig :: server_config
  cf_HomeDir :: string
  cf_MountPath :: string
  cf_Update :: bool
  cf_SqlitePath :: string
  cf_crypto :: "block \<Rightarrow> string gomap option"

datatype input_type = FileInput | PemInput | Base64Input | BccspInput

text \<open>
  Packages \<open>pem\<close>, \<open>x509\<close>, \<open>os\<close> and \<open>ioutil\<close>: the first block of a text, whether its bytes are a private
  key, whether a file exists, \<open>os.IsExist\<close>, reading and writing.
\<close>

record 'w ca_lib =
  cl_pem :: "string \<Rightarrow> string option"
  cl_pkcs8 :: "string \<Rightarrow> bool"
  cl_stat :: "string \<Rightarrow> 'w \<Rightarrow> bool \<times> 'w"
  cl_read :: "string \<Rightarrow> 'w \<Rightarrow> string go_result \<times> 'w"
  cl_read_dir :: "string \<Rightarrow> 'w \<Rightarrow> string list go_result \<times> 'w"
  cl_is_exist :: "go_error \<Rightarrow> bool"
  cl_mkdir :: "string \<Rightarrow> 'w \<Rightarrow> unit go_result \<times> 'w"
  cl_write :: "string \<Rightarrow> string \<Rightarrow> 'w \<Rightarrow> unit go_result \<times> 'w"

text \<open>The state of an initialization: the configuration, which is changed in place, and the world.\<close>

type_synonym 'w ca_state = "ca_config \<times> 'w"

definition on_config :: "(server_config \<Rightarrow> server_config) \<Rightarrow> 'w ca_state \<Rightarrow> 'w ca_state" where
  "on_config f s = (case s of (c, w) \<Rightarrow> (c\<lparr>cf_ServerConfig := f (cf_ServerConfig c)\<rparr>, w))"

definition on_db :: "(ca_db \<Rightarrow> ca_db) \<Rightarrow> server_config \<Rightarrow> server_config" where
  "on_db f sc = sc\<lparr>sc_DB := map_option f (sc_DB sc)\<rparr>"

definition on_info :: "(ca_info \<Rightarrow> ca_info) \<Rightarrow> server_config \<Rightarrow> server_config" where
  "on_info f sc = sc\<lparr>sc_CA := f (sc_CA sc)\<rparr>"

definition on_tls :: "(server_tls \<Rightarrow> server_tls) \<Rightarrow> server_config \<Rightarrow> server_config" where
  "on_tls f sc = sc\<lparr>sc_TLS := f (sc_TLS sc)\<rparr>"

definition on_operations :: "(server_tls \<Rightarrow> server_tls) \<Rightarrow> server_config \<Rightarrow> server_config" where
  "on_operations f sc = sc\<lparr>sc_Operations_TLS := f (sc_Operations_TLS sc)\<rparr>"

definition on_parent :: "(client_tls \<Rightarrow> client_tls) \<Rightarrow> server_config \<Rightarrow> server_config" where
  "on_parent f sc = sc\<lparr>sc_Intermediate_TLS := f (sc_Intermediate_TLS sc)\<rparr>"

text \<open>A map that is nil is made before the block is parsed.\<close>

definition make_crypto :: "block \<Rightarrow> 'w ca_state \<Rightarrow> 'w ca_state" where
  "make_crypto b s = (case s of (c, w) \<Rightarrow>
     (if cf_crypto c b = None then c\<lparr>cf_crypto := (cf_crypto c)(b := Some [])\<rparr> else c, w))"

subsection \<open>Certificates and keys\<close>

definition EnsureDir :: "'w ca_lib \<Rightarrow> string \<Rightarrow> 'w \<Rightarrow> unit go_result \<times> 'w" where
  "EnsureDir l dir w =
     (case cl_mkdir l dir w of
        (Fail e, w) \<Rightarrow> if cl_is_exist l e then (Ok (), w) else (Fail e, w)
      | r \<Rightarrow> r)"

definition FileToBytes :: "'w ca_lib \<Rightarrow> string \<Rightarrow> 'w \<Rightarrow> string go_result \<times> 'w" where
  "FileToBytes l f w = wrap_err (''failed to read file '' @ f) (cl_read l f w)"

definition GetInputType :: "'w ca_lib \<Rightarrow> string \<Rightarrow> 'w \<Rightarrow> input_type \<times> 'w" where
  "GetInputType l input w =
     (if cl_pem l input \<noteq> None then (PemInput, w)
      else (case Base64ToBytes input of
              Ok _ \<Rightarrow> (Base64Input, w)
            | _ \<Rightarrow> (case cl_stat l input w of (found, w) \<Rightarrow> (if found then FileInput else BccspInput, w))))"

definition ConvertStringForSecrets :: "string \<Rightarrow> bool \<Rightarrow> string" where
  "ConvertStringForSecrets path forward =
     (if forward then map (\<lambda>c. if c = CHR ''/'' then CHR ''_'' else c) path
      else map (\<lambda>c. if c = CHR ''_'' then CHR ''/'' else c) path)"

definition StoreInMap :: "string \<Rightarrow> string \<Rightarrow> string gomap \<Rightarrow> string gomap" where
  "StoreInMap data location store =
     (if length data = 0 then store
      else AList.update (ConvertStringForSecrets location True) data store)"

text \<open>\<open>filepath.Dir\<close> of a path with a slash.\<close>

definition path_dir :: "string \<Rightarrow> string" where
  "path_dir p = join_with ''/'' (butlast (split_on CHR ''/'' p))"

definition EnsureDirAndWriteFile :: "'w ca_lib \<Rightarrow> ca_config \<Rightarrow> string \<Rightarrow> string \<Rightarrow> 'w \<Rightarrow> unit go_result \<times> 'w" where
  "EnsureDirAndWriteFile l c location data w =
     (let path = cf_HomeDir c @ ''/'' @ location in
      bind_r (EnsureDir l (path_dir path) w) (\<lambda>_ w. cl_write l path data w))"

definition config_UsingPKCS11 :: "server_config \<Rightarrow> bool" where
  "config_UsingPKCS11 sc = (case sc_CSP sc of
     Some csp \<Rightarrow> if to_lower (cp_Default csp) = ''pkcs11'' then True else False
   | None \<Rightarrow> False)"

text \<open>The first file of the key store that holds a private key; files without a PEM block are passed over.\<close>

fun find_signing_key :: "'w ca_lib \<Rightarrow> string \<Rightarrow> string list \<Rightarrow> 'w \<Rightarrow> string go_result \<times> 'w" where
  "find_signing_key l dir [] w = (Fail (Plain ''failed to parse CA's private key''), w)"
| "find_signing_key l dir (f # fs) w =
     bind_r (cl_read l (dir @ ''/'' @ f) w) (\<lambda>fileBytes w.
       (case cl_pem l fileBytes of
          None \<Rightarrow> find_signing_key l dir fs w
        | Some bytes \<Rightarrow> if cl_pkcs8 l bytes then (Ok fileBytes, w) else find_signing_key l dir fs w))"

definition GetSigningKey :: "'w ca_lib \<Rightarrow> string \<Rightarrow> 'w \<Rightarrow> string go_result \<times> 'w" where
  "GetSigningKey l path w =
     (let keystoreDir = path @ ''/msp/keystore'' in
      bind_r (cl_read_dir l keystoreDir w) (\<lambda>files w.
        if length files = 0 then
          (Fail (Plain (''no keys found in keystore directory: '' @ keystoreDir)), w)
        else find_signing_key l keystoreDir files w))"

text \<open>
  The end of both handlers: data that was found goes into the map and to the home directory.  The map is
  changed in place, so it keeps the data when writing the file fails.
\<close>

definition store_data ::
  "'w ca_lib \<Rightarrow> ca_config \<Rightarrow> string \<Rightarrow> string go_result \<Rightarrow> string gomap \<times> 'w \<Rightarrow> unit go_result \<times> string gomap \<times> 'w" where
  "store_data l c location data s =
     bind_r (data, s) (\<lambda>data (store, w).
       let store = StoreInMap data location store in
       if length data \<noteq> 0 then
         (case EnsureDirAndWriteFile l c location data w of (r, w) \<Rightarrow> (r, store, w))
       else (Ok (), store, w))"

definition HandleCertInput ::
  "'w ca_lib \<Rightarrow> ca_config \<Rightarrow> string \<Rightarrow> string \<Rightarrow> string gomap \<times> 'w \<Rightarrow> unit go_result \<times> string gomap \<times> 'w" where
  "HandleCertInput l c input location s =
     (case s of (store, w) \<Rightarrow>
       (case GetInputType l input w of
          (PemInput, w) \<Rightarrow> store_data l c location (Ok input) (store, w)
        | (FileInput, w) \<Rightarrow>
            if \<not> cf_Update c then
              (case FileToBytes l input w of (data, w) \<Rightarrow> store_data l c location data (store, w))
            else (Ok (), store, w)
        | (Base64Input, w) \<Rightarrow> store_data l c location (Base64ToBytes input) (store, w)
        | (BccspInput, w) \<Rightarrow> (Ok (), store, w)))"

definition HandleKeyInput ::
  "'w ca_lib \<Rightarrow> ca_config \<Rightarrow> string \<Rightarrow> string \<Rightarrow> string gomap \<times> 'w \<Rightarrow> unit go_result \<times> string gomap \<times> 'w" where
  "HandleKeyInput l c input location s =
     (case s of (store, w) \<Rightarrow>
       (case GetInputType l input w of
          (PemInput, w) \<Rightarrow> store_data l c location (Ok input) (store, w)
        | (FileInput, w) \<Rightarrow>
            if \<not> cf_Update c then
              (case FileToBytes l input w of (data, w) \<Rightarrow> store_data l c location data (store, w))
            else (Ok (), store, w)
        | (Base64Input, w) \<Rightarrow> store_data l c location (Base64ToBytes input) (store, w)
        | (BccspInput, w) \<Rightarrow>
            if config_UsingPKCS11 (cf_ServerConfig c) then (Ok (), store, w)
            else if \<not> cf_Update c then
              (case GetSigningKey l (cf_HomeDir c) w of (data, w) \<Rightarrow> store_data l c location data (store, w))
            else (Ok (), store, w)))"

text \<open>A handler on the map of a block, and the loop over a list of certificates, which rewrites the list.\<close>

definition on_block ::
  "(ca_config \<Rightarrow> string gomap \<times> 'w \<Rightarrow> unit go_result \<times> string gomap \<times> 'w) \<Rightarrow> block \<Rightarrow> 'w ca_state \<Rightarrow>
     unit go_result \<times> 'w ca_state" where
  "on_block f b s = (case s of (c, w) \<Rightarrow>
     (case f c (sdata (cf_crypto c b), w) of
        (r, store, w) \<Rightarrow> (r, c\<lparr>cf_crypto := (cf_crypto c)(b := Some store)\<rparr>, w)))"

definition handle_cert :: "'w ca_lib \<Rightarrow> block \<Rightarrow> string \<Rightarrow> string \<Rightarrow> 'w ca_state \<Rightarrow> unit go_result \<times> 'w ca_state" where
  "handle_cert l b input location = on_block (\<lambda>c. HandleCertInput l c input location) b"

definition handle_key :: "'w ca_lib \<Rightarrow> block \<Rightarrow> string \<Rightarrow> string \<Rightarrow> 'w ca_state \<Rightarrow> unit go_result \<times> 'w ca_state" where
  "handle_key l b input location = on_block (\<lambda>c. HandleKeyInput l c input location) b"

definition certfile_name :: "string \<Rightarrow> nat \<Rightarrow> string" where
  "certfile_name part n = part @ ''-certfile'' @ show_nat n @ ''.pem''"

fun handle_certs ::
  "'w ca_lib \<Rightarrow> block \<Rightarrow> string \<Rightarrow> (string list \<Rightarrow> server_config \<Rightarrow> server_config) \<Rightarrow> string list \<Rightarrow> string list \<Rightarrow>
     'w ca_state \<Rightarrow> unit go_result \<times> 'w ca_state" where
  "handle_certs l b part put done [] s = (Ok (), s)"
| "handle_certs l b part put done (f # fs) s =
     (let location = certfile_name part (length done) in
      bind_r (handle_cert l b f location s) (\<lambda>_ s.
        let done = done @ [cf_HomeDir (fst s) @ ''/'' @ location]
        in handle_certs l b part put done fs (on_config (put (done @ fs)) s)))"

subsection \<open>The blocks of the configuration\<close>

text \<open>What a block does with a file of its own: handle the input, then name the file in the home directory.\<close>

definition take_cert ::
  "'w ca_lib \<Rightarrow> block \<Rightarrow> string \<Rightarrow> string \<Rightarrow> (string \<Rightarrow> server_config \<Rightarrow> server_config) \<Rightarrow> 'w ca_state \<Rightarrow>
     unit go_result \<times> 'w ca_state" where
  "take_cert l b input location put s =
     bind_r (handle_cert l b input location s) (\<lambda>_ s.
       (Ok (), on_config (put (cf_HomeDir (fst s) @ ''/'' @ location)) s))"

definition take_key ::
  "'w ca_lib \<Rightarrow> block \<Rightarrow> string \<Rightarrow> string \<Rightarrow> (string \<Rightarrow> server_config \<Rightarrow> server_config) \<Rightarrow> 'w ca_state \<Rightarrow>
     unit go_result \<times> 'w ca_state" where
  "take_key l b input location put s =
     bind_r (handle_key l b input location s) (\<lambda>_ s.
       (Ok (), on_config (put (cf_HomeDir (fst s) @ ''/'' @ location)) s))"

definition put_certfile :: "string \<Rightarrow> server_config \<Rightarrow> server_config" where
  "put_certfile f = on_info (\<lambda>i. i\<lparr>in_Certfile := f\<rparr>)"

definition put_keyfile :: "string \<Rightarrow> server_config \<Rightarrow> server_config" where
  "put_keyfile f = on_info (\<lambda>i. i\<lparr>in_Keyfile := f\<rparr>)"

definition put_chainfile :: "string \<Rightarrow> server_config \<Rightarrow> server_config" where
  "put_chainfile f = on_info (\<lambda>i. i\<lparr>in_Chainfile := f\<rparr>)"

definition ParseCABlock :: "'w ca_lib \<Rightarrow> 'w ca_state \<Rightarrow> string gomap option go_result \<times> 'w ca_state" where
  "ParseCABlock l s =
     (let s = make_crypto CABlock s;
          info = sc_CA (cf_ServerConfig (fst s))
      in if in_Certfile info = '''' \<and> in_Keyfile info = '''' then (Ok None, s)
         else
           bind_r (take_cert l CABlock (in_Certfile info) ''cert.pem'' put_certfile s) (\<lambda>_ s.
           bind_r (take_key l CABlock (in_Keyfile info) ''key.pem'' put_keyfile s) (\<lambda>_ s.
           bind_r (if in_Chainfile info \<noteq> '''' then
                     take_cert l CABlock (in_Chainfile info) ''chain.pem'' put_chainfile s
                   else (Ok (), s)) (\<lambda>_ s.
           (Ok (cf_crypto (fst s) CABlock), s)))))"

definition ValidCryptoInput :: "string \<Rightarrow> string \<Rightarrow> unit go_result" where
  "ValidCryptoInput certFile keyFile =
     (if certFile = '''' \<and> keyFile \<noteq> '''' then Fail (Plain
        ''Key file specified but no corresponding certificate file specified, both must be passed'')
      else if certFile \<noteq> '''' \<and> keyFile = '''' then Fail (Plain
        ''Certificate file specified but no corresponding key file specified, both must be passed'')
      else Ok ())"

definition ParseTLSBlock :: "'w ca_lib \<Rightarrow> 'w ca_state \<Rightarrow> string gomap option go_result \<times> 'w ca_state" where
  "ParseTLSBlock l s =
     (let tls = sc_TLS (cf_ServerConfig (fst s)) in
      if \<not> enabled (st_Enabled tls) then (Ok None, s)
      else
        let s = make_crypto TLSBlock s in
        bind_r (ValidCryptoInput (st_CertFile tls) (st_KeyFile tls), s) (\<lambda>_ s.
        bind_r (take_cert l TLSBlock (st_CertFile tls) ''tls-cert.pem''
          (\<lambda>f. on_tls (\<lambda>t. t\<lparr>st_CertFile := f\<rparr>)) s) (\<lambda>_ s.
        bind_r (take_key l TLSBlock (st_KeyFile tls) ''tls-key.pem''
          (\<lambda>f. on_tls (\<lambda>t. t\<lparr>st_KeyFile := f\<rparr>)) s) (\<lambda>_ s.
        bind_r (handle_certs l TLSBlock ''tls'' (\<lambda>fs. on_tls (\<lambda>t. t\<lparr>st_CertFiles := fs\<rparr>)) []
          (st_CertFiles tls) s) (\<lambda>_ s.
        (Ok (cf_crypto (fst s) TLSBlock), s))))))"

definition ParseOperationsBlock ::
  "'w ca_lib \<Rightarrow> 'w ca_state \<Rightarrow> string gomap option go_result \<times> 'w ca_state" where
  "ParseOperationsBlock l s =
     (let tls = sc_Operations_TLS (cf_ServerConfig (fst s)) in
      if \<not> enabled (st_Enabled tls) then (Ok None, s)
      else
        bind_r (ValidCryptoInput (st_CertFile tls) (st_KeyFile tls), s) (\<lambda>_ s.
        let s = make_crypto OperationsBlock s in
        bind_r (take_cert l OperationsBlock (st_CertFile tls) ''operations-cert.pem''
          (\<lambda>f. on_operations (\<lambda>t. t\<lparr>st_CertFile := f\<rparr>)) s) (\<lambda>_ s.
        bind_r (take_key l OperationsBlock (st_KeyFile tls) ''operations-key.pem''
          (\<lambda>f. on_operations (\<lambda>t. t\<lparr>st_KeyFile := f\<rparr>)) s) (\<lambda>_ s.
        bind_r (handle_certs l OperationsBlock ''operations'' (\<lambda>fs. on_operations (\<lambda>t. t\<lparr>st_CertFiles := fs\<rparr>)) []
          (st_CertFiles tls) s) (\<lambda>_ s.
        (Ok (cf_crypto (fst s) OperationsBlock), s))))))"

text \<open>The client part of a connection with TLS, to a database or a parent: certificates and a pair.\<close>

definition parse_client ::
  "'w ca_lib \<Rightarrow> block \<Rightarrow> string \<Rightarrow> ((client_tls \<Rightarrow> client_tls) \<Rightarrow> server_config \<Rightarrow> server_config) \<Rightarrow> client_tls \<Rightarrow>
     'w ca_state \<Rightarrow> unit go_result \<times> 'w ca_state" where
  "parse_client l b part on tls s =
     bind_r (handle_certs l b part (\<lambda>fs. on (\<lambda>t. t\<lparr>tc_CertFiles := fs\<rparr>)) [] (tc_CertFiles tls) s) (\<lambda>_ s.
     if tc_CertFile tls \<noteq> '''' \<and> tc_KeyFile tls \<noteq> '''' then
       bind_r (take_cert l b (tc_CertFile tls) (part @ ''-cert.pem'')
         (\<lambda>f. on (\<lambda>t. t\<lparr>tc_CertFile := f\<rparr>)) s) (\<lambda>_ s.
       take_key l b (tc_KeyFile tls) (part @ ''-key.pem'') (\<lambda>f. on (\<lambda>t. t\<lparr>tc_KeyFile := f\<rparr>)) s)
     else (Ok (), s))"

definition ParseIntermediateBlock ::
  "'w ca_lib \<Rightarrow> 'w ca_state \<Rightarrow> string gomap option go_result \<times> 'w ca_state" where
  "ParseIntermediateBlock l s =
     (let s = make_crypto IntermediateBlock s in
      bind_r (parse_client l IntermediateBlock ''parent'' on_parent
        (sc_Intermediate_TLS (cf_ServerConfig (fst s))) s) (\<lambda>_ s.
      (Ok (cf_crypto (fst s) IntermediateBlock), s)))"

text \<open>
  \<open>IsValidPostgressDatasource\<close>: for every key the text has the key, an equals sign and a character of a
  class; one character is enough for a match of the regular expression.
\<close>

fun occurs_with :: "string \<Rightarrow> (char \<Rightarrow> bool) \<Rightarrow> string \<Rightarrow> bool" where
  "occurs_with key p [] = False"
| "occurs_with key p (c # s) =
     (has_prefix (c # s) key \<and> (case drop (length key) (c # s) of [] \<Rightarrow> False | d # _ \<Rightarrow> p d) \<or>
      occurs_with key p s)"

definition not_space :: "char \<Rightarrow> bool" where
  "not_space c \<longleftrightarrow> c \<notin> {CHR 0x09, CHR 0x0A, CHR 0x0C, CHR 0x0D, CHR '' ''}"

definition IsValidPostgressDatasource :: "string \<Rightarrow> bool" where
  "IsValidPostgressDatasource ds = list_all (\<lambda>(key, p). occurs_with key p ds)
     [(''host='', not_space), (''port='', is_digit), (''user='', not_space), (''password='', not_space),
      (''dbname='', not_space), (''sslmode='', not_space)]"

definition ParseDBBlock :: "'w ca_lib \<Rightarrow> 'w ca_state \<Rightarrow> string gomap option go_result \<times> 'w ca_state" where
  "ParseDBBlock l s =
     (case sc_DB (cf_ServerConfig (fst s)) of
        None \<Rightarrow> (Panic ''nil pointer dereference'', s)
      | Some db \<Rightarrow>
          let dbType = (if db_Type db = '''' then ''sqlite3'' else db_Type db) in
          if to_lower dbType = ''sqlite3'' then
            (case on_config (on_db (\<lambda>d. d\<lparr>db_Datasource := ''/tmp/db/ca.db''\<rparr>)) s of
               (c, w) \<Rightarrow> bind_r (case EnsureDir l ''/tmp/db'' w of (r, w) \<Rightarrow> (r, c, w)) (\<lambda>_ s. (Ok None, s)))
          else if to_lower dbType = ''postgres'' then
            if \<not> enabled (tc_Enabled (db_TLS db)) then (Ok None, s)
            else if db_Datasource db = '''' then
              (Fail (Plain ''no datasource string specified for postgres''), s)
            else if \<not> IsValidPostgressDatasource (db_Datasource db) then
              (Fail (Plain ''datasource for postgres is not valid''), s)
            else
              bind_r (parse_client l DBBlock ''db'' (\<lambda>f. on_db (\<lambda>d. d\<lparr>db_TLS := f (db_TLS d)\<rparr>)) (db_TLS db)
                (make_crypto DBBlock s)) (\<lambda>_ s. (Ok (cf_crypto (fst s) DBBlock), s))
          else if to_lower dbType = ''mysql'' then (Fail (Plain ''MySQL is not supported''), s)
          else (Fail (Plain (''database type '' @ quoted dbType @ '' is not supported'')), s))"

subsection \<open>Mount paths\<close>

definition mounted_certs :: "string \<Rightarrow> string \<Rightarrow> string list \<Rightarrow> string list" where
  "mounted_certs path part certFiles =
     map (\<lambda>n. path @ ''/'' @ certfile_name part n) [0..<length certFiles]"

definition mount_client :: "string \<Rightarrow> string \<Rightarrow> client_tls \<Rightarrow> client_tls" where
  "mount_client path part tls =
     (let tls = (if tc_CertFile tls \<noteq> '''' \<and> tc_KeyFile tls \<noteq> '''' then
                   tls\<lparr>tc_CertFile := path @ ''/'' @ part @ ''-cert.pem'',
                     tc_KeyFile := path @ ''/'' @ part @ ''-key.pem''\<rparr>
                 else tls)
      in tls\<lparr>tc_CertFiles := mounted_certs path part (tc_CertFiles tls)\<rparr>)"

definition mount_server :: "string \<Rightarrow> string \<Rightarrow> server_tls \<Rightarrow> server_tls" where
  "mount_server path part tls =
     tls\<lparr>st_CertFile := path @ ''/'' @ part @ ''-cert.pem'', st_KeyFile := path @ ''/'' @ part @ ''-key.pem'',
       st_CertFiles := mounted_certs path part (st_CertFiles tls)\<rparr>"

definition CAMountPath :: "string \<Rightarrow> server_config \<Rightarrow> server_config" where
  "CAMountPath path = on_info (\<lambda>i.
     let i = i\<lparr>in_Keyfile := path @ ''/key.pem'', in_Certfile := path @ ''/cert.pem''\<rparr>
     in if in_Chainfile i \<noteq> '''' then i\<lparr>in_Chainfile := path @ ''/chain.pem''\<rparr> else i)"

definition IntermediateMountPath :: "string \<Rightarrow> server_config \<Rightarrow> server_config" where
  "IntermediateMountPath path = on_parent (mount_client path ''parent'')"

definition OperationsMountPath :: "string \<Rightarrow> server_config \<Rightarrow> server_config" where
  "OperationsMountPath path = on_operations (mount_server path ''operations'')"

definition TLSMountPath :: "string \<Rightarrow> server_config \<Rightarrow> server_config" where
  "TLSMountPath path = on_tls (mount_server path ''tls'')"

definition DBMountPath :: "string \<Rightarrow> string \<Rightarrow> server_config \<Rightarrow> server_config go_result" where
  "DBMountPath path sqlitePath sc =
     (case sc_DB sc of
        None \<Rightarrow> Panic ''nil pointer dereference''
      | Some _ \<Rightarrow> Ok (on_db (\<lambda>d.
          let d = d\<lparr>db_TLS := mount_client path ''db'' (db_TLS d)\<rparr>
          in if to_lower (db_Type d) = ''sqlite3'' then
               d\<lparr>db_Datasource := (if sqlitePath \<noteq> '''' then sqlitePath else ''/data/db/ca.db'')\<rparr>
             else d) sc))"

definition config_SetMountPaths :: "ca_type \<Rightarrow> 'w ca_state \<Rightarrow> unit go_result \<times> 'w ca_state" where
  "config_SetMountPaths caType s =
     (let path = cf_MountPath (fst s);
          s2 = on_config (CAMountPath path) s;
          db = DBMountPath path (cf_SqlitePath (fst s)) (cf_ServerConfig (fst s2))
      in case caType of
           EnrollmentCA \<Rightarrow>
             bind_r (db, s2) (\<lambda>sc s. (Ok (), on_config (\<lambda>_.
               TLSMountPath path (OperationsMountPath path (IntermediateMountPath path sc))) s))
         | TLSCA \<Rightarrow> bind_r (db, s2) (\<lambda>sc s. (Ok (), on_config (\<lambda>_. sc) s))
         | OtherCA _ \<Rightarrow> (Ok (), s))"

end
