(* ===== verification/Jobs.thy ===== *)
theory Jobs
  imports Offering
begin

text \<open>
  Kubernetes jobs, \<open>pkg/manager/resources/job/job.go\<close>: waiting for a job and its pods, the outcome of a job or
  of one of its containers, and its removal.

  The calls on jobs and pods are the record \<open>job_api\<close>; a container's state counts as far as it has
  terminated, and with which exit code.  How often a poll fits its timeout is up to the library.
  The constants of \<open>Status\<close> carry a prefix here, the peer's offering has some of the same names.
\<close>

datatype job_status = JOB_FAILED | JOB_COMPLETED | JOB_UNKNOWN

record job_container =
  ct_Name :: string
  ct_Terminated :: "int option"

record job_pod =
  jp_Name :: string
  jp_Namespace :: string
  jp_Phase :: string
  jp_Containers :: "job_container list"

record job_counts =
  jc_Active :: int
  jc_Succeeded :: int
  jc_Failed :: int

record 'w job_api =
  ja_get :: "string \<Rightarrow> string \<Rightarrow> 'w \<Rightarrow> job_counts go_result \<times> 'w"
  ja_selector :: "string \<Rightarrow> unit go_result"
  ja_list :: "string \<Rightarrow> 'w \<Rightarrow> job_pod list go_result \<times> 'w"
  ja_delete_job :: "string \<Rightarrow> string \<Rightarrow> 'w \<Rightarrow> unit go_result \<times> 'w"
  ja_delete_pod :: "job_pod \<Rightarrow> 'w \<Rightarrow> unit go_result \<times> 'w"
  ja_active_polls :: nat
  ja_finished_polls :: nat

record job_ref =
  jr_Name :: string
  jr_Namespace :: string

text \<open>\<open>wait.Poll\<close> with a condition that may end the wait with an error.\<close>

fun poll_cond :: "nat \<Rightarrow> ('w \<Rightarrow> bool go_result \<times> 'w) \<Rightarrow> 'w \<Rightarrow> unit go_result \<times> 'w" where
  "poll_cond 0 cond w = (Fail (Plain ''timed out waiting for the condition''), w)"
| "poll_cond (Suc n) cond w =
     bind_r (cond w) (\<lambda>fulfilled w. if fulfilled then (Ok (), w) else poll_cond n cond w)"

definition job_getPods :: "'w job_api \<Rightarrow> job_ref \<Rightarrow> 'w \<Rightarrow> job_pod list go_result \<times> 'w" where
  "job_getPods j r w =
     bind_r (ja_selector j (''job-name='' @ jr_Name r), w) (\<lambda>_ w. ja_list j (jr_Name r) w)"

fun job_remove_pods :: "'w job_api \<Rightarrow> job_pod list \<Rightarrow> 'w \<Rightarrow> unit go_result \<times> 'w" where
  "job_remove_pods j [] w = (Ok (), w)"
| "job_remove_pods j (p # ps) w =
     bind_r (wrap_err (''failed to delete pod '' @ quoted (jp_Name p)) (ja_delete_pod j p w))
       (\<lambda>_ w. job_remove_pods j ps w)"

definition job_Delete :: "'w job_api \<Rightarrow> job_ref \<Rightarrow> 'w \<Rightarrow> unit go_result \<times> 'w" where
  "job_Delete j r w =
     bind_r (wrap_err ''failed to delete'' (ja_delete_job j (jr_Name r) (jr_Namespace r) w)) (\<lambda>_ w.
     bind_r (wrap_err ''failed to list job pods'' (ja_list j (jr_Name r) w)) (\<lambda>pods w.
     job_remove_pods j pods w))"

definition job_Status :: "'w job_api \<Rightarrow> job_ref \<Rightarrow> 'w \<Rightarrow> job_status go_result \<times> 'w" where
  "job_Status j r w =
     bind_r (ja_get j (jr_Name r) (jr_Namespace r) w) (\<lambda>counts w.
     if 1 \<le> jc_Failed counts then (Ok JOB_FAILED, w)
     else bind_r (job_getPods j r w) (\<lambda>pods w.
       (Ok (if list_ex (\<lambda>p. jp_Phase p \<noteq> ''Succeeded'') pods then JOB_FAILED else JOB_COMPLETED), w)))"

text \<open>The first container of the name that has terminated decides.\<close>

definition ended_codes :: "job_pod list \<Rightarrow> string \<Rightarrow> int list" where
  "ended_codes pods contName =
     List.map_filter (\<lambda>c. if ct_Name c = contName then ct_Terminated c else None)
       (concat (map jp_Containers pods))"

definition job_ContainerStatus :: "'w job_api \<Rightarrow> job_ref \<Rightarrow> string \<Rightarrow> 'w \<Rightarrow> job_status go_result \<times> 'w" where
  "job_ContainerStatus j r contName w =
     bind_r (job_getPods j r w) (\<lambda>pods w.
       (Ok (case ended_codes pods contName of
              [] \<Rightarrow> JOB_UNKNOWN
            | code # _ \<Rightarrow> if code = 0 then JOB_COMPLETED else JOB_FAILED), w))"

definition job_WaitUntilActive :: "'w job_api \<Rightarrow> job_ref \<Rightarrow> 'w \<Rightarrow> unit go_result \<times> 'w" where
  "job_WaitUntilActive j r w =
     wrap_err ''job failed to start'' (poll_cond (ja_active_polls j) (\<lambda>w.
       bind_r (ja_get j (jr_Name r) (jr_Namespace r) w) (\<lambda>counts w.
         (Ok (1 \<le> jc_Active counts \<or> 1 \<le> jc_Succeeded counts), w))) w)"

definition podsTerminated :: "job_pod list \<Rightarrow> bool" where
  "podsTerminated pods = list_all (\<lambda>p. list_all (\<lambda>c. ct_Terminated c \<noteq> None) (jp_Containers p)) pods"

definition containerTerminated :: "job_pod list \<Rightarrow> string \<Rightarrow> bool" where
  "containerTerminated pods contName =
     list_all (\<lambda>p. list_all (\<lambda>c. ct_Name c = contName \<longrightarrow> ct_Terminated c \<noteq> None) (jp_Containers p)) pods"

text \<open>The two waits for pods: an error of the list is swallowed, and so is a job without pods.\<close>

definition wait_for_pods ::
  "'w job_api \<Rightarrow> job_ref \<Rightarrow> (job_pod list \<Rightarrow> bool) \<Rightarrow> 'w \<Rightarrow> unit go_result \<times> 'w" where
  "wait_for_pods j r over w =
     wrap_err (''pod for job '' @ quoted (jr_Name r) @ '' failed to finish'')
       (poll_cond (ja_finished_polls j) (\<lambda>w.
          (case job_getPods j r w of
             (Ok pods, w) \<Rightarrow> (Ok (if length pods = 0 then False else over pods), w)
           | (Fail e, w) \<Rightarrow> (Ok False, w)
           | (Panic p, w) \<Rightarrow> (Panic p, w))) w)"

definition job_WaitUntilFinished :: "'w job_api \<Rightarrow> job_ref \<Rightarrow> 'w \<Rightarrow> unit go_result \<times> 'w" where
  "job_WaitUntilFinished j r = wait_for_pods j r podsTerminated"

definition job_WaitUntilContainerFinished ::
  "'w job_api \<Rightarrow> job_ref \<Rightarrow> string \<Rightarrow> 'w \<Rightarrow> unit go_result \<times> 'w" where
  "job_WaitUntilContainerFinished j r contName = wait_for_pods j r (\<lambda>pods. containerTerminated pods contName)"

definition job_ContainerFinished :: "'w job_api \<Rightarrow> job_ref \<Rightarrow> string \<Rightarrow> 'w \<Rightarrow> bool go_result \<times> 'w" where
  "job_ContainerFinished j r contName w =
     bind_r (job_getPods j r w) (\<lambda>pods w. (Ok (containerTerminated pods contName), w))"

text \<open>
  A container that nothing is known of counts as finished, and its status is unknown: the wait and the
  status do not agree on what they wait for.
\<close>

lemma silent_container:
  assumes "list_all (\<lambda>p. list_all (\<lambda>c. ct_Name c \<noteq> contName) (jp_Containers p)) pods"
  shows "containerTerminated pods contName" and "ended_codes pods contName = []"
proof -
  show "containerTerminated pods contName"
    using assms by (auto simp: containerTerminated_def list_all_iff)
  show "ended_codes pods contName = []"
    using assms by (fastforce simp: ended_codes_def map_filter_def list_all_iff filter_empty_conv)
qed

lemma wait_for_pods_over:
  assumes "0 < ja_finished_polls j" and "job_getPods j r w = (Ok pods, w1)" and "pods \<noteq> []" and "over pods"
  shows "wait_for_pods j r over w = (Ok (), w1)"
proof -
  from assms(1) obtain n where "ja_finished_polls j = Suc n" using gr0_implies_Suc by blast
  with assms show ?thesis by (simp add: wait_for_pods_def)
qed

end
