(* ===== verification/CAInitializer.thy ===== *)
theory CAInitializer
  imports CAConfig CAUpdate Jobs
begin

text \<open>
  The initialization of a CA, \<open>pkg/initializer/ca\<close>: the configuration of the server is overridden, its crypto
  material is collected, and Fabric CA is initialized with it, in the operator itself (\<open>sw.go\<close>) or, where the
  keys live in a HSM, by a job (\<open>hsm.go\<close>, \<open>hsmdaemon.go\<close>).  The first part is the custom resource
  (\<open>api/v1beta1/ibpca.go\<close>) as the initializer and the offering see it.
\<close>

subsection \<open>The custom resource\<close>

record ca_full =
  cx_FabricVersion :: string
  cx_Arch :: "string list"
  cx_RegistryURL :: string
  cx_Images :: "image_tag ca_image_set option"
  cx_ConfigOverride :: "ca_override option"
  cx_HSM :: "string option"
  cx_Domain :: string
  cx_Zone :: string
  cx_Region :: string
  cx_Replicas :: "int option"
  cx_PVC_CA :: string
  cx_Sqlite :: string
  cx_NumSecondsWarningPeriod :: int
  cx_Restart :: bool
  cx_Renew_TLSCert :: bool
  cx_other :: string

type_synonym ca_cr = "ca_full cr"

type_synonym 'w cdeps = "(ca_cr, 'w) offering_deps"

definition ca_UsingHSMProxy :: "ca_cr \<Rightarrow> bool" where
  "ca_UsingHSMProxy i = (case cx_HSM (Spec i) of Some endpoint \<Rightarrow> endpoint \<noteq> '''' | None \<Rightarrow> False)"

definition ca_HSMSet :: "ca_full \<Rightarrow> bool" where
  "ca_HSMSet s = (case cx_HSM s of Some endpoint \<Rightarrow> endpoint \<noteq> '''' | None \<Rightarrow> False)"

definition ca_DomainSet :: "ca_full \<Rightarrow> bool" where
  "ca_DomainSet s \<longleftrightarrow> cx_Domain s \<noteq> ''''"

definition ca_GetNumSecondsWarningPeriod :: "ca_full \<Rightarrow> int" where
  "ca_GetNumSecondsWarningPeriod s =
     (if cx_NumSecondsWarningPeriod s = 0 then 30 * (24 * 60 * 60) else cx_NumSecondsWarningPeriod s)"

definition ca_ResetRestart :: "ca_cr \<Rightarrow> ca_cr" where
  "ca_ResetRestart = on_spec (\<lambda>s. s\<lparr>cx_Restart := False\<rparr>)"

definition ca_ResetTLSRenew :: "ca_cr \<Rightarrow> ca_cr" where
  "ca_ResetTLSRenew = on_spec (\<lambda>s. s\<lparr>cx_Renew_TLSCert := False\<rparr>)"

text \<open>The two overrides as they stand in the specification.\<close>

definition raw_ca_override :: "ca_full \<Rightarrow> string option" where
  "raw_ca_override s = Option.bind (cx_ConfigOverride s) CA_override"

definition raw_tlsca_override :: "ca_full \<Rightarrow> string option" where
  "raw_tlsca_override s = Option.bind (cx_ConfigOverride s) TLSCA_override"

subsection \<open>Collaborators\<close>

text \<open>
  Fabric CA's configuration as it reads it itself, and the libraries: \<open>ia_json\<close> and \<open>ia_yaml\<close> parse a
  configuration, \<open>ia_to_json\<close> and \<open>ia_to_yaml\<close> print it, \<open>ia_merge\<close> is \<open>mergo\<close> (a failed merge is the end of
  the configuration, what it leaves is not modelled), \<open>ia_viper_read\<close> to \<open>ia_viper_ca\<close> are \<open>viper\<close>,
  \<open>ia_http\<close> a request for the status of a server, \<open>ia_server_init\<close> Fabric CA's own initialization.  The job
  of a HSM, created with its volumes and containers, is \<open>ia_create_job\<close>; the flag tells the daemon's job.
\<close>

record lib_config =
  lc_DB_Type :: string
  lc_DB_Datasource :: string
  lc_DB_TLS :: client_tls
  lc_ParentServer_URL :: string
  lc_Intermediate_CertFiles :: "string list"
  lc_Metrics_Provider :: string
  lc_other :: string

record 'w ca_init_deps =
  ia_lib :: "'w ca_lib"
  ia_json :: "string \<Rightarrow> server_config go_result"
  ia_yaml :: "string \<Rightarrow> server_config go_result"
  ia_to_json :: "server_config \<Rightarrow> string go_result"
  ia_to_yaml :: "server_config \<Rightarrow> string go_result"
  ia_merge :: "server_config \<Rightarrow> server_config \<Rightarrow> server_config go_result"
  ia_getenv :: "string \<Rightarrow> 'w \<Rightarrow> string \<times> 'w"
  ia_viper_read :: "string \<Rightarrow> 'w \<Rightarrow> string go_result \<times> 'w"
  ia_viper_server :: "string \<Rightarrow> lib_config go_result"
  ia_viper_ca :: "string \<Rightarrow> lib_config \<Rightarrow> lib_config go_result"
  ia_sql_open :: "string \<Rightarrow> string \<Rightarrow> unit go_result"
  ia_ping :: "string \<Rightarrow> string \<Rightarrow> 'w \<Rightarrow> unit go_result \<times> 'w"
  ia_url :: "string \<Rightarrow> (string \<times> string) go_result"
  ia_request :: "string \<Rightarrow> unit go_result"
  ia_http :: "string \<Rightarrow> string \<Rightarrow> 'w \<Rightarrow> int go_result \<times> 'w"
  ia_sleep :: "'w \<Rightarrow> 'w"
  ia_server_init :: "string \<Rightarrow> lib_config \<Rightarrow> 'w \<Rightarrow> (string \<times> string \<times> string) go_result \<times> 'w"
  ia_remove_all :: "string \<Rightarrow> 'w \<Rightarrow> unit go_result \<times> 'w"
  ia_create_job :: "bool \<Rightarrow> ca_cr \<Rightarrow> ca_db option \<Rightarrow> ca_type \<Rightarrow> 'w \<Rightarrow> job_ref go_result \<times> 'w"
  ia_jobs :: "'w job_api"

definition ca_GetCAConfigOverride :: "'w ca_init_deps \<Rightarrow> ca_full \<Rightarrow> server_config option go_result" where
  "ca_GetCAConfigOverride a s =
     (case raw_ca_override s of None \<Rightarrow> Ok None | Some raw \<Rightarrow> seq_r (ia_yaml a raw) (\<lambda>sc. Ok (Some sc)))"

definition GetTLSCAConfigOverride :: "'w ca_init_deps \<Rightarrow> ca_full \<Rightarrow> server_config option go_result" where
  "GetTLSCAConfigOverride a s =
     (case raw_tlsca_override s of None \<Rightarrow> Ok None | Some raw \<Rightarrow> seq_r (ia_yaml a raw) (\<lambda>sc. Ok (Some sc)))"

definition isCAHSMEnabled :: "'w ca_init_deps \<Rightarrow> ca_cr \<Rightarrow> bool" where
  "isCAHSMEnabled a i =
     (case ca_GetCAConfigOverride a (Spec i) of Ok (Some sc) \<Rightarrow> config_UsingPKCS11 sc | _ \<Rightarrow> False)"

definition isTLSCAHSMEnabled :: "'w ca_init_deps \<Rightarrow> ca_cr \<Rightarrow> bool" where
  "isTLSCAHSMEnabled a i =
     (case GetTLSCAConfigOverride a (Spec i) of Ok (Some sc) \<Rightarrow> config_UsingPKCS11 sc | _ \<Rightarrow> False)"

definition ca_IsHSMEnabled :: "'w ca_init_deps \<Rightarrow> ca_cr \<Rightarrow> bool" where
  "ca_IsHSMEnabled a i \<longleftrightarrow> isCAHSMEnabled a i \<or> isTLSCAHSMEnabled a i"

fun IsHSMEnabledForType :: "'w ca_init_deps \<Rightarrow> ca_cr \<Rightarrow> ca_type \<Rightarrow> bool" where
  "IsHSMEnabledForType a i EnrollmentCA = isCAHSMEnabled a i"
| "IsHSMEnabledForType a i TLSCA = isTLSCAHSMEnabled a i"
| "IsHSMEnabledForType a i (OtherCA t) = False"

subsection \<open>The configuration\<close>

text \<open>The struct \<open>CA\<close>; its configuration is the state.\<close>

record ca_object =
  ob_CN :: string
  ob_Type :: ca_type
  ob_UsingHSMProxy :: bool
  ob_configFile :: string

definition NewCA :: "ca_config \<Rightarrow> ca_type \<Rightarrow> bool \<Rightarrow> string \<Rightarrow> ca_object" where
  "NewCA c caType hsmProxy cn = \<lparr>ob_CN = cn, ob_Type = caType, ob_UsingHSMProxy = hsmProxy,
     ob_configFile = cf_HomeDir c @ ''/fabric-ca-server-config.yaml''\<rparr>"

text \<open>The section of PKCS11, in a configuration that uses it.\<close>

definition ca_SetPKCS11Defaults :: "bool \<Rightarrow> server_config \<Rightarrow> server_config" where
  "ca_SetPKCS11Defaults proxy sc = sc\<lparr>sc_CSP := map_option (\<lambda>csp.
     let p = (case cp_PKCS11 csp of Some p \<Rightarrow> p | None \<Rightarrow>
                \<lparr>cp_Library = '''', cp_Hash = '''', cp_Security = 0, cp_KeyStorePath = '''', cp_other = ''''\<rparr>);
         p = (if proxy then p\<lparr>cp_Library := ''/usr/local/lib/libpkcs11-proxy.so''\<rparr> else p);
         p = p\<lparr>cp_KeyStorePath := ''msp/keystore''\<rparr>;
         p = (if cp_Hash p = '''' then p\<lparr>cp_Hash := ''SHA2''\<rparr> else p);
         p = (if cp_Security p = 0 then p\<lparr>cp_Security := 256\<rparr> else p)
     in csp\<lparr>cp_PKCS11 := Some p\<rparr>) (sc_CSP sc)\<rparr>"

definition ca_setDefaults :: "server_config \<Rightarrow> server_config" where
  "ca_setDefaults sc = on_info (\<lambda>i. i\<lparr>in_ReenrollIgnoreCertExpiry := Some True\<rparr>)
     (sc\<lparr>sc_Identities_AllowRemove := Some True, sc_Affiliations_AllowRemove := Some True\<rparr>)"

definition OverrideServerConfig ::
  "'w ca_init_deps \<Rightarrow> ca_object \<Rightarrow> server_config option \<Rightarrow> 'w ca_state \<Rightarrow> unit go_result \<times> 'w ca_state" where
  "OverrideServerConfig a ob newConfig s =
     (let s = on_config (\<lambda>sc. sc\<lparr>sc_CSR_CN := ob_CN ob\<rparr>) s in
      bind_r (case newConfig of
          None \<Rightarrow> (Ok (), s)
        | Some new \<Rightarrow>
            bind_r (wrap_err ''failed to merge override configuration''
                      (ia_merge a (cf_ServerConfig (fst s)) new, s)) (\<lambda>sc s.
            let sc = (if config_UsingPKCS11 sc then ca_SetPKCS11Defaults (ob_UsingHSMProxy ob) sc else sc);
                sc = (if sc_ParentServer_URL sc \<noteq> '''' then sc\<lparr>sc_CSR_CN := ''''\<rparr> else sc)
            in (Ok (), on_config (\<lambda>_. sc) s))) (\<lambda>_ s.
      (Ok (), on_config ca_setDefaults s)))"

subsection \<open>The crypto material\<close>

text \<open>\<open>JoinMaps\<close>: the entries of the second map win.\<close>

definition JoinMaps :: "string gomap option \<Rightarrow> string gomap option \<Rightarrow> string gomap" where
  "JoinMaps m1 m2 = sdata m2 @ filter (\<lambda>(k, v). map_of (sdata m2) k = None) (sdata m1)"

lemma JoinMaps_lookup [simp]: "map_of (JoinMaps m1 m2) = map_of (sdata m1) ++ map_of (sdata m2)"
proof -
  have "(map_of (filter (\<lambda>(k, v). map_of b k = None) m) ++ map_of b) x = (map_of m ++ map_of b) x" for m b :: "string gomap" and x
    by (induction m) (auto simp: map_add_def split: option.splits)
  then show ?thesis by (auto simp: JoinMaps_def)
qed

text \<open>One block joins its material to what was collected before.\<close>

definition join_block ::
  "string \<Rightarrow> ('w ca_state \<Rightarrow> string gomap option go_result \<times> 'w ca_state) \<Rightarrow> string gomap option \<Rightarrow> 'w ca_state \<Rightarrow>
     string gomap option go_result \<times> 'w ca_state" where
  "join_block part parse crypto s =
     bind_r (wrap_err (''failed to parse '' @ part @ '' block'') (parse s)) (\<lambda>m s. (Ok (Some (JoinMaps crypto m)), s))"

text \<open>The certificate and key of the server's endpoint serve its operations endpoint, too.\<close>

definition share_tls :: "server_config \<Rightarrow> server_config" where
  "share_tls sc =
     (if enabled (st_Enabled (sc_Operations_TLS sc)) then
        on_operations (\<lambda>t. t\<lparr>st_CertFile := st_CertFile (sc_TLS sc), st_KeyFile := st_KeyFile (sc_TLS sc)\<rparr>) sc
      else sc)"

definition ParseEnrollmentCACrypto ::
  "'w ca_init_deps \<Rightarrow> 'w ca_state \<Rightarrow> string gomap option go_result \<times> 'w ca_state" where
  "ParseEnrollmentCACrypto a s =
     (let l = ia_lib a; tls = sc_TLS (cf_ServerConfig (fst s)) in
      if enabled (st_Enabled tls) \<and> st_CertFile tls = '''' \<and> st_KeyFile tls = '''' then
        (Fail (Plain ''no TLS cert and key file provided''), s)
      else
        let s = on_config share_tls s in
        bind_r (wrap_err ''failed to parse ca block'' (ParseCABlock l s)) (\<lambda>crypto s.
        bind_r (join_block ''tls'' (ParseTLSBlock l) crypto s) (\<lambda>crypto s.
        bind_r (join_block ''db'' (ParseDBBlock l) crypto s) (\<lambda>crypto s.
        bind_r (join_block ''operations'' (ParseOperationsBlock l) crypto s) (\<lambda>crypto s.
        join_block ''intermediate'' (ParseIntermediateBlock l) crypto s)))))"

definition ParseTLSCACrypto ::
  "'w ca_init_deps \<Rightarrow> 'w ca_state \<Rightarrow> string gomap option go_result \<times> 'w ca_state" where
  "ParseTLSCACrypto a s =
     (let l = ia_lib a in
      bind_r (wrap_err ''failed to parse ca block'' (ParseCABlock l s)) (\<lambda>crypto s.
      bind_r (join_block ''tls'' (ParseTLSBlock l) crypto s) (\<lambda>crypto s.
      bind_r (join_block ''db'' (ParseDBBlock l) crypto s) (\<lambda>crypto s.
      join_block ''intermediate'' (ParseIntermediateBlock l) crypto s))))"

definition ParseCrypto ::
  "'w ca_init_deps \<Rightarrow> ca_object \<Rightarrow> 'w ca_state \<Rightarrow> string gomap option go_result \<times> 'w ca_state" where
  "ParseCrypto a ob s =
     (case ob_Type ob of
        EnrollmentCA \<Rightarrow> ParseEnrollmentCACrypto a s
      | TLSCA \<Rightarrow> ParseTLSCACrypto a s
      | OtherCA t \<Rightarrow> (Fail (Plain (''unsupported ca type '' @ quoted t)), s))"

subsection \<open>Initialization in the operator\<close>

definition config_ConfigToBytes :: "'w ca_init_deps \<Rightarrow> 'w ca_state \<Rightarrow> string go_result \<times> 'w ca_state" where
  "config_ConfigToBytes a s = (ia_to_yaml a (cf_ServerConfig (fst s)), s)"

definition in_world :: "('w \<Rightarrow> 'a go_result \<times> 'w) \<Rightarrow> 'w ca_state \<Rightarrow> 'a go_result \<times> 'w ca_state" where
  "in_world f s = (case f (snd s) of (r, w) \<Rightarrow> (r, fst s, w))"

definition WriteConfig :: "'w ca_init_deps \<Rightarrow> ca_object \<Rightarrow> 'w ca_state \<Rightarrow> unit go_result \<times> 'w ca_state" where
  "WriteConfig a ob s =
     bind_r (config_ConfigToBytes a s) (\<lambda>bytes s.
     bind_r (in_world (EnsureDir (ia_lib a) (cf_HomeDir (fst s))) s) (\<lambda>_ s.
     in_world (cl_write (ia_lib a) (ob_configFile ob) bytes) s))"

definition IsPostgresReachable :: "'w ca_init_deps \<Rightarrow> lib_config \<Rightarrow> 'w \<Rightarrow> bool go_result \<times> 'w" where
  "IsPostgresReachable a cfg w =
     (let tls = lc_DB_TLS cfg;
          ds = lc_DB_Datasource cfg;
          ds = (case tc_CertFiles tls of [] \<Rightarrow> ds | f # _ \<Rightarrow> ds @ '' sslrootcert='' @ f);
          ds = (if tc_CertFile tls \<noteq> '''' then ds @ '' sslcert='' @ tc_CertFile tls else ds);
          ds = (if tc_KeyFile tls \<noteq> '''' then ds @ '' sslkey='' @ tc_KeyFile tls else ds)
      in (case ia_sql_open a (lc_DB_Type cfg) ds of
            Fail e \<Rightarrow> (Ok False, w)
          | Panic p \<Rightarrow> (Panic p, w)
          | Ok _ \<Rightarrow> (case ia_ping a (lc_DB_Type cfg) ds w of
                (Ok _, w) \<Rightarrow> (Ok True, w)
              | (Fail e, w) \<Rightarrow> (Ok False, w)
              | (Panic p, w) \<Rightarrow> (Panic p, w))))"

definition ViperUnmarshal :: "'w ca_init_deps \<Rightarrow> string \<Rightarrow> 'w \<Rightarrow> lib_config go_result \<times> 'w" where
  "ViperUnmarshal a configFile w =
     bind_r (wrap_err (''viper unable to read in config: '' @ configFile) (ia_viper_read a configFile w)) (\<lambda>v w.
     bind_r (wrap_err ''viper unable to unmarshal into server level config'' (ia_viper_server a v, w)) (\<lambda>config w.
     wrap_err ''viper unable to unmarshal into CA level config'' (ia_viper_ca a v config, w)))"

text \<open>
  \<open>HealthCheck\<close> of \<open>pkg/util/util.go\<close>.  For a status other than 200 the code wraps the error of the request,
  which is nil there, and wrapping a nil error gives nil.
\<close>

definition util_HealthCheck :: "'w ca_init_deps \<Rightarrow> string \<Rightarrow> string \<Rightarrow> 'w \<Rightarrow> unit go_result \<times> 'w" where
  "util_HealthCheck a healthURL cert w =
     bind_r (wrap_err ''invalid http request'' (ia_request a healthURL, w)) (\<lambda>_ w.
     bind_r (wrap_err ''health check request failed'' (ia_http a healthURL cert w)) (\<lambda>status w. (Ok (), w)))"

definition getHealthCheckEndpoint :: "string \<times> string \<Rightarrow> string" where
  "getHealthCheckEndpoint u = fst u @ ''://'' @ snd u @ ''/cainfo''"

fun ping_parent :: "'w ca_init_deps \<Rightarrow> string \<Rightarrow> string \<Rightarrow> nat \<Rightarrow> 'w \<Rightarrow> unit go_result \<times> 'w" where
  "ping_parent a healthURL cert 0 w = (Ok (), w)"
| "ping_parent a healthURL cert (Suc n) w =
     (case util_HealthCheck a healthURL cert w of
        (Fail e, w) \<Rightarrow> ping_parent a healthURL cert n (ia_sleep a w)
      | r \<Rightarrow> r)"

definition ca_HealthCheck :: "'w ca_init_deps \<Rightarrow> string \<Rightarrow> string \<Rightarrow> 'w \<Rightarrow> unit go_result \<times> 'w" where
  "ca_HealthCheck a parentURL certPath w =
     bind_r (wrap_err ''invalid CA url'' (ia_url a parentURL, w)) (\<lambda>u w.
     bind_r (wrap_err ''failed to read TLS cert for intermediate enrollment'' (cl_read (ia_lib a) certPath w)) (\<lambda>cert w.
     ping_parent a (getHealthCheckEndpoint u) cert 5 w))"

definition check_proxy :: "'w cdeps \<Rightarrow> 'w ca_init_deps \<Rightarrow> bool \<Rightarrow> 'w \<Rightarrow> unit go_result \<times> 'w" where
  "check_proxy d a c w =
     (if c then
        (case ia_getenv a ''PKCS11_PROXY_SOCKET'' w of (env, w) \<Rightarrow>
           if env = '''' then (Fail (Plain ''ca configured to use PKCS11, but no PKCS11 proxy endpoint set''), w)
           else (case d_tcp_reachable d env w of (reachable, w) \<Rightarrow>
             if \<not> reachable then (Fail (Plain (''Unable to reach PKCS11 proxy: '' @ env)), w) else (Ok (), w)))
      else (Ok (), w))"

definition check_database :: "'w ca_init_deps \<Rightarrow> lib_config \<Rightarrow> 'w \<Rightarrow> unit go_result \<times> 'w" where
  "check_database a cfg w =
     (if lc_DB_Type cfg = ''postgres'' then
        bind_r (IsPostgresReachable a cfg w) (\<lambda>reachable w.
          if \<not> reachable then (Fail (Plain ''Cannot initialize CA. Postgres is not reachable''), w) else (Ok (), w))
      else (Ok (), w))"

text \<open>The first certificate of the connection to the parent is taken without looking whether there is one.\<close>

definition check_parent :: "'w ca_init_deps \<Rightarrow> lib_config \<Rightarrow> 'w \<Rightarrow> unit go_result \<times> 'w" where
  "check_parent a cfg w =
     (if lc_ParentServer_URL cfg \<noteq> '''' then
        (case lc_Intermediate_CertFiles cfg of
           [] \<Rightarrow> (Panic ''index out of range'', w)
         | f # _ \<Rightarrow> wrap_err ''could not connect to parent CA'' (ca_HealthCheck a (lc_ParentServer_URL cfg) f w))
      else (Ok (), w))"

definition ca_Init ::
  "'w cdeps \<Rightarrow> 'w ca_init_deps \<Rightarrow> ca_object \<Rightarrow> 'w ca_state \<Rightarrow> unit go_result \<times> 'w ca_state" where
  "ca_Init d a ob s =
     bind_r (in_world (check_proxy d a (config_UsingPKCS11 (cf_ServerConfig (fst s)) \<and> ob_UsingHSMProxy ob)) s) (\<lambda>_ s.
     bind_r (wrap_err ''viper unmarshal failed'' (in_world (ViperUnmarshal a (ob_configFile ob)) s)) (\<lambda>cfg s.
     let cfg = cfg\<lparr>lc_Metrics_Provider := ''disabled''\<rparr> in
     bind_r (in_world (check_database a cfg) s) (\<lambda>_ s.
     bind_r (in_world (check_parent a cfg) s) (\<lambda>_ s.
     bind_r (in_world (ia_server_init a (cf_HomeDir (fst s)) cfg) s) (\<lambda>(cert, key, chain) s.
     let s = on_config (on_info (\<lambda>i. i\<lparr>in_Certfile := cert, in_Keyfile := key, in_Chainfile := chain\<rparr>)) s
     in (Ok (), if ob_Type ob = EnrollmentCA
                then on_config (\<lambda>sc. sc\<lparr>sc_CAfiles := [''/data/tlsca/fabric-ca-server-config.yaml'']\<rparr>) s else s))))))"

record ca_response =
  rs_Config :: "server_config option"
  rs_CryptoMap :: "string gomap option"

definition SW_Create ::
  "'w cdeps \<Rightarrow> 'w ca_init_deps \<Rightarrow> ca_object \<Rightarrow> server_config option \<Rightarrow> 'w ca_state \<Rightarrow>
     ca_response option go_result \<times> 'w ca_state" where
  "SW_Create d a ob overrides s =
     (let remove = in_world (ia_remove_all a (cf_HomeDir (fst s))) in
      bind_r (remove s) (\<lambda>_ s.
      bind_r (OverrideServerConfig a ob overrides s) (\<lambda>_ s.
      bind_r (ParseCrypto a ob s) (\<lambda>crypto s.
      bind_r (WriteConfig a ob s) (\<lambda>_ s.
      bind_r (ca_Init d a ob s) (\<lambda>_ s.
      bind_r (ParseCABlock (ia_lib a) s) (\<lambda>caBlock s.
      let crypto = JoinMaps crypto caBlock in
      bind_r (config_SetMountPaths (ob_Type ob) s) (\<lambda>_ s.
      bind_r (remove s) (\<lambda>_ s.
      (Ok (Some \<lparr>rs_Config = Some (cf_ServerConfig (fst s)), rs_CryptoMap = Some crypto\<rparr>), s))))))))))"

subsection \<open>Initialization by a job\<close>

definition crypto_name :: "ca_cr \<Rightarrow> ca_type \<Rightarrow> string" where
  "crypto_name i caType = (case caType of
     EnrollmentCA \<Rightarrow> Name i @ ''-ca-crypto'' | TLSCA \<Rightarrow> Name i @ ''-tlsca-crypto'' | OtherCA _ \<Rightarrow> '''')"

definition ca_config_name :: "ca_cr \<Rightarrow> ca_type \<Rightarrow> string" where
  "ca_config_name i caType = (case caType of
     EnrollmentCA \<Rightarrow> Name i @ ''-ca-config'' | TLSCA \<Rightarrow> Name i @ ''-tlsca-config'' | OtherCA _ \<Rightarrow> '''')"

text \<open>\<open>GetLabels\<close> of the custom resource.\<close>

definition cr_labels :: "'w cdeps \<Rightarrow> ca_cr \<Rightarrow> string gomap" where
  "cr_labels d i =
     (let prefix = d_getenv d ''OPERATOR_LABEL_PREFIX''; label = (if prefix = '''' then ''fabric'' else prefix)
      in [(''app'', Name i), (''creator'', label), (''release'', ''operator''), (''helm.sh/chart'', ''ibm-'' @ label),
          (''app.kubernetes.io/name'', label), (''app.kubernetes.io/instance'', label @ ''ca''),
          (''app.kubernetes.io/managed-by'', label @ ''-operator'')])"

definition createCACryptoSecret ::
  "'w cdeps \<Rightarrow> 'w ca_init_deps \<Rightarrow> ca_cr \<Rightarrow> ca_object \<Rightarrow> 'w ca_state \<Rightarrow> unit go_result \<times> 'w ca_state" where
  "createCACryptoSecret d a i ob s =
     bind_r (ParseCrypto a ob s) (\<lambda>crypto s.
     wrap_err ''failed to create initialization crypto secret''
       (in_world (d_create_secret d (crypto_name i (ob_Type ob)) (Namespace i) [] (sdata crypto)) s))"

definition put_library :: "string \<Rightarrow> server_config \<Rightarrow> server_config go_result" where
  "put_library library sc =
     (case sc_CSP sc of
        None \<Rightarrow> Panic ''nil pointer dereference''
      | Some csp \<Rightarrow> (case cp_PKCS11 csp of
            None \<Rightarrow> Panic ''nil pointer dereference''
          | Some p \<Rightarrow> Ok (sc\<lparr>sc_CSP := Some (csp\<lparr>cp_PKCS11 := Some (p\<lparr>cp_Library := library\<rparr>)\<rparr>)\<rparr>)))"

definition createCAConfigMap ::
  "'w cdeps \<Rightarrow> 'w ca_init_deps \<Rightarrow> ca_cr \<Rightarrow> string \<Rightarrow> ca_object \<Rightarrow> 'w ca_state \<Rightarrow> unit go_result \<times> 'w ca_state" where
  "createCAConfigMap d a i library ob s =
     bind_r (put_library (''/hsm/lib/'' @ path_base library) (cf_ServerConfig (fst s)), s) (\<lambda>sc s.
     bind_r (config_SetMountPaths (ob_Type ob) (on_config (\<lambda>_. sc) s)) (\<lambda>_ s.
     bind_r (config_ConfigToBytes a s) (\<lambda>configBytes s.
     wrap_err ''failed to create initialization config map secret''
       (in_world (d_create_cm d (ca_config_name i (ob_Type ob)) (Namespace i) (cr_labels d i)
          [(''fabric-ca-server-config.yaml'', configBytes)]) s))))"

definition updateCAConfigMap ::
  "'w cdeps \<Rightarrow> 'w ca_init_deps \<Rightarrow> ca_cr \<Rightarrow> 'w ca_state \<Rightarrow> unit go_result \<times> 'w ca_state" where
  "updateCAConfigMap d a i s =
     bind_r (config_ConfigToBytes a
       (on_config (\<lambda>sc. sc\<lparr>sc_CAfiles := [''/data/tlsca/fabric-ca-server-config.yaml'']\<rparr>) s)) (\<lambda>configBytes s.
     wrap_err (''failed to update config map '' @ quoted (Name i @ ''-ca-config''))
       (in_world (d_update_cm d (Name i @ ''-ca-config'') (Namespace i) (cr_labels d i)
          [(''fabric-ca-server-config.yaml'', configBytes)]) s))"

text \<open>The database of the override; without an override a value, in an override without a database nil.\<close>

definition no_db :: ca_db where
  "no_db = \<lparr>db_Type = '''', db_Datasource = '''',
     db_TLS = \<lparr>tc_Enabled = None, tc_CertFiles = [], tc_CertFile = '''', tc_KeyFile = ''''\<rparr>\<rparr>"

definition getDBConfig :: "'w ca_init_deps \<Rightarrow> ca_cr \<Rightarrow> ca_type \<Rightarrow> ca_db option go_result" where
  "getDBConfig a i caType =
     (case (case caType of EnrollmentCA \<Rightarrow> raw_ca_override (Spec i) | TLSCA \<Rightarrow> raw_tlsca_override (Spec i)
              | OtherCA _ \<Rightarrow> None) of
        None \<Rightarrow> Ok (Some no_db)
      | Some raw \<Rightarrow> seq_r (ia_yaml a raw) (\<lambda>sc. Ok (sc_DB sc)))"

text \<open>
  The waits of \<open>hsm.go\<close>, which has its own instead of those of \<open>job.go\<close>: every error is swallowed, and the
  pod of the job must be one.
\<close>

definition hsm_waitForJobToBeActive :: "'w job_api \<Rightarrow> job_ref \<Rightarrow> 'w \<Rightarrow> unit go_result \<times> 'w" where
  "hsm_waitForJobToBeActive j r w =
     wrap_err ''job failed to start'' (poll_cond (ja_active_polls j) (\<lambda>w.
       (case ja_get j (jr_Name r) (jr_Namespace r) w of
          (Ok counts, w) \<Rightarrow> (Ok (1 \<le> jc_Active counts), w)
        | (Fail e, w) \<Rightarrow> (Ok False, w)
        | (Panic p, w) \<Rightarrow> (Panic p, w))) w)"

definition hsm_podStatus :: "'w job_api \<Rightarrow> job_ref \<Rightarrow> 'w \<Rightarrow> string go_result \<times> 'w" where
  "hsm_podStatus j r w =
     bind_r (job_getPods j r w) (\<lambda>pods w.
       (case pods of
          [pod] \<Rightarrow> (Ok (jp_Phase pod), w)
        | _ \<Rightarrow> (Fail (Plain ''incorrect number of job pods found''), w)))"

fun poll_value :: "nat \<Rightarrow> ('w \<Rightarrow> 'a option go_result \<times> 'w) \<Rightarrow> 'w \<Rightarrow> 'a go_result \<times> 'w" where
  "poll_value 0 cond w = (Fail (Plain ''timed out waiting for the condition''), w)"
| "poll_value (Suc n) cond w =
     bind_r (cond w) (\<lambda>v w. case v of Some x \<Rightarrow> (Ok x, w) | None \<Rightarrow> poll_value n cond w)"

definition hsm_waitForJobPodToFinish :: "'w job_api \<Rightarrow> job_ref \<Rightarrow> 'w \<Rightarrow> string go_result \<times> 'w" where
  "hsm_waitForJobPodToFinish j r w =
     wrap_err (''pod for job '' @ quoted (jr_Name r) @ '' failed to finish'') (poll_value (ja_finished_polls j) (\<lambda>w.
       (case hsm_podStatus j r w of
          (Ok phase, w) \<Rightarrow> (Ok (if phase = ''Failed'' \<or> phase = ''Succeeded'' then Some phase else None), w)
        | (Fail e, w) \<Rightarrow> (Ok None, w)
        | (Panic p, w) \<Rightarrow> (Panic p, w))) w)"

definition hsm_deleteJob :: "'w job_api \<Rightarrow> job_ref \<Rightarrow> 'w \<Rightarrow> unit go_result \<times> 'w" where
  "hsm_deleteJob j r w =
     bind_r (ja_delete_job j (jr_Name r) (jr_Namespace r) w) (\<lambda>_ w.
     bind_r (wrap_err ''failed to list job pods'' (ja_list j (jr_Name r) w)) (\<lambda>pods w.
     job_remove_pods j pods w))"

text \<open>What both HSM initializers do before and after their job.\<close>

definition hsm_prepare ::
  "'w cdeps \<Rightarrow> 'w ca_init_deps \<Rightarrow> bool \<Rightarrow> hsm_config \<Rightarrow> ca_cr \<Rightarrow> ca_object \<Rightarrow> server_config option \<Rightarrow>
     'w ca_state \<Rightarrow> job_ref go_result \<times> 'w ca_state" where
  "hsm_prepare d a daemon hsm i ob overrides s =
     bind_r (OverrideServerConfig a ob overrides s) (\<lambda>_ s.
     bind_r (createCACryptoSecret d a i ob s) (\<lambda>_ s.
     bind_r (createCAConfigMap d a i (hsm_FilePath hsm) ob s) (\<lambda>_ s.
     bind_r (wrap_err (''failed get DB config for CA '' @ quoted (Name i)) (getDBConfig a i (ob_Type ob), s)) (\<lambda>db s.
     wrap_err ''failed to create HSM ca initialization job'' (in_world (ia_create_job a daemon i db (ob_Type ob)) s)))))"

definition hsm_finish ::
  "'w cdeps \<Rightarrow> 'w ca_init_deps \<Rightarrow> ca_cr \<Rightarrow> ca_object \<Rightarrow> 'w ca_state \<Rightarrow> ca_response option go_result \<times> 'w ca_state" where
  "hsm_finish d a i ob s =
     bind_r (if ob_Type ob = EnrollmentCA then
               wrap_err (''failed to update CA configmap for CA '' @ Name i) (updateCAConfigMap d a i s)
             else (Ok (), s)) (\<lambda>_ s. (Ok None, s))"

definition HSM_Create ::
  "'w cdeps \<Rightarrow> 'w ca_init_deps \<Rightarrow> hsm_config \<Rightarrow> ca_cr \<Rightarrow> ca_object \<Rightarrow> server_config option \<Rightarrow> 'w ca_state \<Rightarrow>
     ca_response option go_result \<times> 'w ca_state" where
  "HSM_Create d a hsm i ob overrides s =
     bind_r (hsm_prepare d a False hsm i ob overrides s) (\<lambda>job s.
     bind_r (in_world (hsm_waitForJobToBeActive (ia_jobs a) job) s) (\<lambda>_ s.
     bind_r (in_world (hsm_waitForJobPodToFinish (ia_jobs a) job) s) (\<lambda>phase s.
     if phase \<noteq> ''Succeeded'' then
       (Fail (Plain (''failed to init '' @ quoted (Name i) @ '' check job '' @ quoted (jr_Name job) @ '' pods for errors'')), s)
     else
       bind_r (in_world (hsm_deleteJob (ia_jobs a) job) s) (\<lambda>_ s. hsm_finish d a i ob s))))"

definition HSMDaemon_Create ::
  "'w cdeps \<Rightarrow> 'w ca_init_deps \<Rightarrow> hsm_config \<Rightarrow> ca_cr \<Rightarrow> ca_object \<Rightarrow> server_config option \<Rightarrow> 'w ca_state \<Rightarrow>
     ca_response option go_result \<times> 'w ca_state" where
  "HSMDaemon_Create d a hsm i ob overrides s =
     bind_r (hsm_prepare d a True hsm i ob overrides s) (\<lambda>job s.
     bind_r (in_world (job_WaitUntilActive (ia_jobs a) job) s) (\<lambda>_ s.
     bind_r (in_world (job_WaitUntilContainerFinished (ia_jobs a) job ''certgen'') s) (\<lambda>_ s.
     bind_r (in_world (job_ContainerStatus (ia_jobs a) job ''certgen'') s) (\<lambda>status s.
     bind_r (case status of
               JOB_FAILED \<Rightarrow> (Fail (Plain (''Job '' @ quoted (jr_Name job) @
                 '' finished unsuccessfully, not cleaning up pods to allow for error evaluation'')), s)
             | JOB_COMPLETED \<Rightarrow> in_world (job_Delete (ia_jobs a) job) s
             | JOB_UNKNOWN \<Rightarrow> (Ok (), s)) (\<lambda>_ s.
     hsm_finish d a i ob s)))))"

subsection \<open>The initializer\<close>

definition Initializer_Create ::
  "'w cdeps \<Rightarrow> 'w ca_init_deps \<Rightarrow> ca_cr \<Rightarrow> server_config option \<Rightarrow> ca_object \<Rightarrow> 'w ca_state \<Rightarrow>
     ca_response option go_result \<times> 'w ca_state" where
  "Initializer_Create d a i overrides ob s =
     (if IsHSMEnabledForType a i (ob_Type ob) then
        if ca_UsingHSMProxy i then SW_Create d a ob overrides s
        else
          bind_r (in_world (ReadHSMConfig d i) s) (\<lambda>hsm s.
            if hsm_Daemon hsm then HSMDaemon_Create d a hsm i ob overrides s
            else HSM_Create d a hsm i ob overrides s)
      else SW_Create d a ob overrides s)"

definition Initializer_Update ::
  "'w ca_init_deps \<Rightarrow> server_config option \<Rightarrow> ca_object \<Rightarrow> 'w ca_state \<Rightarrow> ca_response option go_result \<times> 'w ca_state" where
  "Initializer_Update a overrides ob s =
     (let s = (case s of (c, w) \<Rightarrow> (c\<lparr>cf_Update := True\<rparr>, w)) in
      bind_r (OverrideServerConfig a ob overrides s) (\<lambda>_ s.
      bind_r (ParseCrypto a ob s) (\<lambda>crypto s.
      bind_r (config_SetMountPaths (ob_Type ob) s) (\<lambda>_ s.
      (Ok (Some \<lparr>rs_Config = Some (cf_ServerConfig (fst s)), rs_CryptoMap = crypto\<rparr>), s)))))"

end
