(* ===== verification/CAInit.thy ===== *)
theory CAInit
  imports CAInitializer
begin

text \<open>
  What the offering of a CA does to initialize its two servers, the CA and its TLS CA:
  \<open>pkg/offering/base/ca/initialize.go\<close>.  Each server has a secret with its crypto material and a config map
  with its configuration.

  \<open>ca_store\<close> are the calls on these objects that create or update them, and the paths of the operator's
  configuration; the data of a config map is \<open>None\<close> where it is nil.
\<close>

record 'w ca_store =
  ii_get_config :: "string \<Rightarrow> string \<Rightarrow> 'w \<Rightarrow> string gomap option go_result \<times> 'w"
  ii_put_config :: "string \<Rightarrow> string \<Rightarrow> string gomap \<Rightarrow> string gomap \<Rightarrow> 'w \<Rightarrow> unit go_result \<times> 'w"
  ii_put_secret :: "string \<Rightarrow> string \<Rightarrow> string gomap \<Rightarrow> string gomap \<Rightarrow> 'w \<Rightarrow> unit go_result \<times> 'w"
  ii_SharedPath :: string
  ii_CADefaultConfigPath :: string
  ii_TLSCADefaultConfigPath :: string

definition server_config_file :: string where "server_config_file = ''fabric-ca-server-config.yaml''"

subsection \<open>Secrets and config maps\<close>

definition ca_ReadConfigMap :: "'w ca_store \<Rightarrow> ca_cr \<Rightarrow> string \<Rightarrow> 'w \<Rightarrow> string gomap option go_result \<times> 'w" where
  "ca_ReadConfigMap t i name w = wrap_err ''failed to get config map'' (ii_get_config t name (Namespace i) w)"

definition ca_CreateOrUpdateConfigMap ::
  "'w cdeps \<Rightarrow> 'w ca_store \<Rightarrow> ca_cr \<Rightarrow> string gomap \<Rightarrow> string \<Rightarrow> 'w \<Rightarrow> unit go_result \<times> 'w" where
  "ca_CreateOrUpdateConfigMap d t i data name w =
     wrap_err ''failed to create/update config map'' (ii_put_config t name (Namespace i) (cr_labels d i) data w)"

definition CreateOrUpdateCryptoSecret ::
  "'w cdeps \<Rightarrow> 'w ca_store \<Rightarrow> ca_cr \<Rightarrow> string gomap \<Rightarrow> string \<Rightarrow> 'w \<Rightarrow> unit go_result \<times> 'w" where
  "CreateOrUpdateCryptoSecret d t i caCrypto name w =
     wrap_err ''failed to create/update secret'' (ii_put_secret t name (Namespace i) (cr_labels d i) caCrypto w)"

definition GetCryptoSecret :: "'w cdeps \<Rightarrow> ca_cr \<Rightarrow> string \<Rightarrow> 'w \<Rightarrow> string gomap option go_result \<times> 'w" where
  "GetCryptoSecret d i name w =
     wrap_err ''failed to create/update secret'' (d_get_secret d name (Namespace i) w)"

definition SecretExists :: "'w cdeps \<Rightarrow> ca_cr \<Rightarrow> string \<Rightarrow> 'w \<Rightarrow> bool go_result \<times> 'w" where
  "SecretExists d i name w =
     (case d_get_secret d name (Namespace i) w of
        (Ok _, w) \<Rightarrow> (Ok True, w)
      | (Fail e, w) \<Rightarrow> (Ok False, w)
      | (Panic p, w) \<Rightarrow> (Panic p, w))"

text \<open>New material replaces the old where there is any; a nil map cannot be written to.\<close>

fun MergeCryptoMaterial :: "string gomap option \<Rightarrow> string gomap \<Rightarrow> string gomap option go_result" where
  "MergeCryptoMaterial old [] = Ok old"
| "MergeCryptoMaterial old ((k, v) # updated) =
     (if length v \<noteq> 0 then
        (case old of
           None \<Rightarrow> Panic ''assignment to entry in nil map''
         | Some m \<Rightarrow> MergeCryptoMaterial (Some (AList.update k v m)) updated)
      else MergeCryptoMaterial old updated)"

subsection \<open>The configuration of a server\<close>

text \<open>\<open>GetEnrollmentInitCA\<close> and \<open>GetTLSInitCA\<close>: \<open>part\<close> is the server's name in paths.\<close>

definition init_server ::
  "'w ca_init_deps \<Rightarrow> 'w ca_store \<Rightarrow> ca_type \<Rightarrow> string \<Rightarrow> string option \<Rightarrow> ca_cr \<Rightarrow> string \<Rightarrow>
     (ca_object \<times> ca_config) go_result" where
  "init_server a t caType part override i data =
     seq_r (ia_yaml a data) (\<lambda>serverConfig.
       let c = \<lparr>cf_ServerConfig = serverConfig, cf_HomeDir = ii_SharedPath t @ ''/'' @ Name i @ ''/'' @ part,
                cf_MountPath = ''/crypto/'' @ part, cf_Update = False, cf_SqlitePath = cx_Sqlite (Spec i),
                cf_crypto = (\<lambda>b. None)\<rparr>;
           cn = Name i @ ''-'' @ part
       in seq_r (case override of
                   None \<Rightarrow> Ok cn
                 | Some raw \<Rightarrow> seq_r (ia_yaml a raw) (\<lambda>co. Ok (if sc_CSR_CN co \<noteq> '''' then sc_CSR_CN co else cn)))
            (\<lambda>cn. Ok (NewCA c caType (ca_UsingHSMProxy i) cn, c)))"

definition GetEnrollmentInitCA ::
  "'w ca_init_deps \<Rightarrow> 'w ca_store \<Rightarrow> ca_cr \<Rightarrow> string \<Rightarrow> (ca_object \<times> ca_config) go_result" where
  "GetEnrollmentInitCA a t i = init_server a t EnrollmentCA ''ca'' (raw_ca_override (Spec i)) i"

definition GetTLSInitCA ::
  "'w ca_init_deps \<Rightarrow> 'w ca_store \<Rightarrow> ca_cr \<Rightarrow> string \<Rightarrow> (ca_object \<times> ca_config) go_result" where
  "GetTLSInitCA a t i = init_server a t TLSCA ''tlsca'' (raw_tlsca_override (Spec i)) i"

text \<open>The override, parsed as JSON, and what the initializer makes of both; its configuration is dropped.\<close>

definition parsed_override :: "'w ca_init_deps \<Rightarrow> string option \<Rightarrow> server_config option go_result" where
  "parsed_override a override =
     (case override of None \<Rightarrow> Ok None | Some raw \<Rightarrow> seq_r (ia_json a raw) (\<lambda>sc. Ok (Some sc)))"

definition run_init ::
  "('w ca_state \<Rightarrow> 'a go_result \<times> 'w ca_state) \<Rightarrow> ca_config \<Rightarrow> 'w \<Rightarrow> 'a go_result \<times> 'w" where
  "run_init f c w = (case f (c, w) of (r, c, w) \<Rightarrow> (r, w))"

definition CreateEnrollmentCAConfig ::
  "'w cdeps \<Rightarrow> 'w ca_init_deps \<Rightarrow> 'w ca_store \<Rightarrow> ca_cr \<Rightarrow> 'w \<Rightarrow> ca_response option go_result \<times> 'w" where
  "CreateEnrollmentCAConfig d a t i w =
     bind_r (cl_read (ia_lib a) (ii_CADefaultConfigPath t) w) (\<lambda>bytes w.
     bind_r (GetEnrollmentInitCA a t i bytes, w) (\<lambda>(sca, c) w.
     bind_r (parsed_override a (raw_ca_override (Spec i)), w) (\<lambda>caOverrides w.
     run_init (Initializer_Create d a i caOverrides sca) c w)))"

definition CreateTLSCAConfig ::
  "'w cdeps \<Rightarrow> 'w ca_init_deps \<Rightarrow> 'w ca_store \<Rightarrow> ca_cr \<Rightarrow> 'w \<Rightarrow> ca_response option go_result \<times> 'w" where
  "CreateTLSCAConfig d a t i w =
     bind_r (cl_read (ia_lib a) (ii_TLSCADefaultConfigPath t) w) (\<lambda>bytes w.
     bind_r (GetTLSInitCA a t i bytes, w) (\<lambda>(sca, c) w.
     bind_r (parsed_override a (raw_tlsca_override (Spec i)), w) (\<lambda>tlscaOverrides w.
     run_init (Initializer_Create d a i tlscaOverrides sca) c w)))"

text \<open>\<open>cm.BinaryData[k]\<close>, empty where there is no such entry.\<close>

definition config_bytes :: "string gomap option \<Rightarrow> string" where
  "config_bytes m = entry_of (sdata m) server_config_file"

definition UpdateEnrollmentCAConfig ::
  "'w ca_init_deps \<Rightarrow> 'w ca_store \<Rightarrow> ca_cr \<Rightarrow> 'w \<Rightarrow> ca_response option go_result \<times> 'w" where
  "UpdateEnrollmentCAConfig a t i w =
     bind_r (ca_ReadConfigMap t i (Name i @ ''-ca-config'') w) (\<lambda>m w.
     bind_r (GetEnrollmentInitCA a t i (config_bytes m), w) (\<lambda>(sca, c) w.
     bind_r (parsed_override a (raw_ca_override (Spec i)), w) (\<lambda>caOverrides w.
     run_init (Initializer_Update a caOverrides sca) c w)))"

definition UpdateTLSCAConfig ::
  "'w ca_init_deps \<Rightarrow> 'w ca_store \<Rightarrow> ca_cr \<Rightarrow> 'w \<Rightarrow> ca_response option go_result \<times> 'w" where
  "UpdateTLSCAConfig a t i w =
     bind_r (ca_ReadConfigMap t i (Name i @ ''-tlsca-config'') w) (\<lambda>m w.
     bind_r (GetTLSInitCA a t i (config_bytes m), w) (\<lambda>(tca, c) w.
     bind_r (parsed_override a (raw_tlsca_override (Spec i)), w) (\<lambda>tlscaOverrides w.
     run_init (Initializer_Update a tlscaOverrides tca) c w)))"

definition HandleEnrollmentCAInit ::
  "'w cdeps \<Rightarrow> 'w ca_init_deps \<Rightarrow> 'w ca_store \<Rightarrow> ca_cr \<Rightarrow> ca_update \<Rightarrow> 'w \<Rightarrow> ca_response option go_result \<times> 'w" where
  "HandleEnrollmentCAInit d a t i u w =
     bind_r (SecretExists d i (Name i @ ''-ca-crypto'') w) (\<lambda>found w.
       if found then if c_caOverridesUpdated u then UpdateEnrollmentCAConfig a t i w else (Ok None, w)
       else CreateEnrollmentCAConfig d a t i w)"

definition HandleTLSCAInit ::
  "'w cdeps \<Rightarrow> 'w ca_init_deps \<Rightarrow> 'w ca_store \<Rightarrow> ca_cr \<Rightarrow> ca_update \<Rightarrow> 'w \<Rightarrow> ca_response option go_result \<times> 'w" where
  "HandleTLSCAInit d a t i u w =
     bind_r (SecretExists d i (Name i @ ''-tlsca-crypto'') w) (\<lambda>found w.
       if found then if c_tlscaOverridesUpdated u then UpdateTLSCAConfig a t i w else (Ok None, w)
       else CreateTLSCAConfig d a t i w)"

subsection \<open>Writing what was made\<close>

definition CreateConfigResources ::
  "'w cdeps \<Rightarrow> 'w ca_init_deps \<Rightarrow> 'w ca_store \<Rightarrow> string \<Rightarrow> ca_cr \<Rightarrow> ca_response \<Rightarrow> 'w \<Rightarrow> unit go_result \<times> 'w" where
  "CreateConfigResources d a t name i resp w =
     bind_r (if 0 < length (sdata (rs_CryptoMap resp)) then
               CreateOrUpdateCryptoSecret d t i (sdata (rs_CryptoMap resp)) (name @ ''-crypto'') w
             else (Ok (), w)) (\<lambda>_ w.
     (case rs_Config resp of
        None \<Rightarrow> (Ok (), w)
      | Some sc \<Rightarrow>
          bind_r (ia_to_yaml a sc, w) (\<lambda>bytes w.
            ca_CreateOrUpdateConfigMap d t i [(server_config_file, bytes)] (name @ ''-config'') w)))"

definition UpdateConfigResources ::
  "'w cdeps \<Rightarrow> 'w ca_init_deps \<Rightarrow> 'w ca_store \<Rightarrow> string \<Rightarrow> ca_cr \<Rightarrow> ca_response \<Rightarrow> 'w \<Rightarrow> unit go_result \<times> 'w" where
  "UpdateConfigResources d a t name i resp w =
     bind_r (GetCryptoSecret d i (name @ ''-crypto'') w) (\<lambda>secret w.
     bind_r (MergeCryptoMaterial secret (sdata (rs_CryptoMap resp)), w) (\<lambda>mergedCrypto w.
     CreateConfigResources d a t name i (resp\<lparr>rs_CryptoMap := mergedCrypto\<rparr>) w))"

definition HandleConfigResources ::
  "'w cdeps \<Rightarrow> 'w ca_init_deps \<Rightarrow> 'w ca_store \<Rightarrow> string \<Rightarrow> ca_cr \<Rightarrow> ca_response \<Rightarrow> ca_update \<Rightarrow> 'w \<Rightarrow>
     unit go_result \<times> 'w" where
  "HandleConfigResources d a t name i resp u w =
     (if c_caOverridesUpdated u \<or> c_tlscaOverridesUpdated u then UpdateConfigResources d a t name i resp w
      else CreateConfigResources d a t name i resp w)"

subsection \<open>One database for both servers\<close>

text \<open>The zero value of \<open>ServerConfig\<close>.\<close>

definition no_client_tls :: client_tls where
  "no_client_tls = \<lparr>tc_Enabled = None, tc_CertFiles = [], tc_CertFile = '''', tc_KeyFile = ''''\<rparr>"

definition no_server_tls :: server_tls where
  "no_server_tls = \<lparr>st_Enabled = None, st_CertFile = '''', st_KeyFile = '''', st_CertFiles = [], st_other = ''''\<rparr>"

definition empty_server_config :: server_config where
  "empty_server_config = \<lparr>sc_TLS = no_server_tls, sc_Operations_TLS = no_server_tls,
     sc_CA = \<lparr>in_Certfile = '''', in_Keyfile = '''', in_Chainfile = '''', in_ReenrollIgnoreCertExpiry = None,
       in_Name = ''''\<rparr>,
     sc_CSR_CN = '''', sc_DB = None, sc_CSP = None, sc_ParentServer_URL = '''', sc_Intermediate_TLS = no_client_tls,
     sc_Identities_AllowRemove = None, sc_Affiliations_AllowRemove = None, sc_CAfiles = [], sc_other = ''''\<rparr>"

text \<open>
  \<open>SyncDBConfig\<close>: the TLS CA uses the database of the CA's override, also where that has none.  The result
  is a copy of the instance.
\<close>

definition SyncDBConfig :: "'w ca_init_deps \<Rightarrow> ca_cr \<Rightarrow> ca_cr go_result" where
  "SyncDBConfig a orig =
     (case cx_ConfigOverride (Spec orig) of
        None \<Rightarrow> Ok orig
      | Some co \<Rightarrow>
          (case CA_override co of
             None \<Rightarrow> Ok orig
           | Some raw \<Rightarrow>
               seq_r (ia_json a raw) (\<lambda>eca.
               seq_r (case TLSCA_override co of None \<Rightarrow> Ok empty_server_config | Some raw \<Rightarrow> ia_json a raw) (\<lambda>tca.
               seq_r (ia_to_json a (tca\<lparr>sc_DB := sc_DB eca\<rparr>)) (\<lambda>tbytes.
               Ok (on_spec (\<lambda>s. s\<lparr>cx_ConfigOverride := Some (co\<lparr>TLSCA_override := Some tbytes\<rparr>)\<rparr>) orig))))))"

end
