(* ===== verification/CAOffering.thy ===== *)
theory CAOffering
  imports CAInit Certificates
begin

text \<open>
  The offering of a CA: \<open>pkg/offering/base/ca/ca.go\<close> and \<open>pkg/offering/k8s/ca/ca.go\<close>, with \<open>IsPostgres\<close> of the
  overrides.  It initializes the two servers, creates the Kubernetes objects, looks after the TLS certificate
  of the CA, which the operator signs itself, and runs the actions of the user.
\<close>

subsection \<open>Collaborators\<close>

text \<open>
  A certificate that is to be signed, as far as the code fills it in, and packages \<open>ecdsa\<close>, \<open>rand\<close>, \<open>net\<close>,
  \<open>x509\<close> and \<open>pem\<close>: a key, a serial number, \<open>net.ParseIP\<close>, signing, the bytes of a key, a PEM block.
\<close>

record cert_template =
  te_SerialNumber :: int
  te_CommonName :: string
  te_NotBefore :: int
  te_NotAfter :: int
  te_DNSNames :: "string list"
  te_IPAddresses :: "string list"

record ca_endpoints =
  ep_API :: string
  ep_Operations :: string

record ca_profile =
  cpf_Endpoints :: ca_endpoints
  cpf_TLSCert :: string
  cpf_CACert :: string
  cpf_TLSCACert :: string

record ('w, 'd, 'r) ca_deps =
  co_init :: "'w ca_init_deps"
  co_store :: "'w ca_store"
  co_secrets :: "'w secret_api"
  co_backup :: "('w, 'd) backup_api"
  co_certs :: "('w, 'r) cert_deps"
  co_key :: "'w \<Rightarrow> string go_result \<times> 'w"
  co_serial :: "'w \<Rightarrow> int go_result \<times> 'w"
  co_ParseIP :: "string \<Rightarrow> string option"
  co_sign :: "cert_template \<Rightarrow> string \<Rightarrow> 'w \<Rightarrow> string go_result \<times> 'w"
  co_key_bytes :: "string \<Rightarrow> string go_result"
  co_pem :: "string \<Rightarrow> string \<Rightarrow> string"
  co_profile :: "ca_profile \<Rightarrow> string go_result"
  co_RestartDisabled :: bool
  co_AllowKubernetesEighteen :: string

type_synonym 'w ca_round_state = "(ca_cr, 'w) offering"

definition ca_inst_of :: "ca_cr \<Rightarrow> inst" where
  "ca_inst_of i = \<lparr>inst_kind = KCA, inst_name = Name i, inst_namespace = Namespace i, inst_mspid = ''''\<rparr>"

definition ca_cert_instance :: "'w cdeps \<Rightarrow> ca_cr \<Rightarrow> cert_instance" where
  "ca_cert_instance d i = \<lparr>ci_name = Name i, ci_namespace = Namespace i, ci_labels = cr_labels d i,
     ci_hsm_proxy = ca_UsingHSMProxy i\<rparr>"

subsection \<open>The checks of a round\<close>

definition ca_SelectZone :: "'w cdeps \<Rightarrow> 'w ca_round_state \<Rightarrow> bool go_result \<times> 'w ca_round_state" where
  "ca_SelectZone d = select_place (GetZone d) (ValidateZone d) (\<lambda>i. cx_Zone (Spec i)) (\<lambda>z s. s\<lparr>cx_Zone := z\<rparr>)"

definition ca_SelectRegion :: "'w cdeps \<Rightarrow> 'w ca_round_state \<Rightarrow> bool go_result \<times> 'w ca_round_state" where
  "ca_SelectRegion d =
     select_place (GetRegion d) (ValidateRegion d) (\<lambda>i. cx_Region (Spec i)) (\<lambda>z s. s\<lparr>cx_Region := z\<rparr>)"

definition ca_ReconcileHSMImages :: "'w cdeps \<Rightarrow> 'w ca_round_state \<Rightarrow> bool go_result \<times> 'w ca_round_state" where
  "ca_ReconcileHSMImages d =
     refresh_hsm_image d (\<lambda>s. map_option CAHSM (cx_Images s))
       (\<lambda>t s. s\<lparr>cx_Images := map_option (\<lambda>im. im\<lparr>CAHSM := t\<rparr>) (cx_Images s)\<rparr>)"

definition ca_view :: "ca_full \<Rightarrow> image_tag ca_image_set view" where
  "ca_view s = \<lparr>vw_FabricVersion = cx_FabricVersion s, vw_Arch = cx_Arch s, vw_RegistryURL = cx_RegistryURL s,
     vw_Images = cx_Images s\<rparr>"

fun ca_put_view :: "instance_view \<Rightarrow> ca_full \<Rightarrow> ca_full" where
  "ca_put_view (CAInstance v) s = s\<lparr>cx_FabricVersion := vw_FabricVersion v, cx_Images := vw_Images v\<rparr>"
| "ca_put_view _ s = s"

definition ca_check_images ::
  "'w cdeps \<Rightarrow> ca_update \<Rightarrow> 'w ca_round_state \<Rightarrow> bool go_result \<times> 'w ca_round_state" where
  "ca_check_images d u s =
     (case FabricVersionHelper (d_versions d) (d_version_visit d)
             \<lparr>vu_ImagesUpdated = c_imagesUpdated u, vu_FabricVersionUpdated = c_fabricVersionUpdated u\<rparr>
             (CAInstance (ca_view (Spec (the_instance s)))) of
        (r, v) \<Rightarrow> (r, on_instance (on_spec (ca_put_view v)) s))"

definition ca_PreReconcileChecks ::
  "'w cdeps \<Rightarrow> ca_update \<Rightarrow> 'w ca_round_state \<Rightarrow> bool go_result \<times> 'w ca_round_state" where
  "ca_PreReconcileChecks d u s =
     bind_r (wrap_err ''failed to during version and image checks'' (ca_check_images d u s)) (\<lambda>imagesUpdated s.
     bind_r (ValidationChecks (the_instance s) ''IBPCA''
               (Option.bind (cx_ConfigOverride (Spec (the_instance s))) MaxNameLength), s) (\<lambda>_ s.
     bind_r (if ca_HSMSet (Spec (the_instance s)) then
               wrap_err (''invalid HSM endpoint for ca instance '' @ quoted (Name (the_instance s)))
                 (on_world (ValidateHSMProxyURL d
                    (case cx_HSM (Spec (the_instance s)) of Some e \<Rightarrow> e | None \<Rightarrow> '''')) s)
             else (Ok (), s)) (\<lambda>_ s.
     if \<not> ca_DomainSet (Spec (the_instance s)) then
       (Fail (Plain (''domain not set for ca instance '' @ quoted (Name (the_instance s)))), s)
     else
     bind_r (ca_SelectZone d s) (\<lambda>zoneUpdated s.
     bind_r (ca_SelectRegion d s) (\<lambda>regionUpdated s.
     bind_r (ca_ReconcileHSMImages d s) (\<lambda>hsmImageUpdated s.
     let replicasUpdated = (cx_Replicas (Spec (the_instance s)) = None);
         s = (if replicasUpdated then on_instance (on_spec (\<lambda>sp. sp\<lparr>cx_Replicas := Some 1\<rparr>)) s else s)
     in (Ok (zoneUpdated \<or> regionUpdated \<or> hsmImageUpdated \<or> replicasUpdated \<or> imagesUpdated), s)))))))"

definition ca_SetVersion :: "'w cdeps \<Rightarrow> 'w ca_round_state \<Rightarrow> bool go_result \<times> 'w ca_round_state" where
  "ca_SetVersion d s =
     (if SVersion (CRStatus (the_instance s)) = '''' \<or>
         \<not> String_Equal (SVersion (CRStatus (the_instance s))) Operator_version then
        let s = on_instance (\<lambda>i. i\<lparr>CRStatus := (CRStatus i)\<lparr>SVersion := Operator_version\<rparr>\<rparr>) s
        in bind_r (on_object (\<lambda>i. client_PatchStatus (d_client d) i (Resilient 3)) s) (\<lambda>_ s. (Ok True, s))
      else (Ok False, s))"

subsection \<open>Endpoints and TLS crypto\<close>

definition ca_GetEndpoints :: "ca_cr \<Rightarrow> ca_endpoints" where
  "ca_GetEndpoints i = (let at = (\<lambda>part. ''https://'' @ Namespace i @ ''-'' @ Name i @ part @ cx_Domain (Spec i) @ '':443'')
     in \<lparr>ep_API = at ''-ca.'', ep_Operations = at ''-operations.''\<rparr>)"

definition GetEndpointsDNS :: "ca_cr \<Rightarrow> ca_endpoints" where
  "GetEndpointsDNS i = (let at = (\<lambda>part. Namespace i @ ''-'' @ Name i @ part @ cx_Domain (Spec i))
     in \<lparr>ep_API = at ''-ca.'', ep_Operations = at ''-operations.''\<rparr>)"

text \<open>\<open>strings.Replace(s, "-ca.", ".", -1)\<close>.\<close>

fun cut_ca :: "string \<Rightarrow> string" where
  "cut_ca [] = []"
| "cut_ca (c # s) = (if has_prefix (c # s) ''-ca.'' then CHR ''.'' # cut_ca (drop 3 s) else c # cut_ca s)"

text \<open>The names and addresses a certificate is valid for, and how long: ten years of 365 days.\<close>

definition tls_template :: "('w, 'd, 'r) ca_deps \<Rightarrow> ca_endpoints \<Rightarrow> int \<Rightarrow> int \<Rightarrow> cert_template" where
  "tls_template x endpoints serial now =
     (let api = ep_API endpoints; ops = ep_Operations endpoints in
      \<lparr>te_SerialNumber = serial, te_CommonName = api, te_NotBefore = now, te_NotAfter = now + 87600 * (3600 * second),
       te_DNSNames = (if co_ParseIP x api = None then [api, cut_ca api] else []) @
                     (if co_ParseIP x ops = None then [ops] else []),
       te_IPAddresses = (case co_ParseIP x api of None \<Rightarrow> [] | Some ip \<Rightarrow> [ip]) @
                        (case co_ParseIP x ops of None \<Rightarrow> [] | Some ip \<Rightarrow> [ip])\<rparr>)"

text \<open>The key and the certificate, in this order.\<close>

definition GenTLSCrypto ::
  "('w, 'd, 'r) ca_deps \<Rightarrow> ca_endpoints \<Rightarrow> 'w \<Rightarrow> (string \<times> string) go_result \<times> 'w" where
  "GenTLSCrypto x endpoints w =
     bind_r (wrap_err ''failed to generate key'' (co_key x w)) (\<lambda>priv w.
     bind_r (wrap_err ''failed to generate serial number'' (co_serial x w)) (\<lambda>serial w.
     let (now, w) = cd_now (co_certs x) w in
     bind_r (wrap_err ''failed to create certificate''
               (co_sign x (tls_template x endpoints serial now) priv w)) (\<lambda>derBytes w.
     bind_r (wrap_err ''failed to marshal key'' (co_key_bytes x priv, w)) (\<lambda>keyBytes w.
     (Ok (co_pem x ''EC PRIVATE KEY'' keyBytes, co_pem x ''CERTIFICATE'' derBytes), w)))))"

definition CheckForTLSSecret :: "'w cdeps \<Rightarrow> ca_cr \<Rightarrow> 'w \<Rightarrow> unit go_result \<times> 'w" where
  "CheckForTLSSecret d i w =
     bind_r (d_get_secret d (Name i @ ''-tlsca-crypto'') (Namespace i) w) (\<lambda>_ w. (Ok (), w))"

text \<open>
  \<open>genTLSCrypto\<close>: the whole TLS section of the override is replaced.  \<open>co\<close> is the configuration override,
  which is there by then.
\<close>

definition genTLSCrypto ::
  "('w, 'd, 'r) ca_deps \<Rightarrow> ca_endpoints \<Rightarrow> server_config \<Rightarrow> ca_override \<Rightarrow> 'w ca_round_state \<Rightarrow>
     unit go_result \<times> 'w ca_round_state" where
  "genTLSCrypto x endpoints caOverrides co s =
     bind_r (on_world (GenTLSCrypto x endpoints) s) (\<lambda>(tlskey, tlscert) s.
     let tls = no_server_tls\<lparr>st_Enabled := Some True, st_CertFile := base64 tlscert, st_KeyFile := base64 tlskey\<rparr> in
     bind_r (ia_to_json (co_init x) (caOverrides\<lparr>sc_TLS := tls\<rparr>), s) (\<lambda>caBytes s.
     (Ok (), on_instance (on_spec (\<lambda>sp. sp\<lparr>cx_ConfigOverride := Some (co\<lparr>CA_override := Some caBytes\<rparr>)\<rparr>)) s)))"

definition no_override :: ca_override where
  "no_override = \<lparr>CA_override = None, TLSCA_override = None, MaxNameLength = None\<rparr>"

text \<open>Every error of reading the secret of the TLS CA counts as there being none.\<close>

definition AddTLSCryptoIfMissing ::
  "'w cdeps \<Rightarrow> ('w, 'd, 'r) ca_deps \<Rightarrow> ca_endpoints \<Rightarrow> 'w ca_round_state \<Rightarrow> unit go_result \<times> 'w ca_round_state" where
  "AddTLSCryptoIfMissing d x endpoints s =
     (case on_world (CheckForTLSSecret d (the_instance s)) s of
        (Ok _, s) \<Rightarrow> (Ok (), s)
      | (Panic p, s) \<Rightarrow> (Panic p, s)
      | (Fail e, s) \<Rightarrow>
          (case cx_ConfigOverride (Spec (the_instance s)) of
             None \<Rightarrow>
               genTLSCrypto x endpoints empty_server_config no_override
                 (on_instance (on_spec (\<lambda>sp. sp\<lparr>cx_ConfigOverride := Some no_override\<rparr>)) s)
           | Some co \<Rightarrow>
               (case CA_override co of
                  None \<Rightarrow> genTLSCrypto x endpoints empty_server_config co s
                | Some raw \<Rightarrow>
                    bind_r (ia_json (co_init x) raw, s) (\<lambda>caOverrides s.
                      if st_CertFile (sc_TLS caOverrides) = '''' then genTLSCrypto x endpoints caOverrides co s
                      else (Ok (), s)))))"

end
