(* ===== verification/CAReconcile.thy ===== *)
theory CAReconcile
  imports CAOffering
begin

text \<open>
  The offering of a CA, second part: initialization, the Kubernetes objects, certificates and actions, and the
  two \<open>Reconcile\<close> of \<open>pkg/offering/base/ca/ca.go\<close> and \<open>pkg/offering/k8s/ca/ca.go\<close>.
\<close>

subsection \<open>Initialization\<close>

definition ca_ReconcileRBAC :: "'w cdeps \<Rightarrow> ca_cr \<Rightarrow> 'w \<Rightarrow> unit go_result \<times> 'w" where
  "ca_ReconcileRBAC d i w =
     bind_r (d_manager d RoleManager i False w) (\<lambda>_ w.
     bind_r (d_manager d RoleBindingManager i False w) (\<lambda>_ w.
     d_manager d ServiceAccountManager i False w))"

definition ca_pvc :: "'w cdeps \<Rightarrow> ca_cr \<Rightarrow> ca_update \<Rightarrow> 'w \<Rightarrow> unit go_result \<times> 'w" where
  "ca_pvc d i u w = wrap_err ''failed PVC reconciliation''
     (d_manager d (PVCManager (cx_PVC_CA (Spec i))) i (c_specUpdated u) w)"

definition ca_init_hsm ::
  "'w cdeps \<Rightarrow> ('w, 'd, 'r) ca_deps \<Rightarrow> ca_cr \<Rightarrow> ca_update \<Rightarrow> 'w \<Rightarrow> unit go_result \<times> 'w" where
  "ca_init_hsm d x i u w =
     (if ca_IsHSMEnabled (co_init x) i then
        if ca_UsingHSMProxy i then
          d_setenv d ''PKCS11_PROXY_SOCKET'' (case cx_HSM (Spec i) of Some e \<Rightarrow> e | None \<Rightarrow> '''') w
        else (case ReadHSMConfig d i w of
            (Fail e, w) \<Rightarrow> (Fail (Plain (''using non-proxy HSM, but no HSM config defined as config map '' @
               quoted ''ibm-hlfsupport-hsm-config'')), w)
          | (Panic p, w) \<Rightarrow> (Panic p, w)
          | (Ok hsm, w) \<Rightarrow> if hsm_Daemon hsm then ca_pvc d i u w else (Ok (), w))
      else (Ok (), w))"

text \<open>A server that was initialized or updated has a response, and its secret and config map are written.\<close>

definition init_part ::
  "'w cdeps \<Rightarrow> ('w, 'd, 'r) ca_deps \<Rightarrow> (ca_cr \<Rightarrow> ca_update \<Rightarrow> 'w \<Rightarrow> ca_response option go_result \<times> 'w) \<Rightarrow> string \<Rightarrow>
     ca_cr \<Rightarrow> ca_update \<Rightarrow> 'w \<Rightarrow> unit go_result \<times> 'w" where
  "init_part d x handle part i u w =
     bind_r (handle i u w) (\<lambda>resp w.
       (case resp of
          None \<Rightarrow> (Ok (), w)
        | Some resp \<Rightarrow> HandleConfigResources d (co_init x) (co_store x) (Name i @ part) i resp u w))"

text \<open>The databases are synchronized on a copy, which the rest of the initialization works with.\<close>

definition ca_Initialize ::
  "'w cdeps \<Rightarrow> ('w, 'd, 'r) ca_deps \<Rightarrow> ca_cr \<Rightarrow> ca_update \<Rightarrow> 'w \<Rightarrow> unit go_result \<times> 'w" where
  "ca_Initialize d x i u w =
     bind_r (ca_ReconcileRBAC d i w) (\<lambda>_ w.
     bind_r (ca_init_hsm d x i u w) (\<lambda>_ w.
     bind_r (SyncDBConfig (co_init x) i, w) (\<lambda>i w.
     bind_r (init_part d x (HandleEnrollmentCAInit d (co_init x) (co_store x)) ''-ca'' i u w) (\<lambda>_ w.
     bind_r (init_part d x (HandleTLSCAInit d (co_init x) (co_store x)) ''-tlsca'' i u w) (\<lambda>_ w.
     (case d_dep_exists d i w of
        (found, w) \<Rightarrow> when_r (found \<and> ca_ConfigOverridesUpdated u)
                        (ForConfigOverride (d_env d) (ca_inst_of i)) w))))))"

subsection \<open>Managers and the connection profile\<close>

definition postgres_db :: "server_config \<Rightarrow> bool" where
  "postgres_db sc = (case sc_DB sc of Some db \<Rightarrow> to_lower (db_Type db) = ''postgres'' | None \<Rightarrow> False)"

definition IsPostgres :: "'w ca_init_deps \<Rightarrow> ca_cr \<Rightarrow> bool" where
  "IsPostgres a i =
     (let tlsca = (case raw_tlsca_override (Spec i) of
                     None \<Rightarrow> False
                   | Some raw \<Rightarrow> (case ia_json a raw of Ok sc \<Rightarrow> postgres_db sc | _ \<Rightarrow> False))
      in (case raw_ca_override (Spec i) of
            None \<Rightarrow> tlsca
          | Some raw \<Rightarrow> (case ia_json a raw of Ok sc \<Rightarrow> postgres_db sc \<or> tlsca | _ \<Rightarrow> False)))"

definition ca_createSecret :: "'w cdeps \<Rightarrow> ca_cr \<Rightarrow> string \<Rightarrow> 'w \<Rightarrow> unit go_result \<times> 'w" where
  "ca_createSecret d i suffix w =
     d_create_secret d (Name i @ suffix) (Namespace i) (cr_labels d i) [(''_shared_creation'', ''-----BEGIN'')] w"

definition CreateCACryptoSecret :: "'w cdeps \<Rightarrow> ca_cr \<Rightarrow> string gomap \<Rightarrow> 'w \<Rightarrow> unit go_result \<times> 'w" where
  "CreateCACryptoSecret d i caCrypto w = wrap_err ''failed to create CA crypto secret''
     (d_create_secret d (Name i @ ''-ca-crypto'') (Namespace i) (cr_labels d i) caCrypto w)"

definition CreateTLSCACryptoSecret :: "'w cdeps \<Rightarrow> ca_cr \<Rightarrow> string gomap \<Rightarrow> 'w \<Rightarrow> unit go_result \<times> 'w" where
  "CreateTLSCACryptoSecret d i tlscaCrypto w = wrap_err ''failed to create TLS CA crypto secret''
     (d_create_secret d (Name i @ ''-tlsca-crypto'') (Namespace i) (cr_labels d i) tlscaCrypto w)"

definition ca_ReconcileManagers ::
  "'w cdeps \<Rightarrow> ('w, 'd, 'r) ca_deps \<Rightarrow> ca_cr \<Rightarrow> ca_update \<Rightarrow> 'w \<Rightarrow> unit go_result \<times> 'w" where
  "ca_ReconcileManagers d x i u w =
     (let update = c_specUpdated u in
      bind_r (when_r (\<not> IsPostgres (co_init x) i) (ca_pvc d i u) w) (\<lambda>_ w.
      bind_r (wrap_err ''failed Service reconciliation'' (d_manager d ServiceManager i update w)) (\<lambda>_ w.
      bind_r (wrap_err ''failed RBAC reconciliation'' (ca_ReconcileRBAC d i w)) (\<lambda>_ w.
      bind_r (wrap_err ''failed Deployment reconciliation'' (d_manager d DeploymentManager i update w)) (\<lambda>_ w.
      bind_r (wrap_err ''failed CA Secret reconciliation'' (ca_createSecret d i ''-ca'' w)) (\<lambda>_ w.
      wrap_err ''failed TLS Secret reconciliation'' (ca_createSecret d i ''-tlsca'' w)))))))"

definition ca_ReconcileIngressManager ::
  "'w cdeps \<Rightarrow> ('w, 'd, 'r) ca_deps \<Rightarrow> ca_cr \<Rightarrow> bool \<Rightarrow> 'w \<Rightarrow> unit go_result \<times> 'w" where
  "ca_ReconcileIngressManager d x i update w = ingress_by_version d (co_AllowKubernetesEighteen x) i update w"

definition k8s_ca_ReconcileManagers ::
  "'w cdeps \<Rightarrow> ('w, 'd, 'r) ca_deps \<Rightarrow> ca_cr \<Rightarrow> ca_update \<Rightarrow> 'w \<Rightarrow> unit go_result \<times> 'w" where
  "k8s_ca_ReconcileManagers d x i u w =
     bind_r (ca_ReconcileManagers d x i u w) (\<lambda>_ w. ca_ReconcileIngressManager d x i (c_specUpdated u) w)"

definition ca_UpdateConnectionProfileConfigmap ::
  "'w cdeps \<Rightarrow> ('w, 'd, 'r) ca_deps \<Rightarrow> ca_cr \<Rightarrow> ca_profile \<Rightarrow> 'w \<Rightarrow> unit go_result \<times> 'w" where
  "ca_UpdateConnectionProfileConfigmap d x i profile w =
     bind_r (wrap_err ''failed to marshal connectionprofile'' (co_profile x profile, w)) (\<lambda>bytes w.
       let name = Name i @ ''-connection-profile''; dat = [(''profile.json'', bytes)]
       in (case d_get_data d name (Namespace i) w of
             (Ok _, w) \<Rightarrow> wrap_err ''failed to update connection profile configmap''
               (d_update_cm d name (Namespace i) (cr_labels d i) dat w)
           | (Fail e, w) \<Rightarrow> wrap_err ''failed to create connection profile configmap''
               (d_create_cm d name (Namespace i) (cr_labels d i) dat w)
           | (Panic p, w) \<Rightarrow> (Panic p, w)))"

definition ca_UpdateConnectionProfile ::
  "'w cdeps \<Rightarrow> ('w, 'd, 'r) ca_deps \<Rightarrow> ca_cr \<Rightarrow> 'w \<Rightarrow> unit go_result \<times> 'w" where
  "ca_UpdateConnectionProfile d x i w =
     bind_r (GetCACryptoEncoded (co_secrets x) (Name i) (Namespace i) w) (\<lambda>cacrypto w.
     bind_r (GetTLSCACryptoEncoded (co_secrets x) (Name i) (Namespace i) w) (\<lambda>(tlscacert, _) w.
     ca_UpdateConnectionProfileConfigmap d x i
       \<lparr>cpf_Endpoints = ca_GetEndpoints i, cpf_TLSCert = cc_TLSCert cacrypto, cpf_CACert = cc_Cert cacrypto,
        cpf_TLSCACert = tlscacert\<rparr> w))"

subsection \<open>Certificates\<close>

text \<open>
  The error of reading the secret is overwritten before it is looked at, and the secret is nil then.
\<close>

definition ca_CheckCertificates ::
  "('w, 'd, 'r) ca_deps \<Rightarrow> ca_cr \<Rightarrow> 'w \<Rightarrow> cr_status go_result \<times> 'w" where
  "ca_CheckCertificates x i w =
     (case sa_get (cd_api (co_certs x)) (Name i @ ''-ca-crypto'') (Namespace i) w of
        (Fail e, w) \<Rightarrow> (Panic ''nil pointer dereference'', w)
      | (Panic p, w) \<Rightarrow> (Panic p, w)
      | (Ok m, w) \<Rightarrow>
          bind_r (Expires (co_certs x) (entry_of (sdata m) ''tls-cert.pem'')
                    (ca_GetNumSecondsWarningPeriod (Spec i)) w) (\<lambda>(expiring, expireDate) w.
            if \<not> expiring then (Ok (no_status\<lparr>Type := Deployed, SReason := ''allPodsDeployed''\<rparr>), w)
            else
              (case cd_now (co_certs x) w of
                 (now, w) \<Rightarrow>
                   if expireDate < now then
                     (Ok (no_status\<lparr>Type := ErrorType, SReason := ''certRenewalRequired'',
                        Message := ''TLS cert for '' @ quoted (Name i) @ '' has expired''\<rparr>), w)
                   else
                     (Ok (no_status\<lparr>Type := Warning, SReason := ''certRenewalRequired'',
                        Message := ''TLS cert for '' @ quoted (Name i) @ '' expires on '' @
                          cd_time_text (co_certs x) expireDate\<rparr>), w))))"

text \<open>Here, too, the error of reading the secret is dropped.\<close>

definition renewed_crypto :: "string \<Rightarrow> string \<Rightarrow> string gomap \<Rightarrow> string gomap" where
  "renewed_crypto tlskey tlscert m =
     AList.update ''operations-key.pem'' tlskey (AList.update ''operations-cert.pem'' tlscert
       (AList.update ''tls-key.pem'' tlskey (AList.update ''tls-cert.pem'' tlscert m)))"

definition ca_RenewCert ::
  "'w cdeps \<Rightarrow> ('w, 'd, 'r) ca_deps \<Rightarrow> ca_cr \<Rightarrow> 'w \<Rightarrow> unit go_result \<times> 'w" where
  "ca_RenewCert d x i w =
     bind_r (GenTLSCrypto x (GetEndpointsDNS i) w) (\<lambda>(tlskey, tlscert) w.
     let name = Name i @ ''-ca-crypto'' in
     (case sa_get (cd_api (co_certs x)) name (Namespace i) w of
        (Fail e, w) \<Rightarrow> (Panic ''nil pointer dereference'', w)
      | (Panic p, w) \<Rightarrow> (Panic p, w)
      | (Ok None, w) \<Rightarrow> (Panic ''assignment to entry in nil map'', w)
      | (Ok (Some m), w) \<Rightarrow>
          cm_UpdateSecret (co_certs x) (ca_cert_instance d i) name (renewed_crypto tlskey tlscert m) w))"

subsection \<open>Actions and migration\<close>

definition ca_RestartAction :: "'w cdeps \<Rightarrow> ca_cr \<Rightarrow> 'w \<Rightarrow> unit go_result \<times> 'w" where
  "ca_RestartAction d i w =
     wrap_err ''failed to restart ca pods'' (ForRestartAction (d_env d) (ca_inst_of i) w)"

definition ca_run_actions ::
  "'w cdeps \<Rightarrow> ('w, 'd, 'r) ca_deps \<Rightarrow> ca_update \<Rightarrow> 'w ca_round_state \<Rightarrow> unit go_result \<times> 'w ca_round_state" where
  "ca_run_actions d x u s =
     bind_r (when_r (c_renewTLSCert u) (\<lambda>s.
       bind_r (wrap_err ''failed to backup crypto before renewing cert''
         (on_world (BackupCACrypto (co_secrets x) (co_backup x) (Name (the_instance s)) (Namespace (the_instance s))
            (cr_labels d (the_instance s))) s)) (\<lambda>_ s.
       do_action True (ca_RenewCert d x) ca_ResetTLSRenew s)) s) (\<lambda>_ s.
     do_action (c_restartNeeded u) (ca_RestartAction d) ca_ResetRestart s)"

definition ca_HandleActions ::
  "'w cdeps \<Rightarrow> ('w, 'd, 'r) ca_deps \<Rightarrow> ca_update \<Rightarrow> 'w ca_round_state \<Rightarrow> unit go_result \<times> 'w ca_round_state" where
  "ca_HandleActions d x u s =
     (let orig = the_instance s in
      bind_r (ca_run_actions d x u s) (\<lambda>_ s.
      wrap_err ''failed to reset action flags''
        (on_object (\<lambda>i. client_Patch (d_client d) i (MergeFrom orig)) s)))"

definition ca_HandleRestart ::
  "'w cdeps \<Rightarrow> ('w, 'd, 'r) ca_deps \<Rightarrow> 'w ca_round_state \<Rightarrow> unit go_result \<times> 'w ca_round_state" where
  "ca_HandleRestart d x s = trigger_restart d (co_RestartDisabled x) (ca_inst_of (the_instance s)) s"

text \<open>
  The migration sets a flag in the configuration.  Whether it is set already is asked of a pointer, compared
  with one that was made for the comparison, and two such pointers are never equal.
\<close>

definition ReconcileFabricCAMigration ::
  "'w cdeps \<Rightarrow> ('w, 'd, 'r) ca_deps \<Rightarrow> ca_cr \<Rightarrow> 'w \<Rightarrow> unit go_result \<times> 'w" where
  "ReconcileFabricCAMigration d x i w =
     (let a = co_init x; t = co_store x; cmname = Name i @ ''-ca-config'' in
      bind_r (ca_ReadConfigMap t i cmname w) (\<lambda>m w.
      bind_r (ia_yaml a (config_bytes m), w) (\<lambda>serverConfig w.
      bind_r (ia_to_yaml a (on_info (\<lambda>c. c\<lparr>in_ReenrollIgnoreCertExpiry := Some True\<rparr>) serverConfig), w) (\<lambda>bytes w.
      (case m of
         None \<Rightarrow> (Panic ''assignment to entry in nil map'', w)
       | Some m \<Rightarrow> ca_CreateOrUpdateConfigMap d t i (AList.update server_config_file bytes m) cmname w)))))"

subsection \<open>Reconcile\<close>

definition CAInitilizationFailed :: int where "CAInitilizationFailed = 20"
definition FabricCAMigrationFailed :: int where "FabricCAMigrationFailed = 27"

definition ca_checks ::
  "'w cdeps \<Rightarrow> ca_update \<Rightarrow> 'w ca_round_state \<Rightarrow> result option go_result \<times> 'w ca_round_state" where
  "ca_checks d u s =
     bind_r (wrap_err (''failed updating CR '' @ quoted (Name (the_instance s)) @ '' to version '' @
               quoted Operator_version) (ca_SetVersion d s)) (\<lambda>versionSet s.
     if versionSet then (Ok (Some requeue), s)
     else
       bind_r (wrap_err ''failed pre reconcile checks'' (ca_PreReconcileChecks d u s)) (\<lambda>instanceUpdated s.
       if instanceUpdated then
         bind_r (wrap_err ''failed to update instance''
                   (on_object (\<lambda>i. client_Patch (d_client d) i (Resilient 3)) s)) (\<lambda>_ s. (Ok (Some requeue), s))
       else (Ok None, s)))"

text \<open>What both rounds do up to the managers, which are a parameter.\<close>

definition ca_setup ::
  "'w cdeps \<Rightarrow> ('w, 'd, 'r) ca_deps \<Rightarrow> (ca_cr \<Rightarrow> ca_update \<Rightarrow> 'w \<Rightarrow> unit go_result \<times> 'w) \<Rightarrow> ca_update \<Rightarrow>
     'w ca_round_state \<Rightarrow> unit go_result \<times> 'w ca_round_state" where
  "ca_setup d x managers u s =
     bind_r (wrap_err ''failed to generate tls crypto''
       (AddTLSCryptoIfMissing d x (GetEndpointsDNS (the_instance s)) s)) (\<lambda>_ s.
     bind_r (wrap_op CAInitilizationFailed ''failed to initialize ca''
       (on_world (ca_Initialize d x (the_instance s) u) s)) (\<lambda>_ s.
     wrap_err ''failed to reconcile managers'' (on_world (managers (the_instance s) u) s)))"

definition ca_objects ::
  "'w cdeps \<Rightarrow> ('w, 'd, 'r) ca_deps \<Rightarrow> 'w ca_round_state \<Rightarrow> unit go_result \<times> 'w ca_round_state" where
  "ca_objects d x s =
     bind_r (wrap_err ''failed to create connection profile''
       (on_world (ca_UpdateConnectionProfile d x (the_instance s)) s)) (\<lambda>_ s.
     wrap_err ''failed to check and restore state'' (on_world (CheckStates d (the_instance s)) s))"

definition ca_restart_for_crypto ::
  "'w cdeps \<Rightarrow> ca_update \<Rightarrow> 'w ca_round_state \<Rightarrow> unit go_result \<times> 'w ca_round_state" where
  "ca_restart_for_crypto d u s = when_r (c_caCryptoUpdated u) (\<lambda>s. wrap_err ''failed to update restart config''
     (on_world (ForTLSReenroll (d_env d) (ca_inst_of (the_instance s))) s)) s"

definition base_ca_Reconcile ::
  "'w cdeps \<Rightarrow> ('w, 'd, 'r) ca_deps \<Rightarrow> ca_update \<Rightarrow> 'w ca_round_state \<Rightarrow> result go_result \<times> 'w ca_round_state" where
  "base_ca_Reconcile d x u s =
     bind_r (ca_checks d u s) (\<lambda>early s.
     (case early of
        Some r \<Rightarrow> (Ok r, s)
      | None \<Rightarrow>
          bind_r (ca_setup d x (ca_ReconcileManagers d x) u s) (\<lambda>_ s.
          bind_r (ca_objects d x s) (\<lambda>_ s.
          bind_r (ca_restart_for_crypto d u s) (\<lambda>_ s.
          bind_r (ca_HandleActions d x u s) (\<lambda>_ s.
          bind_r (ca_HandleRestart d x s) (\<lambda>_ s.
          (Ok (requeue\<lparr>Requeue := False\<rparr>), s))))))))"

definition k8s_ca_Reconcile ::
  "'w cdeps \<Rightarrow> ('w, 'd, 'r) ca_deps \<Rightarrow> ca_update \<Rightarrow> 'w ca_round_state \<Rightarrow> result go_result \<times> 'w ca_round_state" where
  "k8s_ca_Reconcile d x u s =
     bind_r (ca_checks d u s) (\<lambda>early s.
     (case early of
        Some r \<Rightarrow> (Ok r, s)
      | None \<Rightarrow>
          bind_r (ca_setup d x (k8s_ca_ReconcileManagers d x) u s) (\<lambda>_ s.
          bind_r (when_r (c_caTagUpdated u) (\<lambda>s.
            wrap_op FabricCAMigrationFailed ''failed to migrate fabric ca versions''
              (on_world (ReconcileFabricCAMigration d x (the_instance s)) s)) s) (\<lambda>_ s.
          bind_r (ca_objects d x s) (\<lambda>_ s.
          bind_r (wrap_err ''failed to check for expiring certificates''
            (on_world (ca_CheckCertificates x (the_instance s)) s)) (\<lambda>status s.
          bind_r (ca_restart_for_crypto d u s) (\<lambda>_ s.
          bind_r (ca_HandleActions d x u s) (\<lambda>_ s.
          bind_r (ca_HandleRestart d x s) (\<lambda>_ s.
          (Ok (requeue\<lparr>Requeue := False, RStatus := Some status\<rparr>), s))))))))))"

end
