(* ===== verification/CASample.thy ===== *)
theory CASample
  imports CAReconcile
begin

text \<open>
  A small world in which the properties of a CA's offering are tried out: a counter of the requests to a
  parent CA.  No secret is there unless a property puts one, writing succeeds, and a parent never answers.
\<close>

lemma decode_encoded [simp]: "Base64ToBytes (base64 b) = Ok b"
  by (subst Base64ToBytes.simps) (simp add: DecodeString_def base64_no_breaks b64_quanta_base64)

definition sample_ca_client :: "(ca_cr, nat) k8s_client" where
  "sample_ca_client = \<lparr>kc_name = Name, kc_namespace = Namespace,
     kc_get = (\<lambda>n s w. (Fail (NotFound n), w)), kc_create = (\<lambda>i w. (Ok (), i, w)), kc_update = (\<lambda>i w. (Ok (), i, w)),
     kc_update_status = (\<lambda>i w. (Ok (), i, w)), kc_patch = (\<lambda>orig i w. (Ok (), i, w)),
     kc_patch_status = (\<lambda>orig i w. (Ok (), i, w)), kc_delete = (\<lambda>i w. (Ok (), w)), kc_apply = (\<lambda>i. i),
     kc_controller_ref = (\<lambda>owner i. Owned i), kc_sleep = (\<lambda>t w. w)\<rparr>"

definition sample_ca_deps :: "nat cdeps" where
  "sample_ca_deps = \<lparr>d_client = sample_ca_client,
     d_env = \<lparr>e_now = (\<lambda>w. (0, w)), e_random = (\<lambda>n w. (0, w)), e_selector = (\<lambda>s. None),
       e_get_cm = (\<lambda>n s w. (Fail (NotFound n), w)), e_put_cm = (\<lambda>n s b w. (Ok (), w)),
       e_list_pods = (\<lambda>sel s w. (Ok [], w)), e_list_deployments = (\<lambda>sel s w. (Ok [], w)),
       e_get_deployment = (\<lambda>n s w. (Fail (NotFound n), w)), e_patch_deployment = (\<lambda>dep w. (Ok (), w))\<rparr>,
     d_mgr_visit = \<lparr>mv_trigger = keys, mv_pending = keys, mv_oldest = keys, mv_clear = keys\<rparr>, d_tries = 1,
     d_versions = getDefaultVersions,
     d_version_visit = \<lparr>vv_CA = keys, vv_Peer = keys, vv_Orderer = keys\<rparr>,
     d_read_core = (\<lambda>v t. Ok empty_core), d_yaml_hsm = (\<lambda>t. Fail (Plain ''no HSM'')), d_json_secret = (\<lambda>s. Ok ''{}''),
     d_url = (\<lambda>t. Ok (''tcp'', t)), d_tcp_reachable = (\<lambda>h w. (True, w)), d_getenv = (\<lambda>v. ''''),
     d_setenv = (\<lambda>v t w. (Ok (), w)), d_list_nodes = (\<lambda>w. (Ok [], w)), d_random = (\<lambda>k w. (0, w)),
     d_get_data = (\<lambda>n s w. (Fail (NotFound n), w)), d_get_secret = (\<lambda>n s w. (Fail (NotFound n), w)),
     d_create_secret = (\<lambda>n s l m w. (Ok (), w)), d_update_secret = (\<lambda>n s m w. (Ok (), w)),
     d_create_cm = (\<lambda>n s l m w. (Ok (), w)), d_update_cm = (\<lambda>n s l m w. (Ok (), w)),
     d_manager = (\<lambda>m i u w. (Ok (), w)), d_server_minor = (\<lambda>w. (Ok ''20'', w)),
     d_dep_exists = (\<lambda>i w. (False, w)), d_dep_check = (\<lambda>i w. (Ok (), w)), d_dep_restore = (\<lambda>i w. (Ok (), w)),
     d_list_jobs = (\<lambda>l w. (Ok [], w)), d_delete_job = (\<lambda>n s w. (Ok (), w)), d_list_pods = (\<lambda>l w. (Ok [], w)),
     d_delete_pod = (\<lambda>n w. (Ok (), w)), d_delete_pod_in = (\<lambda>n s w. (Ok (), w))\<rparr>"

definition sample_ca_lib :: "nat ca_lib" where
  "sample_ca_lib = \<lparr>cl_pem = (\<lambda>t. if t \<noteq> [] \<and> hd t = CHR ''-'' then Some (tl t) else None), cl_pkcs8 = (\<lambda>b. True),
     cl_stat = (\<lambda>f w. (False, w)), cl_read = (\<lambda>f w. (Ok ''text'', w)), cl_read_dir = (\<lambda>dir w. (Ok [], w)),
     cl_is_exist = (\<lambda>e. False), cl_mkdir = (\<lambda>dir w. (Ok (), w)), cl_write = (\<lambda>f b w. (Ok (), w))\<rparr>"

text \<open>PEM texts, and the configurations of the sample with their JSON.\<close>

definition cert_text :: string where "cert_text = ''-certificate''"
definition key_text :: string where "key_text = ''-key''"

definition tls_override :: server_config where
  "tls_override = empty_server_config\<lparr>sc_TLS := no_server_tls\<lparr>st_Enabled := Some True,
     st_CertFile := base64 cert_text, st_KeyFile := base64 key_text\<rparr>\<rparr>"

definition db_override :: server_config where
  "db_override = empty_server_config\<lparr>sc_CSR_CN := ''org'', sc_DB := Some (no_db\<lparr>db_Type := ''postgres''\<rparr>)\<rparr>"

definition db_only :: server_config where
  "db_only = empty_server_config\<lparr>sc_DB := Some (no_db\<lparr>db_Type := ''postgres''\<rparr>)\<rparr>"

definition sample_ca_json :: "string \<Rightarrow> server_config go_result" where
  "sample_ca_json t = (if t = ''tls'' then Ok tls_override else if t = ''db'' then Ok db_override
     else if t = ''dbonly'' then Ok db_only else Fail (Plain ''no configuration''))"

definition sample_ca_to_json :: "server_config \<Rightarrow> string go_result" where
  "sample_ca_to_json c = (if c = tls_override then Ok ''tls'' else if c = db_override then Ok ''db''
     else if c = db_only then Ok ''dbonly'' else Fail (Plain ''no text''))"

lemma sample_ca_json_back: "sample_ca_to_json c = Ok t \<Longrightarrow> sample_ca_json t = Ok c"
  by (auto simp: sample_ca_to_json_def sample_ca_json_def split: if_splits)

definition sample_pods :: "job_pod list" where
  "sample_pods = [\<lparr>jp_Name = ''init'', jp_Namespace = ''ns'', jp_Phase = ''Pending'', jp_Containers = []\<rparr>]"

definition sample_ca_init :: "nat ca_init_deps" where
  "sample_ca_init = \<lparr>ia_lib = sample_ca_lib, ia_json = sample_ca_json, ia_yaml = sample_ca_json, ia_to_json = sample_ca_to_json,
     ia_to_yaml = (\<lambda>c. Ok ''yaml''), ia_merge = (\<lambda>c new. Ok new), ia_getenv = (\<lambda>v w. ('''', w)),
     ia_viper_read = (\<lambda>f w. (Ok f, w)), ia_viper_server = (\<lambda>v. Fail (Plain ''no server'')),
     ia_viper_ca = (\<lambda>v c. Ok c), ia_sql_open = (\<lambda>t ds. Ok ()), ia_ping = (\<lambda>t ds w. (Ok (), w)),
     ia_url = (\<lambda>u. Ok (''https'', u)), ia_request = (\<lambda>u. Ok ()),
     ia_http = (\<lambda>u c w. (Fail (Plain ''connection refused''), Suc w)), ia_sleep = (\<lambda>w. w),
     ia_server_init = (\<lambda>dir cfg w. (Ok (''cert.pem'', ''key.pem'', ''chain.pem''), w)),
     ia_remove_all = (\<lambda>dir w. (Ok (), w)),
     ia_create_job = (\<lambda>daemon i db t w. (Ok \<lparr>jr_Name = ''init'', jr_Namespace = ''ns''\<rparr>, w)),
     ia_jobs = \<lparr>ja_get = (\<lambda>n s w. (Ok \<lparr>jc_Active = 1, jc_Succeeded = 0, jc_Failed = 0\<rparr>, w)), ja_selector = (\<lambda>t. Ok ()),
       ja_list = (\<lambda>n w. (Ok sample_pods, w)), ja_delete_job = (\<lambda>n s w. (Ok (), w)),
       ja_delete_pod = (\<lambda>p w. (Ok (), w)), ja_active_polls = 3, ja_finished_polls = 3\<rparr>\<rparr>"

definition sample_ca_store :: "nat ca_store" where
  "sample_ca_store = \<lparr>ii_get_config = (\<lambda>n s w. (Fail (NotFound n), w)), ii_put_config = (\<lambda>n s l m w. (Ok (), w)),
     ii_put_secret = (\<lambda>n s l m w. (Ok (), w)), ii_SharedPath = ''/shared'', ii_CADefaultConfigPath = ''ca.yaml'',
     ii_TLSCADefaultConfigPath = ''tlsca.yaml''\<rparr>"

definition sample_ca_secrets :: "nat secret_api" where
  "sample_ca_secrets = \<lparr>sa_get = (\<lambda>n s w. (Fail (NotFound n), w)), sa_create = (\<lambda>n s l m w. (Ok (), w)),
     sa_update = (\<lambda>n s m w. (Ok (), w)), sa_order = keys\<rparr>"

definition sample_ca_offering :: "(nat, unit, unit) ca_deps" where
  "sample_ca_offering = \<lparr>co_init = sample_ca_init, co_store = sample_ca_store, co_secrets = sample_ca_secrets,
     co_backup = \<lparr>bk_marshal = (\<lambda>b. ()), bk_unmarshal = (\<lambda>t. Fail (Plain ''no backup'')), bk_now = (\<lambda>w. (0, w)),
       bk_get = (\<lambda>n s w. (Fail (NotFound n), w)), bk_create = (\<lambda>n s l m w. (Ok (), w)),
       bk_update = (\<lambda>n s m w. (Ok (), w))\<rparr>,
     co_certs = \<lparr>cd_api = sample_ca_secrets, cd_update = (\<lambda>n s l m w. (Ok (), w)), cd_now = (\<lambda>w. (0, w)),
       cd_not_after = (\<lambda>t. Fail (Plain ''no certificate'')), cd_time_text = (\<lambda>t. ''now''),
       cd_new = (\<lambda>e dir tls ecdsa w. (Ok (), w)), cd_init = (\<lambda>r w. (Ok r, w)), cd_load = (\<lambda>r c k b w. (Ok r, w)),
       cd_reenroll = (\<lambda>r w. (Fail (Plain ''no CA''), w)), cd_read_hsm = (\<lambda>i w. (Fail (Plain ''no HSM''), w)),
       cd_new_hsm = (\<lambda>p e dir tls h i b w. (Ok (), w))\<rparr>,
     co_key = (\<lambda>w. (Ok ''key'', w)), co_serial = (\<lambda>w. (Ok 7, w)), co_ParseIP = (\<lambda>t. None),
     co_sign = (\<lambda>t k w. (Ok ''certificate'', w)), co_key_bytes = (\<lambda>k. Ok k),
     co_pem = (\<lambda>t b. if t = ''CERTIFICATE'' then cert_text else key_text), co_profile = (\<lambda>p. Ok ''profile''),
     co_RestartDisabled = True, co_AllowKubernetesEighteen = ''''\<rparr>"

definition sample_ca_cr :: ca_cr where
  "sample_ca_cr = \<lparr>TypeKind = ''IBPCA'', Name = ''ca1'', Namespace = ''ns'', Labels = [], Spec = \<lparr>
     cx_FabricVersion = ''1.5.3'', cx_Arch = [], cx_RegistryURL = '''', cx_Images = None, cx_ConfigOverride = None,
     cx_HSM = None, cx_Domain = ''example.org'', cx_Zone = '''', cx_Region = '''', cx_Replicas = Some 1,
     cx_PVC_CA = '''', cx_Sqlite = '''', cx_NumSecondsWarningPeriod = 0, cx_Restart = False,
     cx_Renew_TLSCert = False, cx_other = ''''\<rparr>, CRStatus = no_status\<rparr>"

definition sample_ca_config :: "server_config \<Rightarrow> ca_config" where
  "sample_ca_config sc = \<lparr>cf_ServerConfig = sc, cf_HomeDir = ''/shared/ca1/ca'', cf_MountPath = ''/crypto/ca'',
     cf_Update = False, cf_SqlitePath = ''/data/mine.db'', cf_crypto = (\<lambda>b. None)\<rparr>"

definition sample_ca_state :: "nat ca_round_state" where
  "sample_ca_state = \<lparr>the_instance = sample_ca_cr, RenewCertTimers = [], running = [], next_timer = 0,
     the_manager = \<lparr>WaitTime = 600, Timers = []\<rparr>, world = 0\<rparr>"

lemma sample_ca_parts [simp]:
  "d_get_secret sample_ca_deps n ns w = (Fail (NotFound n), w)"
  "co_init sample_ca_offering = sample_ca_init" "co_store sample_ca_offering = sample_ca_store"
  "ia_lib sample_ca_init = sample_ca_lib" "ia_json sample_ca_init = sample_ca_json"
  "ia_yaml sample_ca_init = sample_ca_json" "ia_to_json sample_ca_init = sample_ca_to_json"
  "Name sample_ca_cr = ''ca1''" "Namespace sample_ca_cr = ''ns''" "cx_ConfigOverride (Spec sample_ca_cr) = None"
  "the_instance sample_ca_state = sample_ca_cr" "world sample_ca_state = 0"
  by (simp_all add: sample_ca_deps_def sample_ca_offering_def sample_ca_init_def sample_ca_cr_def sample_ca_state_def)

lemma sample_ca_lib_simps [simp]:
  "cl_stat sample_ca_lib f w = (False, w)" "cl_read sample_ca_lib f w = (Ok ''text'', w)"
  "cl_mkdir sample_ca_lib dir w = (Ok (), w)" "cl_write sample_ca_lib f b w = (Ok (), w)"
  by (simp_all add: sample_ca_lib_def)

lemma sample_pem [simp]: "cl_pem sample_ca_lib (base64 b) = None"
proof -
  have "set b64_alphabet \<subseteq> - {CHR ''-''}" by (simp add: b64_alphabet_def)
  moreover have "b64_char n \<in> set b64_alphabet" for n
    unfolding b64_char_def by (rule nth_mem) (simp add: b64_alphabet_def)
  ultimately have "b64_char n \<noteq> CHR ''-''" for n by blast
  then have "base64 b \<noteq> [] \<Longrightarrow> hd (base64 b) \<noteq> CHR ''-''"
    by (cases b rule: base64.cases) (simp_all add: Let_def)
  then show ?thesis by (auto simp: sample_ca_lib_def)
qed

lemma sample_texts [simp]: "cert_text \<noteq> []" "key_text \<noteq> []"
  by (simp_all add: cert_text_def key_text_def)

lemma sample_ca_crypto: "GenTLSCrypto sample_ca_offering ep w = (Ok (key_text, cert_text), w)"
  by (simp add: GenTLSCrypto_def sample_ca_offering_def Let_def)

text \<open>A TLS CA with a HSM, up to its job.\<close>

definition sample_hsm :: hsm_config where
  "sample_hsm = \<lparr>hsm_FilePath = ''libpkcs11.so'', hsm_Image = ''hsm'', hsm_AutoUpdateDisabled = False, hsm_Daemon = True\<rparr>"

definition hsm_server_config :: server_config where
  "hsm_server_config = empty_server_config\<lparr>sc_DB := Some no_db, sc_CSP := Some \<lparr>cp_Default = ''PKCS11'',
     cp_PKCS11 = Some \<lparr>cp_Library = '''', cp_Hash = '''', cp_Security = 0, cp_KeyStorePath = '''', cp_other = ''''\<rparr>,
     cp_SW = ''''\<rparr>\<rparr>"

definition sample_tlsca :: ca_object where
  "sample_tlsca = \<lparr>ob_CN = ''tlsca'', ob_Type = TLSCA, ob_UsingHSMProxy = False, ob_configFile = ''tlsca.yaml''\<rparr>"

definition sample_job :: job_ref where
  "sample_job = \<lparr>jr_Name = ''init'', jr_Namespace = ''ns''\<rparr>"

definition hsm_prepared :: ca_config where
  "hsm_prepared = fst (snd (hsm_prepare sample_ca_deps sample_ca_init True sample_hsm sample_ca_cr sample_tlsca None
     (sample_ca_config hsm_server_config, 0)))"

lemma sample_prepare: "hsm_prepare sample_ca_deps sample_ca_init True sample_hsm sample_ca_cr sample_tlsca None
    (sample_ca_config hsm_server_config, 0) = (Ok sample_job, hsm_prepared, 0)"
proof -
  have "\<exists>c. hsm_prepare sample_ca_deps sample_ca_init True sample_hsm sample_ca_cr sample_tlsca None
      (sample_ca_config hsm_server_config, 0) = (Ok sample_job, c, 0)"
    by (simp add: hsm_prepare_def OverrideServerConfig_def createCACryptoSecret_def createCAConfigMap_def
        ParseCrypto_def ParseTLSCACrypto_def ParseCABlock_def ParseTLSBlock_def ParseDBBlock_def
        ParseIntermediateBlock_def join_block_def parse_client_def getDBConfig_def put_library_def
        config_SetMountPaths_def DBMountPath_def config_ConfigToBytes_def in_world_def EnsureDir_def
        make_crypto_def on_config_def on_info_def on_db_def ca_setDefaults_def CAMountPath_def on_parent_def
        sample_ca_config_def hsm_server_config_def empty_server_config_def no_server_tls_def no_client_tls_def
        no_db_def enabled_def to_lower_def lower_char_def raw_tlsca_override_def
        sample_ca_deps_def sample_ca_init_def sample_ca_lib_def sample_ca_cr_def sample_tlsca_def sample_hsm_def
        sample_job_def Let_def)
  then show ?thesis by (metis fst_conv hsm_prepared_def snd_conv)
qed

end
