(* ===== verification/CAOfferingProps.thy ===== *)
theory CAOfferingProps
  imports CASample
begin

text \<open>
  Properties of the initialization of a CA: what happens to crypto material on its way from the operator or
  the override into the CA's secret, the database of the two servers, jobs of a HSM, and parents of
  intermediate CAs.
\<close>

subsection \<open>Crypto the operator generates\<close>

lemma input_type_encoded: "cl_pem l (base64 b) = None \<Longrightarrow> GetInputType l (base64 b) w = (Base64Input, w)"
  by (simp add: GetInputType_def)

lemma store_data_Ok:
  "store_data l c location (Ok b) (store, w) = (Ok (), store', w') \<Longrightarrow> store' = StoreInMap b location store"
  by (auto simp: store_data_def Let_def split: if_splits prod.splits)

lemma handle_encoded:
  assumes "cl_pem l (base64 b) = None"
  shows "handle_cert l bl (base64 b) location (c, w) = (Ok (), c', w') \<Longrightarrow>
      c' = c\<lparr>cf_crypto := (cf_crypto c)(bl := Some (StoreInMap b location (sdata (cf_crypto c bl))))\<rparr>"
    and "handle_key l bl (base64 b) location (c, w) = (Ok (), c', w') \<Longrightarrow>
      c' = c\<lparr>cf_crypto := (cf_crypto c)(bl := Some (StoreInMap b location (sdata (cf_crypto c bl))))\<rparr>"
  using assms
  by (auto simp: handle_cert_def handle_key_def on_block_def HandleCertInput_def HandleKeyInput_def
      input_type_encoded dest: store_data_Ok split: prod.splits)

lemma take_encoded:
  assumes "cl_pem l (base64 b) = None"
  shows "take_cert l bl (base64 b) location put (c, w) = (Ok (), c', w') \<Longrightarrow>
      cf_crypto c' = (cf_crypto c)(bl := Some (StoreInMap b location (sdata (cf_crypto c bl)))) \<and>
      cf_ServerConfig c' = put (cf_HomeDir c @ ''/'' @ location) (cf_ServerConfig c) \<and> cf_HomeDir c' = cf_HomeDir c"
    and "take_key l bl (base64 b) location put (c, w) = (Ok (), c', w') \<Longrightarrow>
      cf_crypto c' = (cf_crypto c)(bl := Some (StoreInMap b location (sdata (cf_crypto c bl)))) \<and>
      cf_ServerConfig c' = put (cf_HomeDir c @ ''/'' @ location) (cf_ServerConfig c) \<and> cf_HomeDir c' = cf_HomeDir c"
  unfolding take_cert_def take_key_def on_config_def
  by (auto dest: handle_encoded(1) [OF assms] elim!: bind_r_OkE split: prod.splits)
    (auto dest: handle_encoded(2) [OF assms] elim!: bind_r_OkE split: prod.splits)

text \<open>A TLS section with an encoded pair and no client certificates.\<close>

lemma encoded_pair_is_stored:
  assumes tls: "sc_TLS (cf_ServerConfig c) =
      no_server_tls\<lparr>st_Enabled := Some True, st_CertFile := base64 cert, st_KeyFile := base64 key\<rparr>"
    and none: "cf_crypto c TLSBlock = None" and pem: "\<And>b. cl_pem l (base64 b) = None"
    and ne: "cert \<noteq> []" "key \<noteq> []"
    and block: "ParseTLSBlock l (c, w) = (Ok m, c', w')"
  shows "\<exists>m'. m = Some m' \<and> map_of m' ''tls-cert.pem'' = Some cert \<and> map_of m' ''tls-key.pem'' = Some key"
proof -
  define c0 where "c0 = c\<lparr>cf_crypto := (cf_crypto c)(TLSBlock := Some [])\<rparr>"
  have "make_crypto TLSBlock (c, w) = (c0, w)" by (simp add: make_crypto_def none c0_def)
  with block ne obtain c1 w1 c2 w2 put1 put2 where
    1: "take_cert l TLSBlock (base64 cert) ''tls-cert.pem'' put1 (c0, w) = (Ok (), c1, w1)" and
    2: "take_key l TLSBlock (base64 key) ''tls-key.pem'' put2 (c1, w1) = (Ok (), c2, w2)" and
    m: "m = cf_crypto c2 TLSBlock"
    by (auto simp: ParseTLSBlock_def Let_def tls enabled_def no_server_tls_def ValidCryptoInput_def elim!: bind_r_OkE)
  from take_encoded(1) [OF pem 1] take_encoded(2) [OF pem 2] ne show ?thesis
    by (simp add: m c0_def StoreInMap_def sdata_def ConvertStringForSecrets_def)
qed

lemma genTLSCrypto_Ok:
  assumes "genTLSCrypto x ep caOverrides co s = (Ok (), s')" and "GenTLSCrypto x ep (world s) = (Ok (key, cert), w2)"
  shows "\<exists>t. ia_to_json (co_init x) (caOverrides\<lparr>sc_TLS := no_server_tls\<lparr>st_Enabled := Some True,
      st_CertFile := base64 cert, st_KeyFile := base64 key\<rparr>\<rparr>) = Ok t \<and>
    raw_ca_override (Spec (the_instance s')) = Some t"
  using assms
  by (auto simp: genTLSCrypto_def on_world_def on_spec_def raw_ca_override_def Let_def elim!: bind_r_OkE split: prod.splits)


lemma empty_tls_text: "sample_ca_to_json (empty_server_config\<lparr>sc_TLS := no_server_tls\<lparr>st_Enabled := Some True,
    st_CertFile := base64 cert_text, st_KeyFile := base64 key_text\<rparr>\<rparr>) = Ok ''tls''"
  by (simp add: sample_ca_to_json_def tls_override_def)


subsection \<open>An update of overrides\<close>

lemma MergeCryptoMaterial_lookup:
  "distinct (map fst updated) \<Longrightarrow>
   \<exists>m'. MergeCryptoMaterial (Some m) updated = Ok (Some m') \<and>
     (\<forall>k. map_of m' k = (case map_of updated k of Some v \<Rightarrow> if v \<noteq> [] then Some v else map_of m k | None \<Rightarrow> map_of m k))"
proof (induction updated arbitrary: m)
  case (Cons kv updated)
  obtain k v where kv: "kv = (k, v)" by (cases kv)
  define m0 where "m0 = (if v = [] then m else AList.update k v m)"
  have look: "map_of m0 n = (if n = k \<and> v \<noteq> [] then Some v else map_of m n)" for n
    by (simp add: m0_def update_conv')
  from Cons.prems kv have k: "map_of updated k = None" by (simp add: map_of_eq_None_iff)
  from Cons.IH [of m0] Cons.prems obtain m' where m': "MergeCryptoMaterial (Some m0) updated = Ok (Some m')"
    "\<And>n. map_of m' n = (case map_of updated n of Some v \<Rightarrow> if v \<noteq> [] then Some v else map_of m0 n | None \<Rightarrow> map_of m0 n)"
    by auto
  have "MergeCryptoMaterial (Some m) (kv # updated) = Ok (Some m')"
    using m'(1) by (simp add: kv m0_def split: if_splits)
  moreover have "map_of m' n = (case map_of (kv # updated) n of Some v \<Rightarrow> if v \<noteq> [] then Some v else map_of m n
      | None \<Rightarrow> map_of m n)" for n
    using k by (simp add: kv m'(2) look split: option.split)
  ultimately show ?case by blast
qed simp

lemma MergeCryptoMaterial_nil:
  "(\<exists>(k, v)\<in>set updated. v \<noteq> []) \<Longrightarrow> MergeCryptoMaterial None updated = Panic ''assignment to entry in nil map''"
  by (induction updated) fastforce+

text \<open>C25: An update of overrides takes nothing out of a server's secret: what is written is the old material, with
  the new in its place wherever the new is not empty.  Where the secret has no data at all, new material
  makes the operator panic.
\<close>

theorem update_keeps_material:
  assumes "d_get_secret d (name @ ''-crypto'') (Namespace i) w = (Ok old, w1)"
    and "rs_CryptoMap resp = Some new" and "distinct (map fst new)"
  shows "(\<forall>m. old = Some m \<longrightarrow> (\<exists>merged.
      UpdateConfigResources d a t name i resp w =
        CreateConfigResources d a t name i (resp\<lparr>rs_CryptoMap := Some merged\<rparr>) w1 \<and>
      (\<forall>k. map_of merged k = (case map_of new k of Some v \<Rightarrow> if v \<noteq> [] then Some v else map_of m k
         | None \<Rightarrow> map_of m k)))) \<and>
    (old = None \<and> (\<exists>(k, v)\<in>set new. v \<noteq> []) \<longrightarrow>
      UpdateConfigResources d a t name i resp w = (Panic ''assignment to entry in nil map'', w1))"
proof (intro conjI allI impI)
  fix m assume "old = Some m"
  with assms MergeCryptoMaterial_lookup [OF assms(3), of m] show "\<exists>merged.
      UpdateConfigResources d a t name i resp w =
        CreateConfigResources d a t name i (resp\<lparr>rs_CryptoMap := Some merged\<rparr>) w1 \<and>
      (\<forall>k. map_of merged k = (case map_of new k of Some v \<Rightarrow> if v \<noteq> [] then Some v else map_of m k
         | None \<Rightarrow> map_of m k))"
    by (auto simp: UpdateConfigResources_def GetCryptoSecret_def sdata_def)
next
  assume "old = None \<and> (\<exists>(k, v)\<in>set new. v \<noteq> [])"
  with assms show "UpdateConfigResources d a t name i resp w = (Panic ''assignment to entry in nil map'', w1)"
    using MergeCryptoMaterial_nil [of new] by (simp add: UpdateConfigResources_def GetCryptoSecret_def sdata_def)
qed

definition filled_secret :: "string gomap" where
  "filled_secret = [(''cert.pem'', ''old''), (''key.pem'', ''kept'')]"

theorem update_keeps_material_witness:
  "\<exists>merged. UpdateConfigResources (sample_ca_deps\<lparr>d_get_secret := \<lambda>n s w. (Ok (Some filled_secret), w)\<rparr>)
      sample_ca_init sample_ca_store ''ca1-ca'' sample_ca_cr
      \<lparr>rs_Config = None, rs_CryptoMap = Some [(''cert.pem'', ''new''), (''key.pem'', '''')]\<rparr> 0 =
    CreateConfigResources (sample_ca_deps\<lparr>d_get_secret := \<lambda>n s w. (Ok (Some filled_secret), w)\<rparr>)
      sample_ca_init sample_ca_store ''ca1-ca'' sample_ca_cr
      \<lparr>rs_Config = None, rs_CryptoMap = Some merged\<rparr> 0 \<and>
    map_of merged ''cert.pem'' = Some ''new'' \<and> map_of merged ''key.pem'' = Some ''kept''"
  using update_keeps_material [of "sample_ca_deps\<lparr>d_get_secret := \<lambda>n s w. (Ok (Some filled_secret), w)\<rparr>"
      "''ca1-ca''" sample_ca_cr 0 "Some filled_secret" 0
      "\<lparr>rs_Config = None, rs_CryptoMap = Some [(''cert.pem'', ''new''), (''key.pem'', '''')]\<rparr>"
      "[(''cert.pem'', ''new''), (''key.pem'', '''')]" sample_ca_init sample_ca_store]
  by (fastforce simp: filled_secret_def)

lemma bind_fst_OkE:
  assumes "fst (bind_r m f) = Ok y"
  obtains v s where "m = (Ok v, s)" and "fst (f v s) = Ok y"
  using assms by (cases m) (auto simp: bind_r_def split: go_result.splits)

text \<open>A server without HSM is always initialized in the operator, which gives a response.\<close>

lemma SW_Create_response: "SW_Create d a ob overrides s = (Ok resp, s') \<Longrightarrow> resp \<noteq> None"
  unfolding SW_Create_def Let_def by (elim bind_r_OkE) (simp only: prod.inject go_result.inject, blast)

lemma init_server_type: "GetTLSInitCA a t i data = Ok (ob, c) \<Longrightarrow> ob_Type ob = TLSCA"
  by (auto simp: GetTLSInitCA_def init_server_def NewCA_def seq_r_def Let_def split: go_result.splits)

lemma CreateTLSCAConfig_response:
  assumes "CreateTLSCAConfig d a t i w = (Ok resp, w')" and "\<not> isTLSCAHSMEnabled a i"
  shows "resp \<noteq> None"
proof -
  from assms(1) obtain data ob c overrides w1 where "GetTLSInitCA a t i data = Ok (ob, c)"
    and run: "run_init (Initializer_Create d a i overrides ob) c w1 = (Ok resp, w')"
    by (auto simp: CreateTLSCAConfig_def elim!: bind_r_OkE)
  then have "ob_Type ob = TLSCA" by (blast dest: init_server_type)
  with assms(2) have "Initializer_Create d a i overrides ob = SW_Create d a ob overrides"
    by (simp add: Initializer_Create_def fun_eq_iff)
  with run show ?thesis by (auto simp: run_init_def dest: SW_Create_response split: prod.splits)
qed

lemma SyncDBConfig_same: "SyncDBConfig a i = Ok j \<Longrightarrow> Name j = Name i \<and> Namespace j = Namespace i"
  by (auto simp: SyncDBConfig_def seq_r_def on_spec_def split: option.splits go_result.splits)

text \<open>The second of the two servers, in an initialization that succeeds.\<close>

lemma ca_Initialize_second:
  "fst (ca_Initialize d x i u w) = Ok () \<Longrightarrow>
   \<exists>j w1 v w2. SyncDBConfig (co_init x) i = Ok j \<and>
     init_part d x (HandleTLSCAInit d (co_init x) (co_store x)) ''-tlsca'' j u w1 = (Ok v, w2)"
  unfolding ca_Initialize_def
  by (elim bind_fst_OkE, simp only: prod.inject, elim conjE, intro exI conjI, rule refl, assumption)



subsection \<open>The database of the two servers\<close>

text \<open>C27: After SyncDBConfig the override of the TLS CA parses to a configuration with the database of the CA's
  override, whatever it said before; the CA's override is as it was; and synchronizing once more changes
  nothing.
\<close>

theorem databases_agree_after_sync:
  assumes json: "\<And>c t. ia_to_json a c = Ok t \<Longrightarrow> ia_json a t = Ok c"
    and sync: "SyncDBConfig a i = Ok j" and raw: "raw_ca_override (Spec i) = Some raw"
  shows "(\<exists>eca tca. ia_json a raw = Ok eca \<and> raw_ca_override (Spec j) = Some raw \<and>
      parsed_override a (raw_tlsca_override (Spec j)) = Ok (Some tca) \<and> sc_DB tca = sc_DB eca) \<and>
    SyncDBConfig a j = Ok j"
proof -
  from raw obtain co where co: "cx_ConfigOverride (Spec i) = Some co" "CA_override co = Some raw"
    by (auto simp: raw_ca_override_def bind_eq_Some_conv)
  with sync obtain eca tca t where eca: "ia_json a raw = Ok eca"
    and t: "ia_to_json a (tca\<lparr>sc_DB := sc_DB eca\<rparr>) = Ok t"
    and j: "j = on_spec (\<lambda>s. s\<lparr>cx_ConfigOverride := Some (co\<lparr>TLSCA_override := Some t\<rparr>)\<rparr>) i"
    by (auto simp: SyncDBConfig_def seq_r_def split: go_result.splits)
  from json [OF t] have parsed: "ia_json a t = Ok (tca\<lparr>sc_DB := sc_DB eca\<rparr>)" .
  have overrides: "raw_ca_override (Spec j) = Some raw" "raw_tlsca_override (Spec j) = Some t"
    using co by (simp_all add: j on_spec_def raw_ca_override_def raw_tlsca_override_def)
  moreover have "SyncDBConfig a j = Ok j"
    using co eca parsed t by (simp add: SyncDBConfig_def seq_r_def j on_spec_def)
  ultimately show ?thesis using eca parsed by (simp add: parsed_override_def seq_r_def)
qed

definition ca_with_database :: ca_cr where
  "ca_with_database = on_spec (\<lambda>s. s\<lparr>cx_ConfigOverride :=
     Some \<lparr>CA_override = Some ''db'', TLSCA_override = None, MaxNameLength = None\<rparr>\<rparr>) sample_ca_cr"

lemma db_only_text: "\<exists>t. sample_ca_to_json (empty_server_config\<lparr>sc_DB := Some (no_db\<lparr>db_Type := ''postgres''\<rparr>)\<rparr>) = Ok t"
  by (simp add: sample_ca_to_json_def db_only_def)

theorem databases_agree_after_sync_witness:
  "\<exists>j tca. SyncDBConfig sample_ca_init ca_with_database = Ok j \<and>
     parsed_override sample_ca_init (raw_tlsca_override (Spec j)) = Ok (Some tca) \<and> sc_DB tca = sc_DB db_override \<and>
     SyncDBConfig sample_ca_init j = Ok j"
proof -
  from db_only_text obtain j where "SyncDBConfig sample_ca_init ca_with_database = Ok j"
    by (auto simp: SyncDBConfig_def ca_with_database_def on_spec_def seq_r_def sample_ca_json_def db_override_def)
  moreover have "raw_ca_override (Spec ca_with_database) = Some ''db''"
    by (simp add: ca_with_database_def on_spec_def raw_ca_override_def)
  moreover have "sample_ca_json ''db'' = Ok db_override" by (simp add: sample_ca_json_def)
  ultimately show ?thesis
    using databases_agree_after_sync [of sample_ca_init ca_with_database j "''db''"] sample_ca_json_back by auto
qed

lemma mounted_datasource:
  assumes "config_SetMountPaths EnrollmentCA (c, w) = (Ok (), c', w')" and "sc_DB (cf_ServerConfig c) = Some db"
  shows "\<exists>db'. sc_DB (cf_ServerConfig c') = Some db' \<and> db_Type db' = db_Type db \<and>
    db_Datasource db' = (if to_lower (db_Type db) = ''sqlite3''
      then (if cf_SqlitePath c \<noteq> [] then cf_SqlitePath c else ''/data/db/ca.db'') else db_Datasource db)"
  using assms
  by (auto simp: config_SetMountPaths_def DBMountPath_def on_config_def CAMountPath_def on_info_def on_db_def
      TLSMountPath_def OperationsMountPath_def IntermediateMountPath_def on_tls_def on_operations_def
      on_parent_def Let_def)

text \<open>C28: A database without a type is treated as SQLite while a CA is initialized, but not when its paths are
  set for the deployment: the deployed configuration keeps the temporary path of the initialization and
  ignores a path the user gave.  With the type written out, in any case, it has the user's path or the
  default in the persistent volume.
\<close>

theorem untyped_database_stays_temporary:
  assumes "sc_DB (cf_ServerConfig c) = Some db" and "db_Type db = [] \<or> to_lower (db_Type db) = ''sqlite3''"
    and "ParseDBBlock l (c, w) = (Ok m, c1, w1)" and "config_SetMountPaths EnrollmentCA (c1, w1) = (Ok (), c2, w2)"
  shows "m = None \<and> (\<exists>db'. sc_DB (cf_ServerConfig c2) = Some db' \<and> db_Datasource db' =
    (if db_Type db = [] then ''/tmp/db/ca.db''
     else if cf_SqlitePath c \<noteq> [] then cf_SqlitePath c else ''/data/db/ca.db''))"
proof -
  have lower: "to_lower ''sqlite3'' = ''sqlite3''" "to_lower [] = []"
    by (simp_all add: to_lower_def lower_char_def)
  from assms have m: "m = None"
    and c1: "c1 = c\<lparr>cf_ServerConfig := on_db (\<lambda>d. d\<lparr>db_Datasource := ''/tmp/db/ca.db''\<rparr>) (cf_ServerConfig c)\<rparr>"
    by (auto simp: ParseDBBlock_def lower on_config_def Let_def elim!: bind_r_OkE split: prod.splits if_splits)
  with assms(1) have "sc_DB (cf_ServerConfig c1) = Some (db\<lparr>db_Datasource := ''/tmp/db/ca.db''\<rparr>)"
    by (simp add: on_db_def)
  from mounted_datasource [OF assms(4) this] assms(2) m lower show ?thesis by (auto simp: c1)
qed

theorem untyped_database_stays_temporary_witness:
  "\<exists>m s1 s2 db. ParseDBBlock sample_ca_lib (sample_ca_config hsm_server_config, 0::nat) = (Ok m, s1) \<and>
     config_SetMountPaths EnrollmentCA s1 = (Ok (), s2) \<and> sc_DB (cf_ServerConfig (fst s2)) = Some db \<and>
     db_Datasource db = ''/tmp/db/ca.db''"
proof -
  obtain c1 where 1: "ParseDBBlock sample_ca_lib (sample_ca_config hsm_server_config, 0::nat) = (Ok None, c1, 0)"
    and db: "sc_DB (cf_ServerConfig c1) \<noteq> None"
    by (simp add: ParseDBBlock_def sample_ca_config_def hsm_server_config_def no_db_def to_lower_def lower_char_def
        on_config_def on_db_def EnsureDir_def Let_def)
  then obtain c2 where 2: "config_SetMountPaths EnrollmentCA (c1, 0::nat) = (Ok (), c2, 0)"
    by (auto simp: config_SetMountPaths_def DBMountPath_def on_config_def CAMountPath_def on_info_def Let_def)
  have "sc_DB (cf_ServerConfig (sample_ca_config hsm_server_config)) = Some no_db"
    by (simp add: sample_ca_config_def hsm_server_config_def)
  from untyped_database_stays_temporary [OF this _ 1 2] 1 2 show ?thesis by (auto simp: no_db_def)
qed

subsection \<open>Jobs and parents\<close>

text \<open>C29: A HSM daemon's job counts as finished, and the CA as initialized, before its container has started:
  when the pods of the job report nothing yet of the container that generates the certificate, the wait for
  it ends at once, its status is unknown, and the initialization goes on as after a success; the job is
  neither waited for nor deleted.
\<close>

theorem unstarted_job_counts_as_success:
  assumes job: "hsm_prepare d a True hsm i ob overrides s = (Ok job, c, w)"
    and active: "job_WaitUntilActive (ia_jobs a) job w = (Ok (), w1)"
    and pods: "job_getPods (ia_jobs a) job w1 = (Ok pods, w2)" "job_getPods (ia_jobs a) job w2 = (Ok pods, w3)"
    and some: "pods \<noteq> []" "0 < ja_finished_polls (ia_jobs a)"
    and silent: "list_all (\<lambda>p. list_all (\<lambda>ct. ct_Name ct \<noteq> ''certgen'') (jp_Containers p)) pods"
  shows "HSMDaemon_Create d a hsm i ob overrides s = hsm_finish d a i ob (c, w3) \<and>
    (ob_Type ob \<noteq> EnrollmentCA \<longrightarrow> HSMDaemon_Create d a hsm i ob overrides s = (Ok None, c, w3))"
proof -
  note s = silent_container [OF silent]
  have "job_WaitUntilContainerFinished (ia_jobs a) job ''certgen'' w1 = (Ok (), w2)"
    unfolding job_WaitUntilContainerFinished_def
    by (rule wait_for_pods_over [where over = "\<lambda>pods. containerTerminated pods ''certgen''"])
      (use some pods s in simp_all)
  moreover have "job_ContainerStatus (ia_jobs a) job ''certgen'' w2 = (Ok JOB_UNKNOWN, w3)"
    by (simp add: job_ContainerStatus_def pods s)
  ultimately have "HSMDaemon_Create d a hsm i ob overrides s = hsm_finish d a i ob (c, w3)"
    using job active by (simp add: HSMDaemon_Create_def in_world_def)
  then show ?thesis by (simp add: hsm_finish_def)
qed

theorem unstarted_job_counts_as_success_witness:
  "HSMDaemon_Create sample_ca_deps sample_ca_init sample_hsm sample_ca_cr sample_tlsca None
     (sample_ca_config hsm_server_config, 0) = (Ok None, hsm_prepared, 0)"
proof -
  have "job_WaitUntilActive (ia_jobs sample_ca_init) sample_job 0 = (Ok (), 0)"
    "job_getPods (ia_jobs sample_ca_init) sample_job 0 = (Ok sample_pods, 0)"
    by (simp_all add: sample_ca_init_def job_WaitUntilActive_def job_getPods_def sample_job_def eval_nat_numeral)
  moreover have "0 < ja_finished_polls (ia_jobs sample_ca_init)" by (simp add: sample_ca_init_def)
  moreover have "ob_Type sample_tlsca \<noteq> EnrollmentCA" by (simp add: sample_tlsca_def)
  moreover have "sample_pods \<noteq> []" "list_all (\<lambda>p. list_all (\<lambda>ct. ct_Name ct \<noteq> ''certgen'') (jp_Containers p)) sample_pods"
    by (simp_all add: sample_pods_def)
  ultimately show ?thesis using unstarted_job_counts_as_success [OF sample_prepare] by blast
qed

lemma ping_parent_calls:
  fixes calls :: "'w \<Rightarrow> nat"
  assumes "\<And>w. \<exists>r. ia_http a url cert w = (r, step w) \<and> (\<forall>p. r \<noteq> Panic p)"
    and "\<And>w. calls (step w) = Suc (calls w)" and "\<And>w. calls (ia_sleep a w) = calls w"
    and "ia_request a url = Ok ()"
  shows "fst (ping_parent a url cert n w) = Ok () \<and> calls (snd (ping_parent a url cert n w)) \<le> calls w + n \<and>
    ((\<forall>w. \<exists>e. fst (ia_http a url cert w) = Fail e) \<longrightarrow> calls (snd (ping_parent a url cert n w)) = calls w + n)"
proof (induction n arbitrary: w)
  case (Suc n)
  from assms(1) [of w] obtain r where r: "ia_http a url cert w = (r, step w)" "\<And>p. r \<noteq> Panic p" by blast
  show ?case
  proof (cases r)
    case (Ok status)
    with r assms(2,4) show ?thesis by (simp add: util_HealthCheck_def) (metis fst_conv go_result.distinct(1))
  next
    case (Fail e)
    with r assms(2-4) Suc [of "ia_sleep a (step w)"] show ?thesis by (simp add: util_HealthCheck_def)
  qed (use r in simp)
qed simp


definition sample_parent :: lib_config where
  "sample_parent = \<lparr>lc_DB_Type = '''', lc_DB_Datasource = '''', lc_DB_TLS = no_client_tls,
     lc_ParentServer_URL = ''parent.example.org'',
     lc_Intermediate_CertFiles = [''parent.pem''], lc_Metrics_Provider = '''', lc_other = ''''\<rparr>"


text \<open>Without certificates for the connection there is no first one.\<close>

lemma parent_without_certificates:
  "lc_ParentServer_URL cfg \<noteq> [] \<Longrightarrow> lc_Intermediate_CertFiles cfg = [] \<Longrightarrow>
   check_parent a cfg w = (Panic ''index out of range'', w)"
  by (simp add: check_parent_def)

end
