(* ===== verification/MSPCrypto.thy ===== *)
theory MSPCrypto
  imports CryptoBackup CAConfig
begin

text \<open>
  Where the crypto material of peers and ordering nodes comes from, \<open>pkg/initializer/common\<close>: it is parsed from
  the specification (\<open>mspparser\<close>) or asked of a CA (\<open>enroller\<close>), in both cases behind the interface \<open>Crypto\<close> of
  \<open>config/crypto.go\<close>.  Enrollment without a HSM is modelled in full; what the clients of a HSM and Fabric CA's
  own client do is a parameter.
\<close>

subsection \<open>Material and requests\<close>

text \<open>\<open>Response\<close>: a list that is nil and an empty one are treated alike, a nil certificate or key is \<open>None\<close>.\<close>

record msp_material =
  mt_CACerts :: "string list"
  mt_IntermediateCerts :: "string list"
  mt_AdminCerts :: "string list"
  mt_SignCert :: "string option"
  mt_Keystore :: "string option"

definition no_material :: msp_material where
  "no_material = \<lparr>mt_CACerts = [], mt_IntermediateCerts = [], mt_AdminCerts = [], mt_SignCert = None,
     mt_Keystore = None\<rparr>"

record msp_response =
  mr_Enrollment :: "msp_material option"
  mr_TLS :: "msp_material option"
  mr_ClientAuth :: "msp_material option"

definition no_response :: msp_response where
  "no_response = \<lparr>mr_Enrollment = None, mr_TLS = None, mr_ClientAuth = None\<rparr>"

record ca_request =
  rq_CAHost :: string
  rq_CAPort :: string
  rq_CAName :: string
  rq_EnrollID :: string
  rq_EnrollSecret :: string
  rq_CATLS :: "string option"
  rq_AdminCerts :: "string list"
  rq_Hosts :: "string list option"

text \<open>The client of a CA and what enrolls with it; a \<open>FabCAClient\<close> knows its URL from the request.\<close>

datatype enroller_kind = SWEnroller | HSMProxyEnroller | HSMEnroller | HSMDaemonEnroller

record enroller =
  el_kind :: enroller_kind
  el_request :: ca_request
  el_HomeDir :: string
  el_CATLSCert :: string

datatype generator = MSPParser msp_crypto | Enrollment_of enroller

record cryptos =
  y_Enrollment :: "generator option"
  y_TLS :: "generator option"
  y_ClientAuth :: "generator option"

definition no_cryptos :: cryptos where
  "no_cryptos = \<lparr>y_Enrollment = None, y_TLS = None, y_ClientAuth = None\<rparr>"

subsection \<open>Collaborators\<close>

text \<open>
  Packages \<open>pem\<close>, \<open>x509\<close>, \<open>http\<close> and Fabric CA's client.  \<open>pl_blocks\<close> are the blocks that repeated \<open>pem.Decode\<close> finds in
  a text, \<open>pl_encode\<close> is \<open>pem.EncodeToMemory\<close> of one.  \<open>pl_enroll\<close> gives the CA's chain and the enrolled certificate,
  which may be nil.  \<open>pl_hsm_enroll\<close> is \<open>Enroll\<close> of the enrollers with a HSM, \<open>pl_hsm_daemon\<close> says whether the HSM of the
  namespace has a daemon (\<open>ReadHSMConfig\<close>).
\<close>

record certificate =
  ce_IsCA :: bool
  ce_AuthorityKeyId :: string
  ce_SubjectKeyId :: string
  ce_OrganizationalUnit :: "string list option"

record 'w pki =
  pl_lib :: "'w ca_lib"
  pl_blocks :: "string \<Rightarrow> string list"
  pl_x509 :: "string \<Rightarrow> certificate go_result"
  pl_encode :: "string \<Rightarrow> string"
  pl_init :: "enroller \<Rightarrow> 'w \<Rightarrow> unit go_result \<times> 'w"
  pl_enroll :: "enroller \<Rightarrow> string list \<Rightarrow> 'w \<Rightarrow> (string \<times> string option) go_result \<times> 'w"
  pl_hsm_enroll :: "enroller \<Rightarrow> 'w \<Rightarrow> msp_material go_result \<times> 'w"
  pl_request :: "string \<Rightarrow> unit go_result"
  pl_http :: "enroller \<Rightarrow> string \<Rightarrow> 'w \<Rightarrow> int go_result \<times> 'w"
  pl_hsm_daemon :: "string \<Rightarrow> 'w \<Rightarrow> bool go_result \<times> 'w"

subsection \<open>The parser\<close>

definition parse_each :: "string \<Rightarrow> string list \<Rightarrow> string list go_result" where
  "parse_each part = map_r (\<lambda>c. fst (wrap_err (''failed to parse '' @ part) (Base64ToBytes c, ())))"

definition msp_Parse :: "msp_crypto \<Rightarrow> msp_material go_result" where
  "msp_Parse m =
     seq_r (fst (wrap_err ''failed to parse signcert'' (Base64ToBytes (m_SignCerts m), ()))) (\<lambda>cert.
     seq_r (fst (wrap_err ''failed to parse keystore'' (Base64ToBytes (m_KeyStore m), ()))) (\<lambda>key.
     seq_r (parse_each ''admin cert'' (m_AdminCerts m)) (\<lambda>admins.
     seq_r (parse_each ''intermediate cert'' (m_IntermediateCerts m)) (\<lambda>inters.
     seq_r (parse_each ''ca cert'' (m_CACerts m)) (\<lambda>cas.
     Ok \<lparr>mt_CACerts = cas, mt_IntermediateCerts = inters, mt_AdminCerts = admins, mt_SignCert = Some cert,
       mt_Keystore = Some key\<rparr>)))))"

definition msp_Validate :: "msp_crypto \<Rightarrow> unit go_result" where
  "msp_Validate m =
     (if m_KeyStore m = '''' then Fail (Plain ''unable to parse MSP, keystore not specified'')
      else if m_SignCerts m = '''' then Fail (Plain ''unable to parse MSP, signcert not specified'')
      else if length (m_CACerts m) = 0 then Fail (Plain ''unable to parse MSP, ca certs not specified'')
      else Ok ())"

subsection \<open>Enrollment\<close>

definition enroller_Validate :: "ca_request \<Rightarrow> unit go_result" where
  "enroller_Validate req =
     (if rq_CAHost req = '''' then Fail (Plain ''unable to enroll, CA host not specified'')
      else if rq_CAPort req = '''' then Fail (Plain ''unable to enroll, CA port not specified'')
      else if rq_EnrollID req = '''' then Fail (Plain ''unable to enroll, enrollment ID not specified'')
      else if rq_EnrollSecret req = '''' then Fail (Plain ''unable to enroll, enrollment secret not specified'')
      else (case rq_CATLS req of
          None \<Rightarrow> Panic ''nil pointer dereference''
        | Some c \<Rightarrow>
            if c = '''' then Fail (Plain ''unable to enroll, CA TLS certificate not specified'') else Ok ()))"

text \<open>
  The chain of the CA is sorted into roots and intermediate certificates; if there are intermediates, they are
  then replaced by the whole chain as it came.
\<close>

fun sort_chain :: "'w pki \<Rightarrow> string list \<Rightarrow> msp_material \<Rightarrow> msp_material go_result" where
  "sort_chain p [] resp = Ok resp"
| "sort_chain p (block # chain) resp =
     seq_r (fst (wrap_err ''Failed to parse certificate in the CA chain'' (pl_x509 p block, ()))) (\<lambda>cert.
     if \<not> ce_IsCA cert then Fail (Plain ''A certificate in the CA chain is not a CA certificate'')
     else if ce_AuthorityKeyId cert = [] \<or> ce_AuthorityKeyId cert = ce_SubjectKeyId cert then
       sort_chain p chain (resp\<lparr>mt_CACerts := mt_CACerts resp @ [pl_encode p block]\<rparr>)
     else sort_chain p chain (resp\<lparr>mt_IntermediateCerts := mt_IntermediateCerts resp @ [pl_encode p block]\<rparr>))"

definition ParseEnrollmentResponse :: "'w pki \<Rightarrow> msp_material \<Rightarrow> string \<Rightarrow> msp_material go_result" where
  "ParseEnrollmentResponse p resp caChain =
     seq_r (sort_chain p (pl_blocks p caChain) resp) (\<lambda>resp.
     Ok (if 0 < length (mt_IntermediateCerts resp) then resp\<lparr>mt_IntermediateCerts := [caChain]\<rparr> else resp))"

definition util_WriteFile :: "'w ca_lib \<Rightarrow> string \<Rightarrow> string \<Rightarrow> 'w \<Rightarrow> unit go_result \<times> 'w" where
  "util_WriteFile l f buf w =
     (let dir = path_dir f in
      case cl_stat l dir w of (found, w) \<Rightarrow>
        bind_r (if \<not> found then
                  wrap_err (''Failed to create directory '' @ quoted dir @ '' for file '' @ quoted f) (cl_mkdir l dir w)
                else (Ok (), w)) (\<lambda>_ w. cl_write l f buf w))"

text \<open>\<open>enroll\<close> of \<open>swenroller.go\<close>: hosts of the request go along when there are any.\<close>

definition sw_enroll :: "'w pki \<Rightarrow> enroller \<Rightarrow> 'w \<Rightarrow> msp_material go_result \<times> 'w" where
  "sw_enroll p e w =
     bind_r (cl_mkdir (pl_lib p) (el_HomeDir e) w) (\<lambda>_ w.
     bind_r (util_WriteFile (pl_lib p) (el_HomeDir e @ ''/tlsCert.pem'') (el_CATLSCert e) w) (\<lambda>_ w.
     bind_r (wrap_err ''failed to initialize CA client'' (pl_init p e w)) (\<lambda>_ w.
     bind_r (wrap_err ''failed to enroll with CA''
               (pl_enroll p e (case rq_Hosts (el_request e) of None \<Rightarrow> [] | Some hosts \<Rightarrow> hosts) w)) (\<lambda>(chain, ecert) w.
     bind_r (ParseEnrollmentResponse p no_material chain, w) (\<lambda>resp w.
     (Ok (case ecert of None \<Rightarrow> resp | Some c \<Rightarrow> resp\<lparr>mt_SignCert := Some c\<rparr>), w))))))"

fun read_key :: "'w ca_lib \<Rightarrow> string \<Rightarrow> string list \<Rightarrow> 'w \<Rightarrow> string go_result \<times> 'w" where
  "read_key l dir [] w = (Fail (Plain ''failed to read private key''), w)"
| "read_key l dir (f # fs) w =
     bind_r (cl_read l (dir @ ''/'' @ f) w) (\<lambda>fileBytes w.
       (case cl_pem l fileBytes of
          None \<Rightarrow> read_key l dir fs w
        | Some bytes \<Rightarrow> if cl_pkcs8 l bytes then (Ok fileBytes, w) else read_key l dir fs w))"

definition ReadKey :: "'w pki \<Rightarrow> enroller \<Rightarrow> 'w \<Rightarrow> string go_result \<times> 'w" where
  "ReadKey p e w =
     (let keystoreDir = el_HomeDir e @ ''/msp/keystore'' in
      bind_r (cl_read_dir (pl_lib p) keystoreDir w) (\<lambda>files w.
        if 1 < length files then
          (Fail (Plain (''expecting only one key file to present in keystore '' @ quoted keystoreDir @
             '', but found multiple'')), w)
        else read_key (pl_lib p) keystoreDir files w))"

definition SW_Enroll :: "'w pki \<Rightarrow> enroller \<Rightarrow> 'w \<Rightarrow> msp_material go_result \<times> 'w" where
  "SW_Enroll p e w =
     bind_r (sw_enroll p e w) (\<lambda>resp w.
     bind_r (ReadKey p e w) (\<lambda>key w. (Ok (resp\<lparr>mt_Keystore := Some key\<rparr>), w)))"

definition enroller_Enroll :: "'w pki \<Rightarrow> enroller \<Rightarrow> 'w \<Rightarrow> msp_material go_result \<times> 'w" where
  "enroller_Enroll p e = (if el_kind e = SWEnroller then SW_Enroll p e else pl_hsm_enroll p e)"

definition enroller_GetCrypto :: "'w pki \<Rightarrow> enroller \<Rightarrow> 'w \<Rightarrow> msp_material go_result \<times> 'w" where
  "enroller_GetCrypto p e w =
     bind_r (wrap_err ''failed to enroll with CA'' (enroller_Enroll p e w)) (\<lambda>resp w.
     bind_r (parse_each ''admin cert'' (rq_AdminCerts (el_request e)), w) (\<lambda>admins w.
     (Ok (resp\<lparr>mt_AdminCerts := mt_AdminCerts resp @ admins\<rparr>), w)))"

text \<open>
  \<open>PingCA\<close> of \<open>fabcaclient.go\<close>.  As in \<open>util.HealthCheck\<close>, a status other than 200 wraps an error that is nil,
  which is no error.
\<close>

definition client_healthCheck :: "'w pki \<Rightarrow> enroller \<Rightarrow> string \<Rightarrow> 'w \<Rightarrow> unit go_result \<times> 'w" where
  "client_healthCheck p e healthURL w =
     bind_r (wrap_err ''invalid http request'' (pl_request p healthURL, w)) (\<lambda>_ w.
     bind_r (wrap_err ''health check request failed'' (pl_http p e healthURL w)) (\<lambda>status w. (Ok (), w)))"

definition client_PingCA :: "'w pki \<Rightarrow> enroller \<Rightarrow> 'w \<Rightarrow> unit go_result \<times> 'w" where
  "client_PingCA p e w =
     (let url = ''https://'' @ rq_CAHost (el_request e) @ '':'' @ rq_CAPort (el_request e) @ ''/cainfo''
      in wrap_err (''pinging '' @ quoted url @ '' failed'') (client_healthCheck p e url w))"

subsection \<open>The interface\<close>

text \<open>Pinging a CA is nothing for the parser, which also needs nothing from outside.\<close>

definition generator_PingCA :: "'w pki \<Rightarrow> generator \<Rightarrow> 'w \<Rightarrow> unit go_result \<times> 'w" where
  "generator_PingCA p g w = (case g of MSPParser m \<Rightarrow> (Ok (), w) | Enrollment_of e \<Rightarrow> client_PingCA p e w)"

definition generator_Validate :: "generator \<Rightarrow> unit go_result" where
  "generator_Validate g =
     (case g of MSPParser m \<Rightarrow> msp_Validate m | Enrollment_of e \<Rightarrow> enroller_Validate (el_request e))"

definition generator_GetCrypto :: "'w pki \<Rightarrow> generator \<Rightarrow> 'w \<Rightarrow> msp_material go_result \<times> 'w" where
  "generator_GetCrypto p g w =
     (case g of MSPParser m \<Rightarrow> (msp_Parse m, w) | Enrollment_of e \<Rightarrow> enroller_GetCrypto p e w)"

definition config_GenerateCrypto :: "'w pki \<Rightarrow> generator \<Rightarrow> 'w \<Rightarrow> msp_material go_result \<times> 'w" where
  "config_GenerateCrypto p g w =
     bind_r (wrap_err ''ca is not reachable'' (generator_PingCA p g w)) (\<lambda>_ w.
     bind_r (wrap_err ''invalid crypto'' (generator_Validate g, w)) (\<lambda>_ w.
     generator_GetCrypto p g w))"

definition generate_part ::
  "'w pki \<Rightarrow> generator option \<Rightarrow> 'w \<Rightarrow> msp_material option go_result \<times> 'w" where
  "generate_part p g w =
     (case g of None \<Rightarrow> (Ok None, w)
      | Some g \<Rightarrow> bind_r (config_GenerateCrypto p g w) (\<lambda>resp w. (Ok (Some resp), w)))"

definition GenerateCryptoResponse :: "'w pki \<Rightarrow> cryptos \<Rightarrow> 'w \<Rightarrow> msp_response go_result \<times> 'w" where
  "GenerateCryptoResponse p c w =
     bind_r (generate_part p (y_Enrollment c) w) (\<lambda>e w.
     bind_r (generate_part p (y_TLS c) w) (\<lambda>t w.
     bind_r (generate_part p (y_ClientAuth c) w) (\<lambda>a w.
     (Ok \<lparr>mr_Enrollment = e, mr_TLS = t, mr_ClientAuth = a\<rparr>, w))))"

text \<open>The unit of organization a certificate must name; \<open>pl_blocks\<close> gives the first block of the text.\<close>

definition GetCertificateFromPEMBytes :: "'w pki \<Rightarrow> string \<Rightarrow> certificate go_result" where
  "GetCertificateFromPEMBytes p bytes =
     (case pl_blocks p bytes of
        [] \<Rightarrow> Fail (Plain ''failed to decode PEM bytes'')
      | block # _ \<Rightarrow> fst (wrap_err ''failed to parse certificate'' (pl_x509 p block, ())))"

definition verifyCertOU :: "'w pki \<Rightarrow> string \<Rightarrow> string \<Rightarrow> unit go_result" where
  "verifyCertOU p pemBytes ou =
     seq_r (GetCertificateFromPEMBytes p pemBytes) (\<lambda>cert.
       (case ce_OrganizationalUnit cert of
          None \<Rightarrow> Fail (Plain ''OU not defined'')
        | Some ous \<Rightarrow>
            if ou \<notin> set ous then Fail (Plain (''cert does not have right OU, expecting '' @ quoted ou)) else Ok ()))"

definition material_VerifyCertOU :: "'w pki \<Rightarrow> msp_material \<Rightarrow> string \<Rightarrow> unit go_result" where
  "material_VerifyCertOU p r crType =
     (case mt_SignCert r of
        None \<Rightarrow> Ok ()
      | Some c \<Rightarrow>
          if length c = 0 then Ok ()
          else fst (wrap_err ''invalid OU for signcert'' (verifyCertOU p c (to_lower crType), ())))"

definition response_VerifyCertOU :: "'w pki \<Rightarrow> msp_response \<Rightarrow> string \<Rightarrow> unit go_result" where
  "response_VerifyCertOU p r crType =
     (case mr_Enrollment r of
        None \<Rightarrow> Ok ()
      | Some m \<Rightarrow> fst (wrap_err (''invalid OU for '' @ crType @ '' identity'') (material_VerifyCertOU p m crType, ())))"

end
