(* ===== verification/SecretManager.thy ===== *)
theory SecretManager
  imports MSPCrypto
begin

text \<open>
  The secrets of peers and ordering nodes: \<open>secretmanager.go\<close> of \<open>pkg/initializer/common\<close>, which writes and reads
  them, \<open>pkg/initializer/validator\<close>, which looks whether they are complete, and \<open>common.go\<close> with the comparison of
  administrators' certificates.

  An instance is what these packages see of it, all of it answers of methods the offerings have, too.
\<close>

subsection \<open>Instances and collaborators\<close>

record msp_source =
  ms_Component :: "msp_crypto option"
  ms_TLS :: "msp_crypto option"
  ms_ClientAuth :: "msp_crypto option"

record enroll_source =
  eo_Component :: "ca_request option"
  eo_TLS :: "ca_request option"
  eo_ClientAuth :: "ca_request option"

record crypto_source =
  cs_MSP :: "msp_source option"
  cs_Enrollment :: "enroll_source option"

record init_instance =
  xi_Name :: string
  xi_Namespace :: string
  xi_FabricVersion :: string
  xi_HSMEnabled :: bool
  xi_UsingHSMProxy :: bool
  xi_NodeOUDisabled :: bool
  xi_Secret :: "crypto_source option"

text \<open>
  The client: \<open>sd_put\<close> is \<open>CreateOrUpdate\<close> of a secret, which replaces its data, \<open>sd_cm_put\<close> of a config map.  A
  loop over the data of a secret visits it in the order \<open>sa_order\<close>.  \<open>sd_x509\<close> and \<open>sd_pkcs8\<close> parse the bytes of a
  block.
\<close>

record 'w secret_deps =
  sd_api :: "'w secret_api"
  sd_put :: "string \<Rightarrow> string \<Rightarrow> string gomap \<Rightarrow> string gomap \<Rightarrow> 'w \<Rightarrow> unit go_result \<times> 'w"
  sd_delete :: "string \<Rightarrow> string \<Rightarrow> 'w \<Rightarrow> unit go_result \<times> 'w"
  sd_labels :: "string \<Rightarrow> string gomap"
  sd_pem :: "string \<Rightarrow> string option"
  sd_x509 :: "string \<Rightarrow> unit go_result"
  sd_pkcs8 :: "string \<Rightarrow> unit go_result"
  sd_cm_get :: "string \<Rightarrow> string \<Rightarrow> 'w \<Rightarrow> string gomap option go_result \<times> 'w"
  sd_cm_put :: "string \<Rightarrow> string \<Rightarrow> string gomap \<Rightarrow> string gomap \<Rightarrow> 'w \<Rightarrow> unit go_result \<times> 'w"
  sd_cm_delete :: "string \<Rightarrow> string \<Rightarrow> 'w \<Rightarrow> unit go_result \<times> 'w"

subsection \<open>Writing\<close>

definition sm_CreateOrUpdateSecret ::
  "'w secret_deps \<Rightarrow> init_instance \<Rightarrow> string \<Rightarrow> string gomap \<Rightarrow> 'w \<Rightarrow> unit go_result \<times> 'w" where
  "sm_CreateOrUpdateSecret d i name data w = sd_put d name (xi_Namespace i) (sd_labels d (xi_Name i)) data w"

text \<open>\<open>GetCertsData\<close>: certificates by number, the empty ones left out.\<close>

definition cert_key :: "string \<Rightarrow> nat \<Rightarrow> string" where
  "cert_key certType n = certType @ ''-'' @ show_nat n @ ''.pem''"

fun certs_data :: "string \<Rightarrow> nat \<Rightarrow> string list \<Rightarrow> string gomap" where
  "certs_data certType n [] = []"
| "certs_data certType n (c # cs) =
     (if c = '''' then certs_data certType (Suc n) cs
      else (cert_key certType n, c) # certs_data certType (Suc n) cs)"

definition GetCertsData :: "string \<Rightarrow> string list \<Rightarrow> string gomap" where
  "GetCertsData certType certs = certs_data certType 0 certs"

definition CreateAdminSecret ::
  "'w secret_deps \<Rightarrow> string \<Rightarrow> init_instance \<Rightarrow> string list \<Rightarrow> 'w \<Rightarrow> unit go_result \<times> 'w" where
  "CreateAdminSecret d name i adminCerts w =
     (if length adminCerts = 0 \<or> hd adminCerts = '''' then (Ok (), w)
      else sm_CreateOrUpdateSecret d i name (GetCertsData ''admincert'' adminCerts) w)"

definition CreateCACertsSecret ::
  "'w secret_deps \<Rightarrow> string \<Rightarrow> init_instance \<Rightarrow> string list \<Rightarrow> 'w \<Rightarrow> unit go_result \<times> 'w" where
  "CreateCACertsSecret d name i caCerts w =
     (if length caCerts = 0 then (Ok (), w)
      else sm_CreateOrUpdateSecret d i name (GetCertsData ''cacert'' caCerts) w)"

definition CreateIntermediateCertsSecret ::
  "'w secret_deps \<Rightarrow> string \<Rightarrow> init_instance \<Rightarrow> string list \<Rightarrow> 'w \<Rightarrow> unit go_result \<times> 'w" where
  "CreateIntermediateCertsSecret d name i interCerts w =
     (if length interCerts = 0 then (Ok (), w)
      else sm_CreateOrUpdateSecret d i name (GetCertsData ''intercert'' interCerts) w)"

definition CreateSignCert ::
  "'w secret_deps \<Rightarrow> string \<Rightarrow> init_instance \<Rightarrow> string option \<Rightarrow> 'w \<Rightarrow> unit go_result \<times> 'w" where
  "CreateSignCert d name i cert w =
     (case cert of
        None \<Rightarrow> (Ok (), w)
      | Some c \<Rightarrow>
          if length c = 0 then (Ok (), w) else sm_CreateOrUpdateSecret d i name [(''cert.pem'', c)] w)"

definition CreateKey ::
  "'w secret_deps \<Rightarrow> string \<Rightarrow> init_instance \<Rightarrow> string option \<Rightarrow> 'w \<Rightarrow> unit go_result \<times> 'w" where
  "CreateKey d name i key w =
     (case key of None \<Rightarrow> (Ok (), w) | Some k \<Rightarrow> sm_CreateOrUpdateSecret d i name [(''key.pem'', k)] w)"

text \<open>What \<open>GenerateSecrets\<close> and \<open>UpdateSecrets\<close> share; the first is asked for nothing, too, the second is not.\<close>

definition write_material ::
  "'w secret_deps \<Rightarrow> string \<Rightarrow> init_instance \<Rightarrow> msp_material \<Rightarrow> 'w \<Rightarrow> unit go_result \<times> 'w" where
  "write_material d prefix i c w =
     (let name = crypto_secret prefix (xi_Name i) in
      bind_r (wrap_err ''failed to create ca certs secret''
        (CreateCACertsSecret d (name ''cacerts'') i (mt_CACerts c) w)) (\<lambda>_ w.
      bind_r (wrap_err ''failed to create intermediate ca certs secret''
        (CreateIntermediateCertsSecret d (name ''intercerts'') i (mt_IntermediateCerts c) w)) (\<lambda>_ w.
      bind_r (wrap_err ''failed to create signing cert secret''
        (CreateSignCert d (name ''signcert'') i (mt_SignCert c) w)) (\<lambda>_ w.
      wrap_err ''failed to create key secret'' (CreateKey d (name ''keystore'') i (mt_Keystore c) w)))))"

definition sm_GenerateSecrets ::
  "'w secret_deps \<Rightarrow> string \<Rightarrow> init_instance \<Rightarrow> msp_material option \<Rightarrow> 'w \<Rightarrow> unit go_result \<times> 'w" where
  "sm_GenerateSecrets d prefix i crypto w =
     (case crypto of
        None \<Rightarrow> (Ok (), w)
      | Some c \<Rightarrow>
          bind_r (if prefix \<noteq> ''tls'' then
                    wrap_err ''failed to create admin certs secret''
                      (CreateAdminSecret d (crypto_secret prefix (xi_Name i) ''admincerts'') i (mt_AdminCerts c) w)
                  else (Ok (), w)) (\<lambda>_ w.
          write_material d prefix i c w))"

definition sm_UpdateSecrets ::
  "'w secret_deps \<Rightarrow> string \<Rightarrow> init_instance \<Rightarrow> msp_material option \<Rightarrow> 'w \<Rightarrow> unit go_result \<times> 'w" where
  "sm_UpdateSecrets d prefix i crypto w =
     (case crypto of
        None \<Rightarrow> (Panic ''nil pointer dereference'', w)
      | Some c \<Rightarrow> write_material d prefix i c w)"

definition for_response ::
  "(string \<Rightarrow> msp_material option \<Rightarrow> 'w \<Rightarrow> unit go_result \<times> 'w) \<Rightarrow> string \<Rightarrow> msp_response option \<Rightarrow> 'w \<Rightarrow>
     unit go_result \<times> 'w" where
  "for_response f verb r w =
     (case r of
        None \<Rightarrow> (Ok (), w)
      | Some r \<Rightarrow>
          bind_r (wrap_err (''failed to '' @ verb @ '' ecert secrets'') (f ''ecert'' (mr_Enrollment r) w)) (\<lambda>_ w.
          bind_r (wrap_err (''failed to '' @ verb @ '' tls secrets'') (f ''tls'' (mr_TLS r) w)) (\<lambda>_ w.
          wrap_err (''failed to '' @ verb @ '' client auth secrets'') (f ''clientauth'' (mr_ClientAuth r) w))))"

definition sm_GenerateSecretsFromResponse ::
  "'w secret_deps \<Rightarrow> init_instance \<Rightarrow> msp_response option \<Rightarrow> 'w \<Rightarrow> unit go_result \<times> 'w" where
  "sm_GenerateSecretsFromResponse d i = for_response (\<lambda>prefix c w. sm_GenerateSecrets d prefix i c w) ''generate''"

definition sm_UpdateSecretsFromResponse ::
  "'w secret_deps \<Rightarrow> init_instance \<Rightarrow> msp_response option \<Rightarrow> 'w \<Rightarrow> unit go_result \<times> 'w" where
  "sm_UpdateSecretsFromResponse d i = for_response (\<lambda>prefix c w. sm_UpdateSecrets d prefix i c w) ''update''"

subsection \<open>Reading and deleting\<close>

definition sm_GetSecret ::
  "'w secret_deps \<Rightarrow> string \<Rightarrow> init_instance \<Rightarrow> 'w \<Rightarrow> string gomap option option go_result \<times> 'w" where
  "sm_GetSecret d name i w =
     (case sa_get (sd_api d) name (xi_Namespace i) w of
        (Ok m, w) \<Rightarrow> (Ok (Some m), w)
      | (Fail e, w) \<Rightarrow> if IsNotFound e then (Ok None, w) else (Fail e, w)
      | (Panic p, w) \<Rightarrow> (Panic p, w))"

definition GetCertBytesFromData :: "'w secret_deps \<Rightarrow> string gomap option \<Rightarrow> string list" where
  "GetCertBytesFromData d m = secret_values (sd_api d) (sdata m)"

definition read_certs ::
  "'w secret_deps \<Rightarrow> string \<Rightarrow> init_instance \<Rightarrow> 'w \<Rightarrow> string list go_result \<times> 'w" where
  "read_certs d name i w =
     bind_r (sm_GetSecret d name i w) (\<lambda>m w.
       (Ok (case m of None \<Rightarrow> [] | Some m \<Rightarrow> GetCertBytesFromData d m), w))"

definition read_entry ::
  "'w secret_deps \<Rightarrow> string \<Rightarrow> string \<Rightarrow> init_instance \<Rightarrow> 'w \<Rightarrow> string option go_result \<times> 'w" where
  "read_entry d name key i w =
     bind_r (sm_GetSecret d name i w) (\<lambda>m w.
       (Ok (case m of None \<Rightarrow> None | Some m \<Rightarrow> map_of (sdata m) key), w))"

definition GetCryptoFromSecrets ::
  "'w secret_deps \<Rightarrow> string \<Rightarrow> init_instance \<Rightarrow> 'w \<Rightarrow> msp_material go_result \<times> 'w" where
  "GetCryptoFromSecrets d prefix i w =
     (let name = crypto_secret prefix (xi_Name i) in
      bind_r (read_certs d (name ''admincerts'') i w) (\<lambda>admins w.
      bind_r (read_certs d (name ''cacerts'') i w) (\<lambda>cas w.
      bind_r (read_certs d (name ''intercerts'') i w) (\<lambda>inters w.
      bind_r (read_entry d (name ''signcert'') ''cert.pem'' i w) (\<lambda>cert w.
      bind_r (read_entry d (name ''keystore'') ''key.pem'' i w) (\<lambda>key w.
      (Ok \<lparr>mt_CACerts = cas, mt_IntermediateCerts = inters, mt_AdminCerts = admins, mt_SignCert = cert,
         mt_Keystore = key\<rparr>, w)))))))"

definition GetCryptoResponseFromSecrets ::
  "'w secret_deps \<Rightarrow> init_instance \<Rightarrow> 'w \<Rightarrow> msp_response go_result \<times> 'w" where
  "GetCryptoResponseFromSecrets d i w =
     bind_r (wrap_err ''failed to get ecert crypto'' (GetCryptoFromSecrets d ''ecert'' i w)) (\<lambda>e w.
     bind_r (wrap_err ''failed to get tls crypto'' (GetCryptoFromSecrets d ''tls'' i w)) (\<lambda>t w.
     bind_r (wrap_err ''failed to get client auth crypto'' (GetCryptoFromSecrets d ''clientauth'' i w)) (\<lambda>a w.
     (Ok \<lparr>mr_Enrollment = Some e, mr_TLS = Some t, mr_ClientAuth = Some a\<rparr>, w))))"

fun delete_secrets ::
  "'w secret_deps \<Rightarrow> string list \<Rightarrow> string \<Rightarrow> 'w \<Rightarrow> unit go_result \<times> 'w" where
  "delete_secrets d [] namespace w = (Ok (), w)"
| "delete_secrets d (name # names) namespace w =
     (case sd_delete d name namespace w of
        (Fail e, w) \<Rightarrow>
          if IsNotFound e then delete_secrets d names namespace w
          else (Fail (Wrapped (''failed to delete secret '' @ quoted name) e), w)
      | (Ok _, w) \<Rightarrow> delete_secrets d names namespace w
      | (Panic p, w) \<Rightarrow> (Panic p, w))"

definition DeleteSecrets ::
  "'w secret_deps \<Rightarrow> string \<Rightarrow> init_instance \<Rightarrow> string \<Rightarrow> 'w \<Rightarrow> unit go_result \<times> 'w" where
  "DeleteSecrets d prefix i name w =
     delete_secrets d (map (crypto_secret prefix name)
       [''admincerts'', ''cacerts'', ''intercerts'', ''signcert'', ''keystore'']) (xi_Namespace i) w"

subsection \<open>Administrators' certificates\<close>

text \<open>An error other than not-found gives a nil map, which has no entries either.\<close>

definition GetAdminCertsFromSecret :: "'w secret_deps \<Rightarrow> init_instance \<Rightarrow> 'w \<Rightarrow> string gomap go_result \<times> 'w" where
  "GetAdminCertsFromSecret d i w =
     (case sa_get (sd_api d) (crypto_secret ''ecert'' (xi_Name i) ''admincerts'') (xi_Namespace i) w of
        (Ok m, w) \<Rightarrow> (Ok (sdata m), w)
      | (Fail e, w) \<Rightarrow> (Ok [], w)
      | (Panic p, w) \<Rightarrow> (Panic p, w))"

definition GetAdminCertsFromSpec :: "crypto_source option \<Rightarrow> string list" where
  "GetAdminCertsFromSpec spec =
     (case spec of
        None \<Rightarrow> []
      | Some s \<Rightarrow>
          (case cs_MSP s of
             Some m \<Rightarrow> (case ms_Component m of Some c \<Rightarrow> m_AdminCerts c | None \<Rightarrow> [])
           | None \<Rightarrow>
               (case cs_Enrollment s of
                  Some e \<Rightarrow> (case eo_Component e of Some r \<Rightarrow> rq_AdminCerts r | None \<Rightarrow> [])
                | None \<Rightarrow> [])))"

fun some_cert_missing :: "string list \<Rightarrow> string list \<Rightarrow> bool go_result" where
  "some_cert_missing current [] = Ok False"
| "some_cert_missing current (c # updated) =
     seq_r (Base64ToBytes c) (\<lambda>newCert.
       if newCert \<in> set current then some_cert_missing current updated else Ok True)"

definition CheckIfCertsDifferent :: "string gomap \<Rightarrow> string list \<Rightarrow> bool go_result" where
  "CheckIfCertsDifferent current updated =
     (if length current \<noteq> length updated \<and> 0 < length updated then Ok True
      else some_cert_missing (map snd current) updated)"

definition ConvertCertsToBytes :: "string list \<Rightarrow> string list go_result" where
  "ConvertCertsToBytes certs = map_r Base64ToBytes certs"

definition UpdateAdminCertSecret :: "'w secret_deps \<Rightarrow> init_instance \<Rightarrow> crypto_source option \<Rightarrow> 'w \<Rightarrow> unit go_result \<times> 'w" where
  "UpdateAdminCertSecret d i spec w =
     (let adminCerts = GetAdminCertsFromSpec spec in
      if length adminCerts = 0 \<or> hd adminCerts = '''' then (Ok (), w)
      else
        bind_r (ConvertCertsToBytes adminCerts, w) (\<lambda>bytes w.
        sm_CreateOrUpdateSecret d i (crypto_secret ''ecert'' (xi_Name i) ''admincerts'')
          (GetCertsData ''admincert'' bytes) w))"

subsection \<open>The validator\<close>

definition ValidateCert :: "'w secret_deps \<Rightarrow> string \<Rightarrow> unit go_result" where
  "ValidateCert d cert =
     (case sd_pem d cert of
        None \<Rightarrow> Fail (Plain ''failed to get certificate block'')
      | Some block \<Rightarrow> fst (wrap_err ''not valid'' (sd_x509 d block, ())))"

definition ValidateKey :: "'w secret_deps \<Rightarrow> string \<Rightarrow> unit go_result" where
  "ValidateKey d key =
     (case sd_pem d key of
        None \<Rightarrow> Fail (Plain ''failed to get key block'')
      | Some block \<Rightarrow> fst (wrap_err ''not valid'' (sd_pkcs8 d block, ())))"

fun ValidateCerts :: "'w secret_deps \<Rightarrow> string list \<Rightarrow> unit go_result" where
  "ValidateCerts d [] = Ok ()"
| "ValidateCerts d (c # cs) = seq_r (ValidateCert d c) (\<lambda>_. ValidateCerts d cs)"

definition CheckCACerts :: "'w secret_deps \<Rightarrow> init_instance \<Rightarrow> string \<Rightarrow> 'w \<Rightarrow> unit go_result \<times> 'w" where
  "CheckCACerts d i prefix w =
     bind_r (sa_get (sd_api d) (prefix @ ''-cacerts'') (xi_Namespace i) w) (\<lambda>m w.
       if length (sdata m) = 0 then (Fail (Plain ''no ca certificates found in cacerts secret''), w)
       else wrap_err ''not a proper ca cert'' (ValidateCerts d (secret_values (sd_api d) (sdata m)), w))"

text \<open>A missing entry reads as an empty text.\<close>

definition CheckCert :: "'w secret_deps \<Rightarrow> init_instance \<Rightarrow> string \<Rightarrow> 'w \<Rightarrow> unit go_result \<times> 'w" where
  "CheckCert d i prefix w =
     bind_r (sa_get (sd_api d) (prefix @ ''-signcert'') (xi_Namespace i) w) (\<lambda>m w.
       wrap_err ''not a proper sign cert'' (ValidateCert d (entry_of (sdata m) ''cert.pem''), w))"

definition CheckKey :: "'w secret_deps \<Rightarrow> init_instance \<Rightarrow> string \<Rightarrow> 'w \<Rightarrow> unit go_result \<times> 'w" where
  "CheckKey d i prefix w =
     bind_r (sa_get (sd_api d) (prefix @ ''-keystore'') (xi_Namespace i) w) (\<lambda>m w.
       wrap_err ''not a proper key'' (ValidateKey d (entry_of (sdata m) ''key.pem''), w))"

definition CheckCertAndKey :: "'w secret_deps \<Rightarrow> init_instance \<Rightarrow> string \<Rightarrow> 'w \<Rightarrow> unit go_result \<times> 'w" where
  "CheckCertAndKey d i prefix w = bind_r (CheckCert d i prefix w) (\<lambda>_ w. CheckKey d i prefix w)"

text \<open>The flag \<open>HSMEnabled\<close> is the validator's only state.\<close>

definition CheckEcertCrypto :: "'w secret_deps \<Rightarrow> bool \<Rightarrow> init_instance \<Rightarrow> string \<Rightarrow> 'w \<Rightarrow> unit go_result \<times> 'w" where
  "CheckEcertCrypto d hsmEnabled i name w =
     (let prefix = ''ecert-'' @ name in
      bind_r (CheckCACerts d i prefix w) (\<lambda>_ w.
      if hsmEnabled then CheckCert d i prefix w else CheckCertAndKey d i prefix w))"

definition CheckTLSCrypto :: "'w secret_deps \<Rightarrow> init_instance \<Rightarrow> string \<Rightarrow> 'w \<Rightarrow> unit go_result \<times> 'w" where
  "CheckTLSCrypto d i name w =
     bind_r (CheckCACerts d i (''tls-'' @ name) w) (\<lambda>_ w. CheckCertAndKey d i (''tls-'' @ name) w)"

definition CheckClientAuthCrypto :: "'w secret_deps \<Rightarrow> init_instance \<Rightarrow> string \<Rightarrow> 'w \<Rightarrow> unit go_result \<times> 'w" where
  "CheckClientAuthCrypto d i name w =
     bind_r (CheckCACerts d i (''clientauth-'' @ name) w) (\<lambda>_ w. CheckCertAndKey d i (''clientauth-'' @ name) w)"

definition CheckError :: "go_error \<Rightarrow> bool" where
  "CheckError e = (str_contains (error_text e) ''not found'' \<or> str_contains (error_text e) ''not valid'')"

text \<open>\<open>CheckCrypto\<close>: an error whose text has neither phrase does not count.\<close>

definition count_error :: "string \<Rightarrow> unit go_result \<times> 'w \<Rightarrow> unit go_result \<times> 'w" where
  "count_error msg m =
     (case m of
        (Fail e, w) \<Rightarrow> if CheckError e then (Fail (Wrapped msg e), w) else (Ok (), w)
      | r \<Rightarrow> r)"

definition CheckCrypto :: "'w secret_deps \<Rightarrow> bool \<Rightarrow> init_instance \<Rightarrow> bool \<Rightarrow> 'w \<Rightarrow> unit go_result \<times> 'w" where
  "CheckCrypto d hsmEnabled i checkClientAuth w =
     bind_r (count_error ''missing ecert crypto'' (CheckEcertCrypto d hsmEnabled i (xi_Name i) w)) (\<lambda>_ w.
     bind_r (count_error ''missing TLS crypto'' (CheckTLSCrypto d i (xi_Name i) w)) (\<lambda>_ w.
     if checkClientAuth then
       count_error ''missing Client Auth crypto'' (CheckClientAuthCrypto d i (xi_Name i) w)
     else (Ok (), w)))"

end
