(* ===== verification/MSPInitializer.thy ===== *)
theory MSPInitializer
  imports SecretManager OrdererNode
begin

text \<open>
  The initializers of peers and ordering nodes, \<open>pkg/initializer/peer\<close> and \<open>pkg/initializer/orderer\<close>: they choose
  where crypto material comes from, generate it, hand it to the secret manager, look whether it is there, and
  write the config map.  These are the operations the offerings call on their initializer, which is a parameter
  of the offerings' model.

  One initializer and its validator serve all instances of their kind, so the validator's flag is a state that
  outlives an instance's round; operations that touch it take and give it.
\<close>

subsection \<open>Collaborators\<close>

text \<open>
  The configuration of a version: \<open>MergeWith\<close>, \<open>ToBytes\<close>, the certificates of the address overrides (each
  \<open>GetCertBytes\<close>), and the readers from a file and from bytes.  \<open>vc_NodeOU_off\<close> parses a NodeOU configuration,
  disables it and prints it.
\<close>

record ('c, 'w) init_collab =
  vc_merge :: "'c \<Rightarrow> 'c \<Rightarrow> bool \<Rightarrow> 'c go_result"
  vc_bytes :: "'c \<Rightarrow> string go_result"
  vc_addresses :: "'c \<Rightarrow> string list"
  vc_read_file :: "core_version \<Rightarrow> string \<Rightarrow> 'w \<Rightarrow> 'c go_result \<times> 'w"
  vc_read_bytes :: "core_version \<Rightarrow> string \<Rightarrow> 'c go_result"
  vc_NodeOU_off :: "string \<Rightarrow> string go_result"
  vc_pki :: "'w pki"
  vc_secrets :: "'w secret_deps"
  vc_remove_all :: "string \<Rightarrow> 'w \<Rightarrow> unit go_result \<times> 'w"
  vc_OUFile :: string
  vc_InterOUFile :: string

text \<open>\<open>Peer\<close> and \<open>Orderer\<close> of the initializers: configuration, sources of crypto, and the HSM proxy.\<close>

record 'c init_object =
  io_Config :: "'c option"
  io_Cryptos :: "cryptos option"
  io_UsingHSMProxy :: bool

record 'c init_result =
  ix_Config :: "'c option"
  ix_Crypto :: "msp_response option"
  ix_DeliveryClientCerts :: "string gomap"

subsection \<open>Sources of crypto\<close>

definition GetCATLSBytes :: "ca_request \<Rightarrow> string go_result" where
  "GetCATLSBytes req =
     (case rq_CATLS req of None \<Rightarrow> Fail (Plain ''no CA TLS certificate set'') | Some c \<Rightarrow> Base64ToBytes c)"

definition enroller_of :: "enroller_kind \<Rightarrow> ca_request \<Rightarrow> string \<Rightarrow> string \<Rightarrow> generator" where
  "enroller_of kind req home bytes =
     Enrollment_of \<lparr>el_kind = kind, el_request = req, el_HomeDir = home, el_CATLSCert = bytes\<rparr>"

text \<open>\<open>Factory\<close>: which enroller an instance gets for its enrollment certificate.\<close>

definition enroller_Factory ::
  "'w pki \<Rightarrow> ca_request \<Rightarrow> init_instance \<Rightarrow> string \<Rightarrow> string \<Rightarrow> 'w \<Rightarrow> generator go_result \<times> 'w" where
  "enroller_Factory p req i storagePath bytes w =
     (if xi_HSMEnabled i then
        if xi_UsingHSMProxy i then (Ok (enroller_of HSMProxyEnroller req storagePath bytes), w)
        else
          bind_r (wrap_err ''failed to read HSM config'' (pl_hsm_daemon p (xi_Namespace i) w)) (\<lambda>daemon w.
          (Ok (enroller_of (if daemon then HSMDaemonEnroller else HSMEnroller) req storagePath bytes), w))
      else (Ok (enroller_of SWEnroller req storagePath bytes), w))"

text \<open>A source that is there already is not replaced by an enrollment.\<close>

definition common_enroller :: "ca_request option \<Rightarrow> generator option \<Rightarrow> string \<Rightarrow> generator option go_result" where
  "common_enroller spec source home =
     (case (spec, source) of
        (Some req, None) \<Rightarrow> seq_r (GetCATLSBytes req) (\<lambda>bytes. Ok (Some (enroller_of SWEnroller req home bytes)))
      | _ \<Rightarrow> Ok source)"

definition GetCommonEnrollers :: "cryptos \<Rightarrow> enroll_source \<Rightarrow> string \<Rightarrow> cryptos go_result" where
  "GetCommonEnrollers c spec storagePath =
     seq_r (common_enroller (eo_TLS spec) (y_TLS c) (storagePath @ ''/tls'')) (\<lambda>t.
     seq_r (common_enroller (eo_ClientAuth spec) (y_ClientAuth c) (storagePath @ ''/clientauth'')) (\<lambda>a.
     Ok (c\<lparr>y_TLS := t, y_ClientAuth := a\<rparr>)))"

definition GetEnrollers ::
  "'w pki \<Rightarrow> cryptos \<Rightarrow> init_instance \<Rightarrow> string \<Rightarrow> 'w \<Rightarrow> cryptos go_result \<times> 'w" where
  "GetEnrollers p c i storagePath w =
     (case Option.bind (xi_Secret i) cs_Enrollment of
        None \<Rightarrow> (Ok c, w)
      | Some spec \<Rightarrow>
          bind_r (case (eo_Component spec, y_Enrollment c) of
                    (Some req, None) \<Rightarrow>
                      bind_r (GetCATLSBytes req, w) (\<lambda>bytes w.
                      bind_r (enroller_Factory p req i (storagePath @ ''/ecert'') bytes w) (\<lambda>g w.
                      (Ok (c\<lparr>y_Enrollment := Some g\<rparr>), w)))
                  | _ \<Rightarrow> (Ok c, w)) (\<lambda>c w.
          (GetCommonEnrollers c spec storagePath, w)))"

definition common_GetMSPCrypto :: "cryptos \<Rightarrow> msp_source option \<Rightarrow> cryptos" where
  "common_GetMSPCrypto c mspSpec =
     (case mspSpec of
        None \<Rightarrow> c
      | Some m \<Rightarrow>
          let c = (case ms_Component m of Some x \<Rightarrow> c\<lparr>y_Enrollment := Some (MSPParser x)\<rparr> | None \<Rightarrow> c);
              c = (case ms_TLS m of Some x \<Rightarrow> c\<lparr>y_TLS := Some (MSPParser x)\<rparr> | None \<Rightarrow> c)
          in (case ms_ClientAuth m of Some x \<Rightarrow> c\<lparr>y_ClientAuth := Some (MSPParser x)\<rparr> | None \<Rightarrow> c))"

definition peer_GetMSPCrypto :: "cryptos \<Rightarrow> init_instance \<Rightarrow> cryptos go_result" where
  "peer_GetMSPCrypto c i =
     (case xi_Secret i of None \<Rightarrow> Ok c | Some s \<Rightarrow> Ok (common_GetMSPCrypto c (cs_MSP s)))"

text \<open>The orderer's does not look whether there is a secret section.\<close>

definition node_GetMSPCrypto :: "cryptos \<Rightarrow> init_instance \<Rightarrow> cryptos go_result" where
  "node_GetMSPCrypto c i =
     (case xi_Secret i of
        None \<Rightarrow> Panic ''nil pointer dereference''
      | Some s \<Rightarrow> Ok (common_GetMSPCrypto c (cs_MSP s)))"

definition object_of :: "cryptos \<Rightarrow> 'c init_object" where
  "object_of c = \<lparr>io_Config = None, io_Cryptos = Some c, io_UsingHSMProxy = False\<rparr>"

text \<open>\<open>GetInitPeer\<close> and \<open>GetInitOrderer\<close>: material of the MSP section comes first.\<close>

definition init_object_for ::
  "(cryptos \<Rightarrow> init_instance \<Rightarrow> cryptos go_result) \<Rightarrow> string \<Rightarrow> 'w pki \<Rightarrow> init_instance \<Rightarrow> string \<Rightarrow> 'w \<Rightarrow>
     'c init_object go_result \<times> 'w" where
  "init_object_for msp kind p i storagePath w =
     (if xi_Secret i = None then (Ok (object_of no_cryptos), w)
      else
        bind_r (wrap_err (''failed to populate init '' @ kind @ '' with MSP spec'') (msp no_cryptos i, w)) (\<lambda>c w.
        bind_r (wrap_err (''failed to populate init '' @ kind @ '' with Enrollment spec'')
                  (GetEnrollers p c i storagePath w)) (\<lambda>c w.
        (Ok (object_of c), w))))"

definition GetInitPeer :: "'w pki \<Rightarrow> init_instance \<Rightarrow> string \<Rightarrow> 'w \<Rightarrow> 'c init_object go_result \<times> 'w" where
  "GetInitPeer = init_object_for peer_GetMSPCrypto ''peer''"

definition GetInitOrderer :: "'w pki \<Rightarrow> init_instance \<Rightarrow> string \<Rightarrow> 'w \<Rightarrow> 'c init_object go_result \<times> 'w" where
  "GetInitOrderer = init_object_for node_GetMSPCrypto ''orderer''"

definition GetUpdatedPeer :: "init_instance \<Rightarrow> 'c init_object go_result" where
  "GetUpdatedPeer i = seq_r (fst (wrap_err ''failed to populate updated init peer with MSP spec''
     (peer_GetMSPCrypto no_cryptos i, ()))) (\<lambda>c. Ok (object_of c))"

definition GetUpdatedOrderer :: "init_instance \<Rightarrow> 'c init_object go_result" where
  "GetUpdatedOrderer i = seq_r (fst (wrap_err ''failed to populate updated init orderer with MSP spec''
     (node_GetMSPCrypto no_cryptos i, ()))) (\<lambda>c. Ok (object_of c))"

subsection \<open>Peers and orderers under initialization\<close>

definition object_GenerateCrypto :: "'w pki \<Rightarrow> 'c init_object \<Rightarrow> 'w \<Rightarrow> msp_response go_result \<times> 'w" where
  "object_GenerateCrypto p ob w =
     (case io_Cryptos ob of None \<Rightarrow> (Ok no_response, w) | Some c \<Rightarrow> GenerateCryptoResponse p c w)"

text \<open>A configuration that is nil cannot be merged into; the orderer's override may be nil.\<close>

definition peer_OverrideConfig ::
  "('c, 'w) init_collab \<Rightarrow> 'c \<Rightarrow> 'c init_object \<Rightarrow> 'c init_object go_result" where
  "peer_OverrideConfig v new ob =
     (case io_Config ob of
        None \<Rightarrow> Panic ''nil pointer dereference''
      | Some c \<Rightarrow>
          seq_r (fst (wrap_err ''failed to merge override configuration'' (vc_merge v c new (io_UsingHSMProxy ob), ())))
            (\<lambda>c. Ok (ob\<lparr>io_Config := Some c\<rparr>)))"

definition node_OverrideConfig ::
  "('c, 'w) init_collab \<Rightarrow> 'c option \<Rightarrow> 'c init_object \<Rightarrow> 'c init_object go_result" where
  "node_OverrideConfig v new ob = (case new of None \<Rightarrow> Ok ob | Some n \<Rightarrow> peer_OverrideConfig v n ob)"

fun client_certs :: "nat \<Rightarrow> string list \<Rightarrow> string gomap" where
  "client_certs n [] = []"
| "client_certs n (c # cs) = (''cert'' @ show_nat n @ ''.pem'', c) # client_certs (Suc n) cs"

definition DeliveryClientCrypto :: "('c, 'w) init_collab \<Rightarrow> 'c init_object \<Rightarrow> string gomap" where
  "DeliveryClientCrypto v ob =
     (case io_Config ob of None \<Rightarrow> [] | Some c \<Rightarrow> client_certs 0 (vc_addresses v c))"

text \<open>\<open>Create\<close> of both, with the directory of the enrollment removed before and after.\<close>

definition init_create ::
  "('c, 'w) init_collab \<Rightarrow> ('c init_object \<Rightarrow> 'c init_object go_result) \<Rightarrow> 'c init_object \<Rightarrow> string \<Rightarrow> 'w \<Rightarrow>
     ('c init_object \<times> msp_response) go_result \<times> 'w" where
  "init_create v override ob storagePath w =
     bind_r (vc_remove_all v storagePath w) (\<lambda>_ w.
     bind_r (override ob, w) (\<lambda>ob w.
     bind_r (object_GenerateCrypto (vc_pki v) ob w) (\<lambda>cresp w.
     bind_r (vc_remove_all v storagePath w) (\<lambda>_ w.
     (Ok (ob, cresp), w)))))"

definition peer_init_Create ::
  "('c, 'w) init_collab \<Rightarrow> 'c \<Rightarrow> 'c init_object \<Rightarrow> string \<Rightarrow> 'w \<Rightarrow> 'c init_result go_result \<times> 'w" where
  "peer_init_Create v overrides ob storagePath w =
     bind_r (init_create v (peer_OverrideConfig v overrides) ob storagePath w) (\<lambda>(ob, cresp) w.
     (Ok \<lparr>ix_Config = io_Config ob, ix_Crypto = Some cresp, ix_DeliveryClientCerts = DeliveryClientCrypto v ob\<rparr>, w))"

definition node_init_Create ::
  "('c, 'w) init_collab \<Rightarrow> 'c option \<Rightarrow> 'c init_object \<Rightarrow> string \<Rightarrow> 'w \<Rightarrow> 'c init_result go_result \<times> 'w" where
  "node_init_Create v overrides ob storagePath w =
     bind_r (init_create v (node_OverrideConfig v overrides) ob storagePath w) (\<lambda>(ob, cresp) w.
     (Ok \<lparr>ix_Config = io_Config ob, ix_Crypto = Some cresp, ix_DeliveryClientCerts = []\<rparr>, w))"

definition peer_init_Update ::
  "('c, 'w) init_collab \<Rightarrow> 'c \<Rightarrow> 'c init_object \<Rightarrow> 'c init_result go_result" where
  "peer_init_Update v overrides ob =
     seq_r (peer_OverrideConfig v overrides ob) (\<lambda>ob.
     Ok \<lparr>ix_Config = io_Config ob, ix_Crypto = None, ix_DeliveryClientCerts = DeliveryClientCrypto v ob\<rparr>)"

definition node_init_Update ::
  "('c, 'w) init_collab \<Rightarrow> 'c option \<Rightarrow> 'c init_object \<Rightarrow> 'c init_result go_result" where
  "node_init_Update v overrides ob =
     seq_r (node_OverrideConfig v overrides ob) (\<lambda>ob.
     Ok \<lparr>ix_Config = io_Config ob, ix_Crypto = None, ix_DeliveryClientCerts = []\<rparr>)"

subsection \<open>Secrets of an instance\<close>

text \<open>The guards of the initializers, which only guard the calls for a single part.\<close>

definition init_UpdateSecrets ::
  "'w secret_deps \<Rightarrow> string \<Rightarrow> init_instance \<Rightarrow> msp_material option \<Rightarrow> 'w \<Rightarrow> unit go_result \<times> 'w" where
  "init_UpdateSecrets d prefix i crypto w =
     (if crypto = None then (Ok (), w) else sm_UpdateSecrets d prefix i crypto w)"

definition init_GenerateSecrets ::
  "'w secret_deps \<Rightarrow> string \<Rightarrow> init_instance \<Rightarrow> msp_material option \<Rightarrow> 'w \<Rightarrow> unit go_result \<times> 'w" where
  "init_GenerateSecrets d prefix i crypto w =
     (if crypto = None then (Ok (), w) else sm_GenerateSecrets d prefix i crypto w)"

definition GenerateOrdererCACertsSecret ::
  "'w secret_deps \<Rightarrow> init_instance \<Rightarrow> string gomap \<Rightarrow> 'w \<Rightarrow> unit go_result \<times> 'w" where
  "GenerateOrdererCACertsSecret d i certs w = sm_CreateOrUpdateSecret d i (xi_Name i @ ''-orderercacerts'') certs w"

definition ClientAuthCryptoSet :: "init_instance \<Rightarrow> bool" where
  "ClientAuthCryptoSet i =
     (case xi_Secret i of
        None \<Rightarrow> False
      | Some s \<Rightarrow>
          (case cs_MSP s of Some m \<Rightarrow> ms_ClientAuth m \<noteq> None | None \<Rightarrow> False) \<or>
          (case cs_Enrollment s of Some e \<Rightarrow> eo_ClientAuth e \<noteq> None | None \<Rightarrow> False))"

text \<open>\<open>MissingCrypto\<close>: the flag is set for an instance with a HSM, and never reset.\<close>

definition MissingCrypto ::
  "'w secret_deps \<Rightarrow> init_instance \<Rightarrow> bool \<times> 'w \<Rightarrow> bool go_result \<times> bool \<times> 'w" where
  "MissingCrypto d i s =
     (case s of (hsmEnabled, w) \<Rightarrow>
        let hsmEnabled = (if xi_HSMEnabled i then True else hsmEnabled)
        in (case CheckCrypto d hsmEnabled i (ClientAuthCryptoSet i) w of
              (Ok _, w) \<Rightarrow> (Ok False, hsmEnabled, w)
            | (Fail e, w) \<Rightarrow> (Ok True, hsmEnabled, w)
            | (Panic p, w) \<Rightarrow> (Panic p, hsmEnabled, w)))"

definition CheckIfAdminCertsUpdated :: "'w secret_deps \<Rightarrow> init_instance \<Rightarrow> 'w \<Rightarrow> bool go_result \<times> 'w" where
  "CheckIfAdminCertsUpdated d i w =
     bind_r (GetAdminCertsFromSecret d i w) (\<lambda>current w.
     (CheckIfCertsDifferent current (GetAdminCertsFromSpec (xi_Secret i)), w))"

definition init_UpdateAdminSecret :: "'w secret_deps \<Rightarrow> init_instance \<Rightarrow> 'w \<Rightarrow> unit go_result \<times> 'w" where
  "init_UpdateAdminSecret d i w = UpdateAdminCertSecret d i (xi_Secret i) w"

text \<open>What the peer's and the orderer's offering do with the initializer when the MSP section was updated.\<close>

definition peer_msp_update :: "('c, 'w) init_collab \<Rightarrow> init_instance \<Rightarrow> 'w \<Rightarrow> unit go_result \<times> 'w" where
  "peer_msp_update v i w =
     bind_r (GetUpdatedPeer i :: 'c init_object go_result, w) (\<lambda>ob w.
     bind_r (object_GenerateCrypto (vc_pki v) ob w) (\<lambda>crypto w.
     sm_UpdateSecretsFromResponse (vc_secrets v) i (Some crypto) w))"

definition node_msp_update :: "('c, 'w) init_collab \<Rightarrow> init_instance \<Rightarrow> 'w \<Rightarrow> unit go_result \<times> 'w" where
  "node_msp_update v i w =
     bind_r (GetUpdatedOrderer i :: 'c init_object go_result, w) (\<lambda>ob w.
     bind_r (object_GenerateCrypto (vc_pki v) ob w) (\<lambda>crypto w.
     bind_r (wrap_err ''failed to update ecert secrets''
       (init_UpdateSecrets (vc_secrets v) ''ecert'' i (mr_Enrollment crypto) w)) (\<lambda>_ w.
     bind_r (wrap_err ''failed to update tls secrets''
       (init_UpdateSecrets (vc_secrets v) ''tls'' i (mr_TLS crypto) w)) (\<lambda>_ w.
     wrap_err ''failed to update client auth secrets''
       (init_UpdateSecrets (vc_secrets v) ''clientauth'' i (mr_ClientAuth crypto) w)))))"

text \<open>\<open>Delete\<close> of the orderer's initializer; \<open>name\<close> is the name of the node within its cluster.\<close>

definition node_init_Delete ::
  "'w secret_deps \<Rightarrow> string \<Rightarrow> init_instance \<Rightarrow> 'w \<Rightarrow> unit go_result \<times> 'w" where
  "node_init_Delete d name i w =
     bind_r (DeleteSecrets d ''ecert'' i (xi_Name i @ name) w) (\<lambda>_ w.
     bind_r (DeleteSecrets d ''tls'' i (xi_Name i @ name) w) (\<lambda>_ w.
     (let cm = xi_Name i @ ''-'' @ name @ ''-config'' in
      case sd_cm_delete d cm (xi_Namespace i) w of
        (Fail e, w) \<Rightarrow>
          if IsNotFound e then (Ok (), w) else (Fail (Wrapped (''failed to delete config map '' @ quoted cm) e), w)
      | r \<Rightarrow> r)))"

subsection \<open>The config map\<close>

text \<open>The data of the config map that is there, or an empty map; the data that is there may be nil.\<close>

definition existing_data :: "'w secret_deps \<Rightarrow> init_instance \<Rightarrow> 'w \<Rightarrow> string gomap option go_result \<times> 'w" where
  "existing_data d i w =
     (case sd_cm_get d (xi_Name i @ ''-config'') (xi_Namespace i) w of
        (Fail e, w) \<Rightarrow> if IsNotFound e then (Ok (Some []), w) else (Fail e, w)
      | r \<Rightarrow> r)"

definition put_data :: "string \<Rightarrow> string \<Rightarrow> string gomap option \<Rightarrow> string gomap option go_result" where
  "put_data k bytes m =
     (case m of
        None \<Rightarrow> Panic ''assignment to entry in nil map''
      | Some m \<Rightarrow> Ok (Some (AList.update k bytes m)))"

definition intermediates_found :: "'w secret_deps \<Rightarrow> init_instance \<Rightarrow> 'w \<Rightarrow> bool go_result \<times> 'w" where
  "intermediates_found d i w =
     (let found = (\<lambda>prefix w. case sa_get (sd_api d) (crypto_secret prefix (xi_Name i) ''intercerts'') (xi_Namespace i) w of
          (Ok _, w) \<Rightarrow> (Ok True, w) | (Fail e, w) \<Rightarrow> (Ok False, w) | (Panic p, w) \<Rightarrow> (Panic p, w))
      in bind_r (found ''ecert'' w) (\<lambda>yes w. if yes then found ''tls'' w else (Ok False, w)))"

definition init_addNodeOU ::
  "('c, 'w) init_collab \<Rightarrow> (string \<Rightarrow> string go_result \<times> 'w \<Rightarrow> string go_result \<times> 'w) \<Rightarrow> init_instance \<Rightarrow>
     string gomap option \<Rightarrow> 'w \<Rightarrow> string gomap option go_result \<times> 'w" where
  "init_addNodeOU v wrapped i m w =
     bind_r (if \<not> xi_NodeOUDisabled i then
               bind_r (intermediates_found (vc_secrets v) i w) (\<lambda>inter w.
               let f = (if inter then vc_InterOUFile v else vc_OUFile v)
               in wrapped f (cl_read (pl_lib (vc_pki v)) f w))
             else (vc_NodeOU_off v (entry_of (sdata m) ''config.yaml''), w)) (\<lambda>ouBytes w.
     (put_data ''config.yaml'' ouBytes m, w))"

definition peer_addNodeOU ::
  "('c, 'w) init_collab \<Rightarrow> init_instance \<Rightarrow> string gomap option \<Rightarrow> 'w \<Rightarrow> string gomap option go_result \<times> 'w" where
  "peer_addNodeOU v = init_addNodeOU v (\<lambda>f. wrap_err (''failed to read OU config file from '' @ quoted f))"

definition addNodeOUToCM ::
  "('c, 'w) init_collab \<Rightarrow> init_instance \<Rightarrow> string gomap option \<Rightarrow> 'w \<Rightarrow> string gomap option go_result \<times> 'w" where
  "addNodeOUToCM v = init_addNodeOU v (\<lambda>f r. r)"

definition write_config_map ::
  "('c, 'w) init_collab \<Rightarrow> string \<Rightarrow> init_instance \<Rightarrow> string gomap option \<Rightarrow> 'w \<Rightarrow> unit go_result \<times> 'w" where
  "write_config_map v msg i m w = wrap_err msg
     (sd_cm_put (vc_secrets v) (xi_Name i @ ''-config'') (xi_Namespace i) (sd_labels (vc_secrets v) (xi_Name i)) (sdata m) w)"

definition CoreConfigMap_CreateOrUpdate ::
  "('c, 'w) init_collab \<Rightarrow> init_instance \<Rightarrow> 'c \<Rightarrow> 'w \<Rightarrow> unit go_result \<times> 'w" where
  "CoreConfigMap_CreateOrUpdate v i peer w =
     bind_r (existing_data (vc_secrets v) i w) (\<lambda>m w.
     bind_r (vc_bytes v peer, w) (\<lambda>bytes w.
     bind_r (put_data ''core.yaml'' bytes m, w) (\<lambda>m w.
     bind_r (peer_addNodeOU v i m w) (\<lambda>m w.
     write_config_map v ''failed to create or update Peer config map'' i m w))))"

definition CoreConfigMap_AddNodeOU :: "('c, 'w) init_collab \<Rightarrow> init_instance \<Rightarrow> 'w \<Rightarrow> unit go_result \<times> 'w" where
  "CoreConfigMap_AddNodeOU v i w =
     bind_r (existing_data (vc_secrets v) i w) (\<lambda>m w.
     bind_r (peer_addNodeOU v i m w) (\<lambda>m w.
     write_config_map v ''failed to create or update Peer config map'' i m w))"

definition node_CreateOrUpdateConfigMap ::
  "('c, 'w) init_collab \<Rightarrow> init_instance \<Rightarrow> 'c option \<Rightarrow> 'w \<Rightarrow> unit go_result \<times> 'w" where
  "node_CreateOrUpdateConfigMap v i orderer w =
     bind_r (existing_data (vc_secrets v) i w) (\<lambda>m w.
     bind_r (case orderer of
               None \<Rightarrow> (Ok m, w)
             | Some c \<Rightarrow> bind_r (vc_bytes v c, w) (\<lambda>bytes w. (put_data ''orderer.yaml'' bytes m, w))) (\<lambda>m w.
     bind_r (addNodeOUToCM v i m w) (\<lambda>m w.
     write_config_map v ''failed to create Orderer config map'' i m w)))"

subsection \<open>The version of the configuration\<close>

definition peer_config_version :: "string \<Rightarrow> core_version" where
  "peer_config_version fabricVersion =
     (if GetMajorReleaseVersion fabricVersion = V2 then
        if String_EqualWithoutTag fabricVersion V2_5_1 \<or> String_GreaterThan fabricVersion V2_5_1 then CoreV25
        else CoreV2
      else CoreV1)"

definition GetCoreConfigFromFile ::
  "('c, 'w) init_collab \<Rightarrow> init_instance \<Rightarrow> string \<Rightarrow> 'w \<Rightarrow> 'c go_result \<times> 'w" where
  "GetCoreConfigFromFile v i = vc_read_file v (peer_config_version (xi_FabricVersion i))"

definition GetCoreConfigFromBytes :: "('c, 'w) init_collab \<Rightarrow> init_instance \<Rightarrow> string \<Rightarrow> 'c go_result" where
  "GetCoreConfigFromBytes v i = vc_read_bytes v (peer_config_version (xi_FabricVersion i))"

definition node_GetCoreConfigFromFile ::
  "('c, 'w) init_collab \<Rightarrow> init_instance \<Rightarrow> string \<Rightarrow> 'w \<Rightarrow> 'c go_result \<times> 'w" where
  "node_GetCoreConfigFromFile v i f w =
     (let version = node_version (xi_FabricVersion i)
      in wrap_err (case version of
           CoreV25 \<Rightarrow> ''failed to read v2.5.x default config file''
         | CoreV24 \<Rightarrow> ''failed to read v2.4.x default config file''
         | CoreV2 \<Rightarrow> ''failed to read v2.2.x default config file''
         | CoreV1 \<Rightarrow> ''failed to read v1.4 default config file'') (vc_read_file v version f w))"

definition node_GetCoreConfigFromBytes :: "('c, 'w) init_collab \<Rightarrow> init_instance \<Rightarrow> string \<Rightarrow> 'c go_result" where
  "node_GetCoreConfigFromBytes v i = vc_read_bytes v (node_version (xi_FabricVersion i))"

end
