(* ===== verification/MSPCryptoProps.thy ===== *)
theory MSPCryptoProps
  imports MSPInitializer "HOL-Library.Multiset"
begin

text \<open>
  Properties of the crypto material of peers and ordering nodes: what is written to secrets is what is read back,
  when crypto counts as missing, and what happens when the MSP section of a specification changes.
\<close>

subsection \<open>A store of secrets\<close>

text \<open>
  What the secret manager may rely on in the Kubernetes API: \<open>view\<close> gives the data of the secrets in the cluster, a
  read answers from it and says not-found for a secret that is not there, a write replaces the data of one secret.
  A loop over a map visits every key once.
\<close>

type_synonym secret_view = "string \<Rightarrow> string \<Rightarrow> string gomap option"

definition put_secret :: "string \<Rightarrow> string \<Rightarrow> string gomap \<Rightarrow> secret_view \<Rightarrow> secret_view" where
  "put_secret n ns m V = V(n := (V n)(ns \<mapsto> m))"

definition reliable_secrets :: "'w secret_deps \<Rightarrow> ('w \<Rightarrow> secret_view) \<Rightarrow> bool" where
  "reliable_secrets d view \<longleftrightarrow>
     (\<forall>n ns w m. view w n ns = Some m \<longrightarrow> (\<exists>x. sa_get (sd_api d) n ns w = (Ok x, w) \<and> sdata x = m)) \<and>
     (\<forall>n ns w. view w n ns = None \<longrightarrow>
        (\<exists>e. sa_get (sd_api d) n ns w = (Fail e, w) \<and> IsNotFound e \<and> str_contains (error_text e) ''not found'')) \<and>
     (\<forall>n ns l m w. \<exists>w'. sd_put d n ns l m w = (Ok (), w') \<and> view w' = put_secret n ns m (view w)) \<and>
     (\<forall>m. distinct (map fst m) \<longrightarrow> mset (sa_order (sd_api d) m) = mset (map fst m))"

lemma reliable_get_there:
  "reliable_secrets d view \<Longrightarrow> view w n ns = Some m \<Longrightarrow> \<exists>x. sa_get (sd_api d) n ns w = (Ok x, w) \<and> sdata x = m"
  unfolding reliable_secrets_def by blast

lemma reliable_get_absent:
  "reliable_secrets d view \<Longrightarrow> view w n ns = None \<Longrightarrow>
     \<exists>e. sa_get (sd_api d) n ns w = (Fail e, w) \<and> IsNotFound e \<and> str_contains (error_text e) ''not found''"
  unfolding reliable_secrets_def by blast

lemma reliable_put:
  "reliable_secrets d view \<Longrightarrow> \<exists>w'. sd_put d n ns l m w = (Ok (), w') \<and> view w' = put_secret n ns m (view w)"
  unfolding reliable_secrets_def by blast

lemma reliable_order:
  "reliable_secrets d view \<Longrightarrow> distinct (map fst m) \<Longrightarrow> mset (sa_order (sd_api d) m) = mset (map fst m)"
  unfolding reliable_secrets_def by blast

lemma put_secret_apply: "put_secret n ns m V n' ns' = (if n' = n \<and> ns' = ns then Some m else V n' ns')"
  by (simp add: put_secret_def)

subsection \<open>Reading\<close>

text \<open>What the secrets of one part hold, as material.\<close>

definition stored_certs :: "'w secret_deps \<Rightarrow> string gomap option \<Rightarrow> string list" where
  "stored_certs d m = (case m of None \<Rightarrow> [] | Some m \<Rightarrow> secret_values (sd_api d) m)"

definition stored_material :: "'w secret_deps \<Rightarrow> string \<Rightarrow> init_instance \<Rightarrow> secret_view \<Rightarrow> msp_material" where
  "stored_material d prefix i V =
     (let part = (\<lambda>kind. V (crypto_secret prefix (xi_Name i) kind) (xi_Namespace i))
      in \<lparr>mt_CACerts = stored_certs d (part ''cacerts''), mt_IntermediateCerts = stored_certs d (part ''intercerts''),
          mt_AdminCerts = stored_certs d (part ''admincerts''),
          mt_SignCert = Option.bind (part ''signcert'') (\<lambda>m. map_of m ''cert.pem''),
          mt_Keystore = Option.bind (part ''keystore'') (\<lambda>m. map_of m ''key.pem'')\<rparr>)"

lemma read_certs_reliable:
  assumes "reliable_secrets d view"
  shows "read_certs d n i w = (Ok (stored_certs d (view w n (xi_Namespace i))), w)"
proof (cases "view w n (xi_Namespace i)")
  case None
  from reliable_get_absent [OF assms, OF None] None show ?thesis
    by (auto simp: read_certs_def sm_GetSecret_def stored_certs_def)
next
  case (Some m)
  from reliable_get_there [OF assms, OF Some] Some show ?thesis
    by (auto simp: read_certs_def sm_GetSecret_def stored_certs_def GetCertBytesFromData_def)
qed

lemma read_entry_reliable:
  assumes "reliable_secrets d view"
  shows "read_entry d n k i w = (Ok (Option.bind (view w n (xi_Namespace i)) (\<lambda>m. map_of m k)), w)"
proof (cases "view w n (xi_Namespace i)")
  case None
  from reliable_get_absent [OF assms, OF None] None show ?thesis
    by (auto simp: read_entry_def sm_GetSecret_def)
next
  case (Some m)
  from reliable_get_there [OF assms, OF Some] Some show ?thesis
    by (auto simp: read_entry_def sm_GetSecret_def)
qed

lemma GetCryptoFromSecrets_reliable:
  assumes "reliable_secrets d view"
  shows "GetCryptoFromSecrets d prefix i w = (Ok (stored_material d prefix i (view w)), w)"
  using assms
  by (simp add: GetCryptoFromSecrets_def read_certs_reliable read_entry_reliable stored_material_def Let_def)

subsection \<open>Writing\<close>

text \<open>An operation that succeeds and changes the view by a function.\<close>

definition writes :: "('w \<Rightarrow> secret_view) \<Rightarrow> ('w \<Rightarrow> unit go_result \<times> 'w) \<Rightarrow> (secret_view \<Rightarrow> secret_view) \<Rightarrow> bool" where
  "writes view f g \<longleftrightarrow> (\<forall>w. \<exists>w'. f w = (Ok (), w') \<and> view w' = g (view w))"

lemma writes_none: "writes view (\<lambda>w. (Ok (), w)) (\<lambda>V. V)"
  by (simp add: writes_def)

lemma writes_wrap: "writes view f g \<Longrightarrow> writes view (\<lambda>w. wrap_err msg (f w)) g"
  unfolding writes_def by (metis wrap_err_Ok)

lemma writes_bind:
  assumes "writes view f g" and "writes view f' g'"
  shows "writes view (\<lambda>w. bind_r (f w) (\<lambda>_. f')) (\<lambda>V. g' (g V))"
  unfolding writes_def
proof
  fix w
  from assms(1) obtain w1 where "f w = (Ok (), w1)" "view w1 = g (view w)" unfolding writes_def by blast
  moreover from assms(2) obtain w2 where "f' w1 = (Ok (), w2)" "view w2 = g' (view w1)" unfolding writes_def by blast
  ultimately show "\<exists>w'. bind_r (f w) (\<lambda>_. f') = (Ok (), w') \<and> view w' = g' (g (view w))" by simp
qed

lemma writes_if: "writes view f g \<Longrightarrow> writes view f' g' \<Longrightarrow>
  writes view (\<lambda>w. if c then f w else f' w) (\<lambda>V. if c then g V else g' V)"
  by (simp add: writes_def)

lemma writes_put:
  assumes "reliable_secrets d view"
  shows "writes view (sm_CreateOrUpdateSecret d i n m) (put_secret n (xi_Namespace i) m)"
  using reliable_put [OF assms] by (simp add: writes_def sm_CreateOrUpdateSecret_def)

subsection \<open>What is written is read back\<close>

lemma certs_data_keys: "k \<in> fst ` set (certs_data t n cs) \<Longrightarrow> \<exists>j \<ge> n. k = cert_key t j"
  by (induction t n cs rule: certs_data.induct) (auto split: if_splits dest: Suc_leD)

lemma certs_data_distinct: "distinct (map fst (certs_data t n cs))"
proof (induction t n cs rule: certs_data.induct)
  case (2 t n c cs)
  have "cert_key t n \<notin> fst ` set (certs_data t (Suc n) cs)"
    using certs_data_keys [of "cert_key t n" t "Suc n" cs] by (auto simp: cert_key_def)
  with 2 show ?case by simp
qed simp

lemma certs_data_certs: "map snd (certs_data t n cs) = filter (\<lambda>c. c \<noteq> '''') cs"
  by (induction t n cs rule: certs_data.induct) auto

lemma certs_data_length: "length (certs_data t n cs) = length (filter (\<lambda>c. c \<noteq> '''') cs)"
  by (metis certs_data_certs length_map)

lemma mset_map_filter: "mset (List.map_filter f xs) = image_mset (\<lambda>x. the (f x)) (filter_mset (\<lambda>x. f x \<noteq> None) (mset xs))"
  by (induction xs) (auto simp: map_filter_def)

lemma map_filter_map_of: "distinct (map fst m) \<Longrightarrow> List.map_filter (map_of m) (map fst m) = map snd m"
proof -
  assume d: "distinct (map fst m)"
  then have "map_of m (fst x) = Some (snd x)" if "x \<in> set m" for x using that by simp
  then have "set m' \<subseteq> set m \<Longrightarrow> List.map_filter (map_of m) (map fst m') = map snd m'" for m'
    by (induction m') (auto simp: map_filter_def)
  then show ?thesis by simp
qed

lemma secret_values_mset:
  assumes "reliable_secrets d view" and "distinct (map fst m)"
  shows "mset (secret_values (sd_api d) m) = mset (map snd m)"
  using assms by (metis secret_values_def mset_map_filter reliable_order map_filter_map_of)

lemma stored_certs_data:
  assumes "reliable_secrets d view"
  shows "mset (stored_certs d (Some (GetCertsData t cs))) = mset (filter (\<lambda>c. c \<noteq> '''') cs)"
  using assms secret_values_mset [OF assms certs_data_distinct [of t 0 cs]]
  by (simp add: stored_certs_def GetCertsData_def certs_data_certs flip: mset_map)

text \<open>The view after the secrets of a part were written.\<close>

definition when_V :: "bool \<Rightarrow> (secret_view \<Rightarrow> secret_view) \<Rightarrow> secret_view \<Rightarrow> secret_view" where
  "when_V c g V = (if c then g V else V)"

lemma writes_when: "(c \<Longrightarrow> writes view f g) \<Longrightarrow> writes view (\<lambda>w. if c then f w else (Ok (), w)) (when_V c g)"
  by (simp add: writes_def when_V_def)

definition written_material :: "string \<Rightarrow> init_instance \<Rightarrow> msp_material \<Rightarrow> secret_view \<Rightarrow> secret_view" where
  "written_material prefix i c V =
     (let put = (\<lambda>kind m. put_secret (crypto_secret prefix (xi_Name i) kind) (xi_Namespace i) m);
          V = when_V (mt_CACerts c \<noteq> []) (put ''cacerts'' (GetCertsData ''cacert'' (mt_CACerts c))) V;
          V = when_V (mt_IntermediateCerts c \<noteq> []) (put ''intercerts'' (GetCertsData ''intercert'' (mt_IntermediateCerts c))) V;
          V = when_V (mt_SignCert c \<notin> {None, Some ''''}) (put ''signcert'' [(''cert.pem'', the (mt_SignCert c))]) V
      in when_V (mt_Keystore c \<noteq> None) (put ''keystore'' [(''key.pem'', the (mt_Keystore c))]) V)"

definition written_admins :: "string \<Rightarrow> init_instance \<Rightarrow> string list \<Rightarrow> secret_view \<Rightarrow> secret_view" where
  "written_admins prefix i certs =
     when_V (certs \<noteq> [] \<and> hd certs \<noteq> '''')
       (put_secret (crypto_secret prefix (xi_Name i) ''admincerts'') (xi_Namespace i) (GetCertsData ''admincert'' certs))"

lemma writes_unless: "writes view f g \<Longrightarrow> writes view (\<lambda>w. if c then (Ok (), w) else f w) (when_V (\<not> c) g)"
  by (simp add: writes_def when_V_def)

lemma writes_CreateAdminSecret:
  assumes "reliable_secrets d view"
  shows "writes view (CreateAdminSecret d n i certs)
     (when_V (certs \<noteq> [] \<and> hd certs \<noteq> '''') (put_secret n (xi_Namespace i) (GetCertsData ''admincert'' certs)))"
  using writes_unless [OF writes_put [OF assms], of "length certs = 0 \<or> hd certs = ''''" i n "GetCertsData ''admincert'' certs"]
  by (simp add: CreateAdminSecret_def [abs_def])

lemma writes_CreateCACertsSecret:
  assumes "reliable_secrets d view"
  shows "writes view (CreateCACertsSecret d n i certs)
     (when_V (certs \<noteq> []) (put_secret n (xi_Namespace i) (GetCertsData ''cacert'' certs)))"
  using writes_unless [OF writes_put [OF assms], of "length certs = 0" i n "GetCertsData ''cacert'' certs"]
  by (simp add: CreateCACertsSecret_def [abs_def])

lemma writes_CreateIntermediateCertsSecret:
  assumes "reliable_secrets d view"
  shows "writes view (CreateIntermediateCertsSecret d n i certs)
     (when_V (certs \<noteq> []) (put_secret n (xi_Namespace i) (GetCertsData ''intercert'' certs)))"
  using writes_unless [OF writes_put [OF assms], of "length certs = 0" i n "GetCertsData ''intercert'' certs"]
  by (simp add: CreateIntermediateCertsSecret_def [abs_def])

lemma writes_CreateSignCert:
  assumes "reliable_secrets d view"
  shows "writes view (CreateSignCert d n i cert)
     (when_V (cert \<notin> {None, Some ''''}) (put_secret n (xi_Namespace i) [(''cert.pem'', the cert)]))"
  using writes_put [OF assms, of i n "[(''cert.pem'', the cert)]"]
  by (cases cert) (simp_all add: CreateSignCert_def [abs_def] writes_def when_V_def)

lemma writes_CreateKey:
  assumes "reliable_secrets d view"
  shows "writes view (CreateKey d n i key)
     (when_V (key \<noteq> None) (put_secret n (xi_Namespace i) [(''key.pem'', the key)]))"
  using writes_put [OF assms, of i n "[(''key.pem'', the key)]"]
  by (cases key) (simp_all add: CreateKey_def [abs_def] writes_def when_V_def)

lemma writes_material:
  assumes "reliable_secrets d view"
  shows "writes view (write_material d prefix i c) (written_material prefix i c)"
  unfolding write_material_def [abs_def] written_material_def [abs_def] Let_def
  by (rule writes_bind [OF writes_wrap [OF writes_CreateCACertsSecret [OF assms]] writes_bind [OF writes_wrap
    [OF writes_CreateIntermediateCertsSecret [OF assms]] writes_bind [OF writes_wrap [OF writes_CreateSignCert [OF assms]]
    writes_wrap [OF writes_CreateKey [OF assms]]]]])

lemma writes_generated:
  assumes "reliable_secrets d view"
  shows "writes view (sm_GenerateSecrets d prefix i (Some c))
    (\<lambda>V. written_material prefix i c (when_V (prefix \<noteq> ''tls'') (written_admins prefix i (mt_AdminCerts c)) V))"
  unfolding sm_GenerateSecrets_def [abs_def] written_admins_def option.case
  by (rule writes_bind [OF writes_when [OF writes_wrap [OF writes_CreateAdminSecret [OF assms]]] writes_material [OF assms]])

text \<open>What a part should read as once new material was written over the old.\<close>

definition new_certs :: "string list \<Rightarrow> string list \<Rightarrow> string list" where
  "new_certs old new = (if new = [] then old else filter (\<lambda>c. c \<noteq> '''') new)"

definition renewed :: "msp_material \<Rightarrow> msp_material \<Rightarrow> msp_material" where
  "renewed old c =
     \<lparr>mt_CACerts = new_certs (mt_CACerts old) (mt_CACerts c),
      mt_IntermediateCerts = new_certs (mt_IntermediateCerts old) (mt_IntermediateCerts c),
      mt_AdminCerts = mt_AdminCerts old,
      mt_SignCert = (if mt_SignCert c \<in> {None, Some ''''} then mt_SignCert old else mt_SignCert c),
      mt_Keystore = (if mt_Keystore c = None then mt_Keystore old else mt_Keystore c)\<rparr>"

definition with_admins :: "string \<Rightarrow> string list \<Rightarrow> msp_material \<Rightarrow> msp_material" where
  "with_admins prefix certs old =
     (if prefix = ''tls'' \<or> certs = [] \<or> hd certs = '''' then old
      else old\<lparr>mt_AdminCerts := filter (\<lambda>c. c \<noteq> '''') certs\<rparr>)"

definition same_material :: "msp_material \<Rightarrow> msp_material \<Rightarrow> bool" where
  "same_material a b \<longleftrightarrow>
     mset (mt_CACerts a) = mset (mt_CACerts b) \<and> mset (mt_IntermediateCerts a) = mset (mt_IntermediateCerts b) \<and>
     mset (mt_AdminCerts a) = mset (mt_AdminCerts b) \<and> mt_SignCert a = mt_SignCert b \<and> mt_Keystore a = mt_Keystore b"

lemma crypto_secret_eq [simp]: "crypto_secret prefix name k = crypto_secret prefix name k' \<longleftrightarrow> k = k'"
  by (simp add: crypto_secret_def)

lemma written_material_stored:
  assumes "reliable_secrets d view"
  shows "same_material (stored_material d prefix i (written_material prefix i c V)) (renewed (stored_material d prefix i V) c)"
  using assms
  by (simp add: same_material_def stored_material_def written_material_def renewed_def new_certs_def when_V_def
      put_secret_apply stored_certs_data Let_def)

lemma written_admins_stored:
  assumes "reliable_secrets d view"
  shows "same_material (stored_material d prefix i (when_V (prefix \<noteq> ''tls'') (written_admins prefix i certs) V))
    (with_admins prefix certs (stored_material d prefix i V))"
  using assms
  by (simp add: same_material_def stored_material_def written_admins_def with_admins_def when_V_def
      put_secret_apply stored_certs_data Let_def)

lemma same_material_renewed: "same_material a b \<Longrightarrow> same_material (renewed a c) (renewed b c)"
  by (simp add: same_material_def renewed_def new_certs_def)

lemma same_material_trans: "same_material a b \<Longrightarrow> same_material b c \<Longrightarrow> same_material a c"
  by (simp add: same_material_def)

text \<open>C31: Crypto material that was generated for a peer or an ordering node is read back from its secrets as it was
  written.  Whatever the secrets held before, writing a part (\<open>GenerateSecrets\<close>) and reading it
  (\<open>GetCryptoFromSecrets\<close>) succeed, and what is read is the new certificates and keys, each list up to the order of
  a map's keys and without its empty certificates; a list, certificate or key the new material lacks stays what it
  was, and so do the administrators' certificates of the TLS part and those whose first is empty.
\<close>

theorem generated_crypto_is_read_back:
  assumes "reliable_secrets d view"
  shows "\<exists>w'. sm_GenerateSecrets d prefix i (Some c) w = (Ok (), w') \<and>
    (\<exists>old new. GetCryptoFromSecrets d prefix i w = (Ok old, w) \<and> GetCryptoFromSecrets d prefix i w' = (Ok new, w') \<and>
       same_material new (renewed (with_admins prefix (mt_AdminCerts c) old) c))"
proof -
  let ?V = "when_V (prefix \<noteq> ''tls'') (written_admins prefix i (mt_AdminCerts c)) (view w)"
  from writes_generated [OF assms] obtain w' where
    w': "sm_GenerateSecrets d prefix i (Some c) w = (Ok (), w')" "view w' = written_material prefix i c ?V"
    unfolding writes_def by blast
  have "same_material (stored_material d prefix i (view w'))
    (renewed (with_admins prefix (mt_AdminCerts c) (stored_material d prefix i (view w))) c)"
    unfolding w'(2) using written_material_stored [OF assms] same_material_renewed [OF written_admins_stored [OF assms]]
    by (rule same_material_trans)
  with w'(1) show ?thesis by (simp add: GetCryptoFromSecrets_reliable [OF assms])
qed

subsection \<open>When crypto is missing\<close>

text \<open>
  What the validator finds in a text, in a part's secrets and in an instance: nothing (\<open>None\<close>), a flaw that counts
  as missing crypto or one that does not.  Absent secrets and blocks that do not parse count, blank secrets and
  texts without a block do not; only the first flaw of a part matters.
\<close>

definition flaw :: "'w secret_deps \<Rightarrow> (string \<Rightarrow> unit go_result) \<Rightarrow> string \<Rightarrow> bool option" where
  "flaw d parse t = (case sd_pem d t of None \<Rightarrow> Some False | Some block \<Rightarrow> if parse block = Ok () then None else Some True)"

fun first_flaw :: "bool option list \<Rightarrow> bool option" where
  "first_flaw [] = None"
| "first_flaw (f # fs) = (if f = None then first_flaw fs else f)"

definition flaw_of_CACerts :: "'w secret_deps \<Rightarrow> string gomap option \<Rightarrow> bool option" where
  "flaw_of_CACerts d m =
     (case m of
        None \<Rightarrow> Some True
      | Some m \<Rightarrow> if m = [] then Some False else first_flaw (map (flaw d (sd_x509 d)) (secret_values (sd_api d) m)))"

definition flaw_of_entry ::
  "'w secret_deps \<Rightarrow> (string \<Rightarrow> unit go_result) \<Rightarrow> string \<Rightarrow> string gomap option \<Rightarrow> bool option" where
  "flaw_of_entry d parse k m = (case m of None \<Rightarrow> Some True | Some m \<Rightarrow> flaw d parse (entry_of m k))"

definition part_flaw :: "'w secret_deps \<Rightarrow> bool \<Rightarrow> string \<Rightarrow> init_instance \<Rightarrow> secret_view \<Rightarrow> bool option" where
  "part_flaw d withKey prefix i V =
     (let part = (\<lambda>kind. V (crypto_secret prefix (xi_Name i) kind) (xi_Namespace i))
      in first_flaw ([flaw_of_CACerts d (part ''cacerts''), flaw_of_entry d (sd_x509 d) ''cert.pem'' (part ''signcert'')] @
           (if withKey then [flaw_of_entry d (sd_pkcs8 d) ''key.pem'' (part ''keystore'')] else [])))"

definition part_missing :: "'w secret_deps \<Rightarrow> bool \<Rightarrow> string \<Rightarrow> init_instance \<Rightarrow> secret_view \<Rightarrow> bool" where
  "part_missing d withKey prefix i V \<longleftrightarrow> part_flaw d withKey prefix i V = Some True"

definition crypto_missing :: "'w secret_deps \<Rightarrow> bool \<Rightarrow> init_instance \<Rightarrow> secret_view \<Rightarrow> bool" where
  "crypto_missing d withKey i V \<longleftrightarrow>
     part_missing d withKey ''ecert'' i V \<or> part_missing d True ''tls'' i V \<or>
     ClientAuthCryptoSet i \<and> part_missing d True ''clientauth'' i V"

definition parsers_return :: "'w secret_deps \<Rightarrow> bool" where
  "parsers_return d \<longleftrightarrow> (\<forall>b p. sd_x509 d b \<noteq> Panic p \<and> sd_pkcs8 d b \<noteq> Panic p)"

text \<open>A result of the validator that shows the flaw \<open>f\<close>.\<close>

definition exhibits :: "unit go_result \<Rightarrow> bool option \<Rightarrow> bool" where
  "exhibits r f \<longleftrightarrow> (case r of Ok _ \<Rightarrow> f = None | Fail e \<Rightarrow> f = Some (CheckError e) | Panic p \<Rightarrow> False)"

lemma str_contains_append: "str_contains t p \<Longrightarrow> str_contains (s @ t) p"
  by (induction s) auto

lemma has_prefix_self: "has_prefix (p @ t) p"
  by (simp add: has_prefix_def)

lemma str_contains_prefix: "str_contains (p @ t) p"
  using has_prefix_self [of p t] by (cases "p @ t") auto

lemma CheckError_Wrapped_not_valid: "CheckError (Wrapped m (Wrapped ''not valid'' e))"
  unfolding CheckError_def error_text.simps by (intro disjI2 str_contains_append [OF str_contains_append [OF str_contains_prefix]])

lemma exhibits_cert:
  assumes "parsers_return d" and "parse = sd_x509 d \<or> parse = sd_pkcs8 d" and "\<not> CheckError (Wrapped m (Plain none))"
  shows "exhibits (fst (wrap_err m ((case sd_pem d t of None \<Rightarrow> Fail (Plain none)
     | Some block \<Rightarrow> fst (wrap_err ''not valid'' (parse block, ()))), w))) (flaw d parse t)"
  using assms
  by (auto simp: exhibits_def flaw_def parsers_return_def CheckError_Wrapped_not_valid wrap_err_def
      split: option.splits go_result.splits)

text \<open>A check that leaves the world and shows a flaw; the first of two checks that shows one decides.\<close>

definition finds :: "('w \<Rightarrow> unit go_result \<times> 'w) \<Rightarrow> 'w \<Rightarrow> bool option \<Rightarrow> bool" where
  "finds f w a \<longleftrightarrow> (\<exists>r. f w = (r, w) \<and> exhibits r a)"

lemma finds_bind:
  assumes "finds f w a" and "finds g w b"
  shows "finds (\<lambda>w. bind_r (f w) (\<lambda>_. g)) w (if a = None then b else a)"
proof -
  from assms(1) obtain r where "f w = (r, w)" "exhibits r a" unfolding finds_def by blast
  with assms(2) show ?thesis by (cases r) (auto simp: finds_def exhibits_def)
qed

lemma uncounted_errors:
  "\<not> CheckError (Plain ''no ca certificates found in cacerts secret'')"
  "\<not> CheckError (Wrapped ''not a proper ca cert'' (Plain ''failed to get certificate block''))"
  "\<not> CheckError (Wrapped ''not a proper sign cert'' (Plain ''failed to get certificate block''))"
  "\<not> CheckError (Wrapped ''not a proper key'' (Plain ''failed to get key block''))"
  by code_simp+

lemma finds_absent:
  assumes "reliable_secrets d view" and "view w n ns = None"
  shows "finds (\<lambda>w. bind_r (sa_get (sd_api d) n ns w) f) w (Some True)"
  using reliable_get_absent [OF assms] by (auto simp: finds_def exhibits_def CheckError_def)

lemma exhibits_certs:
  assumes "parsers_return d"
  shows "exhibits (fst (wrap_err ''not a proper ca cert'' (ValidateCerts d cs, w))) (first_flaw (map (flaw d (sd_x509 d)) cs))"
proof (induction cs)
  case Nil
  show ?case by (simp add: exhibits_def)
next
  case (Cons c cs)
  have "exhibits (fst (wrap_err ''not a proper ca cert'' (ValidateCert d c, w))) (flaw d (sd_x509 d) c)"
    unfolding ValidateCert_def by (rule exhibits_cert) (simp_all add: assms uncounted_errors)
  with Cons show ?case by (cases "ValidateCert d c") (auto simp: exhibits_def)
qed

lemma CheckCACerts_finds:
  assumes "reliable_secrets d view" and "parsers_return d"
  shows "finds (CheckCACerts d i prefix) w (flaw_of_CACerts d (view w (prefix @ ''-cacerts'') (xi_Namespace i)))"
proof (cases "view w (prefix @ ''-cacerts'') (xi_Namespace i)")
  case None
  show ?thesis unfolding None flaw_of_CACerts_def option.case CheckCACerts_def [abs_def]
    by (rule finds_absent [OF assms(1), OF None])
next
  case (Some m)
  from reliable_get_there [OF assms(1), OF Some] obtain x where
    x: "sa_get (sd_api d) (prefix @ ''-cacerts'') (xi_Namespace i) w = (Ok x, w)" "sdata x = m" by blast
  let ?r = "wrap_err ''not a proper ca cert'' (ValidateCerts d (secret_values (sd_api d) m), w)"
  have "snd ?r = w" by (simp add: wrap_err_def split: go_result.split)
  with exhibits_certs [OF assms(2), of "secret_values (sd_api d) m" w] x Some show ?thesis
    by (cases ?r) (simp add: finds_def flaw_of_CACerts_def CheckCACerts_def exhibits_def uncounted_errors)
qed

lemma entry_finds:
  assumes "reliable_secrets d view" and "parsers_return d" and "parse = sd_x509 d \<or> parse = sd_pkcs8 d"
    and "\<not> CheckError (Wrapped m (Plain none))"
  shows "finds (\<lambda>w. bind_r (sa_get (sd_api d) n ns w) (\<lambda>x w. wrap_err m
      (case sd_pem d (entry_of (sdata x) k) of None \<Rightarrow> Fail (Plain none)
       | Some block \<Rightarrow> fst (wrap_err ''not valid'' (parse block, ())), w))) w
    (flaw_of_entry d parse k (view w n ns))"
proof (cases "view w n ns")
  case None
  then show ?thesis by (simp add: flaw_of_entry_def finds_absent [OF assms(1), OF None])
next
  case (Some mp)
  from reliable_get_there [OF assms(1), OF Some] obtain x where x: "sa_get (sd_api d) n ns w = (Ok x, w)" "sdata x = mp" by blast
  let ?r = "wrap_err m (case sd_pem d (entry_of mp k) of None \<Rightarrow> Fail (Plain none)
     | Some block \<Rightarrow> fst (wrap_err ''not valid'' (parse block, ())), w)"
  have "snd ?r = w" by (simp add: wrap_err_def split: go_result.split)
  moreover have "exhibits (fst ?r) (flaw d parse (entry_of mp k))" by (rule exhibits_cert [OF assms(2-4)])
  ultimately show ?thesis using x Some by (cases ?r) (simp add: finds_def flaw_of_entry_def)
qed

lemma CheckCert_finds:
  assumes "reliable_secrets d view" and "parsers_return d"
  shows "finds (CheckCert d i prefix) w
    (flaw_of_entry d (sd_x509 d) ''cert.pem'' (view w (prefix @ ''-signcert'') (xi_Namespace i)))"
  unfolding CheckCert_def [abs_def] ValidateCert_def
  by (rule entry_finds [OF assms]) (simp_all add: uncounted_errors)

lemma CheckKey_finds:
  assumes "reliable_secrets d view" and "parsers_return d"
  shows "finds (CheckKey d i prefix) w
    (flaw_of_entry d (sd_pkcs8 d) ''key.pem'' (view w (prefix @ ''-keystore'') (xi_Namespace i)))"
  unfolding CheckKey_def [abs_def] ValidateKey_def
  by (rule entry_finds [OF assms]) (simp_all add: uncounted_errors)

lemma first_flaw_few:
  "first_flaw [f, g] = (if f = None then g else f)"
  "first_flaw [f, g, h] = (if f = None then if g = None then h else g else f)"
  by simp_all

lemma part_finds:
  assumes "reliable_secrets d view" and "parsers_return d" and "prefix' = prefix @ ''-'' @ xi_Name i"
  shows "finds (\<lambda>w. bind_r (CheckCACerts d i prefix' w)
      (\<lambda>_ w. if withKey then CheckCertAndKey d i prefix' w else CheckCert d i prefix' w)) w
    (part_flaw d withKey prefix i (view w))"
proof -
  have name: "prefix' @ ''-'' @ kind = crypto_secret prefix (xi_Name i) kind" for kind
    by (simp add: assms(3) crypto_secret_def)
  note parts = CheckCACerts_finds [OF assms(1,2), of i prefix' w] CheckCert_finds [OF assms(1,2), of i prefix' w]
    CheckKey_finds [OF assms(1,2), of i prefix' w]
  note parts = parts [unfolded name [of "''cacerts''", simplified] name [of "''signcert''", simplified]
    name [of "''keystore''", simplified]]
  show ?thesis
    using finds_bind [OF parts(1) parts(2)] finds_bind [OF parts(1) finds_bind [OF parts(2) parts(3)]]
    by (cases withKey) (simp_all add: part_flaw_def CheckCertAndKey_def [abs_def] Let_def first_flaw_few
        del: first_flaw.simps split del: if_split)
qed

lemma CheckEcertCrypto_finds:
  assumes "reliable_secrets d view" and "parsers_return d"
  shows "finds (CheckEcertCrypto d hsm i (xi_Name i)) w (part_flaw d (\<not> hsm) ''ecert'' i (view w))"
  using part_finds [OF assms, of "''ecert-'' @ xi_Name i" "''ecert''" i "\<not> hsm" w]
  by (cases hsm) (simp_all add: CheckEcertCrypto_def [abs_def] Let_def)

lemma CheckTLSCrypto_finds:
  assumes "reliable_secrets d view" and "parsers_return d"
  shows "finds (CheckTLSCrypto d i (xi_Name i)) w (part_flaw d True ''tls'' i (view w))"
  using part_finds [OF assms, of "''tls-'' @ xi_Name i" "''tls''" i True w] by (simp add: CheckTLSCrypto_def [abs_def])

lemma CheckClientAuthCrypto_finds:
  assumes "reliable_secrets d view" and "parsers_return d"
  shows "finds (CheckClientAuthCrypto d i (xi_Name i)) w (part_flaw d True ''clientauth'' i (view w))"
  using part_finds [OF assms, of "''clientauth-'' @ xi_Name i" "''clientauth''" i True w]
  by (simp add: CheckClientAuthCrypto_def [abs_def])

lemma counted:
  assumes "finds f w a"
  shows "if a = Some True then \<exists>e. count_error msg (f w) = (Fail e, w) else count_error msg (f w) = (Ok (), w)"
proof -
  from assms obtain r where "f w = (r, w)" "exhibits r a" unfolding finds_def by blast
  then show ?thesis by (cases r) (auto simp: count_error_def exhibits_def)
qed

lemma CheckCrypto_reliable:
  assumes "reliable_secrets d view" and "parsers_return d"
  shows "if crypto_missing d (\<not> hsm) i (view w) then \<exists>e. CheckCrypto d hsm i (ClientAuthCryptoSet i) w = (Fail e, w)
    else CheckCrypto d hsm i (ClientAuthCryptoSet i) w = (Ok (), w)"
  using counted [OF CheckEcertCrypto_finds [OF assms, of hsm i w], of "''missing ecert crypto''"]
    counted [OF CheckTLSCrypto_finds [OF assms, of i w], of "''missing TLS crypto''"]
    counted [OF CheckClientAuthCrypto_finds [OF assms, of i w], of "''missing Client Auth crypto''"]
  by (auto simp: CheckCrypto_def crypto_missing_def part_missing_def split: if_splits)

lemma MissingCrypto_reliable:
  assumes "reliable_secrets d view" and "parsers_return d"
  shows "MissingCrypto d i (hsm, w) =
    (Ok (crypto_missing d (\<not> (hsm \<or> xi_HSMEnabled i)) i (view w)), hsm \<or> xi_HSMEnabled i, w)"
  using CheckCrypto_reliable [OF assms, of "hsm \<or> xi_HSMEnabled i" i w]
  by (auto simp: MissingCrypto_def split: if_splits)

text \<open>The checks one initializer makes for the instances it serves, one after the other.\<close>

fun checks :: "'w secret_deps \<Rightarrow> init_instance list \<Rightarrow> bool \<times> 'w \<Rightarrow> bool \<times> 'w" where
  "checks d [] s = s"
| "checks d (i # is) s = checks d is (snd (MissingCrypto d i s))"

lemma checks_reliable:
  assumes "reliable_secrets d view" and "parsers_return d"
  shows "checks d is (hsm, w) = (hsm \<or> (\<exists>i \<in> set is. xi_HSMEnabled i), w)"
  by (induction "is" arbitrary: hsm) (auto simp: MissingCrypto_reliable [OF assms])


text \<open>C33: The flag the check of one instance sets is not reset for the next.  For an instance without HSM that lacks
  only the key of its enrollment certificate, the initializer says its crypto is missing as long as it was asked
  about instances without HSM alone; once it was asked about one with a HSM it says, for good, that nothing is
  missing.
\<close>

theorem hsm_instance_hides_missing_keys:
  assumes "reliable_secrets d view" and "parsers_return d"
    and "\<not> xi_HSMEnabled j"
    and "part_flaw d False ''ecert'' j (view w) = None"
    and "view w (''ecert-'' @ xi_Name j @ ''-keystore'') (xi_Namespace j) = None"
    and "\<not> part_missing d True ''tls'' j (view w)"
    and "\<not> ClientAuthCryptoSet j \<or> \<not> part_missing d True ''clientauth'' j (view w)"
  shows "fst (MissingCrypto d j (checks d is (False, w))) = Ok (\<not> (\<exists>i \<in> set is. xi_HSMEnabled i))"
proof -
  have key: "view w (crypto_secret ''ecert'' (xi_Name j) ''keystore'') (xi_Namespace j) = None"
    using assms(5) by (simp add: crypto_secret_def)
  from assms(4) have "part_missing d withKey ''ecert'' j (view w) = withKey" for withKey
    by (auto simp: part_missing_def part_flaw_def Let_def key flaw_of_entry_def split: if_splits)
  with assms(3,6,7) show ?thesis
    by (simp add: checks_reliable [OF assms(1,2)] MissingCrypto_reliable [OF assms(1,2)] crypto_missing_def) blast
qed

subsection \<open>Administrators' certificates\<close>

lemma some_cert_missing_decoded:
  "ConvertCertsToBytes updated = Ok certs \<Longrightarrow> some_cert_missing current updated = Ok (\<not> set certs \<subseteq> set current)"
  unfolding ConvertCertsToBytes_def
proof (induction updated arbitrary: certs)
  case Nil
  then show ?case by simp
next
  case (Cons c updated)
  then show ?case by (auto elim!: seq_r_OkE)
qed

text \<open>
  What the comparison looks at: the number of certificates and whether each one specified is stored; a specification
  without certificates never differs, and neither does one that repeats a certificate in place of another.
\<close>

lemma certs_compared:
  assumes "ConvertCertsToBytes updated = Ok certs"
  shows "CheckIfCertsDifferent current updated =
    Ok (certs \<noteq> [] \<and> (length current \<noteq> length certs \<or> \<not> set certs \<subseteq> set (map snd current)))"
proof -
  have "length certs = length updated" using assms unfolding ConvertCertsToBytes_def
    by (induction updated arbitrary: certs) (auto elim!: seq_r_OkE)
  with some_cert_missing_decoded [OF assms, of "map snd current"] show ?thesis
    by (auto simp: CheckIfCertsDifferent_def)
qed

lemma distinct_certs_compared:
  assumes "ConvertCertsToBytes updated = Ok certs" and "certs \<noteq> []" and "distinct certs"
  shows "CheckIfCertsDifferent current updated = Ok (mset certs \<noteq> mset (map snd current))"
proof -
  have "mset certs = mset (map snd current)" if "length current = length certs" "set certs \<subseteq> set (map snd current)"
    using that assms(3) by (metis card_distinct card_length card_subset_eq card_mono distinct_card length_map
        List.finite_set order_antisym set_eq_iff_mset_eq_distinct)
  moreover have "length current = length certs \<and> set certs \<subseteq> set (map snd current)" if "mset certs = mset (map snd current)"
    using mset_eq_length [OF that] mset_eq_setD [OF that] by simp
  ultimately have "certs \<noteq> [] \<and> (length current \<noteq> length certs \<or> \<not> set certs \<subseteq> set (map snd current)) \<longleftrightarrow>
      mset certs \<noteq> mset (map snd current)" using assms(2) by blast
  then show ?thesis unfolding certs_compared [OF assms(1)] by (simp only:)
qed

lemma CheckIfAdminCertsUpdated_reliable:
  assumes "reliable_secrets d view"
  shows "CheckIfAdminCertsUpdated d i w =
    (CheckIfCertsDifferent (sdata (view w (crypto_secret ''ecert'' (xi_Name i) ''admincerts'') (xi_Namespace i)))
       (GetAdminCertsFromSpec (xi_Secret i)), w)"
proof (cases "view w (crypto_secret ''ecert'' (xi_Name i) ''admincerts'') (xi_Namespace i)")
  case None
  with reliable_get_absent [OF assms, OF None] show ?thesis
    by (auto simp: CheckIfAdminCertsUpdated_def GetAdminCertsFromSecret_def sdata_def)
next
  case (Some m)
  from reliable_get_there [OF assms, OF Some] obtain x where
    "sa_get (sd_api d) (crypto_secret ''ecert'' (xi_Name i) ''admincerts'') (xi_Namespace i) w = (Ok x, w)" "sdata x = m"
    by blast
  with Some show ?thesis by (simp add: CheckIfAdminCertsUpdated_def GetAdminCertsFromSecret_def sdata_def)
qed

lemma length_filter_empty: "length (filter (\<lambda>c. c \<noteq> []) cs) \<noteq> length cs \<longleftrightarrow> [] \<in> set cs"
proof
  assume "[] \<in> set cs"
  then have "length (filter (\<lambda>c. c \<noteq> []) cs) < length cs" by (rule length_filter_less) simp
  then show "length (filter (\<lambda>c. c \<noteq> []) cs) \<noteq> length cs" by simp
next
  assume differ: "length (filter (\<lambda>c. c \<noteq> []) cs) \<noteq> length cs"
  show "[] \<in> set cs"
  proof (rule ccontr)
    assume "[] \<notin> set cs"
    then have "filter (\<lambda>c. c \<noteq> []) cs = cs" by (auto simp: filter_id_conv)
    with differ show False by simp
  qed
qed


subsection \<open>An update of the MSP section\<close>

text \<open>A part of the section that is absent, or valid and parsed.\<close>

definition parsed_part :: "msp_crypto option \<Rightarrow> msp_material option \<Rightarrow> bool" where
  "parsed_part x c \<longleftrightarrow>
     (case x of None \<Rightarrow> c = None | Some m \<Rightarrow> msp_Validate m = Ok () \<and> (\<exists>k. msp_Parse m = Ok k \<and> c = Some k))"

lemma generate_parsed:
  "parsed_part x c \<Longrightarrow> generate_part p (map_option MSPParser x) w = (Ok c, w)"
  by (auto simp: parsed_part_def generate_part_def config_GenerateCrypto_def generator_PingCA_def generator_Validate_def
      generator_GetCrypto_def split: option.splits)

lemma common_GetMSPCrypto_parsers:
  "common_GetMSPCrypto no_cryptos (Some m) =
     \<lparr>y_Enrollment = map_option MSPParser (ms_Component m), y_TLS = map_option MSPParser (ms_TLS m),
      y_ClientAuth = map_option MSPParser (ms_ClientAuth m)\<rparr>"
  by (cases "ms_Component m"; cases "ms_TLS m"; cases "ms_ClientAuth m")
    (simp_all add: common_GetMSPCrypto_def no_cryptos_def Let_def)

text \<open>Both offerings generate the same response; what they do with it differs.\<close>

lemma msp_update_response:
  assumes "xi_Secret i = Some s" and "cs_MSP s = Some m"
    and "parsed_part (ms_Component m) e" and "parsed_part (ms_TLS m) t" and "parsed_part (ms_ClientAuth m) a"
  shows "peer_msp_update v i w =
      sm_UpdateSecretsFromResponse (vc_secrets v) i (Some \<lparr>mr_Enrollment = e, mr_TLS = t, mr_ClientAuth = a\<rparr>) w"
    and "node_msp_update v i w =
      bind_r (wrap_err ''failed to update ecert secrets'' (init_UpdateSecrets (vc_secrets v) ''ecert'' i e w)) (\<lambda>_ w.
      bind_r (wrap_err ''failed to update tls secrets'' (init_UpdateSecrets (vc_secrets v) ''tls'' i t w)) (\<lambda>_ w.
      wrap_err ''failed to update client auth secrets'' (init_UpdateSecrets (vc_secrets v) ''clientauth'' i a w)))"
  using assms(1,2) generate_parsed [OF assms(3), of "vc_pki v" w] generate_parsed [OF assms(4), of "vc_pki v" w]
    generate_parsed [OF assms(5), of "vc_pki v" w]
  by (simp_all add: peer_msp_update_def node_msp_update_def GetUpdatedPeer_def GetUpdatedOrderer_def peer_GetMSPCrypto_def
      node_GetMSPCrypto_def object_GenerateCrypto_def object_of_def GenerateCryptoResponse_def common_GetMSPCrypto_parsers)

lemma writes_init_UpdateSecrets:
  assumes "reliable_secrets d view"
  shows "writes view (init_UpdateSecrets d prefix i c)
    (case c of None \<Rightarrow> (\<lambda>V. V) | Some c \<Rightarrow> written_material prefix i c)"
  using writes_material [OF assms] writes_none
  by (cases c) (simp_all add: init_UpdateSecrets_def [abs_def] sm_UpdateSecrets_def)

lemma sm_UpdateSecrets_outcome:
  assumes "reliable_secrets d view"
  shows "\<exists>w'. sm_UpdateSecrets d prefix i c w =
    (if c = None then Panic ''nil pointer dereference'' else Ok (), w')"
  using writes_material [OF assms, of prefix i "the c"] by (cases c) (auto simp: sm_UpdateSecrets_def writes_def)

text \<open>C35: When the MSP section of a specification was updated, the ordering node writes the parts that are given and is
  done.  The peer, given the same section and a cluster in which every call succeeds, panics unless all three parts
  are given: \<open>UpdateSecretsFromResponse\<close> hands the absent part, a nil pointer, to \<open>UpdateSecrets\<close>, which has no guard.
\<close>

theorem peer_update_needs_every_part:
  assumes "reliable_secrets (vc_secrets v) view"
    and "xi_Secret i = Some s" and "cs_MSP s = Some m"
    and "parsed_part (ms_Component m) e" and "parsed_part (ms_TLS m) t" and "parsed_part (ms_ClientAuth m) a"
  shows "fst (node_msp_update v i w) = Ok () \<and>
    fst (peer_msp_update v i w) = (if None \<in> {e, t, a} then Panic ''nil pointer dereference'' else Ok ())"
proof
  note update = msp_update_response [OF assms(2-6)]
  note node = writes_bind [OF writes_wrap [OF writes_init_UpdateSecrets [OF assms(1)]] writes_bind [OF
    writes_wrap [OF writes_init_UpdateSecrets [OF assms(1)]] writes_wrap [OF writes_init_UpdateSecrets [OF assms(1)]]]]
  show "fst (node_msp_update v i w) = Ok ()"
    using node [of "''failed to update ecert secrets''" "''ecert''" i e "''failed to update tls secrets''" "''tls''" i t
      "''failed to update client auth secrets''" "''clientauth''" i a]
    unfolding update(2) writes_def by (metis fst_conv)
  note one = sm_UpdateSecrets_outcome [OF assms(1)]
  obtain w1 where 1: "sm_UpdateSecrets (vc_secrets v) ''ecert'' i e w =
    (if e = None then Panic ''nil pointer dereference'' else Ok (), w1)" using one by blast
  obtain w2 where 2: "sm_UpdateSecrets (vc_secrets v) ''tls'' i t w1 =
    (if t = None then Panic ''nil pointer dereference'' else Ok (), w2)" using one by blast
  obtain w3 where 3: "sm_UpdateSecrets (vc_secrets v) ''clientauth'' i a w2 =
    (if a = None then Panic ''nil pointer dereference'' else Ok (), w3)" using one by blast
  show "fst (peer_msp_update v i w) = (if None \<in> {e, t, a} then Panic ''nil pointer dereference'' else Ok ())"
    unfolding update(1) using 1 2 3
    by (cases e; cases t; cases a) (simp_all add: sm_UpdateSecretsFromResponse_def for_response_def)
qed

subsection \<open>Examples\<close>

text \<open>A cluster that is its secrets; a text has a block when it begins with a dash, and a block that begins with a
  question mark does not parse.\<close>

definition sample_api :: "secret_view secret_api" where
  "sample_api =
     \<lparr>sa_get = (\<lambda>n ns w. (case w n ns of Some m \<Rightarrow> Ok (Some m) | None \<Rightarrow> Fail (NotFound (n @ '' not found'')), w)),
      sa_create = (\<lambda>n ns l m w. (Ok (), put_secret n ns m w)),
      sa_update = (\<lambda>n ns m w. (Ok (), put_secret n ns (sdata m) w)),
      sa_order = map fst\<rparr>"

definition sample_parse :: "string \<Rightarrow> unit go_result" where
  "sample_parse b = (if has_prefix b ''?'' then Fail (Plain ''malformed'') else Ok ())"

definition sample_store :: "secret_view secret_deps" where
  "sample_store =
     \<lparr>sd_api = sample_api, sd_put = (\<lambda>n ns l m w. (Ok (), put_secret n ns m w)),
      sd_delete = (\<lambda>n ns w. (Ok (), w(n := (w n)(ns := None)))), sd_labels = (\<lambda>n. [(''app'', n)]),
      sd_pem = (\<lambda>t. if has_prefix t ''-'' then Some (tl t) else None), sd_x509 = sample_parse, sd_pkcs8 = sample_parse,
      sd_cm_get = (\<lambda>n ns w. (Fail (NotFound (n @ '' not found'')), w)), sd_cm_put = (\<lambda>n ns l m w. (Ok (), w)),
      sd_cm_delete = (\<lambda>n ns w. (Ok (), w))\<rparr>"

lemma sample_store_reliable: "reliable_secrets sample_store (\<lambda>w. w)"
proof -
  have "str_contains (n @ '' not found'') ''not found''" for n :: string
  proof (rule str_contains_append)
    show "str_contains '' not found'' ''not found''" by code_simp
  qed
  then show ?thesis
    by (auto simp: reliable_secrets_def sample_store_def sample_api_def sdata_def simp flip: mset_map)
qed

lemma sample_parsers_return: "parsers_return sample_store"
  by (simp add: parsers_return_def sample_store_def sample_parse_def)

definition sample_material :: msp_material where
  "sample_material = \<lparr>mt_CACerts = [''-ca'', '''', ''-ca2''], mt_IntermediateCerts = [], mt_AdminCerts = [''-admin''],
     mt_SignCert = Some ''-cert'', mt_Keystore = None\<rparr>"

definition sample_instance :: "string \<Rightarrow> bool \<Rightarrow> crypto_source option \<Rightarrow> init_instance" where
  "sample_instance name hsm s = \<lparr>xi_Name = name, xi_Namespace = ''ns'', xi_FabricVersion = ''2.5.3'', xi_HSMEnabled = hsm,
     xi_UsingHSMProxy = False, xi_NodeOUDisabled = False, xi_Secret = s\<rparr>"

theorem generated_crypto_is_read_back_witness:
  "\<exists>w'. sm_GenerateSecrets sample_store ''ecert'' (sample_instance ''peer1'' False None) (Some sample_material)
      (\<lambda>n ns. None) = (Ok (), w') \<and>
    (\<exists>old new. GetCryptoFromSecrets sample_store ''ecert'' (sample_instance ''peer1'' False None) (\<lambda>n ns. None)
         = (Ok old, \<lambda>n ns. None) \<and>
       GetCryptoFromSecrets sample_store ''ecert'' (sample_instance ''peer1'' False None) w' = (Ok new, w') \<and>
       same_material new (renewed (with_admins ''ecert'' (mt_AdminCerts sample_material) old) sample_material))"
  by (rule generated_crypto_is_read_back [OF sample_store_reliable])

text \<open>A peer that lacks the key of its enrollment certificate only.\<close>

definition keyless_view :: secret_view where
  "keyless_view n ns =
     (if ns \<noteq> ''ns'' then None
      else map_of [(''ecert-peer1-cacerts'', [(''cacert-0.pem'', ''-ca'')]), (''ecert-peer1-signcert'', [(''cert.pem'', ''-c'')]),
        (''tls-peer1-cacerts'', [(''cacert-0.pem'', ''-ca'')]), (''tls-peer1-signcert'', [(''cert.pem'', ''-c'')]),
        (''tls-peer1-keystore'', [(''key.pem'', ''-k'')])] n)"


theorem hsm_instance_hides_missing_keys_witness:
  "fst (MissingCrypto sample_store (sample_instance ''peer1'' False None)
     (checks sample_store [sample_instance ''peer2'' False None] (False, keyless_view))) = Ok True \<and>
   fst (MissingCrypto sample_store (sample_instance ''peer1'' False None)
     (checks sample_store [sample_instance ''peer2'' True None] (False, keyless_view))) = Ok False"
proof -
  let ?j = "sample_instance ''peer1'' False None"
  have j: "\<not> xi_HSMEnabled ?j" "part_flaw sample_store False ''ecert'' ?j keyless_view = None"
    "keyless_view (''ecert-'' @ xi_Name ?j @ ''-keystore'') (xi_Namespace ?j) = None"
    "\<not> part_missing sample_store True ''tls'' ?j keyless_view"
    "\<not> ClientAuthCryptoSet ?j \<or> \<not> part_missing sample_store True ''clientauth'' ?j keyless_view"
    by code_simp+
  from hsm_instance_hides_missing_keys [OF sample_store_reliable sample_parsers_return j, of "[sample_instance ''peer2'' False None]"]
    hsm_instance_hides_missing_keys [OF sample_store_reliable sample_parsers_return j, of "[sample_instance ''peer2'' True None]"]
  show ?thesis by (simp add: sample_instance_def)
qed

text \<open>Specifications: two administrators, and an MSP section without client authentication.\<close>

definition sample_msp :: msp_crypto where
  "sample_msp = \<lparr>m_SignCerts = ''QQ=='', m_KeyStore = ''Qg=='', m_CACerts = [''Qw==''], m_IntermediateCerts = [],
     m_AdminCerts = [''QQ=='', ''Qg=='']\<rparr>"

definition sample_source :: "msp_crypto option \<Rightarrow> crypto_source" where
  "sample_source clientauth = \<lparr>cs_MSP = Some \<lparr>ms_Component = Some sample_msp, ms_TLS = Some sample_msp,
     ms_ClientAuth = clientauth\<rparr>, cs_Enrollment = None\<rparr>"


definition sample_pki :: "secret_view pki" where
  "sample_pki = \<lparr>pl_lib = \<lparr>cl_pem = (\<lambda>t. None), cl_pkcs8 = (\<lambda>b. True), cl_stat = (\<lambda>f w. (True, w)),
       cl_read = (\<lambda>f w. (Ok '''', w)), cl_read_dir = (\<lambda>dir w. (Ok [], w)), cl_is_exist = (\<lambda>e. False),
       cl_mkdir = (\<lambda>dir w. (Ok (), w)), cl_write = (\<lambda>f b w. (Ok (), w))\<rparr>,
     pl_blocks = (\<lambda>t. []), pl_x509 = (\<lambda>b. Fail (Plain ''malformed'')), pl_encode = (\<lambda>b. b), pl_init = (\<lambda>e w. (Ok (), w)),
     pl_enroll = (\<lambda>e h w. (Ok ('''', None), w)), pl_hsm_enroll = (\<lambda>e w. (Fail (Plain ''no HSM''), w)),
     pl_request = (\<lambda>u. Ok ()), pl_http = (\<lambda>e u w. (Ok 200, w)), pl_hsm_daemon = (\<lambda>n w. (Ok False, w))\<rparr>"

definition sample_collab :: "(unit, secret_view) init_collab" where
  "sample_collab = \<lparr>vc_merge = (\<lambda>c n p. Ok c), vc_bytes = (\<lambda>c. Ok ''''), vc_addresses = (\<lambda>c. []),
     vc_read_file = (\<lambda>v f w. (Ok (), w)), vc_read_bytes = (\<lambda>v b. Ok ()), vc_NodeOU_off = Ok, vc_pki = sample_pki,
     vc_secrets = sample_store, vc_remove_all = (\<lambda>p w. (Ok (), w)), vc_OUFile = '''', vc_InterOUFile = ''''\<rparr>"

theorem peer_update_needs_every_part_witness:
  "fst (node_msp_update sample_collab (sample_instance ''peer1'' False (Some (sample_source None))) keyless_view) = Ok () \<and>
   fst (peer_msp_update sample_collab (sample_instance ''peer1'' False (Some (sample_source None))) keyless_view)
     = Panic ''nil pointer dereference''"
proof -
  let ?i = "sample_instance ''peer1'' False (Some (sample_source None))"
  obtain k where "msp_Parse sample_msp = Ok k" "msp_Validate sample_msp = Ok ()"
  proof
    show "msp_Parse sample_msp = Ok \<lparr>mt_CACerts = [''C''], mt_IntermediateCerts = [], mt_AdminCerts = [''A'', ''B''],
      mt_SignCert = Some ''A'', mt_Keystore = Some ''B''\<rparr>" by code_simp
    show "msp_Validate sample_msp = Ok ()" by code_simp
  qed
  then have k: "parsed_part (Some sample_msp) (Some k)" by (simp add: parsed_part_def)
  have "reliable_secrets (vc_secrets sample_collab) (\<lambda>w. w)" "xi_Secret ?i = Some (sample_source None)"
    "cs_MSP (sample_source None) = Some \<lparr>ms_Component = Some sample_msp, ms_TLS = Some sample_msp, ms_ClientAuth = None\<rparr>"
    by (simp_all add: sample_collab_def sample_store_reliable sample_instance_def sample_source_def)
  from peer_update_needs_every_part [OF this, of "Some k" "Some k" None keyless_view] k show ?thesis
    by (simp add: parsed_part_def)
qed

end
