(* ===== verification/Spec2Isabelle.thy ===== *)
theory Spec2Isabelle
  imports ManagerProps PeerProps OrdererProps CAProps ConsoleProps FabricVersionProps
    ClientProps PeerOfferingProps CertificatesProps OrdererNodeProps GenesisProps
    CAOfferingProps MSPCryptoProps
begin

text \<open>
  A verification library for fabric-operator, the Kubernetes operator that runs Hyperledger Fabric
  components.

  \<^bold>\<open>The program.\<close>  A custom resource describes a peer, an ordering node, a CA or a console.  Four
  controllers (\<open>controllers/ibppeer\<close>, \<open>ibporderer\<close>, \<open>ibpca\<close>, \<open>ibpconsole\<close>) watch these resources; the
  handlers of their events compute what changed and push it onto a stack of updates per instance, and
  \<open>Reconcile\<close> pops an update and hands the instance to its offering (\<open>pkg/offering\<close>), which checks the
  specification, creates crypto material and configuration, brings the Kubernetes objects about, and runs
  the actions the user asked for.  An offering does not restart pods: it leaves a request with the restart
  manager (\<open>pkg/restart\<close>), which hands due requests to the stagger restart service, and that restarts the
  nodes of an organization one after the other, over many rounds of its own.  Certificates are watched by
  timers which renew them before they expire (\<open>pkg/certificate\<close>), after the old ones have been backed up
  (\<open>pkg/offering/common\<close>).  An ordering service is a parent resource whose offering creates one node resource
  per member and, once every node has its certificates, the genesis block from the channel configuration
  (\<open>pkg/initializer/orderer/configtx\<close>), which it hands to the nodes in secrets; each node then has an
  offering of its own.  A CA is two servers, the CA and its TLS CA: their configuration is made from a
  default and the overrides of the specification, their keys and certificates are collected from it, and
  Fabric CA is initialized with them in the operator or, where keys live in a HSM, by a job
  (\<open>pkg/initializer/ca\<close>).  Peers and ordering nodes have initializers, too (\<open>pkg/initializer/peer\<close>,
  \<open>pkg/initializer/orderer\<close>): their crypto material is parsed from the specification or asked of a CA, written
  to secrets by a secret manager, and a validator looks whether it is there (\<open>pkg/initializer/common\<close>,
  \<open>pkg/initializer/validator\<close>).

  \<^bold>\<open>How it is modelled.\<close>  An operation is a function from its arguments and the state of the outside world
  to a result and a new world.  A result is \<open>Ok\<close> a value, \<open>Fail\<close> an error or \<open>Panic\<close>, a run-time error of
  Go.  What is not code of the repository, or is an interface to the modelled code, is a record of functions
  over an arbitrary world that the operations take as an argument: \<open>env\<close> (cluster of the restart
  services), \<open>kube\<close> (client of the controllers), \<open>k8s_client\<close> (the client that \<open>controllerclient\<close> wraps),
  \<open>offering_deps\<close> (collaborators every offering has), \<open>deps\<close> and \<open>init_deps\<close> (those of the peer offering),
  \<open>node_deps\<close> and \<open>cluster_deps\<close> (those of an ordering node and of an ordering service), \<open>ca_deps\<close>,
  \<open>ca_init_deps\<close>, \<open>ca_store\<close>, \<open>ca_lib\<close> and \<open>job_api\<close> (those of a CA, its initialization and its jobs), \<open>odeps\<close> (those of
  the orderer controller), \<open>secret_api\<close>, \<open>backup_api\<close>, \<open>cert_deps\<close>, \<open>pki\<close>,
  \<open>secret_deps\<close> and \<open>init_collab\<close> (certificates and CAs, the secret manager and validator, and configuration as the
  initializers of peers and nodes see them); \<open>configtx_lib\<close> is Fabric's library of
  channel configurations.
  What a theorem needs of them is a hypothesis of the theorem, and its witness instantiates them with
  concrete functions.  Go maps are association lists, and the order in which a loop visits a map is a
  parameter; integers are \<open>int\<close>, with wrap-around and saturation written out for durations.

  \<^bold>\<open>Theories and sources.\<close>
  \<^item> \<open>Prelude\<close>, \<open>Errors\<close>, \<open>Cluster\<close>: packages \<open>strings\<close> and \<open>strconv\<close>; error values and \<open>pkg/operatorerrors\<close>;
    maps, times, the cluster.
  \<^item> \<open>Version\<close>: \<open>version/version.go\<close>, \<open>version/fabricversion.go\<close>.
  \<^item> \<open>ConfigMaps\<close>: \<open>pkg/restart/configmap\<close> and the JSON documents of the restart services.
  \<^item> \<open>RestartQueue\<close>, \<open>RestartMerge\<close>, \<open>RestartService\<close>, \<open>RestartFacts\<close>, \<open>RestartProps\<close>: \<open>pkg/restart/staggerrestarts\<close>.
  \<^item> \<open>RestartStore\<close>, \<open>RestartManager\<close>, \<open>ManagerProps\<close>: \<open>pkg/restart/restart.go\<close>.
  \<^item> \<open>Kube\<close>, \<open>UpdateStack\<close>: what the controllers share, \<open>controllers/common\<close>; the locale of update stacks.
  \<^item> \<open>PeerUpdate\<close>, \<open>PeerController\<close>, \<open>PeerProps\<close>; \<open>OrdererUpdate\<close>, \<open>OrdererController\<close>, \<open>OrdererProps\<close>; \<open>CAUpdate\<close>,
    \<open>CAController\<close>, \<open>CAProps\<close>; \<open>Console\<close>, \<open>ConsoleProps\<close>: \<open>predicate.go\<close> and \<open>*_controller.go\<close> of the controllers.
  \<^item> \<open>Images\<close>, \<open>FabricVersions\<close>, \<open>FabricVersionProps\<close>: \<open>pkg/offering/common/reconcilechecks\<close>, with the tables of
    \<open>pkg/apis/deployer\<close> and \<open>operatorconfig\<close>.
  \<^item> \<open>Client\<close>, \<open>ClientProps\<close>: \<open>pkg/k8s/controllerclient\<close>.
  \<^item> \<open>Offering\<close>: what the offerings repeat (state, collaborators, zones, timers, choice of the ingress API).
  \<^item> \<open>PeerOffering\<close>, \<open>PeerReconcile\<close>, \<open>PeerTimers\<close>, \<open>PeerActions\<close>, \<open>PeerChecks\<close>, \<open>PeerSample\<close>, \<open>PeerOfferingProps\<close>:
    \<open>pkg/offering/base/peer/peer.go\<close> and \<open>pkg/offering/k8s/peer/peer.go\<close>.
  \<^item> \<open>ConfigTx\<close>: \<open>pkg/initializer/orderer/configtx\<close>; \<open>Base64\<close>: \<open>Base64ToBytes\<close> of \<open>pkg/util/util.go\<close>;
    \<open>OrdererConfig\<close>: \<open>pkg/initializer/orderer/config\<close>, the configuration files of the orderer versions.
  \<^item> \<open>OrdererNode\<close>, \<open>OrdererNodeReconcile\<close>, \<open>OrdererNodeRound\<close>, \<open>OrdererNodeTimers\<close>, \<open>OrdererNodeProps\<close>:
    \<open>node.go\<close> of \<open>pkg/offering/base/orderer\<close> and \<open>pkg/offering/k8s/orderer\<close>.
  \<^item> \<open>OrdererCluster\<close>, \<open>OrdererClusterSample\<close>, \<open>OrdererClusterProps\<close>, \<open>GenesisProps\<close>: \<open>orderer.go\<close> of the same
    packages, and the genesis block it makes.
  \<^item> \<open>Jobs\<close>: \<open>pkg/manager/resources/job/job.go\<close>; \<open>CAConfig\<close>: \<open>pkg/initializer/ca/config\<close> with the configuration of
    \<open>pkg/apis/ca/v1\<close>; \<open>CAInitializer\<close>: the other files of \<open>pkg/initializer/ca\<close> and \<open>api/v1beta1/ibpca.go\<close>.
  \<^item> \<open>CAInit\<close>: \<open>pkg/offering/base/ca/initialize.go\<close>; \<open>CAOffering\<close>, \<open>CAReconcile\<close>, \<open>CASample\<close>, \<open>CAOfferingProps\<close>: \<open>ca.go\<close>
    of \<open>pkg/offering/base/ca\<close> and \<open>pkg/offering/k8s/ca\<close>.
  \<^item> \<open>Secrets\<close>, \<open>CryptoBackup\<close>, \<open>CryptoBackupProps\<close>: \<open>pkg/offering/common/secret.go\<close>, \<open>backupcrypto.go\<close>.
  \<^item> \<open>Certificates\<close>, \<open>CertificatesProps\<close>: \<open>pkg/certificate/certificate.go\<close>.
  \<^item> \<open>MSPCrypto\<close>: \<open>config/crypto.go\<close>, \<open>mspparser\<close> and \<open>enroller\<close> of \<open>pkg/initializer/common\<close>; \<open>SecretManager\<close>: \<open>secretmanager\<close>
    and \<open>common.go\<close> of the same package, and \<open>pkg/initializer/validator\<close>; \<open>MSPInitializer\<close>: \<open>pkg/initializer/peer\<close> and
    \<open>pkg/initializer/orderer\<close>; \<open>MSPCryptoProps\<close>: what holds of the three.

  \<^bold>\<open>What is shown.\<close>  For the restart services: one restart at a time per organization, what a round does
  to the front of every queue, that merging requests is sound, that a due request is queued and one that
  is too early is not, that no operation panics.  For the controllers: which update an event pushes, that
  updates are popped in order, which migrations start, what the status becomes, what a deletion takes
  along.  For the checks: which version and images they settle on and what they leave to the user.  For
  the client: what its resilient patches do and when they report a lost write as a success.  For the peer
  offering: one running renewal per certificate, which flags of actions survive a round, that the checks
  settle, how errors of the initialization end.  For ordering services: which nodes a specification
  creates, that a round makes one block and which secrets it leaves, that the block names every node with
  its address and certificates, that every policy another policy refers to exists, which status the
  parent takes from its nodes, what migrations and the HSM proxy do to a node.  For CAs: generated crypto
  reaches the secret unchanged, what an update of overrides keeps and when it cannot succeed, that both
  servers are given one database and where it lies, when a job and a parent CA count as there although
  they are not.  For certificates: the
  backup secret is a ring of the last ten copies, the renewal fires exactly when the warning starts, what
  a failed renewal leaves behind.  For the crypto of peers and ordering nodes: what is written to the secrets
  is read back, exactly when crypto counts as missing and how a HSM elsewhere changes that, when an update of
  administrators' certificates settles, and that an update of the MSP section succeeds for a node where it
  panics for a peer.

  \<^bold>\<open>Bounds.\<close>  Loops over lists and maps are structural.  Polling loops take the number of polls the code
  allows as a number (\<open>d_tries\<close>, \<open>cl_polls\<close>, \<open>ja_active_polls\<close>, \<open>ja_finished_polls\<close>, the retries of a patch), and the theorems hold for every
  such number. Numbers parsed from text are those that fit 64 bits; periods are at most 292 years, the
  largest duration.

  \<^bold>\<open>Not modelled.\<close>  The reenrollers and the enrollers with a HSM (network, jobs and pods), the configuration
  structs of peers (a parameter where they are merged and written), the pods of HSM jobs, the resource managers
  and overrides (assembly of manifests), the offering of the console (a row of such managers), the OpenShift
  variants, generated deep copies and process start-up.  Logging is left out everywhere.
\<close>

end
